(* ===== verification/Prelude.thy ===== *)
theory Prelude
  imports Main "HOL-Library.State_Monad" "HOL-Library.List_Lexorder" "HOL-Library.Char_ord"
begin

text \<open>
  What every theory of the development shares: the collections of facts that carry the
  proofs, lemmas on sorted lists without repeats and on rows of a table found by their key,
  and the relational reasoning about programs of the state monad of HOL-Library: a program
  moves along a relation when every run of it relates its start state to its end state.
  The locale below proves the rules once for every reflexive and transitive relation.
\<close>

named_theorems go_simps \<open>unfolding rules of the modelled Go string and path functions\<close>
named_theorems moves_rules \<open>rules that show a stateful program moves along a relation\<close>

section \<open>Lists\<close>

text \<open>Go's \<open>slices.Compact\<close>: adjacent repeats collapse to one.\<close>

fun compact :: "'a list \<Rightarrow> 'a list" where
  "compact [] = []"
| "compact [x] = [x]"
| "compact (x # y # zs) = (if x = y then compact (y # zs) else x # compact (y # zs))"

lemma set_compact [simp]: "set (compact xs) = set xs"
  by (induction xs rule: compact.induct) auto

lemma compact_Nil_iff [simp]: "compact xs = [] \<longleftrightarrow> xs = []"
  by (induction xs rule: compact.induct) auto

lemma sorted_compact:
  fixes xs :: "'a::linorder list"
  shows "sorted xs \<Longrightarrow> sorted (compact xs)"
  by (induction xs rule: compact.induct) auto

abbreviation ascending :: "'a::linorder list \<Rightarrow> bool" where
  "ascending \<equiv> sorted_wrt (<)"

lemma ascending_compact:
  fixes xs :: "'a::linorder list"
  shows "sorted xs \<Longrightarrow> ascending (compact xs)"
proof (induction xs rule: compact.induct)
  case (3 x y zs)
  show ?case
  proof (cases "x = y")
    case True
    with 3 show ?thesis by simp
  next
    case False
    with 3 have "ascending (compact (y # zs))" by simp
    moreover have "\<forall>z \<in> set (y # zs). x < z"
      using 3(3) False by (auto simp: order_less_le)
    ultimately show ?thesis using False by (auto simp: sorted_wrt.simps)
  qed
qed auto

text \<open>\<open>sort.Strings\<close> followed by \<open>slices.Compact\<close>.\<close>

definition sort_unique :: "'a::linorder list \<Rightarrow> 'a list" where
  "sort_unique xs = compact (sort xs)"

lemma set_sort_unique [simp]: "set (sort_unique xs) = set xs"
  by (simp add: sort_unique_def)

lemma ascending_sort_unique [simp]: "ascending (sort_unique xs)"
  by (simp add: sort_unique_def ascending_compact)

lemma sort_unique_Nil [simp]: "sort_unique [] = []"
  by (simp add: sort_unique_def)

lemma sort_unique_Nil_iff [simp]: "sort_unique xs = [] \<longleftrightarrow> xs = []"
  by (metis list.set(1) set_empty set_sort_unique)

lemma ascending_equal_iff:
  fixes xs ys :: "'a::linorder list"
  assumes "ascending xs" "ascending ys"
  shows "xs = ys \<longleftrightarrow> set xs = set ys"
  using assms by (metis strict_sorted_equal)

lemma sort_unique_cong: "set xs = set ys \<Longrightarrow> sort_unique xs = sort_unique ys"
  by (simp add: ascending_equal_iff)

section \<open>Rows of a table\<close>

text \<open>
  A table is the list of its rows. \<open>UPDATE ... WHERE\<close> maps over the rows, and a row is
  read by its key with \<open>find\<close>.
\<close>

definition update_where :: "('r \<Rightarrow> bool) \<Rightarrow> ('r \<Rightarrow> 'r) \<Rightarrow> 'r list \<Rightarrow> 'r list" where
  "update_where p f rows = map (\<lambda>r. if p r then f r else r) rows"

lemma length_update_where [simp]: "length (update_where p f rows) = length rows"
  by (simp add: update_where_def)

lemma update_where_Nil [simp]: "update_where p f [] = []"
  by (simp add: update_where_def)

lemma update_where_Cons [simp]:
  "update_where p f (r # rows) = (if p r then f r else r) # update_where p f rows"
  by (simp add: update_where_def)

lemma update_where_append [simp]:
  "update_where p f (xs @ ys) = update_where p f xs @ update_where p f ys"
  by (simp add: update_where_def)

lemma map_update_where:
  assumes "\<And>r. p r \<Longrightarrow> g (f r) = g r"
  shows "map g (update_where p f rows) = map g rows"
  using assms by (induction rows) auto

lemma set_update_where: "set (update_where p f rows) = (\<lambda>r. if p r then f r else r) ` set rows"
  by (simp add: update_where_def)

lemma find_update_where_key:
  assumes "\<And>r. p r \<Longrightarrow> k (f r) = k r"
  shows "find (\<lambda>r. k r = x) (update_where p f rows) =
    map_option (\<lambda>r. if p r then f r else r) (find (\<lambda>r. k r = x) rows)"
  using assms by (induction rows) auto

lemma find_key_unique:
  assumes "distinct (map k rows)" "r \<in> set rows"
  shows "find (\<lambda>s. k s = k r) rows = Some r"
  using assms by (induction rows) (auto simp: rev_image_eqI)

lemma find_SomeD: "find p xs = Some x \<Longrightarrow> x \<in> set xs \<and> p x"
  by (induction xs) (auto split: if_splits)

lemma find_NoneD: "find p xs = None \<Longrightarrow> x \<in> set xs \<Longrightarrow> \<not> p x"
  by (induction xs) (auto split: if_splits)

section \<open>Programs that move along a relation\<close>

text \<open>
  \<open>state_io_rel\<close> of the library says that every run of a state-monad program relates its
  start to its end state. For a reflexive and transitive relation this composes along the
  program: the rules below follow the program's own shape.
\<close>

locale effect_order =
  fixes R :: "'s \<Rightarrow> 's \<Rightarrow> bool"
  assumes R_refl: "R s s"
    and R_trans: "R s t \<Longrightarrow> R t u \<Longrightarrow> R s u"
begin

lemma moves_return: "state_io_rel R (State_Monad.return x)"
  by (auto simp: R_refl)

lemma moves_get: "state_io_rel R State_Monad.get"
  by (auto simp: R_refl)

lemma moves_bind:
  assumes "state_io_rel R m" and "\<And>x. state_io_rel R (f x)"
  shows "state_io_rel R (m \<bind> f)"
proof (rule state_io_relI)
  fix a s s'
  assume run: "run_state (m \<bind> f) s = (a, s')"
  obtain x t where t: "run_state m s = (x, t)" by fastforce
  with run have t': "run_state (f x) t = (a, s')" by simp
  from t have "R s t" by (rule state_io_relD [OF assms(1)])
  moreover from t' have "R t s'" by (rule state_io_relD [OF assms(2)])
  ultimately show "R s s'" by (rule R_trans)
qed

lemma moves_if:
  "(b \<Longrightarrow> state_io_rel R m) \<Longrightarrow> (\<not> b \<Longrightarrow> state_io_rel R n) \<Longrightarrow> state_io_rel R (if b then m else n)"
  by simp

lemma moves_sum:
  "(\<And>e. x = Inl e \<Longrightarrow> state_io_rel R (f e)) \<Longrightarrow> (\<And>v. x = Inr v \<Longrightarrow> state_io_rel R (g v)) \<Longrightarrow>
    state_io_rel R (case x of Inl e \<Rightarrow> f e | Inr v \<Rightarrow> g v)"
  by (cases x) auto

lemma moves_option:
  "(x = None \<Longrightarrow> state_io_rel R m) \<Longrightarrow> (\<And>v. x = Some v \<Longrightarrow> state_io_rel R (g v)) \<Longrightarrow>
    state_io_rel R (case x of None \<Rightarrow> m | Some v \<Rightarrow> g v)"
  by (cases x) auto

lemma moves_prod:
  "(\<And>u v. x = (u, v) \<Longrightarrow> state_io_rel R (g u v)) \<Longrightarrow> state_io_rel R (case x of (u, v) \<Rightarrow> g u v)"
  by (cases x) auto

lemma moves_let: "(\<And>v. v = x \<Longrightarrow> state_io_rel R (f v)) \<Longrightarrow> state_io_rel R (let v = x in f v)"
  by simp

lemmas moves_structure = moves_return moves_get moves_bind moves_if moves_sum moves_option
  moves_prod moves_let

end

end
