(* ===== verification/Vocabulary.thy ===== *)
theory Vocabulary
  imports GoStrings
begin

text \<open>
  The closed vocabularies of \<open>internal/task\<close>: task, attempt, worktree, approval, worker and
  verification statuses, failure kinds, hardness, submodule and verification modes, apply
  states. Each Go string type with its constants is a datatype, and its constants are the
  rendering of the constructors. Parsing goes from raw strings back to the datatype. The
  locale states what the list of all values and the rendering must satisfy for parsing to
  invert rendering, and every vocabulary interprets it.
\<close>

section \<open>The interface of a vocabulary\<close>

definition find_named :: "('a \<Rightarrow> string) \<Rightarrow> 'a list \<Rightarrow> string \<Rightarrow> 'a option" where
  "find_named render all raw = find (\<lambda>v. render v = raw) all"

locale vocabulary =
  fixes all_values :: "'a list" and render :: "'a \<Rightarrow> string"
  assumes complete: "v \<in> set all_values"
    and named_apart: "distinct (map render all_values)"
begin

lemma render_inj: "render v = render u \<Longrightarrow> v = u"
proof -
  assume eq: "render v = render u"
  have "inj_on render (set all_values)" using named_apart by (simp add: distinct_map)
  then show ?thesis using eq complete complete by (rule inj_onD)
qed

lemma find_render: "find_named render all_values (render v) = Some v"
  unfolding find_named_def by (rule find_key_unique [OF named_apart complete])

lemma find_named_Some_iff: "find_named render all_values raw = Some v \<longleftrightarrow> render v = raw"
proof
  assume "find_named render all_values raw = Some v"
  then have "find (\<lambda>v. render v = raw) all_values = Some v" by (simp add: find_named_def)
  then show "render v = raw" by (auto dest: find_SomeD)
next
  assume "render v = raw"
  then show "find_named render all_values raw = Some v" using find_render [of v] by simp
qed

lemma find_named_None_iff: "find_named render all_values raw = None \<longleftrightarrow> (\<forall>v. render v \<noteq> raw)"
  using find_named_Some_iff [of raw] by (cases "find_named render all_values raw") auto

end

section \<open>Task status and its transitions\<close>

datatype Status =
    StatusPending | StatusReady | StatusRunning | StatusVerifying
  | StatusSucceeded | StatusFailed | StatusCancelled | StatusWaitingApproval

fun Status_string :: "Status \<Rightarrow> string" where
  "Status_string StatusPending = ''PENDING''"
| "Status_string StatusReady = ''READY''"
| "Status_string StatusRunning = ''RUNNING''"
| "Status_string StatusVerifying = ''VERIFYING''"
| "Status_string StatusSucceeded = ''SUCCEEDED''"
| "Status_string StatusFailed = ''FAILED''"
| "Status_string StatusCancelled = ''CANCELLED''"
| "Status_string StatusWaitingApproval = ''WAITING_APPROVAL''"

definition AllStatuses :: "Status list" where
  "AllStatuses = [StatusPending, StatusReady, StatusRunning, StatusVerifying, StatusSucceeded,
     StatusFailed, StatusCancelled, StatusWaitingApproval]"

fun transitions :: "Status \<Rightarrow> Status list" where
  "transitions StatusPending = [StatusReady, StatusWaitingApproval, StatusCancelled]"
| "transitions StatusReady = [StatusRunning, StatusWaitingApproval, StatusCancelled]"
| "transitions StatusWaitingApproval = [StatusReady, StatusFailed, StatusCancelled]"
| "transitions StatusRunning = [StatusVerifying, StatusReady, StatusFailed, StatusCancelled]"
| "transitions StatusVerifying = [StatusSucceeded, StatusReady, StatusFailed, StatusCancelled]"
| "transitions StatusSucceeded = []"
| "transitions StatusFailed = []"
| "transitions StatusCancelled = []"

definition Terminal :: "Status \<Rightarrow> bool" where
  "Terminal s = (length (transitions s) = 0)"

definition Active :: "Status \<Rightarrow> bool" where
  "Active s = (s = StatusRunning \<or> s = StatusVerifying)"

definition CanTransitionTo :: "Status \<Rightarrow> Status \<Rightarrow> bool" where
  "CanTransitionTo s to = (to \<in> set (transitions s))"

definition ParseStatus :: "string \<Rightarrow> string + Status" where
  "ParseStatus raw =
     (case find_named Status_string AllStatuses raw of
        None \<Rightarrow> Inl (raw @ '' is not a valid task status'') | Some s \<Rightarrow> Inr s)"

text \<open>
  The database repeats the state machine in the trigger \<open>tasks_transition_guard\<close>: the
  clauses of its \<open>IF\<close> in the order of the migration, after the clause that lets an update
  write the status a row already has.
\<close>

definition tasks_transition_guard :: "Status \<Rightarrow> Status \<Rightarrow> bool" where
  "tasks_transition_guard old new =
     (if new = old then True
      else (old = StatusPending \<and> new \<in> set [StatusReady, StatusWaitingApproval, StatusCancelled])
         \<or> (old = StatusReady \<and> new \<in> set [StatusRunning, StatusWaitingApproval, StatusCancelled])
         \<or> (old = StatusWaitingApproval \<and> new \<in> set [StatusReady, StatusFailed, StatusCancelled])
         \<or> (old = StatusRunning \<and>
              new \<in> set [StatusVerifying, StatusReady, StatusFailed, StatusCancelled])
         \<or> (old = StatusVerifying \<and>
              new \<in> set [StatusSucceeded, StatusReady, StatusFailed, StatusCancelled]))"

interpretation task_status: vocabulary AllStatuses Status_string
proof
  show "v \<in> set AllStatuses" for v by (cases v) (simp_all add: AllStatuses_def)
  show "distinct (map Status_string AllStatuses)" by (simp add: AllStatuses_def)
qed

lemma ParseStatus_Inr_iff: "ParseStatus raw = Inr s \<longleftrightarrow> Status_string s = raw"
  by (auto simp: ParseStatus_def task_status.find_named_Some_iff [symmetric] split: option.splits)

lemma Terminal_iff [simp]:
  "Terminal s \<longleftrightarrow> s = StatusSucceeded \<or> s = StatusFailed \<or> s = StatusCancelled"
  by (cases s) (simp_all add: Terminal_def)

lemma Active_not_Terminal: "Active s \<Longrightarrow> \<not> Terminal s"
  by (auto simp: Active_def)

lemma CanTransitionTo_irrefl [simp]: "\<not> CanTransitionTo s s"
  by (cases s) (simp_all add: CanTransitionTo_def)

lemma Terminal_stuck: "Terminal s \<Longrightarrow> \<not> CanTransitionTo s to"
  by (cases s) (simp_all add: CanTransitionTo_def)

lemma to_Succeeded_from: "CanTransitionTo s StatusSucceeded \<longleftrightarrow> s = StatusVerifying"
  by (cases s) (simp_all add: CanTransitionTo_def)

lemma to_Running_from: "CanTransitionTo s StatusRunning \<longleftrightarrow> s = StatusReady"
  by (cases s) (simp_all add: CanTransitionTo_def)

lemma to_Verifying_from: "CanTransitionTo s StatusVerifying \<longleftrightarrow> s = StatusRunning"
  by (cases s) (simp_all add: CanTransitionTo_def)

lemma to_Pending_from: "\<not> CanTransitionTo s StatusPending"
  by (cases s) (simp_all add: CanTransitionTo_def)

lemma to_Cancelled_from: "CanTransitionTo s StatusCancelled \<longleftrightarrow> \<not> Terminal s"
  by (cases s) (simp_all add: CanTransitionTo_def)

text \<open>A run of the state machine: consecutive statuses are joined by legal transitions.\<close>

fun legal_history :: "Status list \<Rightarrow> bool" where
  "legal_history [] = True"
| "legal_history [s] = True"
| "legal_history (s # t # ss) = (CanTransitionTo s t \<and> legal_history (t # ss))"

lemma legal_history_append:
  "legal_history (xs @ [s]) \<Longrightarrow> CanTransitionTo s t \<Longrightarrow> legal_history (xs @ [s, t])"
  by (induction xs rule: legal_history.induct) auto

lemma legal_history_before:
  "legal_history (xs @ [u, s] @ ys) \<Longrightarrow> CanTransitionTo u s"
  by (induction xs rule: legal_history.induct) (auto split: if_splits)

section \<open>Hardness, submodule mode, apply state\<close>

datatype Hardness = HardnessTrivial | HardnessStandard | HardnessHard

fun Hardness_string :: "Hardness \<Rightarrow> string" where
  "Hardness_string HardnessTrivial = ''TRIVIAL''"
| "Hardness_string HardnessStandard = ''STANDARD''"
| "Hardness_string HardnessHard = ''HARD''"

definition AllHardnesses :: "Hardness list" where
  "AllHardnesses = [HardnessTrivial, HardnessStandard, HardnessHard]"

text \<open>A task need not state a hardness: Go's empty string is \<open>None\<close> here.\<close>

definition ParseHardness :: "string \<Rightarrow> string + Hardness option" where
  "ParseHardness raw =
     (if trim_space raw = [] then Inr None
      else (case find_named Hardness_string AllHardnesses (to_upper (trim_space raw)) of
              None \<Rightarrow> Inl (raw @ '' is not a valid hardness'') | Some h \<Rightarrow> Inr (Some h)))"

interpretation task_hardness: vocabulary AllHardnesses Hardness_string
proof
  show "v \<in> set AllHardnesses" for v by (cases v) (simp_all add: AllHardnesses_def)
  show "distinct (map Hardness_string AllHardnesses)" by (simp add: AllHardnesses_def)
qed

datatype SubmoduleMode = SubmodulesNone | SubmodulesReadOnly

fun SubmoduleMode_string :: "SubmoduleMode \<Rightarrow> string" where
  "SubmoduleMode_string SubmodulesNone = ''NONE''"
| "SubmoduleMode_string SubmodulesReadOnly = ''READ_ONLY''"

definition AllSubmoduleModes :: "SubmoduleMode list" where
  "AllSubmoduleModes = [SubmodulesNone, SubmodulesReadOnly]"

definition ParseSubmoduleMode :: "string \<Rightarrow> string + SubmoduleMode" where
  "ParseSubmoduleMode raw =
     (let trimmed = trim_space raw
      in if trimmed = [] then Inr SubmodulesNone
         else (case find_named SubmoduleMode_string AllSubmoduleModes
                      (replace_char CHR ''-'' ''_'' (to_upper trimmed)) of
                 None \<Rightarrow> Inl (raw @ '' is not a valid submodule mode'') | Some m \<Rightarrow> Inr m))"

interpretation submodule_mode: vocabulary AllSubmoduleModes SubmoduleMode_string
proof
  show "v \<in> set AllSubmoduleModes" for v by (cases v) (simp_all add: AllSubmoduleModes_def)
  show "distinct (map SubmoduleMode_string AllSubmoduleModes)" by (simp add: AllSubmoduleModes_def)
qed

datatype ApplyState = ApplyNever | ApplyApplied | ApplyUndone | ApplyLanded

fun ApplyState_string :: "ApplyState \<Rightarrow> string" where
  "ApplyState_string ApplyNever = []"
| "ApplyState_string ApplyApplied = ''applied''"
| "ApplyState_string ApplyUndone = ''undone''"
| "ApplyState_string ApplyLanded = ''landed''"

definition AllApplyStates :: "ApplyState list" where
  "AllApplyStates = [ApplyNever, ApplyApplied, ApplyUndone, ApplyLanded]"

definition ParseApplyState :: "string \<Rightarrow> string + ApplyState" where
  "ParseApplyState raw =
     (case find_named ApplyState_string AllApplyStates raw of
        None \<Rightarrow> Inl (raw @ '' is not a valid apply state'') | Some s \<Rightarrow> Inr s)"

interpretation apply_state: vocabulary AllApplyStates ApplyState_string
proof
  show "v \<in> set AllApplyStates" for v by (cases v) (simp_all add: AllApplyStates_def)
  show "distinct (map ApplyState_string AllApplyStates)" by (simp add: AllApplyStates_def)
qed

section \<open>Where and in which phase verification runs\<close>

datatype VerificationMode = VerificationInPlace | VerificationClean

fun VerificationMode_string :: "VerificationMode \<Rightarrow> string" where
  "VerificationMode_string VerificationInPlace = ''in_place''"
| "VerificationMode_string VerificationClean = ''clean''"

definition AllVerificationModes :: "VerificationMode list" where
  "AllVerificationModes = [VerificationInPlace, VerificationClean]"

definition ParseVerificationMode :: "string \<Rightarrow> string + VerificationMode" where
  "ParseVerificationMode raw =
     (let trimmed = trim_space raw
      in if trimmed = [] then Inr VerificationInPlace
         else (let spelling = replace_char CHR ''-'' ''_'' (to_lower trimmed)
               in if spelling = VerificationMode_string VerificationInPlace then Inr VerificationInPlace
                  else if spelling = VerificationMode_string VerificationClean then Inr VerificationClean
                  else Inl (raw @ '' is not a valid verification mode'')))"

interpretation verification_mode: vocabulary AllVerificationModes VerificationMode_string
proof
  show "v \<in> set AllVerificationModes" for v by (cases v) (simp_all add: AllVerificationModes_def)
  show "distinct (map VerificationMode_string AllVerificationModes)"
    by (simp add: AllVerificationModes_def)
qed

datatype VerificationPhase = PhaseSetup | PhaseVerify

fun VerificationPhase_string :: "VerificationPhase \<Rightarrow> string" where
  "VerificationPhase_string PhaseSetup = ''setup''"
| "VerificationPhase_string PhaseVerify = ''verify''"

section \<open>Attempts, worktrees, approvals, worker and verification runs\<close>

datatype AttemptStatus = AttemptRunning | AttemptSucceeded | AttemptFailed | AttemptCancelled

fun AttemptStatus_string :: "AttemptStatus \<Rightarrow> string" where
  "AttemptStatus_string AttemptRunning = ''RUNNING''"
| "AttemptStatus_string AttemptSucceeded = ''SUCCEEDED''"
| "AttemptStatus_string AttemptFailed = ''FAILED''"
| "AttemptStatus_string AttemptCancelled = ''CANCELLED''"

datatype FailureKind =
    FailureNone | FailureStartup | FailureAgentError | FailureAgentExit | FailureTimeout
  | FailureCancelled | FailureVerification | FailureWorktree | FailureApprovalDenied
  | FailureContainment | FailureInternal | FailureUnknown

fun FailureKind_string :: "FailureKind \<Rightarrow> string" where
  "FailureKind_string FailureNone = []"
| "FailureKind_string FailureStartup = ''STARTUP''"
| "FailureKind_string FailureAgentError = ''AGENT_ERROR''"
| "FailureKind_string FailureAgentExit = ''AGENT_EXIT''"
| "FailureKind_string FailureTimeout = ''TIMEOUT''"
| "FailureKind_string FailureCancelled = ''CANCELLED''"
| "FailureKind_string FailureVerification = ''VERIFICATION''"
| "FailureKind_string FailureWorktree = ''WORKTREE''"
| "FailureKind_string FailureApprovalDenied = ''APPROVAL_DENIED''"
| "FailureKind_string FailureContainment = ''CONTAINMENT''"
| "FailureKind_string FailureInternal = ''INTERNAL''"
| "FailureKind_string FailureUnknown = ''UNKNOWN''"

definition AllFailureKinds :: "FailureKind list" where
  "AllFailureKinds = [FailureStartup, FailureAgentError, FailureAgentExit, FailureTimeout,
     FailureCancelled, FailureVerification, FailureWorktree, FailureApprovalDenied,
     FailureContainment, FailureInternal, FailureUnknown]"

interpretation failure_kind: vocabulary "FailureNone # AllFailureKinds" FailureKind_string
proof
  show "v \<in> set (FailureNone # AllFailureKinds)" for v
    by (cases v) (simp_all add: AllFailureKinds_def)
  show "distinct (map FailureKind_string (FailureNone # AllFailureKinds))"
    by (simp add: AllFailureKinds_def)
qed

datatype WorktreeStatus = WorktreeActive | WorktreeRemoved | WorktreeRetained | WorktreeReused

datatype WorkerRunStatus = WorkerSucceeded | WorkerFailed | WorkerTimedOut | WorkerCancelled

fun WorkerRunStatus_string :: "WorkerRunStatus \<Rightarrow> string" where
  "WorkerRunStatus_string WorkerSucceeded = ''SUCCEEDED''"
| "WorkerRunStatus_string WorkerFailed = ''FAILED''"
| "WorkerRunStatus_string WorkerTimedOut = ''TIMED_OUT''"
| "WorkerRunStatus_string WorkerCancelled = ''CANCELLED''"

datatype VerificationStatus =
    VerificationPassed | VerificationFailed | VerificationTimedOut | VerificationCancelled
  | VerificationSkipped

fun VerificationStatus_string :: "VerificationStatus \<Rightarrow> string" where
  "VerificationStatus_string VerificationPassed = ''PASSED''"
| "VerificationStatus_string VerificationFailed = ''FAILED''"
| "VerificationStatus_string VerificationTimedOut = ''TIMED_OUT''"
| "VerificationStatus_string VerificationCancelled = ''CANCELLED''"
| "VerificationStatus_string VerificationSkipped = ''SKIPPED''"

datatype ApprovalStatus = ApprovalPending | ApprovalGranted | ApprovalDenied

fun ApprovalStatus_string :: "ApprovalStatus \<Rightarrow> string" where
  "ApprovalStatus_string ApprovalPending = ''PENDING''"
| "ApprovalStatus_string ApprovalGranted = ''GRANTED''"
| "ApprovalStatus_string ApprovalDenied = ''DENIED''"

definition AllApprovalStatuses :: "ApprovalStatus list" where
  "AllApprovalStatuses = [ApprovalPending, ApprovalGranted, ApprovalDenied]"

definition ParseApprovalStatus :: "string \<Rightarrow> string + ApprovalStatus" where
  "ParseApprovalStatus raw =
     (case find_named ApprovalStatus_string AllApprovalStatuses raw of
        None \<Rightarrow> Inl (raw @ '' is not a valid approval status'') | Some s \<Rightarrow> Inr s)"

interpretation approval_status: vocabulary AllApprovalStatuses ApprovalStatus_string
proof
  show "v \<in> set AllApprovalStatuses" for v by (cases v) (simp_all add: AllApprovalStatuses_def)
  show "distinct (map ApprovalStatus_string AllApprovalStatuses)"
    by (simp add: AllApprovalStatuses_def)
qed

end
