(* ===== verification/Steps.thy ===== *)
theory Steps
  imports Vocabulary
begin

text \<open>
  Verification steps (\<open>internal/task/verification.go\<close>): the argv a task's checks run as, how
  a step is rendered for a person and how a typed command line is read back. The tokeniser
  is the loop of \<open>splitFields\<close> with its four variables as arguments.
\<close>

record VerificationStep =
  Command :: string
  Args :: "string list"
  TimeoutSeconds :: int

datatype StepError =
    EmptyStepCommand
  | NegativeTimeout string
  | EmptyCommandLine
  | UnquotedMetacharacter char
  | UnterminatedQuote char
  | CommandSubstitution string string
  | InCommand nat string StepError

definition single_quote :: char where
  "single_quote = CHR 0x27"

definition double_quote :: char where
  "double_quote = CHR 0x22"

section \<open>Rendering\<close>

definition bare_char :: "char \<Rightarrow> bool" where
  "bare_char r =
     ((CHR ''a'' \<le> r \<and> r \<le> CHR ''z'') \<or> (CHR ''A'' \<le> r \<and> r \<le> CHR ''Z'')
      \<or> (CHR ''0'' \<le> r \<and> r \<le> CHR ''9'') \<or> r \<in> set ''_@%+=:,./-'')"

definition isBareSafe :: "string \<Rightarrow> bool" where
  "isBareSafe s = (s \<noteq> [] \<and> list_all bare_char s)"

definition quoteIfNeeded :: "string \<Rightarrow> string" where
  "quoteIfNeeded s =
     (if isBareSafe s then s
      else [single_quote]
           @ replace_char single_quote
               [single_quote, double_quote, single_quote, double_quote, single_quote] s
           @ [single_quote])"

definition Step_String :: "VerificationStep \<Rightarrow> string" where
  "Step_String s = join_with '' '' (quoteIfNeeded (Command s) # map quoteIfNeeded (Args s))"

definition Step_Validate :: "VerificationStep \<Rightarrow> StepError option" where
  "Step_Validate s =
     (if trim_space (Command s) = [] then Some EmptyStepCommand
      else if TimeoutSeconds s < 0 then Some (NegativeTimeout (Step_String s))
      else None)"

section \<open>Reading a command line\<close>

definition shellMetacharacters :: string where
  "shellMetacharacters =
     ''|&;<>()$'' @ [CHR 0x60, CHR 0x0A, CHR 0x0D] @ ''*?[]{}!#~''"

fun splitFields_loop ::
  "string list \<Rightarrow> string \<Rightarrow> bool \<Rightarrow> char option \<Rightarrow> string \<Rightarrow> StepError + string list" where
  "splitFields_loop parts current inField (Some q) [] = Inl (UnterminatedQuote q)"
| "splitFields_loop parts current inField None [] =
     Inr (if inField then parts @ [current] else parts)"
| "splitFields_loop parts current inField (Some q) (r # raw) =
     (if r = q then splitFields_loop parts current inField None raw
      else splitFields_loop parts (current @ [r]) inField (Some q) raw)"
| "splitFields_loop parts current inField None (r # raw) =
     (if r = single_quote \<or> r = double_quote
      then splitFields_loop parts current True (Some r) raw
      else if r = CHR '' '' \<or> r = CHR 0x09
      then (if inField then splitFields_loop (parts @ [current]) [] False None raw
            else splitFields_loop parts current inField None raw)
      else if r \<in> set shellMetacharacters then Inl (UnquotedMetacharacter r)
      else splitFields_loop parts (current @ [r]) True None raw)"

definition splitFields :: "string \<Rightarrow> StepError + string list" where
  "splitFields raw = splitFields_loop [] [] False None raw"

definition shellCommands :: "string list" where
  "shellCommands = [''sh'', ''bash'', ''dash'', ''zsh'']"

text \<open>A wrapper that hands its text to a shell: a shell's name followed by \<open>-c\<close>.\<close>

fun shell_wrapper :: "string list \<Rightarrow> bool" where
  "shell_wrapper (a # b # args) =
     (path_base a \<in> set shellCommands \<and> b = ''-c'' \<or> shell_wrapper (b # args))"
| "shell_wrapper _ = False"

definition substitutes :: "string \<Rightarrow> bool" where
  "substitutes arg = (contains_str arg ''$('' \<or> CHR 0x60 \<in> set arg)"

definition rejectCommandSubstitution :: "VerificationStep \<Rightarrow> StepError option" where
  "rejectCommandSubstitution step =
     (if path_base (Command step) \<in> set shellCommands then None
      else if shell_wrapper (Args step) then None
      else map_option (CommandSubstitution (Command step)) (find substitutes (Args step)))"

definition ParseVerificationStep :: "string \<Rightarrow> StepError + VerificationStep" where
  "ParseVerificationStep raw =
     (case splitFields raw of
        Inl e \<Rightarrow> Inl e
      | Inr [] \<Rightarrow> Inl EmptyCommandLine
      | Inr (command # args) \<Rightarrow>
          (let step = \<lparr>Command = command, Args = args, TimeoutSeconds = 0\<rparr>
           in case rejectCommandSubstitution step of
                Some e \<Rightarrow> Inl e
              | None \<Rightarrow> (case Step_Validate step of Some e \<Rightarrow> Inl e | None \<Rightarrow> Inr step)))"

fun parse_steps_from :: "nat \<Rightarrow> string list \<Rightarrow> StepError + VerificationStep list" where
  "parse_steps_from i [] = Inr []"
| "parse_steps_from i (raw # raws) =
     (if trim_space raw = [] then parse_steps_from (Suc i) raws
      else (case ParseVerificationStep raw of
              Inl e \<Rightarrow> Inl (InCommand (Suc i) raw e)
            | Inr step \<Rightarrow> (case parse_steps_from (Suc i) raws of
                Inl e \<Rightarrow> Inl e | Inr steps \<Rightarrow> Inr (step # steps))))"

definition ParseVerificationSteps :: "string list \<Rightarrow> StepError + VerificationStep list" where
  "ParseVerificationSteps raws = parse_steps_from 0 raws"

section \<open>What a rendered field reads back as\<close>

lemma quotes_apart [simp]: "single_quote \<noteq> double_quote" "double_quote \<noteq> single_quote"
  by (simp_all add: single_quote_def double_quote_def)

lemma bare_char_plain:
  assumes "bare_char r"
  shows "r \<noteq> single_quote" "r \<noteq> double_quote" "r \<noteq> CHR '' ''" "r \<noteq> CHR 0x09"
    "r \<notin> set shellMetacharacters"
  using assms
  by (auto simp: bare_char_def single_quote_def double_quote_def shellMetacharacters_def
      less_eq_char_def)

lemma split_bare:
  "list_all bare_char s \<Longrightarrow> s \<noteq> [] \<Longrightarrow>
    splitFields_loop parts current inField None (s @ raw) =
    splitFields_loop parts (current @ s) True None raw"
proof (induction s arbitrary: current inField)
  case (Cons r s)
  then have "bare_char r" by simp
  note plain = bare_char_plain [OF this]
  show ?case
  proof (cases "s = []")
    case True
    then show ?thesis using plain by simp
  next
    case False
    then show ?thesis using plain Cons by simp
  qed
qed simp

lemma split_quoted:
  "splitFields_loop parts current True (Some single_quote)
     (replace_char single_quote
        [single_quote, double_quote, single_quote, double_quote, single_quote] s
      @ single_quote # raw) =
   splitFields_loop parts (current @ s) True None raw"
  by (induction s arbitrary: current) (auto simp: replace_char_def)

lemma split_field:
  "splitFields_loop parts current inField None (quoteIfNeeded s @ raw) =
   splitFields_loop parts (current @ s) True None raw"
proof (cases "isBareSafe s")
  case True
  then show ?thesis by (simp add: quoteIfNeeded_def isBareSafe_def split_bare)
next
  case False
  then show ?thesis by (simp add: quoteIfNeeded_def split_quoted)
qed

lemma split_rendered:
  "splitFields_loop parts [] False None (join_with '' '' (map quoteIfNeeded (f # fs))) =
   Inr (parts @ f # fs)"
proof (induction fs arbitrary: parts f)
  case Nil
  show ?case using split_field [of parts "[]" False f "[]"] by simp
next
  case (Cons g fs)
  have sp: "CHR '' '' \<noteq> single_quote" "CHR '' '' \<noteq> double_quote"
    by (simp_all add: single_quote_def double_quote_def)
  show ?case
    using split_field [of parts "[]" False f] Cons.IH [of "parts @ [f]" g] sp by simp
qed

lemma splitFields_Step_String: "splitFields (Step_String s) = Inr (Command s # Args s)"
  using split_rendered [of "[]" "Command s" "Args s"] by (simp add: splitFields_def Step_String_def)

lemma ParseVerificationStep_Step_String:
  "ParseVerificationStep (Step_String s) =
     (let step = s\<lparr>TimeoutSeconds := 0\<rparr>
      in case rejectCommandSubstitution step of
           Some e \<Rightarrow> Inl e
         | None \<Rightarrow> if trim_space (Command s) = [] then Inl EmptyStepCommand else Inr step)"
proof -
  have step: "s\<lparr>TimeoutSeconds := 0\<rparr> = \<lparr>Command = Command s, Args = Args s, TimeoutSeconds = 0\<rparr>"
    by simp
  show ?thesis
    unfolding ParseVerificationStep_def splitFields_Step_String step
    by (simp add: Step_Validate_def Let_def split: option.splits)
qed

text \<open>Without quotes, the tokeniser is: refuse a metacharacter, else split at the blanks.\<close>

definition is_blank :: "char \<Rightarrow> bool" where
  "is_blank r = (r = CHR '' '' \<or> r = CHR 0x09)"

fun split_when :: "('a \<Rightarrow> bool) \<Rightarrow> 'a list \<Rightarrow> 'a list list" where
  "split_when p [] = [[]]"
| "split_when p (x # xs) =
     (if p x then [] # split_when p xs else (x # hd (split_when p xs)) # tl (split_when p xs))"

definition blank_words :: "string \<Rightarrow> string list" where
  "blank_words raw = filter (\<lambda>w. w \<noteq> []) (split_when is_blank raw)"

lemma split_when_ne [simp]: "split_when p xs \<noteq> []"
  by (induction xs) auto

lemma filter_ne_split [simp]:
  "filter (\<lambda>w. w \<noteq> []) (split_when p xs) =
    (if hd (split_when p xs) = [] then [] else [hd (split_when p xs)])
    @ filter (\<lambda>w. w \<noteq> []) (tl (split_when p xs))"
  by (cases "split_when p xs") auto

lemma split_plain:
  assumes "single_quote \<notin> set raw" "double_quote \<notin> set raw" "inField \<or> current = []"
  shows "splitFields_loop parts current inField None raw =
    (case find (\<lambda>r. r \<in> set shellMetacharacters) raw of
       Some r \<Rightarrow> Inl (UnquotedMetacharacter r)
     | None \<Rightarrow> Inr (parts @
         (if inField then (current @ hd (split_when is_blank raw))
              # filter (\<lambda>w. w \<noteq> []) (tl (split_when is_blank raw))
          else blank_words raw)))"
  using assms
proof (induction raw arbitrary: parts current inField)
  case Nil
  then show ?case by (simp add: blank_words_def)
next
  case (Cons r raw)
  have q: "r \<noteq> single_quote" "r \<noteq> double_quote" "single_quote \<notin> set raw" "double_quote \<notin> set raw"
    using Cons.prems by auto
  note IH = Cons.IH [OF q(3,4)]
  show ?case
  proof (cases "is_blank r")
    case True
    then have "r \<notin> set shellMetacharacters" "r = CHR '' '' \<or> r = CHR 0x09"
      by (auto simp: is_blank_def shellMetacharacters_def)
    then show ?thesis using q True Cons.prems(3)
      by (cases inField) (auto simp: IH blank_words_def split: option.split)
  next
    case False
    then have "\<not> (r = CHR '' '' \<or> r = CHR 0x09)" by (simp add: is_blank_def)
    then show ?thesis using q False Cons.prems(3)
      by (cases inField) (auto simp: IH blank_words_def split: option.split)
  qed
qed

lemma splitFields_plain:
  assumes "single_quote \<notin> set raw" "double_quote \<notin> set raw"
  shows "splitFields raw =
    (case find (\<lambda>r. r \<in> set shellMetacharacters) raw of
       Some r \<Rightarrow> Inl (UnquotedMetacharacter r) | None \<Rightarrow> Inr (blank_words raw))"
  using split_plain [OF assms, of False "[]" "[]"]
  by (simp add: splitFields_def split: option.splits)

end
