(* ===== verification/TaskModel.thy ===== *)
theory TaskModel
  imports Steps
begin

text \<open>
  The records of \<open>internal/task\<close> and \<open>internal/event\<close>, the validation of a new task
  (\<open>task.New\<close>) and the small methods of \<open>Task\<close>. A field of a Go struct keeps its name behind
  a letter for the struct. A UUID is a natural number with \<open>uuid.Nil\<close> as 0; times and
  durations are whole nanoseconds. Identifiers and the current time, which Go takes from the
  UUID library and the clock, are arguments.
\<close>

type_synonym uuid = nat
type_synonym time = int
type_synonym duration = int

definition second :: duration where
  "second = 1000000000"

definition MaxTitleLength :: nat where "MaxTitleLength = 200"
definition MaxDescriptionLength :: nat where "MaxDescriptionLength = 32 * 1024"
definition MaxAcceptanceCriteriaLength :: nat where "MaxAcceptanceCriteriaLength = 32 * 1024"
definition MaxVerificationSteps :: nat where "MaxVerificationSteps = 20"
definition MaxPriority :: int where "MaxPriority = 1000"
definition MinPriority :: int where "MinPriority = - 1000"
definition MaxRetriesLimit :: int where "MaxRetriesLimit = 10"
definition MaxProtectedPaths :: nat where "MaxProtectedPaths = 50"

section \<open>Projects and tasks\<close>

record Project =
  p_ID :: uuid
  p_Name :: string
  p_RepoPath :: string
  p_DefaultBranch :: string
  p_Submodules :: SubmoduleMode
  p_RequiresApproval :: bool
  p_VerificationMode :: VerificationMode
  p_Coverage :: bool
  p_CreatedAt :: time
  p_UpdatedAt :: time
  p_ReadDirs :: "string list"

record Task =
  t_ID :: uuid
  t_Ref :: string
  t_ProjectID :: uuid
  t_Title :: string
  t_Description :: string
  t_Agent :: string
  t_Model :: string
  t_Hardness :: "Hardness option"
  t_Priority :: int
  t_Status :: Status
  t_AcceptanceCriteria :: string
  t_Verification :: "VerificationStep list"
  t_ProtectedPaths :: "string list"
  t_SetupSteps :: "VerificationStep list"
  t_VerificationMode :: VerificationMode
  t_MaxRetries :: int
  t_RequiresApproval :: bool
  t_ExpectFailOnBase :: bool
  t_Coverage :: bool
  t_BaseRef :: string
  t_BaseCommitAtCreate :: string
  t_Timeout :: duration
  t_CreatedAt :: time
  t_UpdatedAt :: time

text \<open>The raw verification mode of the input is a string: a typo must be refused, not typed away.\<close>

record NewTaskInput =
  n_ProjectID :: uuid
  n_Title :: string
  n_Description :: string
  n_Agent :: string
  n_Model :: string
  n_Hardness :: string
  n_Priority :: int
  n_AcceptanceCriteria :: string
  n_Verification :: "VerificationStep list"
  n_ProtectedPaths :: "string list"
  n_SetupSteps :: "VerificationStep list"
  n_VerificationMode :: string
  n_MaxRetries :: int
  n_RequiresApproval :: bool
  n_ExpectFailOnBase :: bool
  n_Coverage :: bool
  n_BaseRef :: string
  n_BaseCommitAtCreate :: string
  n_Timeout :: duration

datatype Problem =
    ProjectRequired | TitleRequired | TitleTooLong nat | DescriptionTooLong nat
  | CriteriaTooLong nat | AgentRequired | AgentWhitespace string | ModelWhitespace string
  | BadHardness string | VerificationRequired | TooManyVerification nat
  | BadVerification nat StepError | TooManyProtected nat | EmptyProtected nat
  | TooManySetup nat | BadSetup nat StepError | BadMode string | BadPriority int
  | BadRetries int | NegativeTimeoutProblem | BaseRefWhitespace string

definition white :: string where
  "white = [CHR '' '', CHR 0x09, CHR 0x0A]"

definition add_when :: "bool \<Rightarrow> 'a \<Rightarrow> 'a list" where
  "add_when b x = (if b then [x] else [])"

definition step_problems :: "(nat \<Rightarrow> StepError \<Rightarrow> Problem) \<Rightarrow> VerificationStep list \<Rightarrow> Problem list" where
  "step_problems mk steps =
     concat (map (\<lambda>(i, step). case Step_Validate step of None \<Rightarrow> [] | Some e \<Rightarrow> [mk (i + 1) e])
       (enumerate 0 steps))"

definition chosen_agent :: "NewTaskInput \<Rightarrow> string \<Rightarrow> string" where
  "chosen_agent input defaultAgent =
     (let agent = trim_space (n_Agent input)
      in if agent = [] then trim_space defaultAgent else agent)"

text \<open>Everything \<open>New\<close> adds to its list of problems, in the order it adds it.\<close>

definition New_problems :: "NewTaskInput \<Rightarrow> string \<Rightarrow> Problem list" where
  "New_problems input defaultAgent =
     (let title = trim_space (n_Title input);
          agent = chosen_agent input defaultAgent;
          model = trim_space (n_Model input);
          ref = trim_space (n_BaseRef input)
      in add_when (n_ProjectID input = 0) ProjectRequired
       @ (if title = [] then [TitleRequired]
          else add_when (length title > MaxTitleLength) (TitleTooLong (length title)))
       @ add_when (length (n_Description input) > MaxDescriptionLength)
           (DescriptionTooLong (length (n_Description input)))
       @ add_when (length (n_AcceptanceCriteria input) > MaxAcceptanceCriteriaLength)
           (CriteriaTooLong (length (n_AcceptanceCriteria input)))
       @ (if agent = [] then [AgentRequired]
          else add_when (contains_any agent white) (AgentWhitespace agent))
       @ add_when (model \<noteq> [] \<and> contains_any model white) (ModelWhitespace model)
       @ (case ParseHardness (n_Hardness input) of Inl e \<Rightarrow> [BadHardness e] | Inr h \<Rightarrow> [])
       @ (if length (n_Verification input) = 0 then [VerificationRequired]
          else add_when (length (n_Verification input) > MaxVerificationSteps)
                 (TooManyVerification (length (n_Verification input))))
       @ step_problems BadVerification (n_Verification input)
       @ add_when (length (n_ProtectedPaths input) > MaxProtectedPaths)
           (TooManyProtected (length (n_ProtectedPaths input)))
       @ concat (map (\<lambda>(i, p). add_when (trim_space p = [] \<or> trim_space p = ''/'') (EmptyProtected (i + 1)))
           (enumerate 0 (n_ProtectedPaths input)))
       @ add_when (length (n_SetupSteps input) > MaxVerificationSteps)
           (TooManySetup (length (n_SetupSteps input)))
       @ step_problems BadSetup (n_SetupSteps input)
       @ add_when (trim_space (n_VerificationMode input) \<noteq> []
               \<and> find_named VerificationMode_string AllVerificationModes (n_VerificationMode input) = None)
           (BadMode (n_VerificationMode input))
       @ add_when (n_Priority input < MinPriority \<or> n_Priority input > MaxPriority)
           (BadPriority (n_Priority input))
       @ add_when (n_MaxRetries input < 0 \<or> n_MaxRetries input > MaxRetriesLimit)
           (BadRetries (n_MaxRetries input))
       @ add_when (n_Timeout input < 0) NegativeTimeoutProblem
       @ add_when (ref \<noteq> [] \<and> contains_any ref white) (BaseRefWhitespace ref))"

definition New :: "uuid \<Rightarrow> time \<Rightarrow> NewTaskInput \<Rightarrow> string \<Rightarrow> Problem list + Task" where
  "New newid now input defaultAgent =
     (if New_problems input defaultAgent \<noteq> [] then Inl (New_problems input defaultAgent)
      else Inr \<lparr>t_ID = newid, t_Ref = [], t_ProjectID = n_ProjectID input,
        t_Title = trim_space (n_Title input), t_Description = n_Description input,
        t_Agent = chosen_agent input defaultAgent, t_Model = trim_space (n_Model input),
        t_Hardness = (case ParseHardness (n_Hardness input) of Inl e \<Rightarrow> None | Inr h \<Rightarrow> h),
        t_Priority = n_Priority input, t_Status = StatusPending,
        t_AcceptanceCriteria = n_AcceptanceCriteria input,
        t_Verification = n_Verification input, t_ProtectedPaths = n_ProtectedPaths input,
        t_SetupSteps = n_SetupSteps input,
        t_VerificationMode =
          (case find_named VerificationMode_string AllVerificationModes (n_VerificationMode input) of
             None \<Rightarrow> VerificationInPlace | Some m \<Rightarrow> m),
        t_MaxRetries = n_MaxRetries input, t_RequiresApproval = n_RequiresApproval input,
        t_ExpectFailOnBase = n_ExpectFailOnBase input, t_Coverage = n_Coverage input,
        t_BaseRef = trim_space (n_BaseRef input),
        t_BaseCommitAtCreate = trim_space (n_BaseCommitAtCreate input),
        t_Timeout = n_Timeout input, t_CreatedAt = now, t_UpdatedAt = now\<rparr>)"

definition TransitionTo :: "time \<Rightarrow> Task \<Rightarrow> Status \<Rightarrow> (Status \<times> Status) + Task" where
  "TransitionTo now t next =
     (if \<not> CanTransitionTo (t_Status t) next then Inl (t_Status t, next)
      else Inr (t\<lparr>t_Status := next, t_UpdatedAt := now\<rparr>))"

definition EffectiveModel :: "Task \<Rightarrow> string \<Rightarrow> string" where
  "EffectiveModel t def = (if t_Model t \<noteq> [] then t_Model t else def)"

definition EffectiveTimeout :: "Task \<Rightarrow> duration \<Rightarrow> duration" where
  "EffectiveTimeout t def = (if t_Timeout t > 0 then t_Timeout t else def)"

text \<open>The text of a UUID is not modelled digit by digit; its decimal number stands for it.\<close>

definition uuid_string :: "uuid \<Rightarrow> string" where
  "uuid_string i = nat_dec i"

definition Identifier :: "Task \<Rightarrow> string" where
  "Identifier t = (if t_Ref t \<noteq> [] then t_Ref t else uuid_string (t_ID t))"

section \<open>What the schema asks of a stored task\<close>

text \<open>
  The \<open>CHECK\<close> constraints of the table \<open>tasks\<close>. \<open>btrim\<close> removes spaces only, and
  \<open>length\<close> counts characters, of which there are at most as many as bytes; the bytes are
  counted here.
\<close>

definition btrim :: "string \<Rightarrow> string" where
  "btrim s = rev (dropWhile (\<lambda>c. c = CHR '' '') (rev (dropWhile (\<lambda>c. c = CHR '' '') s)))"

definition tasks_checks :: "Task \<Rightarrow> bool" where
  "tasks_checks t =
     (length (btrim (t_Title t)) > 0 \<and> length (t_Title t) \<le> 200 \<and> length (btrim (t_Agent t)) > 0
      \<and> - 1000 \<le> t_Priority t \<and> t_Priority t \<le> 1000 \<and> 0 \<le> t_MaxRetries t \<and> t_MaxRetries t \<le> 10
      \<and> 0 \<le> t_Timeout t div second \<and> length (t_Verification t) \<ge> 1)"

lemma space_prefix_len: "take 1 s = '' '' \<Longrightarrow> space_len s = 1"
  by (cases s) (auto simp: space_len_def ascii_spaces_def)

lemma trim_left_space_start: "space_len (trim_left_space s) = 0"
proof (induction s rule: trim_left_space.induct)
  case (1 s)
  then show ?case by (cases "space_len s = 0") (simp_all add: trim_left_space.simps [of s])
qed

lemma trim_right_space_prefix: "prefix (trim_right_space s) s"
proof (induction s rule: trim_right_space.induct)
  case (1 s)
  then show ?case
    by (cases "space_len_end s = 0")
      (auto simp: trim_right_space.simps [of s] intro: prefix_order.trans take_is_prefix)
qed

lemma trim_space_head:
  assumes "trim_space s \<noteq> []"
  shows "hd (trim_space s) \<noteq> CHR '' ''"
proof
  assume h: "hd (trim_space s) = CHR '' ''"
  have "prefix (trim_space s) (trim_left_space s)"
    by (simp add: trim_space_def trim_right_space_prefix)
  with assms h have "take 1 (trim_left_space s) = '' ''"
    by (cases "trim_space s") (auto simp: prefix_def)
  then have "space_len (trim_left_space s) = 1" by (rule space_prefix_len)
  then show False by (simp add: trim_left_space_start)
qed

lemma btrim_Nil: "btrim s = [] \<longleftrightarrow> (\<forall>c \<in> set s. c = CHR '' '')"
proof
  let ?P = "\<lambda>c. c = CHR '' ''"
  assume "btrim s = []"
  then have "dropWhile ?P (rev (dropWhile ?P s)) = []" by (simp only: btrim_def rev_is_Nil_conv)
  then have all: "\<forall>c \<in> set (dropWhile ?P s). ?P c"
    by (simp only: dropWhile_eq_Nil_conv set_rev)
  have "dropWhile ?P s = []"
  proof (rule ccontr)
    assume ne: "dropWhile ?P s \<noteq> []"
    then have "\<not> ?P (hd (dropWhile ?P s))" by (rule hd_dropWhile)
    moreover have "hd (dropWhile ?P s) \<in> set (dropWhile ?P s)" using ne by (rule hd_in_set)
    ultimately show False using all by blast
  qed
  then show "\<forall>c \<in> set s. ?P c" by (simp only: dropWhile_eq_Nil_conv)
next
  assume "\<forall>c \<in> set s. c = CHR '' ''"
  then have none: "dropWhile (\<lambda>c. c = CHR '' '') s = []" by (simp only: dropWhile_eq_Nil_conv)
  show "btrim s = []" unfolding btrim_def none by simp
qed

lemma btrim_trim_space: "btrim (trim_space s) = [] \<longleftrightarrow> trim_space s = []"
proof (cases "trim_space s = []")
  case True
  then show ?thesis by (simp add: btrim_def)
next
  case False
  then have "hd (trim_space s) \<in> set (trim_space s)" by simp
  with trim_space_head [OF False] have "btrim (trim_space s) \<noteq> []" unfolding btrim_Nil by blast
  with False show ?thesis by simp
qed

lemma add_when_Nil [simp]: "add_when b x = [] \<longleftrightarrow> \<not> b"
  by (simp add: add_when_def)

lemma New_Inr_iff:
  "New newid now input d = Inr t \<Longrightarrow> New_problems input d = [] \<and> t_ID t = newid
    \<and> t_Status t = StatusPending \<and> t_Title t = trim_space (n_Title input)
    \<and> t_Agent t = chosen_agent input d \<and> t_Verification t = n_Verification input
    \<and> t_MaxRetries t = n_MaxRetries input \<and> t_Priority t = n_Priority input
    \<and> t_Timeout t = n_Timeout input \<and> t_CreatedAt t = now"
  by (auto simp: New_def split: if_splits)

section \<open>Attempts, worktrees, runs, approvals\<close>

record TaskAttempt =
  a_ID :: uuid
  a_TaskID :: uuid
  a_AttemptNumber :: nat
  a_Status :: AttemptStatus
  a_FailureKind :: FailureKind
  a_Error :: string
  a_StartedAt :: time
  a_FinishedAt :: "time option"
  a_LeaseOwner :: string
  a_LeaseExpiresAt :: "time option"

definition NewAttempt :: "uuid \<Rightarrow> time \<Rightarrow> uuid \<Rightarrow> nat \<Rightarrow> TaskAttempt" where
  "NewAttempt newid now taskID number =
     \<lparr>a_ID = newid, a_TaskID = taskID, a_AttemptNumber = number, a_Status = AttemptRunning,
      a_FailureKind = FailureNone, a_Error = [], a_StartedAt = now, a_FinishedAt = None,
      a_LeaseOwner = [], a_LeaseExpiresAt = None\<rparr>"

definition Attempt_Duration :: "time \<Rightarrow> TaskAttempt \<Rightarrow> duration" where
  "Attempt_Duration now a = (case a_FinishedAt a of None \<Rightarrow> now - a_StartedAt a | Some f \<Rightarrow> f - a_StartedAt a)"

record Worktree =
  w_ID :: uuid
  w_AttemptID :: uuid
  w_Path :: string
  w_Branch :: string
  w_BaseCommit :: string
  w_HeadCommit :: string
  w_AgentTree :: string
  w_Status :: WorktreeStatus
  w_CreatedAt :: time
  w_RemovedAt :: "time option"

record WorkerRun =
  r_ID :: uuid
  r_AttemptID :: uuid
  r_Backend :: string
  r_Model :: string
  r_Agent :: string
  r_AgentVersion :: string
  r_Status :: WorkerRunStatus
  r_FailureKind :: FailureKind
  r_Command :: string
  r_WorkingDir :: string
  r_ExitCode :: "int option"
  r_Stdout :: string
  r_StdoutTruncated :: bool
  r_Stderr :: string
  r_StderrTruncated :: bool
  r_SessionID :: string
  r_Summary :: string
  r_FinishReason :: string
  r_Diff :: string
  r_DiffTruncated :: bool
  r_ChangedFiles :: nat
  r_StartedAt :: time
  r_FinishedAt :: "time option"
  r_LogsPruned :: bool

record VerificationRun =
  v_ID :: uuid
  v_AttemptID :: uuid
  v_StepIndex :: nat
  v_Phase :: VerificationPhase
  v_Command :: string
  v_Status :: VerificationStatus
  v_ExitCode :: "int option"
  v_Stdout :: string
  v_StdoutTruncated :: bool
  v_Stderr :: string
  v_StderrTruncated :: bool
  v_StartedAt :: time
  v_FinishedAt :: "time option"
  v_Duration :: duration
  v_LogsPruned :: bool

record Approval =
  ap_ID :: uuid
  ap_TaskID :: uuid
  ap_Status :: ApprovalStatus
  ap_Reason :: string
  ap_RequestedAt :: time
  ap_DecidedAt :: "time option"
  ap_DecidedBy :: string

definition EarlierAttempts :: "TaskAttempt list \<Rightarrow> uuid \<Rightarrow> TaskAttempt list" where
  "EarlierAttempts all latest = sort_key a_AttemptNumber (filter (\<lambda>a. a_ID a \<noteq> latest) all)"

text \<open>Where a task's verified result went, derived from its newest apply event.\<close>

record Apply =
  ay_State :: ApplyState
  ay_Into :: string
  ay_Commit :: string
  ay_Undid :: string
  ay_At :: time

definition never_applied :: Apply where
  "never_applied = \<lparr>ay_State = ApplyNever, ay_Into = [], ay_Commit = [], ay_Undid = [], ay_At = 0\<rparr>"

section \<open>Events\<close>

datatype json = JNull | JBool bool | JInt int | JStr string | JList "json list"
  | JObj "(string \<times> json) list"

datatype EventType =
    TypeTaskCreated | TypeTaskReady | TypeTaskStarted | TypeTaskSucceeded | TypeTaskFailed
  | TypeTaskCancelled | TypeRetryScheduled | TypeWorktreeCreated | TypeWorktreeRemoved
  | TypeWorktreeRetained | TypeBaseMoved | TypeWorkerStarted | TypeWorkerCompleted
  | TypeAgentProgress | TypeBaseCheckCompleted | TypeVerificationStarted
  | TypeVerificationStepRan | TypeVerificationCompleted | TypeVerificationIntercepted
  | TypeVerificationTestsModified | TypeVerificationWorktreeModified | TypeApprovalRequired
  | TypeApprovalGranted | TypeApprovalDenied | TypeContainmentBreach | TypeSharedRefsChanged
  | TypeTaskApplied | TypeTaskApplyUndone | TypeRunStopped | TypeCoverageReported
  | TypeFilesAdded

text \<open>A payload is always a JSON object: its members.\<close>

type_synonym payload = "(string \<times> json) list"

record Event =
  e_ID :: uuid
  e_Seq :: nat
  e_TaskID :: uuid
  e_AttemptID :: "uuid option"
  e_Type :: EventType
  e_Payload :: payload
  e_CreatedAt :: time

end
