(* ===== verification/Store.thy ===== *)
theory Store
  imports TaskModel
begin

text \<open>
  \<open>internal/store\<close> over the schema of \<open>migrations/\<close>. The database is a record of tables, a
  table the list of its rows in the order they were inserted. A statement or the body of a
  transaction is a function from a database to an error or a result with the new database:
  an error leaves nothing behind, which is what rolling back (or a failed statement in
  autocommit) does. Row and advisory locks make a transaction one step; \<open>InTx\<close> adds the ways
  beginning and committing it can fail. Primary keys, unique indexes, foreign keys, \<open>CHECK\<close>
  constraints and the transition trigger are written out at each statement that can violate
  them. Numbers a failed statement takes from a sequence are not burnt here; the
  primary keys the Go code draws are arguments.
\<close>

record db =
  db_projects :: "Project list"
  db_tasks :: "Task list"
  db_attempts :: "TaskAttempt list"
  db_worktrees :: "Worktree list"
  db_worker_runs :: "WorkerRun list"
  db_verification_runs :: "VerificationRun list"
  db_approvals :: "Approval list"
  db_events :: "Event list"
  db_seq :: nat
  db_ref :: nat
  db_now :: time

definition empty_db :: db where
  "empty_db = \<lparr>db_projects = [], db_tasks = [], db_attempts = [], db_worktrees = [],
     db_worker_runs = [], db_verification_runs = [], db_approvals = [], db_events = [],
     db_seq = 0, db_ref = 0, db_now = 0\<rparr>"

datatype serr =
    ErrNotFound | ErrConflict | ErrAlreadyExists | ErrLeaseLost
  | ErrTransition Status Status | ErrConstraint string | ErrTrigger | ErrArgument string
  | ErrAborted | ErrNested | ErrNotInTx | ErrBegin | ErrCommit | ErrScan | ErrDecode
  | ErrTaskNotFinished | ErrWorktreeOnDisk

type_synonym 'a tx = "db \<Rightarrow> serr + 'a \<times> db"

definition tx_return :: "'a \<Rightarrow> 'a tx" where
  "tx_return x = (\<lambda>d. Inr (x, d))"

definition tx_fail :: "serr \<Rightarrow> 'a tx" where
  "tx_fail e = (\<lambda>d. Inl e)"

definition tx_then :: "'a tx \<Rightarrow> ('a \<Rightarrow> 'b tx) \<Rightarrow> 'b tx" where
  "tx_then m f = (\<lambda>d. case m d of Inl e \<Rightarrow> Inl e | Inr (x, d') \<Rightarrow> f x d')"

definition tx_read :: "(db \<Rightarrow> serr + 'a) \<Rightarrow> 'a tx" where
  "tx_read q = (\<lambda>d. case q d of Inl e \<Rightarrow> Inl e | Inr x \<Rightarrow> Inr (x, d))"

text \<open>The sequence a Go function writes as calls separated by \<open>if err != nil { return err }\<close>.\<close>

definition tx_seq :: "unit tx \<Rightarrow> 'b tx \<Rightarrow> 'b tx" where
  "tx_seq m n = tx_then m (\<lambda>_. n)"

lemma tx_then_Inr_iff:
  "tx_then m f d = Inr (y, e) \<longleftrightarrow> (\<exists>x d'. m d = Inr (x, d') \<and> f x d' = Inr (y, e))"
  by (auto simp: tx_then_def split: sum.splits)

lemma tx_seq_Inr_iff:
  "tx_seq m n d = Inr (y, e) \<longleftrightarrow> (\<exists>d'. m d = Inr ((), d') \<and> n d' = Inr (y, e))"
  by (auto simp: tx_seq_def tx_then_Inr_iff)

lemma tx_return_Inr_iff: "tx_return x d = Inr (y, e) \<longleftrightarrow> y = x \<and> e = d"
  by (auto simp: tx_return_def)

lemma tx_fail_Inr_iff: "tx_fail err d = Inr (y, e) \<longleftrightarrow> False"
  by (simp add: tx_fail_def)

lemma tx_read_Inr_iff: "tx_read q d = Inr (y, e) \<longleftrightarrow> q d = Inr y \<and> e = d"
  by (auto simp: tx_read_def split: sum.splits)

lemmas tx_iffs = tx_then_Inr_iff tx_seq_Inr_iff tx_return_Inr_iff tx_fail_Inr_iff tx_read_Inr_iff

section \<open>Transactions\<close>

text \<open>
  A \<open>Store\<close> is on the connection pool or inside a transaction. Beginning can fail; a commit
  can be refused, and can also succeed in the server while its acknowledgement is lost.
\<close>

datatype Store = OnPool | InTransaction

datatype connection = Works | BeginFails | CommitFails | CommitUnacknowledged

definition InTx :: "Store \<Rightarrow> connection \<Rightarrow> (Store \<Rightarrow> 'a tx) \<Rightarrow> db \<Rightarrow> (serr + 'a) \<times> db" where
  "InTx s c fn d =
     (if s = InTransaction then (Inl ErrNested, d)
      else if c = BeginFails then (Inl ErrBegin, d)
      else (case fn InTransaction d of
              Inl e \<Rightarrow> (Inl e, d)
            | Inr (x, d') \<Rightarrow>
                (case c of CommitFails \<Rightarrow> (Inl ErrCommit, d)
                 | CommitUnacknowledged \<Rightarrow> (Inl ErrCommit, d')
                 | _ \<Rightarrow> (Inr x, d'))))"

lemma InTx_cases:
  "(\<exists>e. InTx s c fn d = (Inl e, d)) \<or>
   (\<exists>x d' r. fn InTransaction d = Inr (x, d') \<and> InTx s c fn d = (r, d')
      \<and> (r = Inr x \<or> r = Inl ErrCommit))"
proof (cases "s = InTransaction \<or> c = BeginFails")
  case True
  then show ?thesis by (auto simp: InTx_def)
next
  case False
  show ?thesis
  proof (cases "fn InTransaction d")
    case (Inl e)
    with False show ?thesis by (simp add: InTx_def)
  next
    case (Inr r)
    obtain x d' where "r = (x, d')" by (cases r)
    with Inr False show ?thesis by (cases c) (simp_all add: InTx_def)
  qed
qed

lemma InTx_Inr:
  "InTx s c fn d = (Inr x, d') \<Longrightarrow> fn InTransaction d = Inr (x, d')"
  by (auto simp: InTx_def split: sum.splits connection.splits if_splits prod.splits)

section \<open>Tasks\<close>

definition zero_pad :: "nat \<Rightarrow> string \<Rightarrow> string" where
  "zero_pad w s = (if length s \<ge> w then take w s else replicate (w - length s) CHR ''0'' @ s)"

definition task_ref :: "nat \<Rightarrow> string" where
  "task_ref n = ''TASK-'' @ zero_pad 6 (nat_dec n)"

definition task_row :: "db \<Rightarrow> uuid \<Rightarrow> Task option" where
  "task_row d i = find (\<lambda>t. t_ID t = i) (db_tasks d)"

definition CreateTask :: "Task \<Rightarrow> Task tx" where
  "CreateTask t d =
     (let row = t\<lparr>t_Ref := task_ref (db_ref d + 1),
                  t_Timeout := (t_Timeout t div second) * second,
                  t_CreatedAt := db_now d, t_UpdatedAt := db_now d\<rparr>
      in if \<not> tasks_checks row then Inl (ErrConstraint ''tasks'')
         else if task_row d (t_ID t) \<noteq> None \<or> (\<exists>u \<in> set (db_tasks d). t_Ref u = t_Ref row)
         then Inl ErrAlreadyExists
         else if \<not> (\<exists>p \<in> set (db_projects d). p_ID p = t_ProjectID t) then Inl ErrNotFound
         else Inr (row, d\<lparr>db_tasks := db_tasks d @ [row], db_ref := db_ref d + 1\<rparr>))"

definition GetTask :: "uuid \<Rightarrow> db \<Rightarrow> serr + Task" where
  "GetTask i d = (case task_row d i of None \<Rightarrow> Inl ErrNotFound | Some t \<Rightarrow> Inr t)"

definition GetTaskByRef :: "string \<Rightarrow> db \<Rightarrow> serr + Task" where
  "GetTaskByRef ref d =
     (case find (\<lambda>t. to_upper (t_Ref t) = to_upper (trim_space ref)) (db_tasks d) of
        None \<Rightarrow> Inl ErrNotFound | Some t \<Rightarrow> Inr t)"

text \<open>\<open>uuid.Parse\<close> belongs to the UUID library and is a parameter.\<close>

definition ResolveTask :: "(string \<Rightarrow> uuid option) \<Rightarrow> string \<Rightarrow> db \<Rightarrow> serr + Task" where
  "ResolveTask uuid_parse idOrRef d =
     (let trimmed = trim_space idOrRef
      in if trimmed = [] then Inl ErrNotFound
         else (case uuid_parse trimmed of Some i \<Rightarrow> GetTask i d | None \<Rightarrow> GetTaskByRef trimmed d))"

definition TransitionTask :: "uuid \<Rightarrow> Status \<Rightarrow> Status \<Rightarrow> unit tx" where
  "TransitionTask i from to d =
     (if \<not> CanTransitionTo from to then Inl (ErrTransition from to)
      else if \<not> (\<exists>t \<in> set (db_tasks d). t_ID t = i \<and> t_Status t = from)
      then (case GetTask i d of Inl e \<Rightarrow> Inl e | Inr current \<Rightarrow> Inl ErrConflict)
      else if \<not> tasks_transition_guard from to then Inl ErrTrigger
      else Inr ((), d\<lparr>db_tasks := update_where (\<lambda>t. t_ID t = i \<and> t_Status t = from)
             (\<lambda>t. t\<lparr>t_Status := to, t_UpdatedAt := db_now d\<rparr>) (db_tasks d)\<rparr>))"

definition LockTask :: "Store \<Rightarrow> uuid \<Rightarrow> unit tx" where
  "LockTask s i d =
     (if s \<noteq> InTransaction then Inl ErrNotInTx
      else if task_row d i = None then Inl ErrNotFound else Inr ((), d))"

section \<open>Attempts and leases\<close>

definition attempts_of :: "db \<Rightarrow> uuid \<Rightarrow> TaskAttempt list" where
  "attempts_of d i = filter (\<lambda>a. a_TaskID a = i) (db_attempts d)"

definition attempt_row :: "db \<Rightarrow> uuid \<Rightarrow> TaskAttempt option" where
  "attempt_row d i = find (\<lambda>a. a_ID a = i) (db_attempts d)"

definition NextAttemptNumber :: "uuid \<Rightarrow> db \<Rightarrow> serr + nat" where
  "NextAttemptNumber i d = Inr (foldr max (map a_AttemptNumber (attempts_of d i)) 0 + 1)"

definition CreateAttempt :: "TaskAttempt \<Rightarrow> TaskAttempt tx" where
  "CreateAttempt a d =
     (let row = a\<lparr>a_FinishedAt := None\<rparr>
      in if a_AttemptNumber a < 1 \<or> a_Status a \<noteq> AttemptRunning
         then Inl (ErrConstraint ''task_attempts'')
         else if attempt_row d (a_ID a) \<noteq> None
            \<or> (\<exists>b \<in> set (attempts_of d (a_TaskID a)). a_AttemptNumber b = a_AttemptNumber a)
         then Inl ErrAlreadyExists
         else if task_row d (a_TaskID a) = None then Inl ErrNotFound
         else Inr (row, d\<lparr>db_attempts := db_attempts d @ [row]\<rparr>))"

definition FinishAttempt :: "uuid \<Rightarrow> AttemptStatus \<Rightarrow> FailureKind \<Rightarrow> string \<Rightarrow> unit tx" where
  "FinishAttempt i status kind errMsg d =
     (if status = AttemptRunning then Inl (ErrArgument ''RUNNING is not an outcome'')
      else if \<not> (\<exists>a \<in> set (db_attempts d). a_ID a = i \<and> a_Status a = AttemptRunning)
      then Inl ErrConflict
      else Inr ((), d\<lparr>db_attempts := update_where (\<lambda>a. a_ID a = i \<and> a_Status a = AttemptRunning)
             (\<lambda>a. a\<lparr>a_Status := status, a_FailureKind := kind, a_Error := errMsg,
                    a_FinishedAt := Some (db_now d)\<rparr>) (db_attempts d)\<rparr>))"

definition GetAttempt :: "uuid \<Rightarrow> db \<Rightarrow> serr + TaskAttempt" where
  "GetAttempt i d = (case attempt_row d i of None \<Rightarrow> Inl ErrNotFound | Some a \<Rightarrow> Inr a)"

definition ListAttempts :: "uuid \<Rightarrow> db \<Rightarrow> TaskAttempt list" where
  "ListAttempts i d = rev (sort_key a_AttemptNumber (attempts_of d i))"

definition LatestAttempt :: "uuid \<Rightarrow> db \<Rightarrow> serr + TaskAttempt" where
  "LatestAttempt i d = (case ListAttempts i d of [] \<Rightarrow> Inl ErrNotFound | a # _ \<Rightarrow> Inr a)"

definition holds_lease :: "uuid \<Rightarrow> uuid \<Rightarrow> string \<Rightarrow> TaskAttempt \<Rightarrow> bool" where
  "holds_lease taskID attemptID owner a =
     (a_ID a = attemptID \<and> a_TaskID a = taskID \<and> a_Status a = AttemptRunning \<and> a_LeaseOwner a = owner)"

definition HoldLease :: "Store \<Rightarrow> uuid \<Rightarrow> uuid \<Rightarrow> string \<Rightarrow> unit tx" where
  "HoldLease s taskID attemptID owner d =
     (if s \<noteq> InTransaction then Inl ErrNotInTx
      else if task_row d taskID = None then Inl ErrNotFound
      else if \<exists>a \<in> set (db_attempts d). holds_lease taskID attemptID owner a then Inr ((), d)
      else Inl ErrLeaseLost)"

definition RenewLease :: "uuid \<Rightarrow> string \<Rightarrow> duration \<Rightarrow> Status tx" where
  "RenewLease attemptID owner ttl d =
     (let d' = d\<lparr>db_attempts :=
             update_where (\<lambda>a. a_ID a = attemptID \<and> a_LeaseOwner a = owner \<and> a_Status a = AttemptRunning)
               (\<lambda>a. a\<lparr>a_LeaseExpiresAt := Some (db_now d + ttl)\<rparr>) (db_attempts d)\<rparr>
      in case attempt_row d attemptID of
           None \<Rightarrow> Inl ErrNotFound
         | Some a \<Rightarrow> (case task_row d (a_TaskID a) of
                        None \<Rightarrow> Inl ErrNotFound | Some t \<Rightarrow> Inr (t_Status t, d')))"

record StuckAttempt =
  sa_TaskID :: uuid
  sa_TaskRef :: string
  sa_Status :: Status
  sa_LeaseOwner :: string
  sa_LeaseExpiresAt :: "time option"
  sa_StartedAt :: time

definition lease_expired :: "time \<Rightarrow> TaskAttempt \<Rightarrow> bool" where
  "lease_expired now a = (case a_LeaseExpiresAt a of None \<Rightarrow> True | Some e \<Rightarrow> e < now)"

text \<open>
  The row of the left join. A task without attempts has \<open>NULL\<close> in every attempt column, and
  \<open>NULL\<close> does not scan into the \<open>string\<close> and \<open>time.Time\<close> the code scans into.
\<close>

definition stuck_row :: "db \<Rightarrow> Task \<Rightarrow> (serr + StuckAttempt) list" where
  "stuck_row d t =
     (case ListAttempts (t_ID t) d of
        [] \<Rightarrow> [Inl ErrScan]
      | a # _ \<Rightarrow>
          if lease_expired (db_now d) a
          then [Inr \<lparr>sa_TaskID = t_ID t, sa_TaskRef = t_Ref t, sa_Status = t_Status t,
                  sa_LeaseOwner = a_LeaseOwner a, sa_LeaseExpiresAt = a_LeaseExpiresAt a,
                  sa_StartedAt = a_StartedAt a\<rparr>]
          else [])"

fun scan_rows :: "(serr + 'a) list \<Rightarrow> serr + 'a list" where
  "scan_rows [] = Inr []"
| "scan_rows (Inl e # rows) = Inl e"
| "scan_rows (Inr x # rows) =
     (case scan_rows rows of Inl e \<Rightarrow> Inl e | Inr xs \<Rightarrow> Inr (x # xs))"

definition StuckLeases :: "db \<Rightarrow> serr + StuckAttempt list" where
  "StuckLeases d =
     scan_rows (concat (map (stuck_row d)
       (sort_key t_Ref (filter (\<lambda>t. Active (t_Status t)) (db_tasks d)))))"

section \<open>Worktrees\<close>

definition attempt_exists :: "db \<Rightarrow> uuid \<Rightarrow> bool" where
  "attempt_exists d i = (attempt_row d i \<noteq> None)"

definition CreateWorktree :: "Worktree \<Rightarrow> Worktree tx" where
  "CreateWorktree w d =
     (let row = w\<lparr>w_CreatedAt := db_now d, w_RemovedAt := None\<rparr>
      in if \<not> is_abs (w_Path w) \<or> w_Status w = WorktreeRemoved then Inl (ErrConstraint ''worktrees'')
         else if \<exists>v \<in> set (db_worktrees d). w_ID v = w_ID w \<or> w_AttemptID v = w_AttemptID w
         then Inl ErrAlreadyExists
         else if \<not> attempt_exists d (w_AttemptID w) then Inl ErrNotFound
         else Inr (row, d\<lparr>db_worktrees := db_worktrees d @ [row]\<rparr>))"

definition set_worktree :: "uuid \<Rightarrow> (Worktree \<Rightarrow> Worktree) \<Rightarrow> unit tx" where
  "set_worktree i f d =
     (if \<exists>w \<in> set (db_worktrees d). w_ID w = i
      then Inr ((), d\<lparr>db_worktrees := update_where (\<lambda>w. w_ID w = i) f (db_worktrees d)\<rparr>)
      else Inl ErrNotFound)"

definition SetWorktreeHead :: "uuid \<Rightarrow> string \<Rightarrow> unit tx" where
  "SetWorktreeHead i headCommit = set_worktree i (\<lambda>w. w\<lparr>w_HeadCommit := headCommit\<rparr>)"

definition SetWorktreeAgentTree :: "uuid \<Rightarrow> string \<Rightarrow> unit tx" where
  "SetWorktreeAgentTree i tree = set_worktree i (\<lambda>w. w\<lparr>w_AgentTree := tree\<rparr>)"

definition SetWorktreeStatus :: "uuid \<Rightarrow> WorktreeStatus \<Rightarrow> unit tx" where
  "SetWorktreeStatus i status d =
     (let removedAt = (if status = WorktreeRemoved then Some (db_now d) else None)
      in set_worktree i (\<lambda>w. w\<lparr>w_Status := status, w_RemovedAt := removedAt\<rparr>) d)"

definition GetWorktreeByAttempt :: "uuid \<Rightarrow> db \<Rightarrow> serr + Worktree" where
  "GetWorktreeByAttempt attemptID d =
     (case find (\<lambda>w. w_AttemptID w = attemptID) (db_worktrees d) of
        None \<Rightarrow> Inl ErrNotFound | Some w \<Rightarrow> Inr w)"

definition newest_first :: "('r \<Rightarrow> time) \<Rightarrow> 'r list \<Rightarrow> 'r list" where
  "newest_first at rows = rev (sort_key at rows)"

record WorktreeWithTask =
  wt_Worktree :: Worktree
  wt_TaskID :: uuid
  wt_TaskRef :: string
  wt_TaskTitle :: string
  wt_TaskStatus :: Status
  wt_AttemptNumber :: nat

definition ListWorktrees :: "WorktreeStatus list \<Rightarrow> db \<Rightarrow> WorktreeWithTask list" where
  "ListWorktrees statuses d =
     concat (map (\<lambda>w. case attempt_row d (w_AttemptID w) of None \<Rightarrow> [] | Some a \<Rightarrow>
               (case task_row d (a_TaskID a) of None \<Rightarrow> [] | Some t \<Rightarrow>
                  [\<lparr>wt_Worktree = w, wt_TaskID = t_ID t, wt_TaskRef = t_Ref t, wt_TaskTitle = t_Title t,
                    wt_TaskStatus = t_Status t, wt_AttemptNumber = a_AttemptNumber a\<rparr>]))
       (newest_first w_CreatedAt
         (filter (\<lambda>w. statuses = [] \<or> w_Status w \<in> set statuses) (db_worktrees d))))"

definition ListRetainedWorktrees :: "db \<Rightarrow> Worktree list" where
  "ListRetainedWorktrees d =
     newest_first w_CreatedAt (filter (\<lambda>w. w_Status w = WorktreeRetained) (db_worktrees d))"

text \<open>The set Go returns as a map: the branches of overlapping attempts.\<close>

definition OverlappingBranches :: "uuid \<Rightarrow> time \<Rightarrow> string list \<Rightarrow> db \<Rightarrow> string set" where
  "OverlappingBranches ownAttempt since branches d =
     set (map w_Branch (filter (\<lambda>w. w_Branch w \<in> set branches \<and>
        (case attempt_row d (w_AttemptID w) of None \<Rightarrow> False
         | Some a \<Rightarrow> a_ID a \<noteq> ownAttempt \<and>
             (case a_FinishedAt a of None \<Rightarrow> True | Some f \<Rightarrow> f \<ge> since)))
       (db_worktrees d)))"

section \<open>Worker and verification runs\<close>

definition CreateWorkerRun :: "WorkerRun \<Rightarrow> WorkerRun tx" where
  "CreateWorkerRun r d =
     (let row = r\<lparr>r_LogsPruned := False\<rparr>
      in if btrim (r_Backend r) = [] then Inl (ErrConstraint ''worker_runs'')
         else if \<exists>q \<in> set (db_worker_runs d). r_ID q = r_ID r then Inl ErrAlreadyExists
         else if \<not> attempt_exists d (r_AttemptID r) then Inl ErrNotFound
         else Inr (row, d\<lparr>db_worker_runs := db_worker_runs d @ [row]\<rparr>))"

definition ListWorkerRuns :: "uuid \<Rightarrow> db \<Rightarrow> WorkerRun list" where
  "ListWorkerRuns attemptID d =
     sort_key r_StartedAt (filter (\<lambda>r. r_AttemptID r = attemptID) (db_worker_runs d))"

definition millisecond :: duration where "millisecond = 1000000"

definition CreateVerificationRun :: "VerificationRun \<Rightarrow> VerificationRun tx" where
  "CreateVerificationRun r d =
     (let row = r\<lparr>v_LogsPruned := False, v_Duration := (v_Duration r div millisecond) * millisecond\<rparr>
      in if v_Duration r div millisecond < 0 then Inl (ErrConstraint ''verification_runs'')
         else if \<exists>q \<in> set (db_verification_runs d). v_ID q = v_ID r
            \<or> (v_AttemptID q = v_AttemptID r \<and> v_StepIndex q = v_StepIndex r)
         then Inl ErrAlreadyExists
         else if \<not> attempt_exists d (v_AttemptID r) then Inl ErrNotFound
         else Inr (row, d\<lparr>db_verification_runs := db_verification_runs d @ [row]\<rparr>))"

definition ListVerificationRuns :: "uuid \<Rightarrow> db \<Rightarrow> VerificationRun list" where
  "ListVerificationRuns attemptID d =
     sort_key v_StepIndex (filter (\<lambda>r. v_AttemptID r = attemptID) (db_verification_runs d))"

section \<open>Approvals\<close>

definition RequestApproval :: "uuid \<Rightarrow> uuid \<Rightarrow> string \<Rightarrow> Approval tx" where
  "RequestApproval newid taskID reason d =
     (let row = \<lparr>ap_ID = newid, ap_TaskID = taskID, ap_Status = ApprovalPending, ap_Reason = reason,
                 ap_RequestedAt = db_now d, ap_DecidedAt = None, ap_DecidedBy = []\<rparr>
      in if \<exists>p \<in> set (db_approvals d). ap_ID p = newid
            \<or> (ap_TaskID p = taskID \<and> ap_Status p = ApprovalPending)
         then Inl ErrAlreadyExists
         else if task_row d taskID = None then Inl ErrNotFound
         else Inr (row, d\<lparr>db_approvals := db_approvals d @ [row]\<rparr>))"

definition decide_row :: "time \<Rightarrow> ApprovalStatus \<Rightarrow> string \<Rightarrow> string \<Rightarrow> Approval \<Rightarrow> Approval" where
  "decide_row now status decidedBy reason p =
     p\<lparr>ap_Status := status, ap_DecidedAt := Some now, ap_DecidedBy := decidedBy,
       ap_Reason := (if reason = [] then ap_Reason p else reason)\<rparr>"

definition DecideApproval :: "uuid \<Rightarrow> ApprovalStatus \<Rightarrow> string \<Rightarrow> string \<Rightarrow> Approval tx" where
  "DecideApproval taskID status decidedBy reason d =
     (if status \<noteq> ApprovalGranted \<and> status \<noteq> ApprovalDenied then Inl (ErrArgument ''not a decision'')
      else (case find (\<lambda>p. ap_TaskID p = taskID \<and> ap_Status p = ApprovalPending) (db_approvals d) of
              None \<Rightarrow> Inl ErrNotFound
            | Some p \<Rightarrow> Inr (decide_row (db_now d) status decidedBy reason p,
                d\<lparr>db_approvals :=
                   update_where (\<lambda>p. ap_TaskID p = taskID \<and> ap_Status p = ApprovalPending)
                     (decide_row (db_now d) status decidedBy reason) (db_approvals d)\<rparr>)))"

definition ListApprovals :: "uuid \<Rightarrow> db \<Rightarrow> Approval list" where
  "ListApprovals taskID d = newest_first ap_RequestedAt (filter (\<lambda>p. ap_TaskID p = taskID) (db_approvals d))"

definition LatestApproval :: "uuid \<Rightarrow> db \<Rightarrow> serr + Approval" where
  "LatestApproval taskID d = (case ListApprovals taskID d of [] \<Rightarrow> Inl ErrNotFound | p # _ \<Rightarrow> Inr p)"

section \<open>Projects\<close>

definition projects_checks :: "Project \<Rightarrow> bool" where
  "projects_checks p = (btrim (p_Name p) \<noteq> [] \<and> is_abs (p_RepoPath p) \<and> btrim (p_DefaultBranch p) \<noteq> [])"

definition EnsureProject ::
    "uuid \<Rightarrow> string \<Rightarrow> string \<Rightarrow> string \<Rightarrow> VerificationMode option \<Rightarrow> Project tx" where
  "EnsureProject newid name repoPath defaultBranch mode d =
     (let row = \<lparr>p_ID = newid, p_Name = name, p_RepoPath = repoPath,
            p_DefaultBranch = (if defaultBranch = [] then ''main'' else defaultBranch),
            p_Submodules = SubmodulesNone, p_RequiresApproval = False,
            p_VerificationMode = (case mode of None \<Rightarrow> VerificationClean | Some m \<Rightarrow> m),
            p_Coverage = False, p_CreatedAt = db_now d, p_UpdatedAt = db_now d, p_ReadDirs = []\<rparr>
      in if \<not> projects_checks row then Inl (ErrConstraint ''projects'')
         else (case find (\<lambda>p. p_RepoPath p = repoPath) (db_projects d) of
                 Some p \<Rightarrow> Inr (p, d)
               | None \<Rightarrow> if \<exists>p \<in> set (db_projects d). p_ID p = newid then Inl ErrAlreadyExists
                         else Inr (row, d\<lparr>db_projects := db_projects d @ [row]\<rparr>)))"

definition GetProject :: "uuid \<Rightarrow> db \<Rightarrow> serr + Project" where
  "GetProject i d =
     (case find (\<lambda>p. p_ID p = i) (db_projects d) of None \<Rightarrow> Inl ErrNotFound | Some p \<Rightarrow> Inr p)"

definition GetProjectByPath :: "string \<Rightarrow> db \<Rightarrow> serr + Project" where
  "GetProjectByPath repoPath d =
     (case find (\<lambda>p. p_RepoPath p = repoPath) (db_projects d) of None \<Rightarrow> Inl ErrNotFound | Some p \<Rightarrow> Inr p)"

definition ListProjects :: "db \<Rightarrow> Project list" where
  "ListProjects d = newest_first p_CreatedAt (db_projects d)"

definition InPlaceProjects :: "db \<Rightarrow> string list" where
  "InPlaceProjects d =
     sort (map p_RepoPath (filter (\<lambda>p. p_VerificationMode p = VerificationInPlace) (db_projects d)))"

definition ProjectPaths :: "db \<Rightarrow> string list" where
  "ProjectPaths d = sort (map p_RepoPath (db_projects d))"

definition set_project :: "uuid \<Rightarrow> (Project \<Rightarrow> Project) \<Rightarrow> Project tx" where
  "set_project i f d =
     (case find (\<lambda>p. p_ID p = i) (db_projects d) of
        None \<Rightarrow> Inl ErrNotFound
      | Some p \<Rightarrow> Inr ((f p)\<lparr>p_UpdatedAt := db_now d\<rparr>,
          d\<lparr>db_projects := update_where (\<lambda>p. p_ID p = i)
              (\<lambda>p. (f p)\<lparr>p_UpdatedAt := db_now d\<rparr>) (db_projects d)\<rparr>))"

definition SetProjectSubmodules :: "uuid \<Rightarrow> SubmoduleMode \<Rightarrow> Project tx" where
  "SetProjectSubmodules i mode = set_project i (\<lambda>p. p\<lparr>p_Submodules := mode\<rparr>)"

definition SetProjectRequiresApproval :: "uuid \<Rightarrow> bool \<Rightarrow> Project tx" where
  "SetProjectRequiresApproval i required = set_project i (\<lambda>p. p\<lparr>p_RequiresApproval := required\<rparr>)"

definition SetProjectVerificationMode :: "uuid \<Rightarrow> VerificationMode \<Rightarrow> Project tx" where
  "SetProjectVerificationMode i mode = set_project i (\<lambda>p. p\<lparr>p_VerificationMode := mode\<rparr>)"

definition SetProjectReadDirs :: "uuid \<Rightarrow> string list \<Rightarrow> Project tx" where
  "SetProjectReadDirs i dirs = set_project i (\<lambda>p. p\<lparr>p_ReadDirs := dirs\<rparr>)"

definition SetProjectCoverage :: "uuid \<Rightarrow> bool \<Rightarrow> Project tx" where
  "SetProjectCoverage i enabled = set_project i (\<lambda>p. p\<lparr>p_Coverage := enabled\<rparr>)"

end
