(* ===== verification/EventLog.thy ===== *)
theory EventLog
  imports Store
begin

text \<open>
  The event log of \<open>internal/event\<close> and \<open>internal/store/event.go\<close>, what is derived from it
  (the apply state, the modified tests), the listing of tasks that joins it, and the retention
  operations of \<open>internal/store/retention.go\<close>. The advisory lock of \<open>AppendEvent\<close> is not
  modelled: a transaction is one step here, so sequence order is commit order.
\<close>

section \<open>Appending\<close>

text \<open>
  \<open>event.New\<close>. A payload is an object by its type, so the check that its encoding starts with
  a brace cannot fail.
\<close>

definition New_event ::
    "uuid \<Rightarrow> time \<Rightarrow> uuid \<Rightarrow> uuid option \<Rightarrow> EventType \<Rightarrow> payload \<Rightarrow> serr + Event" where
  "New_event newid now taskID attemptID ty pay =
     (if taskID = 0 then Inl (ErrArgument ''event requires a task id'')
      else Inr \<lparr>e_ID = newid, e_Seq = 0, e_TaskID = taskID, e_AttemptID = attemptID, e_Type = ty,
                e_Payload = pay, e_CreatedAt = now\<rparr>)"

definition AppendEvent :: "Event \<Rightarrow> Event tx" where
  "AppendEvent e d =
     (let row = e\<lparr>e_Seq := db_seq d + 1\<rparr>
      in if \<exists>f \<in> set (db_events d). e_ID f = e_ID e then Inl ErrAlreadyExists
         else if task_row d (e_TaskID e) = None then Inl ErrNotFound
         else if (case e_AttemptID e of None \<Rightarrow> False | Some a \<Rightarrow> \<not> attempt_exists d a) then Inl ErrNotFound
         else Inr (row, d\<lparr>db_events := db_events d @ [row], db_seq := db_seq d + 1\<rparr>))"

section \<open>Reading\<close>

definition DefaultEventLimit :: nat where "DefaultEventLimit = 200"
definition MaxEventLimit :: nat where "MaxEventLimit = 1000"

record EventFilter =
  ef_TaskID :: uuid
  ef_AfterSeq :: nat
  ef_Types :: "EventType list"
  ef_Limit :: int

definition event_limit :: "int \<Rightarrow> nat" where
  "event_limit l = (if l \<le> 0 then DefaultEventLimit
                    else if l > int MaxEventLimit then MaxEventLimit else nat l)"

definition ListEvents :: "EventFilter \<Rightarrow> db \<Rightarrow> serr + Event list" where
  "ListEvents ef d =
     (if ef_TaskID ef = 0 then Inl (ErrArgument ''a task id is required'')
      else Inr (take (event_limit (ef_Limit ef)) (sort_key e_Seq
             (filter (\<lambda>e. e_TaskID e = ef_TaskID ef \<and> e_Seq e > ef_AfterSeq ef
                         \<and> (ef_Types ef = [] \<or> e_Type e \<in> set (ef_Types ef))) (db_events d)))))"

text \<open>\<open>ORDER BY seq DESC LIMIT 1\<close>.\<close>

definition newest_event :: "(Event \<Rightarrow> bool) \<Rightarrow> db \<Rightarrow> Event option" where
  "newest_event p d = (case rev (sort_key e_Seq (filter p (db_events d))) of [] \<Rightarrow> None | e # _ \<Rightarrow> Some e)"

text \<open>Decoding a member into a Go string: a missing member and \<open>null\<close> leave it empty.\<close>

definition string_member :: "string \<Rightarrow> payload \<Rightarrow> serr + string" where
  "string_member name pay =
     (case map_of pay name of
        None \<Rightarrow> Inr [] | Some JNull \<Rightarrow> Inr [] | Some (JStr s) \<Rightarrow> Inr s | Some _ \<Rightarrow> Inl ErrDecode)"

fun json_string :: "json \<Rightarrow> serr + string" where
  "json_string JNull = Inr []"
| "json_string (JStr s) = Inr s"
| "json_string _ = Inl ErrDecode"

definition strings_member :: "string \<Rightarrow> payload \<Rightarrow> serr + string list" where
  "strings_member name pay =
     (case map_of pay name of
        None \<Rightarrow> Inr [] | Some JNull \<Rightarrow> Inr []
      | Some (JList xs) \<Rightarrow> scan_rows (map json_string xs) | Some _ \<Rightarrow> Inl ErrDecode)"

definition TestsModifiedPaths :: "uuid \<Rightarrow> uuid \<Rightarrow> db \<Rightarrow> serr + string list" where
  "TestsModifiedPaths taskID attemptID d =
     (if taskID = 0 then Inl (ErrArgument ''a task id is required'')
      else if attemptID = 0 then Inl (ErrArgument ''an attempt id is required'')
      else (case newest_event (\<lambda>e. e_TaskID e = taskID \<and> e_AttemptID e = Some attemptID
                                 \<and> e_Type e = TypeVerificationTestsModified) d of
              None \<Rightarrow> Inl ErrNotFound
            | Some e \<Rightarrow> strings_member ''paths'' (e_Payload e)))"

section \<open>The apply state\<close>

definition decodeApplyPayload :: "EventType \<Rightarrow> payload \<Rightarrow> time \<Rightarrow> serr + Apply" where
  "decodeApplyPayload ty pay at =
     (case ty of
        TypeTaskApplied \<Rightarrow>
          (case (string_member ''into'' pay, string_member ''commit'' pay) of
             (Inr into, Inr cmt) \<Rightarrow> Inr \<lparr>ay_State = ApplyApplied, ay_Into = into, ay_Commit = cmt,
                                         ay_Undid = [], ay_At = at\<rparr>
           | _ \<Rightarrow> Inl ErrDecode)
      | TypeTaskApplyUndone \<Rightarrow>
          (case (string_member ''into'' pay, string_member ''commit'' pay, string_member ''undid'' pay) of
             (Inr into, Inr cmt, Inr undid) \<Rightarrow> Inr \<lparr>ay_State = ApplyUndone, ay_Into = into,
                                                   ay_Commit = cmt, ay_Undid = undid, ay_At = at\<rparr>
           | _ \<Rightarrow> Inl ErrDecode)
      | _ \<Rightarrow> Inl (ErrArgument ''unexpected event type''))"

definition is_apply_event :: "uuid \<Rightarrow> Event \<Rightarrow> bool" where
  "is_apply_event taskID e =
     (e_TaskID e = taskID \<and> (e_Type e = TypeTaskApplied \<or> e_Type e = TypeTaskApplyUndone))"

text \<open>The operation \<open>Store.ApplyState\<close>; its name is the vocabulary's datatype too.\<close>

definition Store_ApplyState :: "uuid \<Rightarrow> db \<Rightarrow> serr + Apply" where
  "Store_ApplyState taskID d =
     (if taskID = 0 then Inl (ErrArgument ''a task id is required'')
      else (case newest_event (is_apply_event taskID) d of
              None \<Rightarrow> Inr never_applied
            | Some e \<Rightarrow> decodeApplyPayload (e_Type e) (e_Payload e) (e_CreatedAt e)))"

definition decodeApply :: "Event option \<Rightarrow> serr + Apply" where
  "decodeApply newest =
     (case newest of None \<Rightarrow> Inr never_applied
      | Some e \<Rightarrow> decodeApplyPayload (e_Type e) (e_Payload e) (e_CreatedAt e))"

section \<open>Listing tasks\<close>

definition DefaultTaskListLimit :: nat where "DefaultTaskListLimit = 50"
definition MaxTaskListLimit :: nat where "MaxTaskListLimit = 500"

record TaskFilter =
  tf_ProjectID :: uuid
  tf_Statuses :: "Status list"
  tf_Limit :: int
  tf_Offset :: int
  tf_Unapplied :: bool

record TaskListItem =
  ti_Task :: Task
  ti_RepoPath :: string
  ti_Apply :: Apply

definition list_limit :: "int \<Rightarrow> nat" where
  "list_limit l = (if l \<le> 0 then DefaultTaskListLimit
                   else if l > int MaxTaskListLimit then MaxTaskListLimit else nat l)"

definition task_selected :: "TaskFilter \<Rightarrow> db \<Rightarrow> Task \<Rightarrow> bool" where
  "task_selected tf d t =
     ((tf_ProjectID tf = 0 \<or> t_ProjectID t = tf_ProjectID tf)
      \<and> (tf_Statuses tf = [] \<or> t_Status t \<in> set (tf_Statuses tf))
      \<and> (\<not> tf_Unapplied tf \<or> t_Status t = StatusSucceeded)
      \<and> (\<not> tf_Unapplied tf
         \<or> map_option e_Type (newest_event (is_apply_event (t_ID t)) d) \<noteq> Some TypeTaskApplied))"

definition scanTaskListItem :: "db \<Rightarrow> Task \<Rightarrow> Project \<Rightarrow> serr + TaskListItem" where
  "scanTaskListItem d t p =
     (case decodeApply (newest_event (is_apply_event (t_ID t)) d) of
        Inl e \<Rightarrow> Inl e
      | Inr a \<Rightarrow> Inr \<lparr>ti_Task = t, ti_RepoPath = p_RepoPath p, ti_Apply = a\<rparr>)"

definition ListTasks :: "TaskFilter \<Rightarrow> db \<Rightarrow> serr + TaskListItem list" where
  "ListTasks tf d =
     scan_rows (map (\<lambda>(t, p). scanTaskListItem d t p)
       (take (list_limit (tf_Limit tf)) (drop (nat (tf_Offset tf))
         (concat (map (\<lambda>t. case find (\<lambda>p. p_ID p = t_ProjectID t) (db_projects d) of
                             None \<Rightarrow> [] | Some p \<Rightarrow> [(t, p)])
           (rev (sort_key t_CreatedAt (sort_key t_Ref (filter (task_selected tf d) (db_tasks d))))))))))"

section \<open>Retention\<close>

record PruneReport =
  pr_WorkerRuns :: nat
  pr_VerificationRuns :: nat
  pr_Bytes :: nat
  pr_DryRun :: bool

definition terminalStatuses :: "Status list" where
  "terminalStatuses = filter Terminal AllStatuses"

definition pruneWhere :: "db \<Rightarrow> time \<Rightarrow> time option \<Rightarrow> bool \<Rightarrow> uuid \<Rightarrow> bool" where
  "pruneWhere d cutoff finished pruned attemptID =
     ((case finished of None \<Rightarrow> False | Some f \<Rightarrow> f < cutoff) \<and> \<not> pruned
      \<and> (case attempt_row d attemptID of None \<Rightarrow> False
         | Some a \<Rightarrow> (case task_row d (a_TaskID a) of None \<Rightarrow> False
                     | Some t \<Rightarrow> t_Status t \<in> set terminalStatuses)))"

definition prunable_worker :: "db \<Rightarrow> time \<Rightarrow> WorkerRun \<Rightarrow> bool" where
  "prunable_worker d cutoff r =
     (pruneWhere d cutoff (r_FinishedAt r) (r_LogsPruned r) (r_AttemptID r)
      \<and> (r_Stdout r \<noteq> [] \<or> r_Stderr r \<noteq> [] \<or> r_Diff r \<noteq> []))"

definition prunable_verification :: "db \<Rightarrow> time \<Rightarrow> VerificationRun \<Rightarrow> bool" where
  "prunable_verification d cutoff r =
     (pruneWhere d cutoff (v_FinishedAt r) (v_LogsPruned r) (v_AttemptID r)
      \<and> (v_Stdout r \<noteq> [] \<or> v_Stderr r \<noteq> []))"

definition prune_report :: "time \<Rightarrow> bool \<Rightarrow> db \<Rightarrow> PruneReport" where
  "prune_report cutoff dryRun d =
     (let ws = filter (prunable_worker d cutoff) (db_worker_runs d);
          vs = filter (prunable_verification d cutoff) (db_verification_runs d)
      in \<lparr>pr_WorkerRuns = length ws, pr_VerificationRuns = length vs,
          pr_Bytes = sum_list (map (\<lambda>r. length (r_Stdout r) + length (r_Stderr r) + length (r_Diff r)) ws)
            + sum_list (map (\<lambda>r. length (v_Stdout r) + length (v_Stderr r)) vs),
          pr_DryRun = dryRun\<rparr>)"

definition prune_body :: "time \<Rightarrow> bool \<Rightarrow> PruneReport tx" where
  "prune_body cutoff dryRun d =
     (if dryRun then Inr (prune_report cutoff dryRun d, d)
      else Inr (prune_report cutoff dryRun d,
        d\<lparr>db_worker_runs := update_where (prunable_worker d cutoff)
            (\<lambda>r. r\<lparr>r_Stdout := [], r_Stderr := [], r_Diff := [], r_LogsPruned := True\<rparr>) (db_worker_runs d),
          db_verification_runs := update_where (prunable_verification d cutoff)
            (\<lambda>r. r\<lparr>v_Stdout := [], v_Stderr := [], v_LogsPruned := True\<rparr>) (db_verification_runs d)\<rparr>))"

definition PruneLogs :: "Store \<Rightarrow> connection \<Rightarrow> time \<Rightarrow> bool \<Rightarrow> db \<Rightarrow> (serr + PruneReport) \<times> db" where
  "PruneLogs s c cutoff dryRun = InTx s c (\<lambda>_. prune_body cutoff dryRun)"

text \<open>What the foreign keys cascade to when a task's row goes.\<close>

definition delete_cascade :: "uuid \<Rightarrow> db \<Rightarrow> db" where
  "delete_cascade i d =
     (let gone = set (map a_ID (attempts_of d i))
      in d\<lparr>db_tasks := filter (\<lambda>t. t_ID t \<noteq> i) (db_tasks d),
           db_attempts := filter (\<lambda>a. a_TaskID a \<noteq> i) (db_attempts d),
           db_worktrees := filter (\<lambda>w. w_AttemptID w \<notin> gone) (db_worktrees d),
           db_worker_runs := filter (\<lambda>r. r_AttemptID r \<notin> gone) (db_worker_runs d),
           db_verification_runs := filter (\<lambda>r. v_AttemptID r \<notin> gone) (db_verification_runs d),
           db_approvals := filter (\<lambda>p. ap_TaskID p \<noteq> i) (db_approvals d),
           db_events := filter (\<lambda>e. e_TaskID e \<noteq> i
             \<and> (case e_AttemptID e of None \<Rightarrow> True | Some a \<Rightarrow> a \<notin> gone)) (db_events d)\<rparr>)"

definition on_disk :: "db \<Rightarrow> uuid \<Rightarrow> Worktree \<Rightarrow> bool" where
  "on_disk d i w =
     ((case attempt_row d (w_AttemptID w) of None \<Rightarrow> False | Some a \<Rightarrow> a_TaskID a = i)
      \<and> (w_Status w = WorktreeActive \<or> w_Status w = WorktreeRetained))"

definition delete_body :: "uuid \<Rightarrow> unit tx" where
  "delete_body i d =
     (case task_row d i of
        None \<Rightarrow> Inl ErrNotFound
      | Some t \<Rightarrow>
          if \<not> Terminal (t_Status t) then Inl ErrTaskNotFinished
          else if \<exists>w \<in> set (db_worktrees d). on_disk d i w then Inl ErrWorktreeOnDisk
          else Inr ((), delete_cascade i d))"

definition DeleteTask :: "Store \<Rightarrow> connection \<Rightarrow> uuid \<Rightarrow> db \<Rightarrow> (serr + unit) \<times> db" where
  "DeleteTask s c i = InTx s c (\<lambda>_. delete_body i)"

end
