(* ===== verification/Lifecycle.thy ===== *)
theory Lifecycle
  imports EventLog
begin

text \<open>
  The transactions of \<open>internal/worker\<close>: the bodies its functions hand to \<open>InTx\<close>, as functions on
  the database built from the store's operations in the order the code calls them. A stamp
  is what an event gets from outside: its identifier, the time and its payload. The owner is
  the lease owner of the process. A statement PostgreSQL refuses aborts its transaction, and
  every later statement of it fails.
\<close>

type_synonym stamp = "uuid \<times> time \<times> payload"

definition appendEvent :: "stamp \<Rightarrow> uuid \<Rightarrow> uuid option \<Rightarrow> EventType \<Rightarrow> unit tx" where
  "appendEvent st taskID attemptID ty =
     (let (newid, now, pay) = st
      in case New_event newid now taskID attemptID ty pay of
           Inl e \<Rightarrow> tx_fail e
         | Inr ev \<Rightarrow> tx_then (AppendEvent ev) (\<lambda>_. tx_return ()))"

text \<open>The lease fence; before an attempt is open and after its ending there is nothing to fence.\<close>

definition fence_tx :: "bool \<Rightarrow> uuid \<Rightarrow> uuid \<Rightarrow> string \<Rightarrow> unit tx" where
  "fence_tx attemptOpen taskID attemptID owner =
     (if \<not> attemptOpen then tx_return () else HoldLease InTransaction taskID attemptID owner)"

definition attempt_ref :: "uuid \<Rightarrow> uuid option" where
  "attempt_ref attemptID = (if attemptID \<noteq> 0 then Some attemptID else None)"

definition transition_tx ::
    "bool \<Rightarrow> uuid \<Rightarrow> uuid \<Rightarrow> string \<Rightarrow> Status \<Rightarrow> Status \<Rightarrow> EventType \<Rightarrow> stamp \<Rightarrow> unit tx" where
  "transition_tx attemptOpen taskID attemptID owner current next ty st =
     tx_seq (fence_tx attemptOpen taskID attemptID owner)
       (tx_seq (TransitionTask taskID current next)
         (appendEvent st taskID (attempt_ref attemptID) ty))"

definition emit_tx :: "bool \<Rightarrow> uuid \<Rightarrow> uuid \<Rightarrow> string \<Rightarrow> EventType \<Rightarrow> stamp \<Rightarrow> unit tx" where
  "emit_tx attemptOpen taskID attemptID owner ty st =
     tx_seq (fence_tx attemptOpen taskID attemptID owner)
       (appendEvent st taskID (attempt_ref attemptID) ty)"

definition create_tx :: "Task \<Rightarrow> (Task \<Rightarrow> stamp) \<Rightarrow> Task tx" where
  "create_tx built st =
     tx_then (CreateTask built)
       (\<lambda>stored. tx_seq (appendEvent (st stored) (t_ID stored) None TypeTaskCreated) (tx_return stored))"

text \<open>
  A second request violates the partial unique index, which aborts the transaction: the read
  of the existing request the code then makes in it fails.
\<close>

definition request_or_existing :: "uuid \<Rightarrow> uuid \<Rightarrow> string \<Rightarrow> Approval tx" where
  "request_or_existing newid taskID reason d =
     (case RequestApproval newid taskID reason d of
        Inr r \<Rightarrow> Inr r
      | Inl e \<Rightarrow> if e = ErrAlreadyExists then Inl ErrAborted else Inl e)"

definition gate_tx :: "uuid \<Rightarrow> Status \<Rightarrow> uuid \<Rightarrow> string \<Rightarrow> (Approval \<Rightarrow> stamp) \<Rightarrow> Approval tx" where
  "gate_tx taskID current newid reason st =
     tx_seq (if current \<noteq> StatusWaitingApproval
             then TransitionTask taskID current StatusWaitingApproval else tx_return ())
       (tx_then (request_or_existing newid taskID reason)
         (\<lambda>a. tx_seq (appendEvent (st a) taskID None TypeApprovalRequired) (tx_return a)))"

definition claim_tx :: "uuid \<Rightarrow> Status \<Rightarrow> uuid \<Rightarrow> time \<Rightarrow> string \<Rightarrow> time \<Rightarrow> TaskAttempt tx" where
  "claim_tx taskID current newid now owner expires =
     tx_seq (TransitionTask taskID current StatusRunning)
       (tx_then (tx_read (NextAttemptNumber taskID))
         (\<lambda>number. CreateAttempt
            ((NewAttempt newid now taskID number)\<lparr>a_LeaseOwner := owner, a_LeaseExpiresAt := Some expires\<rparr>)))"

definition start_tx ::
    "uuid \<Rightarrow> Status \<Rightarrow> uuid \<Rightarrow> time \<Rightarrow> string \<Rightarrow> time \<Rightarrow> (TaskAttempt \<Rightarrow> stamp) \<Rightarrow> TaskAttempt tx" where
  "start_tx taskID current newid now owner expires st =
     tx_then (claim_tx taskID current newid now owner expires)
       (\<lambda>a. tx_seq (appendEvent (st a) taskID (Some (a_ID a)) TypeTaskStarted) (tx_return a))"

definition worktree_tx :: "bool \<Rightarrow> uuid \<Rightarrow> uuid \<Rightarrow> string \<Rightarrow> Worktree \<Rightarrow> stamp \<Rightarrow> Worktree tx" where
  "worktree_tx attemptOpen taskID attemptID owner w st =
     tx_seq (fence_tx attemptOpen taskID attemptID owner)
       (tx_then (CreateWorktree w)
         (\<lambda>recorded. tx_seq (appendEvent st taskID (Some attemptID) TypeWorktreeCreated) (tx_return recorded)))"

text \<open>The record kept by the run, if it has one, is marked retained, and its event appended.\<close>

definition retain_tx :: "uuid \<Rightarrow> uuid \<Rightarrow> uuid option \<Rightarrow> stamp \<Rightarrow> unit tx" where
  "retain_tx taskID attemptID record st =
     (case record of
        None \<Rightarrow> tx_return ()
      | Some w \<Rightarrow> tx_seq (SetWorktreeStatus w WorktreeRetained)
          (appendEvent st taskID (Some attemptID) TypeWorktreeRetained))"

definition ending_tx ::
    "uuid \<Rightarrow> uuid \<Rightarrow> Status \<Rightarrow> Status \<Rightarrow> AttemptStatus \<Rightarrow> FailureKind \<Rightarrow> string \<Rightarrow> unit tx" where
  "ending_tx taskID attemptID current next status kind message =
     tx_seq (TransitionTask taskID current next) (FinishAttempt attemptID status kind message)"

definition fail_tx ::
    "bool \<Rightarrow> uuid \<Rightarrow> uuid \<Rightarrow> string \<Rightarrow> uuid option \<Rightarrow> stamp \<Rightarrow> Status \<Rightarrow> bool \<Rightarrow> FailureKind \<Rightarrow> string
      \<Rightarrow> stamp \<Rightarrow> unit tx" where
  "fail_tx attemptOpen taskID attemptID owner record st_retain current cancelled kind message st =
     tx_seq (fence_tx attemptOpen taskID attemptID owner)
       (tx_seq (retain_tx taskID attemptID record st_retain)
         (tx_seq (ending_tx taskID attemptID current
                    (if cancelled then StatusCancelled else StatusFailed)
                    (if cancelled then AttemptCancelled else AttemptFailed) kind message)
           (appendEvent st taskID (Some attemptID)
              (if cancelled then TypeTaskCancelled else TypeTaskFailed))))"

definition reuse_tx :: "uuid option \<Rightarrow> string \<Rightarrow> unit tx" where
  "reuse_tx record partial =
     (case record of
        None \<Rightarrow> tx_return ()
      | Some w \<Rightarrow> tx_seq (if partial \<noteq> [] then SetWorktreeHead w partial else tx_return ())
          (SetWorktreeStatus w WorktreeReused))"

text \<open>What a retry writes once the git work behind the fence is done.\<close>

definition retry_tx ::
    "uuid \<Rightarrow> uuid \<Rightarrow> uuid option \<Rightarrow> string \<Rightarrow> Status \<Rightarrow> FailureKind \<Rightarrow> string \<Rightarrow> stamp \<Rightarrow> unit tx" where
  "retry_tx taskID attemptID record partial current kind message st =
     tx_seq (ending_tx taskID attemptID current StatusReady AttemptFailed kind message)
       (tx_seq (reuse_tx record partial)
         (appendEvent st taskID (Some attemptID) TypeRetryScheduled))"

definition head_tx :: "uuid option \<Rightarrow> string \<Rightarrow> unit tx" where
  "head_tx record commit =
     (case record of None \<Rightarrow> tx_return () | Some w \<Rightarrow> SetWorktreeHead w commit)"

definition succeed_tx :: "uuid \<Rightarrow> uuid \<Rightarrow> stamp \<Rightarrow> unit tx" where
  "succeed_tx taskID attemptID st =
     tx_seq (ending_tx taskID attemptID StatusVerifying StatusSucceeded AttemptSucceeded FailureNone [])
       (appendEvent st taskID (Some attemptID) TypeTaskSucceeded)"

fun finish_each :: "TaskAttempt list \<Rightarrow> AttemptStatus \<Rightarrow> FailureKind \<Rightarrow> string \<Rightarrow> unit tx" where
  "finish_each [] status kind message = tx_return ()"
| "finish_each (a # attempts) status kind message =
     (if a_Status a \<noteq> AttemptRunning then finish_each attempts status kind message
      else tx_seq (FinishAttempt (a_ID a) status kind message) (finish_each attempts status kind message))"

definition finishOpenAttempts :: "uuid \<Rightarrow> AttemptStatus \<Rightarrow> FailureKind \<Rightarrow> string \<Rightarrow> unit tx" where
  "finishOpenAttempts taskID status kind message d =
     finish_each (ListAttempts taskID d) status kind message d"

fun retain_each :: "TaskAttempt list \<Rightarrow> unit tx" where
  "retain_each [] = tx_return ()"
| "retain_each (a # attempts) =
     (\<lambda>d. case GetWorktreeByAttempt (a_ID a) d of
        Inl ErrNotFound \<Rightarrow> retain_each attempts d
      | Inl e \<Rightarrow> Inl e
      | Inr wt \<Rightarrow>
          (if w_Status wt \<noteq> WorktreeActive then retain_each attempts d
           else tx_seq (SetWorktreeStatus (w_ID wt) WorktreeRetained) (retain_each attempts) d))"

definition retainWorktrees :: "uuid \<Rightarrow> unit tx" where
  "retainWorktrees taskID d = retain_each (ListAttempts taskID d) d"

definition runningLeaseOwner :: "uuid \<Rightarrow> db \<Rightarrow> serr + string" where
  "runningLeaseOwner taskID d =
     Inr (case find (\<lambda>a. a_Status a = AttemptRunning) (ListAttempts taskID d) of
            None \<Rightarrow> [] | Some a \<Rightarrow> a_LeaseOwner a)"

definition cancel_tx :: "uuid \<Rightarrow> Status \<Rightarrow> string \<Rightarrow> stamp \<Rightarrow> string tx" where
  "cancel_tx taskID current reason st =
     tx_seq (TransitionTask taskID current StatusCancelled)
       (tx_then (tx_read (runningLeaseOwner taskID))
         (\<lambda>owner. tx_seq (finishOpenAttempts taskID AttemptCancelled FailureCancelled reason)
            (tx_seq (retainWorktrees taskID)
              (tx_seq (appendEvent st taskID None TypeTaskCancelled) (tx_return owner)))))"

definition approve_tx ::
    "uuid \<Rightarrow> Status \<Rightarrow> bool \<Rightarrow> string \<Rightarrow> string \<Rightarrow> stamp \<Rightarrow> Approval tx" where
  "approve_tx taskID current granted decidedBy reason st =
     tx_then (DecideApproval taskID (if granted then ApprovalGranted else ApprovalDenied) decidedBy reason)
       (\<lambda>a. tx_seq (TransitionTask taskID current (if granted then StatusReady else StatusFailed))
          (tx_seq (if granted then tx_return ()
                   else finishOpenAttempts taskID AttemptFailed FailureApprovalDenied ''approval denied'')
            (tx_seq (appendEvent st taskID None (if granted then TypeApprovalGranted else TypeApprovalDenied))
              (tx_return a))))"

end
