(* ===== verification/TaskMachine.thy ===== *)
theory TaskMachine
  imports Vocabulary
begin

text \<open>
  The abstract specification of a task's life: its status, the statuses of its attempts in
  order, the number of retries it allows, and the statuses its history records. The rules are
  what any process may do to it. The invariant says what every task of the system satisfies;
  the refinement theory shows that each transaction of the program is one of these
  steps on the task it touches.
\<close>

record atask =
  at_status :: Status
  at_attempts :: "AttemptStatus list"
  at_max :: int
  at_history :: "Status list"

definition moves_to :: "Status \<Rightarrow> atask \<Rightarrow> atask" where
  "moves_to s a = a\<lparr>at_status := s, at_history := at_history a @ [s]\<rparr>"

definition close_running :: "AttemptStatus \<Rightarrow> AttemptStatus \<Rightarrow> AttemptStatus" where
  "close_running result x = (if x = AttemptRunning then result else x)"

inductive task_step :: "atask \<Rightarrow> atask \<Rightarrow> bool" where
  gate: "CanTransitionTo (at_status a) StatusWaitingApproval \<or> at_status a = StatusWaitingApproval \<Longrightarrow>
    task_step a (moves_to StatusWaitingApproval a)"
| ready: "CanTransitionTo (at_status a) StatusReady \<Longrightarrow> \<not> Active (at_status a) \<Longrightarrow>
    task_step a (moves_to StatusReady a)"
| start: "at_status a = StatusReady \<Longrightarrow>
    task_step a (moves_to StatusRunning (a\<lparr>at_attempts := at_attempts a @ [AttemptRunning]\<rparr>))"
| verify: "at_status a = StatusRunning \<Longrightarrow> task_step a (moves_to StatusVerifying a)"
| succeed: "at_status a = StatusVerifying \<Longrightarrow> at_attempts a = xs @ [AttemptRunning] \<Longrightarrow>
    task_step a (moves_to StatusSucceeded (a\<lparr>at_attempts := xs @ [AttemptSucceeded]\<rparr>))"
| retry: "Active (at_status a) \<Longrightarrow> at_attempts a = xs @ [AttemptRunning] \<Longrightarrow>
    int (length (at_attempts a)) \<le> at_max a \<Longrightarrow>
    task_step a (moves_to StatusReady (a\<lparr>at_attempts := xs @ [AttemptFailed]\<rparr>))"
| failed: "Active (at_status a) \<Longrightarrow> at_attempts a = xs @ [AttemptRunning] \<Longrightarrow>
    task_step a (moves_to StatusFailed (a\<lparr>at_attempts := xs @ [AttemptFailed]\<rparr>))"
| stopped: "Active (at_status a) \<Longrightarrow> at_attempts a = xs @ [AttemptRunning] \<Longrightarrow>
    task_step a (moves_to StatusCancelled (a\<lparr>at_attempts := xs @ [AttemptCancelled]\<rparr>))"
| cancel: "\<not> Terminal (at_status a) \<Longrightarrow>
    task_step a (moves_to StatusCancelled
      (a\<lparr>at_attempts := map (close_running AttemptCancelled) (at_attempts a)\<rparr>))"
| deny: "at_status a = StatusWaitingApproval \<Longrightarrow>
    task_step a (moves_to StatusFailed
      (a\<lparr>at_attempts := map (close_running AttemptFailed) (at_attempts a)\<rparr>))"

inductive_cases task_stepE: "task_step a b"

definition fresh_task :: "int \<Rightarrow> atask" where
  "fresh_task m = \<lparr>at_status = StatusPending, at_attempts = [], at_max = m, at_history = [StatusPending]\<rparr>"

definition idle :: "Status \<Rightarrow> bool" where
  "idle s = (s = StatusPending \<or> s = StatusReady \<or> s = StatusWaitingApproval)"

text \<open>
  The invariant: earlier attempts failed; the last is open exactly while the task is active and
  succeeded exactly when the task did; attempts stay within the allowance; the history,
  repeats aside, is a legal run of the state machine that ends in the present status.
\<close>

definition attempts_ok :: "Status \<Rightarrow> AttemptStatus list \<Rightarrow> bool" where
  "attempts_ok s xs =
     (list_all (\<lambda>x. x = AttemptFailed) (butlast xs)
      \<and> (Active s \<longleftrightarrow> xs \<noteq> [] \<and> last xs = AttemptRunning)
      \<and> (s = StatusSucceeded \<longleftrightarrow> xs \<noteq> [] \<and> last xs = AttemptSucceeded)
      \<and> (idle s \<longrightarrow> list_all (\<lambda>x. x = AttemptFailed) xs))"

definition history_ok :: "Status \<Rightarrow> Status list \<Rightarrow> bool" where
  "history_ok s h = (h \<noteq> [] \<and> hd h = StatusPending \<and> last h = s \<and> legal_history (compact h))"

definition task_ok :: "atask \<Rightarrow> bool" where
  "task_ok a =
     (attempts_ok (at_status a) (at_attempts a)
      \<and> 0 \<le> at_max a
      \<and> int (length (at_attempts a)) \<le> at_max a + (if idle (at_status a) then 0 else 1)
      \<and> history_ok (at_status a) (at_history a))"

lemma moves_to_simps [simp]:
  "at_status (moves_to s a) = s" "at_attempts (moves_to s a) = at_attempts a"
  "at_max (moves_to s a) = at_max a" "at_history (moves_to s a) = at_history a @ [s]"
  by (simp_all add: moves_to_def)

lemma compact_snoc:
  "compact (xs @ [u, v]) = (if u = v then compact (xs @ [u]) else compact (xs @ [u]) @ [v])"
proof (induction xs rule: compact.induct)
  case (3 x y zs)
  then show ?case by (cases "x = y") auto
qed auto

lemma last_compact: "xs \<noteq> [] \<Longrightarrow> last (compact xs) = last xs"
  by (induction xs rule: compact.induct) auto

lemma compact_not_Nil: "xs \<noteq> [] \<Longrightarrow> compact xs \<noteq> []"
  by simp

lemma history_ok_move:
  assumes h: "history_ok s h" and move: "CanTransitionTo s t \<or> s = t"
  shows "history_ok t (h @ [t])"
proof -
  have ne: "h \<noteq> []" and last: "last h = s" and legal: "legal_history (compact h)" and hd: "hd h = StatusPending"
    using h by (simp_all add: history_ok_def)
  obtain g where g: "h = g @ [s]" using ne last by (metis append_butlast_last_id)
  obtain c where c: "compact h = c @ [s]"
    using ne last last_compact [OF ne] by (metis append_butlast_last_id compact_Nil_iff)
  have "legal_history (compact (h @ [t]))"
  proof (cases "s = t")
    case True
    then show ?thesis using legal by (simp add: g compact_snoc)
  next
    case False
    with move have "CanTransitionTo s t" by simp
    then have "legal_history (c @ [s, t])" using legal c by (intro legal_history_append) simp_all
    moreover have "compact (h @ [t]) = compact h @ [t]" using False by (simp add: g compact_snoc)
    ultimately show ?thesis using c by simp
  qed
  then show ?thesis using ne hd by (simp add: history_ok_def)
qed

lemma list_all_butlast: "list_all P xs \<Longrightarrow> list_all P (butlast xs)"
  by (auto simp: list_all_iff dest: in_set_butlastD)

lemma close_running_ok:
  assumes "attempts_ok s xs"
  shows "map (close_running result) xs =
    (if Active s then butlast xs @ [result] else xs)"
proof -
  have fail: "map (close_running result) ys = ys" if "list_all (\<lambda>x. x = AttemptFailed) ys" for ys
    using that by (induction ys) (simp_all add: close_running_def)
  show ?thesis
  proof (cases xs rule: rev_cases)
    case Nil
    with assms show ?thesis by (simp add: attempts_ok_def)
  next
    case (snoc ys y)
    with assms have "list_all (\<lambda>x. x = AttemptFailed) ys" "Active s \<longleftrightarrow> y = AttemptRunning"
      by (simp_all add: attempts_ok_def)
    with snoc fail show ?thesis by (simp add: close_running_def)
  qed
qed

lemma active_moves:
  "Active s \<Longrightarrow> CanTransitionTo s StatusReady" "Active s \<Longrightarrow> CanTransitionTo s StatusFailed"
  "Active s \<Longrightarrow> CanTransitionTo s StatusCancelled"
  "CanTransitionTo StatusWaitingApproval StatusFailed"
  by (auto simp: Active_def CanTransitionTo_def)

lemma step_legal:
  assumes "task_step a b"
  shows "at_history b = at_history a @ [at_status b]
    \<and> (CanTransitionTo (at_status a) (at_status b) \<or> at_status a = at_status b)"
  using assms
  by (cases rule: task_step.cases)
    (auto simp: to_Running_from to_Verifying_from to_Succeeded_from to_Cancelled_from active_moves
      dest: Active_not_Terminal simp del: Terminal_iff)

lemma task_ok_fresh: "0 \<le> m \<Longrightarrow> task_ok (fresh_task m)"
  by (simp add: task_ok_def fresh_task_def attempts_ok_def history_ok_def Active_def idle_def)

lemma step_max: "task_step a b \<Longrightarrow> at_max b = at_max a"
  by (cases rule: task_step.cases) auto

lemma attempts_ok_idle:
  "attempts_ok s xs \<Longrightarrow> idle s \<Longrightarrow> idle t \<Longrightarrow> attempts_ok t xs"
  by (auto simp: attempts_ok_def idle_def Active_def list_all_iff)

lemma idle_from:
  "CanTransitionTo s StatusWaitingApproval \<Longrightarrow> idle s"
  "CanTransitionTo s StatusReady \<Longrightarrow> \<not> Active s \<Longrightarrow> idle s"
  by (cases s; simp add: CanTransitionTo_def idle_def Active_def)+

lemma not_idle [simp]:
  "\<not> idle StatusRunning" "\<not> idle StatusVerifying" "\<not> idle StatusSucceeded" "\<not> idle StatusFailed"
  "\<not> idle StatusCancelled" "idle StatusReady" "idle StatusWaitingApproval" "idle StatusPending"
  by (simp_all add: idle_def)

lemma attempts_ok_snoc:
  "attempts_ok s (xs @ [x]) \<longleftrightarrow>
     list_all (\<lambda>x. x = AttemptFailed) xs \<and> (Active s \<longleftrightarrow> x = AttemptRunning)
     \<and> (s = StatusSucceeded \<longleftrightarrow> x = AttemptSucceeded) \<and> (idle s \<longrightarrow> x = AttemptFailed)"
  by (auto simp: attempts_ok_def)

lemma Active_statuses [simp]:
  "Active StatusRunning" "Active StatusVerifying" "\<not> Active StatusReady" "\<not> Active StatusFailed"
  "\<not> Active StatusCancelled" "\<not> Active StatusSucceeded" "\<not> Active StatusPending"
  "\<not> Active StatusWaitingApproval"
  by (simp_all add: Active_def)

lemma step_attempts:
  assumes step: "task_step a b" and ok: "task_ok a"
  shows "attempts_ok (at_status b) (at_attempts b)
    \<and> int (length (at_attempts b)) \<le> at_max b + (if idle (at_status b) then 0 else 1)"
proof -
  have at: "attempts_ok (at_status a) (at_attempts a)"
    and len: "int (length (at_attempts a)) \<le> at_max a + (if idle (at_status a) then 0 else 1)"
    using ok by (simp_all add: task_ok_def)
  from step show ?thesis
  proof cases
    case gate
    then have "idle (at_status a)" using idle_from(1) by (auto simp: idle_def)
    with at len gate show ?thesis by (auto intro: attempts_ok_idle)
  next
    case ready
    then have "idle (at_status a)" using idle_from(2) by auto
    with at len ready show ?thesis by (auto intro: attempts_ok_idle)
  next
    case start
    with at have "list_all (\<lambda>x. x = AttemptFailed) (at_attempts a)" by (simp add: attempts_ok_def)
    with len start show ?thesis by (simp add: attempts_ok_snoc)
  next
    case verify
    with at len show ?thesis by (auto simp: attempts_ok_def)
  next
    case (succeed xs)
    with at len show ?thesis by (simp add: attempts_ok_snoc)
  next
    case (retry xs)
    with at len show ?thesis by (simp add: attempts_ok_snoc)
  next
    case (failed xs)
    with at len show ?thesis by (auto simp: attempts_ok_snoc Active_def split: if_splits)
  next
    case (stopped xs)
    with at len show ?thesis by (auto simp: attempts_ok_snoc Active_def split: if_splits)
  next
    case cancel
    have closed: "map (close_running AttemptCancelled) (at_attempts a)
        = (if Active (at_status a) then butlast (at_attempts a) @ [AttemptCancelled] else at_attempts a)"
      by (rule close_running_ok [OF at])
    show ?thesis
    proof (cases "Active (at_status a)")
      case True
      with at have "list_all (\<lambda>x. x = AttemptFailed) (butlast (at_attempts a))" "at_attempts a \<noteq> []"
        by (simp_all add: attempts_ok_def)
      with True len cancel closed show ?thesis
        by (cases "at_attempts a" rule: rev_cases) (auto simp: attempts_ok_snoc Active_def)
    next
      case False
      with cancel(2) have "idle (at_status a)" by (cases "at_status a") simp_all
      with at have "list_all (\<lambda>x. x = AttemptFailed) (at_attempts a)" by (simp add: attempts_ok_def)
      then have "attempts_ok StatusCancelled (at_attempts a)"
        by (cases "at_attempts a" rule: rev_cases) (simp_all add: attempts_ok_def)
      with False len cancel closed \<open>idle (at_status a)\<close> show ?thesis by simp
    qed
  next
    case deny
    have "map (close_running AttemptFailed) (at_attempts a) = at_attempts a"
      using close_running_ok [OF at] deny by simp
    moreover have "attempts_ok StatusFailed (at_attempts a)"
      using at deny by (cases "at_attempts a" rule: rev_cases) (simp_all add: attempts_ok_def)
    ultimately show ?thesis using len deny by simp
  qed
qed

lemma step_task_ok:
  assumes step: "task_step a b" and ok: "task_ok a"
  shows "task_ok b"
proof -
  have "history_ok (at_status b) (at_history a @ [at_status b])"
  proof (rule history_ok_move)
    show "history_ok (at_status a) (at_history a)" using ok by (simp add: task_ok_def)
    show "CanTransitionTo (at_status a) (at_status b) \<or> at_status a = at_status b"
      using step_legal [OF step] by simp
  qed
  then show ?thesis
    using step_legal [OF step] step_attempts [OF step ok] step_max [OF step] ok
    by (simp add: task_ok_def)
qed

lemma terminal_stuck: "task_step a b \<Longrightarrow> \<not> Terminal (at_status a)"
  by (cases rule: task_step.cases) (auto simp: Active_def CanTransitionTo_def)

end
