(* ===== verification/Refinement.thy ===== *)
theory Refinement
  imports Lifecycle TaskMachine
begin

text \<open>
  The system: any number of processes, each committing the transactions of the lifecycle one
  at a time, in any order. The abstraction reads a task of the specification off the
  database; the simulation shows that every step of the system is a step of the specification
  for at most one task and nothing for the others. The invariants of the specification then
  hold of every reachable database.
\<close>

section \<open>Steps of the system\<close>

text \<open>The status a lifecycle event announces; every other event is a report.\<close>

fun event_status :: "EventType \<Rightarrow> Status option" where
  "event_status TypeTaskCreated = Some StatusPending"
| "event_status TypeTaskReady = Some StatusReady"
| "event_status TypeTaskStarted = Some StatusRunning"
| "event_status TypeTaskSucceeded = Some StatusSucceeded"
| "event_status TypeTaskFailed = Some StatusFailed"
| "event_status TypeTaskCancelled = Some StatusCancelled"
| "event_status TypeRetryScheduled = Some StatusReady"
| "event_status TypeVerificationStarted = Some StatusVerifying"
| "event_status TypeApprovalRequired = Some StatusWaitingApproval"
| "event_status TypeApprovalGranted = Some StatusReady"
| "event_status TypeApprovalDenied = Some StatusFailed"
| "event_status _ = None"

text \<open>What neither the lifecycle nor the log sees: leases, records of runs, projects, the clock.\<close>

definition same_attempt :: "TaskAttempt \<Rightarrow> TaskAttempt \<Rightarrow> bool" where
  "same_attempt a b =
     (a_ID b = a_ID a \<and> a_TaskID b = a_TaskID a \<and> a_AttemptNumber b = a_AttemptNumber a)"

definition quiet :: "db \<Rightarrow> db \<Rightarrow> bool" where
  "quiet d e =
     (db_tasks e = db_tasks d \<and> db_events e = db_events d \<and> db_seq e = db_seq d
      \<and> list_all2 (\<lambda>a b. same_attempt a b \<and> a_Status b = a_Status a) (db_attempts d) (db_attempts e))"

text \<open>An attempt a process names for a task is one of that task's.\<close>

definition own_attempt :: "db \<Rightarrow> uuid \<Rightarrow> uuid \<Rightarrow> bool" where
  "own_attempt d i aid = (\<forall>a \<in> set (db_attempts d). a_ID a = aid \<longrightarrow> a_TaskID a = i)"

text \<open>
  The premises are what the code around the transactions guarantees: a task is created pending,
  an attempt named for a task is that task's, a retry is within the allowance. One premise is an
  assumption on timing the code does not enforce: a gate asked for by a process that read the
  task as waiting finds it still waiting (what happens otherwise is shown further on).
\<close>

inductive sys_step :: "db \<Rightarrow> db \<Rightarrow> bool" where
  create_task: "create_tx built st d = Inr (t, e) \<Longrightarrow> t_Status built = StatusPending \<Longrightarrow> sys_step d e"
| gate_task: "gate_tx i cur newid reason gst d = Inr (p, e) \<Longrightarrow>
    (cur = StatusWaitingApproval \<longrightarrow> (\<exists>t \<in> set (db_tasks d). t_ID t = i \<and> t_Status t = cur)) \<Longrightarrow> sys_step d e"
| ready_task: "transition_tx False i aid owner cur StatusReady TypeTaskReady ev d = Inr ((), e) \<Longrightarrow>
    \<not> Active cur \<Longrightarrow> own_attempt d i aid \<Longrightarrow> sys_step d e"
| start_task: "start_tx i cur newid now owner expires ast d = Inr (a, e) \<Longrightarrow> sys_step d e"
| verify_task: "transition_tx True i aid owner cur StatusVerifying TypeVerificationStarted ev d = Inr ((), e) \<Longrightarrow>
    sys_step d e"
| inform: "emit_tx opn i aid owner ty ev d = Inr ((), e) \<Longrightarrow> event_status ty = None \<Longrightarrow> own_attempt d i aid \<Longrightarrow> sys_step d e"
| remark: "appendEvent ev i None ty d = Inr ((), e) \<Longrightarrow> event_status ty = None \<Longrightarrow> sys_step d e"
| worktree: "worktree_tx opn i aid owner w ev d = Inr (v, e) \<Longrightarrow> own_attempt d i aid \<Longrightarrow> sys_step d e"
| retain: "tx_seq (fence_tx opn i aid owner) (retain_tx i aid record ev) d = Inr ((), e) \<Longrightarrow> own_attempt d i aid \<Longrightarrow> sys_step d e"
| fail_task: "fail_tx True i aid owner record ev cur cancelled kind message ev2 d = Inr ((), e) \<Longrightarrow> sys_step d e"
| retry_task: "tx_seq (fence_tx True i aid owner) (retry_tx i aid record partial cur kind message ev) d = Inr ((), e) \<Longrightarrow>
    a \<in> set (db_attempts d) \<Longrightarrow> a_ID a = aid \<Longrightarrow> t \<in> set (db_tasks d) \<Longrightarrow> t_ID t = i \<Longrightarrow>
    int (a_AttemptNumber a) \<le> t_MaxRetries t \<Longrightarrow> sys_step d e"
| succeed_task: "tx_seq (fence_tx True i aid owner) (tx_seq (head_tx record commit) (succeed_tx i aid ev)) d = Inr ((), e) \<Longrightarrow>
    sys_step d e"
| cancel_task: "cancel_tx i cur reason ev d = Inr (owner, e) \<Longrightarrow> sys_step d e"
| approve_task: "approve_tx i cur granted by reason ev d = Inr (p, e) \<Longrightarrow> cur = StatusWaitingApproval \<Longrightarrow> sys_step d e"
| quiet_step: "quiet d e \<Longrightarrow> sys_step d e"

inductive reachable :: "db \<Rightarrow> bool" where
  initially: "reachable empty_db"
| system: "reachable d \<Longrightarrow> sys_step d e \<Longrightarrow> reachable e"
| delete: "reachable d \<Longrightarrow> delete_body i d = Inr ((), e) \<Longrightarrow> reachable e"

section \<open>The abstraction and the invariant\<close>

definition events_of :: "db \<Rightarrow> uuid \<Rightarrow> Event list" where
  "events_of d i = filter (\<lambda>e. e_TaskID e = i) (db_events d)"

definition history_of :: "db \<Rightarrow> uuid \<Rightarrow> Status list" where
  "history_of d i = List.map_filter (\<lambda>e. event_status (e_Type e)) (events_of d i)"

definition abs_task :: "db \<Rightarrow> Task \<Rightarrow> atask" where
  "abs_task d t =
     \<lparr>at_status = t_Status t, at_attempts = map a_Status (attempts_of d (t_ID t)),
      at_max = t_MaxRetries t, at_history = history_of d (t_ID t)\<rparr>"

definition has_task :: "db \<Rightarrow> uuid \<Rightarrow> bool" where
  "has_task d i = (\<exists>t \<in> set (db_tasks d). t_ID t = i)"

definition of_attempt :: "TaskAttempt list \<Rightarrow> Event \<Rightarrow> bool" where
  "of_attempt as v =
     (case e_AttemptID v of None \<Rightarrow> True
      | Some x \<Rightarrow> \<exists>a \<in> set as. a_ID a = x \<and> a_TaskID a = e_TaskID v)"

definition well_formed :: "db \<Rightarrow> bool" where
  "well_formed d =
     (distinct (map t_ID (db_tasks d)) \<and> distinct (map a_ID (db_attempts d))
      \<and> (\<forall>a \<in> set (db_attempts d). has_task d (a_TaskID a))
      \<and> (\<forall>e \<in> set (db_events d). has_task d (e_TaskID e) \<and> of_attempt (db_attempts d) e)
      \<and> (\<forall>i. map a_AttemptNumber (attempts_of d i) = [1..<Suc (length (attempts_of d i))])
      \<and> ascending (map e_Seq (db_events d)) \<and> (\<forall>e \<in> set (db_events d). e_Seq e \<le> db_seq d))"

definition db_ok :: "db \<Rightarrow> bool" where
  "db_ok d = (well_formed d \<and> (\<forall>t \<in> set (db_tasks d). task_ok (abs_task d t)))"

section \<open>What a transaction does to the lifecycle\<close>

definition same_task :: "Task \<Rightarrow> Task \<Rightarrow> bool" where
  "same_task t u =
     (t_ID u = t_ID t \<and> t_MaxRetries u = t_MaxRetries t \<and> t_ProjectID u = t_ProjectID t
      \<and> t_Ref u = t_Ref t)"

text \<open>
  Task \<open>i\<close> gets the status \<open>s\<close> (or keeps its own), its attempts the statuses \<open>f\<close>, the attempts
  \<open>new\<close> are added, and events of the types \<open>tys\<close> are appended for it. Nothing else moves.
\<close>

definition tasks_moved :: "uuid \<Rightarrow> Status option \<Rightarrow> db \<Rightarrow> db \<Rightarrow> bool" where
  "tasks_moved i s d e =
     list_all2 (\<lambda>t u. same_task t u \<and> t_Status u =
        (if t_ID t = i then (case s of None \<Rightarrow> t_Status t | Some s \<Rightarrow> s) else t_Status t))
       (db_tasks d) (db_tasks e)"

definition attempts_moved :: "uuid \<Rightarrow> (TaskAttempt \<Rightarrow> AttemptStatus) \<Rightarrow> TaskAttempt list \<Rightarrow> db \<Rightarrow> db \<Rightarrow> bool" where
  "attempts_moved i f new d e =
     (\<exists>old. db_attempts e = old @ new \<and>
        list_all2 (\<lambda>a b. same_attempt a b \<and> a_Status b = (if a_TaskID a = i then f a else a_Status a))
          (db_attempts d) old)"

definition events_added :: "uuid \<Rightarrow> EventType list \<Rightarrow> db \<Rightarrow> db \<Rightarrow> bool" where
  "events_added i tys d e =
     (\<exists>new. db_events e = db_events d @ new \<and> map e_Type new = tys \<and> (\<forall>v \<in> set new. e_TaskID v = i)
        \<and> (\<forall>v \<in> set new. of_attempt (db_attempts e) v)
        \<and> ascending (map e_Seq new) \<and> (\<forall>v \<in> set new. db_seq d < e_Seq v \<and> e_Seq v \<le> db_seq e)
        \<and> db_seq d \<le> db_seq e)"

definition moved :: "uuid \<Rightarrow> Status option \<Rightarrow> (TaskAttempt \<Rightarrow> AttemptStatus) \<Rightarrow> TaskAttempt list
    \<Rightarrow> EventType list \<Rightarrow> db \<Rightarrow> db \<Rightarrow> bool" where
  "moved i s f new tys d e = (tasks_moved i s d e \<and> attempts_moved i f new d e \<and> events_added i tys d e)"

lemma list_all2_map_fun: "list_all2 (\<lambda>x y. g y = h x) xs ys \<Longrightarrow> map g ys = map h xs"
  by (induction rule: list_all2_induct) auto

lemma list_all2_member: "list_all2 P xs ys \<Longrightarrow> y \<in> set ys \<Longrightarrow> \<exists>x \<in> set xs. P x y"
  by (induction rule: list_all2_induct) auto

lemma map_filter_append:
  "List.map_filter g (xs @ ys) = List.map_filter g xs @ List.map_filter g ys"
  by (simp add: List.map_filter_def)

lemma map_filter_map: "List.map_filter g (map h xs) = List.map_filter (\<lambda>x. g (h x)) xs"
  by (simp add: List.map_filter_def filter_map comp_def)

lemma list_all2_update:
  "list_all2 P xs (update_where q f xs) \<longleftrightarrow> (\<forall>x \<in> set xs. P x (if q x then f x else x))"
  by (induction xs) auto

lemma list_all2_id: "(\<And>x. P x x) \<Longrightarrow> list_all2 P xs xs"
  by (induction xs) auto

lemma tasks_moved_ids: "tasks_moved i s d e \<Longrightarrow> map t_ID (db_tasks e) = map t_ID (db_tasks d)"
  unfolding tasks_moved_def
  by (rule list_all2_map_fun) (auto simp: same_task_def elim!: list_all2_mono)

lemma tasks_moved_has: "tasks_moved i s d e \<Longrightarrow> has_task e j = has_task d j"
  using tasks_moved_ids [of i s d e] by (metis has_task_def image_iff list.set_map)

lemma tasks_moved_row:
  assumes "tasks_moved i s d e" "u \<in> set (db_tasks e)"
  shows "\<exists>t \<in> set (db_tasks d). same_task t u \<and> t_Status u =
      (if t_ID t = i then (case s of None \<Rightarrow> t_Status t | Some s \<Rightarrow> s) else t_Status t)"
  using list_all2_member [OF assms [unfolded tasks_moved_def]] .

lemma attempts_moved_of:
  assumes "attempts_moved i f new d e" "\<forall>b \<in> set new. a_TaskID b = i"
  shows "map a_Status (attempts_of e j) =
      map (if j = i then f else a_Status) (attempts_of d j) @ (if j = i then map a_Status new else [])"
    and "map a_AttemptNumber (attempts_of e j) =
      map a_AttemptNumber (attempts_of d j) @ (if j = i then map a_AttemptNumber new else [])"
proof -
  obtain old where e: "db_attempts e = old @ new"
    and old: "list_all2 (\<lambda>a b. same_attempt a b \<and> a_Status b = (if a_TaskID a = i then f a else a_Status a))
      (db_attempts d) old"
    using assms(1) by (auto simp: attempts_moved_def)
  have new: "filter (\<lambda>a. a_TaskID a = j) new = (if j = i then new else [])"
    using assms(2) by (auto simp: filter_id_conv filter_empty_conv)
  have "map a_Status (filter (\<lambda>a. a_TaskID a = j) old)
        = map (if j = i then f else a_Status) (filter (\<lambda>a. a_TaskID a = j) (db_attempts d))
      \<and> map a_AttemptNumber (filter (\<lambda>a. a_TaskID a = j) old)
        = map a_AttemptNumber (filter (\<lambda>a. a_TaskID a = j) (db_attempts d))"
    using old by (induction rule: list_all2_induct) (auto simp: same_attempt_def)
  then show "map a_Status (attempts_of e j) =
      map (if j = i then f else a_Status) (attempts_of d j) @ (if j = i then map a_Status new else [])"
    "map a_AttemptNumber (attempts_of e j) =
      map a_AttemptNumber (attempts_of d j) @ (if j = i then map a_AttemptNumber new else [])"
    using new by (auto simp: attempts_of_def e)
qed

lemma attempts_moved_ids:
  "attempts_moved i f new d e \<Longrightarrow> map a_ID (db_attempts e) = map a_ID (db_attempts d) @ map a_ID new"
  by (auto simp: attempts_moved_def same_attempt_def intro!: list_all2_map_fun elim!: list_all2_mono)

lemma attempts_moved_owner:
  assumes "attempts_moved i f new d e" "b \<in> set (db_attempts e)"
  shows "b \<in> set new \<or> (\<exists>a \<in> set (db_attempts d). a_TaskID a = a_TaskID b)"
proof -
  obtain old where e: "db_attempts e = old @ new"
    and old: "list_all2 (\<lambda>a b. same_attempt a b \<and> a_Status b = (if a_TaskID a = i then f a else a_Status a))
      (db_attempts d) old"
    using assms(1) by (auto simp: attempts_moved_def)
  show ?thesis
  proof (cases "b \<in> set old")
    case True
    from list_all2_member [OF old True] show ?thesis by (auto simp: same_attempt_def)
  next
    case False
    with assms(2) e show ?thesis by simp
  qed
qed

lemma attempts_moved_keep:
  assumes "attempts_moved i f new d e" "a \<in> set (db_attempts d)"
  shows "\<exists>b \<in> set (db_attempts e). a_ID b = a_ID a \<and> a_TaskID b = a_TaskID a"
proof -
  obtain old where e: "db_attempts e = old @ new"
    and old: "list_all2 (\<lambda>a b. same_attempt a b \<and> a_Status b = (if a_TaskID a = i then f a else a_Status a))
      (db_attempts d) old"
    using assms(1) by (auto simp: attempts_moved_def)
  have "\<exists>b \<in> set old. a_ID b = a_ID a \<and> a_TaskID b = a_TaskID a"
    using old assms(2) by (induction rule: list_all2_induct) (auto simp: same_attempt_def)
  with e show ?thesis by auto
qed

lemma of_attempt_keep:
  assumes "attempts_moved i f new d e" "of_attempt (db_attempts d) v"
  shows "of_attempt (db_attempts e) v"
  using assms(2) attempts_moved_keep [OF assms(1)]
  by (auto simp: of_attempt_def split: option.splits) metis

lemma events_added_history:
  assumes "events_added i tys d e"
  shows "history_of e j = history_of d j @ (if j = i then List.map_filter event_status tys else [])"
proof -
  obtain new where e: "db_events e = db_events d @ new" and tys: "map e_Type new = tys"
    and new: "\<forall>v \<in> set new. e_TaskID v = i"
    using assms by (auto simp: events_added_def)
  have "filter (\<lambda>e. e_TaskID e = j) new = (if j = i then new else [])"
    using new by (auto simp: filter_id_conv filter_empty_conv)
  moreover have "List.map_filter (\<lambda>e. event_status (e_Type e)) new = List.map_filter event_status tys"
    by (simp only: tys [symmetric] map_filter_map)
  ultimately show ?thesis
    by (simp add: history_of_def events_of_def e map_filter_append)
qed

lemma attempts_of_length: "map g (attempts_of d j) = xs \<Longrightarrow> length (attempts_of d j) = length xs"
  by (auto simp: map_eq_conv dest: arg_cong [of _ _ length])

text \<open>The simulation, stated once for every transaction that moves a task.\<close>

lemma moved_structure:
  assumes m: "moved i s f new tys d e" and st: "well_formed d"
    and new: "new = [] \<or> (\<exists>b. new = [b] \<and> a_TaskID b = i \<and> a_ID b \<notin> set (map a_ID (db_attempts d))
      \<and> a_AttemptNumber b = Suc (length (attempts_of d i)))"
    and has: "has_task d i \<or> (new = [] \<and> tys = [])"
  shows "well_formed e"
proof -
  have t: "tasks_moved i s d e" and a: "attempts_moved i f new d e" and ev: "events_added i tys d e"
    using m by (simp_all add: moved_def)
  have own: "\<forall>b \<in> set new. a_TaskID b = i" using new by auto
  have num: "map a_AttemptNumber (attempts_of e j) = [1..<Suc (length (attempts_of e j))]" for j
  proof -
    have n: "map a_AttemptNumber (attempts_of e j) = map a_AttemptNumber (attempts_of d j)
        @ (if j = i then map a_AttemptNumber new else [])"
      by (rule attempts_moved_of(2) [OF a own])
    have dd: "map a_AttemptNumber (attempts_of d j) = [1..<Suc (length (attempts_of d j))]"
      using st by (simp add: well_formed_def del: upt_Suc)
    have len: "length (attempts_of e j) = length (attempts_of d j) + (if j = i then length new else 0)"
      using arg_cong [OF n, of length] by (simp split: if_splits)
    show ?thesis using n dd len new by (auto split: if_splits)
  qed
  obtain nev where nev: "db_events e = db_events d @ nev" "map e_Type nev = tys" "\<forall>v \<in> set nev. e_TaskID v = i"
    "\<forall>v \<in> set nev. of_attempt (db_attempts e) v"
    "ascending (map e_Seq nev)" "\<forall>v \<in> set nev. db_seq d < e_Seq v \<and> e_Seq v \<le> db_seq e" "db_seq d \<le> db_seq e"
    using ev by (auto simp: events_added_def)
  have "ascending (map e_Seq (db_events e))" "\<forall>v \<in> set (db_events e). e_Seq v \<le> db_seq e"
    using nev st by (fastforce simp: well_formed_def sorted_wrt_append)+
  moreover have "\<forall>v \<in> set (db_events e). has_task e (e_TaskID v) \<and> of_attempt (db_attempts e) v"
    using nev st has of_attempt_keep [OF a] by (auto simp: well_formed_def tasks_moved_has [OF t])
  moreover have "\<forall>b \<in> set (db_attempts e). has_task e (a_TaskID b)"
    using attempts_moved_owner [OF a] st has own by (fastforce simp: well_formed_def tasks_moved_has [OF t])
  moreover have "distinct (map t_ID (db_tasks e))"
    using st by (simp only: well_formed_def tasks_moved_ids [OF t])
  moreover have "distinct (map a_ID (db_attempts d))" using st by (simp only: well_formed_def)
  then have "distinct (map a_ID (db_attempts e))"
    using new by (auto simp: attempts_moved_ids [OF a] simp del: set_map)
  ultimately show ?thesis using num by (simp add: well_formed_def del: upt_Suc)
qed

definition abs_after :: "Status option \<Rightarrow> (TaskAttempt \<Rightarrow> AttemptStatus) \<Rightarrow> TaskAttempt list \<Rightarrow> EventType list
    \<Rightarrow> db \<Rightarrow> Task \<Rightarrow> atask" where
  "abs_after s f new tys d t =
     \<lparr>at_status = (case s of None \<Rightarrow> t_Status t | Some s \<Rightarrow> s),
      at_attempts = map f (attempts_of d (t_ID t)) @ map a_Status new,
      at_max = t_MaxRetries t,
      at_history = history_of d (t_ID t) @ List.map_filter event_status tys\<rparr>"

lemma moved_abs:
  assumes m: "moved i s f new tys d e" and own: "\<forall>b \<in> set new. a_TaskID b = i"
    and u: "u \<in> set (db_tasks e)"
  shows "\<exists>t \<in> set (db_tasks d). t_ID t = t_ID u \<and>
    abs_task e u = (if t_ID t = i then abs_after s f new tys d t else abs_task d t)"
proof -
  have t: "tasks_moved i s d e" and a: "attempts_moved i f new d e" and ev: "events_added i tys d e"
    using m by (simp_all add: moved_def)
  obtain t where t: "t \<in> set (db_tasks d)" "same_task t u" "t_Status u =
      (if t_ID t = i then (case s of None \<Rightarrow> t_Status t | Some s \<Rightarrow> s) else t_Status t)"
    using tasks_moved_row [OF t u] by blast
  then have "abs_task e u = (if t_ID t = i then abs_after s f new tys d t else abs_task d t)"
    using attempts_moved_of(1) [OF a own] events_added_history [OF ev]
    by (auto simp: abs_task_def abs_after_def same_task_def)
  with t show ?thesis by (auto simp: same_task_def)
qed

end
