(* ===== verification/Simulation.thy ===== *)
theory Simulation
  imports Refinement
begin

text \<open>
  Every transaction of the lifecycle is a step of the specification for the task it is about
  and leaves every other task as it was. From this the invariant of the specification holds
  of every task of every reachable database.
\<close>

section \<open>What the operations write\<close>

lemma TransitionTask_Inr:
  assumes "TransitionTask i s t d = Inr (u, e)"
  shows "CanTransitionTo s t" "\<exists>r \<in> set (db_tasks d). t_ID r = i \<and> t_Status r = s"
    "e = d\<lparr>db_tasks := update_where (\<lambda>r. t_ID r = i \<and> t_Status r = s)
             (\<lambda>r. r\<lparr>t_Status := t, t_UpdatedAt := db_now d\<rparr>) (db_tasks d)\<rparr>"
  using assms by (auto simp: TransitionTask_def GetTask_def split: if_splits option.splits)

lemma task_row_member: "task_row d i \<noteq> None \<longleftrightarrow> has_task d i"
  by (auto simp: task_row_def has_task_def find_None_iff)

lemma attempt_exists_iff: "attempt_exists d i \<longleftrightarrow> (\<exists>a \<in> set (db_attempts d). a_ID a = i)"
  by (auto simp: attempt_exists_def attempt_row_def find_None_iff)

lemma appendEvent_Inr:
  assumes "appendEvent st i aid ty d = Inr (u, e)"
  shows "\<exists>v. e = d\<lparr>db_events := db_events d @ [v], db_seq := db_seq d + 1\<rparr> \<and> e_TaskID v = i
    \<and> e_AttemptID v = aid \<and> e_Type v = ty \<and> e_Seq v = db_seq d + 1 \<and> has_task d i
    \<and> (\<forall>x. aid = Some x \<longrightarrow> (\<exists>a \<in> set (db_attempts d). a_ID a = x))"
proof -
  obtain newid now pay where st: "st = (newid, now, pay)" by (cases st)
  obtain ev where ev: "New_event newid now i aid ty pay = Inr ev"
    and app: "tx_then (AppendEvent ev) (\<lambda>_. tx_return ()) d = Inr (u, e)"
    using assms unfolding appendEvent_def st by (auto simp: tx_iffs split: sum.splits)
  have "e_TaskID ev = i" "e_AttemptID ev = aid" "e_Type ev = ty"
    using ev by (auto simp: New_event_def split: if_splits)
  moreover obtain row where "AppendEvent ev d = Inr (row, e)" using app by (auto simp: tx_iffs)
  ultimately show ?thesis
    using task_row_member [of d i] attempt_exists_iff [of d]
    by (auto simp: AppendEvent_def Let_def split: if_splits option.splits)
qed

lemma fence_Inr:
  assumes "fence_tx opn i aid owner d = Inr (u, e)"
  shows "e = d" "opn \<Longrightarrow> \<exists>a \<in> set (db_attempts d). holds_lease i aid owner a"
  using assms by (auto simp: fence_tx_def HoldLease_def tx_iffs split: if_splits)

lemma FinishAttempt_Inr:
  assumes "FinishAttempt aid s k m d = Inr (u, e)"
  shows "s \<noteq> AttemptRunning" "\<exists>a \<in> set (db_attempts d). a_ID a = aid \<and> a_Status a = AttemptRunning"
    "e = d\<lparr>db_attempts := update_where (\<lambda>a. a_ID a = aid \<and> a_Status a = AttemptRunning)
             (\<lambda>a. a\<lparr>a_Status := s, a_FailureKind := k, a_Error := m, a_FinishedAt := Some (db_now d)\<rparr>)
             (db_attempts d)\<rparr>"
  using assms by (auto simp: FinishAttempt_def split: if_splits)

text \<open>What only touches records the lifecycle does not read.\<close>

definition aside :: "db \<Rightarrow> db \<Rightarrow> bool" where
  "aside d e =
     (db_tasks e = db_tasks d \<and> db_attempts e = db_attempts d \<and> db_events e = db_events d
      \<and> db_seq e = db_seq d \<and> db_now e = db_now d)"

lemma aside_trans: "aside d e \<Longrightarrow> aside e f \<Longrightarrow> aside d f"
  by (simp add: aside_def)

lemma aside_refl: "aside d d"
  by (simp add: aside_def)

lemma set_worktree_aside: "set_worktree i f d = Inr (u, e) \<Longrightarrow> aside d e"
  by (auto simp: set_worktree_def aside_def split: if_splits)

lemma worktree_ops_aside:
  "SetWorktreeHead i h d = Inr (u, e) \<Longrightarrow> aside d e"
  "SetWorktreeStatus i s d = Inr (u, e) \<Longrightarrow> aside d e"
  by (auto simp: SetWorktreeHead_def SetWorktreeStatus_def Let_def intro: set_worktree_aside)

lemma head_aside: "head_tx record commit d = Inr (u, e) \<Longrightarrow> aside d e"
  by (auto simp: head_tx_def tx_iffs aside_refl intro: worktree_ops_aside split: option.splits)

lemma reuse_aside: "reuse_tx record partial d = Inr (u, e) \<Longrightarrow> aside d e"
  by (auto simp: reuse_tx_def tx_iffs aside_refl intro: aside_trans worktree_ops_aside
      split: option.splits if_splits)

lemma retain_each_aside: "retain_each as d = Inr (u, e) \<Longrightarrow> aside d e"
proof (induction as arbitrary: d)
  case Nil
  then show ?case by (simp add: tx_iffs aside_refl)
next
  case (Cons a as)
  show ?case
  proof (cases "GetWorktreeByAttempt (a_ID a) d")
    case (Inl err)
    with Cons show ?thesis by (cases err) auto
  next
    case (Inr w)
    with Cons show ?thesis
      by (auto simp: tx_iffs intro: aside_trans worktree_ops_aside split: if_splits)
  qed
qed

lemma retainWorktrees_aside: "retainWorktrees i d = Inr (u, e) \<Longrightarrow> aside d e"
  unfolding retainWorktrees_def by (rule retain_each_aside)

lemma CreateWorktree_aside: "CreateWorktree w d = Inr (u, e) \<Longrightarrow> aside d e"
  by (auto simp: CreateWorktree_def aside_def Let_def split: if_splits)

lemma approvals_aside:
  "RequestApproval n i r d = Inr (p, e) \<Longrightarrow> aside d e"
  "DecideApproval i s b r d = Inr (p, e) \<Longrightarrow> aside d e"
  by (auto simp: RequestApproval_def DecideApproval_def aside_def Let_def
      split: if_splits option.splits)

lemma request_or_existing_aside: "request_or_existing n i r d = Inr (p, e) \<Longrightarrow> aside d e"
  by (auto simp: request_or_existing_def intro: approvals_aside split: sum.splits if_splits)

text \<open>Closing every open attempt of a task, one statement each.\<close>

definition closed :: "AttemptStatus \<Rightarrow> FailureKind \<Rightarrow> string \<Rightarrow> time \<Rightarrow> uuid set \<Rightarrow> TaskAttempt list \<Rightarrow> TaskAttempt list" where
  "closed s k m now ids =
     update_where (\<lambda>a. a_ID a \<in> ids \<and> a_Status a = AttemptRunning)
       (\<lambda>a. a\<lparr>a_Status := s, a_FailureKind := k, a_Error := m, a_FinishedAt := Some now\<rparr>)"

lemma closed_empty: "closed s k m now {} as = as"
  by (simp add: closed_def update_where_def)

lemma closed_twice:
  "s \<noteq> AttemptRunning \<Longrightarrow> closed s k m now ids (closed s k m now {x} as) = closed s k m now (insert x ids) as"
  by (induction as) (auto simp: closed_def)

lemma finish_each_Inr:
  assumes "finish_each as s k m d = Inr (u, e)"
  shows "e = d\<lparr>db_attempts := closed s k m (db_now d)
    (a_ID ` {a \<in> set as. a_Status a = AttemptRunning}) (db_attempts d)\<rparr>"
  using assms
proof (induction as arbitrary: d)
  case Nil
  then show ?case by (simp add: tx_iffs closed_empty)
next
  case (Cons a as)
  show ?case
  proof (cases "a_Status a = AttemptRunning")
    case False
    then have "{x \<in> set (a # as). a_Status x = AttemptRunning} = {x \<in> set as. a_Status x = AttemptRunning}"
      by auto
    with False Cons show ?thesis by simp
  next
    case True
    then obtain d' where f: "FinishAttempt (a_ID a) s k m d = Inr ((), d')"
      and rest: "finish_each as s k m d' = Inr (u, e)"
      using Cons.prems by (auto simp: tx_iffs)
    have d': "d' = d\<lparr>db_attempts := closed s k m (db_now d) {a_ID a} (db_attempts d)\<rparr>"
      and s: "s \<noteq> AttemptRunning"
      using FinishAttempt_Inr [OF f] by (auto simp: closed_def)
    have "{x \<in> set (a # as). a_Status x = AttemptRunning} = insert a {x \<in> set as. a_Status x = AttemptRunning}"
      using True by auto
    then show ?thesis using Cons.IH [OF rest] by (simp add: d' closed_twice [OF s])
  qed
qed

lemma finishOpen_Inr:
  assumes "finishOpenAttempts i s k m d = Inr (u, e)"
  shows "e = d\<lparr>db_attempts := closed s k m (db_now d)
    (a_ID ` {a \<in> set (attempts_of d i). a_Status a = AttemptRunning}) (db_attempts d)\<rparr>"
  using finish_each_Inr [OF assms [unfolded finishOpenAttempts_def]] by (simp add: ListAttempts_def)

section \<open>The movement of each transaction\<close>

lemma distinct_key_status:
  assumes "distinct (map t_ID ts)" "r \<in> set ts" "t_ID r = i" "t_Status r = s" "q \<in> set ts" "t_ID q = i"
  shows "t_Status q = s"
  using assms by (metis distinct_map inj_onD)

lemma tasks_moved_transition:
  assumes wf: "well_formed d" and t: "TransitionTask i s t d = Inr (u, d1)" and e: "db_tasks e = db_tasks d1"
  shows "tasks_moved i (Some t) d e"
proof -
  have d: "distinct (map t_ID (db_tasks d))" using wf by (simp only: well_formed_def)
  obtain r where r: "r \<in> set (db_tasks d)" "t_ID r = i" "t_Status r = s" using TransitionTask_Inr(2) [OF t] by blast
  have "t_Status q = s" if "q \<in> set (db_tasks d)" "t_ID q = i" for q
    by (rule distinct_key_status [OF d r that])
  then show ?thesis
    using TransitionTask_Inr(3) [OF t] e by (auto simp: tasks_moved_def list_all2_update same_task_def)
qed

lemma tasks_moved_same: "db_tasks e = db_tasks d \<Longrightarrow> tasks_moved i None d e"
  by (auto simp: tasks_moved_def same_task_def intro: list_all2_id)

lemma attempts_moved_added: "db_attempts e = db_attempts d @ new \<Longrightarrow> attempts_moved i a_Status new d e"
  by (auto simp: attempts_moved_def same_attempt_def intro: list_all2_id)

lemma attempts_moved_same: "db_attempts e = db_attempts d \<Longrightarrow> attempts_moved i a_Status [] d e"
  by (rule attempts_moved_added) simp

definition fin :: "uuid \<Rightarrow> AttemptStatus \<Rightarrow> TaskAttempt \<Rightarrow> AttemptStatus" where
  "fin aid s a = (if a_ID a = aid \<and> a_Status a = AttemptRunning then s else a_Status a)"

lemma attempts_moved_finish:
  assumes f: "FinishAttempt aid s k m d = Inr (u, d1)" and own: "own_attempt d i aid"
    and e: "db_attempts e = db_attempts d1"
  shows "attempts_moved i (fin aid s) [] d e"
  using FinishAttempt_Inr(3) [OF f] own e
  by (auto simp: attempts_moved_def list_all2_update same_attempt_def fin_def own_attempt_def)

lemma attempts_moved_closed:
  assumes wf: "well_formed d" and e: "db_attempts e = closed s k m now
      (a_ID ` {a \<in> set (attempts_of d i). a_Status a = AttemptRunning}) (db_attempts d)"
  shows "attempts_moved i (\<lambda>a. close_running s (a_Status a)) [] d e"
proof -
  have d: "distinct (map a_ID (db_attempts d))" using wf by (simp only: well_formed_def)
  have "a_TaskID b = i" if "b \<in> set (db_attempts d)" "a \<in> set (attempts_of d i)" "a_ID b = a_ID a" for a b
    using that d by (auto simp: attempts_of_def distinct_map dest: inj_onD)
  then show ?thesis
    using e unfolding attempts_moved_def closed_def
    by (auto simp: list_all2_update same_attempt_def close_running_def attempts_of_def image_iff)
qed

lemma events_added_none: "db_events e = db_events d \<Longrightarrow> db_seq e = db_seq d \<Longrightarrow> events_added i [] d e"
  by (simp add: events_added_def)

lemma events_added_append:
  assumes ap: "appendEvent st i aid ty d1 = Inr (u, e)"
    and d: "db_events d1 = db_events d" "db_seq d1 = db_seq d"
    and own: "\<And>x. aid = Some x \<Longrightarrow> own_attempt d1 i x"
  shows "events_added i [ty] d e"
proof -
  obtain v where v: "e = d1\<lparr>db_events := db_events d1 @ [v], db_seq := db_seq d1 + 1\<rparr>" "e_TaskID v = i"
    "e_AttemptID v = aid" "e_Type v = ty" "e_Seq v = db_seq d1 + 1"
    and ex: "\<And>x. aid = Some x \<Longrightarrow> \<exists>a \<in> set (db_attempts d1). a_ID a = x"
    using appendEvent_Inr [OF ap] by blast
  have "of_attempt (db_attempts e) v"
  proof (cases aid)
    case None
    with v show ?thesis by (simp add: of_attempt_def)
  next
    case (Some x)
    then obtain a where "a \<in> set (db_attempts d1)" "a_ID a = x" using ex by blast
    moreover from this own [OF Some] have "a_TaskID a = i" by (simp add: own_attempt_def)
    ultimately show ?thesis using v Some by (auto simp: of_attempt_def)
  qed
  then show ?thesis using v d by (simp add: events_added_def)
qed

lemma append_keeps: "appendEvent st i aid ty d = Inr (u, e) \<Longrightarrow> db_tasks e = db_tasks d \<and> db_attempts e = db_attempts d"
  by (auto dest!: appendEvent_Inr)

lemma append_has: "appendEvent st i aid ty d = Inr (u, e) \<Longrightarrow> has_task d i"
  by (auto dest!: appendEvent_Inr)

lemma own_fence:
  assumes wf: "well_formed d" and a: "a \<in> set (db_attempts d)" "holds_lease i aid owner a"
  shows "own_attempt d i aid"
proof -
  have d: "distinct (map a_ID (db_attempts d))" using wf by (simp only: well_formed_def)
  show ?thesis using a inj_onD [of a_ID "set (db_attempts d)"] d
    by (auto simp: own_attempt_def holds_lease_def distinct_map)
qed

lemma own_attempt_cong:
  assumes "map (\<lambda>a. (a_ID a, a_TaskID a)) (db_attempts d) = map (\<lambda>a. (a_ID a, a_TaskID a)) (db_attempts e)"
  shows "own_attempt d i x = own_attempt e i x"
proof -
  have "own_attempt c i x \<longleftrightarrow> (\<forall>(k, t) \<in> set (map (\<lambda>a. (a_ID a, a_TaskID a)) (db_attempts c)). k = x \<longrightarrow> t = i)" for c
    by (auto simp: own_attempt_def)
  then show ?thesis by (simp only: assms)
qed

lemma moved_by_ending:
  assumes wf: "well_formed d" and own: "own_attempt d i aid"
    and en: "ending_tx i aid cur nxt s k m d = Inr (u, d1)" and as: "aside d1 d2"
    and ap: "appendEvent st i (Some aid) ty d2 = Inr (v, e)"
  shows "moved i (Some nxt) (fin aid s) [] [ty] d e"
proof -
  obtain d0 where t: "TransitionTask i cur nxt d = Inr ((), d0)" and f: "FinishAttempt aid s k m d0 = Inr (u, d1)"
    using en by (auto simp: ending_tx_def tx_iffs)
  note t3 = TransitionTask_Inr(3) [OF t]
  note f3 = FinishAttempt_Inr(3) [OF f]
  have same: "own_attempt d2 i x = own_attempt d i x" for x
    using as t3 f3 by (intro own_attempt_cong) (simp add: aside_def map_update_where)
  have keep: "db_tasks e = db_tasks d0" "db_attempts e = db_attempts d1"
    using append_keeps [OF ap] as f3 by (simp_all add: aside_def)
  have "attempts_moved i (fin aid s) [] d0 e"
    using own t3 keep by (intro attempts_moved_finish [OF f]) (simp_all add: own_attempt_def)
  then have "attempts_moved i (fin aid s) [] d e" using t3 by (simp add: attempts_moved_def)
  moreover have "events_added i [ty] d e"
    using as t3 f3 own same by (intro events_added_append [OF ap]) (simp_all add: aside_def)
  ultimately show ?thesis using tasks_moved_transition [OF wf t keep(1)] by (simp add: moved_def)
qed

text \<open>What reports and changes nothing else, and a movement after it.\<close>

definition reported :: "uuid \<Rightarrow> EventType list \<Rightarrow> db \<Rightarrow> db \<Rightarrow> bool" where
  "reported i tys d e = (db_tasks e = db_tasks d \<and> db_attempts e = db_attempts d \<and> events_added i tys d e)"

lemma reported_moved: "reported i tys d e \<Longrightarrow> moved i None a_Status [] tys d e"
  by (simp add: reported_def moved_def tasks_moved_same attempts_moved_same)

lemma reported_aside: "aside d e \<Longrightarrow> reported i [] d e"
  by (simp add: reported_def aside_def events_added_none)

lemma events_added_trans:
  assumes 1: "events_added i tys d d1" and 2: "events_added i tys' d1 e"
    and keep: "\<And>v. of_attempt (db_attempts d1) v \<Longrightarrow> of_attempt (db_attempts e) v"
  shows "events_added i (tys @ tys') d e"
proof -
  obtain xs where x: "db_events d1 = db_events d @ xs" "map e_Type xs = tys" "\<forall>v \<in> set xs. e_TaskID v = i"
    "\<forall>v \<in> set xs. of_attempt (db_attempts d1) v" "ascending (map e_Seq xs)"
    "\<forall>v \<in> set xs. db_seq d < e_Seq v \<and> e_Seq v \<le> db_seq d1" "db_seq d \<le> db_seq d1"
    using 1 by (auto simp: events_added_def)
  obtain ys where y: "db_events e = db_events d1 @ ys" "map e_Type ys = tys'" "\<forall>v \<in> set ys. e_TaskID v = i"
    "\<forall>v \<in> set ys. of_attempt (db_attempts e) v" "ascending (map e_Seq ys)"
    "\<forall>v \<in> set ys. db_seq d1 < e_Seq v \<and> e_Seq v \<le> db_seq e" "db_seq d1 \<le> db_seq e"
    using 2 by (auto simp: events_added_def)
  have "ascending (map e_Seq (xs @ ys))"
    using x y by (fastforce simp: sorted_wrt_append)
  with x y keep show ?thesis unfolding events_added_def
    by (intro exI [of _ "xs @ ys"]) fastforce
qed

lemma reported_then_moved:
  assumes r: "reported i tys d d1" and m: "moved i s f new tys' d1 e"
  shows "moved i s f new (tys @ tys') d e"
proof -
  have m': "tasks_moved i s d1 e" "attempts_moved i f new d1 e" "events_added i tys' d1 e"
    using m by (simp_all add: moved_def)
  have "events_added i (tys @ tys') d e"
    using r m'(3) of_attempt_keep [OF m'(2)] by (intro events_added_trans [of i tys d d1]) (simp_all add: reported_def)
  then show ?thesis using m' r by (simp add: moved_def reported_def tasks_moved_def attempts_moved_def)
qed

lemma retain_reported:
  assumes "retain_tx i aid record st d = Inr (u, e)" "own_attempt d i aid"
  shows "\<exists>tys. reported i tys d e \<and> List.map_filter event_status tys = []"
proof (cases "record")
  case None
  with assms have "e = d" by (simp add: retain_tx_def tx_iffs)
  then have "reported i [] d e" by (simp add: reported_aside aside_refl)
  then show ?thesis by (intro exI [of _ "[]"]) (simp add: List.map_filter_def)
next
  case (Some w)
  with assms obtain d1 where w: "aside d d1" and ap: "appendEvent st i (Some aid) TypeWorktreeRetained d1 = Inr (u, e)"
    by (auto simp: retain_tx_def tx_iffs intro: worktree_ops_aside)
  have "events_added i [TypeWorktreeRetained] d e"
    using w assms(2) by (intro events_added_append [OF ap]) (simp_all add: aside_def own_attempt_def)
  then have "reported i [TypeWorktreeRetained] d e"
    using append_keeps [OF ap] w by (simp add: reported_def aside_def)
  then show ?thesis by (intro exI [of _ "[TypeWorktreeRetained]"]) (simp add: List.map_filter_def)
qed

section \<open>The simulation\<close>

definition advances :: "db \<Rightarrow> db \<Rightarrow> bool" where
  "advances d e =
     (well_formed e \<and> map t_ID (db_tasks e) = map t_ID (db_tasks d)
      \<and> (\<exists>new. db_events e = db_events d @ new) \<and> (\<forall>u \<in> set (db_tasks e). \<exists>t \<in> set (db_tasks d). t_ID t = t_ID u
        \<and> (abs_task e u = abs_task d t \<or> task_step (abs_task d t) (abs_task e u))))"

lemma moved_advances:
  assumes m: "moved i s f new tys d e" and ok: "db_ok d"
    and new: "new = [] \<or> (\<exists>b. new = [b] \<and> a_TaskID b = i \<and> a_ID b \<notin> set (map a_ID (db_attempts d))
      \<and> a_AttemptNumber b = Suc (length (attempts_of d i)))"
    and has: "has_task d i \<or> (new = [] \<and> tys = [])"
    and step: "\<And>t. t \<in> set (db_tasks d) \<Longrightarrow> t_ID t = i \<Longrightarrow> task_ok (abs_task d t) \<Longrightarrow>
      abs_after s f new tys d t = abs_task d t \<or> task_step (abs_task d t) (abs_after s f new tys d t)"
  shows "advances d e"
proof -
  have wf: "well_formed d" using ok by (simp add: db_ok_def)
  have own: "\<forall>b \<in> set new. a_TaskID b = i" using new by auto
  have "\<exists>t \<in> set (db_tasks d). t_ID t = t_ID u
      \<and> (abs_task e u = abs_task d t \<or> task_step (abs_task d t) (abs_task e u))" if u: "u \<in> set (db_tasks e)" for u
  proof -
    obtain t where t: "t \<in> set (db_tasks d)" "t_ID t = t_ID u"
      and abs: "abs_task e u = (if t_ID t = i then abs_after s f new tys d t else abs_task d t)"
      using moved_abs [OF m own u] by blast
    have "task_ok (abs_task d t)" using ok t(1) by (simp add: db_ok_def)
    then have "abs_task e u = abs_task d t \<or> task_step (abs_task d t) (abs_task e u)"
      using step [OF t(1)] abs by (simp split: if_splits)
    with t show ?thesis by blast
  qed
  moreover have "\<exists>new. db_events e = db_events d @ new" using m by (auto simp: moved_def events_added_def)
  moreover have "map t_ID (db_tasks e) = map t_ID (db_tasks d)"
    using m by (intro tasks_moved_ids [of i s]) (simp add: moved_def)
  ultimately show ?thesis using moved_structure [OF m wf new has] by (simp add: advances_def)
qed

text \<open>A movement that tells the lifecycle nothing.\<close>

lemma abs_after_none: "List.map_filter event_status tys = [] \<Longrightarrow> abs_after None a_Status [] tys d t = abs_task d t"
  by (simp add: abs_after_def abs_task_def)

lemma reported_advances:
  assumes r: "reported i tys d e" and ok: "db_ok d" and has: "has_task d i \<or> tys = []"
    and silent: "List.map_filter event_status tys = []"
  shows "advances d e"
  using has silent by (intro moved_advances [OF reported_moved [OF r] ok]) (auto simp: abs_after_none)

text \<open>What is known of the one open attempt.\<close>

lemma open_attempt:
  assumes ok: "task_ok (abs_task d t)" and wf: "well_formed d"
    and a: "a \<in> set (db_attempts d)" "a_TaskID a = t_ID t" "a_Status a = AttemptRunning"
  shows "\<exists>as. attempts_of d (t_ID t) = as @ [a] \<and> (\<forall>b \<in> set as. a_Status b = AttemptFailed)"
    and "Active (t_Status t)" and "a_AttemptNumber a = length (attempts_of d (t_ID t))"
proof -
  have mem: "a \<in> set (attempts_of d (t_ID t))" using a by (simp add: attempts_of_def)
  obtain as b where as: "attempts_of d (t_ID t) = as @ [b]" using mem by (cases "attempts_of d (t_ID t)" rule: rev_cases) auto
  have aok: "attempts_ok (t_Status t) (map a_Status as @ [a_Status b])"
    using ok by (simp add: task_ok_def abs_task_def as)
  then have f: "\<forall>b \<in> set as. a_Status b = AttemptFailed" by (simp add: attempts_ok_snoc list_all_iff)
  then have ab: "a = b" using mem a(3) by (auto simp: as)
  then show "\<exists>as. attempts_of d (t_ID t) = as @ [a] \<and> (\<forall>b \<in> set as. a_Status b = AttemptFailed)"
    using as f by blast
  show "Active (t_Status t)" using aok ab a(3) by (simp add: attempts_ok_snoc)
  have "map a_AttemptNumber (as @ [a]) = [1..<Suc (length (as @ [a]))]"
    using wf by (metis as ab well_formed_def)
  then have "last (map a_AttemptNumber (as @ [a])) = last [1..<Suc (length (as @ [a]))]" by (rule arg_cong)
  then show "a_AttemptNumber a = length (attempts_of d (t_ID t))" by (simp add: as ab)
qed

lemma fin_statuses:
  assumes "\<forall>b \<in> set as. a_Status b = AttemptFailed" "a_Status a = AttemptRunning" "a_ID a = aid"
  shows "map (fin aid s) (as @ [a]) = map a_Status as @ [s]"
  using assms by (auto simp: fin_def)

lemma abs_after_ending:
  assumes as: "attempts_of d (t_ID t) = as @ [a]" "\<forall>b \<in> set as. a_Status b = AttemptFailed"
    and a: "a_Status a = AttemptRunning" "a_ID a = aid" and ty: "List.map_filter event_status tys = [nxt]"
  shows "abs_after (Some nxt) (fin aid s) [] tys d t
      = moves_to nxt ((abs_task d t)\<lparr>at_attempts := map a_Status as @ [s]\<rparr>)"
    and "at_attempts (abs_task d t) = map a_Status as @ [AttemptRunning]"
  using fin_statuses [OF as(2) a] as ty a by (simp_all add: abs_after_def abs_task_def moves_to_def)

lemma silent_then: "List.map_filter event_status tys = [] \<Longrightarrow>
    List.map_filter event_status (tys @ [ty]) = (case event_status ty of None \<Rightarrow> [] | Some s \<Rightarrow> [s])"
  by (simp add: map_filter_append List.map_filter_def split: option.splits)

text \<open>An ending behind the fence, after reports, is a step of the specification.\<close>

lemma ending_advances:
  assumes ok: "db_ok d" and a: "a \<in> set (db_attempts d)" "holds_lease i aid owner a"
    and r: "reported i tys d d0" and silent: "List.map_filter event_status tys = []"
    and en: "ending_tx i aid cur nxt s k m d0 = Inr (u, d1)" and as: "aside d1 d2"
    and ap: "appendEvent st i (Some aid) ty d2 = Inr (v, e)" and ty: "event_status ty = Some nxt"
    and step: "\<And>t xs. t \<in> set (db_tasks d) \<Longrightarrow> t_ID t = i \<Longrightarrow> t_Status t = cur \<Longrightarrow> Active cur \<Longrightarrow>
      at_attempts (abs_task d t) = xs @ [AttemptRunning] \<Longrightarrow> length xs + 1 = a_AttemptNumber a \<Longrightarrow>
      task_step (abs_task d t) (moves_to nxt ((abs_task d t)\<lparr>at_attempts := xs @ [s]\<rparr>))"
  shows "advances d e"
proof -
  have wf: "well_formed d" using ok by (simp add: db_ok_def)
  have own: "own_attempt d i aid" by (rule own_fence [OF wf a])
  have rd: "db_tasks d0 = db_tasks d" "db_attempts d0 = db_attempts d" using r by (simp_all add: reported_def)
  have "\<exists>v. has_task d i" using en rd by (auto simp: ending_tx_def tx_iffs has_task_def dest!: TransitionTask_Inr(2))
  then have has: "has_task d i" by simp
  have wf0: "well_formed d0"
    by (rule moved_structure [OF reported_moved [OF r] wf disjI1 [OF refl] disjI1 [OF has]])
  have own0: "own_attempt d0 i aid" using own rd by (simp add: own_attempt_def)
  have m: "moved i (Some nxt) (fin aid s) [] (tys @ [ty]) d e"
    by (rule reported_then_moved [OF r moved_by_ending [OF wf0 own0 en as ap]])
  obtain r0 where r0: "r0 \<in> set (db_tasks d)" "t_ID r0 = i" "t_Status r0 = cur"
    using en rd by (auto simp: ending_tx_def tx_iffs dest!: TransitionTask_Inr(2))
  have h: "a_TaskID a = i" "a_Status a = AttemptRunning" "a_ID a = aid" using a by (simp_all add: holds_lease_def)
  have dist: "distinct (map t_ID (db_tasks d))" using wf by (simp only: well_formed_def)
  show ?thesis
  proof (rule moved_advances [OF m ok])
    fix t assume t: "t \<in> set (db_tasks d)" "t_ID t = i" and tok: "task_ok (abs_task d t)"
    have cur: "t_Status t = cur" by (rule distinct_key_status [OF dist r0 t])
    have at: "a_TaskID a = t_ID t" using h t by simp
    obtain as where as: "attempts_of d (t_ID t) = as @ [a]" "\<forall>b \<in> set as. a_Status b = AttemptFailed"
      using open_attempt(1) [OF tok wf a(1) at h(2)] by blast
    have act: "Active cur" using open_attempt(2) [OF tok wf a(1) at h(2)] cur by simp
    have len: "length (map a_Status as) + 1 = a_AttemptNumber a" using open_attempt(3) [OF tok wf a(1) at h(2)] as by simp
    have "List.map_filter event_status (tys @ [ty]) = [nxt]" using silent_then [OF silent, of ty] ty by simp
    note after = abs_after_ending [OF as h(2,3) this]
    have "task_step (abs_task d t) (moves_to nxt ((abs_task d t)\<lparr>at_attempts := map a_Status as @ [s]\<rparr>))"
      by (rule step [OF t cur act after(2) len])
    then show "abs_after (Some nxt) (fin aid s) [] (tys @ [ty]) d t = abs_task d t
      \<or> task_step (abs_task d t) (abs_after (Some nxt) (fin aid s) [] (tys @ [ty]) d t)"
      unfolding after(1) by (rule disjI2)
  qed (use has in simp_all)
qed

section \<open>Each transaction advances its task\<close>

lemma moved_by_transition:
  assumes wf: "well_formed d" and t: "TransitionTask i cur nxt d = Inr (u, d1)"
    and d2: "db_tasks d2 = db_tasks d1" "db_events d2 = db_events d" "db_seq d2 = db_seq d"
    and f: "attempts_moved i f new d d2" and ap: "appendEvent st i aid ty d2 = Inr (v, e)"
    and own: "\<And>x. aid = Some x \<Longrightarrow> own_attempt d2 i x"
  shows "moved i (Some nxt) f new [ty] d e"
  using tasks_moved_transition [OF wf t, of e] events_added_append [OF ap d2(2,3) own]
    append_keeps [OF ap] f d2(1)
  by (simp add: moved_def attempts_moved_def)

lemma transition_status:
  assumes wf: "well_formed d" and t: "TransitionTask i cur nxt d = Inr (u, d1)"
    and r: "r \<in> set (db_tasks d)" "t_ID r = i"
  shows "t_Status r = cur" "CanTransitionTo cur nxt"
proof -
  have d: "distinct (map t_ID (db_tasks d))" using wf by (simp only: well_formed_def)
  obtain q where q: "q \<in> set (db_tasks d)" "t_ID q = i" "t_Status q = cur" using TransitionTask_Inr(2) [OF t] by blast
  show "t_Status r = cur" by (rule distinct_key_status [OF d q r])
  show "CanTransitionTo cur nxt" by (rule TransitionTask_Inr(1) [OF t])
qed

lemma transition_has: "TransitionTask i cur nxt d = Inr (u, d1) \<Longrightarrow> has_task d i"
  by (auto simp: has_task_def dest!: TransitionTask_Inr(2))

text \<open>A movement that keeps the statuses of the attempts.\<close>

lemma status_advances:
  assumes ok: "db_ok d" and t: "TransitionTask i cur nxt d = Inr (u, d1)"
    and as: "aside d1 d2" and ap: "appendEvent st i aid ty d2 = Inr (v, e)"
    and own: "\<And>x. aid = Some x \<Longrightarrow> own_attempt d i x" and ty: "event_status ty = Some nxt"
    and step: "\<And>a. at_status a = cur \<Longrightarrow> task_step a (moves_to nxt a)"
  shows "advances d e"
proof -
  have wf: "well_formed d" using ok by (simp add: db_ok_def)
  have d2: "db_tasks d2 = db_tasks d1" "db_events d2 = db_events d" "db_seq d2 = db_seq d"
    "db_attempts d2 = db_attempts d"
    using as TransitionTask_Inr(3) [OF t] by (simp_all add: aside_def)
  have m: "moved i (Some nxt) a_Status [] [ty] d e"
    using own d2(4) by (intro moved_by_transition [OF wf t d2(1,2,3) attempts_moved_same [OF d2(4)] ap])
      (simp add: own_attempt_def)
  show ?thesis
  proof (rule moved_advances [OF m ok])
    fix r assume r: "r \<in> set (db_tasks d)" "t_ID r = i"
    have "abs_after (Some nxt) a_Status [] [ty] d r = moves_to nxt (abs_task d r)"
      using ty by (simp add: abs_after_def abs_task_def moves_to_def List.map_filter_def)
    moreover have "at_status (abs_task d r) = cur" using transition_status(1) [OF wf t r] by (simp add: abs_task_def)
    ultimately show "abs_after (Some nxt) a_Status [] [ty] d r = abs_task d r
        \<or> task_step (abs_task d r) (abs_after (Some nxt) a_Status [] [ty] d r)"
      using step by simp
  qed (use transition_has [OF t] in simp_all)
qed

lemma transition_tx_parts:
  assumes "transition_tx opn i aid owner cur nxt ty ev d = Inr (u, e)"
  shows "\<exists>d1. TransitionTask i cur nxt d = Inr ((), d1) \<and> appendEvent ev i (attempt_ref aid) ty d1 = Inr (u, e)
    \<and> (opn \<longrightarrow> (\<exists>a \<in> set (db_attempts d). holds_lease i aid owner a))"
  using assms unfolding transition_tx_def
  by (clarsimp simp: tx_iffs) (metis fence_Inr(1) fence_Inr(2))

lemma attempt_ref_own: "attempt_ref aid = Some x \<Longrightarrow> x = aid"
  by (simp add: attempt_ref_def split: if_splits)

lemma ready_advances:
  assumes ok: "db_ok d" and t: "transition_tx False i aid owner cur StatusReady TypeTaskReady ev d = Inr ((), e)"
    and cur: "\<not> Active cur" and own: "own_attempt d i aid"
  shows "advances d e"
proof -
  obtain d1 where d1: "TransitionTask i cur StatusReady d = Inr ((), d1)"
    "appendEvent ev i (attempt_ref aid) TypeTaskReady d1 = Inr ((), e)"
    using transition_tx_parts [OF t] by blast
  have c: "CanTransitionTo cur StatusReady" using TransitionTask_Inr(1) [OF d1(1)] .
  show ?thesis
    by (rule status_advances [OF ok d1(1) aside_refl d1(2)])
      (use own attempt_ref_own c cur task_step.ready in auto)
qed

lemma verify_advances:
  assumes ok: "db_ok d" and t: "transition_tx True i aid owner cur StatusVerifying TypeVerificationStarted ev d = Inr ((), e)"
  shows "advances d e"
proof -
  obtain d1 a where d1: "TransitionTask i cur StatusVerifying d = Inr ((), d1)"
    "appendEvent ev i (attempt_ref aid) TypeVerificationStarted d1 = Inr ((), e)"
    and a: "a \<in> set (db_attempts d)" "holds_lease i aid owner a"
    using transition_tx_parts [OF t] by blast
  have c: "cur = StatusRunning" using TransitionTask_Inr(1) [OF d1(1)] by (simp add: to_Verifying_from)
  have own: "own_attempt d i aid" using own_fence [OF _ a] ok by (simp add: db_ok_def)
  show ?thesis
    by (rule status_advances [OF ok d1(1) aside_refl d1(2)])
      (use own attempt_ref_own c task_step.verify in auto)
qed

lemma gate_advances:
  assumes ok: "db_ok d" and g: "gate_tx i cur newid reason gst d = Inr (p, e)"
    and w: "cur = StatusWaitingApproval \<longrightarrow> (\<exists>t \<in> set (db_tasks d). t_ID t = i \<and> t_Status t = cur)"
  shows "advances d e"
proof (cases "cur = StatusWaitingApproval")
  case False
  then obtain d1 d2 where t: "TransitionTask i cur StatusWaitingApproval d = Inr ((), d1)"
    and r: "request_or_existing newid i reason d1 = Inr (p, d2)"
    and ap: "appendEvent (gst p) i None TypeApprovalRequired d2 = Inr ((), e)"
    using g by (auto simp: gate_tx_def tx_iffs)
  have c: "CanTransitionTo cur StatusWaitingApproval" using TransitionTask_Inr(1) [OF t] .
  show ?thesis
    by (rule status_advances [OF ok t request_or_existing_aside [OF r] ap])
      (use c task_step.gate in auto)
next
  case True
  then obtain d2 where r: "request_or_existing newid i reason d = Inr (p, d2)"
    and ap: "appendEvent (gst p) i None TypeApprovalRequired d2 = Inr ((), e)"
    using g by (auto simp: gate_tx_def tx_iffs)
  have as: "aside d d2" by (rule request_or_existing_aside [OF r])
  have wf: "well_formed d" using ok by (simp add: db_ok_def)
  have dist: "distinct (map t_ID (db_tasks d))" using wf by (simp only: well_formed_def)
  have rep: "reported i [TypeApprovalRequired] d e"
    using events_added_append [OF ap, of d] append_keeps [OF ap] as by (simp add: reported_def aside_def)
  obtain t0 where t0: "t0 \<in> set (db_tasks d)" "t_ID t0 = i" "t_Status t0 = StatusWaitingApproval" using w True by auto
  have has: "has_task d i" using t0 by (auto simp: has_task_def)
  show ?thesis
  proof (rule moved_advances [OF reported_moved [OF rep] ok])
    fix r assume r: "r \<in> set (db_tasks d)" "t_ID r = i"
    have s: "t_Status r = StatusWaitingApproval" by (rule distinct_key_status [OF dist t0 r])
    have "abs_after None a_Status [] [TypeApprovalRequired] d r = moves_to StatusWaitingApproval (abs_task d r)"
      using s by (simp add: abs_after_def abs_task_def moves_to_def List.map_filter_def)
    moreover have "at_status (abs_task d r) = StatusWaitingApproval" using s by (simp add: abs_task_def)
    ultimately show "abs_after None a_Status [] [TypeApprovalRequired] d r = abs_task d r
        \<or> task_step (abs_task d r) (abs_after None a_Status [] [TypeApprovalRequired] d r)"
      using task_step.gate by simp
  qed (use has in simp_all)
qed

lemma foldr_max_upt: "foldr max [1..<Suc n] 0 = n"
proof (induction n)
  case (Suc n)
  have shift: "foldr max xs k = max k (foldr max xs 0)" for xs and k :: nat by (induction xs) auto
  show ?case using Suc shift [of "[1..<Suc n]" "Suc n"] by (simp add: foldr_append)
qed simp

lemma next_number: "well_formed d \<Longrightarrow> NextAttemptNumber i d = Inr (Suc (length (attempts_of d i)))"
  using foldr_max_upt [of "length (attempts_of d i)"]
  by (simp add: NextAttemptNumber_def well_formed_def del: upt_Suc)

lemma CreateAttempt_Inr:
  assumes "CreateAttempt a d = Inr (r, e)"
  shows "r = a\<lparr>a_FinishedAt := None\<rparr>" "a_Status a = AttemptRunning" "e = d\<lparr>db_attempts := db_attempts d @ [r]\<rparr>"
    "a_ID a \<notin> set (map a_ID (db_attempts d))"
  using assms by (auto simp: CreateAttempt_def attempt_row_def Let_def find_None_iff split: if_splits)

lemma start_advances:
  assumes ok: "db_ok d" and s: "start_tx i cur newid now owner expires ast d = Inr (a, e)"
  shows "advances d e"
proof -
  have wf: "well_formed d" using ok by (simp add: db_ok_def)
  obtain d1 n d2 where t: "TransitionTask i cur StatusRunning d = Inr ((), d1)"
    and n: "NextAttemptNumber i d1 = Inr n"
    and c: "CreateAttempt ((NewAttempt newid now i n)\<lparr>a_LeaseOwner := owner, a_LeaseExpiresAt := Some expires\<rparr>) d1 = Inr (a, d2)"
    and ap: "appendEvent (ast a) i (Some (a_ID a)) TypeTaskStarted d2 = Inr ((), e)"
    using s by (auto simp: start_tx_def claim_tx_def tx_iffs)
  note d1 = TransitionTask_Inr(3) [OF t]
  have "NextAttemptNumber i d1 = NextAttemptNumber i d" by (simp add: d1 NextAttemptNumber_def attempts_of_def)
  then have num: "n = Suc (length (attempts_of d i))" using n next_number [OF wf] by simp
  have a: "a_ID a = newid" "a_TaskID a = i" "a_AttemptNumber a = n" "a_Status a = AttemptRunning"
    using CreateAttempt_Inr(1) [OF c] by (simp_all add: NewAttempt_def)
  have fresh: "newid \<notin> set (map a_ID (db_attempts d))" using CreateAttempt_Inr(4) [OF c] d1 by (simp add: NewAttempt_def)
  have d2: "db_tasks d2 = db_tasks d1" "db_events d2 = db_events d" "db_seq d2 = db_seq d"
    "db_attempts d2 = db_attempts d @ [a]"
    using CreateAttempt_Inr(3) [OF c] d1 by simp_all
  have cur: "cur = StatusReady" using TransitionTask_Inr(1) [OF t] by (simp add: to_Running_from)
  have own: "own_attempt d2 i x" if "Some (a_ID a) = Some x" for x
    using that a fresh d2(4) by (auto simp: own_attempt_def image_iff)
  have m: "moved i (Some StatusRunning) a_Status [a] [TypeTaskStarted] d e"
    by (rule moved_by_transition [OF wf t d2(1,2,3) attempts_moved_added [OF d2(4)] ap own])
  show ?thesis
  proof (rule moved_advances [OF m ok])
    show "[a] = [] \<or> (\<exists>b. [a] = [b] \<and> a_TaskID b = i \<and> a_ID b \<notin> set (map a_ID (db_attempts d))
        \<and> a_AttemptNumber b = Suc (length (attempts_of d i)))"
      using a fresh num by simp
    show "has_task d i \<or> ([a] = [] \<and> [TypeTaskStarted] = [])" using transition_has [OF t] by simp
    fix r assume r: "r \<in> set (db_tasks d)" "t_ID r = i"
    have "abs_after (Some StatusRunning) a_Status [a] [TypeTaskStarted] d r
        = moves_to StatusRunning ((abs_task d r)\<lparr>at_attempts := at_attempts (abs_task d r) @ [AttemptRunning]\<rparr>)"
      using a by (simp add: abs_after_def abs_task_def moves_to_def List.map_filter_def)
    moreover have "at_status (abs_task d r) = StatusReady"
      using transition_status(1) [OF wf t r] cur by (simp add: abs_task_def)
    ultimately show "abs_after (Some StatusRunning) a_Status [a] [TypeTaskStarted] d r = abs_task d r
        \<or> task_step (abs_task d r) (abs_after (Some StatusRunning) a_Status [a] [TypeTaskStarted] d r)"
      using task_step.start by simp
  qed
qed

lemma append_reported:
  assumes ap: "appendEvent st i aid ty d1 = Inr (u, e)" and as: "aside d d1"
    and own: "\<And>x. aid = Some x \<Longrightarrow> own_attempt d i x"
  shows "reported i [ty] d e"
  using events_added_append [OF ap, of d] append_keeps [OF ap] as own
  by (simp add: reported_def aside_def own_attempt_def)

lemma silent_append_advances:
  assumes ok: "db_ok d" and ap: "appendEvent st i aid ty d1 = Inr (u, e)" and as: "aside d d1"
    and own: "\<And>x. aid = Some x \<Longrightarrow> own_attempt d i x" and ty: "event_status ty = None"
  shows "advances d e"
proof (rule reported_advances [OF append_reported [OF ap as own] ok])
  show "has_task d i \<or> [ty] = []" using append_has [OF ap] as by (simp add: has_task_def aside_def)
qed (simp_all add: ty List.map_filter_def)

lemma inform_advances:
  assumes ok: "db_ok d" and t: "emit_tx opn i aid owner ty ev d = Inr ((), e)"
    and ty: "event_status ty = None" and own: "own_attempt d i aid"
  shows "advances d e"
proof -
  obtain d0 where f: "fence_tx opn i aid owner d = Inr ((), d0)"
    and ap: "appendEvent ev i (attempt_ref aid) ty d0 = Inr ((), e)"
    using t by (auto simp: emit_tx_def tx_iffs)
  have "d0 = d" by (rule fence_Inr(1) [OF f])
  then show ?thesis
    using silent_append_advances [OF ok ap _ _ ty] own attempt_ref_own by (auto simp: aside_refl)
qed

lemma worktree_advances:
  assumes ok: "db_ok d" and t: "worktree_tx opn i aid owner w ev d = Inr (v, e)" and own: "own_attempt d i aid"
  shows "advances d e"
proof -
  obtain d0 d1 where f: "fence_tx opn i aid owner d = Inr ((), d0)" and w: "CreateWorktree w d0 = Inr (v, d1)"
    and ap: "appendEvent ev i (Some aid) TypeWorktreeCreated d1 = Inr ((), e)"
    using t by (auto simp: worktree_tx_def tx_iffs)
  have "d0 = d" by (rule fence_Inr(1) [OF f])
  then show ?thesis
    using silent_append_advances [OF ok ap CreateWorktree_aside] w own by auto
qed

lemma retain_advances:
  assumes ok: "db_ok d" and t: "tx_seq (fence_tx opn i aid owner) (retain_tx i aid record ev) d = Inr ((), e)"
    and own: "own_attempt d i aid"
  shows "advances d e"
proof -
  obtain d0 where f: "fence_tx opn i aid owner d = Inr ((), d0)" and r: "retain_tx i aid record ev d0 = Inr ((), e)"
    using t by (auto simp: tx_iffs)
  have d0: "d0 = d" by (rule fence_Inr(1) [OF f])
  obtain tys where tys: "reported i tys d e" "List.map_filter event_status tys = []"
    using retain_reported [OF r] own d0 by auto
  have "has_task d i \<or> tys = []"
  proof (cases "record")
    case None
    then have "e = d" using r d0 by (simp add: retain_tx_def tx_iffs)
    then show ?thesis using tys(1) by (auto simp: reported_def events_added_def)
  next
    case (Some w)
    then obtain d1 where "aside d d1" "appendEvent ev i (Some aid) TypeWorktreeRetained d1 = Inr ((), e)"
      using r d0 by (auto simp: retain_tx_def tx_iffs intro: worktree_ops_aside)
    moreover from this have "has_task d1 i" by (intro append_has)
    ultimately show ?thesis by (simp add: has_task_def aside_def)
  qed
  then show ?thesis using reported_advances [OF tys(1) ok _ tys(2)] by blast
qed

lemma abs_simps: "at_status (abs_task d t) = t_Status t" "at_max (abs_task d t) = t_MaxRetries t"
  by (simp_all add: abs_task_def)

lemma retain_silent:
  assumes "fence_tx True i aid owner d = Inr (u, d0)" "well_formed d"
  shows "d0 = d \<and> own_attempt d i aid \<and> (\<exists>a \<in> set (db_attempts d). holds_lease i aid owner a)"
  using fence_Inr [OF assms(1)] own_fence [OF assms(2)] by blast

lemma fail_advances:
  assumes ok: "db_ok d"
    and t: "fail_tx True i aid owner record ev cur cancelled kind message ev2 d = Inr ((), e)"
  shows "advances d e"
proof -
  have wf: "well_formed d" using ok by (simp add: db_ok_def)
  obtain d0 d1 d2 where f: "fence_tx True i aid owner d = Inr ((), d0)"
    and r: "retain_tx i aid record ev d0 = Inr ((), d1)"
    and en: "ending_tx i aid cur (if cancelled then StatusCancelled else StatusFailed)
        (if cancelled then AttemptCancelled else AttemptFailed) kind message d1 = Inr ((), d2)"
    and ap: "appendEvent ev2 i (Some aid) (if cancelled then TypeTaskCancelled else TypeTaskFailed) d2 = Inr ((), e)"
    using t by (auto simp: fail_tx_def tx_iffs)
  obtain a where d0: "d0 = d" and own: "own_attempt d i aid" and a: "a \<in> set (db_attempts d)" "holds_lease i aid owner a"
    using retain_silent [OF f wf] by blast
  obtain tys where tys: "reported i tys d d1" "List.map_filter event_status tys = []"
    using retain_reported [OF r] own d0 by auto
  show ?thesis
    by (rule ending_advances [OF ok a tys en aside_refl ap])
      (auto simp: abs_simps List.map_filter_def intro: task_step.failed task_step.stopped)
qed

lemma retry_advances:
  assumes ok: "db_ok d"
    and t: "tx_seq (fence_tx True i aid owner) (retry_tx i aid record partial cur kind message ev) d = Inr ((), e)"
    and b: "b \<in> set (db_attempts d)" "a_ID b = aid" and r: "r \<in> set (db_tasks d)" "t_ID r = i"
    and le: "int (a_AttemptNumber b) \<le> t_MaxRetries r"
  shows "advances d e"
proof -
  have wf: "well_formed d" using ok by (simp add: db_ok_def)
  obtain d0 d1 d2 where f: "fence_tx True i aid owner d = Inr ((), d0)"
    and en: "ending_tx i aid cur StatusReady AttemptFailed kind message d0 = Inr ((), d1)"
    and as: "reuse_tx record partial d1 = Inr ((), d2)"
    and ap: "appendEvent ev i (Some aid) TypeRetryScheduled d2 = Inr ((), e)"
    using t by (auto simp: retry_tx_def tx_iffs)
  obtain a where d0: "d0 = d" and a: "a \<in> set (db_attempts d)" "holds_lease i aid owner a"
    using retain_silent [OF f wf] by blast
  have "distinct (map a_ID (db_attempts d))" "distinct (map t_ID (db_tasks d))" using wf by (simp_all only: well_formed_def)
  then have ab: "b = a" using a b by (auto simp: holds_lease_def distinct_map dest: inj_onD)
  have max: "t_MaxRetries q = t_MaxRetries r" if "q \<in> set (db_tasks d)" "t_ID q = i" for q
    using that r \<open>distinct (map t_ID (db_tasks d))\<close> by (metis distinct_map inj_onD)
  have rep: "reported i [] d d0" using d0 by (simp add: reported_aside aside_refl)
  show ?thesis
  proof (rule ending_advances [OF ok a rep _ en reuse_aside [OF as] ap])
    fix q xs assume q: "q \<in> set (db_tasks d)" "t_ID q = i" "t_Status q = cur" "Active cur"
      and xs: "at_attempts (abs_task d q) = xs @ [AttemptRunning]" and n: "length xs + 1 = a_AttemptNumber a"
    have "length (at_attempts (abs_task d q)) = length xs + 1" using xs by simp
    then have "int (length (at_attempts (abs_task d q))) \<le> at_max (abs_task d q)"
      using n le ab max [OF q(1,2)] by (simp add: abs_simps)
    then show "task_step (abs_task d q) (moves_to StatusReady ((abs_task d q)\<lparr>at_attempts := xs @ [AttemptFailed]\<rparr>))"
      using q xs by (intro task_step.retry) (simp_all add: abs_simps)
  qed (simp_all add: List.map_filter_def)
qed

lemma reported_same: "reported i [] d d"
  by (simp add: reported_aside aside_refl)

lemma succeed_advances:
  assumes ok: "db_ok d"
    and t: "tx_seq (fence_tx True i aid owner) (tx_seq (head_tx record commit) (succeed_tx i aid ev)) d = Inr ((), e)"
  shows "advances d e"
proof -
  have wf: "well_formed d" using ok by (simp add: db_ok_def)
  obtain d0 d1 d2 where f: "fence_tx True i aid owner d = Inr ((), d0)" and h: "head_tx record commit d0 = Inr ((), d1)"
    and en: "ending_tx i aid StatusVerifying StatusSucceeded AttemptSucceeded FailureNone [] d1 = Inr ((), d2)"
    and ap: "appendEvent ev i (Some aid) TypeTaskSucceeded d2 = Inr ((), e)"
    using t by (auto simp: succeed_tx_def tx_iffs)
  obtain a where d0: "d0 = d" and a: "a \<in> set (db_attempts d)" "holds_lease i aid owner a"
    using retain_silent [OF f wf] by blast
  have "reported i [] d d1" using head_aside [OF h] d0 by (simp add: reported_aside)
  then show ?thesis
    by (rule ending_advances [OF ok a _ _ en aside_refl ap])
      (auto simp: abs_simps List.map_filter_def intro: task_step.succeed)
qed

text \<open>A transition that closes every open attempt of its task.\<close>

lemma closing_advances:
  assumes ok: "db_ok d" and t: "TransitionTask i cur nxt d = Inr (u, d1)"
    and d2: "db_tasks d2 = db_tasks d1" "db_events d2 = db_events d" "db_seq d2 = db_seq d"
    and f: "attempts_moved i (\<lambda>a. close_running s (a_Status a)) [] d d2"
    and ap: "appendEvent st i None ty d2 = Inr (v, e)" and ty: "event_status ty = Some nxt"
    and step: "\<And>a. at_status a = cur \<Longrightarrow>
      task_step a (moves_to nxt (a\<lparr>at_attempts := map (close_running s) (at_attempts a)\<rparr>))"
  shows "advances d e"
proof -
  have wf: "well_formed d" using ok by (simp add: db_ok_def)
  have m: "moved i (Some nxt) (\<lambda>a. close_running s (a_Status a)) [] [ty] d e"
    by (rule moved_by_transition [OF wf t d2 f ap]) simp
  show ?thesis
  proof (rule moved_advances [OF m ok])
    fix r assume r: "r \<in> set (db_tasks d)" "t_ID r = i"
    have "abs_after (Some nxt) (\<lambda>a. close_running s (a_Status a)) [] [ty] d r
        = moves_to nxt ((abs_task d r)\<lparr>at_attempts := map (close_running s) (at_attempts (abs_task d r))\<rparr>)"
      using ty by (simp add: abs_after_def abs_task_def moves_to_def List.map_filter_def)
    moreover have "at_status (abs_task d r) = cur" using transition_status(1) [OF wf t r] by (simp add: abs_task_def)
    ultimately show "abs_after (Some nxt) (\<lambda>a. close_running s (a_Status a)) [] [ty] d r = abs_task d r
        \<or> task_step (abs_task d r) (abs_after (Some nxt) (\<lambda>a. close_running s (a_Status a)) [] [ty] d r)"
      using step by simp
  qed (use transition_has [OF t] in simp_all)
qed

lemma cancel_advances:
  assumes ok: "db_ok d" and t: "cancel_tx i cur reason ev d = Inr (owner, e)"
  shows "advances d e"
proof -
  have wf: "well_formed d" using ok by (simp add: db_ok_def)
  obtain d1 d2 d3 where t1: "TransitionTask i cur StatusCancelled d = Inr ((), d1)"
    and fo: "finishOpenAttempts i AttemptCancelled FailureCancelled reason d1 = Inr ((), d2)"
    and rw: "retainWorktrees i d2 = Inr ((), d3)"
    and ap: "appendEvent ev i None TypeTaskCancelled d3 = Inr ((), e)"
    using t by (auto simp: cancel_tx_def tx_iffs)
  note d1 = TransitionTask_Inr(3) [OF t1]
  note d2 = finishOpen_Inr [OF fo]
  have as: "aside d2 d3" by (rule retainWorktrees_aside [OF rw])
  have "attempts_of d1 i = attempts_of d i" by (simp add: d1 attempts_of_def)
  then have cl: "attempts_moved i (\<lambda>a. close_running AttemptCancelled (a_Status a)) [] d d3"
    using d1 d2 as by (intro attempts_moved_closed [OF wf]) (simp add: aside_def)
  have c: "\<not> Terminal cur" using TransitionTask_Inr(1) [OF t1] by (simp add: to_Cancelled_from)
  show ?thesis
    by (rule closing_advances [OF ok t1 _ _ _ cl ap])
      (use d1 d2 as c task_step.cancel in \<open>simp_all add: aside_def\<close>)
qed

lemma approve_advances:
  assumes ok: "db_ok d" and t: "approve_tx i cur granted by reason ev d = Inr (p, e)" and cur: "cur = StatusWaitingApproval"
  shows "advances d e"
proof -
  have wf: "well_formed d" using ok by (simp add: db_ok_def)
  obtain d0 d1 d2 where de: "DecideApproval i (if granted then ApprovalGranted else ApprovalDenied) by reason d = Inr (p, d0)"
    and t1: "TransitionTask i cur (if granted then StatusReady else StatusFailed) d0 = Inr ((), d1)"
    and fo: "(if granted then tx_return ()
         else finishOpenAttempts i AttemptFailed FailureApprovalDenied ''approval denied'') d1 = Inr ((), d2)"
    and ap: "appendEvent ev i None (if granted then TypeApprovalGranted else TypeApprovalDenied) d2 = Inr ((), e)"
    using t by (auto simp: approve_tx_def tx_iffs)
  have as0: "aside d d0" by (rule approvals_aside(2) [OF de])
  have adv: "advances d0 e" if ok0: "db_ok d0"
  proof (cases granted)
    case True
    then have "d2 = d1" using fo by (simp add: tx_iffs)
    with True t1 ap have "TransitionTask i cur StatusReady d0 = Inr ((), d1)" "appendEvent ev i None TypeApprovalGranted d1 = Inr ((), e)"
      by simp_all
    then show ?thesis
      by (rule status_advances [OF ok0 _ aside_refl])
        (use cur in \<open>auto intro!: task_step.ready simp: CanTransitionTo_def\<close>)
  next
    case False
    have wf0: "well_formed d0" using ok0 by (simp add: db_ok_def)
    have t1': "TransitionTask i cur StatusFailed d0 = Inr ((), d1)" using t1 False by simp
    have fo': "finishOpenAttempts i AttemptFailed FailureApprovalDenied ''approval denied'' d1 = Inr ((), d2)" using fo False by simp
    have ap': "appendEvent ev i None TypeApprovalDenied d2 = Inr ((), e)" using ap False by simp
    note d1 = TransitionTask_Inr(3) [OF t1']
    note d2 = finishOpen_Inr [OF fo']
    have "attempts_of d1 i = attempts_of d0 i" by (simp add: d1 attempts_of_def)
    then have cl: "attempts_moved i (\<lambda>a. close_running AttemptFailed (a_Status a)) [] d0 d2"
      using d1 d2 by (intro attempts_moved_closed [OF wf0]) simp
    show ?thesis
      by (rule closing_advances [OF ok0 t1' _ _ _ cl ap'])
        (use d1 d2 cur in \<open>auto intro!: task_step.deny\<close>)
  qed
  have same: "attempts_of d0 = attempts_of d" "history_of d0 = history_of d" "has_task d0 = has_task d"
    using as0 by (auto simp: aside_def attempts_of_def history_of_def events_of_def has_task_def)
  have abs: "abs_task d0 = abs_task d" by (rule ext) (simp add: abs_task_def same)
  have "db_ok d0" using ok as0 same abs by (simp add: db_ok_def well_formed_def aside_def)
  from adv [OF this] show ?thesis using as0 abs by (simp add: advances_def aside_def)
qed

lemma quiet_advances:
  assumes ok: "db_ok d" and q: "quiet d e"
  shows "advances d e"
proof -
  have la: "list_all2 (\<lambda>a b. same_attempt a b \<and> a_Status b = a_Status a) (db_attempts d) (db_attempts e)"
    using q by (simp add: quiet_def)
  have "moved 0 None a_Status [] [] d e"
    using q la by (auto simp: moved_def quiet_def tasks_moved_same events_added_none attempts_moved_def)
  then show ?thesis
    by (rule moved_advances [OF _ ok]) (simp_all add: abs_after_none List.map_filter_def)
qed

section \<open>A new task, and a deleted one\<close>

definition grows :: "Task \<Rightarrow> db \<Rightarrow> db \<Rightarrow> bool" where
  "grows t d e =
     (well_formed e \<and> db_tasks e = db_tasks d @ [t] \<and> (\<exists>new. db_events e = db_events d @ new)
      \<and> \<not> has_task d (t_ID t) \<and> 0 \<le> t_MaxRetries t \<and> abs_task e t = fresh_task (t_MaxRetries t)
      \<and> (\<forall>u \<in> set (db_tasks d). abs_task e u = abs_task d u))"

lemma CreateTask_Inr:
  assumes "CreateTask built d = Inr (t, e)"
  shows "t_ID t = t_ID built" "t_Status t = t_Status built" "0 \<le> t_MaxRetries t" "\<not> has_task d (t_ID t)"
    "e = d\<lparr>db_tasks := db_tasks d @ [t], db_ref := db_ref d + 1\<rparr>"
  using assms task_row_member [of d "t_ID built"]
  by (auto simp: CreateTask_def tasks_checks_def Let_def split: if_splits)

lemma create_grows:
  assumes ok: "db_ok d" and c: "create_tx built st d = Inr (t, e)" and p: "t_Status built = StatusPending"
  shows "grows t d e"
proof -
  have wf: "well_formed d" using ok by (simp add: db_ok_def)
  obtain d1 where c1: "CreateTask built d = Inr (t, d1)"
    and ap: "appendEvent (st t) (t_ID t) None TypeTaskCreated d1 = Inr ((), e)"
    using c by (auto simp: create_tx_def tx_iffs)
  note d1 = CreateTask_Inr [OF c1]
  obtain v where v: "e = d1\<lparr>db_events := db_events d1 @ [v], db_seq := db_seq d1 + 1\<rparr>" "e_TaskID v = t_ID t"
    "e_AttemptID v = None" "e_Type v = TypeTaskCreated" "e_Seq v = db_seq d1 + 1"
    using appendEvent_Inr [OF ap] by blast
  have e: "db_tasks e = db_tasks d @ [t]" "db_attempts e = db_attempts d" "db_events e = db_events d @ [v]"
    "db_seq e = db_seq d + 1"
    using v d1(5) by simp_all
  have new: "\<not> has_task d (t_ID t)" by (rule d1(4))
  have has: "has_task e i \<longleftrightarrow> has_task d i \<or> i = t_ID t" for i using e by (auto simp: has_task_def)
  have att: "attempts_of e i = attempts_of d i" for i using e by (simp add: attempts_of_def)
  have none: "attempts_of d (t_ID t) = []" "events_of d (t_ID t) = []"
    using wf new by (auto simp: well_formed_def attempts_of_def events_of_def filter_empty_conv)
  have hist: "history_of e i = history_of d i @ (if i = t_ID t then [StatusPending] else [])" for i
    using v e by (simp add: history_of_def events_of_def map_filter_append List.map_filter_def)
  have "abs_task e t = fresh_task (t_MaxRetries t)"
    using d1(2) p none hist att by (simp add: abs_task_def fresh_task_def history_of_def List.map_filter_def)
  moreover have "abs_task e u = abs_task d u" if "u \<in> set (db_tasks d)" for u
    using that new hist att by (auto simp: abs_task_def has_task_def)
  moreover have "well_formed e"
    using wf new e v has att d1(5)
    by (fastforce simp: well_formed_def sorted_wrt_append of_attempt_def has_task_def simp del: upt_Suc)
  ultimately show ?thesis using e new d1(3) by (simp add: grows_def)
qed

text \<open>Every step of the system is a step of the specification, or brings a fresh task.\<close>

lemma sys_step_advances:
  assumes "sys_step d e" "db_ok d"
  shows "advances d e \<or> (\<exists>t. grows t d e)"
  using assms
proof cases
  case (create_task built st t)
  then show ?thesis using create_grows assms(2) by blast
next
  case gate_task
  show ?thesis by (rule disjI1, rule gate_advances [OF assms(2) gate_task])
next
  case ready_task
  show ?thesis by (rule disjI1, rule ready_advances [OF assms(2) ready_task])
next
  case start_task
  show ?thesis by (rule disjI1, rule start_advances [OF assms(2) start_task])
next
  case verify_task
  show ?thesis by (rule disjI1, rule verify_advances [OF assms(2) verify_task])
next
  case inform
  show ?thesis by (rule disjI1, rule inform_advances [OF assms(2) inform])
next
  case remark
  show ?thesis by (rule disjI1, rule silent_append_advances [OF assms(2) remark(1) aside_refl _ remark(2)]) simp
next
  case worktree
  show ?thesis by (rule disjI1, rule worktree_advances [OF assms(2) worktree])
next
  case retain
  show ?thesis by (rule disjI1, rule retain_advances [OF assms(2) retain])
next
  case fail_task
  show ?thesis by (rule disjI1, rule fail_advances [OF assms(2) fail_task])
next
  case retry_task
  show ?thesis by (rule disjI1, rule retry_advances [OF assms(2) retry_task])
next
  case succeed_task
  show ?thesis by (rule disjI1, rule succeed_advances [OF assms(2) succeed_task])
next
  case cancel_task
  show ?thesis by (rule disjI1, rule cancel_advances [OF assms(2) cancel_task])
next
  case approve_task
  show ?thesis by (rule disjI1, rule approve_advances [OF assms(2) approve_task])
next
  case quiet_step
  show ?thesis by (rule disjI1, rule quiet_advances [OF assms(2) quiet_step])
qed

lemma advances_ok:
  assumes "advances d e" "db_ok d"
  shows "db_ok e"
proof -
  have "task_ok (abs_task e u)" if "u \<in> set (db_tasks e)" for u
    using assms that step_task_ok by (fastforce simp: advances_def db_ok_def)
  with assms show ?thesis by (simp add: advances_def db_ok_def)
qed

lemma grows_ok: "grows t d e \<Longrightarrow> db_ok d \<Longrightarrow> db_ok e"
  by (auto simp: grows_def db_ok_def task_ok_fresh)

lemma sys_step_ok: "sys_step d e \<Longrightarrow> db_ok d \<Longrightarrow> db_ok e"
  using sys_step_advances advances_ok grows_ok by blast

lemma delete_Inr:
  assumes "delete_body i d = Inr (u, e)"
  shows "e = delete_cascade i d" "\<exists>t \<in> set (db_tasks d). t_ID t = i \<and> Terminal (t_Status t)"
  using assms by (auto simp: delete_body_def task_row_def split: option.splits if_splits dest!: find_SomeD)

lemma ascending_filter_seq: "ascending (map e_Seq xs) \<Longrightarrow> ascending (map e_Seq (filter p xs))"
  by (induction xs) auto

lemma delete_ok:
  assumes ok: "db_ok d" and del: "delete_body i d = Inr (u, e)"
  shows "db_ok e"
proof -
  have wf: "well_formed d" using ok by (simp add: db_ok_def)
  have e: "e = delete_cascade i d" by (rule delete_Inr(1) [OF del])
  have gone: "(e_TaskID v \<noteq> i \<and> (case e_AttemptID v of None \<Rightarrow> True | Some a \<Rightarrow> a \<notin> set (map a_ID (attempts_of d i))))
      \<longleftrightarrow> e_TaskID v \<noteq> i" if v: "v \<in> set (db_events d)" for v
  proof (cases "e_AttemptID v")
    case (Some a)
    have "of_attempt (db_attempts d) v" using wf v by (simp add: well_formed_def)
    then obtain b where b: "b \<in> set (db_attempts d)" "a_ID b = a" "a_TaskID b = e_TaskID v"
      using Some by (auto simp: of_attempt_def)
    have "distinct (map a_ID (db_attempts d))" using wf by (simp only: well_formed_def)
    then have "a_TaskID c = e_TaskID v" if "c \<in> set (db_attempts d)" "a_ID c = a" for c
      using that b by (metis distinct_map inj_onD)
    then have "e_TaskID v \<noteq> i \<Longrightarrow> a \<notin> set (map a_ID (attempts_of d i))" by (auto simp: attempts_of_def)
    with Some show ?thesis by auto
  qed simp
  have ev: "db_events e = filter (\<lambda>v. e_TaskID v \<noteq> i) (db_events d)"
    unfolding e delete_cascade_def Let_def using gone by (auto intro!: filter_cong)
  have at: "db_attempts e = filter (\<lambda>a. a_TaskID a \<noteq> i) (db_attempts d)"
    and ts: "db_tasks e = filter (\<lambda>t. t_ID t \<noteq> i) (db_tasks d)" and sq: "db_seq e = db_seq d"
    by (simp_all add: e delete_cascade_def Let_def)
  have att: "attempts_of e j = (if j = i then [] else attempts_of d j)" for j
    by (auto simp: attempts_of_def at filter_empty_conv intro!: filter_cong)
  have hist: "history_of e j = (if j = i then [] else history_of d j)" for j
    by (auto simp: history_of_def events_of_def ev filter_empty_conv List.map_filter_def intro!: arg_cong [of _ _ "map _"] filter_cong)
  have has: "has_task e j \<longleftrightarrow> has_task d j \<and> j \<noteq> i" for j by (auto simp: has_task_def ts)
  have "of_attempt (db_attempts e) v" if "v \<in> set (db_events d)" "e_TaskID v \<noteq> i" for v
    using that wf by (fastforce simp: well_formed_def of_attempt_def at split: option.splits)
  then have "well_formed e"
    using wf unfolding well_formed_def
    by (auto simp: ev at ts sq has att distinct_map_filter ascending_filter_seq simp del: upt_Suc)
  moreover have "task_ok (abs_task e t)" if "t \<in> set (db_tasks e)" for t
    using ok that by (auto simp: db_ok_def abs_task_def ts att hist)
  ultimately show ?thesis by (simp add: db_ok_def)
qed

lemma empty_ok: "db_ok empty_db"
  by (simp add: db_ok_def well_formed_def empty_db_def attempts_of_def)

lemma reachable_ok: "reachable d \<Longrightarrow> db_ok d"
  by (induction rule: reachable.induct) (auto intro: empty_ok sys_step_ok delete_ok)

end
