(* ===== verification/Demo.thy ===== *)
theory Demo
  imports Simulation
begin

text \<open>
  One concrete life of a task, run by evaluation: a project, a task with one retry, made ready,
  started, failed for good, and what happened on the way. The witnesses of the properties are taken at
  the databases of this run.
\<close>

text \<open>The database after a transaction, and whether it went through.\<close>

definition ran :: "'a tx \<Rightarrow> db \<Rightarrow> db" where
  "ran m d = (case m d of Inl e \<Rightarrow> d | Inr (x, d') \<Rightarrow> d')"

definition went :: "'a tx \<Rightarrow> db \<Rightarrow> bool" where
  "went m d = (case m d of Inl e \<Rightarrow> False | Inr r \<Rightarrow> True)"

lemma went_Inr: "went m d \<Longrightarrow> \<exists>x. m d = Inr (x, ran m d)"
  by (auto simp: went_def ran_def split: sum.splits)

lemma went_unit: "went m d \<Longrightarrow> m d = Inr ((), ran m d)"
  using went_Inr [of m d] by simp

definition demo_stamp :: "nat \<Rightarrow> stamp" where
  "demo_stamp n = (n, int n, [])"

definition demo_project :: Project where
  "demo_project = \<lparr>p_ID = 1, p_Name = ''p'', p_RepoPath = ''/r'', p_DefaultBranch = ''main'',
     p_Submodules = SubmodulesNone, p_RequiresApproval = True, p_VerificationMode = VerificationClean,
     p_Coverage = False, p_CreatedAt = 0, p_UpdatedAt = 0, p_ReadDirs = []\<rparr>"

definition demo_task :: Task where
  "demo_task = \<lparr>t_ID = 7, t_Ref = [], t_ProjectID = 1, t_Title = ''t'', t_Description = [],
     t_Agent = ''a'', t_Model = [], t_Hardness = None, t_Priority = 0, t_Status = StatusPending,
     t_AcceptanceCriteria = [], t_Verification = [\<lparr>Command = ''go'', Args = [], TimeoutSeconds = 0\<rparr>],
     t_ProtectedPaths = [], t_SetupSteps = [], t_VerificationMode = VerificationClean, t_MaxRetries = 1,
     t_RequiresApproval = False, t_ExpectFailOnBase = False, t_Coverage = False, t_BaseRef = [],
     t_BaseCommitAtCreate = [], t_Timeout = 0, t_CreatedAt = 0, t_UpdatedAt = 0\<rparr>"

definition demo0 :: db where
  "demo0 = empty_db\<lparr>db_projects := [demo_project]\<rparr>"

text \<open>Created, gated, approved, started, verified, retried, started again, verified, succeeded.\<close>

definition demo1 :: db where
  "demo1 = ran (create_tx demo_task (\<lambda>_. demo_stamp 1)) demo0"

definition demo2 :: db where
  "demo2 = ran (gate_tx 7 StatusPending 11 ''project policy requires approval'' (\<lambda>_. demo_stamp 2)) demo1"

definition demo3 :: db where
  "demo3 = ran (approve_tx 7 StatusWaitingApproval True ''me'' [] (demo_stamp 3)) demo2"

definition demo4 :: db where
  "demo4 = ran (start_tx 7 StatusReady 21 0 ''host:1'' 60 (\<lambda>_. demo_stamp 4)) demo3"

definition demo5 :: db where
  "demo5 = ran (transition_tx True 7 21 ''host:1'' StatusRunning StatusVerifying TypeVerificationStarted (demo_stamp 5)) demo4"

definition demo6 :: db where
  "demo6 = ran (tx_seq (fence_tx True 7 21 ''host:1'') (retry_tx 7 21 None [] StatusVerifying FailureVerification ''no'' (demo_stamp 6))) demo5"

definition demo7 :: db where
  "demo7 = ran (start_tx 7 StatusReady 22 0 ''host:1'' 60 (\<lambda>_. demo_stamp 7)) demo6"

definition demo8 :: db where
  "demo8 = ran (transition_tx True 7 22 ''host:1'' StatusRunning StatusVerifying TypeVerificationStarted (demo_stamp 8)) demo7"

definition demo9 :: db where
  "demo9 = ran (tx_seq (fence_tx True 7 22 ''host:1'') (tx_seq (head_tx None []) (succeed_tx 7 22 (demo_stamp 9)))) demo8"

definition demo_cancelled :: db where
  "demo_cancelled = ran (cancel_tx 7 StatusRunning ''stop'' (demo_stamp 12)) demo4"

definition demo_denied :: db where
  "demo_denied = ran (approve_tx 7 StatusWaitingApproval False ''me'' [] (demo_stamp 13)) demo2"

lemmas demo_defs = demo_cancelled_def demo_denied_def demo9_def demo8_def demo7_def demo6_def demo5_def demo4_def
  demo3_def demo2_def demo1_def demo0_def demo_task_def demo_project_def demo_stamp_def

lemma demo1_went: "went (create_tx demo_task (\<lambda>_. demo_stamp 1)) demo0"
  by code_simp

lemma demo2_went: "went (gate_tx 7 StatusPending 11 ''project policy requires approval'' (\<lambda>_. demo_stamp 2)) demo1"
  by code_simp

lemma demo3_went: "went (approve_tx 7 StatusWaitingApproval True ''me'' [] (demo_stamp 3)) demo2"
  by code_simp

lemma demo4_went: "went (start_tx 7 StatusReady 21 0 ''host:1'' 60 (\<lambda>_. demo_stamp 4)) demo3"
  by code_simp

lemma demo5_went: "went (transition_tx True 7 21 ''host:1'' StatusRunning StatusVerifying TypeVerificationStarted (demo_stamp 5)) demo4"
  by code_simp

lemma demo6_went: "went (tx_seq (fence_tx True 7 21 ''host:1'') (retry_tx 7 21 None [] StatusVerifying FailureVerification ''no'' (demo_stamp 6))) demo5"
  by code_simp

lemma demo7_went: "went (start_tx 7 StatusReady 22 0 ''host:1'' 60 (\<lambda>_. demo_stamp 7)) demo6"
  by code_simp

lemma demo8_went: "went (transition_tx True 7 22 ''host:1'' StatusRunning StatusVerifying TypeVerificationStarted (demo_stamp 8)) demo7"
  by code_simp

lemma demo9_went: "went (tx_seq (fence_tx True 7 22 ''host:1'') (tx_seq (head_tx None []) (succeed_tx 7 22 (demo_stamp 9)))) demo8"
  by code_simp

lemma demo_cancelled_went: "went (cancel_tx 7 StatusRunning ''stop'' (demo_stamp 12)) demo4"
  by code_simp

lemma demo_denied_went: "went (approve_tx 7 StatusWaitingApproval False ''me'' [] (demo_stamp 13)) demo2"
  by code_simp

lemma demo_retry_allowed:
  "\<exists>a \<in> set (db_attempts demo5). a_ID a = 21 \<and>
    (\<exists>t \<in> set (db_tasks demo5). t_ID t = 7 \<and> int (a_AttemptNumber a) \<le> t_MaxRetries t)"
  by code_simp

text \<open>The whole run is reachable.\<close>

lemma reach0: "reachable demo0"
proof (rule reachable.system [OF reachable.initially])
  show "sys_step empty_db demo0"
    by (rule sys_step.quiet_step) (simp add: quiet_def demo0_def empty_db_def)
qed

lemma reach1: "reachable demo1"
proof (rule reachable.system [OF reach0])
  obtain t where "create_tx demo_task (\<lambda>_. demo_stamp 1) demo0 = Inr (t, demo1)"
    using went_Inr [OF demo1_went] by (auto simp: demo1_def)
  then show "sys_step demo0 demo1" by (rule sys_step.create_task) (simp add: demo_task_def)
qed

lemma reach2: "reachable demo2"
proof (rule reachable.system [OF reach1])
  obtain a where "gate_tx 7 StatusPending 11 ''project policy requires approval'' (\<lambda>_. demo_stamp 2) demo1 = Inr (a, demo2)"
    using went_Inr [OF demo2_went] by (auto simp: demo2_def)
  then show "sys_step demo1 demo2" by (rule sys_step.gate_task) simp
qed

lemma reach3: "reachable demo3"
proof (rule reachable.system [OF reach2])
  obtain a where "approve_tx 7 StatusWaitingApproval True ''me'' [] (demo_stamp 3) demo2 = Inr (a, demo3)"
    using went_Inr [OF demo3_went] by (auto simp: demo3_def)
  then show "sys_step demo2 demo3" by (rule sys_step.approve_task) simp
qed

lemma reach_denied: "reachable demo_denied"
proof (rule reachable.system [OF reach2])
  obtain a where "approve_tx 7 StatusWaitingApproval False ''me'' [] (demo_stamp 13) demo2 = Inr (a, demo_denied)"
    using went_Inr [OF demo_denied_went] by (auto simp: demo_denied_def)
  then show "sys_step demo2 demo_denied" by (rule sys_step.approve_task) simp
qed

lemma reach4: "reachable demo4"
proof (rule reachable.system [OF reach3])
  obtain a where "start_tx 7 StatusReady 21 0 ''host:1'' 60 (\<lambda>_. demo_stamp 4) demo3 = Inr (a, demo4)"
    using went_Inr [OF demo4_went] by (auto simp: demo4_def)
  then show "sys_step demo3 demo4" by (rule sys_step.start_task)
qed

lemma reach_cancelled: "reachable demo_cancelled"
proof (rule reachable.system [OF reach4])
  obtain a where "cancel_tx 7 StatusRunning ''stop'' (demo_stamp 12) demo4 = Inr (a, demo_cancelled)"
    using went_Inr [OF demo_cancelled_went] by (auto simp: demo_cancelled_def)
  then show "sys_step demo4 demo_cancelled" by (rule sys_step.cancel_task)
qed

lemma reach5: "reachable demo5"
  using sys_step.verify_task [OF went_unit [OF demo5_went]] reachable.system [OF reach4] by (simp add: demo5_def)

lemma step6: "sys_step demo5 demo6"
proof -
  obtain a t where "a \<in> set (db_attempts demo5)" "a_ID a = 21" "t \<in> set (db_tasks demo5)" "t_ID t = 7"
    "int (a_AttemptNumber a) \<le> t_MaxRetries t"
    using demo_retry_allowed by blast
  from sys_step.retry_task [OF went_unit [OF demo6_went] this] show ?thesis by (simp add: demo6_def)
qed

lemma reach6: "reachable demo6"
  by (rule reachable.system [OF reach5 step6])

lemma reach7: "reachable demo7"
proof (rule reachable.system [OF reach6])
  obtain a where "start_tx 7 StatusReady 22 0 ''host:1'' 60 (\<lambda>_. demo_stamp 7) demo6 = Inr (a, demo7)"
    using went_Inr [OF demo7_went] by (auto simp: demo7_def)
  then show "sys_step demo6 demo7" by (rule sys_step.start_task)
qed

lemma reach8: "reachable demo8"
  using sys_step.verify_task [OF went_unit [OF demo8_went]] reachable.system [OF reach7] by (simp add: demo8_def)

lemma step9: "sys_step demo8 demo9"
  using sys_step.succeed_task [OF went_unit [OF demo9_went]] by (simp add: demo9_def)

lemma reach9: "reachable demo9"
  by (rule reachable.system [OF reach8 step9])

end
