(* ===== verification/Guarantees.thy ===== *)
theory Guarantees
  imports Demo
begin

text \<open>
  What every reachable database of the system satisfies, read off the invariant of the
  specification: the history of a task agrees with its status, an open attempt and an active
  status go together, attempts stay within the allowance, terminal tasks stay as they are, and a
  process that lost its lease changes nothing. Each property is stated over the tables of the
  database and followed by a witness on the concrete run.
\<close>

lemma reachable_task_ok: "reachable d \<Longrightarrow> t \<in> set (db_tasks d) \<Longrightarrow> task_ok (abs_task d t)"
  using reachable_ok by (simp add: db_ok_def)

lemma reachable_well_formed: "reachable d \<Longrightarrow> well_formed d"
  using reachable_ok by (simp add: db_ok_def)





text \<open>
  C8: A task is \<open>RUNNING\<close> or \<open>VERIFYING\<close> exactly while one attempt of it is open, and that attempt is
  its newest one.
\<close>

theorem active_iff_open_attempt:
  assumes "reachable d" and "t \<in> set (db_tasks d)"
  shows "filter (\<lambda>a. a_Status a = AttemptRunning) (attempts_of d (t_ID t))
    = (if Active (t_Status t) then [last (attempts_of d (t_ID t))] else [])"
proof -
  have ok: "attempts_ok (t_Status t) (map a_Status (attempts_of d (t_ID t)))"
    using reachable_task_ok [OF assms] by (simp add: task_ok_def abs_task_def)
  show ?thesis
  proof (cases "attempts_of d (t_ID t)" rule: rev_cases)
    case Nil
    with ok show ?thesis by (simp add: attempts_ok_def)
  next
    case (snoc as a)
    with ok have "\<forall>b \<in> set as. a_Status b = AttemptFailed" "Active (t_Status t) \<longleftrightarrow> a_Status a = AttemptRunning"
      by (auto simp: attempts_ok_snoc list_all_iff)
    with snoc show ?thesis by (auto simp: filter_empty_conv)
  qed
qed

theorem active_iff_open_attempt_witness:
  "map a_ID (filter (\<lambda>a. a_Status a = AttemptRunning) (attempts_of demo8 7)) = [22]"
proof -
  have "\<exists>t \<in> set (db_tasks demo8). t_ID t = 7 \<and> t_Status t = StatusVerifying" by code_simp
  then obtain t where t: "t \<in> set (db_tasks demo8)" "t_ID t = 7" "t_Status t = StatusVerifying" by blast
  have "a_ID (last (attempts_of demo8 7)) = 22" by code_simp
  with active_iff_open_attempt [OF reach8 t(1)] t show ?thesis by simp
qed

text \<open>
  C9: The attempts of a task are numbered 1, 2, 3, ... without gaps, there are at most
  \<open>max_retries + 1\<close> of them, and every one before the newest has failed.
\<close>

theorem attempts_within_allowance:
  assumes "reachable d" and "t \<in> set (db_tasks d)"
  shows "map a_AttemptNumber (attempts_of d (t_ID t)) = [1..<Suc (length (attempts_of d (t_ID t)))]
    \<and> int (length (attempts_of d (t_ID t))) \<le> t_MaxRetries t + 1
    \<and> (\<forall>a \<in> set (butlast (attempts_of d (t_ID t))). a_Status a = AttemptFailed)"
proof -
  have wf: "well_formed d" by (rule reachable_well_formed [OF assms(1)])
  have ok: "task_ok (abs_task d t)" by (rule reachable_task_ok [OF assms])
  have "map a_AttemptNumber (attempts_of d (t_ID t)) = [1..<Suc (length (attempts_of d (t_ID t)))]"
    using wf by (simp add: well_formed_def del: upt_Suc)
  moreover have "int (length (attempts_of d (t_ID t))) \<le> t_MaxRetries t + 1"
    using ok by (simp add: task_ok_def abs_task_def split: if_splits)
  moreover have "\<forall>a \<in> set (butlast (attempts_of d (t_ID t))). a_Status a = AttemptFailed"
    using ok by (simp add: task_ok_def abs_task_def attempts_ok_def list_all_iff map_butlast [symmetric])
  ultimately show ?thesis by blast
qed

theorem attempts_within_allowance_witness:
  "map a_AttemptNumber (attempts_of demo9 7) = [1..<Suc (length (attempts_of demo9 7))]
    \<and> length (attempts_of demo9 7) = 2"
proof -
  have "\<exists>t \<in> set (db_tasks demo9). t_ID t = 7" by code_simp
  then obtain t where t: "t \<in> set (db_tasks demo9)" "t_ID t = 7" by blast
  have "length (attempts_of demo9 7) = 2" by code_simp
  with attempts_within_allowance [OF reach9 t(1)] t show ?thesis by simp
qed

text \<open>
  C10: A task is \<open>SUCCEEDED\<close> exactly when its newest attempt is recorded as \<open>SUCCEEDED\<close>.
\<close>

theorem succeeded_iff_last_attempt:
  assumes "reachable d" and "t \<in> set (db_tasks d)"
  shows "t_Status t = StatusSucceeded \<longleftrightarrow>
    (\<exists>as a. attempts_of d (t_ID t) = as @ [a] \<and> a_Status a = AttemptSucceeded)"
proof -
  have ok: "attempts_ok (t_Status t) (map a_Status (attempts_of d (t_ID t)))"
    using reachable_task_ok [OF assms] by (simp add: task_ok_def abs_task_def)
  then show ?thesis
    by (cases "attempts_of d (t_ID t)" rule: rev_cases) (auto simp: attempts_ok_def attempts_ok_snoc)
qed

theorem succeeded_iff_last_attempt_witness:
  "\<exists>as a. attempts_of demo9 7 = as @ [a] \<and> a_Status a = AttemptSucceeded"
proof -
  have "\<exists>t \<in> set (db_tasks demo9). t_ID t = 7 \<and> t_Status t = StatusSucceeded" by code_simp
  then obtain t where t: "t \<in> set (db_tasks demo9)" "t_ID t = 7" "t_Status t = StatusSucceeded" by blast
  from succeeded_iff_last_attempt [OF reach9 t(1)] t show ?thesis by simp
qed

section \<open>Ended tasks\<close>

lemma sys_step_keeps_task:
  assumes ok: "db_ok d" and s: "sys_step d e" and t: "t \<in> set (db_tasks d)" and u: "u \<in> set (db_tasks e)"
    and id: "t_ID u = t_ID t"
  shows "abs_task e u = abs_task d t \<or> task_step (abs_task d t) (abs_task e u)"
proof -
  have dist: "distinct (map t_ID (db_tasks d))" using ok by (simp only: db_ok_def well_formed_def)
  have uniq: "q = t" if "q \<in> set (db_tasks d)" "t_ID q = t_ID t" for q
    using that t dist by (metis distinct_map inj_onD)
  from sys_step_advances [OF s ok] show ?thesis
  proof
    assume "advances d e"
    then obtain q where q: "q \<in> set (db_tasks d)" "t_ID q = t_ID u"
      and st: "abs_task e u = abs_task d q \<or> task_step (abs_task d q) (abs_task e u)"
      using u by (auto simp: advances_def)
    have "q = t" using uniq q id by simp
    with st show ?thesis by simp
  next
    assume "\<exists>r. grows r d e"
    then obtain r where r: "grows r d e" by blast
    then have "u \<noteq> r" using t id by (auto simp: grows_def has_task_def)
    with r u have "u \<in> set (db_tasks d)" "abs_task e u = abs_task d u" by (auto simp: grows_def)
    with uniq id show ?thesis by auto
  qed
qed



section \<open>The lease fence\<close>

lemma fence_refuses:
  assumes ok: "db_ok d" and t: "t \<in> set (db_tasks d)" and s: "\<not> Active (t_Status t)"
  shows "fence_tx True (t_ID t) aid owner d = Inl ErrLeaseLost"
proof -
  have wf: "well_formed d" and tok: "task_ok (abs_task d t)" using ok t by (simp_all add: db_ok_def)
  have "\<not> holds_lease (t_ID t) aid owner a" if "a \<in> set (db_attempts d)" for a
    using open_attempt(2) [OF tok wf that] s by (auto simp: holds_lease_def)
  moreover have "task_row d (t_ID t) \<noteq> None" using t task_row_member [of d "t_ID t"] by (auto simp: has_task_def)
  ultimately show ?thesis by (auto simp: fence_tx_def HoldLease_def)
qed

lemma sys_step_has:
  assumes "sys_step d e" "db_ok d" "t \<in> set (db_tasks d)"
  shows "\<exists>u \<in> set (db_tasks e). t_ID u = t_ID t"
proof -
  have "t_ID t \<in> set (map t_ID (db_tasks e))"
    using sys_step_advances [OF assms(1,2)]
  proof
    assume "advances d e"
    then have "map t_ID (db_tasks e) = map t_ID (db_tasks d)" by (simp add: advances_def)
    with assms(3) show ?thesis by (metis image_eqI list.set_map)
  next
    assume "\<exists>t. grows t d e"
    with assms(3) show ?thesis by (auto simp: grows_def)
  qed
  then show ?thesis by auto
qed

lemma cancel_status:
  assumes "cancel_tx i cur reason ev d = Inr (owner, e)" "db_ok d"
  shows "\<exists>t \<in> set (db_tasks e). t_ID t = i \<and> t_Status t = StatusCancelled"
proof -
  obtain d1 d2 d3 where t1: "TransitionTask i cur StatusCancelled d = Inr ((), d1)"
    and fo: "finishOpenAttempts i AttemptCancelled FailureCancelled reason d1 = Inr ((), d2)"
    and rw: "retainWorktrees i d2 = Inr ((), d3)"
    and ap: "appendEvent ev i None TypeTaskCancelled d3 = Inr ((), e)"
    using assms(1) by (auto simp: cancel_tx_def tx_iffs)
  have "db_tasks e = db_tasks d1"
    using append_keeps [OF ap] retainWorktrees_aside [OF rw] finishOpen_Inr [OF fo] by (simp add: aside_def)
  moreover obtain r where r: "r \<in> set (db_tasks d)" "t_ID r = i" "t_Status r = cur"
    using TransitionTask_Inr(2) [OF t1] by blast
  moreover have "r\<lparr>t_Status := StatusCancelled, t_UpdatedAt := db_now d\<rparr> \<in> set (db_tasks d1)"
    using r unfolding TransitionTask_Inr(3) [OF t1] by (auto simp: set_update_where image_iff intro!: bexI [of _ r])
  ultimately show ?thesis by (intro bexI [of _ "r\<lparr>t_Status := StatusCancelled, t_UpdatedAt := db_now d\<rparr>"]) simp_all
qed

lemma steps_keep_cancelled:
  assumes "sys_step\<^sup>*\<^sup>* d e" "db_ok d" "t \<in> set (db_tasks d)" "Terminal (t_Status t)"
  shows "db_ok e \<and> (\<exists>u \<in> set (db_tasks e). t_ID u = t_ID t \<and> t_Status u = t_Status t)"
  using assms
proof (induction rule: rtranclp_induct)
  case base
  then show ?case by blast
next
  case (step e f)
  then obtain u where e: "db_ok e" and u: "u \<in> set (db_tasks e)" "t_ID u = t_ID t" "t_Status u = t_Status t" by blast
  have f: "db_ok f" by (rule sys_step_ok [OF step(2) e])
  have "\<exists>v \<in> set (db_tasks f). t_ID v = t_ID u"
    using sys_step_has [OF step(2) e u(1)] .
  then obtain v where v: "v \<in> set (db_tasks f)" "t_ID v = t_ID u" by blast
  have "\<not> task_step (abs_task e u) (abs_task f v)"
    using terminal_stuck [of "abs_task e u"] u step(6) by (auto simp: abs_simps)
  then have "abs_task f v = abs_task e u" using sys_step_keeps_task [OF e step(2) u(1) v] by blast
  then have "t_Status v = t_Status u" by (metis abs_simps(1))
  with f v u show ?case by auto
qed

text \<open>
  C17: Once a cancellation has committed, the fence refuses every process for good: however many
  transactions follow, no attempt of the task, whoever the caller says he is, passes it, so
  nothing behind the fence (a transition, an ending, a retry, a success) is written.
\<close>

theorem cancelled_task_is_fenced:
  assumes "reachable d" and "cancel_tx i cur reason ev d = Inr (stopped, e)" and "sys_step\<^sup>*\<^sup>* e f"
  shows "fence_tx True i aid owner f = Inl ErrLeaseLost
    \<and> transition_tx True i aid owner s1 s2 ty st f = Inl ErrLeaseLost
    \<and> fail_tx True i aid owner record st1 cur2 cancelled kind message st2 f = Inl ErrLeaseLost
    \<and> tx_seq (fence_tx True i aid owner) (tx_seq (head_tx record commit) (succeed_tx i aid st)) f = Inl ErrLeaseLost
    \<and> tx_seq (fence_tx True i aid owner) (retry_tx i aid record partial cur2 kind message st) f = Inl ErrLeaseLost"
proof -
  have ok: "db_ok d" by (rule reachable_ok [OF assms(1)])
  have oke: "db_ok e" by (rule sys_step_ok [OF sys_step.cancel_task [OF assms(2)] ok])
  obtain t where t: "t \<in> set (db_tasks e)" "t_ID t = i" "t_Status t = StatusCancelled"
    using cancel_status [OF assms(2) ok] by blast
  obtain u where f: "db_ok f" and u: "u \<in> set (db_tasks f)" "t_ID u = i" "t_Status u = StatusCancelled"
    using steps_keep_cancelled [OF assms(3) oke t(1)] t by auto
  have fence: "fence_tx True i aid owner f = Inl ErrLeaseLost"
    using fence_refuses [OF f u(1)] u by simp
  then show ?thesis
    by (simp add: transition_tx_def fail_tx_def tx_seq_def tx_then_def)
qed

theorem cancelled_task_is_fenced_witness:
  "transition_tx True 7 21 ''host:1'' StatusRunning StatusVerifying TypeVerificationStarted (demo_stamp 30) demo_cancelled
    = Inl ErrLeaseLost"
proof -
  obtain o' where "cancel_tx 7 StatusRunning ''stop'' (demo_stamp 12) demo4 = Inr (o', demo_cancelled)"
    using went_Inr [OF demo_cancelled_went] by (auto simp: demo_cancelled_def)
  from cancelled_task_is_fenced [OF reach4 this rtranclp.rtrancl_refl] show ?thesis by blast
qed

section \<open>The log\<close>

text \<open>
  The event log is append-only and ordered: a transaction keeps every event that was there, and
  sequence numbers strictly increase along the log.
\<close>

theorem log_is_append_only:
  assumes "reachable d" and "sys_step d e"
  shows "(\<exists>new. db_events e = db_events d @ new) \<and> ascending (map e_Seq (db_events e))"
proof -
  have ok: "db_ok d" by (rule reachable_ok [OF assms(1)])
  have "well_formed e" using sys_step_ok [OF assms(2) ok] by (simp add: db_ok_def)
  with sys_step_advances [OF assms(2) ok] show ?thesis
    by (auto simp: advances_def grows_def well_formed_def)
qed

theorem log_is_append_only_witness:
  "(\<exists>new. db_events demo9 = db_events demo8 @ new) \<and> length (db_events demo9) = 9"
proof -
  have "length (db_events demo9) = 9" by code_simp
  with log_is_append_only [OF reach8 step9] show ?thesis by simp
qed

section \<open>A gate asked for too late\<close>


end
