(* ===== verification/Procexec.thy ===== *)
theory Procexec
  imports GoStrings
begin

text \<open>
  \<open>internal/procexec\<close>: how an external program is run. The child itself is not code of the
  repository: what it wrote, how waiting for it ended and whether the caller's context or the
  deadline fired are a record the definitions take as an argument. Modelled are the checks on
  a spec, the environment the child gets, the capture of its output in a buffer of bounded
  size, and the classification of how it ended.
\<close>

section \<open>Capturing bounded output\<close>

text \<open>\<open>b_total\<close> counts every byte written; the buffer keeps the first and the newest half.\<close>

record boundedBuffer =
  b_head :: string
  b_tail :: string
  b_limit :: nat
  b_total :: nat

definition newBoundedBuffer :: "nat \<Rightarrow> boundedBuffer" where
  "newBoundedBuffer limit = \<lparr>b_head = [], b_tail = [], b_limit = limit, b_total = 0\<rparr>"

definition keep_last :: "nat \<Rightarrow> 'a list \<Rightarrow> 'a list" where
  "keep_last n xs = drop (length xs - n) xs"

definition buffer_tail_write :: "boundedBuffer \<Rightarrow> string \<Rightarrow> boundedBuffer" where
  "buffer_tail_write b p =
     (let tail = b_tail b @ p
      in b\<lparr>b_tail := keep_last (b_limit b - b_limit b div 2) tail\<rparr>)"

definition buffer_write :: "boundedBuffer \<Rightarrow> string \<Rightarrow> boundedBuffer" where
  "buffer_write b0 p =
     (let b = b0\<lparr>b_total := b_total b0 + length p\<rparr>;
          room = b_limit b div 2 - length (b_head b)
      in if room > 0
         then (if length p \<le> room then b\<lparr>b_head := b_head b @ p\<rparr>
               else buffer_tail_write (b\<lparr>b_head := b_head b @ take room p\<rparr>) (drop room p))
         else buffer_tail_write b p)"

definition buffer_dropped :: "boundedBuffer \<Rightarrow> nat" where
  "buffer_dropped b = b_total b - length (b_head b) - length (b_tail b)"

text \<open>The ellipsis of the note is the UTF-8 encoding of U+2026.\<close>

definition ellipsis :: string where
  "ellipsis = [CHR 0xE2, CHR 0x80, CHR 0xA6]"

definition buffer_string :: "boundedBuffer \<Rightarrow> string" where
  "buffer_string b =
     (if buffer_dropped b = 0 then b_head b @ b_tail b
      else b_head b @ ellipsis @ ''[truncated '' @ nat_dec (buffer_dropped b) @ '' bytes]''
           @ ellipsis @ b_tail b)"

definition buffer_truncated :: "boundedBuffer \<Rightarrow> bool" where
  "buffer_truncated b = (b_total b > length (b_head b) + length (b_tail b))"

text \<open>What the buffer must hold after the whole stream, however it was cut into writes.\<close>

definition buffer_of :: "nat \<Rightarrow> string \<Rightarrow> boundedBuffer" where
  "buffer_of limit s =
     \<lparr>b_head = take (limit div 2) s,
      b_tail = keep_last (limit - limit div 2) (drop (limit div 2) s),
      b_limit = limit, b_total = length s\<rparr>"

lemma keep_last_append: "keep_last n (keep_last n xs @ ys) = keep_last n (xs @ ys)"
  by (cases "length xs \<le> n") (simp_all add: keep_last_def add.commute)

lemma keep_last_all: "length xs \<le> n \<Longrightarrow> keep_last n xs = xs"
  by (simp add: keep_last_def)

lemma length_keep_last [simp]: "length (keep_last n xs) = min n (length xs)"
  by (auto simp: keep_last_def)

lemma keep_last_Nil [simp]: "keep_last n [] = []"
  by (simp add: keep_last_def)

lemma buffer_tail_write_of:
  assumes "limit div 2 \<le> length s"
  shows "buffer_tail_write (buffer_of limit s\<lparr>b_total := n\<rparr>) p = buffer_of limit (s @ p)\<lparr>b_total := n\<rparr>"
  using assms by (simp add: buffer_tail_write_def buffer_of_def Let_def keep_last_append)

lemma buffer_write_of: "buffer_write (buffer_of limit s) p = buffer_of limit (s @ p)"
proof (cases "length s < limit div 2")
  case short: True
  let ?room = "limit div 2 - length s"
  show ?thesis
  proof (cases "length p \<le> ?room")
    case True
    with short show ?thesis
      by (auto simp: buffer_write_def buffer_of_def Let_def)
  next
    case False
    let ?q = "take ?room p"
    have q: "length (s @ ?q) = limit div 2" using short False by simp
    have "buffer_write (buffer_of limit s) p
        = buffer_tail_write (buffer_of limit (s @ ?q)\<lparr>b_total := length s + length p\<rparr>) (drop ?room p)"
      using short False by (simp add: buffer_write_def buffer_of_def Let_def)
    also have "\<dots> = buffer_of limit ((s @ ?q) @ drop ?room p)\<lparr>b_total := length s + length p\<rparr>"
      by (rule buffer_tail_write_of) (simp only: q order_refl)
    also have "(s @ ?q) @ drop ?room p = s @ p" by simp
    also have "buffer_of limit (s @ p)\<lparr>b_total := length s + length p\<rparr> = buffer_of limit (s @ p)"
      by (simp add: buffer_of_def)
    finally show ?thesis .
  qed
next
  case False
  then have "buffer_write (buffer_of limit s) p
      = buffer_tail_write (buffer_of limit s\<lparr>b_total := length s + length p\<rparr>) p"
    by (simp add: buffer_write_def buffer_of_def Let_def)
  also have "\<dots> = buffer_of limit (s @ p)\<lparr>b_total := length s + length p\<rparr>"
    using False by (intro buffer_tail_write_of) simp
  also have "\<dots> = buffer_of limit (s @ p)" by (simp add: buffer_of_def)
  finally show ?thesis .
qed

lemma newBoundedBuffer_of: "newBoundedBuffer limit = buffer_of limit []"
  by (simp add: newBoundedBuffer_def buffer_of_def)

lemma buffer_writes_of: "foldl buffer_write (buffer_of limit s) ps = buffer_of limit (s @ concat ps)"
  by (induction ps arbitrary: s) (simp_all add: buffer_write_of)

section \<open>The environment of the child\<close>

definition env_name :: "string \<Rightarrow> string" where
  "env_name entry = before_char CHR ''='' entry"

definition dropEnv :: "string list \<Rightarrow> string list \<Rightarrow> string list" where
  "dropEnv env dropped =
     (if dropped = [] then env
      else filter (\<lambda>entry. \<not> list_ex (has_prefix (env_name entry)) dropped) env)"

definition stripTelemetryEnv :: "string list \<Rightarrow> string list" where
  "stripTelemetryEnv env = filter (\<lambda>entry. \<not> has_prefix entry ''OTEL_'') env"

definition withPWD :: "string list \<Rightarrow> string \<Rightarrow> string list" where
  "withPWD env dir = filter (\<lambda>entry. \<not> has_prefix entry ''PWD='') env @ [''PWD='' @ dir]"

section \<open>Specs and results\<close>

record Spec =
  s_Command :: string
  s_Args :: "string list"
  s_Dir :: string
  s_ExtraEnv :: "string list"
  s_FollowSessions :: bool
  s_DropEnv :: "string list"
  s_Timeout :: int
  s_MaxOutputBytes :: int

datatype Outcome = OutcomeSucceeded | OutcomeFailed | OutcomeTimedOut | OutcomeCancelled | OutcomeStartFailed

text \<open>What \<open>os.Stat\<close> says of the working directory.\<close>

datatype stat = StatError string | StatFile | StatDir

definition Spec_problems :: "stat \<Rightarrow> Spec \<Rightarrow> string list" where
  "Spec_problems st s =
     (if trim_space (s_Command s) = [] then [''command is empty''] else [])
     @ (if trim_space (s_Dir s) = [] then [''working directory is required'']
        else if \<not> is_abs (s_Dir s)
        then [''working directory '' @ go_quote (s_Dir s) @ '' must be absolute'']
        else (case st of
                StatError e \<Rightarrow> [''working directory '' @ go_quote (s_Dir s) @ '' is not usable: '' @ e]
              | StatFile \<Rightarrow> [''working directory '' @ go_quote (s_Dir s) @ '' is not a directory'']
              | StatDir \<Rightarrow> []))
     @ (if s_Timeout s \<le> 0 then [''timeout must be positive''] else [])
     @ (if s_MaxOutputBytes s \<le> 0 then [''max output bytes must be positive''] else [])"

definition Spec_Validate :: "stat \<Rightarrow> Spec \<Rightarrow> string option" where
  "Spec_Validate st s =
     (if Spec_problems st s = [] then None
      else Some (''invalid process spec: '' @ join_with ''; '' (Spec_problems st s)))"

definition quote :: "string \<Rightarrow> string" where
  "quote s =
     (if s = [] then [CHR 0x22, CHR 0x22]
      else if contains_any s [CHR '' '', CHR 0x09, CHR 0x0A, CHR 0x22, CHR 0x27]
      then [CHR 0x22] @ replace_char (CHR 0x22) [CHR 0x5C, CHR 0x22] s @ [CHR 0x22]
      else s)"

definition Render :: "Spec \<Rightarrow> string" where
  "Render s = join_with '' '' (quote (s_Command s) # map quote (s_Args s))"

text \<open>
  The child: whether it started, what it wrote to each stream in which pieces, how \<open>Wait\<close>
  ended, its exit code (negative when a signal killed it), which contexts were done by then,
  and whether helpers outlived it and could be stopped.
\<close>

datatype wait_result = WaitOk | WaitDelay | WaitFailed string

record child =
  c_start :: "string option"
  c_stdout :: "string list"
  c_stderr :: "string list"
  c_wait :: wait_result
  c_exit :: int
  c_cancelled :: bool
  c_deadline :: bool
  c_leftovers :: bool
  c_reaped :: bool
  c_startedAt :: int
  c_finishedAt :: int

record Result =
  x_Command :: string
  x_Dir :: string
  x_Outcome :: Outcome
  x_ExitCode :: "int option"
  x_Stdout :: string
  x_StdoutTruncated :: bool
  x_Stderr :: string
  x_StderrTruncated :: bool
  x_StartedAt :: "int option"
  x_FinishedAt :: "int option"
  x_Duration :: int
  x_OrphansKilled :: bool

definition Run_env :: "string list \<Rightarrow> string \<Rightarrow> Spec \<Rightarrow> string list" where
  "Run_env environ tag spec =
     (let env = withPWD (dropEnv (stripTelemetryEnv environ) (s_DropEnv spec) @ s_ExtraEnv spec) (s_Dir spec)
      in if s_FollowSessions spec then env @ [tag @ ''=1''] else env)"

definition classify_outcome :: "child \<Rightarrow> Outcome" where
  "classify_outcome c =
     (if c_cancelled c then OutcomeCancelled
      else if c_deadline c then OutcomeTimedOut
      else if c_wait c = WaitOk then OutcomeSucceeded
      else if c_wait c = WaitDelay \<and> c_exit c = 0 then OutcomeSucceeded
      else OutcomeFailed)"

definition captured :: "int \<Rightarrow> string list \<Rightarrow> boundedBuffer" where
  "captured limit chunks = foldl buffer_write (newBoundedBuffer (nat limit)) chunks"

text \<open>The error of \<open>Run\<close> is the second component: set only when nothing was started.\<close>

definition Run :: "stat \<Rightarrow> child \<Rightarrow> Spec \<Rightarrow> Result \<times> string option" where
  "Run st c spec =
     (let blank = \<lparr>x_Command = Render spec, x_Dir = s_Dir spec, x_Outcome = OutcomeStartFailed,
            x_ExitCode = None, x_Stdout = [], x_StdoutTruncated = False, x_Stderr = [],
            x_StderrTruncated = False, x_StartedAt = None, x_FinishedAt = None, x_Duration = 0,
            x_OrphansKilled = False\<rparr>;
          err = captured (s_MaxOutputBytes spec) (c_stderr c);
          out = captured (s_MaxOutputBytes spec) (c_stdout c)
      in case Spec_Validate st spec of
           Some e \<Rightarrow> (blank, Some e)
         | None \<Rightarrow>
             (case c_start c of
                Some e \<Rightarrow>
                  (blank\<lparr>x_StartedAt := Some (c_startedAt c), x_FinishedAt := Some (c_finishedAt c),
                     x_Duration := c_finishedAt c - c_startedAt c,
                     x_Stderr := buffer_string err, x_StderrTruncated := buffer_truncated err\<rparr>,
                   Some (''start '' @ s_Command spec @ '': '' @ e))
              | None \<Rightarrow>
                  (blank\<lparr>x_Outcome := classify_outcome c,
                     x_ExitCode := (if c_exit c \<ge> 0 then Some (c_exit c) else None),
                     x_Stdout := buffer_string out, x_StdoutTruncated := buffer_truncated out,
                     x_Stderr := buffer_string err, x_StderrTruncated := buffer_truncated err,
                     x_StartedAt := Some (c_startedAt c), x_FinishedAt := Some (c_finishedAt c),
                     x_Duration := c_finishedAt c - c_startedAt c,
                     x_OrphansKilled := (c_leftovers c \<and> c_reaped c)\<rparr>, None)))"

lemma captured_of: "captured limit chunks = buffer_of (nat limit) (concat chunks)"
  by (simp add: captured_def newBoundedBuffer_of buffer_writes_of)

lemma buffer_truncated_of: "buffer_truncated (buffer_of limit s) \<longleftrightarrow> length s > limit"
  by (auto simp: buffer_truncated_def buffer_of_def)

lemma Run_succeeded_iff:
  "x_Outcome (fst (Run st c spec)) = OutcomeSucceeded \<longleftrightarrow>
     Spec_Validate st spec = None \<and> c_start c = None \<and> \<not> c_cancelled c \<and> \<not> c_deadline c
     \<and> (c_wait c = WaitOk \<or> c_wait c = WaitDelay \<and> c_exit c = 0)"
  by (simp add: Run_def Let_def classify_outcome_def split: option.splits)

end
