(* ===== verification/Verify.thy ===== *)
theory Verify
  imports TaskModel Procexec
begin

text \<open>
  \<open>internal/verification/verification.go\<close>: the pass that runs a task's own commands and decides
  whether the task succeeded. What happens around step i (the state of the pass's context
  before and after it, the child it runs, the clock) is a record the caller supplies for every
  index; everything else is the loop as written.
\<close>

record Runner =
  rn_DefaultTimeout :: duration
  rn_TotalTimeout :: duration
  rn_MaxOutputBytes :: int

record Request =
  q_AttemptID :: uuid
  q_TaskRef :: string
  q_WorkingDir :: string
  q_SetupSteps :: "VerificationStep list"
  q_Steps :: "VerificationStep list"

record Report =
  rp_Passed :: bool
  rp_Runs :: "VerificationRun list"
  rp_Duration :: duration
  rp_FailureKind :: FailureKind

definition FirstFailure :: "Report \<Rightarrow> VerificationRun option" where
  "FirstFailure r =
     find (\<lambda>v. v_Status v \<noteq> VerificationPassed \<and> v_Status v \<noteq> VerificationSkipped) (rp_Runs r)"

definition describe :: "VerificationRun \<Rightarrow> string" where
  "describe v =
     (case v_Status v of
        VerificationFailed \<Rightarrow>
          (case v_ExitCode v of Some c \<Rightarrow> ''exited '' @ int_dec c | None \<Rightarrow> ''failed'')
      | VerificationTimedOut \<Rightarrow> ''timed out''
      | VerificationCancelled \<Rightarrow> ''was cancelled''
      | s \<Rightarrow> VerificationStatus_string s)"

definition passed_count :: "VerificationRun list \<Rightarrow> nat" where
  "passed_count runs = length (filter (\<lambda>v. v_Status v = VerificationPassed) runs)"

definition Summary :: "Report \<Rightarrow> string" where
  "Summary r =
     (let counts = nat_dec (passed_count (rp_Runs r)) @ ''/'' @ nat_dec (length (rp_Runs r))
                   @ '' verification steps passed''
      in if rp_Passed r then counts
         else (case FirstFailure r of
                 Some v \<Rightarrow> counts @ ''; '' @ go_quote (v_Command v) @ '' '' @ describe v
               | None \<Rightarrow> counts))"

section \<open>One step\<close>

datatype ctx_state = CtxLive | CtxCanceled | CtxDeadlineExceeded

text \<open>What the pass observes at a step; \<open>o_id\<close> is the identifier drawn for its record.\<close>

record observation =
  o_before :: ctx_state
  o_stat :: stat
  o_child :: child
  o_after :: ctx_state
  o_id :: uuid
  o_now :: time

definition step_timeout :: "Runner \<Rightarrow> VerificationStep \<Rightarrow> duration" where
  "step_timeout r step =
     (if TimeoutSeconds step > 0 then TimeoutSeconds step * second else rn_DefaultTimeout r)"

definition step_spec :: "Runner \<Rightarrow> Request \<Rightarrow> VerificationStep \<Rightarrow> Spec" where
  "step_spec r req step =
     \<lparr>s_Command = Command step, s_Args = Args step, s_Dir = q_WorkingDir req,
      s_ExtraEnv = (if q_TaskRef req \<noteq> [] then [''AIDEV_TASK_REF='' @ q_TaskRef req] else []),
      s_FollowSessions = True, s_DropEnv = [''AIDEV_''],
      s_Timeout = step_timeout r step, s_MaxOutputBytes = rn_MaxOutputBytes r\<rparr>"

definition status_of :: "Outcome \<Rightarrow> VerificationStatus" where
  "status_of out =
     (case out of OutcomeSucceeded \<Rightarrow> VerificationPassed
      | OutcomeTimedOut \<Rightarrow> VerificationTimedOut
      | OutcomeCancelled \<Rightarrow> VerificationCancelled
      | OutcomeStartFailed \<Rightarrow> VerificationFailed
      | OutcomeFailed \<Rightarrow> VerificationFailed)"

definition runStep :: "Runner \<Rightarrow> Request \<Rightarrow> observation \<Rightarrow> nat \<Rightarrow> VerificationPhase \<Rightarrow> VerificationStep
    \<Rightarrow> VerificationRun \<times> Outcome" where
  "runStep r req ob index phase step =
     (let (proc, err) = Run (o_stat ob) (o_child ob) (step_spec r req step)
      in (\<lparr>v_ID = o_id ob, v_AttemptID = q_AttemptID req, v_StepIndex = index, v_Phase = phase,
           v_Command = Step_String step, v_Status = status_of (x_Outcome proc),
           v_ExitCode = x_ExitCode proc, v_Stdout = x_Stdout proc,
           v_StdoutTruncated = x_StdoutTruncated proc,
           v_Stderr = (case err of
               Some e \<Rightarrow> if x_Outcome proc = OutcomeStartFailed \<and> x_Stderr proc = [] then e else x_Stderr proc
             | None \<Rightarrow> x_Stderr proc),
           v_StderrTruncated = x_StderrTruncated proc,
           v_StartedAt = (case x_StartedAt proc of None \<Rightarrow> o_now ob | Some t \<Rightarrow> t),
           v_FinishedAt = x_FinishedAt proc, v_Duration = x_Duration proc, v_LogsPruned = False\<rparr>,
          x_Outcome proc))"

definition skipped_run :: "uuid \<Rightarrow> observation \<Rightarrow> nat \<Rightarrow> VerificationPhase \<Rightarrow> VerificationStep \<Rightarrow> VerificationRun" where
  "skipped_run attemptID ob index phase step =
     \<lparr>v_ID = o_id ob, v_AttemptID = attemptID, v_StepIndex = index, v_Phase = phase,
      v_Command = Step_String step, v_Status = VerificationSkipped, v_ExitCode = None,
      v_Stdout = [], v_StdoutTruncated = False, v_Stderr = [], v_StderrTruncated = False,
      v_StartedAt = o_now ob, v_FinishedAt = None, v_Duration = 0, v_LogsPruned = False\<rparr>"

definition cancelled_run :: "uuid \<Rightarrow> observation \<Rightarrow> nat \<Rightarrow> VerificationPhase \<Rightarrow> VerificationStep \<Rightarrow> VerificationRun" where
  "cancelled_run attemptID ob index phase step =
     (skipped_run attemptID ob index phase step)\<lparr>v_Status := VerificationCancelled\<rparr>"

definition timedOut_run :: "uuid \<Rightarrow> observation \<Rightarrow> nat \<Rightarrow> VerificationPhase \<Rightarrow> VerificationStep \<Rightarrow> VerificationRun" where
  "timedOut_run attemptID ob index phase step =
     (skipped_run attemptID ob index phase step)\<lparr>v_Status := VerificationTimedOut\<rparr>"

definition failureKindFor :: "Outcome \<Rightarrow> FailureKind" where
  "failureKindFor out =
     (case out of OutcomeTimedOut \<Rightarrow> FailureTimeout | OutcomeCancelled \<Rightarrow> FailureCancelled
      | _ \<Rightarrow> FailureVerification)"

section \<open>The pass\<close>

type_synonym planned = "VerificationPhase \<times> VerificationStep"

definition plan_of :: "Request \<Rightarrow> planned list" where
  "plan_of req = map (Pair PhaseSetup) (q_SetupSteps req) @ map (Pair PhaseVerify) (q_Steps req)"

text \<open>The loop's variables: whether it stopped, the failure kind so far, the records so far.\<close>

fun run_plan :: "Runner \<Rightarrow> Request \<Rightarrow> (nat \<Rightarrow> observation) \<Rightarrow> bool \<Rightarrow> FailureKind \<Rightarrow> VerificationRun list
    \<Rightarrow> nat \<Rightarrow> planned list \<Rightarrow> FailureKind \<times> VerificationRun list" where
  "run_plan r req ob stopped kind runs i [] = (kind, runs)"
| "run_plan r req ob stopped kind runs i ((phase, step) # plan) =
     (if stopped
      then run_plan r req ob True kind
             (runs @ [skipped_run (q_AttemptID req) (ob i) i phase step]) (Suc i) plan
      else if o_before (ob i) \<noteq> CtxLive
      then (if o_before (ob i) = CtxDeadlineExceeded
            then run_plan r req ob True FailureTimeout
                   (runs @ [timedOut_run (q_AttemptID req) (ob i) i phase step]) (Suc i) plan
            else run_plan r req ob True FailureCancelled
                   (runs @ [cancelled_run (q_AttemptID req) (ob i) i phase step]) (Suc i) plan)
      else (let (v0, out0) = runStep r req (ob i) i phase step;
                late = (out0 = OutcomeCancelled \<and> o_after (ob i) = CtxDeadlineExceeded);
                out = (if late then OutcomeTimedOut else out0);
                v = (if late then v0\<lparr>v_Status := VerificationTimedOut\<rparr> else v0)
            in if v_Status v \<noteq> VerificationPassed
               then run_plan r req ob True (failureKindFor out) (runs @ [v]) (Suc i) plan
               else run_plan r req ob False kind (runs @ [v]) (Suc i) plan))"

definition finish_report :: "duration \<Rightarrow> FailureKind \<times> VerificationRun list \<Rightarrow> Report" where
  "finish_report dur res =
     (let kind = fst res; runs = snd res;
          passed = (kind = FailureNone \<and> list_all (\<lambda>v. v_Status v = VerificationPassed) runs)
      in \<lparr>rp_Passed = passed, rp_Runs = runs, rp_Duration = dur,
          rp_FailureKind = (if passed then FailureNone
                            else if kind = FailureNone then FailureVerification else kind)\<rparr>)"

definition Runner_Run :: "Runner \<Rightarrow> Request \<Rightarrow> (nat \<Rightarrow> observation) \<Rightarrow> duration \<Rightarrow> string + Report" where
  "Runner_Run r req ob dur =
     (if q_WorkingDir req = [] then Inl ''verification: working directory is required''
      else if length (q_Steps req) = 0
      then Inl ''verification: no steps defined, so nothing could be verified''
      else Inr (finish_report dur (run_plan r req ob False FailureNone [] 0 (plan_of req))))"

section \<open>Lemmas\<close>

lemma status_of_Passed [simp]: "status_of out = VerificationPassed \<longleftrightarrow> out = OutcomeSucceeded"
  by (cases out) (simp_all add: status_of_def)

lemma status_of_Skipped [simp]: "status_of out \<noteq> VerificationSkipped"
  by (cases out) (simp_all add: status_of_def)

lemma failureKindFor_not_None [simp]: "failureKindFor out \<noteq> FailureNone"
  by (cases out) (simp_all add: failureKindFor_def)

text \<open>What a record says about the step it belongs to.\<close>

definition records :: "Request \<Rightarrow> nat \<Rightarrow> planned \<Rightarrow> VerificationRun \<Rightarrow> bool" where
  "records req i p v =
     (v_AttemptID v = q_AttemptID req \<and> v_StepIndex v = i \<and> v_Phase v = fst p
      \<and> v_Command v = Step_String (snd p))"

lemma records_runs [simp]:
  "records req i (phase, step) (skipped_run (q_AttemptID req) ob i phase step)"
  "records req i (phase, step) (cancelled_run (q_AttemptID req) ob i phase step)"
  "records req i (phase, step) (timedOut_run (q_AttemptID req) ob i phase step)"
  by (simp_all add: records_def skipped_run_def cancelled_run_def timedOut_run_def)

lemma records_runStep: "records req i (phase, step) (fst (runStep r req ob i phase step))"
  by (simp add: records_def runStep_def Let_def split: prod.splits)

lemma records_status [simp]: "records req i p (v\<lparr>v_Status := s\<rparr>) = records req i p v"
  by (simp add: records_def)

text \<open>A step passes when the context was live and its process succeeded.\<close>

definition step_passes :: "Runner \<Rightarrow> Request \<Rightarrow> observation \<Rightarrow> VerificationStep \<Rightarrow> bool" where
  "step_passes r req ob step =
     (o_before ob = CtxLive
      \<and> x_Outcome (fst (Run (o_stat ob) (o_child ob) (step_spec r req step))) = OutcomeSucceeded)"

lemma runStep_status:
  "v_Status (fst (runStep r req ob i phase step)) = status_of (snd (runStep r req ob i phase step))"
  "snd (runStep r req ob i phase step)
     = x_Outcome (fst (Run (o_stat ob) (o_child ob) (step_spec r req step)))"
  by (simp_all add: runStep_def Let_def split: prod.splits)

text \<open>
  The declarative reading of the loop: once stopped every record is a skip; before that a
  step either passes and the pass goes on, or it stops the pass with a kind and a status.
\<close>

definition stop_status :: "Runner \<Rightarrow> Request \<Rightarrow> observation \<Rightarrow> VerificationStep \<Rightarrow> VerificationStatus" where
  "stop_status r req ob step =
     (let out = x_Outcome (fst (Run (o_stat ob) (o_child ob) (step_spec r req step)))
      in if o_before ob = CtxDeadlineExceeded then VerificationTimedOut
         else if o_before ob = CtxCanceled then VerificationCancelled
         else if out = OutcomeCancelled \<and> o_after ob = CtxDeadlineExceeded then VerificationTimedOut
         else status_of out)"

definition kind_of_status :: "VerificationStatus \<Rightarrow> FailureKind" where
  "kind_of_status s =
     (case s of VerificationTimedOut \<Rightarrow> FailureTimeout | VerificationCancelled \<Rightarrow> FailureCancelled
      | _ \<Rightarrow> FailureVerification)"

lemma run_plan_skips:
  "run_plan r req ob True kind runs i plan =
     (kind, runs @ map (\<lambda>(j, (phase, step)). skipped_run (q_AttemptID req) (ob j) j phase step) (enumerate i plan))"
  by (induction plan arbitrary: runs i) (auto split: prod.splits)

lemma run_plan_pass:
  assumes "step_passes r req (ob i) step"
  shows "run_plan r req ob False kind runs i ((phase, step) # plan)
    = run_plan r req ob False kind (runs @ [fst (runStep r req (ob i) i phase step)]) (Suc i) plan"
  using assms runStep_status [of r req "ob i" i phase step]
  by (simp add: step_passes_def Let_def case_prod_beta)

lemma run_plan_stop:
  assumes "\<not> step_passes r req (ob i) step"
  shows "\<exists>v. run_plan r req ob False kind runs i ((phase, step) # plan)
      = run_plan r req ob True (kind_of_status (v_Status v)) (runs @ [v]) (Suc i) plan
    \<and> records req i (phase, step) v \<and> v_Status v = stop_status r req (ob i) step
    \<and> v_Status v \<noteq> VerificationPassed \<and> v_Status v \<noteq> VerificationSkipped"
proof (cases "o_before (ob i)")
  case CtxLive
  let ?rs = "runStep r req (ob i) i phase step"
  have st: "v_Status (fst ?rs) = status_of (snd ?rs)"
    and out: "snd ?rs = x_Outcome (fst (Run (o_stat (ob i)) (o_child (ob i)) (step_spec r req step)))"
    by (rule runStep_status)+
  have rec: "records req i (phase, step) (fst ?rs)" by (rule records_runStep)
  have ne: "snd ?rs \<noteq> OutcomeSucceeded" using assms CtxLive out by (simp add: step_passes_def)
  show ?thesis
  proof (cases "snd ?rs = OutcomeCancelled \<and> o_after (ob i) = CtxDeadlineExceeded")
    case True
    with CtxLive st out rec show ?thesis
      by (intro exI [of _ "(fst ?rs)\<lparr>v_Status := VerificationTimedOut\<rparr>"])
        (simp add: Let_def case_prod_beta stop_status_def kind_of_status_def failureKindFor_def)
  next
    case False
    have k: "failureKindFor (snd ?rs) = kind_of_status (status_of (snd ?rs))"
      by (cases "snd ?rs") (simp_all add: kind_of_status_def failureKindFor_def status_of_def)
    from False CtxLive st out rec ne k show ?thesis
      by (intro exI [of _ "fst ?rs"]) (auto simp: Let_def case_prod_beta stop_status_def)
  qed
next
  case CtxCanceled
  then show ?thesis
    by (intro exI [of _ "cancelled_run (q_AttemptID req) (ob i) i phase step"])
      (simp add: kind_of_status_def stop_status_def cancelled_run_def skipped_run_def records_def)
next
  case CtxDeadlineExceeded
  then show ?thesis
    by (intro exI [of _ "timedOut_run (q_AttemptID req) (ob i) i phase step"])
      (simp add: kind_of_status_def stop_status_def timedOut_run_def skipped_run_def records_def)
qed

text \<open>
  The contract of the pass: statuses up to the first step that does not pass, that step's
  reason, and a skip for every step after it.
\<close>

fun pass_spec :: "Runner \<Rightarrow> Request \<Rightarrow> (nat \<Rightarrow> observation) \<Rightarrow> nat \<Rightarrow> planned list
    \<Rightarrow> VerificationStatus list \<times> FailureKind" where
  "pass_spec r req ob i [] = ([], FailureNone)"
| "pass_spec r req ob i ((phase, step) # plan) =
     (if step_passes r req (ob i) step
      then (let (ss, k) = pass_spec r req ob (Suc i) plan in (VerificationPassed # ss, k))
      else (stop_status r req (ob i) step # replicate (length plan) VerificationSkipped,
            kind_of_status (stop_status r req (ob i) step)))"

fun records_from :: "Request \<Rightarrow> nat \<Rightarrow> planned list \<Rightarrow> VerificationRun list \<Rightarrow> bool" where
  "records_from req i [] [] = True"
| "records_from req i (p # ps) (v # vs) = (records req i p v \<and> records_from req (Suc i) ps vs)"
| "records_from req i _ _ = False"

lemma records_from_skips:
  "records_from req i plan
     (map (\<lambda>(j, (phase, step)). skipped_run (q_AttemptID req) (ob j) j phase step) (enumerate i plan))"
  by (induction plan arbitrary: i) auto

lemma status_skips:
  "map v_Status (map (\<lambda>(j, (phase, step)). skipped_run a (ob j) j phase step) (enumerate i plan))
     = replicate (length plan) VerificationSkipped"
  by (induction plan arbitrary: i) (auto simp: skipped_run_def)

lemma kind_of_status_not_None [simp]: "kind_of_status s \<noteq> FailureNone"
  by (cases s) (simp_all add: kind_of_status_def)

lemma run_plan_spec:
  "\<exists>new. run_plan r req ob False FailureNone runs i plan = (snd (pass_spec r req ob i plan), runs @ new)
     \<and> map v_Status new = fst (pass_spec r req ob i plan) \<and> records_from req i plan new"
proof (induction plan arbitrary: runs i)
  case Nil
  then show ?case by simp
next
  case (Cons p plan)
  obtain phase step where p: "p = (phase, step)" by (cases p)
  show ?case
  proof (cases "step_passes r req (ob i) step")
    case True
    let ?v = "fst (runStep r req (ob i) i phase step)"
    have st: "v_Status ?v = VerificationPassed"
      using True by (simp add: runStep_status step_passes_def)
    from Cons.IH [of "runs @ [?v]" "Suc i"] obtain new where
      "run_plan r req ob False FailureNone (runs @ [?v]) (Suc i) plan
        = (snd (pass_spec r req ob (Suc i) plan), (runs @ [?v]) @ new)"
      "map v_Status new = fst (pass_spec r req ob (Suc i) plan)" "records_from req (Suc i) plan new"
      by blast
    with True st show ?thesis
      unfolding p run_plan_pass [where ob = ob and i = i, OF True]
      by (intro exI [of _ "?v # new"]) (simp add: case_prod_beta records_runStep)
  next
    case False
    from run_plan_stop [where kind = FailureNone and ob = ob and i = i, OF False] obtain v where
      run: "run_plan r req ob False FailureNone runs i ((phase, step) # plan)
        = run_plan r req ob True (kind_of_status (v_Status v)) (runs @ [v]) (Suc i) plan"
      and v: "records req i (phase, step) v" "v_Status v = stop_status r req (ob i) step"
      by blast
    show ?thesis
      unfolding p run run_plan_skips using v False
      by (intro exI [of _ "v # map (\<lambda>(j, (phase, step)).
            skipped_run (q_AttemptID req) (ob j) j phase step) (enumerate (Suc i) plan)"])
        (simp add: status_skips records_from_skips del: map_map)
  qed
qed

lemma pass_spec_all:
  "(list_all (\<lambda>s. s = VerificationPassed) (fst (pass_spec r req ob i plan)) \<and>
      snd (pass_spec r req ob i plan) = FailureNone)
   \<longleftrightarrow> (\<forall>j < length plan. step_passes r req (ob (i + j)) (snd (plan ! j)))"
proof (induction plan arbitrary: i)
  case (Cons p plan)
  obtain phase step where p: "p = (phase, step)" by (cases p)
  show ?case
    using Cons.IH [of "Suc i"]
    by (auto simp: p case_prod_beta All_less_Suc2)
qed simp

lemma pass_spec_kind:
  "snd (pass_spec r req ob i plan) = FailureNone \<Longrightarrow>
     list_all (\<lambda>s. s = VerificationPassed) (fst (pass_spec r req ob i plan))"
  by (induction plan arbitrary: i) (auto simp: case_prod_beta split: if_splits)

lemma Runner_Run_Inr:
  assumes "Runner_Run r req ob dur = Inr rep"
  shows "q_WorkingDir req \<noteq> [] \<and> q_Steps req \<noteq> []
    \<and> map v_Status (rp_Runs rep) = fst (pass_spec r req ob 0 (plan_of req))
    \<and> rp_FailureKind rep = snd (pass_spec r req ob 0 (plan_of req))
    \<and> (rp_Passed rep \<longleftrightarrow> rp_FailureKind rep = FailureNone)
    \<and> records_from req 0 (plan_of req) (rp_Runs rep)"
proof -
  obtain new where new: "run_plan r req ob False FailureNone [] 0 (plan_of req)
      = (snd (pass_spec r req ob 0 (plan_of req)), new)"
    "map v_Status new = fst (pass_spec r req ob 0 (plan_of req))"
    "records_from req 0 (plan_of req) new"
    using run_plan_spec [of r req ob "[]" 0 "plan_of req"] by auto
  have rep: "rep = finish_report dur (snd (pass_spec r req ob 0 (plan_of req)), new)"
    and ok: "q_WorkingDir req \<noteq> []" "q_Steps req \<noteq> []"
    using assms new(1) by (auto simp: Runner_Run_def split: if_splits)
  have all: "list_all (\<lambda>v. v_Status v = VerificationPassed) new
      \<longleftrightarrow> list_all (\<lambda>s. s = VerificationPassed) (fst (pass_spec r req ob 0 (plan_of req)))"
    by (simp add: new(2) [symmetric] list.pred_map comp_def)
  show ?thesis
    using ok new pass_spec_kind [of r req ob 0 "plan_of req"]
    by (auto simp: rep finish_report_def Let_def all)
qed

lemma Runner_Run_passed_iff:
  assumes "Runner_Run r req ob dur = Inr rep"
  shows "rp_Passed rep \<longleftrightarrow>
    (\<forall>j < length (plan_of req). step_passes r req (ob j) (snd (plan_of req ! j)))"
  using Runner_Run_Inr [OF assms] pass_spec_kind [of r req ob 0 "plan_of req"]
    pass_spec_all [of r req ob 0 "plan_of req"]
  by auto

end
