(* ===== verification/GitShared.thy ===== *)
theory GitShared
  imports GoStrings "HOL-Library.AList"
begin

text \<open>
  The parts of \<open>internal/git\<close> that decide rather than call git: names and branches aidev
  accepts (\<open>paths.go\<close>), the containment of worktree paths, the list of changed paths
  (\<open>changed.go\<close>), and the state a worktree shares with its repository with the comparison of two
  snapshots (\<open>snapshot.go\<close>). What a git command printed is an argument. A Go map is an
  association list, its order standing for an iteration order that no result depends on.
\<close>

section \<open>Names and branches\<close>

definition MaxNameLength :: nat where "MaxNameLength = 100"

definition name_char :: "char \<Rightarrow> bool" where
  "name_char r =
     ((CHR ''a'' \<le> r \<and> r \<le> CHR ''z'') \<or> (CHR ''A'' \<le> r \<and> r \<le> CHR ''Z'')
      \<or> (CHR ''0'' \<le> r \<and> r \<le> CHR ''9'') \<or> r = CHR ''.'' \<or> r = CHR ''_'' \<or> r = CHR ''-'')"

datatype name_error = NameEmpty | NameTooLong nat | NameDots | NameDash | NameDot | NameChar char

definition validateName :: "string \<Rightarrow> name_error option" where
  "validateName name =
     (let trimmed = trim_space name
      in if trimmed = [] then Some NameEmpty
         else if length trimmed > MaxNameLength then Some (NameTooLong (length trimmed))
         else if trimmed = ''.'' \<or> trimmed = ''..'' then Some NameDots
         else if has_prefix trimmed ''-'' then Some NameDash
         else if has_prefix trimmed ''.'' then Some NameDot
         else map_option NameChar (find (\<lambda>r. \<not> name_char r) trimmed))"

datatype branch_error = BranchEmpty | BranchDash | BranchSlash | BranchDots | BranchSlashes | BranchLock
  | BranchControl | BranchChar char

definition branch_bad :: "char \<Rightarrow> branch_error option" where
  "branch_bad r =
     (if r < CHR '' '' \<or> r = CHR 0x7F then Some BranchControl
      else if r \<in> set ('' ~^:?*['' @ [CHR 0x5C]) then Some (BranchChar r) else None)"

fun first_some :: "('a \<Rightarrow> 'b option) \<Rightarrow> 'a list \<Rightarrow> 'b option" where
  "first_some f [] = None"
| "first_some f (x # xs) = (case f x of Some y \<Rightarrow> Some y | None \<Rightarrow> first_some f xs)"

definition validateBranchName :: "string \<Rightarrow> branch_error option" where
  "validateBranchName branch =
     (let trimmed = trim_space branch
      in if trimmed = [] then Some BranchEmpty
         else if has_prefix trimmed ''-'' then Some BranchDash
         else if has_prefix trimmed ''/'' \<or> has_suffix trimmed ''/'' then Some BranchSlash
         else if contains_str trimmed ''..'' then Some BranchDots
         else if contains_str trimmed ''//'' then Some BranchSlashes
         else if has_suffix trimmed ''.lock'' then Some BranchLock
         else first_some branch_bad trimmed)"

section \<open>Containment of paths\<close>

text \<open>The elements of a cleaned path; the root has none.\<close>

definition path_elems :: "string \<Rightarrow> string list" where
  "path_elems p = filter (\<lambda>e. e \<noteq> [] \<and> e \<noteq> ''.'') (split_on slash p)"

fun drop_common :: "'a list \<Rightarrow> 'a list \<Rightarrow> 'a list \<times> 'a list" where
  "drop_common (x # xs) (y # ys) = (if x = y then drop_common xs ys else (x # xs, y # ys))"
| "drop_common xs ys = (xs, ys)"

text \<open>\<open>filepath.Rel\<close>; \<open>None\<close> is its error.\<close>

definition path_rel :: "string \<Rightarrow> string \<Rightarrow> string option" where
  "path_rel base targ =
     (let b = path_clean base; t = path_clean targ
      in if b = t then Some ''.''
         else if is_abs b \<noteq> is_abs t then None
         else (let (eb, et) = drop_common (path_elems b) (path_elems t)
               in if eb \<noteq> [] \<and> hd eb = ''..'' then None
                  else Some (join_with ''/'' (replicate (length eb) ''..'' @ et))))"

definition rel_escapes :: "string \<Rightarrow> bool" where
  "rel_escapes rel = (rel = ''..'' \<or> has_prefix rel ''../'')"

definition isInside :: "string \<Rightarrow> string \<Rightarrow> bool" where
  "isInside parent child =
     (case path_rel parent child of
        None \<Rightarrow> False
      | Some rel \<Rightarrow> if rel = ''.'' then True else \<not> rel_escapes rel)"

text \<open>
  \<open>filepath.EvalSymlinks\<close> reads the file system and is a parameter. The loop climbs towards
  the root; the fuel bounds the climb by the length of the path.
\<close>

fun resolve_up :: "(string \<Rightarrow> string option) \<Rightarrow> nat \<Rightarrow> string \<Rightarrow> string \<Rightarrow> string \<Rightarrow> string" where
  "resolve_up eval 0 path current remainder = path"
| "resolve_up eval (Suc fuel) path current remainder =
     (case eval current of
        Some resolved \<Rightarrow>
          (if remainder = [] then resolved else path_clean (resolved @ ''/'' @ remainder))
      | None \<Rightarrow>
          (if path_dir current = current then path
           else resolve_up eval fuel path (path_dir current)
                  (if remainder = [] then path_clean (path_base current)
                   else path_clean (path_base current @ ''/'' @ remainder))))"

definition resolveExisting :: "(string \<Rightarrow> string option) \<Rightarrow> string \<Rightarrow> string" where
  "resolveExisting eval path = resolve_up eval (Suc (Suc (length path))) path path []"

datatype path_error = PathName name_error | NoWorkspaceRoot | OutsideWorkspace | InsideRepository

definition withinWorkspace :: "(string \<Rightarrow> string option) \<Rightarrow> string \<Rightarrow> string \<Rightarrow> path_error option" where
  "withinWorkspace eval workspaceRoot path =
     (let root = resolveExisting eval (path_clean workspaceRoot);
          candidate = resolveExisting eval (path_clean path)
      in if candidate = root then Some OutsideWorkspace
         else (case path_rel root candidate of
                 None \<Rightarrow> Some OutsideWorkspace
               | Some rel \<Rightarrow> if rel_escapes rel then Some OutsideWorkspace else None))"

definition resolveWorktreePath :: "(string \<Rightarrow> string option) \<Rightarrow> string \<Rightarrow> string \<Rightarrow> path_error + string" where
  "resolveWorktreePath eval workspaceRoot name =
     (case validateName name of
        Some e \<Rightarrow> Inl (PathName e)
      | None \<Rightarrow>
          if workspaceRoot = [] then Inl NoWorkspaceRoot
          else (let path = path_clean (workspaceRoot @ ''/'' @ trim_space name)
                in case withinWorkspace eval workspaceRoot path of
                     Some e \<Rightarrow> Inl e | None \<Rightarrow> Inr path))"

definition validateIsolation :: "(string \<Rightarrow> string option) \<Rightarrow> string \<Rightarrow> string \<Rightarrow> path_error option" where
  "validateIsolation eval repoPath worktreePath =
     (let repo = resolveExisting eval (path_clean repoPath);
          wt = resolveExisting eval (path_clean worktreePath)
      in if repo = wt then Some InsideRepository
         else if isInside repo wt then Some InsideRepository
         else if isInside wt repo then Some InsideRepository
         else None)"

section \<open>Changed paths\<close>

record Changes =
  ch_Committable :: "string list"
  ch_Ignored :: "string list"

text \<open>\<open>mergeSorted\<close> of the concatenated lists: no empty entries, no repeats, sorted.\<close>

definition mergeSorted :: "string list list \<Rightarrow> string list" where
  "mergeSorted ls = sort (remdups (filter (\<lambda>p. p \<noteq> []) (concat ls)))"

definition Changes_All :: "Changes \<Rightarrow> string list" where
  "Changes_All c = mergeSorted [ch_Committable c, ch_Ignored c]"

definition splitNul :: "string \<Rightarrow> string list" where
  "splitNul s = split_on (CHR 0x00) s"

text \<open>A git command that ran: its exit code, what it printed, and whether that was cut.\<close>

record gitres =
  g_ok :: bool
  g_exit :: "int option"
  g_out :: string
  g_err :: string
  g_cut :: bool

datatype git_error = GitError string | GitTruncated | GitFailed string

section \<open>Shared state\<close>

type_synonym 'v gomap = "(string \<times> 'v) list"

record SharedState =
  ss_CommonDir :: string
  ss_Refs :: "string gomap"
  ss_HeadRef :: string
  ss_Config :: string
  ss_ConfigEntries :: "string list gomap option"
  ss_Info :: "string gomap"
  ss_Hooks :: "string gomap"

record RefChange =
  rc_Before :: string
  rc_After :: string

record SharedChanges =
  sc_CommonDirMoved :: bool
  sc_ConfigChanged :: bool
  sc_ConfigKeys :: "string list"
  sc_InfoChanged :: "string list"
  sc_HooksChanged :: "string list"
  sc_RefChanges :: "RefChange gomap"
  sc_HeadMoved :: bool

definition map_keys :: "'v gomap \<Rightarrow> string list" where
  "map_keys m = remdups (map fst m)"

definition changedKeys :: "'v gomap \<Rightarrow> 'v gomap \<Rightarrow> string list" where
  "changedKeys before after =
     sort (filter (\<lambda>name. map_of after name \<noteq> map_of before name) (map_keys before)
           @ filter (\<lambda>name. map_of before name = None) (map_keys after))"

definition changedConfigKeys :: "string list gomap \<Rightarrow> string list gomap \<Rightarrow> string list" where
  "changedConfigKeys before after =
     sort (filter (\<lambda>key. case map_of after key of None \<Rightarrow> True
                        | Some now \<Rightarrow> join_with [CHR 0x00] now \<noteq> join_with [CHR 0x00] (the (map_of before key)))
             (map_keys before)
           @ filter (\<lambda>key. map_of before key = None) (map_keys after))"

definition ref_changes :: "string gomap \<Rightarrow> string gomap \<Rightarrow> RefChange gomap" where
  "ref_changes before after =
     concat (map (\<lambda>ref. case map_of after ref of
                 None \<Rightarrow> [(ref, \<lparr>rc_Before = the (map_of before ref), rc_After = []\<rparr>)]
               | Some now \<Rightarrow> if now \<noteq> the (map_of before ref)
                   then [(ref, \<lparr>rc_Before = the (map_of before ref), rc_After = now\<rparr>)] else [])
              (map_keys before))
     @ map (\<lambda>ref. (ref, \<lparr>rc_Before = [], rc_After = the (map_of after ref)\<rparr>))
         (filter (\<lambda>ref. map_of before ref = None) (map_keys after))"

text \<open>\<open>SharedState.Diff\<close>.\<close>

definition Diff :: "SharedState \<Rightarrow> SharedState \<Rightarrow> SharedChanges" where
  "Diff b after =
     \<lparr>sc_CommonDirMoved = (ss_CommonDir b \<noteq> ss_CommonDir after),
      sc_ConfigChanged = (ss_Config b \<noteq> ss_Config after),
      sc_ConfigKeys =
        (if ss_Config b \<noteq> ss_Config after
         then (case (ss_ConfigEntries b, ss_ConfigEntries after) of
                 (Some eb, Some ea) \<Rightarrow> changedConfigKeys eb ea | _ \<Rightarrow> [])
         else []),
      sc_InfoChanged = changedKeys (ss_Info b) (ss_Info after),
      sc_HooksChanged = changedKeys (ss_Hooks b) (ss_Hooks after),
      sc_RefChanges = ref_changes (ss_Refs b) (ss_Refs after),
      sc_HeadMoved = (ss_HeadRef b \<noteq> ss_HeadRef after)\<rparr>"

definition Empty :: "SharedChanges \<Rightarrow> bool" where
  "Empty c =
     (\<not> sc_CommonDirMoved c \<and> \<not> sc_ConfigChanged c \<and> \<not> sc_HeadMoved c \<and> sc_InfoChanged c = []
      \<and> sc_HooksChanged c = [] \<and> sc_RefChanges c = [])"

definition linesOf :: "string \<Rightarrow> string list" where
  "linesOf out =
     (let t = rev (dropWhile (\<lambda>c. c = CHR 0x0A) (rev out))
      in if t = [] then [] else split_on (CHR 0x0A) t)"

definition resolvePath :: "string \<Rightarrow> string \<Rightarrow> string" where
  "resolvePath dir path = (if is_abs path then path else path_clean (dir @ ''/'' @ path))"

fun parse_config_entries :: "string list gomap \<Rightarrow> string list \<Rightarrow> string list gomap" where
  "parse_config_entries entries [] = entries"
| "parse_config_entries entries (e # es) =
     (if e = [] then parse_config_entries entries es
      else (let (key0, v, _) = cut_at (CHR 0x0A) e;
                key = to_lower key0;
                old = (case map_of entries key of None \<Rightarrow> [] | Some vs \<Rightarrow> vs)
            in parse_config_entries (AList.update key (old @ [v]) entries) es))"

definition parseConfigList :: "string \<Rightarrow> string list gomap" where
  "parseConfigList out = parse_config_entries [] (split_on (CHR 0x00) out)"

fun parse_refs :: "string gomap \<Rightarrow> string list \<Rightarrow> string option + string gomap" where
  "parse_refs refs [] = Inr refs"
| "parse_refs refs (l # ls) =
     (let (name, obj, ok) = cut_at CHR '' '' l
      in if \<not> ok \<or> name = [] then Inl (Some l) else parse_refs (AList.update name obj refs) ls)"

definition last_dot :: "string \<Rightarrow> nat option" where
  "last_dot s =
     (if CHR ''.'' \<in> set s then Some (length s - 1 - length (takeWhile (\<lambda>c. c \<noteq> CHR ''.'') (rev s))) else None)"

definition InertConfigKey :: "string \<Rightarrow> bool" where
  "InertConfigKey key0 =
     (let key = to_lower key0
      in if \<not> has_prefix key ''branch.'' then False
         else (case last_dot key of
                 None \<Rightarrow> False
               | Some i \<Rightarrow>
                   if i \<le> length ''branch.'' then False
                   else (let name = drop (i + 1) key
                         in name \<in> set [''remote'', ''merge'', ''rebase'', ''pushremote'', ''description'']
                            \<or> list_ex (has_prefix name) [''vscode-'', ''gk-'', ''github-pr-''])))"

section \<open>Lemmas\<close>

lemma set_map_keys [simp]: "set (map_keys m) = fst ` set m"
  by (simp add: map_keys_def)

lemma map_of_None_iff: "map_of m k = None \<longleftrightarrow> k \<notin> fst ` set m"
  by (simp add: map_of_eq_None_iff)

lemma key_iff: "k \<in> fst ` set m \<longleftrightarrow> map_of m k \<noteq> None"
  by (simp add: map_of_eq_None_iff)

lemma set_changedKeys: "k \<in> set (changedKeys before after) \<longleftrightarrow> map_of before k \<noteq> map_of after k"
proof -
  have "k \<in> set (changedKeys before after) \<longleftrightarrow>
      (map_of after k \<noteq> map_of before k \<and> map_of before k \<noteq> None)
      \<or> (map_of before k = None \<and> map_of after k \<noteq> None)"
    unfolding changedKeys_def set_sort set_append set_filter set_map_keys Un_iff mem_Collect_eq key_iff
    by (rule iffI; elim disjE conjE; simp)
  then show ?thesis by (cases "map_of before k"; cases "map_of after k") (simp_all, blast+)
qed

lemma changedKeys_Nil: "changedKeys before after = [] \<longleftrightarrow> map_of before = map_of after"
proof
  assume "changedKeys before after = []"
  then show "map_of before = map_of after"
    using set_changedKeys [of _ before after] by (intro ext) simp
next
  assume "map_of before = map_of after"
  then have none: "k \<notin> set (changedKeys before after)" for k by (simp add: set_changedKeys)
  show "changedKeys before after = []"
  proof (cases "changedKeys before after")
    case (Cons k ks)
    with none [of k] show ?thesis by simp
  qed
qed

lemma ref_changes_of:
  "map_of (ref_changes before after) ref =
     (case (map_of before ref, map_of after ref) of
        (None, None) \<Rightarrow> None
      | (Some b, None) \<Rightarrow> Some \<lparr>rc_Before = b, rc_After = []\<rparr>
      | (None, Some a) \<Rightarrow> Some \<lparr>rc_Before = [], rc_After = a\<rparr>
      | (Some b, Some a) \<Rightarrow> if a \<noteq> b then Some \<lparr>rc_Before = b, rc_After = a\<rparr> else None)"
proof -
  let ?f = "\<lambda>ref. case map_of after ref of
        None \<Rightarrow> [(ref, \<lparr>rc_Before = the (map_of before ref), rc_After = []\<rparr>)]
      | Some now \<Rightarrow> if now \<noteq> the (map_of before ref)
          then [(ref, \<lparr>rc_Before = the (map_of before ref), rc_After = now\<rparr>)] else []"
  let ?g = "\<lambda>ref. (ref, \<lparr>rc_Before = [], rc_After = the (map_of after ref)\<rparr>)"
  have f1: "map_of (?f x) ref = (if x = ref then map_of (?f ref) ref else None)" for x
    by (cases "map_of after x") auto
  have f: "map_of (concat (map ?f xs)) ref = (if ref \<in> set xs then map_of (?f ref) ref else None)" for xs
  proof (induction xs)
    case (Cons x xs)
    show ?case
      using Cons f1 [of x] by (cases "map_of (?f ref) ref") (simp_all add: map_add_def)
  qed simp
  have g: "map_of (map ?g xs) ref = (if ref \<in> set xs then Some (snd (?g ref)) else None)" for xs
    by (induction xs) auto
  have keys: "ref \<in> set (map_keys before) \<longleftrightarrow> map_of before ref \<noteq> None"
    "ref \<in> set (filter (\<lambda>ref. map_of before ref = None) (map_keys after))
       \<longleftrightarrow> map_of before ref = None \<and> map_of after ref \<noteq> None"
    by (simp_all only: set_map_keys key_iff set_filter mem_Collect_eq) blast
  show ?thesis
    unfolding ref_changes_def map_of_append map_add_def f g keys
    by (cases "map_of before ref"; cases "map_of after ref") simp_all
qed

lemma set_mergeSorted: "set (mergeSorted ls) = (\<Union>l \<in> set ls. set l) - {[]}"
  by (auto simp: mergeSorted_def)

lemma ascending_mergeSorted: "ascending (mergeSorted ls)"
proof -
  have "sorted (mergeSorted ls)" "distinct (mergeSorted ls)" by (simp_all add: mergeSorted_def)
  then show ?thesis by (simp add: strict_sorted_iff)
qed

end
