(* ===== verification/Protected.thy ===== *)
theory Protected
  imports GoStrings
begin

text \<open>
  \<open>internal/verification/protected.go\<close>: the ring fence of a task's protected paths. The glob
  library \<open>doublestar\<close> is not code of the repository: whether a pattern is valid and whether
  it matches a path (or fails to) are parameters of the definitions.
\<close>

section \<open>The directories above a path\<close>

definition path_weight :: "string list \<Rightarrow> nat" where
  "path_weight es = sum_list (map (\<lambda>e. Suc (length e)) es)"

lemma path_weight_simps [simp]:
  "path_weight [] = 0" "path_weight (e # es) = Suc (length e) + path_weight es"
  "path_weight (es @ fs) = path_weight es + path_weight fs" "path_weight (rev es) = path_weight es"
  by (simp_all add: path_weight_def rev_map [symmetric] sum_list_rev)

lemma weight_split: "path_weight (split_on c s) = Suc (length s)"
  by (induction s) (auto split: list.splits)

lemma length_join: "es \<noteq> [] \<Longrightarrow> Suc (length (join_with ''/'' es)) = path_weight es"
  by (induction "''/''" es rule: join_with.induct) auto

lemma weight_clean: "path_weight (clean_elems rooted stack es) \<le> path_weight stack + path_weight es"
  by (induction rooted stack es rule: clean_elems.induct) (auto split: list.splits)

lemma clean_elems_blank: "clean_elems rooted stack (es @ [[]]) = clean_elems rooted stack es"
  by (induction rooted stack es rule: clean_elems.induct) (auto split: list.splits)

lemma split_on_not_Nil: "split_on c s \<noteq> []"
  by (cases s) (auto split: list.splits)

lemma split_on_slash_end: "split_on c (s @ [c]) = split_on c s @ [[]]"
  by (induction s) (auto simp: split_on_not_Nil split: list.splits)

lemma length_dropWhile_rev: "length (dropWhile P (rev d)) \<le> length d"
  by (metis length_dropWhile_le length_rev)

lemma length_body:
  assumes "path_weight (clean_elems rooted [] es) \<le> Suc n"
  shows "length (join_with ''/'' (clean_elems rooted [] es)) \<le> n"
  using assms length_join [of "clean_elems rooted [] es"]
  by (cases "clean_elems rooted [] es = []") auto

lemma is_abs_Cons: "is_abs p \<Longrightarrow> \<exists>q. p = slash # q"
  by (cases p) (auto simp: is_abs_def has_prefix_def slash_def)

text \<open>Cleaning never lengthens a path that is not empty, and drops a slash at its end.\<close>

lemma length_clean_slash:
  assumes "q \<noteq> []"
  shows "length (path_clean (q @ [slash])) \<le> length q"
proof (cases "is_abs q")
  case True
  then obtain r where q: "q = slash # r" using is_abs_Cons by blast
  let ?b = "clean_elems True [] (split_on slash r)"
  have body: "length (join_with ''/'' ?b) \<le> length r"
    using weight_clean [of True "[]" "split_on slash r"] by (intro length_body) (simp add: weight_split)
  have "path_clean (q @ [slash]) = slash # join_with ''/'' ?b"
    by (simp add: q path_clean_def Let_def is_abs_def has_prefix_def slash_def
        split_on_slash_end [of "CHR ''/''" r] clean_elems_blank)
  with body show ?thesis by (simp add: q)
next
  case False
  let ?b = "clean_elems False [] (split_on slash q)"
  have body: "length (join_with ''/'' ?b) \<le> length q"
    using weight_clean [of False "[]" "split_on slash q"] by (intro length_body) (simp add: weight_split)
  have na: "\<not> is_abs (q @ [slash])" using False assms by (cases q) (auto simp: is_abs_def has_prefix_def)
  have "path_clean (q @ [slash])
      = (if join_with ''/'' ?b = [] then ''.'' else join_with ''/'' ?b)"
    using na by (simp add: path_clean_def Let_def split_on_slash_end clean_elems_blank)
  moreover have "1 \<le> length q" using assms by (cases q) auto
  ultimately show ?thesis using body by simp
qed

definition top_dir :: "string \<Rightarrow> bool" where
  "top_dir d = (d = ''.'' \<or> d = ''/'' \<or> d = [])"

lemma path_dir_shrinks:
  assumes "\<not> top_dir (path_dir d)"
  shows "length (path_dir d) < length d"
proof -
  let ?q = "rev (dropWhile (\<lambda>c. c \<noteq> slash) (rev d))"
  have le: "length ?q \<le> length d" by (simp add: length_dropWhile_rev)
  show ?thesis
  proof (cases "?q = []")
    case True
    then have "path_dir d = ''.''" by (simp only: path_dir_def) (simp add: path_clean_def is_abs_def has_prefix_def)
    with assms show ?thesis by (simp add: top_dir_def)
  next
    case False
    then have ne: "dropWhile (\<lambda>c. c \<noteq> slash) (rev d) \<noteq> []" by simp
    then have "hd (dropWhile (\<lambda>c. c \<noteq> slash) (rev d)) = slash" using hd_dropWhile by blast
    with ne obtain t where t: "dropWhile (\<lambda>c. c \<noteq> slash) (rev d) = slash # t"
      by (cases "dropWhile (\<lambda>c. c \<noteq> slash) (rev d)") auto
    then have q: "?q = rev t @ [slash]" by simp
    have dir: "path_dir d = path_clean (rev t @ [slash])" by (simp only: path_dir_def q)
    show ?thesis
    proof (cases "t = []")
      case True
      then have "path_dir d = ''/''" unfolding dir by (simp add: path_clean_def is_abs_def has_prefix_def slash_def)
      with assms show ?thesis by (simp add: top_dir_def)
    next
      case False
      then have "length (path_dir d) \<le> length (rev t)" unfolding dir by (intro length_clean_slash) simp
      moreover have "length (rev t) < length d" using le q by simp
      ultimately show ?thesis by simp
    qed
  qed
qed

text \<open>The loop variable is the path whose directory is taken next.\<close>

function ancestors :: "string \<Rightarrow> string list" where
  "ancestors p = (if top_dir (path_dir p) then [] else path_dir p # ancestors (path_dir p))"
  by pat_completeness auto
termination
  by (relation "measure length") (simp_all add: path_dir_shrinks)

declare ancestors.simps [simp del]

section \<open>Patterns\<close>

definition probe :: string where
  "probe = ''__aidev_protected_probe__''"

record Violation =
  vi_Pattern :: string
  vi_Path :: string

definition normalizePattern :: "string \<Rightarrow> string" where
  "normalizePattern raw = trim_suffix (trim_space raw) ''/''"

datatype protected_error = EmptyPattern | BadPattern string

fun normalize_each :: "(string \<Rightarrow> bool) \<Rightarrow> string list \<Rightarrow> protected_error + string list" where
  "normalize_each valid [] = Inr []"
| "normalize_each valid (raw # raws) =
     (let p = normalizePattern raw
      in if p = [] then Inl EmptyPattern
         else if \<not> valid p then Inl (BadPattern raw)
         else (case normalize_each valid raws of Inl e \<Rightarrow> Inl e | Inr ps \<Rightarrow> Inr (p # ps)))"

definition NormalizeProtected :: "(string \<Rightarrow> bool) \<Rightarrow> string list \<Rightarrow> protected_error + string list" where
  "NormalizeProtected valid patterns =
     (case normalize_each valid patterns of Inl e \<Rightarrow> Inl e | Inr ps \<Rightarrow> Inr (compact (sort ps)))"

section \<open>A concrete path for a pattern\<close>

text \<open>\<open>string(b)\<close> of a byte: the UTF-8 encoding of that code point.\<close>

definition rune_string :: "char \<Rightarrow> string" where
  "rune_string c =
     (let n = of_char c :: nat
      in if n < 128 then [c] else [char_of (192 + n div 64), char_of (128 + n mod 64)])"

fun scan_class :: "string \<Rightarrow> nat" where
  "scan_class [] = 0"
| "scan_class (c # cs) =
     (if c = CHR '']'' then 1
      else if c = CHR 0x5C then (case cs of [] \<Rightarrow> 1 | d # ds \<Rightarrow> 2 + scan_class ds)
      else Suc (scan_class cs))"

text \<open>\<open>classEnd\<close> on the suffix that starts with the opening bracket: how many bytes belong to it.\<close>

definition classEnd :: "string \<Rightarrow> nat" where
  "classEnd s =
     (let t = drop 1 s;
          n = (if take 1 t = ''^'' \<or> take 1 t = ''!'' then 1 else 0);
          m = (if take 1 (drop n t) = '']'' then n + 1 else n)
      in 1 + m + scan_class (drop m t))"

definition class_candidates :: string where
  "class_candidates = ''abcdefghijklmnopqrstuvwxyz0123456789''"

definition classRepresentative :: "string \<Rightarrow> string" where
  "classRepresentative cls =
     (let inner = trim_suffix (trim_prefix cls ''['') '']'';
          negated = (take 1 inner = ''^'' \<or> take 1 inner = ''!'');
          lits = (if negated then drop 1 inner else inner)
      in if lits = [] then ''x''
         else if \<not> negated
         then (if hd lits = CHR 0x5C \<and> length lits > 1 then rune_string (lits ! 1) else rune_string (hd lits))
         else (case find (\<lambda>c. c \<notin> set lits) class_candidates of
                 Some c \<Rightarrow> [c] | None \<Rightarrow> rune_string (hd lits)))"

function magicPlaceholder :: "string \<Rightarrow> string" where
  "magicPlaceholder [] = []"
| "magicPlaceholder (c # seg) =
     (if c = CHR ''*'' then probe @ magicPlaceholder (dropWhile (\<lambda>d. d = CHR ''*'') seg)
      else if c = CHR ''?'' then CHR ''x'' # magicPlaceholder seg
      else if c = CHR ''[''
      then classRepresentative (take (classEnd (c # seg)) (c # seg))
           @ magicPlaceholder (drop (classEnd (c # seg)) (c # seg))
      else c # magicPlaceholder seg)"
  by pat_completeness auto
termination
proof (relation "measure length")
  fix c seg
  show "(dropWhile (\<lambda>d. d = CHR ''*'') seg, c # seg) \<in> measure length"
    by (simp add: le_imp_less_Suc length_dropWhile_le)
  show "(drop (classEnd (c # seg)) (c # seg), c # seg) \<in> measure length"
    by (simp add: classEnd_def Let_def)
qed auto

definition resolveMagic :: "string \<Rightarrow> string" where
  "resolveMagic pattern =
     join_with ''/'' (map (\<lambda>seg. if contains_any seg ''*?['' then magicPlaceholder seg else seg)
       (split_on slash pattern))"

section \<open>Matching\<close>

text \<open>\<open>None\<close> of the matcher is its error, which counts as a match.\<close>

definition matchOne :: "(string \<Rightarrow> string \<Rightarrow> bool option) \<Rightarrow> string \<Rightarrow> bool \<Rightarrow> string \<Rightarrow> bool" where
  "matchOne glob pattern anchored subject =
     (glob pattern (if anchored then subject else path_base subject) \<noteq> Some False)"

definition match_subjects :: "string \<Rightarrow> string \<Rightarrow> string \<Rightarrow> string list" where
  "match_subjects pattern concrete changed =
     (let base = trim_suffix changed ''/''
      in [changed]
         @ (if base = changed then []
            else [base, base @ ''/'' @ probe, base @ ''/'' @ probe @ ''/'' @ probe]
                 @ (if concrete \<noteq> pattern \<and> (concrete = base \<or> has_prefix concrete (base @ ''/''))
                    then [concrete] else [])))"

definition matchesProtected ::
    "(string \<Rightarrow> string \<Rightarrow> bool option) \<Rightarrow> string \<Rightarrow> bool \<Rightarrow> string \<Rightarrow> string \<Rightarrow> bool" where
  "matchesProtected glob pattern anchored concrete changed =
     (let base = trim_suffix changed ''/''
      in if base = [] then False
         else if list_ex (matchOne glob pattern anchored) (match_subjects pattern concrete changed) then True
         else list_ex (matchOne glob pattern anchored) (ancestors base))"

definition pattern_matches :: "(string \<Rightarrow> string \<Rightarrow> bool option) \<Rightarrow> string \<Rightarrow> string \<Rightarrow> bool" where
  "pattern_matches glob p c = matchesProtected glob p (contains_str p ''/'') (resolveMagic p) c"

fun violations_of :: "(string \<Rightarrow> bool) \<Rightarrow> (string \<Rightarrow> string \<Rightarrow> bool option) \<Rightarrow> string list \<Rightarrow> string list
    \<Rightarrow> protected_error + Violation list" where
  "violations_of valid glob [] changed = Inr []"
| "violations_of valid glob (stored # patterns) changed =
     (let p = normalizePattern stored
      in if p = [] \<or> \<not> valid p then Inl (BadPattern stored)
         else (case violations_of valid glob patterns changed of
                 Inl e \<Rightarrow> Inl e
               | Inr vs \<Rightarrow> Inr (map (\<lambda>c. \<lparr>vi_Pattern = stored, vi_Path = c\<rparr>)
                                  (filter (pattern_matches glob p) changed) @ vs)))"

definition Violations :: "(string \<Rightarrow> bool) \<Rightarrow> (string \<Rightarrow> string \<Rightarrow> bool option) \<Rightarrow> string list \<Rightarrow> string list
    \<Rightarrow> protected_error + Violation list" where
  "Violations valid glob patterns changed =
     (case violations_of valid glob patterns changed of
        Inl e \<Rightarrow> Inl e
      | Inr vs \<Rightarrow> Inr (compact (sort_key vi_Pattern (sort_key vi_Path vs))))"

section \<open>Lemmas\<close>

lemma violations_of_Inr:
  "violations_of valid glob patterns changed = Inr vs \<Longrightarrow>
     (\<forall>stored \<in> set patterns. normalizePattern stored \<noteq> [] \<and> valid (normalizePattern stored))
     \<and> (\<forall>v. v \<in> set vs \<longleftrightarrow> vi_Pattern v \<in> set patterns \<and> vi_Path v \<in> set changed
          \<and> pattern_matches glob (normalizePattern (vi_Pattern v)) (vi_Path v))"
proof (induction patterns arbitrary: vs)
  case (Cons stored patterns)
  let ?hits = "map (\<lambda>c. \<lparr>vi_Pattern = stored, vi_Path = c\<rparr>)
      (filter (pattern_matches glob (normalizePattern stored)) changed)"
  from Cons.prems obtain ws where ok: "normalizePattern stored \<noteq> []" "valid (normalizePattern stored)"
    and ws: "violations_of valid glob patterns changed = Inr ws" and vs: "vs = ?hits @ ws"
    by (auto simp: Let_def split: if_splits sum.splits)
  have hits: "v \<in> set ?hits \<longleftrightarrow> vi_Pattern v = stored \<and> vi_Path v \<in> set changed
      \<and> pattern_matches glob (normalizePattern stored) (vi_Path v)" for v
    by (cases v) auto
  show ?case using Cons.IH [OF ws] ok by (auto simp: vs hits simp del: set_map)
qed simp

lemma violations_of_Inl:
  "violations_of valid glob patterns changed = Inl e \<Longrightarrow>
     \<exists>stored \<in> set patterns. normalizePattern stored = [] \<or> \<not> valid (normalizePattern stored)"
  by (induction patterns) (auto simp: Let_def split: if_splits sum.splits)

lemma Violations_Inr:
  assumes "Violations valid glob patterns changed = Inr vs"
  shows "v \<in> set vs \<longleftrightarrow> vi_Pattern v \<in> set patterns \<and> vi_Path v \<in> set changed
    \<and> pattern_matches glob (normalizePattern (vi_Pattern v)) (vi_Path v)"
  using assms violations_of_Inr [of valid glob patterns changed]
  by (auto simp: Violations_def split: sum.splits)

lemma Violations_total:
  "(\<exists>vs. Violations valid glob patterns changed = Inr vs) \<longleftrightarrow>
     (\<forall>stored \<in> set patterns. normalizePattern stored \<noteq> [] \<and> valid (normalizePattern stored))"
  using violations_of_Inr [of valid glob patterns changed] violations_of_Inl [of valid glob patterns changed]
  by (cases "violations_of valid glob patterns changed") (auto simp: Violations_def)

lemma ancestor_matches:
  assumes "a \<in> set (ancestors (trim_suffix c ''/''))" "trim_suffix c ''/'' \<noteq> []"
    and "matchOne glob p (contains_str p ''/'') a"
  shows "pattern_matches glob p c"
  using assms by (auto simp: pattern_matches_def matchesProtected_def Let_def list_ex_iff)

end
