(* ===== verification/Interception.thy ===== *)
theory Interception
  imports Steps
begin

text \<open>
  \<open>internal/verification/{testpaths,interception,runners}.go\<close>: which changed paths are tests,
  and which verification steps would load or execute a changed path and so be judged by what
  the agent wrote. Loops over arguments are recursions on the argument list. Every selection
  is a filter of the changed paths by a predicate of the path alone: the locale
  \<open>path_selector\<close> states that contract and what follows from it, and each
  runner interprets it.
\<close>

section \<open>Selections of changed paths\<close>

locale path_selector =
  fixes select :: "string list \<Rightarrow> string list" and keeps :: "string \<Rightarrow> bool"
  assumes set_select: "set (select changed) = {c \<in> set changed. keeps c}"
begin

lemma select_subset: "set (select changed) \<subseteq> set changed"
  by (auto simp: set_select)

lemma select_append: "set (select (xs @ ys)) = set (select xs) \<union> set (select ys)"
  by (auto simp: set_select)

lemma select_mono: "set xs \<subseteq> set ys \<Longrightarrow> set (select xs) \<subseteq> set (select ys)"
  by (auto simp: set_select)

lemma select_single: "c \<in> set (select [c]) \<longleftrightarrow> keeps c"
  by (simp add: set_select)

lemma select_member: "c \<in> set changed \<Longrightarrow> c \<in> set (select changed) \<longleftrightarrow> c \<in> set (select [c])"
  by (simp add: set_select)

end

lemma path_selector_filter: "path_selector (filter P) P"
  by unfold_locales simp

lemma path_selector_none: "path_selector (\<lambda>changed. []) (\<lambda>c. False)"
  by unfold_locales simp

section \<open>Test paths\<close>

definition test_dirs :: "string list" where
  "test_dirs = [''test'', ''tests'', ''__tests__'', ''testdata'']"

definition isTestPath :: "string \<Rightarrow> bool" where
  "isTestPath p =
     (let cleaned = path_clean p; base = path_base cleaned
      in if cleaned = ''.'' \<or> cleaned = ''..'' \<or> has_prefix cleaned ''../'' then False
         else if list_ex (\<lambda>seg. seg \<in> set test_dirs) (split_on slash (path_dir cleaned)) then True
         else if base \<in> set test_dirs then True
         else base = ''conftest.py'' \<or> base = ''Makefile'' \<or> base = ''makefile''
            \<or> has_suffix base ''_test.go'' \<or> has_suffix base ''_test.py''
            \<or> (has_prefix base ''test_'' \<and> has_suffix base ''.py'')
            \<or> contains_str base ''.spec.'' \<or> contains_str base ''.test.'')"

definition TestPaths :: "string list \<Rightarrow> string list" where
  "TestPaths changed = compact (sort (filter isTestPath changed))"

definition isTestSource :: "string \<Rightarrow> bool" where
  "isTestSource p =
     (if \<not> isTestPath p then False
      else (let cleaned = path_clean p
            in if list_ex (\<lambda>seg. seg = ''testdata'') (split_on slash (path_dir cleaned)) then False
               else path_base cleaned \<notin> set [''testdata'', ''Makefile'', ''makefile'']))"

interpretation tp: path_selector TestPaths isTestPath
  by unfold_locales (auto simp: TestPaths_def)

section \<open>Operands\<close>

definition escapes :: "string \<Rightarrow> bool" where
  "escapes cleaned = (cleaned = ''..'' \<or> has_prefix cleaned ''../'')"

definition cleanOperand :: "string \<Rightarrow> string option" where
  "cleanOperand a =
     (if a = [] \<or> a = ''-'' then None
      else if is_abs a then None
      else if path_clean a = ''.'' then Some ''.''
      else if escapes (path_clean a) then None
      else Some (path_clean a))"

definition cleanRunner :: "string \<Rightarrow> string option" where
  "cleanRunner p =
     (if p = [] \<or> p = ''-'' then None
      else if is_abs p then None
      else if path_clean p = ''.'' \<or> escapes (path_clean p) then None
      else Some (path_clean p))"

definition cleaned_operands :: "string list \<Rightarrow> string list" where
  "cleaned_operands raw = List.map_filter cleanOperand raw"

text \<open>The worktree-relative form of a changed entry that \<open>testSources\<close> kept.\<close>

definition norm_of :: "string \<Rightarrow> string" where
  "norm_of c = (case cleanOperand c of None \<Rightarrow> [] | Some n \<Rightarrow> n)"

definition underOrEqual :: "string \<Rightarrow> string \<Rightarrow> bool" where
  "underOrEqual p dir = (if dir = ''.'' then True else p = dir \<or> has_prefix p (dir @ ''/''))"

definition test_source :: "string \<Rightarrow> bool" where
  "test_source c = (case cleanOperand c of None \<Rightarrow> False | Some norm \<Rightarrow> isTestSource norm)"

definition testSources :: "string list \<Rightarrow> string list" where
  "testSources changed = filter test_source changed"

definition is_flag :: "string \<Rightarrow> bool" where
  "is_flag a = (a = ''-'' \<or> has_prefix a ''-'')"

text \<open>Whether a flag takes the next argument: it names a value flag and has no \<open>=\<close>.\<close>

definition takes_value :: "string list \<Rightarrow> string \<Rightarrow> bool" where
  "takes_value value_flags a =
     (CHR ''='' \<notin> set a \<and> before_char CHR ''='' (dropWhile (\<lambda>c. c = CHR ''-'') a) \<in> set value_flags)"

section \<open>go test\<close>

function goSubcommand :: "string list \<Rightarrow> string \<times> string list" where
  "goSubcommand [] = ([], [])"
| "goSubcommand (a # args) =
     (if a = ''--'' then ([], [])
      else if a = ''-C'' then goSubcommand (drop 1 args)
      else if is_flag a then goSubcommand args
      else (a, args))"
  by pat_completeness auto
termination by (relation "measure length") auto

definition goValueFlags :: "string list" where
  "goValueFlags =
     [''run'', ''skip'', ''count'', ''timeout'', ''cpu'', ''parallel'', ''tags'', ''ldflags'', ''exec'',
      ''bench'', ''benchtime'', ''coverprofile'', ''covermode'', ''coverpkg'', ''outputdir'',
      ''cpuprofile'', ''memprofile'', ''memprofilerate'', ''blockprofile'', ''blockprofilerate'',
      ''mutexprofile'', ''mutexprofilefraction'', ''trace'', ''o'', ''list'', ''vet'', ''shuffle'',
      ''gcflags'', ''asmflags'', ''overlay'', ''toolexec'']"

function goPatterns :: "string list \<Rightarrow> string list" where
  "goPatterns [] = []"
| "goPatterns (a # args) =
     (if a = ''--'' then cleaned_operands args
      else if a = ''-args'' then []
      else if is_flag a then goPatterns (if takes_value goValueFlags a then drop 1 args else args)
      else (case cleanOperand a of None \<Rightarrow> goPatterns args | Some p \<Rightarrow> p # goPatterns args))"
  by pat_completeness auto
termination by (relation "measure length") auto

definition goPatternSelects :: "string \<Rightarrow> string \<Rightarrow> bool" where
  "goPatternSelects pattern dir =
     (let p = trim_prefix pattern ''./''
      in if p = ''...'' then True
         else if has_suffix p ''/...''
         then (let pre = trim_suffix p ''/...'' in dir = pre \<or> has_prefix dir (pre @ ''/''))
         else if contains_str p ''...'' then True
         else if p = ''all'' then True
         else if contains_str p ''/''
         then (if has_prefix pattern ''.'' then dir = p else dir = p \<or> has_suffix p (''/'' @ dir))
         else if p = ''.'' then dir = ''.''
         else if p = ''std'' \<or> p = ''cmd'' \<or> p = ''tool'' then False
         else dir = ''.'')"

definition goSelected :: "string list \<Rightarrow> string \<Rightarrow> bool" where
  "goSelected patterns dir =
     (if patterns = [] then dir = ''.'' else list_ex (\<lambda>p. goPatternSelects p dir) patterns)"

definition go_keeps :: "string list \<Rightarrow> string \<Rightarrow> bool" where
  "go_keeps patterns c =
     (has_suffix (path_base (norm_of c)) ''_test.go'' \<and> goSelected patterns (path_dir (norm_of c)))"

definition goMatches :: "string list \<Rightarrow> string list \<Rightarrow> string list" where
  "goMatches args changed =
     (let (sub, rest) = goSubcommand args
      in if sub \<noteq> ''test'' then []
         else filter (go_keeps (goPatterns rest)) (testSources changed))"

section \<open>node --test\<close>

definition hasNodeTest :: "string list \<Rightarrow> bool" where
  "hasNodeTest args = list_ex (\<lambda>a. a = ''--test'' \<or> has_prefix a ''--test='') args"

definition nodeValueFlags :: "string list" where
  "nodeValueFlags =
     [''test-concurrency'', ''test-name-pattern'', ''test-reporter'', ''test-reporter-destination'',
      ''test-shard'', ''test-skip-pattern'', ''test-timeout'', ''test-coverage-include'',
      ''test-coverage-exclude'', ''test-coverage-lines'', ''test-coverage-functions'',
      ''test-coverage-branches'', ''import'', ''loader'', ''experimental-loader'', ''require'', ''r'',
      ''eval'', ''e'', ''print'', ''p'', ''title'']"

text \<open>The raw operands; \<open>hadOperands\<close> of the code says whether there is one.\<close>

function nodeOperands :: "string list \<Rightarrow> string list" where
  "nodeOperands [] = []"
| "nodeOperands (a # args) =
     (if a = ''--'' then args
      else if is_flag a then nodeOperands (if takes_value nodeValueFlags a then drop 1 args else args)
      else a # nodeOperands args)"
  by pat_completeness auto
termination by (relation "measure length") auto

definition glob_char :: "char \<Rightarrow> bool" where
  "glob_char c = (c \<in> set ''*?[{'')"

definition nodeOperandSelects :: "string \<Rightarrow> string \<Rightarrow> bool" where
  "nodeOperandSelects operand changed =
     (if list_ex glob_char operand
      then (let head = takeWhile (\<lambda>c. \<not> glob_char c) operand
            in if has_suffix head ''/'' then underOrEqual changed (path_clean head)
               else underOrEqual changed (path_dir head))
      else underOrEqual changed operand)"

definition nodeMatches :: "string list \<Rightarrow> string list \<Rightarrow> string list" where
  "nodeMatches args changed =
     (if \<not> hasNodeTest args then []
      else filter (\<lambda>c. nodeOperands args = []
               \<or> list_ex (\<lambda>x. nodeOperandSelects x (norm_of c)) (cleaned_operands (nodeOperands args)))
             (testSources changed))"

section \<open>pytest\<close>

definition pytestValueFlags :: "string list" where
  "pytestValueFlags =
     [''k'', ''m'', ''o'', ''c'', ''p'', ''W'', ''r'', ''deselect'', ''ignore'', ''confcutdir'', ''rootdir'',
      ''junitxml'', ''junitprefix'', ''maxfail'', ''cache-show'', ''last-failed-no-failures'', ''lfnf'',
      ''capture'', ''tb'', ''color'', ''code-highlight'', ''pdbcls'', ''doctest-glob'',
      ''override-ini'', ''basetemp'', ''assert'']"

text \<open>Whether a cluster of short options ends in a value flag whose value is the next argument.\<close>

fun pytest_cluster_takes :: "string \<Rightarrow> bool" where
  "pytest_cluster_takes [] = False"
| "pytest_cluster_takes (c # cs) =
     (if [c] \<in> set pytestValueFlags then cs = [] else pytest_cluster_takes cs)"

function pytestOperands :: "string list \<Rightarrow> string list" where
  "pytestOperands [] = []"
| "pytestOperands (a # args) =
     (if a = ''--'' then args
      else if has_prefix a ''--''
      then pytestOperands
             (if CHR ''='' \<notin> set a \<and> before_char CHR ''='' (drop 2 a) \<in> set pytestValueFlags
              then drop 1 args else args)
      else if length a > 1 \<and> hd a = CHR ''-''
      then pytestOperands (if pytest_cluster_takes (tl a) then drop 1 args else args)
      else a # pytestOperands args)"
  by pat_completeness auto
termination by (relation "measure length") auto

definition conftestSelected :: "string list \<Rightarrow> string \<Rightarrow> bool" where
  "conftestSelected operands dir = list_ex (\<lambda>x. underOrEqual x dir \<or> underOrEqual dir x) operands"

definition pytestMatches :: "string list \<Rightarrow> string list \<Rightarrow> string list" where
  "pytestMatches args changed =
     (let operands = cleaned_operands (pytestOperands args);
          noconftest = (''--noconftest'' \<in> set args)
      in filter (\<lambda>c. pytestOperands args = []
              \<or> (if path_base (norm_of c) = ''conftest.py''
                 then \<not> noconftest \<and> conftestSelected operands (path_dir (norm_of c))
                 else list_ex (underOrEqual (norm_of c)) operands))
           (testSources changed))"

section \<open>Commands that load a file\<close>

definition relativeCommand :: "string \<Rightarrow> string option" where
  "relativeCommand command = (if slash \<notin> set command then None else cleanRunner command)"

definition loads :: "string \<Rightarrow> string \<Rightarrow> bool" where
  "loads runner c = (c = runner \<or> (has_suffix c ''/'' \<and> has_prefix runner c))"

definition matchRunner :: "string \<Rightarrow> string list \<Rightarrow> string list" where
  "matchRunner runner changed = filter (loads runner) changed"

definition uniqueSorted :: "string list \<Rightarrow> string list" where
  "uniqueSorted xs = (if length xs = 0 then [] else compact (sort xs))"

definition isShell :: "string \<Rightarrow> bool" where
  "isShell base = (base \<in> set [''sh'', ''bash'', ''dash'', ''zsh''])"

definition numeric_part :: "string \<Rightarrow> bool" where
  "numeric_part part = (part \<noteq> [] \<and> list_all is_digit part)"

definition isPython :: "string \<Rightarrow> bool" where
  "isPython base =
     (if base = ''python'' \<or> base = ''python3'' then True
      else (case cut_prefix base ''python3.'' of
              None \<Rightarrow> False
            | Some rest \<Rightarrow>
                if rest = [] then False
                else (case cut_suffix rest ''t'' of
                        Some trimmed \<Rightarrow>
                          if trimmed = [] then False
                          else list_all numeric_part (split_on CHR ''.'' trimmed)
                      | None \<Rightarrow> list_all numeric_part (split_on CHR ''.'' rest))))"

function shellScript :: "string list \<Rightarrow> string option" where
  "shellScript [] = None"
| "shellScript (a # args) =
     (if a = ''--'' then (case args of [] \<Rightarrow> None | b # _ \<Rightarrow> cleanRunner b)
      else if has_prefix a ''--'' then shellScript args
      else if length a > 1 \<and> (hd a = CHR ''-'' \<or> hd a = CHR ''+'')
      then (if contains_any (tl a) ''cs'' then None
            else shellScript (if last a = CHR ''o'' then drop 1 args else args))
      else cleanRunner a)"
  by pat_completeness auto
termination by (relation "measure length") auto

definition isExtensionModule :: "string \<Rightarrow> string \<Rightarrow> bool" where
  "isExtensionModule file base =
     (if file = base @ ''.so'' \<or> file = base @ ''.abi3.so'' then True
      else (case cut_prefix file (base @ ''.cpython-'') of
              None \<Rightarrow> False
            | Some rest \<Rightarrow> (case cut_suffix rest ''.so'' of
                              None \<Rightarrow> False
                            | Some tag \<Rightarrow> tag \<noteq> [] \<and> slash \<notin> set tag)))"

definition shadows :: "string \<Rightarrow> string \<Rightarrow> bool" where
  "shadows base c =
     (let file = before_char slash c
      in file = base \<or> file = base @ ''.py'' \<or> file = base @ ''.pyc'' \<or> isExtensionModule file base)"

definition matchModule :: "string \<Rightarrow> string list \<Rightarrow> string list" where
  "matchModule module changed =
     (let base = before_char CHR ''.'' module
      in if base = [] then [] else filter (shadows base) changed)"

text \<open>How a cluster of python's short options ends the scan, or lets it go on.\<close>

datatype cluster =
    ClusterCode
  | ClusterModule bool string
  | ClusterGo bool bool

fun python_cluster :: "bool \<Rightarrow> string \<Rightarrow> cluster" where
  "python_cluster isolated [] = ClusterGo isolated False"
| "python_cluster isolated (c # cs) =
     (if c = CHR ''I'' \<or> c = CHR ''P'' then python_cluster True cs
      else if c = CHR ''c'' then ClusterCode
      else if c = CHR ''m'' then ClusterModule isolated cs
      else if c = CHR ''W'' \<or> c = CHR ''X'' then ClusterGo isolated (cs = [])
      else python_cluster isolated cs)"

definition python_module :: "bool \<Rightarrow> string \<Rightarrow> string list \<Rightarrow> string list \<Rightarrow> string list" where
  "python_module isolated module rest changed =
     (if before_char CHR ''.'' module = ''pytest''
      then (if isolated then pytestMatches rest changed
            else uniqueSorted (matchModule module changed @ pytestMatches rest changed))
      else if isolated then [] else matchModule module changed)"

definition match_script :: "string \<Rightarrow> string list \<Rightarrow> string list" where
  "match_script a changed = (case cleanRunner a of None \<Rightarrow> [] | Some s \<Rightarrow> matchRunner s changed)"

function python_scan :: "bool \<Rightarrow> string list \<Rightarrow> string list \<Rightarrow> string list" where
  "python_scan isolated [] changed = []"
| "python_scan isolated (a # args) changed =
     (if a = ''--'' then (case args of [] \<Rightarrow> [] | b # _ \<Rightarrow> match_script b changed)
      else if has_prefix a ''--'' then python_scan isolated args changed
      else if length a > 1 \<and> hd a = CHR ''-''
      then (case python_cluster isolated (tl a) of
              ClusterCode \<Rightarrow> []
            | ClusterModule isol module \<Rightarrow>
                (if module = []
                 then (case args of [] \<Rightarrow> [] | m # rest \<Rightarrow> python_module isol m rest changed)
                 else python_module isol module args changed)
            | ClusterGo isol skip \<Rightarrow> python_scan isol (if skip then drop 1 args else args) changed)
      else match_script a changed)"
  by pat_completeness auto
termination by (relation "measure (\<lambda>(_, args, _). length args)") auto

definition pythonMatches :: "string list \<Rightarrow> string list \<Rightarrow> string list" where
  "pythonMatches args changed = python_scan False args changed"

section \<open>Steps\<close>

definition runner_matches :: "VerificationStep \<Rightarrow> string list \<Rightarrow> string list" where
  "runner_matches step changed =
     (let base = path_base (Command step)
      in if isPython base then pythonMatches (Args step) changed
         else if isShell base
         then (case shellScript (Args step) of None \<Rightarrow> [] | Some script \<Rightarrow> matchRunner script changed)
         else if base = ''go'' then goMatches (Args step) changed
         else if base = ''node'' then nodeMatches (Args step) changed
         else if base = ''pytest'' \<or> base = ''py.test'' then pytestMatches (Args step) changed
         else [])"

definition matchesForStep :: "VerificationStep \<Rightarrow> string list \<Rightarrow> string list" where
  "matchesForStep step changed =
     uniqueSorted
       ((case relativeCommand (Command step) of None \<Rightarrow> [] | Some r \<Rightarrow> matchRunner r changed)
        @ runner_matches step changed)"

record Interception =
  ic_StepIndex :: nat
  ic_Step :: string
  ic_Path :: string

definition Interceptions :: "VerificationStep list \<Rightarrow> string list \<Rightarrow> Interception list" where
  "Interceptions steps changed =
     sort_key ic_StepIndex (sort_key ic_Path
       (concat (map (\<lambda>(i, s). map (\<lambda>p. \<lparr>ic_StepIndex = i, ic_Step = Step_String s, ic_Path = p\<rparr>)
                               (matchesForStep s changed))
         (enumerate 0 steps))))"

section \<open>Selection is pointwise\<close>

text \<open>
  Whether a step loads a changed path depends on that path alone: no other change can hide
  it or add it. Each function below selects by the predicate its answer on that one path gives.
\<close>

definition pointwise :: "(string list \<Rightarrow> string list) \<Rightarrow> bool" where
  "pointwise f = path_selector f (\<lambda>c. c \<in> set (f [c]))"

lemma pointwiseI:
  assumes "path_selector f P"
  shows "pointwise f"
  unfolding pointwise_def
  by unfold_locales
    (simp add: path_selector.set_select [OF assms])

lemma pointwise_filter: "pointwise (filter P)"
  by (rule pointwiseI [OF path_selector_filter])

lemma pointwise_none: "pointwise (\<lambda>changed. [])"
  by (rule pointwiseI [OF path_selector_none])

lemma pointwise_test_filter: "pointwise (\<lambda>changed. filter P (testSources changed))"
  by (rule pointwiseI [where P = "\<lambda>c. test_source c \<and> P c"], unfold_locales)
    (auto simp: testSources_def)

lemma set_uniqueSorted [simp]: "set (uniqueSorted xs) = set xs"
  by (simp add: uniqueSorted_def)

lemma pointwise_iff: "pointwise f \<longleftrightarrow> (\<forall>changed. set (f changed) = {c \<in> set changed. c \<in> set (f [c])})"
  by (simp add: pointwise_def path_selector_def)

lemma pointwise_member:
  assumes "pointwise f"
  shows "c \<in> set (f changed) \<longleftrightarrow> c \<in> set changed \<and> c \<in> set (f [c])"
proof -
  have "set (f changed) = {c \<in> set changed. c \<in> set (f [c])}"
    by (rule assms [unfolded pointwise_iff, rule_format])
  then have "c \<in> set (f changed) \<longleftrightarrow> c \<in> {c \<in> set changed. c \<in> set (f [c])}"
    by (rule arg_cong)
  then show ?thesis by (simp only: mem_Collect_eq)
qed

lemma pointwise_append:
  assumes f: "pointwise f" and g: "pointwise g"
  shows "pointwise (\<lambda>changed. f changed @ g changed)"
proof (rule pointwiseI, unfold_locales, rule set_eqI)
  fix changed c
  have "c \<in> set (f changed @ g changed) \<longleftrightarrow> c \<in> set (f changed) \<or> c \<in> set (g changed)" by simp
  also have "\<dots> \<longleftrightarrow> c \<in> set changed \<and> (c \<in> set (f [c]) \<or> c \<in> set (g [c]))"
    using pointwise_member [OF f] pointwise_member [OF g] by blast
  finally show "c \<in> set (f changed @ g changed) \<longleftrightarrow>
      c \<in> {c \<in> set changed. c \<in> set (f [c]) \<or> c \<in> set (g [c])}" by simp
qed

lemma pointwise_uniqueSorted: "pointwise f \<Longrightarrow> pointwise (\<lambda>changed. uniqueSorted (f changed))"
  unfolding pointwise_iff set_uniqueSorted .

lemma pointwise_if:
  "pointwise f \<Longrightarrow> pointwise g \<Longrightarrow> pointwise (\<lambda>changed. if b then f changed else g changed)"
  by (cases b) simp_all

lemma pointwise_matchRunner: "pointwise (matchRunner r)"
  unfolding matchRunner_def [abs_def] by (rule pointwise_filter)

lemma pointwise_matchModule: "pointwise (matchModule m)"
  unfolding matchModule_def [abs_def] Let_def by (intro pointwise_if pointwise_none pointwise_filter)

lemma pointwise_pytest: "pointwise (pytestMatches args)"
  unfolding pytestMatches_def [abs_def] Let_def by (rule pointwise_test_filter)

lemma pointwise_node: "pointwise (nodeMatches args)"
  unfolding nodeMatches_def [abs_def] by (intro pointwise_if pointwise_none pointwise_test_filter)

lemma pointwise_go: "pointwise (goMatches args)"
proof (cases "goSubcommand args")
  case (Pair sub rest)
  show ?thesis
    unfolding goMatches_def [abs_def] Let_def Pair prod.case
    by (intro pointwise_if pointwise_none pointwise_test_filter)
qed

lemma pointwise_option:
  "pointwise f \<Longrightarrow> (\<And>v. pointwise (g v)) \<Longrightarrow>
    pointwise (\<lambda>changed. case x of None \<Rightarrow> f changed | Some v \<Rightarrow> g v changed)"
  by (cases x) simp_all

lemma pointwise_list:
  "pointwise f \<Longrightarrow> (\<And>v vs. pointwise (g v vs)) \<Longrightarrow>
    pointwise (\<lambda>changed. case x of [] \<Rightarrow> f changed | v # vs \<Rightarrow> g v vs changed)"
  by (cases x) simp_all

lemma pointwise_script: "pointwise (match_script a)"
  unfolding match_script_def [abs_def] by (intro pointwise_option pointwise_none pointwise_matchRunner)

lemmas pointwise_intros = pointwise_if pointwise_option pointwise_list pointwise_none
  pointwise_matchRunner pointwise_script

lemma pointwise_module: "pointwise (python_module isolated module rest)"
  unfolding python_module_def [abs_def]
  by (intro pointwise_if pointwise_pytest pointwise_uniqueSorted pointwise_append
      pointwise_matchModule pointwise_none)

declare python_scan.simps [simp del]

lemma pointwise_cluster:
  "pointwise f \<Longrightarrow> (\<And>i m. pointwise (g i m)) \<Longrightarrow> (\<And>i b. pointwise (h i b)) \<Longrightarrow>
    pointwise (\<lambda>changed. case x of ClusterCode \<Rightarrow> f changed | ClusterModule i m \<Rightarrow> g i m changed
      | ClusterGo i b \<Rightarrow> h i b changed)"
  by (cases x) simp_all

lemma python_scan_eta:
  "python_scan isolated [] = (\<lambda>changed. [])"
  "python_scan isolated (a # args) = (\<lambda>changed.
     (if a = ''--'' then (case args of [] \<Rightarrow> [] | b # _ \<Rightarrow> match_script b changed)
      else if has_prefix a ''--'' then python_scan isolated args changed
      else if length a > 1 \<and> hd a = CHR ''-''
      then (case python_cluster isolated (tl a) of
              ClusterCode \<Rightarrow> []
            | ClusterModule isol module \<Rightarrow>
                (if module = []
                 then (case args of [] \<Rightarrow> [] | m # rest \<Rightarrow> python_module isol m rest changed)
                 else python_module isol module args changed)
            | ClusterGo isol skip \<Rightarrow> python_scan isol (if skip then drop 1 args else args) changed)
      else match_script a changed))"
  by (rule ext, rule python_scan.simps)+

lemma pointwise_scan: "pointwise (python_scan isolated args)"
proof (induction "length args" arbitrary: isolated args rule: less_induct)
  case less
  show ?case
  proof (cases args)
    case Nil
    then show ?thesis by (simp only: python_scan_eta pointwise_none)
  next
    case (Cons a rest)
    have rest: "pointwise (python_scan i (if b then drop 1 rest else rest))" for i b
      by (rule less) (auto simp: Cons)
    show ?thesis
      unfolding Cons python_scan_eta
      by (intro pointwise_intros pointwise_cluster pointwise_module rest rest [of _ False, simplified])
  qed
qed

lemma pointwise_runner: "pointwise (runner_matches step)"
  unfolding runner_matches_def [abs_def] Let_def pythonMatches_def [abs_def]
  by (intro pointwise_intros pointwise_scan pointwise_go pointwise_node pointwise_pytest)

lemma pointwise_matchesForStep: "pointwise (matchesForStep step)"
  unfolding matchesForStep_def [abs_def]
  by (intro pointwise_uniqueSorted pointwise_append pointwise_intros pointwise_runner)

definition step_loads :: "VerificationStep \<Rightarrow> string \<Rightarrow> bool" where
  "step_loads step c = (c \<in> set (matchesForStep step [c]))"

interpretation step_selection: path_selector "matchesForStep step" "step_loads step"
  using pointwise_matchesForStep [of step] unfolding pointwise_def step_loads_def .

lemma ascending_matchesForStep: "ascending (matchesForStep step changed)"
  by (simp add: matchesForStep_def uniqueSorted_def ascending_compact)

lemma set_Interceptions:
  "ic \<in> set (Interceptions steps changed) \<longleftrightarrow>
     ic_StepIndex ic < length steps \<and> ic_Step ic = Step_String (steps ! ic_StepIndex ic)
     \<and> ic_Path ic \<in> set changed \<and> step_loads (steps ! ic_StepIndex ic) (ic_Path ic)"
  (is "?l \<longleftrightarrow> ?r")
proof
  assume ?l
  then obtain i s p where "(i, s) \<in> set (enumerate 0 steps)" "p \<in> set (matchesForStep s changed)"
    "ic = \<lparr>ic_StepIndex = i, ic_Step = Step_String s, ic_Path = p\<rparr>"
    by (auto simp: Interceptions_def)
  then show ?r by (simp add: in_set_enumerate_eq step_selection.set_select)
next
  assume r: ?r
  let ?i = "ic_StepIndex ic"
  have e: "(?i, steps ! ?i) \<in> set (enumerate 0 steps)" using r by (simp add: in_set_enumerate_eq)
  have p: "ic_Path ic \<in> set (matchesForStep (steps ! ?i) changed)"
    using r by (simp add: step_selection.set_select)
  have "ic = \<lparr>ic_StepIndex = ?i, ic_Step = Step_String (steps ! ?i), ic_Path = ic_Path ic\<rparr>"
    using r by simp
  with e p show ?l unfolding Interceptions_def by force
qed

end
