(* ===== verification/World.thy ===== *)
theory World
  imports Guarantees Verify GitShared Protected Interception
begin

text \<open>
  What a run of the worker acts in: the database it shares with other processes, the git commands it
  has issued, and the fields of the Go struct \<open>run\<close>. Everything outside the repository's code
  is a function of the environment, asked by the number of the question: what other
  processes commit in between, whether a connection holds, the state of the context, what a git
  command, the agent, a check or the file system answers. An action is a program of the
  state monad whose result is an error or a value; a Go function that returns an error is one.
\<close>

section \<open>The state of a run\<close>

record Checkout =
  co_Path :: string
  co_Branch :: string
  co_BaseCommit :: string
  co_Submodules :: "string list"
  co_Repo :: string

text \<open>One git command: its directory, what it adds to the environment and its arguments.\<close>

record git_call =
  gc_Dir :: string
  gc_Env :: "string list"
  gc_Args :: "string list"

record failedStep =
  fs_Command :: string
  fs_Outcome :: string
  fs_Output :: string

record retryContext =
  rc_previous :: nat
  rc_kind :: FailureKind
  rc_message :: string
  rc_sessionID :: string
  rc_failed :: "failedStep list"
  rc_prevRecord :: "Worktree option"
  rc_baseCommit :: string

record world =
  w_db :: db
  w_tick :: nat
  w_git :: "git_call list"
  x_task :: Task
  x_attempt :: TaskAttempt
  x_worktree :: "Checkout option"
  x_record :: "Worktree option"
  x_agentTree :: string
  x_agentHead :: string
  x_sharedBefore :: SharedState
  x_workerRun :: "WorkerRun option"
  x_report :: "Report option"
  x_testsModified :: "string list"
  x_failureKind :: FailureKind
  x_retryable :: bool
  x_retryPending :: bool
  x_retry :: "retryContext option"
  x_attemptOpen :: bool

text \<open>The attempt of a run that has none: Go's zero value.\<close>

definition no_attempt :: TaskAttempt where
  "no_attempt =
     \<lparr>a_ID = 0, a_TaskID = 0, a_AttemptNumber = 0, a_Status = AttemptRunning, a_FailureKind = FailureNone,
      a_Error = [], a_StartedAt = 0, a_FinishedAt = None, a_LeaseOwner = [], a_LeaseExpiresAt = None\<rparr>"

definition no_shared :: SharedState where
  "no_shared =
     \<lparr>ss_CommonDir = [], ss_Refs = [], ss_HeadRef = [], ss_Config = [], ss_ConfigEntries = None,
      ss_Info = [], ss_Hooks = []\<rparr>"

definition new_run :: "Task \<Rightarrow> db \<Rightarrow> nat \<Rightarrow> git_call list \<Rightarrow> world" where
  "new_run t d n calls =
     \<lparr>w_db = d, w_tick = n, w_git = calls, x_task = t, x_attempt = no_attempt, x_worktree = None,
      x_record = None, x_agentTree = [], x_agentHead = [], x_sharedBefore = no_shared,
      x_workerRun = None, x_report = None, x_testsModified = [], x_failureKind = FailureNone,
      x_retryable = False, x_retryPending = False, x_retry = None, x_attemptOpen = False\<rparr>"

section \<open>Errors\<close>

datatype werr =
    WStore serr
  | WGit git_error
  | WNotARepository | WBranchExists | WBranchInUse | WWorktreeExists | WWorktreeDirty
  | WUnknownRevision | WPath path_error | WSubmoduleUnavailable | WConflict string "string list"
  | WNotRunnable Status | WApprovalRequired "Approval option" | WToolRefused string | WAgentError string
  | WSharedStateUnreadable werr | WBreach "string list" | WIntercepted "Interception list" "Violation list"
  | WProtected protected_error | WNotVerified string | WBasePasses string | WWrapped string werr
  | WDirty "string list" | WMessage string | WFuel

section \<open>The environment\<close>

record AgentRequest =
  ar_TaskRef :: string
  ar_Prompt :: string
  ar_WorkingDir :: string
  ar_Agent :: string
  ar_Model :: string
  ar_Timeout :: duration
  ar_MaxOutputBytes :: int
  ar_ReadDirs :: "string list"
  ar_SessionID :: string

record Progress =
  pg_ToolCalls :: nat
  pg_Steps :: nat
  pg_LastTool :: string
  pg_LastPath :: string
  pg_Elapsed :: duration

record AgentResult =
  ag_Backend :: string
  ag_Status :: WorkerRunStatus
  ag_FailureKind :: FailureKind
  ag_Command :: string
  ag_WorkingDir :: string
  ag_ExitCode :: "int option"
  ag_Stdout :: string
  ag_StdoutTruncated :: bool
  ag_Stderr :: string
  ag_StderrTruncated :: bool
  ag_SessionID :: string
  ag_Summary :: string
  ag_FinishReason :: string
  ag_Model :: string
  ag_OrphansKilled :: bool
  ag_ToolCalls :: nat
  ag_StartedAt :: "time option"
  ag_FinishedAt :: "time option"
  ag_Duration :: duration
  ag_Err :: "werr option"

record AddedFile =
  af_Path :: string
  af_Bytes :: int
  af_Binary :: bool

record env =
  e_others :: "nat \<Rightarrow> db \<Rightarrow> db"
  e_conn :: "nat \<Rightarrow> connection"
  e_lost :: "nat \<Rightarrow> bool"
  e_ctx :: "nat \<Rightarrow> ctx_state"
  e_uuid :: "nat \<Rightarrow> uuid"
  e_now :: "nat \<Rightarrow> time"
  e_git :: "nat \<Rightarrow> git_call \<Rightarrow> git_error + gitres"
  e_links :: "nat \<Rightarrow> string \<Rightarrow> string option"
  e_exists :: "nat \<Rightarrow> string \<Rightarrow> bool"
  e_is_dir :: "nat \<Rightarrow> string \<Rightarrow> bool"
  e_mkdir :: "nat \<Rightarrow> string \<Rightarrow> git_error + unit"
  e_index :: "nat \<Rightarrow> string \<Rightarrow> git_error + string"
  e_temp :: "nat \<Rightarrow> git_error + string"
  e_hash_file :: "nat \<Rightarrow> string \<Rightarrow> git_error + string"
  e_hash_tree :: "nat \<Rightarrow> string \<Rightarrow> bool \<Rightarrow> git_error + string gomap"
  e_prompt :: "Task \<Rightarrow> werr + string"
  e_retry_prompt :: "Task \<Rightarrow> nat \<Rightarrow> retryContext \<Rightarrow> werr + string"
  e_agent :: "nat \<Rightarrow> AgentRequest \<Rightarrow> Progress list \<times> AgentResult \<times> werr option"
  e_version :: "nat \<Rightarrow> string"
  e_check :: "nat \<Rightarrow> nat \<Rightarrow> observation"
  e_elapsed :: "nat \<Rightarrow> duration"
  e_coverage :: "nat \<Rightarrow> string \<Rightarrow> string \<Rightarrow> werr + payload"
  e_valid :: "string \<Rightarrow> bool"
  e_glob :: "string \<Rightarrow> string \<Rightarrow> bool option"
  e_text :: "werr \<Rightarrow> string"
  e_parse_uuid :: "string \<Rightarrow> uuid option"
  e_owner :: string
  e_cwd :: string
  c_WorkspaceRoot :: string
  c_Backend :: string
  c_Runner :: Runner
  c_CancelPoll :: duration
  c_CleanupOnSuccess :: bool
  c_Routing :: "(string \<times> string) list"
  c_DefaultTaskTimeout :: duration
  c_MaxOutputBytes :: int

section \<open>Actions\<close>

type_synonym 'a act = "(world, werr + 'a) state"

definition ok :: "'a \<Rightarrow> 'a act" where
  "ok x = State_Monad.return (Inr x)"

definition err :: "werr \<Rightarrow> 'a act" where
  "err e = State_Monad.return (Inl e)"

text \<open>\<open>x, err := m(); if err != nil { return err }\<close>, then the rest.\<close>

definition ebind :: "'a act \<Rightarrow> ('a \<Rightarrow> 'b act) \<Rightarrow> 'b act" where
  "ebind m f = State_Monad.bind m (\<lambda>r. case r of Inl e \<Rightarrow> err e | Inr x \<Rightarrow> f x)"

definition eseq :: "unit act \<Rightarrow> 'b act \<Rightarrow> 'b act" where
  "eseq m n = ebind m (\<lambda>_. n)"

text \<open>The rest sees the error instead.\<close>

definition catch :: "'a act \<Rightarrow> (werr + 'a \<Rightarrow> 'b act) \<Rightarrow> 'b act" where
  "catch m h = State_Monad.bind m h"

definition reads :: "(world \<Rightarrow> 'a) \<Rightarrow> 'a act" where
  "reads f = State_Monad.bind State_Monad.get (\<lambda>w. ok (f w))"

definition assign :: "(world \<Rightarrow> world) \<Rightarrow> unit act" where
  "assign f = State_Monad.bind (State_Monad.update f) (\<lambda>_. ok ())"

definition from_result :: "werr + 'a \<Rightarrow> 'a act" where
  "from_result r = State_Monad.return r"

text \<open>The next question's number. Nothing happens in the database meanwhile.\<close>

definition tick :: "nat act" where
  "tick = ebind (reads w_tick) (\<lambda>n. eseq (assign (\<lambda>w. w\<lparr>w_tick := Suc n\<rparr>)) (ok n))"

text \<open>The same, with what other processes commit before it.\<close>

definition turn :: "env \<Rightarrow> nat act" where
  "turn E = ebind (reads w_tick)
     (\<lambda>n. eseq (assign (\<lambda>w. w\<lparr>w_tick := Suc n, w_db := e_others E n (w_db w)\<rparr>)) (ok n))"

section \<open>The store\<close>

definition in_db :: "'a tx \<Rightarrow> 'a act" where
  "in_db m = ebind (reads w_db)
     (\<lambda>d. case m d of Inl e \<Rightarrow> err (WStore e) | Inr (x, d') \<Rightarrow> eseq (assign (\<lambda>w. w\<lparr>w_db := d'\<rparr>)) (ok x))"

text \<open>A statement in autocommit, a read, and a transaction whose body may also do other things.\<close>

definition stmt :: "env \<Rightarrow> 'a tx \<Rightarrow> 'a act" where
  "stmt E m = ebind (turn E) (\<lambda>n. if e_lost E n then err (WStore ErrBegin) else in_db m)"

definition query :: "env \<Rightarrow> (db \<Rightarrow> serr + 'a) \<Rightarrow> 'a act" where
  "query E q = stmt E (tx_read q)"

definition commit_tx :: "connection \<Rightarrow> db \<Rightarrow> werr + 'a \<Rightarrow> 'a act" where
  "commit_tx c before r =
     (case r of
        Inl e \<Rightarrow> eseq (assign (\<lambda>w. w\<lparr>w_db := before\<rparr>)) (err e)
      | Inr x \<Rightarrow>
          (case c of
             CommitFails \<Rightarrow> eseq (assign (\<lambda>w. w\<lparr>w_db := before\<rparr>)) (err (WStore ErrCommit))
           | CommitUnacknowledged \<Rightarrow> err (WStore ErrCommit)
           | _ \<Rightarrow> ok x))"

definition inTx :: "env \<Rightarrow> 'a act \<Rightarrow> 'a act" where
  "inTx E body = ebind (turn E)
     (\<lambda>n. if e_conn E n = BeginFails then err (WStore ErrBegin)
          else ebind (reads w_db) (\<lambda>before. catch body (commit_tx (e_conn E n) before)))"

section \<open>Git\<close>

text \<open>
  \<open>Manager.run\<close>: every command aidev starts has the hooks directory and the file-system monitor
  switched off in front of the subcommand.
\<close>

definition git_guards :: "string list" where
  "git_guards = [''-c'', ''core.fsmonitor=false'', ''-c'', ''core.hooksPath=/dev/null'']"

definition git_env :: "string list" where
  "git_env = [''GIT_TERMINAL_PROMPT=0'', ''GIT_PAGER=cat'', ''GIT_OPTIONAL_LOCKS=0'', ''LC_ALL=C'']"

definition git :: "env \<Rightarrow> string \<Rightarrow> string list \<Rightarrow> string list \<Rightarrow> gitres act" where
  "git E dir extra args = ebind tick
     (\<lambda>n. let call = \<lparr>gc_Dir = dir, gc_Env = git_env @ extra, gc_Args = git_guards @ args\<rparr>
          in eseq (assign (\<lambda>w. w\<lparr>w_git := w_git w @ [call]\<rparr>))
               (case e_git E n call of Inl e \<Rightarrow> err (WGit e) | Inr r \<Rightarrow> ok r))"

definition ask :: "(nat \<Rightarrow> 'a) \<Rightarrow> 'a act" where
  "ask f = ebind tick (\<lambda>n. ok (f n))"

definition ask_git :: "(nat \<Rightarrow> git_error + 'a) \<Rightarrow> 'a act" where
  "ask_git f = ebind (ask f) (\<lambda>r. case r of Inl e \<Rightarrow> err (WGit e) | Inr x \<Rightarrow> ok x)"

end
