(* ===== verification/GitOps.thy ===== *)
theory GitOps
  imports World
begin

text \<open>
  \<open>internal/git\<close>: the operations on repositories and worktrees, each the sequence of git commands the
  code runs, with what it makes of their output. A worktree is passed as a value; the operations
  that assign a field of it return the new one. Truncated output is refused where the code refuses it.
\<close>

section \<open>Reading output\<close>

definition firstLine :: "string \<Rightarrow> string" where
  "firstLine s =
     (let t = trim_space s
      in if CHR 0x0A \<in> set t then trim_space (takeWhile (\<lambda>c. c \<noteq> CHR 0x0A) t)
         else if t = [] then ''(no output)'' else t)"

text \<open>\<open>strings.Fields\<close>.\<close>

function fields_loop :: "string \<Rightarrow> string \<Rightarrow> string list" where
  "fields_loop cur s =
     (if s = [] then (if cur = [] then [] else [cur])
      else if space_len s = 0 then fields_loop (cur @ [hd s]) (tl s)
      else (if cur = [] then [] else [cur]) @ fields_loop [] (drop (space_len s) s))"
  by pat_completeness auto
termination by (relation "measure (\<lambda>(c, s). length s)") auto

declare fields_loop.simps [simp del]

definition go_fields :: "string \<Rightarrow> string list" where
  "go_fields s = fields_loop [] s"

text \<open>\<open>strconv.Atoi\<close> and \<open>ParseInt\<close>: an optional sign, digits, within 64 bits.\<close>

definition atoi :: "string \<Rightarrow> int option" where
  "atoi s =
     (let (neg, body) = (case s of [] \<Rightarrow> (False, [])
                         | c # r \<Rightarrow> if c = CHR ''-'' then (True, r) else if c = CHR ''+'' then (False, r) else (False, s));
          v = (if neg then - int (dec_value 0 body) else int (dec_value 0 body))
      in if body = [] \<or> \<not> list_all is_digit body \<or> v < - (2 ^ 63) \<or> v \<ge> 2 ^ 63 then None else Some v)"

definition nul :: char where "nul = CHR 0x00"
definition tab :: char where "tab = CHR 0x09"
definition nl :: char where "nl = CHR 0x0A"

section \<open>Commands that must succeed\<close>

definition git_must :: "env \<Rightarrow> string \<Rightarrow> string list \<Rightarrow> string list \<Rightarrow> gitres act" where
  "git_must E dir extra args =
     ebind (git E dir extra args) (\<lambda>r. if g_ok r then ok r else err (WGit (GitFailed (firstLine (g_err r)))))"

definition identity_args :: "string list" where
  "identity_args = [''-c'', ''user.name=aidev'', ''-c'', ''user.email=aidev@localhost'']"

section \<open>Repositories\<close>

definition filepath_abs :: "env \<Rightarrow> string \<Rightarrow> string" where
  "filepath_abs E path = (if is_abs path then path_clean path else path_clean (e_cwd E @ ''/'' @ path))"

definition OpenRepository :: "env \<Rightarrow> string \<Rightarrow> string act" where
  "OpenRepository E path =
     (if trim_space path = [] then err WNotARepository
      else ebind (ask (\<lambda>n. e_is_dir E n (filepath_abs E path))) (\<lambda>isdir.
        if \<not> isdir then err WNotARepository
        else ebind (git E (filepath_abs E path) [] [''rev-parse'', ''--show-toplevel'']) (\<lambda>res.
          if \<not> g_ok res then err WNotARepository
          else (let top = trim_space (g_out res)
                in if top = [] then err WNotARepository
                   else catch (git E (path_clean top) [] [''rev-list'', ''--max-parents=0'', ''HEAD''])
                          (\<lambda>_. ok (path_clean top))))))"

definition HasCommits :: "env \<Rightarrow> string \<Rightarrow> bool act" where
  "HasCommits E repo =
     ebind (git_must E repo [] [''rev-list'', ''--all'', ''--max-parents=0'', ''--count''])
       (\<lambda>res. ok (trim_space (g_out res) \<noteq> ''0''))"

definition ResolveCommit :: "env \<Rightarrow> string \<Rightarrow> string \<Rightarrow> string act" where
  "ResolveCommit E repo ref =
     ebind (git E repo [] [''rev-parse'', ''--verify'', ''--end-of-options'',
              (if trim_space ref = [] then ''HEAD'' else ref) @ ''^{commit}''])
       (\<lambda>res. if \<not> g_ok res then err WUnknownRevision else ok (trim_space (g_out res)))"

definition CurrentBranch :: "env \<Rightarrow> string \<Rightarrow> string act" where
  "CurrentBranch E repo =
     catch (git E repo [] [''rev-parse'', ''--abbrev-ref'', ''HEAD''])
       (\<lambda>r. case r of Inl _ \<Rightarrow> ok ''main''
          | Inr res \<Rightarrow>
              (let branch = trim_space (g_out res)
               in if \<not> g_ok res \<or> branch = [] \<or> branch = ''HEAD'' then ok ''main'' else ok branch))"

definition HeadCommit_at :: "env \<Rightarrow> string \<Rightarrow> string act" where
  "HeadCommit_at E dir =
     ebind (git_must E dir [] [''rev-parse'', ''HEAD'']) (\<lambda>res. ok (trim_space (g_out res)))"

definition HeadCommit :: "env \<Rightarrow> Checkout \<Rightarrow> string act" where
  "HeadCommit E w = HeadCommit_at E (co_Path w)"

text \<open>The first submodule entry of a recursive tree listing.\<close>

definition first_gitlink :: "string \<Rightarrow> string option" where
  "first_gitlink out = find (\<lambda>line. has_prefix line ''160000 '') (split_on nl out)"

definition HasGitlinks :: "env \<Rightarrow> string \<Rightarrow> string \<Rightarrow> (bool \<times> string) act" where
  "HasGitlinks E repo commit =
     ebind (git_must E repo [] [''ls-tree'', ''-r'', commit])
       (\<lambda>res. case first_gitlink (g_out res) of
          None \<Rightarrow> ok (False, [])
        | Some line \<Rightarrow> (let (_, path, found) = cut_at tab line in ok (True, if found then path else [])))"

definition HasPathAtCommit :: "env \<Rightarrow> string \<Rightarrow> string \<Rightarrow> string \<Rightarrow> bool act" where
  "HasPathAtCommit E repo commit path =
     (if trim_space commit = [] \<or> trim_space path = [] then err (WMessage ''cat-file: commit and path are required'')
      else ebind (git E repo [] [''cat-file'', ''-e'', commit @ '':'' @ path]) (\<lambda>res. ok (g_ok res)))"

definition Ignored_path :: "env \<Rightarrow> string \<Rightarrow> string \<Rightarrow> bool act" where
  "Ignored_path E repo path =
     ebind (git E repo [] [''check-ignore'', ''--quiet'', ''--'', path])
       (\<lambda>res. if g_ok res then ok True
              else if g_exit res = Some 1 then ok False
              else err (WGit (GitFailed (firstLine (g_err res)))))"

section \<open>Submodules\<close>

definition submodulePath :: "string \<Rightarrow> string \<Rightarrow> werr + string" where
  "submodulePath root sub =
     (let clean = path_clean sub
      in if sub = [] \<or> is_abs clean \<or> clean = ''.'' \<or> clean = ''..'' \<or> has_prefix clean ''../''
         then Inl (WMessage ''submodule path'')
         else (let joined = path_clean (root @ ''/'' @ clean)
               in if \<not> isInside root joined then Inl (WMessage ''submodule path escapes'') else Inr joined))"

text \<open>The paths of the entries with mode 160000 of a NUL-separated listing, with their metadata.\<close>

definition gitlink_entries :: "string \<Rightarrow> (string \<times> string) list" where
  "gitlink_entries out =
     concat (map (\<lambda>entry. let (meta, path, found) = cut_at tab entry
                          in if found \<and> has_prefix meta ''160000 '' then [(meta, path)] else [])
       (splitNul out))"

definition repositoryAt :: "env \<Rightarrow> string \<Rightarrow> string act" where
  "repositoryAt E dir =
     ebind (ask (\<lambda>n. e_is_dir E n dir)) (\<lambda>isdir.
       if \<not> isdir then err WNotARepository
       else ebind (git E dir [] [''rev-parse'', ''--path-format=absolute'', ''--show-toplevel'', ''--git-common-dir''])
         (\<lambda>res. if \<not> g_ok res then err WNotARepository
                else (case split_on nl (trim_space (g_out res)) of
                        [a, b] \<Rightarrow>
                          ebind (ask (\<lambda>n. resolveExisting (e_links E n) (trim_space a))) (\<lambda>top.
                            ebind (ask (\<lambda>n. resolveExisting (e_links E n) dir)) (\<lambda>here.
                              if top \<noteq> here then err WNotARepository else ok (trim_space b)))
                      | _ \<Rightarrow> err WNotARepository)))"

definition gitCommonDir :: "env \<Rightarrow> string \<Rightarrow> string act" where
  "gitCommonDir E dir =
     ebind (git E dir [] [''rev-parse'', ''--path-format=absolute'', ''--git-common-dir''])
       (\<lambda>res. if \<not> g_ok res then err WNotARepository else ok (trim_space (g_out res)))"

definition submodule_name :: "string \<Rightarrow> (string \<times> string) list" where
  "submodule_name line =
     (let (key, path, found) = cut_at CHR '' '' (trim_space line);
          name = trim_suffix (trim_prefix key ''submodule.'') ''.path''
      in if found \<and> name \<noteq> [] \<and> path \<noteq> [] then [(path, name)] else [])"

definition submoduleNames :: "env \<Rightarrow> string \<Rightarrow> string \<Rightarrow> (string \<times> string) list act" where
  "submoduleNames E repo commit =
     ebind (git E repo [] [''config'', ''--blob'', commit @ '':.gitmodules'', ''--get-regexp'',
              [CHR ''^''] @ ''submodule'' @ [CHR 0x5C] @ ''..*'' @ [CHR 0x5C] @ ''.path$''])
       (\<lambda>res. if \<not> g_ok res then ok []
              else ok (rev (concat (map submodule_name (split_on nl (g_out res))))))"

record Submodule =
  sm_Path :: string
  sm_Name :: string
  sm_Commit :: string
  sm_gitDir :: string

definition submoduleGitDir :: "env \<Rightarrow> string \<Rightarrow> Submodule \<Rightarrow> string act" where
  "submoduleGitDir E repo sub =
     ebind (from_result (submodulePath repo (sm_Path sub))) (\<lambda>inMainTree.
       catch (repositoryAt E inMainTree)
         (\<lambda>r. case r of Inr dir \<Rightarrow> ok dir
            | Inl _ \<Rightarrow>
                if sm_Name sub = [] then err WSubmoduleUnavailable
                else catch (gitCommonDir E repo)
                  (\<lambda>c. case c of Inl _ \<Rightarrow> err WSubmoduleUnavailable
                     | Inr common \<Rightarrow>
                         catch (repositoryAt E (path_clean (common @ ''/modules/'' @ sm_Name sub)))
                           (\<lambda>q. case q of Inr dir \<Rightarrow> ok dir | Inl _ \<Rightarrow> err WSubmoduleUnavailable))))"

fun locate_each :: "env \<Rightarrow> string \<Rightarrow> (string \<times> string) list \<Rightarrow> Submodule list \<Rightarrow> Submodule list act" where
  "locate_each E repo names [] = ok []"
| "locate_each E repo names (sub # subs) =
     (let named = sub\<lparr>sm_Name := (case map_of names (sm_Path sub) of None \<Rightarrow> [] | Some n \<Rightarrow> n)\<rparr>
      in ebind (submoduleGitDir E repo named) (\<lambda>dir.
           ebind (locate_each E repo names subs) (\<lambda>rest. ok (named\<lparr>sm_gitDir := dir\<rparr> # rest))))"

definition pinnedSubmodules :: "env \<Rightarrow> string \<Rightarrow> string \<Rightarrow> Submodule list act" where
  "pinnedSubmodules E repo commit =
     (if trim_space commit = [] then ok []
      else ebind (git_must E repo [] [''ls-tree'', ''-r'', ''-z'', ''--full-tree'', ''--end-of-options'', commit])
        (\<lambda>res. let subs = concat (map (\<lambda>(meta, path).
                     case go_fields meta of
                       [_, _, object] \<Rightarrow> [\<lparr>sm_Path = path, sm_Name = [], sm_Commit = object, sm_gitDir = []\<rparr>]
                     | _ \<Rightarrow> []) (gitlink_entries (g_out res)))
               in if subs = [] then ok []
                  else ebind (submoduleNames E repo commit) (\<lambda>names. locate_each E repo names subs)))"

definition PinsSubmodules :: "env \<Rightarrow> string \<Rightarrow> bool act" where
  "PinsSubmodules E repo =
     ebind (ask (\<lambda>n. e_exists E n (path_clean (repo @ ''/.gitmodules'')))) (\<lambda>has.
       if has then ok True
       else ebind (git_must E repo [] [''ls-files'', ''-z'', ''--stage''])
         (\<lambda>res. ok (gitlink_entries (g_out res) \<noteq> [])))"

definition gitlinkPaths :: "env \<Rightarrow> Checkout \<Rightarrow> string list act" where
  "gitlinkPaths E w =
     ebind (git_must E (co_Path w) [] [''ls-files'', ''-z'', ''--stage''])
       (\<lambda>res. ok (map snd (gitlink_entries (g_out res))))"

definition addSubmoduleWorktree :: "env \<Rightarrow> Checkout \<Rightarrow> Submodule \<Rightarrow> unit act" where
  "addSubmoduleWorktree E w sub =
     ebind (from_result (submodulePath (co_Path w) (sm_Path sub))) (\<lambda>target.
       ebind (git E (sm_gitDir sub) [] [''cat-file'', ''-e'', sm_Commit sub @ ''^{commit}'']) (\<lambda>res.
         if \<not> g_ok res then err WSubmoduleUnavailable
         else ebind (git E (sm_gitDir sub) [] [''worktree'', ''add'', ''--detach'', ''--'', target, sm_Commit sub])
           (\<lambda>added. if \<not> g_ok added then err WSubmoduleUnavailable else ok ())))"

definition contains_modified :: "gitres \<Rightarrow> bool" where
  "contains_modified res = contains_str (g_err res) ''contains modified or untracked files''"

definition removal_args :: "bool \<Rightarrow> string \<Rightarrow> string list" where
  "removal_args force path =
     [''worktree'', ''remove''] @ (if force then [''--force''] else []) @ [''--'', path]"

definition removeSubmoduleWorktree :: "env \<Rightarrow> Checkout \<Rightarrow> string \<Rightarrow> bool \<Rightarrow> unit act" where
  "removeSubmoduleWorktree E w path force =
     ebind (from_result (submodulePath (co_Path w) path)) (\<lambda>target.
       ebind (ask (\<lambda>n. e_exists E n (path_clean (target @ ''/.git'')))) (\<lambda>there.
         if \<not> there then ok ()
         else ebind (repositoryAt E target) (\<lambda>gitDir.
           ebind (git E gitDir [] (removal_args force target)) (\<lambda>res.
             if \<not> g_ok res
             then (if contains_modified res then err WWorktreeDirty
                   else err (WGit (GitFailed (firstLine (g_err res)))))
             else ask_git (\<lambda>n. e_mkdir E n target)))))"

fun remove_each :: "env \<Rightarrow> Checkout \<Rightarrow> bool \<Rightarrow> string list \<Rightarrow> unit act" where
  "remove_each E w force [] = ok ()"
| "remove_each E w force (p # ps) = eseq (removeSubmoduleWorktree E w p force) (remove_each E w force ps)"

definition removeSubmoduleWorktrees :: "env \<Rightarrow> Checkout \<Rightarrow> bool \<Rightarrow> unit act" where
  "removeSubmoduleWorktrees E w force =
     ebind (ask (\<lambda>n. e_exists E n (path_clean (co_Path w @ ''/.gitmodules'')))) (\<lambda>has.
       if \<not> has then ok ()
       else ebind (gitlinkPaths E w) (remove_each E w force))"

fun undo_each :: "env \<Rightarrow> Checkout \<Rightarrow> string list \<Rightarrow> unit act" where
  "undo_each E w [] = ok ()"
| "undo_each E w (p # ps) = catch (removeSubmoduleWorktree E w p True) (\<lambda>_. undo_each E w ps)"

fun load_each :: "env \<Rightarrow> Checkout \<Rightarrow> Submodule list \<Rightarrow> Checkout act" where
  "load_each E w [] = ok w"
| "load_each E w (sub # subs) =
     catch (addSubmoduleWorktree E w sub)
       (\<lambda>r. case r of
          Inl e \<Rightarrow> eseq (undo_each E w (co_Submodules w)) (err e)
        | Inr _ \<Rightarrow> load_each E (w\<lparr>co_Submodules := co_Submodules w @ [sm_Path sub]\<rparr>) subs)"

definition loadSubmodules :: "env \<Rightarrow> Checkout \<Rightarrow> Checkout act" where
  "loadSubmodules E w = ebind (pinnedSubmodules E (co_Repo w) (co_BaseCommit w)) (load_each E w)"

section \<open>Creating and removing worktrees\<close>

record CreateRequest =
  cr_Repository :: string
  cr_Name :: string
  cr_Branch :: string
  cr_BaseRef :: string
  cr_LoadSubmodules :: bool

definition classifyWorktreeAdd :: "string \<Rightarrow> werr" where
  "classifyWorktreeAdd stderr =
     (if contains_str stderr ''already exists'' \<and> contains_str stderr ''branch named'' then WBranchExists
      else if contains_str stderr ''is already used by worktree'' then WBranchInUse
      else if contains_str stderr ''already exists'' then WWorktreeExists
      else WGit (GitFailed (firstLine stderr)))"

definition Remove :: "env \<Rightarrow> Checkout \<Rightarrow> bool \<Rightarrow> unit act" where
  "Remove E w force =
     eseq (removeSubmoduleWorktrees E w force)
       (ebind (git E (co_Repo w) [] (removal_args force (co_Path w))) (\<lambda>res.
          if \<not> g_ok res
          then (if contains_modified res then err WWorktreeDirty
                else err (WGit (GitFailed (firstLine (g_err res)))))
          else ok ()))"

text \<open>The checks that make isolation a property of the code: inside the workspace, outside the repository.\<close>

definition checked_path :: "env \<Rightarrow> string \<Rightarrow> string \<Rightarrow> string act" where
  "checked_path E repo name =
     ebind (ask (\<lambda>n. resolveWorktreePath (e_links E n) (c_WorkspaceRoot E) name)) (\<lambda>r. case r of
         Inl e \<Rightarrow> err (WPath e)
       | Inr path \<Rightarrow>
           ebind (ask (\<lambda>n. validateIsolation (e_links E n) repo path)) (\<lambda>v. case v of
               Some e \<Rightarrow> err (WPath e) | None \<Rightarrow> ok path))"

definition Create :: "env \<Rightarrow> CreateRequest \<Rightarrow> Checkout act" where
  "Create E req =
     (if cr_Repository req = [] then err (WMessage ''repository is required'')
      else if trim_space (cr_Branch req) = [] then err (WMessage ''branch is required'')
      else if validateBranchName (cr_Branch req) \<noteq> None then err (WMessage ''branch name'')
      else ebind (checked_path E (cr_Repository req) (cr_Name req)) (\<lambda>path.
        ebind (ResolveCommit E (cr_Repository req) (cr_BaseRef req)) (\<lambda>base.
          ebind (ask (\<lambda>n. e_exists E n path)) (\<lambda>there.
            if there then err WWorktreeExists
            else eseq (ask_git (\<lambda>n. e_mkdir E n (c_WorkspaceRoot E)))
              (ebind (git E (cr_Repository req) []
                        [''worktree'', ''add'', ''-b'', cr_Branch req, ''--'', path, base]) (\<lambda>res.
                 if \<not> g_ok res then err (classifyWorktreeAdd (g_err res))
                 else (let w = \<lparr>co_Path = path, co_Branch = cr_Branch req, co_BaseCommit = base,
                                co_Submodules = [], co_Repo = cr_Repository req\<rparr>
                       in if \<not> cr_LoadSubmodules req then ok w
                          else catch (loadSubmodules E w) (\<lambda>r. case r of
                              Inr w' \<Rightarrow> ok w'
                            | Inl e \<Rightarrow> catch (Remove E w True) (\<lambda>_. err e)))))))))"

definition CreateDetached :: "env \<Rightarrow> string \<Rightarrow> string \<Rightarrow> string \<Rightarrow> Checkout act" where
  "CreateDetached E repo name commit =
     (if repo = [] then err (WMessage ''repository is required'')
      else if trim_space commit = [] then err (WMessage ''commit is required'')
      else ebind (checked_path E repo name) (\<lambda>path.
        ebind (ask (\<lambda>n. e_exists E n path)) (\<lambda>there.
          if there then err WWorktreeExists
          else eseq (ask_git (\<lambda>n. e_mkdir E n (c_WorkspaceRoot E)))
            (ebind (git E repo [] [''worktree'', ''add'', ''--detach'', ''--'', path, commit]) (\<lambda>res.
               if \<not> g_ok res then err (classifyWorktreeAdd (g_err res))
               else ok \<lparr>co_Path = path, co_Branch = [], co_BaseCommit = commit, co_Submodules = [], co_Repo = repo\<rparr>)))))"

definition Prune :: "env \<Rightarrow> string \<Rightarrow> unit act" where
  "Prune E repo = ebind (git_must E repo [] [''worktree'', ''prune'']) (\<lambda>_. ok ())"

definition Attach :: "env \<Rightarrow> string \<Rightarrow> string \<Rightarrow> string \<Rightarrow> Checkout act" where
  "Attach E repo path branch =
     ebind (ask (\<lambda>n. withinWorkspace (e_links E n) (c_WorkspaceRoot E) (path_clean path))) (\<lambda>v. case v of
         Some e \<Rightarrow> err (WPath e)
       | None \<Rightarrow> ebind (ask (\<lambda>n. validateIsolation (e_links E n) repo (path_clean path))) (\<lambda>u. case u of
           Some e \<Rightarrow> err (WPath e)
         | None \<Rightarrow> ebind (ask (\<lambda>n. e_is_dir E n (path_clean path))) (\<lambda>isdir.
             if \<not> isdir then err (WMessage ''worktree is no longer present'')
             else ok \<lparr>co_Path = path_clean path, co_Branch = branch, co_BaseCommit = [], co_Submodules = [],
                      co_Repo = repo\<rparr>)))"

section \<open>Inside a worktree\<close>

record StatusEntry =
  se_Code :: string
  se_Path :: string

text \<open>The expression \<open>^(..) (.*)$\<close> on one line.\<close>

definition status_line :: "string \<Rightarrow> StatusEntry list" where
  "status_line line =
     (case line of
        a # b # c # rest \<Rightarrow> if c = CHR '' '' then [\<lparr>se_Code = [a, b], se_Path = rest\<rparr>] else []
      | _ \<Rightarrow> [])"

definition Worktree_Status :: "env \<Rightarrow> Checkout \<Rightarrow> StatusEntry list act" where
  "Worktree_Status E w =
     ebind (git_must E (co_Path w) [] [''status'', ''--porcelain'', ''--untracked-files=all'', ''--ignore-submodules=dirty''])
       (\<lambda>res. ok (concat (map status_line (split_on nl (g_out res)))))"

record WorktreeDiff =
  wd_Patch :: string
  wd_Truncated :: bool
  wd_ChangedFiles :: nat
  wd_Insertions :: int
  wd_Deletions :: int

definition count_numstat :: "WorktreeDiff \<Rightarrow> string \<Rightarrow> WorktreeDiff" where
  "count_numstat df line =
     (case go_fields line of
        a # b # c # _ \<Rightarrow>
          df\<lparr>wd_ChangedFiles := wd_ChangedFiles df + 1,
             wd_Insertions := wd_Insertions df + (case atoi a of None \<Rightarrow> 0 | Some n \<Rightarrow> n),
             wd_Deletions := wd_Deletions df + (case atoi b of None \<Rightarrow> 0 | Some n \<Rightarrow> n)\<rparr>
      | _ \<Rightarrow> df)"

text \<open>The throwaway copy of the index; its removal is the file system's affair.\<close>

definition temporaryIndex :: "env \<Rightarrow> Checkout \<Rightarrow> string act" where
  "temporaryIndex E w = ask_git (\<lambda>n. e_index E n (co_Path w))"

definition base_args :: "Checkout \<Rightarrow> string list" where
  "base_args w = (if trim_space (co_BaseCommit w) \<noteq> [] then [co_BaseCommit w] else [])"

definition Worktree_Diff :: "env \<Rightarrow> Checkout \<Rightarrow> WorktreeDiff act" where
  "Worktree_Diff E w =
     ebind (temporaryIndex E w) (\<lambda>index.
       let extra = [''GIT_INDEX_FILE='' @ index]
       in ebind (git_must E (co_Path w) extra [''add'', ''-N'', ''--'', ''.'']) (\<lambda>_.
         ebind (git_must E (co_Path w) extra
             ([''diff'', ''--no-color'', ''--ignore-submodules=dirty'', ''--no-ext-diff'', ''--no-textconv''] @ base_args w)) (\<lambda>p.
           ebind (git_must E (co_Path w) extra
               ([''diff'', ''--numstat'', ''--ignore-submodules=dirty'', ''--no-ext-diff'', ''--no-textconv''] @ base_args w)) (\<lambda>st.
             ok (foldl count_numstat
                   \<lparr>wd_Patch = g_out p, wd_Truncated = g_cut p, wd_ChangedFiles = 0, wd_Insertions = 0, wd_Deletions = 0\<rparr>
                   (split_on nl (g_out st)))))))"

definition Commit :: "env \<Rightarrow> Checkout \<Rightarrow> string \<Rightarrow> string act" where
  "Commit E w message =
     (if trim_space message = [] then err (WMessage ''message is required'')
      else ebind (Worktree_Status E w) (\<lambda>entries.
        if length entries = 0 then ok []
        else ebind (git_must E (co_Path w) [] [''add'', ''--all'', ''--'', ''.'']) (\<lambda>_.
          ebind (git_must E (co_Path w) [] (identity_args @ [''commit'', ''--no-verify'', ''--message'', message])) (\<lambda>_.
            HeadCommit E w))))"

definition CurrentTree :: "env \<Rightarrow> Checkout \<Rightarrow> string act" where
  "CurrentTree E w =
     ebind (ask_git (e_temp E)) (\<lambda>index.
       let extra = [''GIT_INDEX_FILE='' @ index]
       in ebind (git_must E (co_Path w) extra [''read-tree'', ''HEAD'']) (\<lambda>_.
         ebind (git_must E (co_Path w) extra [''add'', ''--all'', ''--'', ''.'']) (\<lambda>_.
           ebind (git_must E (co_Path w) extra [''write-tree'']) (\<lambda>res.
             let tree = trim_space (g_out res)
             in if tree = [] then err (WMessage ''write-tree produced no tree id'') else ok tree))))"

definition CheckGitlinks :: "env \<Rightarrow> Checkout \<Rightarrow> string \<Rightarrow> unit act" where
  "CheckGitlinks E w tree =
     ebind (git_must E (co_Path w) [] [''ls-tree'', ''-r'', tree])
       (\<lambda>res. case first_gitlink (g_out res) of
          None \<Rightarrow> ok () | Some line \<Rightarrow> err (WMessage ''clean verification does not support submodules''))"

definition CommitTreeOnto :: "env \<Rightarrow> Checkout \<Rightarrow> string \<Rightarrow> string \<Rightarrow> string \<Rightarrow> string act" where
  "CommitTreeOnto E w tree parent message =
     (if trim_space tree = [] then err (WMessage ''tree id is required'')
      else if trim_space parent = [] then err (WMessage ''parent is required'')
      else if trim_space message = [] then err (WMessage ''message is required'')
      else ebind (git_must E (co_Path w) [] (identity_args @ [''commit-tree'', tree, ''-p'', parent, ''-m'', message]))
        (\<lambda>res. let commit = trim_space (g_out res)
               in if commit = [] then err (WMessage ''commit-tree produced no commit id'') else ok commit))"

definition CommitTree :: "env \<Rightarrow> Checkout \<Rightarrow> string \<Rightarrow> string \<Rightarrow> string act" where
  "CommitTree E w tree message = CommitTreeOnto E w tree ''HEAD'' message"

definition TreeOf :: "env \<Rightarrow> Checkout \<Rightarrow> string \<Rightarrow> string act" where
  "TreeOf E w commit =
     (if trim_space commit = [] then err (WMessage ''commit is required'')
      else ebind (git_must E (co_Path w) [] [''rev-parse'', ''--verify'', ''--end-of-options'', commit @ ''^{tree}''])
        (\<lambda>res. let tree = trim_space (g_out res)
               in if tree = [] then err (WMessage ''rev-parse produced no tree id'') else ok tree))"

definition update_ref_args :: "string \<Rightarrow> string \<Rightarrow> string \<Rightarrow> string list" where
  "update_ref_args branch commit expected = [''update-ref'', ''refs/heads/'' @ branch, commit, expected]"

definition UpdateBranch :: "env \<Rightarrow> Checkout \<Rightarrow> string \<Rightarrow> string \<Rightarrow> string \<Rightarrow> unit act" where
  "UpdateBranch E w branch commit expected =
     (if trim_space branch = [] then err (WMessage ''branch is required'')
      else if trim_space commit = [] \<or> trim_space expected = [] then err (WMessage ''commit and expected value are required'')
      else ebind (git_must E (co_Path w) [] (update_ref_args branch commit expected)) (\<lambda>_. ok ()))"

definition ContinueOnNewBranch :: "env \<Rightarrow> Checkout \<Rightarrow> string \<Rightarrow> Checkout act" where
  "ContinueOnNewBranch E w branch =
     (if trim_space branch = [] then err (WMessage ''branch is required'')
      else ebind (git_must E (co_Path w) [] [''branch'', ''--no-track'', ''--'', branch, ''HEAD'']) (\<lambda>_.
        ebind (git_must E (co_Path w) [] [''symbolic-ref'', ''HEAD'', ''refs/heads/'' @ branch]) (\<lambda>_.
          ok (w\<lparr>co_Branch := branch\<rparr>))))"

definition RestoreToHead :: "env \<Rightarrow> Checkout \<Rightarrow> unit act" where
  "RestoreToHead E w =
     ebind (git_must E (co_Path w) [] [''reset'', ''--hard'', ''--quiet'', ''HEAD'']) (\<lambda>_.
       ebind (git_must E (co_Path w) [] [''clean'', ''-f'', ''-d'', ''--quiet'']) (\<lambda>_. ok ()))"

definition SyncIndex :: "env \<Rightarrow> Checkout \<Rightarrow> unit act" where
  "SyncIndex E w = ebind (git_must E (co_Path w) [] [''reset'']) (\<lambda>_. ok ())"

definition AbandonBranch :: "env \<Rightarrow> Checkout \<Rightarrow> string \<Rightarrow> Checkout act" where
  "AbandonBranch E w branch =
     (if trim_space branch = [] then err (WMessage ''branch is required'')
      else (let want = ''refs/heads/'' @ branch;
                drop_it = ebind (git_must E (co_Path w) [] [''update-ref'', ''-d'', want]) (\<lambda>_. ok (w\<lparr>co_Branch := []\<rparr>))
            in ebind (git E (co_Path w) [] [''symbolic-ref'', ''--quiet'', ''HEAD'']) (\<lambda>res.
              if g_ok res \<and> trim_space (g_out res) = want
              then ebind (git_must E (co_Path w) [] [''rev-parse'', ''HEAD'']) (\<lambda>head.
                     ebind (git_must E (co_Path w) [] [''update-ref'', ''--no-deref'', ''HEAD'', trim_space (g_out head)])
                       (\<lambda>_. drop_it))
              else drop_it)))"

section \<open>What changed\<close>

text \<open>A listing that must be complete to be trusted.\<close>

definition git_whole :: "env \<Rightarrow> string \<Rightarrow> string list \<Rightarrow> string list \<Rightarrow> gitres act" where
  "git_whole E dir extra args =
     ebind (git_must E dir extra args) (\<lambda>r. if g_cut r then err (WGit GitTruncated) else ok r)"

definition ChangedPaths :: "env \<Rightarrow> Checkout \<Rightarrow> Changes act" where
  "ChangedPaths E w =
     (if trim_space (co_BaseCommit w) = [] then err (WMessage ''no base commit recorded'')
      else ebind (temporaryIndex E w) (\<lambda>index.
        let extra = [''GIT_INDEX_FILE='' @ index]
        in ebind (git_must E (co_Path w) extra [''add'', ''-N'', ''--'', ''.'']) (\<lambda>_.
          ebind (git_whole E (co_Path w) extra
              [''diff'', ''--name-only'', ''-z'', ''--no-ext-diff'', ''--no-textconv'', co_BaseCommit w]) (\<lambda>df.
            ebind (git_whole E (co_Path w) []
                [''ls-files'', ''-z'', ''--others'', ''--ignored'', ''--exclude-standard'', ''--directory'']) (\<lambda>ls.
              ok \<lparr>ch_Committable = mergeSorted [splitNul (g_out df)],
                  ch_Ignored = mergeSorted [splitNul (g_out ls)]\<rparr>)))))"

record TreeChange =
  tc_Status :: string
  tc_Path :: string

fun parse_tree_changes :: "string list \<Rightarrow> werr + TreeChange list" where
  "parse_tree_changes [] = Inr []"
| "parse_tree_changes (line # ls) =
     (if line = [] then parse_tree_changes ls
      else (let (status, path, found) = cut_at tab line
            in if \<not> found then Inl (WMessage ''unexpected git output'')
               else (case parse_tree_changes ls of Inl e \<Rightarrow> Inl e
                     | Inr rest \<Rightarrow> Inr (\<lparr>tc_Status = status, tc_Path = path\<rparr> # rest))))"

definition TreeChanges :: "env \<Rightarrow> Checkout \<Rightarrow> string \<Rightarrow> string \<Rightarrow> TreeChange list act" where
  "TreeChanges E w a b =
     (if trim_space a = [] \<or> trim_space b = [] then err (WMessage ''both tree ids are required'')
      else ebind (git_whole E (co_Path w) []
             [''diff'', ''--name-status'', ''--no-renames'', ''--no-ext-diff'', ''--no-textconv'', a, b])
        (\<lambda>res. from_result (parse_tree_changes (split_on nl (trim_space (g_out res))))))"

text \<open>\<open>strings.SplitN(record, tab, 3)\<close>.\<close>

definition split_three :: "string \<Rightarrow> (string \<times> string \<times> string) option" where
  "split_three s =
     (let (a, r, f) = cut_at tab s; (b, c, g) = cut_at tab r
      in if f \<and> g then Some (a, b, c) else None)"

fun parse_added :: "string list \<Rightarrow> werr + AddedFile list" where
  "parse_added [] = Inr []"
| "parse_added (r # rs) =
     (if r = [] then parse_added rs
      else (case split_three r of
              None \<Rightarrow> Inl (WMessage ''unexpected git output'')
            | Some (a, b, path) \<Rightarrow>
                (case parse_added rs of Inl e \<Rightarrow> Inl e
                 | Inr rest \<Rightarrow> Inr (\<lparr>af_Path = path, af_Bytes = 0, af_Binary = (a = ''-'' \<and> b = ''-'')\<rparr> # rest))))"

definition size_entry :: "string \<Rightarrow> (string \<times> int) list" where
  "size_entry r =
     (let (meta, path, found) = cut_at tab r
      in if \<not> found then []
         else (case go_fields meta of
                 [_, _, _, sz] \<Rightarrow> (case atoi sz of None \<Rightarrow> [] | Some n \<Rightarrow> [(path, n)])
               | _ \<Rightarrow> []))"

text \<open>The paths in batches of 200.\<close>

function (sequential) batches :: "string list \<Rightarrow> string list list" where
  "batches [] = []"
| "batches (p # ps) = take 200 (p # ps) # batches (drop 200 (p # ps))"
  by pat_completeness auto
termination by (relation "measure length") auto

fun size_batches :: "env \<Rightarrow> Checkout \<Rightarrow> string \<Rightarrow> (string \<times> int) list \<Rightarrow> string list list \<Rightarrow> (string \<times> int) list act" where
  "size_batches E w tree sizes [] = ok sizes"
| "size_batches E w tree sizes (b # bs) =
     ebind (git_whole E (co_Path w) [] ([''--literal-pathspecs'', ''ls-tree'', ''-l'', ''-z'', tree, ''--''] @ b))
       (\<lambda>res. size_batches E w tree (rev (concat (map size_entry (splitNul (g_out res)))) @ sizes) bs)"

definition treeSizes :: "env \<Rightarrow> Checkout \<Rightarrow> string \<Rightarrow> string list \<Rightarrow> (string \<times> int) list act" where
  "treeSizes E w tree paths = size_batches E w tree [] (batches paths)"

definition AddedFiles :: "env \<Rightarrow> Checkout \<Rightarrow> string \<Rightarrow> string \<Rightarrow> AddedFile list act" where
  "AddedFiles E w base tree =
     (if trim_space base = [] \<or> trim_space tree = [] then err (WMessage ''both revisions are required'')
      else ebind (git_whole E (co_Path w) []
             [''diff'', ''--numstat'', ''-z'', ''--diff-filter=A'', ''--no-renames'', ''--no-ext-diff'', ''--no-textconv'', base, tree])
        (\<lambda>res. ebind (from_result (parse_added (splitNul (g_out res)))) (\<lambda>added.
           if length added = 0 then ok []
           else ebind (treeSizes E w tree (map af_Path added)) (\<lambda>sizes.
             ok (map (\<lambda>f. f\<lparr>af_Bytes := (case map_of sizes (af_Path f) of None \<Rightarrow> 0 | Some n \<Rightarrow> n)\<rparr>) added)))))"

definition ZeroContextDiff :: "env \<Rightarrow> Checkout \<Rightarrow> string \<Rightarrow> string \<Rightarrow> string list \<Rightarrow> string act" where
  "ZeroContextDiff E w a b pathspecs =
     ebind (git_whole E (co_Path w) []
        ([''diff'', ''-U0'', ''--no-color'', ''--no-ext-diff'', ''--no-textconv'', ''--end-of-options'', a, b, ''--''] @ pathspecs))
       (\<lambda>res. ok (g_out res))"

definition DiffCommits :: "env \<Rightarrow> string \<Rightarrow> string \<Rightarrow> string \<Rightarrow> (string \<times> bool) act" where
  "DiffCommits E repo a b =
     (if trim_space a = [] \<or> trim_space b = [] then err (WMessage ''both commits are required'')
      else ebind (git_must E repo [] [''diff'', ''--no-ext-diff'', ''--no-textconv'', a, b, ''--''])
        (\<lambda>res. ok (g_out res, g_cut res)))"

section \<open>The state shared with the main repository\<close>

definition SnapshotSharedState :: "env \<Rightarrow> Checkout \<Rightarrow> SharedState act" where
  "SnapshotSharedState E w =
     ebind (git_whole E (co_Path w) [] [''rev-parse'', ''--git-common-dir'']) (\<lambda>common.
       case linesOf (g_out common) of
         [line] \<Rightarrow>
           (let dir = resolvePath (co_Path w) line
            in ebind (git_whole E (co_Path w) [] [''for-each-ref'', ''--format=%(refname) %(objectname)'']) (\<lambda>rf.
              case parse_refs [] (linesOf (g_out rf)) of
                Inl _ \<Rightarrow> err (WMessage ''list refs: unexpected line'')
              | Inr refs \<Rightarrow>
                  ebind (git E (co_Path w) [] [''symbolic-ref'', ''-q'', ''HEAD'']) (\<lambda>head.
                    if \<not> g_ok head \<and> g_exit head \<noteq> Some 1 then err (WGit (GitFailed (firstLine (g_err head))))
                    else ebind (ask_git (\<lambda>n. e_hash_file E n (path_clean (dir @ ''/config'')))) (\<lambda>config.
                      catch (git E (co_Path w) [] [''config'', ''--file'', path_clean (dir @ ''/config''), ''--list'', ''-z'']) (\<lambda>listed.
                        ebind (ask_git (\<lambda>n. e_hash_tree E n (path_clean (dir @ ''/info'')) False)) (\<lambda>info.
                          ebind (ask_git (\<lambda>n. e_hash_tree E n (path_clean (dir @ ''/hooks'')) True)) (\<lambda>hooks.
                            ok \<lparr>ss_CommonDir = dir, ss_Refs = refs,
                                ss_HeadRef = (if g_ok head then trim_space (g_out head) else []),
                                ss_Config = config,
                                ss_ConfigEntries =
                                  (case listed of Inl _ \<Rightarrow> None
                                   | Inr l \<Rightarrow> if g_ok l then Some (parseConfigList (g_out l)) else None),
                                ss_Info = info, ss_Hooks = hooks\<rparr>)))))))
       | _ \<Rightarrow> err (WMessage ''resolve shared git dir: expected 1 line''))"

definition BaseIsAncestor :: "env \<Rightarrow> Checkout \<Rightarrow> bool act" where
  "BaseIsAncestor E w =
     ebind (git E (co_Path w) [] [''merge-base'', ''--is-ancestor'', co_BaseCommit w, ''HEAD''])
       (\<lambda>res. case g_exit res of
          None \<Rightarrow> err (WGit (GitFailed (firstLine (g_err res))))
        | Some c \<Rightarrow> if c = 0 then ok True else if c = 1 then ok False
                    else err (WGit (GitFailed (firstLine (g_err res)))))"

section \<open>The checkout a person works in\<close>

definition CheckedOutBranch :: "env \<Rightarrow> string \<Rightarrow> string act" where
  "CheckedOutBranch E repo =
     ebind (git E repo [] [''symbolic-ref'', ''--quiet'', ''--short'', ''HEAD''])
       (\<lambda>res. if \<not> g_ok res then err (WMessage ''detached HEAD'') else ok (trim_space (g_out res)))"

definition TrackedChanges :: "env \<Rightarrow> string \<Rightarrow> string list act" where
  "TrackedChanges E repo =
     ebind (git_must E repo [] [''status'', ''--porcelain'', ''--untracked-files=no''])
       (\<lambda>res. ok (map (\<lambda>line. trim_space (drop 3 line))
          (filter (\<lambda>line. length line > 3) (split_on nl (rev (dropWhile (\<lambda>c. c = nl) (rev (g_out res))))))))"

definition abortWithConflicts :: "env \<Rightarrow> string \<Rightarrow> string \<Rightarrow> string list \<Rightarrow> string \<Rightarrow> 'a act" where
  "abortWithConflicts E repo op abort stderr =
     catch (git E repo [] [''diff'', ''--name-only'', ''--diff-filter=U'']) (\<lambda>listed.
       let conflicts = (case listed of Inl _ \<Rightarrow> []
             | Inr l \<Rightarrow> if g_ok l then filter (\<lambda>p. p \<noteq> []) (split_on nl (trim_space (g_out l))) else [])
       in catch (git E repo [] abort) (\<lambda>aborted.
            if (case aborted of Inl _ \<Rightarrow> True | Inr a \<Rightarrow> \<not> g_ok a)
            then err (WMessage (op @ '' failed and could not be aborted''))
            else if conflicts = [] then err (WGit (GitFailed (firstLine stderr)))
            else err (WConflict op conflicts)))"

definition MergeNoFF :: "env \<Rightarrow> string \<Rightarrow> string \<Rightarrow> string \<Rightarrow> string act" where
  "MergeNoFF E repo commit message =
     ebind (git E repo [] (identity_args @ [''merge'', ''--no-ff'', ''--no-edit'', ''-m'', message, commit]))
       (\<lambda>res. if \<not> g_ok res then abortWithConflicts E repo ''the merge'' [''merge'', ''--abort''] (g_err res)
              else HeadCommit_at E repo)"

definition Revert :: "env \<Rightarrow> string \<Rightarrow> string \<Rightarrow> nat \<Rightarrow> string act" where
  "Revert E repo commit mainline =
     ebind (git E repo [] (identity_args @ [''revert'', ''--no-edit'']
              @ (if mainline > 0 then [''-m'', nat_dec mainline] else []) @ [commit]))
       (\<lambda>res. if \<not> g_ok res then abortWithConflicts E repo ''the revert'' [''revert'', ''--abort''] (g_err res)
              else HeadCommit_at E repo)"

definition DeleteBranch :: "env \<Rightarrow> string \<Rightarrow> string \<Rightarrow> unit act" where
  "DeleteBranch E repo branch =
     (if trim_space branch = [] then err (WMessage ''branch is required'')
      else ebind (git E repo [] [''branch'', ''-D'', ''--'', branch])
        (\<lambda>res. if \<not> g_ok res \<and> \<not> contains_str (g_err res) ''not found''
               then err (WGit (GitFailed (firstLine (g_err res)))) else ok ()))"

text \<open>Every second word of the output of \<open>git cherry\<close> is a sign.\<close>

fun all_equivalent :: "string list \<Rightarrow> bool" where
  "all_equivalent [] = True"
| "all_equivalent [s] = (s = ''-'')"
| "all_equivalent (s # c # rest) = (s = ''-'' \<and> all_equivalent rest)"

definition Landed :: "env \<Rightarrow> string \<Rightarrow> string \<Rightarrow> string \<Rightarrow> string \<Rightarrow> bool act" where
  "Landed E repo into base head =
     (if trim_space into = [] \<or> trim_space base = [] \<or> trim_space head = []
      then err (WMessage ''branch, base and head are all required'')
      else if base = head then ok False
      else ebind (git E repo [] [''merge-base'', ''--is-ancestor'', head, into]) (\<lambda>anc.
        if g_ok anc then ok True
        else if g_exit anc \<noteq> Some 1 then err (WGit (GitFailed (firstLine (g_err anc))))
        else ebind (git_must E repo [] [''cherry'', into, head, base]) (\<lambda>ch.
          let ls = go_fields (replace_char nl '' '' (g_out ch))
          in ok (ls \<noteq> [] \<and> all_equivalent ls))))"

end
