(* ===== verification/GitEffects.thy ===== *)
theory GitEffects
  imports GitOps
begin

text \<open>
  What an action may do to the state of a run. The rules follow the combinators the actions are
  built from, once for every relation that is reflexive and transitive; the first instance
  is the one of \<open>internal/git\<close>: its operations issue guarded git commands and touch nothing else.
\<close>

section \<open>Actions\<close>

locale act_order = effect_order R for R :: "world \<Rightarrow> world \<Rightarrow> bool"
begin

lemma moves_ok: "state_io_rel R (ok x)"
  by (simp add: ok_def moves_return)

lemma moves_err: "state_io_rel R (err e)"
  by (simp add: err_def moves_return)

lemma moves_from_result: "state_io_rel R (from_result r)"
  by (simp add: from_result_def moves_return)

lemma moves_ebind:
  "state_io_rel R m \<Longrightarrow> (\<And>x. state_io_rel R (f x)) \<Longrightarrow> state_io_rel R (ebind m f)"
  unfolding ebind_def by (intro moves_bind moves_sum moves_err) auto

lemma moves_eseq: "state_io_rel R m \<Longrightarrow> state_io_rel R n \<Longrightarrow> state_io_rel R (eseq m n)"
  unfolding eseq_def by (intro moves_ebind)

lemma moves_catch:
  "state_io_rel R m \<Longrightarrow> (\<And>r. state_io_rel R (h r)) \<Longrightarrow> state_io_rel R (catch m h)"
  unfolding catch_def by (intro moves_bind)

lemma moves_reads: "state_io_rel R (reads f)"
  unfolding reads_def by (intro moves_bind moves_get moves_ok)

lemma moves_assign: "(\<And>w. R w (f w)) \<Longrightarrow> state_io_rel R (assign f)"
  by (rule state_io_relI)
    (auto simp: assign_def ok_def State_Monad.update_def State_Monad.get_def State_Monad.set_def)

lemma moves_list:
  "(x = [] \<Longrightarrow> state_io_rel R m) \<Longrightarrow> (\<And>y ys. x = y # ys \<Longrightarrow> state_io_rel R (g y ys)) \<Longrightarrow>
    state_io_rel R (case x of [] \<Rightarrow> m | y # ys \<Rightarrow> g y ys)"
  by (cases x) auto

lemmas moves_actions = moves_ok moves_err moves_from_result moves_ebind moves_eseq moves_catch
  moves_reads moves_if moves_sum moves_option moves_prod moves_let moves_list

end

section \<open>Git operations\<close>

text \<open>The command runs with the file-system monitor and the hooks off, and in a fixed environment.\<close>

definition guarded :: "git_call \<Rightarrow> bool" where
  "guarded g = (take 4 (gc_Args g) = git_guards \<and> take 4 (gc_Env g) = git_env)"

definition git_only :: "world \<Rightarrow> world \<Rightarrow> bool" where
  "git_only w w' =
     (\<exists>n calls. w' = w\<lparr>w_tick := n, w_git := w_git w @ calls\<rparr> \<and> w_tick w \<le> n \<and> list_all guarded calls)"

lemma git_only_refl: "git_only w w"
  unfolding git_only_def by (intro exI [of _ "w_tick w"] exI [of _ "[]"]) simp

lemma git_only_trans: "git_only u v \<Longrightarrow> git_only v w \<Longrightarrow> git_only u w"
  unfolding git_only_def by fastforce

interpretation git_only: act_order git_only
  by unfold_locales (auto intro: git_only_refl git_only_trans)

lemma git_only_keeps:
  assumes "git_only w w'"
  shows "w_db w' = w_db w" "x_task w' = x_task w" "x_attempt w' = x_attempt w" "x_worktree w' = x_worktree w"
    "x_record w' = x_record w" "x_agentTree w' = x_agentTree w" "x_agentHead w' = x_agentHead w"
    "x_sharedBefore w' = x_sharedBefore w" "x_report w' = x_report w" "x_retry w' = x_retry w"
    "x_retryable w' = x_retryable w" "x_retryPending w' = x_retryPending w" "x_attemptOpen w' = x_attemptOpen w"
  using assms by (auto simp: git_only_def)

lemma git_only_tick: "state_io_rel git_only tick"
  unfolding tick_def
proof (rule state_io_relI)
  fix a and w w' :: world
  assume "run_state (ebind (reads w_tick) (\<lambda>n. eseq (assign (\<lambda>w. w\<lparr>w_tick := Suc n\<rparr>)) (ok n))) w = (a, w')"
  then have "w' = w\<lparr>w_tick := Suc (w_tick w)\<rparr>"
    by (simp add: ebind_def eseq_def reads_def assign_def ok_def State_Monad.update_def State_Monad.get_def State_Monad.set_def)
  then show "git_only w w'" unfolding git_only_def by (intro exI [of _ "Suc (w_tick w)"] exI [of _ "[]"]) simp
qed

lemma git_only_ask: "state_io_rel git_only (ask f)"
  unfolding ask_def by (intro git_only.moves_actions git_only_tick)

lemma git_only_ask_git: "state_io_rel git_only (ask_git f)"
  unfolding ask_git_def by (intro git_only.moves_actions git_only_ask)

lemma git_only_call: "guarded call \<Longrightarrow> git_only w (w\<lparr>w_git := w_git w @ [call]\<rparr>)"
  unfolding git_only_def by (intro exI [of _ "w_tick w"] exI [of _ "[call]"]) simp

lemma git_only_git: "state_io_rel git_only (git E dir extra args)"
  unfolding git_def Let_def
  by (intro git_only.moves_actions git_only.moves_assign git_only_tick git_only_call)
    (simp add: guarded_def git_guards_def git_env_def)

lemma git_only_must: "state_io_rel git_only (git_must E dir extra args)"
  unfolding git_must_def by (intro git_only.moves_actions git_only_git)

lemma git_only_whole: "state_io_rel git_only (git_whole E dir extra args)"
  unfolding git_whole_def by (intro git_only.moves_actions git_only_must)

lemmas git_rules = git_only.moves_actions git_only_ask git_only_ask_git git_only_git git_only_must git_only_whole

lemma git_only_repository:
  "state_io_rel git_only (OpenRepository E path)" "state_io_rel git_only (HasCommits E repo)"
  "state_io_rel git_only (ResolveCommit E repo ref)" "state_io_rel git_only (CurrentBranch E repo)"
  "state_io_rel git_only (HeadCommit_at E dir)" "state_io_rel git_only (HeadCommit E c)"
  "state_io_rel git_only (HasGitlinks E repo commit)" "state_io_rel git_only (HasPathAtCommit E repo commit path)"
  "state_io_rel git_only (Ignored_path E repo path)" "state_io_rel git_only (repositoryAt E dir)"
  "state_io_rel git_only (gitCommonDir E dir)" "state_io_rel git_only (submoduleNames E repo commit)"
  unfolding OpenRepository_def HasCommits_def ResolveCommit_def CurrentBranch_def HeadCommit_at_def HeadCommit_def
    HasGitlinks_def HasPathAtCommit_def Ignored_path_def repositoryAt_def gitCommonDir_def submoduleNames_def
  by (intro git_rules)+

lemma git_only_locate: "state_io_rel git_only (locate_each E repo names subs)"
  by (induction subs)
    (auto simp only: locate_each.simps submoduleGitDir_def intro!: git_rules git_only_repository)

lemma git_only_submodules:
  "state_io_rel git_only (pinnedSubmodules E repo commit)" "state_io_rel git_only (PinsSubmodules E repo)"
  "state_io_rel git_only (gitlinkPaths E c)" "state_io_rel git_only (addSubmoduleWorktree E c sub)"
  "state_io_rel git_only (removeSubmoduleWorktree E c path force)"
  unfolding pinnedSubmodules_def PinsSubmodules_def gitlinkPaths_def addSubmoduleWorktree_def removeSubmoduleWorktree_def
  by (intro git_rules git_only_repository git_only_locate)+

lemma git_only_each:
  "state_io_rel git_only (remove_each E c force ps)" "state_io_rel git_only (undo_each E c ps)"
  by (induction ps) (auto simp only: remove_each.simps undo_each.simps intro!: git_rules git_only_submodules)

lemma git_only_load: "state_io_rel git_only (load_each E c subs)"
  by (induction subs arbitrary: c) (auto simp only: load_each.simps intro!: git_rules git_only_submodules git_only_each)

lemma git_only_remove: "state_io_rel git_only (Remove E c force)"
  unfolding Remove_def removeSubmoduleWorktrees_def by (intro git_rules git_only_submodules git_only_each)

lemma git_only_create:
  "state_io_rel git_only (checked_path E repo name)" "state_io_rel git_only (Create E req)"
  "state_io_rel git_only (CreateDetached E repo name commit)" "state_io_rel git_only (Prune E repo)"
  "state_io_rel git_only (Attach E repo path branch)"
  unfolding checked_path_def Create_def CreateDetached_def Prune_def Attach_def loadSubmodules_def
  by (intro git_rules git_only_repository git_only_submodules git_only_load git_only_remove)+

lemma git_only_inspect:
  "state_io_rel git_only (Worktree_Status E c)" "state_io_rel git_only (Worktree_Diff E c)"
  "state_io_rel git_only (Commit E c message)" "state_io_rel git_only (CurrentTree E c)"
  "state_io_rel git_only (CheckGitlinks E c tree)" "state_io_rel git_only (CommitTreeOnto E c tree parent message)"
  "state_io_rel git_only (CommitTree E c tree message)" "state_io_rel git_only (TreeOf E c commit)"
  unfolding Worktree_Status_def Worktree_Diff_def Commit_def CurrentTree_def CheckGitlinks_def CommitTree_def
    CommitTreeOnto_def TreeOf_def temporaryIndex_def
  by (intro git_rules git_only_repository)+

lemma git_only_branches:
  "state_io_rel git_only (UpdateBranch E c branch commit expected)" "state_io_rel git_only (ContinueOnNewBranch E c branch)"
  "state_io_rel git_only (RestoreToHead E c)" "state_io_rel git_only (SyncIndex E c)"
  "state_io_rel git_only (AbandonBranch E c branch)" "state_io_rel git_only (DeleteBranch E repo branch)"
  unfolding UpdateBranch_def ContinueOnNewBranch_def RestoreToHead_def SyncIndex_def AbandonBranch_def DeleteBranch_def
    Let_def
  by (intro git_rules)+

lemma git_only_sizes: "state_io_rel git_only (size_batches E c tree sizes bs)"
  by (induction bs arbitrary: sizes) (auto simp only: size_batches.simps intro!: git_rules)

lemma git_only_changes:
  "state_io_rel git_only (ChangedPaths E c)" "state_io_rel git_only (TreeChanges E c a b)"
  "state_io_rel git_only (AddedFiles E c base tree)" "state_io_rel git_only (ZeroContextDiff E c a b pathspecs)"
  "state_io_rel git_only (DiffCommits E repo a b)" "state_io_rel git_only (SnapshotSharedState E c)"
  "state_io_rel git_only (BaseIsAncestor E c)"
  unfolding ChangedPaths_def TreeChanges_def AddedFiles_def ZeroContextDiff_def DiffCommits_def SnapshotSharedState_def
    BaseIsAncestor_def temporaryIndex_def treeSizes_def
  by (intro git_rules git_only_sizes)+

lemma git_only_checkout:
  "state_io_rel git_only (CheckedOutBranch E repo)" "state_io_rel git_only (TrackedChanges E repo)"
  "state_io_rel git_only (abortWithConflicts E repo op' abort stderr)" "state_io_rel git_only (MergeNoFF E repo commit message)"
  "state_io_rel git_only (Revert E repo commit mainline)" "state_io_rel git_only (Landed E repo into base head)"
  unfolding CheckedOutBranch_def TrackedChanges_def abortWithConflicts_def MergeNoFF_def Revert_def Landed_def
  by (intro git_rules git_only_repository)+

lemmas git_only_operations = git_only_repository git_only_submodules git_only_remove git_only_create
  git_only_inspect git_only_branches git_only_changes git_only_checkout

text \<open>The rules for programs that also ask and call git themselves.\<close>

lemmas git_only_basics = git_only_tick git_only_ask git_only_ask_git git_only_git git_only_must git_only_whole

end
