(* ===== verification/Worker.thy ===== *)
theory Worker
  imports GitOps
begin

text \<open>
  \<open>internal/worker\<close>: one run of a task, from the approval gate to its recorded ending, retries included.
  The run's fields are those of \<open>world\<close>; each Go method is an action of the same name. A deferred
  clean-up is an action run after the rest, whatever the rest returned. The spans of the trace
  and the log lines are left out. The process's own cancel watch only renews the lease, which is
  a step of the environment like those of other processes; what it stops shows in the context.
\<close>

record Outcome =
  o_Task :: Task
  o_Attempt :: "TaskAttempt option"
  o_WorkerRun :: "WorkerRun option"
  o_Verification :: "Report option"
  o_Worktree :: "Worktree option"
  o_Approval :: "Approval option"
  o_TestsModified :: "string list"

definition outcome_of :: "world \<Rightarrow> Outcome" where
  "outcome_of w =
     \<lparr>o_Task = x_task w, o_Attempt = Some (x_attempt w), o_WorkerRun = x_workerRun w,
      o_Verification = x_report w, o_Worktree = x_record w, o_Approval = None,
      o_TestsModified = x_testsModified w\<rparr>"

definition outcome :: "Outcome act" where
  "outcome = reads outcome_of"

text \<open>The rest of a function, then what it deferred; the deferred action's own failure is only logged.\<close>

definition deferring :: "unit act \<Rightarrow> 'a act \<Rightarrow> 'a act" where
  "deferring cleanup m = catch m (\<lambda>r. catch cleanup (\<lambda>_. from_result r))"

definition best_effort :: "'a act \<Rightarrow> unit act" where
  "best_effort m = catch m (\<lambda>_. ok ())"

section \<open>Writes\<close>

definition append_event :: "env \<Rightarrow> uuid option \<Rightarrow> EventType \<Rightarrow> payload \<Rightarrow> unit act" where
  "append_event E attemptID ty pay =
     ebind tick (\<lambda>n. ebind (reads (\<lambda>w. t_ID (x_task w))) (\<lambda>i.
       in_db (appendEvent (e_uuid E n, e_now E n, pay) i attemptID ty)))"

definition fence :: "env \<Rightarrow> unit act" where
  "fence E = ebind (reads id)
     (\<lambda>w. in_db (fence_tx (x_attemptOpen w) (t_ID (x_task w)) (a_ID (x_attempt w)) (e_owner E)))"

definition run_write :: "env \<Rightarrow> 'a act \<Rightarrow> 'a act" where
  "run_write E body = inTx E (eseq (fence E) body)"

definition emit :: "env \<Rightarrow> EventType \<Rightarrow> payload \<Rightarrow> unit act" where
  "emit E ty pay =
     best_effort (run_write E (ebind (reads (\<lambda>w. attempt_ref (a_ID (x_attempt w)))) (\<lambda>a. append_event E a ty pay)))"

definition set_status :: "Status \<Rightarrow> unit act" where
  "set_status s = assign (\<lambda>w. w\<lparr>x_task := (x_task w)\<lparr>t_Status := s\<rparr>\<rparr>)"

definition transition :: "env \<Rightarrow> Status \<Rightarrow> EventType \<Rightarrow> payload \<Rightarrow> unit act" where
  "transition E nxt ty pay =
     ebind (reads id) (\<lambda>r. let a = attempt_ref (a_ID (x_attempt r)); current = t_Status (x_task r)
       in eseq (inTx E (eseq (fence E)
                 (eseq (in_db (TransitionTask (t_ID (x_task r)) current nxt)) (append_event E a ty pay))))
            (set_status nxt))"

definition own_event :: "env \<Rightarrow> EventType \<Rightarrow> payload \<Rightarrow> unit act" where
  "own_event E ty pay = ebind (reads (\<lambda>w. a_ID (x_attempt w))) (\<lambda>a. append_event E (Some a) ty pay)"

definition retainWorktreeTx :: "env \<Rightarrow> string \<Rightarrow> unit act" where
  "retainWorktreeTx E reason =
     ebind (reads x_record) (\<lambda>rec. case rec of None \<Rightarrow> ok ()
       | Some v \<Rightarrow>
           eseq (in_db (SetWorktreeStatus (w_ID v) WorktreeRetained))
             (eseq (assign (\<lambda>w. w\<lparr>x_record := Some (v\<lparr>w_Status := WorktreeRetained\<rparr>)\<rparr>))
               (own_event E TypeWorktreeRetained
                  [(''path'', JStr (w_Path v)), (''branch'', JStr (w_Branch v)), (''reason'', JStr reason)])))"

definition retainWorktree :: "env \<Rightarrow> string \<Rightarrow> unit act" where
  "retainWorktree E reason = run_write E (retainWorktreeTx E reason)"

text \<open>The ending Cancel recorded first is adopted, when that is what the lost write means.\<close>

definition adopt :: "env \<Rightarrow> Task \<Rightarrow> unit act" where
  "adopt E current =
     eseq (assign (\<lambda>w. w\<lparr>x_task := current, x_attemptOpen := False\<rparr>))
       (ebind (reads (\<lambda>w. a_ID (x_attempt w))) (\<lambda>a.
          catch (query E (GetWorktreeByAttempt a)) (\<lambda>r. case r of
              Inl _ \<Rightarrow> ok () | Inr v \<Rightarrow> assign (\<lambda>w. w\<lparr>x_record := Some v\<rparr>))))"

definition cancelledElsewhere :: "env \<Rightarrow> werr \<Rightarrow> Outcome option act" where
  "cancelledElsewhere E cause =
     (if cause \<noteq> WStore ErrConflict \<and> cause \<noteq> WStore ErrLeaseLost then ok None
      else ebind (reads (\<lambda>w. t_ID (x_task w))) (\<lambda>i.
        catch (query E (GetTask i)) (\<lambda>r. case r of
            Inl _ \<Rightarrow> ok None
          | Inr current \<Rightarrow>
              if t_Status current \<noteq> StatusCancelled then ok None
              else eseq (adopt E current) (ebind outcome (\<lambda>out. ok (Some out))))))"

section \<open>The approval gate and the start\<close>

definition requiredBy :: "env \<Rightarrow> string act" where
  "requiredBy E =
     ebind (reads x_task) (\<lambda>t. ebind (query E (GetProject (t_ProjectID t))) (\<lambda>p.
       ok (if t_RequiresApproval t \<and> p_RequiresApproval p then ''task+project''
           else if t_RequiresApproval t then ''task''
           else if p_RequiresApproval p then ''project'' else [])))"

definition approvalReason :: "string \<Rightarrow> string" where
  "approvalReason by =
     (if by = ''task'' then ''task is marked as requiring approval''
      else if by = ''project'' then ''project policy requires approval''
      else ''task and project policy require approval'')"

text \<open>
  The gate's transaction. A second request violates the partial unique index and aborts the
  transaction, so the read the code falls back to fails (\<open>request_or_existing\<close>).
\<close>

definition open_gate :: "env \<Rightarrow> Task \<Rightarrow> string \<Rightarrow> Approval act" where
  "open_gate E t by =
     inTx E (eseq (if t_Status t \<noteq> StatusWaitingApproval
                   then in_db (TransitionTask (t_ID t) (t_Status t) StatusWaitingApproval) else ok ())
       (ebind tick (\<lambda>n. ebind (in_db (request_or_existing (e_uuid E n) (t_ID t) (approvalReason by)))
          (\<lambda>a. eseq (append_event E None TypeApprovalRequired
                 [(''approval_id'', JStr (uuid_string (ap_ID a))), (''required_by'', JStr by)]) (ok a)))))"

definition gate_and_stop :: "env \<Rightarrow> Task \<Rightarrow> string \<Rightarrow> unit act" where
  "gate_and_stop E t by =
     ebind (open_gate E t by)
       (\<lambda>a. eseq (set_status StatusWaitingApproval) (err (WApprovalRequired (Some a))))"

text \<open>Nothing when the run may go on; otherwise it stops with the error.\<close>

definition enforceApproval :: "env \<Rightarrow> unit act" where
  "enforceApproval E =
     ebind (requiredBy E) (\<lambda>by.
       if by = [] then ok ()
       else ebind (reads x_task) (\<lambda>t.
         catch (query E (LatestApproval (t_ID t))) (\<lambda>latest.
           if (case latest of Inr a \<Rightarrow> ap_Status a = ApprovalGranted | Inl _ \<Rightarrow> False) then ok ()
           else if (case latest of Inr a \<Rightarrow> ap_Status a = ApprovalDenied | Inl _ \<Rightarrow> False)
           then err (WApprovalRequired None)
           else (case latest of
                   Inl e \<Rightarrow> if e \<noteq> WStore ErrNotFound then err e else gate_and_stop E t by
                 | Inr _ \<Rightarrow> gate_and_stop E t by))))"

definition becomeReady :: "env \<Rightarrow> unit act" where
  "becomeReady E =
     ebind (reads (\<lambda>w. t_Status (x_task w)))
       (\<lambda>s. if s = StatusReady then ok () else transition E StatusReady TypeTaskReady [])"

definition defaultLeaseTTL :: duration where
  "defaultLeaseTTL = 30 * second"

definition leaseTTL :: "duration \<Rightarrow> duration" where
  "leaseTTL poll = (if 3 * poll > defaultLeaseTTL then 3 * poll else defaultLeaseTTL)"

definition defaultCancelPoll :: duration where
  "defaultCancelPoll = 2 * second"

definition cancelPoll :: "env \<Rightarrow> duration" where
  "cancelPoll E = (if c_CancelPoll E > 0 then c_CancelPoll E else defaultCancelPoll)"

definition opened :: "TaskAttempt \<Rightarrow> world \<Rightarrow> world" where
  "opened a w =
     w\<lparr>x_attempt := a, x_attemptOpen := True, x_task := (x_task w)\<lparr>t_Status := StatusRunning\<rparr>\<rparr>"

text \<open>The fields are assigned inside the transaction, before it commits.\<close>

definition startAttempt :: "env \<Rightarrow> unit act" where
  "startAttempt E =
     inTx E (ebind (reads x_task) (\<lambda>t. ebind tick (\<lambda>n. ebind tick (\<lambda>k.
       ebind (in_db (claim_tx (t_ID t) (t_Status t) (e_uuid E n) (e_now E n) (e_owner E)
                       (e_now E k + leaseTTL (cancelPoll E)))) (\<lambda>a.
         eseq (assign (opened a))
           (append_event E (Some (a_ID a)) TypeTaskStarted
              [(''attempt'', JInt (int (a_AttemptNumber a))), (''backend'', JStr (c_Backend E)),
               (''agent'', JStr (t_Agent t))]))))))"

section \<open>The worktree\<close>

definition effectiveBaseRef :: "string \<Rightarrow> string \<Rightarrow> string" where
  "effectiveBaseRef taskRef defaultBranch = (if trim_space taskRef \<noteq> [] then taskRef else defaultBranch)"

definition worktreeName :: "Task \<Rightarrow> TaskAttempt \<Rightarrow> string" where
  "worktreeName t a = Identifier t @ ''-a'' @ nat_dec (a_AttemptNumber a)"

definition branchName :: "Task \<Rightarrow> TaskAttempt \<Rightarrow> string" where
  "branchName t a =
     (if a_AttemptNumber a \<le> 1 then ''aidev/'' @ Identifier t
      else ''aidev/'' @ Identifier t @ ''-a'' @ nat_dec (a_AttemptNumber a))"

definition new_worktree :: "uuid \<Rightarrow> uuid \<Rightarrow> Checkout \<Rightarrow> Worktree" where
  "new_worktree i attemptID c =
     \<lparr>w_ID = i, w_AttemptID = attemptID, w_Path = co_Path c, w_Branch = co_Branch c,
      w_BaseCommit = co_BaseCommit c, w_HeadCommit = [], w_AgentTree = [], w_Status = WorktreeActive,
      w_CreatedAt = 0, w_RemovedAt = None\<rparr>"

text \<open>The record of the worktree and its event, behind the fence; \<open>r.record\<close> is assigned inside.\<close>

definition record_worktree :: "env \<Rightarrow> Checkout \<Rightarrow> payload \<Rightarrow> unit act" where
  "record_worktree E c pay =
     inTx E (eseq (fence E) (ebind (reads (\<lambda>w. a_ID (x_attempt w))) (\<lambda>a. ebind tick (\<lambda>n.
       ebind (in_db (CreateWorktree (new_worktree (e_uuid E n) a c))) (\<lambda>recorded.
         eseq (assign (\<lambda>w. w\<lparr>x_record := Some recorded\<rparr>))
           (append_event E (Some a) TypeWorktreeCreated pay))))))"

definition worktree_payload :: "Checkout \<Rightarrow> payload" where
  "worktree_payload c =
     [(''path'', JStr (co_Path c)), (''branch'', JStr (co_Branch c)), (''base_commit'', JStr (co_BaseCommit c))]
     @ (if co_Submodules c \<noteq> [] then [(''submodules'', JList (map JStr (co_Submodules c)))] else [])"

definition snapshot_baseline :: "env \<Rightarrow> Checkout \<Rightarrow> unit act" where
  "snapshot_baseline E c =
     catch (SnapshotSharedState E c) (\<lambda>r. case r of
         Inl e \<Rightarrow> err (WWrapped ''snapshot shared repository state'' e)
       | Inr shared \<Rightarrow> assign (\<lambda>w. w\<lparr>x_sharedBefore := shared\<rparr>))"

definition prepareWorktree :: "env \<Rightarrow> unit act" where
  "prepareWorktree E =
     ebind (reads id) (\<lambda>r.
     ebind (query E (GetProject (t_ProjectID (x_task r)))) (\<lambda>p.
     ebind (OpenRepository E (p_RepoPath p)) (\<lambda>repo.
     let baseRef = effectiveBaseRef (t_BaseRef (x_task r)) (p_DefaultBranch p)
     in ebind (Create E \<lparr>cr_Repository = repo, cr_Name = worktreeName (x_task r) (x_attempt r),
                         cr_Branch = branchName (x_task r) (x_attempt r), cr_BaseRef = baseRef,
                         cr_LoadSubmodules = (p_Submodules p = SubmodulesReadOnly)\<rparr>) (\<lambda>c.
     eseq (assign (\<lambda>w. w\<lparr>x_worktree := Some c\<rparr>))
     (eseq (catch (record_worktree E c (worktree_payload c)) (\<lambda>res. case res of
              Inr _ \<Rightarrow> ok ()
            | Inl e \<Rightarrow> eseq (if e = WStore ErrLeaseLost then best_effort (Remove E c True) else ok ()) (err e)))
     (eseq (if t_BaseCommitAtCreate (x_task r) \<noteq> [] \<and> t_BaseCommitAtCreate (x_task r) \<noteq> co_BaseCommit c
            then emit E TypeBaseMoved
              [(''base_ref'', JStr baseRef), (''at_create'', JStr (t_BaseCommitAtCreate (x_task r))),
               (''at_run'', JStr (co_BaseCommit c))]
            else ok ())
       (snapshot_baseline E c)))))))"

definition continueWorktree :: "env \<Rightarrow> Checkout \<Rightarrow> retryContext \<Rightarrow> unit act" where
  "continueWorktree E c0 rc =
     ebind (reads id) (\<lambda>r. let branch = branchName (x_task r) (x_attempt r)
     in ebind (ContinueOnNewBranch E c0 branch) (\<lambda>c1.
     let c = c1\<lparr>co_BaseCommit := rc_baseCommit rc\<rparr>
     in eseq (assign (\<lambda>w. w\<lparr>x_worktree := Some c\<rparr>))
     (eseq (catch (record_worktree E c
                [(''path'', JStr (co_Path c)), (''branch'', JStr branch), (''base_commit'', JStr (co_BaseCommit c)),
                 (''continued_from'', JInt (int (rc_previous rc)))]) (\<lambda>res. case res of
              Inr _ \<Rightarrow> ok ()
            | Inl e \<Rightarrow>
                eseq (if e = WStore ErrLeaseLost
                      then best_effort (ebind (AbandonBranch E c branch) (\<lambda>c'. assign (\<lambda>w. w\<lparr>x_worktree := Some c'\<rparr>)))
                      else ok ()) (err e)))
       (snapshot_baseline E c))))"

section \<open>The agent\<close>

definition resolveModel :: "Task \<Rightarrow> (string \<times> string) list \<Rightarrow> string" where
  "resolveModel t routing =
     (if t_Model t \<noteq> [] then t_Model t
      else (case map_of routing (case t_Hardness t of None \<Rightarrow> [] | Some h \<Rightarrow> Hardness_string h) of
              None \<Rightarrow> [] | Some m \<Rightarrow> m))"

definition projectReadDirs :: "env \<Rightarrow> string list act" where
  "projectReadDirs E =
     ebind (reads (\<lambda>w. t_ProjectID (x_task w))) (\<lambda>p.
       catch (query E (GetProject p)) (\<lambda>r. case r of Inl _ \<Rightarrow> ok [] | Inr p \<Rightarrow> ok (p_ReadDirs p)))"

definition prompt_of :: "env \<Rightarrow> string act" where
  "prompt_of E =
     ebind (reads id) (\<lambda>w. case x_retry w of
         None \<Rightarrow> from_result (e_prompt E (x_task w))
       | Some rc \<Rightarrow> from_result (e_retry_prompt E (x_task w) (a_AttemptNumber (x_attempt w)) rc))"

definition appendDetail :: "string \<Rightarrow> string \<Rightarrow> string" where
  "appendDetail existing detail =
     (if detail = [] then existing else if existing = [] then detail else existing @ [nl] @ detail)"

definition changedFiles :: "WorkerRun option \<Rightarrow> nat" where
  "changedFiles r = (case r of None \<Rightarrow> 0 | Some r \<Rightarrow> r_ChangedFiles r)"

definition worker_run :: "env \<Rightarrow> nat \<Rightarrow> world \<Rightarrow> Checkout \<Rightarrow> AgentResult \<Rightarrow> string \<Rightarrow> WorkerRun" where
  "worker_run E n w c res version =
     \<lparr>r_ID = e_uuid E n, r_AttemptID = a_ID (x_attempt w),
      r_Backend = (if ag_Backend res = [] then c_Backend E else ag_Backend res), r_Model = ag_Model res,
      r_Agent = t_Agent (x_task w), r_AgentVersion = version, r_Status = ag_Status res,
      r_FailureKind = ag_FailureKind res, r_Command = ag_Command res,
      r_WorkingDir = (if ag_WorkingDir res = [] then co_Path c else ag_WorkingDir res),
      r_ExitCode = ag_ExitCode res, r_Stdout = ag_Stdout res, r_StdoutTruncated = ag_StdoutTruncated res,
      r_Stderr = (case ag_Err res of None \<Rightarrow> ag_Stderr res | Some e \<Rightarrow> appendDetail (ag_Stderr res) (e_text E e)),
      r_StderrTruncated = ag_StderrTruncated res, r_SessionID = ag_SessionID res, r_Summary = ag_Summary res,
      r_FinishReason = ag_FinishReason res, r_Diff = [], r_DiffTruncated = False, r_ChangedFiles = 0,
      r_StartedAt = (case ag_StartedAt res of None \<Rightarrow> e_now E n | Some t \<Rightarrow> t),
      r_FinishedAt = ag_FinishedAt res, r_LogsPruned = False\<rparr>"

definition with_diff :: "werr + WorktreeDiff \<Rightarrow> WorkerRun \<Rightarrow> WorkerRun" where
  "with_diff df r =
     (case df of Inl _ \<Rightarrow> r
      | Inr d \<Rightarrow> r\<lparr>r_Diff := wd_Patch d, r_DiffTruncated := wd_Truncated d, r_ChangedFiles := wd_ChangedFiles d\<rparr>)"

text \<open>The audit record of the agent's run; it is not fenced, and losing it fails nothing.\<close>

definition persistWorkerRun :: "env \<Rightarrow> Checkout \<Rightarrow> AgentResult \<Rightarrow> string \<Rightarrow> WorkerRun act" where
  "persistWorkerRun E c res version =
     ebind tick (\<lambda>n. ebind (reads id) (\<lambda>w.
       catch (Worktree_Diff E c) (\<lambda>df. let row = with_diff df (worker_run E n w c res version)
       in catch (HeadCommit E c) (\<lambda>head.
         eseq (case (head, x_record w) of
                 (Inr h, Some v) \<Rightarrow> best_effort (stmt E (SetWorktreeHead (w_ID v) h)) | _ \<Rightarrow> ok ())
           (catch (stmt E (CreateWorkerRun row)) (\<lambda>stored. case stored of Inl _ \<Rightarrow> ok row | Inr s \<Rightarrow> ok s))))))"

fun emit_progress :: "env \<Rightarrow> Progress list \<Rightarrow> unit act" where
  "emit_progress E [] = ok ()"
| "emit_progress E (p # ps) =
     eseq (emit E TypeAgentProgress
            [(''tool_calls'', JInt (int (pg_ToolCalls p))), (''steps'', JInt (int (pg_Steps p))),
             (''last_tool'', JStr (pg_LastTool p)), (''last_path'', JStr (pg_LastPath p)),
             (''elapsed_ms'', JInt (pg_Elapsed p div millisecond))])
       (emit_progress E ps)"

definition agent_request :: "env \<Rightarrow> world \<Rightarrow> Checkout \<Rightarrow> string \<Rightarrow> string list \<Rightarrow> AgentRequest" where
  "agent_request E w c prompt dirs =
     \<lparr>ar_TaskRef = Identifier (x_task w), ar_Prompt = prompt, ar_WorkingDir = co_Path c,
      ar_Agent = t_Agent (x_task w), ar_Model = resolveModel (x_task w) (c_Routing E),
      ar_Timeout = EffectiveTimeout (x_task w) (c_DefaultTaskTimeout E), ar_MaxOutputBytes = c_MaxOutputBytes E,
      ar_ReadDirs = dirs,
      ar_SessionID = (case x_retry w of None \<Rightarrow> [] | Some rc \<Rightarrow> rc_sessionID rc)\<rparr>"

definition started_payload :: "env \<Rightarrow> AgentRequest \<Rightarrow> payload" where
  "started_payload E req =
     [(''backend'', JStr (c_Backend E)), (''agent'', JStr (ar_Agent req)), (''working_dir'', JStr (ar_WorkingDir req)),
      (''timeout'', JInt (ar_Timeout req)), (''prompt_length'', JInt (int (length (ar_Prompt req))))]
     @ (if ar_ReadDirs req \<noteq> [] then [(''read_dirs'', JList (map JStr (ar_ReadDirs req)))] else [])"

definition completed_payload :: "AgentResult \<Rightarrow> WorkerRun \<Rightarrow> payload" where
  "completed_payload res row =
     [(''status'', JStr (WorkerRunStatus_string (ag_Status res))),
      (''failure_kind'', JStr (FailureKind_string (ag_FailureKind res))),
      (''exit_code'', case ag_ExitCode res of None \<Rightarrow> JNull | Some c \<Rightarrow> JInt c),
      (''session_id'', JStr (ag_SessionID res)), (''tool_calls'', JInt (int (ag_ToolCalls res))),
      (''changed_files'', JInt (int (r_ChangedFiles row))), (''duration_ms'', JInt (ag_Duration res div millisecond))]
     @ (if ag_OrphansKilled res then [(''orphans_killed'', JBool True)] else [])"

definition runAgent :: "env \<Rightarrow> Checkout \<Rightarrow> unit act" where
  "runAgent E c =
     ebind (prompt_of E) (\<lambda>prompt.
     ebind (projectReadDirs E) (\<lambda>dirs.
     ebind (reads (\<lambda>w. agent_request E w c prompt dirs)) (\<lambda>req.
     eseq (emit E TypeWorkerStarted (started_payload E req))
     (ebind (ask (\<lambda>n. e_agent E n req)) (\<lambda>(progress, res, runErr).
     eseq (emit_progress E progress)
     (ebind (ask (e_version E)) (\<lambda>version.
     ebind (persistWorkerRun E c res version) (\<lambda>row.
     eseq (assign (\<lambda>w. w\<lparr>x_workerRun := Some row\<rparr>))
     (eseq (emit E TypeWorkerCompleted (completed_payload res row))
       (case runErr of
          Some e \<Rightarrow> err e
        | None \<Rightarrow>
            if ag_Status res \<noteq> WorkerSucceeded
            then (case ag_Err res of Some e \<Rightarrow> err e | None \<Rightarrow> err (WMessage ''agent run''))
            else ok ()))))))))))"

section \<open>Containment\<close>

definition own_ref :: "Checkout \<Rightarrow> string" where
  "own_ref c = ''refs/heads/'' @ co_Branch c"

definition foreign_refs :: "Checkout \<Rightarrow> SharedChanges \<Rightarrow> RefChange gomap" where
  "foreign_refs c changes = filter (\<lambda>(ref, _). ref \<noteq> own_ref c) (sc_RefChanges changes)"

definition dropConcurrentBranches :: "env \<Rightarrow> RefChange gomap \<Rightarrow> RefChange gomap act" where
  "dropConcurrentBranches E foreign =
     (let names = List.map_filter (\<lambda>(ref, _). cut_prefix ref ''refs/heads/'') foreign
      in if length names = 0 then ok foreign
         else ebind (reads x_attempt) (\<lambda>a.
           catch (query E (\<lambda>d. Inr (OverlappingBranches (a_ID a) (a_StartedAt a) names d))) (\<lambda>r. case r of
               Inl _ \<Rightarrow> ok foreign
             | Inr concurrent \<Rightarrow>
                 ok (filter (\<lambda>(ref, _). case cut_prefix ref ''refs/heads/'' of
                       None \<Rightarrow> True | Some b \<Rightarrow> b \<notin> concurrent) foreign))))"

definition inert_keys :: "SharedChanges \<Rightarrow> string list" where
  "inert_keys changes = (if sc_ConfigChanged changes then filter InertConfigKey (sc_ConfigKeys changes) else [])"

definition dangerous_keys :: "SharedChanges \<Rightarrow> string list" where
  "dangerous_keys changes =
     (if sc_ConfigChanged changes then filter (\<lambda>k. \<not> InertConfigKey k) (sc_ConfigKeys changes) else [])"

definition config_breach :: "SharedState \<Rightarrow> SharedState \<Rightarrow> SharedChanges \<Rightarrow> bool" where
  "config_breach before after changes =
     (sc_ConfigChanged changes
      \<and> (sc_ConfigKeys changes = [] \<and> (ss_ConfigEntries before = None \<or> ss_ConfigEntries after = None)
         \<or> dangerous_keys changes \<noteq> []))"

text \<open>The reasons of a breach, in the order the code adds them.\<close>

definition breach_reasons :: "SharedState \<Rightarrow> SharedState \<Rightarrow> SharedChanges \<Rightarrow> bool \<Rightarrow> string list" where
  "breach_reasons before after changes ancestor =
     add_when (sc_CommonDirMoved changes)
       (''the worktree's gitdir moved from '' @ go_quote (ss_CommonDir before) @ '' to '' @ go_quote (ss_CommonDir after))
     @ add_when (config_breach before after changes)
         (if dangerous_keys changes \<noteq> []
          then ''the shared config changed: '' @ join_with '', '' (dangerous_keys changes)
          else ''the shared config changed'')
     @ add_when (sc_InfoChanged changes \<noteq> [])
         (''shared info files changed: '' @ join_with '', '' (sc_InfoChanged changes))
     @ add_when (sc_HooksChanged changes \<noteq> [])
         (''shared hooks changed: '' @ join_with '', '' (sc_HooksChanged changes))
     @ add_when (sc_HeadMoved changes)
         (''HEAD moved from '' @ go_quote (ss_HeadRef before) @ '' to '' @ go_quote (ss_HeadRef after))
     @ add_when (\<not> ancestor) ''the base commit is no longer an ancestor of HEAD''"

definition json_strings :: "string list \<Rightarrow> json" where
  "json_strings xs = JList (map JStr xs)"

definition json_refs :: "RefChange gomap \<Rightarrow> json" where
  "json_refs m = JObj (map (\<lambda>(ref, c). (ref, JObj [(''before'', JStr (rc_Before c)), (''after'', JStr (rc_After c))])) m)"

definition unreadable :: "'a act \<Rightarrow> 'a act" where
  "unreadable m = catch m (\<lambda>r. case r of Inl e \<Rightarrow> err (WSharedStateUnreadable e) | Inr x \<Rightarrow> ok x)"

definition checkContainment :: "env \<Rightarrow> Checkout \<Rightarrow> unit act" where
  "checkContainment E c =
     ebind (unreadable (SnapshotSharedState E c)) (\<lambda>after.
     ebind (unreadable (BaseIsAncestor E c)) (\<lambda>ancestor.
     ebind (reads x_sharedBefore) (\<lambda>before.
     let changes = Diff before after; reasons = breach_reasons before after changes ancestor
     in ebind (dropConcurrentBranches E (foreign_refs c changes)) (\<lambda>foreign.
     eseq (if foreign \<noteq> [] \<or> inert_keys changes \<noteq> []
           then emit E TypeSharedRefsChanged
                  ((if foreign \<noteq> [] then [(''refs'', json_refs foreign)] else [])
                   @ (if inert_keys changes \<noteq> [] then [(''config_keys'', json_strings (inert_keys changes))] else []))
           else ok ())
       (if reasons = [] then ok ()
        else eseq (emit E TypeContainmentBreach
               ([(''reasons'', json_strings reasons), (''config_changed'', JBool (config_breach before after changes)),
                 (''head_before'', JStr (ss_HeadRef before)), (''head_after'', JStr (ss_HeadRef after))]
                @ (if dangerous_keys changes \<noteq> [] then [(''config_keys'', json_strings (dangerous_keys changes))] else [])
                @ (if sc_InfoChanged changes \<noteq> [] then [(''info_changed'', json_strings (sc_InfoChanged changes))] else [])
                @ (if sc_HooksChanged changes \<noteq> [] then [(''hooks_changed'', json_strings (sc_HooksChanged changes))] else [])
                @ (if foreign \<noteq> [] then [(''refs'', json_refs foreign)] else [])))
               (err (WBreach reasons)))))))"

section \<open>What the agent delivered\<close>

definition snapshotAgentTree :: "env \<Rightarrow> Checkout \<Rightarrow> unit act" where
  "snapshotAgentTree E c =
     ebind (HeadCommit E c) (\<lambda>head. ebind (CurrentTree E c) (\<lambda>tree.
       eseq (assign (\<lambda>w. w\<lparr>x_agentHead := head, x_agentTree := tree\<rparr>))
         (ebind (reads x_record) (\<lambda>rec. case rec of None \<Rightarrow> ok ()
            | Some v \<Rightarrow> best_effort (stmt E (SetWorktreeAgentTree (w_ID v) tree))))))"

definition maxAddedPaths :: nat where "maxAddedPaths = 50"
definition maxDriftPaths :: nat where "maxDriftPaths = 50"

definition added_payload :: "AddedFile list \<Rightarrow> payload" where
  "added_payload added =
     [(''paths'', JList (map (\<lambda>f. JObj [(''path'', JStr (af_Path f)), (''bytes'', JInt (af_Bytes f)),
                                       (''binary'', JBool (af_Binary f))]) (take maxAddedPaths added))),
      (''total'', JInt (int (length added)))]"

definition reportFilesAdded :: "env \<Rightarrow> Checkout \<Rightarrow> unit act" where
  "reportFilesAdded E c =
     ebind (reads x_agentTree) (\<lambda>tree.
       if tree = [] then ok ()
       else catch (AddedFiles E c (co_BaseCommit c) tree) (\<lambda>r. case r of
           Inl _ \<Rightarrow> ok ()
         | Inr added \<Rightarrow> if length added = 0 then ok () else emit E TypeFilesAdded (added_payload added)))"

definition drift_payload :: "string \<Rightarrow> string \<Rightarrow> TreeChange list \<Rightarrow> payload" where
  "drift_payload tree after changes =
     [(''agent_tree'', JStr tree), (''after_tree'', JStr after),
      (''paths'', JList (map (\<lambda>c. JObj [(''status'', JStr (tc_Status c)), (''path'', JStr (tc_Path c))])
                      (take maxDriftPaths changes))),
      (''total'', JInt (int (length changes)))]"

definition reportWorktreeDrift :: "env \<Rightarrow> Checkout \<Rightarrow> unit act" where
  "reportWorktreeDrift E c =
     ebind (reads x_agentTree) (\<lambda>tree.
       if tree = [] then ok ()
       else catch (CurrentTree E c) (\<lambda>r. case r of
           Inl _ \<Rightarrow> ok ()
         | Inr after \<Rightarrow>
             if after = tree then ok ()
             else catch (TreeChanges E c tree after) (\<lambda>q. case q of
                 Inl _ \<Rightarrow> ok ()
               | Inr changes \<Rightarrow> emit E TypeVerificationWorktreeModified (drift_payload tree after changes))))"

text \<open>The tree the checks run on and the commit carries: the snapshot, or one taken now.\<close>

definition delivered_tree :: "env \<Rightarrow> Checkout \<Rightarrow> string act" where
  "delivered_tree E c = ebind (reads x_agentTree) (\<lambda>tree. if tree = [] then CurrentTree E c else ok tree)"

definition measureCoverage :: "env \<Rightarrow> Checkout \<Rightarrow> string \<Rightarrow> payload act" where
  "measureCoverage E c dir =
     ebind (delivered_tree E c) (\<lambda>tree.
       ebind (ZeroContextDiff E c (co_BaseCommit c) tree [''*.go'']) (\<lambda>df.
         ebind (ask (\<lambda>n. e_coverage E n dir df)) from_result))"

definition reportCoverage :: "env \<Rightarrow> Checkout \<Rightarrow> string \<Rightarrow> unit act" where
  "reportCoverage E c dir =
     catch (measureCoverage E c dir) (\<lambda>r. emit E TypeCoverageReported
       (case r of Inl e \<Rightarrow> [(''error'', JStr (e_text E e))] | Inr pay \<Rightarrow> pay))"

definition cleanCheckout :: "env \<Rightarrow> Checkout \<Rightarrow> Checkout act" where
  "cleanCheckout E c =
     ebind (delivered_tree E c) (\<lambda>tree.
       ebind (CheckGitlinks E c tree) (\<lambda>_.
         ebind (reads id) (\<lambda>w.
           ebind (CommitTree E c tree (''aidev verification snapshot for '' @ Identifier (x_task w))) (\<lambda>commit.
             CreateDetached E (co_Repo c) (''verify-'' @ uuid_string (a_ID (x_attempt w))) commit))))"

section \<open>Committing\<close>

definition commitAgentTree :: "env \<Rightarrow> Checkout \<Rightarrow> string \<Rightarrow> string act" where
  "commitAgentTree E c message =
     ebind (reads id) (\<lambda>w.
     let parent = (if a_AttemptNumber (x_attempt w) > 1 then co_BaseCommit c else x_agentHead w)
     in ebind (TreeOf E c parent) (\<lambda>parentTree.
       if parentTree = x_agentTree w
       then (if parent \<noteq> x_agentHead w
             then eseq (UpdateBranch E c (co_Branch c) parent (x_agentHead w))
                    (eseq (best_effort (SyncIndex E c)) (ok []))
             else ok [])
       else ebind (CommitTreeOnto E c (x_agentTree w) parent message) (\<lambda>commit.
         eseq (UpdateBranch E c (co_Branch c) commit (x_agentHead w))
           (eseq (best_effort (SyncIndex E c)) (ok commit)))))"

definition setHeadCommit :: "string \<Rightarrow> unit act" where
  "setHeadCommit commit = assign (\<lambda>w. w\<lparr>x_record := map_option (\<lambda>v. v\<lparr>w_HeadCommit := commit\<rparr>) (x_record w)\<rparr>)"

definition headCommit :: "world \<Rightarrow> string" where
  "headCommit w = (case x_record w of None \<Rightarrow> [] | Some v \<Rightarrow> w_HeadCommit v)"

text \<open>Run inside the transaction that records the success.\<close>

definition commitWork :: "env \<Rightarrow> Checkout \<Rightarrow> bool act" where
  "commitWork E c =
     ebind (reads id) (\<lambda>w.
     let message = Identifier (x_task w) @ '' '' @ t_Title (x_task w)
     in ebind (if x_agentTree w \<noteq> [] then commitAgentTree E c message else Commit E c message) (\<lambda>commit.
       if commit = [] then ok False
       else eseq (in_db (head_tx (map_option w_ID (x_record w)) commit))
         (eseq (setHeadCommit commit) (ok True))))"

definition partial_message :: "world \<Rightarrow> FailureKind \<Rightarrow> string" where
  "partial_message w kind =
     Identifier (x_task w) @ '' attempt '' @ nat_dec (a_AttemptNumber (x_attempt w)) @ '', not verified (''
     @ FailureKind_string kind @ ''): '' @ t_Title (x_task w)"

definition commitPartialWork :: "env \<Rightarrow> Checkout \<Rightarrow> FailureKind \<Rightarrow> string act" where
  "commitPartialWork E c kind =
     ebind (reads id) (\<lambda>w. let snapshotted = (x_agentTree w \<noteq> [])
     in ebind (if snapshotted then ok (x_agentHead w) else HeadCommit E c) (\<lambda>head.
     ebind (if snapshotted then ok (x_agentTree w) else CurrentTree E c) (\<lambda>tree.
     ebind (TreeOf E c head) (\<lambda>headTree.
     ebind (if headTree \<noteq> tree
            then ebind (CommitTreeOnto E c tree head (partial_message w kind)) (\<lambda>commit.
                   eseq (UpdateBranch E c (co_Branch c) commit head) (ok commit))
            else ok []) (\<lambda>commit.
     eseq (if snapshotted then RestoreToHead E c
           else if commit \<noteq> [] then best_effort (SyncIndex E c) else ok ())
       (ok commit))))))"

section \<open>Failing and retrying\<close>

definition retryOutputLimit :: nat where "retryOutputLimit = 4000"

text \<open>The character of the ellipsis in UTF-8, and a newline.\<close>

definition cut_mark :: string where
  "cut_mark = [CHR 0xE2, CHR 0x80, CHR 0xA6, nl]"

definition tailBytes :: "string \<Rightarrow> nat \<Rightarrow> string" where
  "tailBytes s limit =
     (if length s \<le> limit then s
      else (let cut = drop (length s - limit) s; i = length (takeWhile (\<lambda>c. c \<noteq> nl) cut)
            in cut_mark @ (if nl \<in> set cut \<and> i < 200 then drop (i + 1) cut else cut)))"

definition step_output :: "VerificationRun \<Rightarrow> string" where
  "step_output s =
     (let out = trim_space (v_Stdout s); e = trim_space (v_Stderr s)
      in if e = [] then out else (if out \<noteq> [] then out @ [nl] else out) @ e)"

definition failed_step :: "VerificationRun \<Rightarrow> failedStep" where
  "failed_step s =
     \<lparr>fs_Command = v_Command s,
      fs_Outcome = (case v_ExitCode s of None \<Rightarrow> VerificationStatus_string (v_Status s)
        | Some c \<Rightarrow> VerificationStatus_string (v_Status s) @ '', exit code '' @ int_dec c),
      fs_Output = tailBytes (step_output s) retryOutputLimit\<rparr>"

definition failedSteps :: "Report \<Rightarrow> failedStep list" where
  "failedSteps report =
     map failed_step (filter (\<lambda>s. v_Status s \<noteq> VerificationPassed \<and> v_Status s \<noteq> VerificationSkipped)
       (rp_Runs report))"

definition willRetry :: "env \<Rightarrow> FailureKind \<Rightarrow> bool act" where
  "willRetry E kind =
     ebind (reads id) (\<lambda>w.
       if \<not> x_retryable w then ok False
       else ebind (ask (e_ctx E)) (\<lambda>ctx.
         ok (ctx = CtxLive \<and> x_worktree w \<noteq> None
             \<and> (kind = FailureVerification \<or> kind = FailureAgentExit \<or> kind = FailureAgentError)
             \<and> int (a_AttemptNumber (x_attempt w)) \<le> t_MaxRetries (x_task w))))"

definition retry_context :: "world \<Rightarrow> FailureKind \<Rightarrow> string \<Rightarrow> retryContext" where
  "retry_context w kind message =
     \<lparr>rc_previous = a_AttemptNumber (x_attempt w), rc_kind = kind, rc_message = message,
      rc_sessionID = (case x_workerRun w of None \<Rightarrow> [] | Some r \<Rightarrow> r_SessionID r),
      rc_failed = (case x_report w of None \<Rightarrow> [] | Some rep \<Rightarrow> if kind = FailureVerification then failedSteps rep else []),
      rc_prevRecord = x_record w,
      rc_baseCommit = (case x_worktree w of None \<Rightarrow> [] | Some c \<Rightarrow> co_BaseCommit c)\<rparr>"

definition retry_payload :: "world \<Rightarrow> Checkout \<Rightarrow> FailureKind \<Rightarrow> string \<Rightarrow> string \<Rightarrow> payload" where
  "retry_payload w c kind message partial =
     [(''attempt'', JInt (int (a_AttemptNumber (x_attempt w)))),
      (''next_attempt'', JInt (int (a_AttemptNumber (x_attempt w)) + 1)),
      (''max_retries'', JInt (t_MaxRetries (x_task w))), (''failure_kind'', JStr (FailureKind_string kind)),
      (''error'', JStr message), (''branch'', JStr (co_Branch c))]
     @ (if partial \<noteq> [] then [(''partial_commit'', JStr partial)] else [])
     @ (case x_report w of None \<Rightarrow> [] | Some rep \<Rightarrow> [(''verification'', JStr (Summary rep))])"

text \<open>A failure of the git work inside a transaction is told apart from one of its statements.\<close>

definition git_work :: "'a act \<Rightarrow> 'a act" where
  "git_work m = catch m (\<lambda>r. case r of Inl e \<Rightarrow> err (WWrapped ''commit'' e) | Inr x \<Rightarrow> ok x)"

definition is_git_work :: "werr \<Rightarrow> bool" where
  "is_git_work e = (case e of WWrapped _ _ \<Rightarrow> True | _ \<Rightarrow> False)"

definition retry_transaction :: "env \<Rightarrow> Checkout \<Rightarrow> FailureKind \<Rightarrow> string \<Rightarrow> unit act" where
  "retry_transaction E c kind message =
     inTx E (eseq (fence E)
       (ebind (git_work (commitPartialWork E c kind)) (\<lambda>partial.
          ebind (reads id) (\<lambda>w.
          eseq (in_db (ending_tx (t_ID (x_task w)) (a_ID (x_attempt w)) (t_Status (x_task w)) StatusReady
                          AttemptFailed kind message))
            (eseq (in_db (reuse_tx (map_option w_ID (x_record w)) partial))
              (own_event E TypeRetryScheduled (retry_payload w c kind message partial)))))))"

definition scheduled :: "FailureKind \<Rightarrow> string \<Rightarrow> world \<Rightarrow> world" where
  "scheduled kind message w =
     w\<lparr>x_task := (x_task w)\<lparr>t_Status := StatusReady\<rparr>, x_attemptOpen := False,
       x_retry := Some (retry_context w kind message), x_retryPending := True\<rparr>"

text \<open>The result: \<open>None\<close> for Go's \<open>done = false\<close>, the outcome (empty when a retry is pending) otherwise.\<close>

definition scheduleRetry :: "env \<Rightarrow> Checkout \<Rightarrow> FailureKind \<Rightarrow> werr \<Rightarrow> Outcome option option act" where
  "scheduleRetry E c kind cause =
     (let message = e_text E cause
      in catch (retry_transaction E c kind message) (\<lambda>r. case r of
           Inr _ \<Rightarrow> eseq (assign (scheduled kind message)) (ok (Some None))
         | Inl e \<Rightarrow>
             if is_git_work e then ok None
             else ebind (cancelledElsewhere E e) (\<lambda>o'. case o' of
                 Some out \<Rightarrow> ok (Some (Some out)) | None \<Rightarrow> err e)))"

definition failed_payload :: "world \<Rightarrow> FailureKind \<Rightarrow> string \<Rightarrow> payload" where
  "failed_payload w kind message =
     [(''attempt'', JInt (int (a_AttemptNumber (x_attempt w)))), (''failure_kind'', JStr (FailureKind_string kind)),
      (''error'', JStr message)]
     @ (case x_worktree w of None \<Rightarrow> []
        | Some c \<Rightarrow> [(''worktree_retained'', JStr (co_Path c)), (''branch'', JStr (co_Branch c))])
     @ (case x_report w of None \<Rightarrow> [] | Some rep \<Rightarrow> [(''verification'', JStr (Summary rep))])"

definition fail_transaction :: "env \<Rightarrow> bool \<Rightarrow> FailureKind \<Rightarrow> string \<Rightarrow> unit act" where
  "fail_transaction E cancelled kind message =
     inTx E (eseq (fence E) (eseq (retainWorktreeTx E message)
       (ebind (reads id) (\<lambda>w.
        eseq (in_db (ending_tx (t_ID (x_task w)) (a_ID (x_attempt w)) (t_Status (x_task w))
                        (if cancelled then StatusCancelled else StatusFailed)
                        (if cancelled then AttemptCancelled else AttemptFailed) kind message))
          (own_event E (if cancelled then TypeTaskCancelled else TypeTaskFailed) (failed_payload w kind message))))))"

text \<open>\<open>None\<close> is the empty outcome of a run whose next attempt is pending.\<close>

definition record_failure :: "env \<Rightarrow> bool \<Rightarrow> FailureKind \<Rightarrow> werr \<Rightarrow> Outcome option act" where
  "record_failure E cancelled kind cause =
     (let kind' = (if cancelled then FailureCancelled else kind); message = e_text E cause
      in eseq (assign (\<lambda>w. w\<lparr>x_failureKind := kind'\<rparr>))
        (catch (fail_transaction E cancelled kind' message) (\<lambda>r. case r of
           Inr _ \<Rightarrow>
             eseq (assign (\<lambda>w. w\<lparr>x_task := (x_task w)\<lparr>t_Status := if cancelled then StatusCancelled else StatusFailed\<rparr>,
                                 x_attemptOpen := False\<rparr>))
               (ebind outcome (\<lambda>out. ok (Some out)))
         | Inl e \<Rightarrow> ebind (cancelledElsewhere E e) (\<lambda>o'. case o' of
             Some out \<Rightarrow> ok (Some out) | None \<Rightarrow> err e))))"

definition fail :: "env \<Rightarrow> FailureKind \<Rightarrow> werr \<Rightarrow> Outcome option act" where
  "fail E kind cause =
     ebind (ask (e_ctx E)) (\<lambda>ctx. let cancelled = (kind = FailureCancelled \<or> ctx = CtxCanceled)
     in ebind (if cancelled then ok False else willRetry E kind) (\<lambda>retry.
        ebind (reads x_worktree) (\<lambda>wt.
        case (retry, wt) of
          (True, Some c) \<Rightarrow>
            ebind (scheduleRetry E c kind cause) (\<lambda>r. case r of
                Some out \<Rightarrow> ok out | None \<Rightarrow> record_failure E cancelled kind cause)
        | _ \<Rightarrow> record_failure E cancelled kind cause)))"

definition workerFailureKind :: "world \<Rightarrow> FailureKind" where
  "workerFailureKind w =
     (case x_workerRun w of None \<Rightarrow> FailureUnknown
      | Some r \<Rightarrow> if r_FailureKind r \<noteq> FailureNone then r_FailureKind r else FailureUnknown)"

section \<open>Success\<close>

definition cleanupAfterSuccess :: "env \<Rightarrow> Checkout \<Rightarrow> unit act" where
  "cleanupAfterSuccess E c =
     (if \<not> c_CleanupOnSuccess E then ok ()
      else catch (Remove E c False) (\<lambda>r. case r of
          Inl e \<Rightarrow> best_effort (retainWorktree E (e_text E e))
        | Inr _ \<Rightarrow>
            eseq (ebind (reads x_record) (\<lambda>rec. case rec of None \<Rightarrow> ok ()
                    | Some v \<Rightarrow> catch (stmt E (SetWorktreeStatus (w_ID v) WorktreeRemoved)) (\<lambda>q. case q of
                        Inl _ \<Rightarrow> ok ()
                      | Inr _ \<Rightarrow> assign (\<lambda>w. w\<lparr>x_record := Some (v\<lparr>w_Status := WorktreeRemoved\<rparr>)\<rparr>))))
              (ebind (reads headCommit) (\<lambda>h. emit E TypeWorktreeRemoved
                 [(''path'', JStr (co_Path c)), (''branch'', JStr (co_Branch c)), (''commit'', JStr h)]))))"

definition success_payload :: "world \<Rightarrow> Checkout \<Rightarrow> Report \<Rightarrow> payload" where
  "success_payload w c report =
     [(''attempt'', JInt (int (a_AttemptNumber (x_attempt w)))), (''branch'', JStr (co_Branch c)),
      (''head_commit'', JStr (headCommit w)), (''changed_files'', JInt (int (changedFiles (x_workerRun w)))),
      (''verification'', JStr (Summary report))]"

definition success_transaction :: "env \<Rightarrow> Checkout \<Rightarrow> Report \<Rightarrow> unit act" where
  "success_transaction E c report =
     inTx E (eseq (fence E) (ebind (git_work (commitWork E c)) (\<lambda>_.
       ebind (reads id) (\<lambda>w.
         eseq (in_db (ending_tx (t_ID (x_task w)) (a_ID (x_attempt w)) StatusVerifying StatusSucceeded
                        AttemptSucceeded FailureNone []))
           (own_event E TypeTaskSucceeded (success_payload w c report))))))"

definition succeed :: "env \<Rightarrow> Checkout \<Rightarrow> Report \<Rightarrow> Outcome option act" where
  "succeed E c report =
     catch (success_transaction E c report) (\<lambda>r. case r of
         Inr _ \<Rightarrow>
           eseq (set_status StatusSucceeded)
             (eseq (assign (\<lambda>w. w\<lparr>x_attemptOpen := False\<rparr>))
               (eseq (cleanupAfterSuccess E c) (ebind outcome (\<lambda>out. ok (Some out)))))
       | Inl e \<Rightarrow>
           if is_git_work e then fail E FailureWorktree (WWrapped ''commit failed'' e)
           else eseq (assign (\<lambda>w. w\<lparr>x_attemptOpen := False\<rparr>))
             (ebind (reads (\<lambda>w. t_ID (x_task w))) (\<lambda>i.
               catch (query E (GetTask i)) (\<lambda>q. case q of
                   Inl _ \<Rightarrow> err e
                 | Inr current \<Rightarrow>
                     if \<not> Terminal (t_Status current) then err e
                     else eseq (adopt E current) (ebind outcome (\<lambda>out. ok (Some out)))))))"

section \<open>Verification\<close>

definition interceptionPayload :: "Interception list \<Rightarrow> json" where
  "interceptionPayload ins =
     JList (map (\<lambda>x. JObj [(''step_index'', JInt (int (ic_StepIndex x))), (''step'', JStr (ic_Step x)),
                           (''path'', JStr (ic_Path x))]) ins)"

definition protectedPayload :: "Violation list \<Rightarrow> json" where
  "protectedPayload vs =
     JList (map (\<lambda>v. JObj [(''pattern'', JStr (vi_Pattern v)), (''path'', JStr (vi_Path v))]) vs)"

fun persistVerification :: "env \<Rightarrow> VerificationRun list \<Rightarrow> unit act" where
  "persistVerification E [] = ok ()"
| "persistVerification E (vr # runs) =
     catch (stmt E (CreateVerificationRun vr)) (\<lambda>r. eseq
       (case r of Inl _ \<Rightarrow> ok ()
        | Inr _ \<Rightarrow> emit E TypeVerificationStepRan
            [(''step'', JInt (int (v_StepIndex vr))), (''command'', JStr (v_Command vr)),
             (''status'', JStr (VerificationStatus_string (v_Status vr))),
             (''exit_code'', case v_ExitCode vr of None \<Rightarrow> JNull | Some c \<Rightarrow> JInt c)])
       (persistVerification E runs))"

definition check_request :: "world \<Rightarrow> string \<Rightarrow> Request" where
  "check_request w dir =
     \<lparr>q_AttemptID = a_ID (x_attempt w), q_TaskRef = Identifier (x_task w), q_WorkingDir = dir,
      q_SetupSteps = t_SetupSteps (x_task w), q_Steps = t_Verification (x_task w)\<rparr>"

text \<open>\<open>Verifier.Run\<close> on the task's steps; what the steps do is asked of the environment.\<close>

definition run_checks :: "env \<Rightarrow> string \<Rightarrow> Report act" where
  "run_checks E dir =
     ebind (reads (\<lambda>w. check_request w dir)) (\<lambda>req.
       ebind (ask (\<lambda>n. Runner_Run (c_Runner E) req (e_check E n) (e_elapsed E n))) (\<lambda>r.
         case r of Inl m \<Rightarrow> err (WMessage m) | Inr report \<Rightarrow> ok report))"

definition report_payload :: "Report \<Rightarrow> payload" where
  "report_payload report =
     [(''passed'', JBool (rp_Passed report)), (''failure_kind'', JStr (FailureKind_string (rp_FailureKind report))),
      (''summary'', JStr (Summary report)), (''duration_ms'', JInt (rp_Duration report div millisecond))]"

definition stopped_with :: "Outcome option act \<Rightarrow> Outcome option option act" where
  "stopped_with m = ebind m (\<lambda>out. ok (Some out))"

definition set_report :: "Report \<Rightarrow> unit act" where
  "set_report report = assign (\<lambda>w. w\<lparr>x_report := Some report\<rparr>)"

text \<open>The red-before-green gate. The result: \<open>None\<close> when the base is red and the run may go on.\<close>

definition baseCheck :: "env \<Rightarrow> Checkout \<Rightarrow> Outcome option option act" where
  "baseCheck E c =
     ebind (reads (\<lambda>w. uuid_string (a_ID (x_attempt w)))) (\<lambda>i.
     catch (CreateDetached E (co_Repo c) (''basecheck-'' @ i) (co_BaseCommit c)) (\<lambda>made. case made of
         Inl e \<Rightarrow> stopped_with (fail E FailureWorktree (WWrapped ''base check not run'' e))
       | Inr wt \<Rightarrow> deferring (Remove E wt True)
           (catch (run_checks E (co_Path wt)) (\<lambda>ran. case ran of
               Inl e \<Rightarrow> stopped_with (fail E FailureInternal (WWrapped ''base check not run'' e))
             | Inr report \<Rightarrow>
                 eseq (emit E TypeBaseCheckCompleted (report_payload report))
                   (if rp_Passed report
                    then eseq (set_report report)
                           (stopped_with (fail E FailureVerification (WBasePasses (Summary report))))
                    else ok None)))))"

definition refusal_payload :: "Interception list \<Rightarrow> Violation list \<Rightarrow> payload" where
  "refusal_payload ins vs =
     (if ins \<noteq> [] then [(''interceptions'', interceptionPayload ins)] else [])
     @ (if vs \<noteq> [] then [(''protected_paths'', protectedPayload vs)] else [])"

text \<open>The checks have run: what is recorded of them, then the verdict.\<close>

definition judge :: "env \<Rightarrow> Checkout \<Rightarrow> string \<Rightarrow> Report \<Rightarrow> Outcome option act" where
  "judge E c dir report =
     eseq (set_report report)
     (eseq (persistVerification E (rp_Runs report))
     (ebind (reads x_task) (\<lambda>t.
     eseq (if rp_Passed report \<and> t_VerificationMode t \<noteq> VerificationClean then reportWorktreeDrift E c else ok ())
     (eseq (emit E TypeVerificationCompleted (report_payload report))
       (if \<not> rp_Passed report
        then eseq (assign (\<lambda>w. w\<lparr>x_retryable := rp_FailureKind report = FailureVerification\<rparr>))
               (fail E (rp_FailureKind report) (WNotVerified (Summary report)))
        else eseq (if t_Coverage t then reportCoverage E c dir else ok ())
               (succeed E c report))))))"

definition check_in :: "env \<Rightarrow> Checkout \<Rightarrow> string \<Rightarrow> Outcome option act" where
  "check_in E c dir =
     catch (run_checks E dir) (\<lambda>r. case r of
         Inl e \<Rightarrow> fail E FailureInternal e
       | Inr report \<Rightarrow> judge E c dir report)"

text \<open>What runs once the attempt is known to be independent, in the worktree or in a clean checkout.\<close>

definition run_verification :: "env \<Rightarrow> Checkout \<Rightarrow> Outcome option act" where
  "run_verification E c =
     ebind (reads (\<lambda>w. t_VerificationMode (x_task w))) (\<lambda>mode.
       if mode = VerificationClean
       then catch (cleanCheckout E c) (\<lambda>r. case r of
           Inl e \<Rightarrow> fail E FailureWorktree (WWrapped ''verification not run'' e)
         | Inr d \<Rightarrow> deferring (Remove E d True) (check_in E c (co_Path d)))
       else check_in E c (co_Path c))"

definition independence :: "env \<Rightarrow> Checkout \<Rightarrow> Changes \<Rightarrow> Outcome option act" where
  "independence E c changes =
     eseq (let paths = TestPaths (ch_Committable changes)
           in if length paths > 0
              then eseq (assign (\<lambda>w. w\<lparr>x_testsModified := paths\<rparr>))
                     (emit E TypeVerificationTestsModified [(''paths'', json_strings paths)])
              else ok ())
     (ebind (reads x_task) (\<lambda>t.
      let intercepted = Interceptions (t_SetupSteps t @ t_Verification t) (Changes_All changes)
      in case Violations (e_valid E) (e_glob E) (t_ProtectedPaths t) (ch_Committable changes) of
           Inl e \<Rightarrow> fail E FailureInternal (WWrapped ''verification not run'' (WProtected e))
         | Inr violated \<Rightarrow>
             if length intercepted > 0 \<or> length violated > 0
             then eseq (emit E TypeVerificationIntercepted (refusal_payload intercepted violated))
                    (fail E FailureVerification (WIntercepted intercepted violated))
             else run_verification E c))"

definition verify :: "env \<Rightarrow> Checkout \<Rightarrow> Outcome option act" where
  "verify E c =
     ebind (reads x_task) (\<lambda>t.
     catch (transition E StatusVerifying TypeVerificationStarted
              [(''steps'', JInt (int (length (t_Verification t)))),
               (''mode'', JStr (VerificationMode_string (t_VerificationMode t)))]) (\<lambda>moved. case moved of
         Inl e \<Rightarrow> ebind (cancelledElsewhere E e) (\<lambda>o'. case o' of
             Some out \<Rightarrow> ok (Some out) | None \<Rightarrow> err e)
       | Inr _ \<Rightarrow> catch (ChangedPaths E c) (\<lambda>r. case r of
             Inl e \<Rightarrow> fail E FailureInternal
               (WWrapped ''verification not run: cannot establish independence'' e)
           | Inr changes \<Rightarrow> independence E c changes)))"

section \<open>One attempt and the run\<close>

text \<open>The worktree of the run; it is set before anything that needs it.\<close>

definition with_worktree :: "(Checkout \<Rightarrow> 'a act) \<Rightarrow> 'a act" where
  "with_worktree f = ebind (reads x_worktree) (\<lambda>wt. case wt of
      None \<Rightarrow> err (WMessage ''nil worktree'') | Some c \<Rightarrow> f c)"

definition restore_record :: "retryContext \<Rightarrow> unit act" where
  "restore_record rc =
     assign (\<lambda>w. if x_record w = None then w\<lparr>x_record := rc_prevRecord rc\<rparr> else w)"

text \<open>The worktree of the attempt and, on a first attempt that asks for it, the base check.\<close>

definition attempt_setup :: "env \<Rightarrow> Outcome option option act" where
  "attempt_setup E =
     ebind (reads id) (\<lambda>w. case x_retry w of
         Some rc \<Rightarrow> catch (with_worktree (\<lambda>c. continueWorktree E c rc)) (\<lambda>r. case r of
             Inl e \<Rightarrow> eseq (restore_record rc) (stopped_with (fail E FailureWorktree e))
           | Inr _ \<Rightarrow> ok None)
       | None \<Rightarrow> catch (prepareWorktree E) (\<lambda>r. case r of
             Inl e \<Rightarrow> stopped_with (fail E FailureWorktree e)
           | Inr _ \<Rightarrow> if t_ExpectFailOnBase (x_task w) then with_worktree (baseCheck E) else ok None))"

definition is_refusal :: "werr \<Rightarrow> bool" where
  "is_refusal e = (case e of WToolRefused _ \<Rightarrow> True | _ \<Rightarrow> False)"

definition containment_kind :: "werr \<Rightarrow> FailureKind" where
  "containment_kind e = (case e of WSharedStateUnreadable _ \<Rightarrow> FailureWorktree | _ \<Rightarrow> FailureContainment)"

definition inspect_and_verify :: "env \<Rightarrow> Checkout \<Rightarrow> Outcome option act" where
  "inspect_and_verify E c =
     catch (checkContainment E c) (\<lambda>r. case r of
         Inl e \<Rightarrow> fail E (containment_kind e) e
       | Inr _ \<Rightarrow> catch (snapshotAgentTree E c) (\<lambda>q. case q of
             Inl e \<Rightarrow> fail E FailureWorktree e
           | Inr _ \<Rightarrow> eseq (reportFilesAdded E c) (verify E c)))"

definition work :: "env \<Rightarrow> Checkout \<Rightarrow> Outcome option act" where
  "work E c =
     catch (runAgent E c) (\<lambda>r. case r of
         Inl e \<Rightarrow> eseq (assign (\<lambda>w. w\<lparr>x_retryable := \<not> is_refusal e\<rparr>))
                    (ebind (reads workerFailureKind) (\<lambda>kind. fail E kind e))
       | Inr _ \<Rightarrow> inspect_and_verify E c)"

definition attemptOnce :: "env \<Rightarrow> Outcome option act" where
  "attemptOnce E =
     ebind (attempt_setup E) (\<lambda>s. case s of Some out \<Rightarrow> ok out | None \<Rightarrow> with_worktree (work E))"

definition resetForAttempt :: "world \<Rightarrow> world" where
  "resetForAttempt w =
     w\<lparr>x_record := None, x_workerRun := None, x_report := None, x_testsModified := [], x_agentTree := [],
       x_agentHead := [], x_failureKind := FailureNone, x_retryable := False, x_retryPending := False\<rparr>"

text \<open>
  The loop of \<open>execute\<close>. The fuel counts attempts; \<open>WFuel\<close> is not an error of the program, and
  the bounds theory shows that one more than the retries the task allows is enough.
\<close>

fun attempt_loop :: "env \<Rightarrow> nat \<Rightarrow> Outcome option act" where
  "attempt_loop E 0 = err WFuel"
| "attempt_loop E (Suc fuel) =
     ebind (attemptOnce E) (\<lambda>out. ebind (reads x_retryPending) (\<lambda>pending.
       if \<not> pending then ok out
       else eseq (assign resetForAttempt)
         (catch (startAttempt E) (\<lambda>r. case r of
             Inl e \<Rightarrow> ebind (cancelledElsewhere E e) (\<lambda>o'. case o' of
                 Some out \<Rightarrow> ok (Some out) | None \<Rightarrow> err e)
           | Inr _ \<Rightarrow> attempt_loop E fuel))))"

definition execute :: "env \<Rightarrow> nat \<Rightarrow> Outcome option act" where
  "execute E fuel =
     ebind (reads (\<lambda>w. t_Status (x_task w))) (\<lambda>s.
       if Terminal s then err (WNotRunnable s)
       else if Active s then err (WNotRunnable s)
       else eseq (enforceApproval E) (eseq (becomeReady E) (eseq (startAttempt E) (attempt_loop E fuel))))"

definition enough_fuel :: "Task \<Rightarrow> nat" where
  "enough_fuel t = Suc (nat (t_MaxRetries t))"

definition RunTask :: "env \<Rightarrow> string \<Rightarrow> db \<Rightarrow> (werr + Outcome option) \<times> db" where
  "RunTask E idOrRef d =
     (let d' = e_others E 0 d
      in case ResolveTask (e_parse_uuid E) idOrRef d' of
           Inl e \<Rightarrow> (Inl (WStore e), d')
         | Inr t \<Rightarrow> (case run_state (execute E (enough_fuel t)) (new_run t d' 1 []) of
                      (r, w) \<Rightarrow> (r, w_db w)))"

end
