(* ===== verification/RunRules.thy ===== *)
theory RunRules
  imports GitEffects Worker
begin

text \<open>
  What an action of the worker may do to the state of a run. \<open>good\<close> says that the database
  is one the system can reach and that the run's picture of its task and attempt fits it. Two
  relations: \<open>runs\<close> allows steps of the system, \<open>side\<close> also keeps the part of the run that
  decides its course. Both are instances of the interface \<open>act_order\<close>.
\<close>

section \<open>Reading a run backwards\<close>

lemma run_ok: "run_state (ok x) w = (r, v) \<longleftrightarrow> r = Inr x \<and> v = w"
  by (auto simp: ok_def)

lemma run_err: "run_state (err e) w = (r, v) \<longleftrightarrow> r = Inl e \<and> v = w"
  by (auto simp: err_def)

lemma run_reads: "run_state (reads f) w = (r, v) \<longleftrightarrow> r = Inr (f w) \<and> v = w"
  by (auto simp: reads_def ok_def State_Monad.get_def)

lemma run_assign: "run_state (assign f) w = (r, v) \<longleftrightarrow> r = Inr () \<and> v = f w"
  by (auto simp: assign_def ok_def State_Monad.update_def State_Monad.get_def State_Monad.set_def)

lemma run_from_result: "run_state (from_result x) w = (r, v) \<longleftrightarrow> r = x \<and> v = w"
  by (auto simp: from_result_def)

lemma run_ebind:
  "run_state (ebind m f) w = (r, v) \<longleftrightarrow>
     (\<exists>e. run_state m w = (Inl e, v) \<and> r = Inl e) \<or> (\<exists>x u. run_state m w = (Inr x, u) \<and> run_state (f x) u = (r, v))"
proof -
  obtain q u where q: "run_state m w = (q, u)" by fastforce
  then show ?thesis by (cases q) (auto simp: ebind_def err_def)
qed

lemma run_ebind_Inr:
  "run_state (ebind m f) w = (Inr y, v) \<longleftrightarrow> (\<exists>x u. run_state m w = (Inr x, u) \<and> run_state (f x) u = (Inr y, v))"
  by (auto simp: run_ebind)

lemma run_eseq:
  "run_state (eseq m n) w = (r, v) \<longleftrightarrow>
     (\<exists>e. run_state m w = (Inl e, v) \<and> r = Inl e) \<or> (\<exists>u. run_state m w = (Inr (), u) \<and> run_state n u = (r, v))"
  by (auto simp: eseq_def run_ebind)

lemma run_eseq_Inr:
  "run_state (eseq m n) w = (Inr y, v) \<longleftrightarrow> (\<exists>u. run_state m w = (Inr (), u) \<and> run_state n u = (Inr y, v))"
  by (auto simp: run_eseq)

lemma run_catch:
  "run_state (catch m h) w = (r, v) \<longleftrightarrow> (\<exists>q u. run_state m w = (q, u) \<and> run_state (h q) u = (r, v))"
proof -
  obtain q u where "run_state m w = (q, u)" by fastforce
  then show ?thesis by (auto simp: catch_def)
qed

lemma run_tick: "run_state tick w = (r, v) \<longleftrightarrow> r = Inr (w_tick w) \<and> v = w\<lparr>w_tick := Suc (w_tick w)\<rparr>"
  by (auto simp: tick_def run_ebind run_eseq run_reads run_assign run_ok)

lemma run_in_db:
  "run_state (in_db m) w = (r, v) \<longleftrightarrow>
     (\<exists>e. m (w_db w) = Inl e \<and> r = Inl (WStore e) \<and> v = w)
     \<or> (\<exists>x d. m (w_db w) = Inr (x, d) \<and> r = Inr x \<and> v = w\<lparr>w_db := d\<rparr>)"
  by (cases "m (w_db w)") (auto simp: in_db_def run_ebind run_eseq run_reads run_assign run_ok run_err)

lemma run_in_db_Inr:
  "run_state (in_db m) w = (Inr x, v) \<longleftrightarrow> (\<exists>d. m (w_db w) = Inr (x, d) \<and> v = w\<lparr>w_db := d\<rparr>)"
  by (auto simp: run_in_db)

lemma run_turn:
  "run_state (turn E) w = (r, v) \<longleftrightarrow>
     r = Inr (w_tick w) \<and> v = w\<lparr>w_tick := Suc (w_tick w), w_db := e_others E (w_tick w) (w_db w)\<rparr>"
  by (auto simp: turn_def run_ebind run_eseq run_reads run_assign run_ok)

lemma run_ask:
  "run_state (ask f) w = (r, v) \<longleftrightarrow> r = Inr (f (w_tick w)) \<and> v = w\<lparr>w_tick := Suc (w_tick w)\<rparr>"
  by (auto simp: ask_def run_ebind run_tick run_ok)

lemma run_append_Inr:
  "run_state (append_event E aid ty pay) w = (Inr x, v) \<longleftrightarrow>
     (\<exists>d. appendEvent (e_uuid E (w_tick w), e_now E (w_tick w), pay) (t_ID (x_task w)) aid ty (w_db w) = Inr ((), d)
        \<and> v = w\<lparr>w_tick := Suc (w_tick w), w_db := d\<rparr>)"
  by (auto simp: append_event_def run_ebind_Inr run_tick run_reads run_in_db_Inr)

lemma run_own_event_Inr:
  "run_state (own_event E ty pay) w = (Inr x, v) \<longleftrightarrow>
     (\<exists>d. appendEvent (e_uuid E (w_tick w), e_now E (w_tick w), pay) (t_ID (x_task w)) (Some (a_ID (x_attempt w))) ty
           (w_db w) = Inr ((), d)
        \<and> v = w\<lparr>w_tick := Suc (w_tick w), w_db := d\<rparr>)"
  by (auto simp: own_event_def run_ebind_Inr run_reads run_append_Inr)

lemma run_fence_Inr:
  "run_state (fence E) w = (Inr x, v) \<longleftrightarrow>
     (\<exists>d. fence_tx (x_attemptOpen w) (t_ID (x_task w)) (a_ID (x_attempt w)) (e_owner E) (w_db w) = Inr ((), d)
        \<and> v = w\<lparr>w_db := d\<rparr>)"
  by (auto simp: fence_def run_ebind_Inr run_reads run_in_db_Inr)

lemmas run_inverts = run_ebind_Inr run_eseq_Inr run_reads run_assign run_ok run_err run_tick run_in_db_Inr
  run_append_Inr run_own_event_Inr run_fence_Inr

text \<open>The same as equations, for evaluation.\<close>

lemma run_arg: "m = n \<Longrightarrow> run_state m w = run_state n w"
  by simp

lemma ev_cong: "w = v \<Longrightarrow> run_state m w = run_state m v"
  by simp

lemma ev_ebind:
  "run_state (ebind m f) w = (case run_state m w of (r, v) \<Rightarrow> (case r of Inl e \<Rightarrow> (Inl e, v) | Inr x \<Rightarrow> run_state (f x) v))"
  by (auto simp: ebind_def err_def split: prod.splits sum.splits)

lemma ev_eseq: "run_state (eseq m n) w = (case run_state m w of (r, v) \<Rightarrow> (case r of Inl e \<Rightarrow> (Inl e, v) | Inr x \<Rightarrow> run_state n v))"
  by (auto simp: eseq_def ev_ebind split: prod.splits sum.splits)

lemma ev_catch: "run_state (catch m h) w = (case run_state m w of (r, v) \<Rightarrow> run_state (h r) v)"
  by (auto simp: catch_def split: prod.splits)

lemma ev_basic:
  "run_state (ok x) w = (Inr x, w)" "run_state (err e) w = (Inl e, w)" "run_state (from_result r) w = (r, w)"
  "run_state (reads f) w = (Inr (f w), w)" "run_state (assign g) w = (Inr (), g w)"
  "run_state tick w = (Inr (w_tick w), w\<lparr>w_tick := Suc (w_tick w)\<rparr>)"
  "run_state (ask h) w = (Inr (h (w_tick w)), w\<lparr>w_tick := Suc (w_tick w)\<rparr>)"
  "run_state (turn E) w = (Inr (w_tick w), w\<lparr>w_tick := Suc (w_tick w), w_db := e_others E (w_tick w) (w_db w)\<rparr>)"
  using run_ok run_err run_from_result run_reads run_assign run_tick run_ask run_turn by metis+

lemma ev_in_db:
  "run_state (in_db m) w = (case m (w_db w) of Inl e \<Rightarrow> (Inl (WStore e), w) | Inr p \<Rightarrow> (Inr (fst p), w\<lparr>w_db := snd p\<rparr>))"
  by (cases "m (w_db w)") (auto simp: in_db_def ev_ebind ev_eseq ev_basic)

lemma ev_cases:
  "run_state (if b then m else n) w = (if b then run_state m w else run_state n w)"
  "run_state (Let y g) w = run_state (g y) w"
  "run_state (case_option m f p) w = (case p of None \<Rightarrow> run_state m w | Some x \<Rightarrow> run_state (f x) w)"
  "run_state (case_sum h k q) w = (case q of Inl x \<Rightarrow> run_state (h x) w | Inr x \<Rightarrow> run_state (k x) w)"
  "run_state (case_prod l z) w = (case z of (x, y) \<Rightarrow> run_state (l x y) w)"
  "run_state (case_list m u xs) w = (case xs of [] \<Rightarrow> run_state m w | x # ys \<Rightarrow> run_state (u x ys) w)"
  "run_state (case_bool m n b) w = (case b of True \<Rightarrow> run_state m w | False \<Rightarrow> run_state n w)"
  "run_state (case_connection m n i j c) w =
     (case c of Works \<Rightarrow> run_state m w | BeginFails \<Rightarrow> run_state n w | CommitFails \<Rightarrow> run_state i w
      | CommitUnacknowledged \<Rightarrow> run_state j w)"
  by (simp_all split: option.splits sum.splits prod.splits list.splits bool.splits connection.splits)

lemma fence_same: "fence_tx opn i aid owner d = Inr ((), e) \<Longrightarrow> e = d"
  by (rule fence_Inr(1))

section \<open>What stays of the database\<close>

definition kept :: "db \<Rightarrow> db \<Rightarrow> bool" where
  "kept d e = list_all2 same_attempt (db_attempts d) (db_attempts e)"

lemma same_attempt_refl: "same_attempt a a"
  by (simp add: same_attempt_def)

lemma same_attempt_trans: "same_attempt a b \<Longrightarrow> same_attempt b c \<Longrightarrow> same_attempt a c"
  by (simp add: same_attempt_def)

lemma kept_refl: "kept d d"
  by (simp add: kept_def list_all2_id same_attempt_refl)

lemma kept_trans: "kept d e \<Longrightarrow> kept e f \<Longrightarrow> kept d f"
  unfolding kept_def by (rule list_all2_trans [of same_attempt same_attempt same_attempt]) (auto intro: same_attempt_trans)

lemma aside_kept: "aside d e \<Longrightarrow> kept d e"
  by (simp add: aside_def kept_def list_all2_id same_attempt_refl)

lemma quiet_kept: "quiet d e \<Longrightarrow> kept d e"
  by (auto simp: quiet_def kept_def elim: list_all2_mono)

lemma aside_quiet: "aside d e \<Longrightarrow> quiet d e"
  by (simp add: aside_def quiet_def list_all2_id same_attempt_refl)

lemma transition_kept: "TransitionTask i s t d = Inr (u, e) \<Longrightarrow> kept d e"
  using kept_refl [of d] TransitionTask_Inr(3) by (fastforce simp: kept_def)

lemma append_kept: "appendEvent st i aid ty d = Inr (u, e) \<Longrightarrow> kept d e"
  using append_keeps kept_refl [of d] by (fastforce simp: kept_def)

lemma finish_kept: "FinishAttempt aid s k m d = Inr (u, e) \<Longrightarrow> kept d e"
  using FinishAttempt_Inr(3) by (fastforce simp: kept_def list_all2_update same_attempt_def)

lemma fence_kept: "fence_tx opn i aid owner d = Inr (u, e) \<Longrightarrow> kept d e"
  using fence_Inr(1) kept_refl by blast

lemma retain_kept: "retain_tx i aid record st d = Inr (u, e) \<Longrightarrow> kept d e"
  by (cases "record")
    (auto simp: retain_tx_def tx_iffs kept_refl intro: kept_trans append_kept aside_kept worktree_ops_aside)

lemma ending_kept: "ending_tx i aid cur nxt s k m d = Inr (u, e) \<Longrightarrow> kept d e"
  by (auto simp: ending_tx_def tx_iffs intro: kept_trans transition_kept finish_kept)

lemmas kept_rules = transition_kept append_kept fence_kept retain_kept ending_kept
  aside_kept [OF head_aside] aside_kept [OF reuse_aside] aside_kept [OF CreateWorktree_aside]

lemma tx_kept:
  "transition_tx opn i aid owner cur nxt ty st d = Inr (u, e) \<Longrightarrow> kept d e"
  "emit_tx opn i aid owner ty st d = Inr (u, e) \<Longrightarrow> kept d e"
  "worktree_tx opn i aid owner wt st d = Inr (v, e) \<Longrightarrow> kept d e"
  "tx_seq (fence_tx opn i aid owner) (retain_tx i aid record st) d = Inr (u, e) \<Longrightarrow> kept d e"
  "fail_tx opn i aid owner record st cur cancelled kind message st2 d = Inr (u, e) \<Longrightarrow> kept d e"
  "tx_seq (fence_tx opn i aid owner) (retry_tx i aid record partial cur kind message st) d = Inr (u, e) \<Longrightarrow> kept d e"
  "tx_seq (fence_tx opn i aid owner) (tx_seq (head_tx record commit) (succeed_tx i aid st)) d = Inr (u, e) \<Longrightarrow> kept d e"
  unfolding transition_tx_def emit_tx_def worktree_tx_def fail_tx_def retry_tx_def succeed_tx_def tx_iffs
  by (blast intro: kept_trans kept_rules)+

text \<open>A task's row stays, with its allowance, and its attempts do not become fewer.\<close>

lemma abs_task_fields: "at_max (abs_task d t) = t_MaxRetries t" "length (at_attempts (abs_task d t)) = length (attempts_of d (t_ID t))"
  by (simp_all add: abs_task_def)

lemma step_length: "task_step a b \<Longrightarrow> length (at_attempts a) \<le> length (at_attempts b)"
  by (cases rule: task_step.cases) auto

definition task_in :: "db \<Rightarrow> uuid \<Rightarrow> int \<Rightarrow> bool" where
  "task_in d i m = (\<exists>t \<in> set (db_tasks d). t_ID t = i \<and> t_MaxRetries t = m)"

lemma advances_task:
  assumes adv: "advances d e" and ok: "db_ok d" and t: "task_in d i m"
  shows "task_in e i m \<and> length (attempts_of d i) \<le> length (attempts_of e i)"
proof -
  obtain t0 where t0: "t0 \<in> set (db_tasks d)" "t_ID t0 = i" "t_MaxRetries t0 = m" using t by (auto simp: task_in_def)
  have "i \<in> set (map t_ID (db_tasks e))" using adv t0 by (auto simp: advances_def)
  then obtain u where u: "u \<in> set (db_tasks e)" "t_ID u = i" by auto
  then obtain t1 where t1: "t1 \<in> set (db_tasks d)" "t_ID t1 = t_ID u"
    "abs_task e u = abs_task d t1 \<or> task_step (abs_task d t1) (abs_task e u)"
    using adv unfolding advances_def by blast
  have "distinct (map t_ID (db_tasks d))" using ok by (simp add: db_ok_def well_formed_def)
  then have same: "t1 = t0" using t0 t1 u by (auto simp: distinct_map dest: inj_onD)
  have "at_max (abs_task e u) = at_max (abs_task d t0)"
    "length (at_attempts (abs_task d t0)) \<le> length (at_attempts (abs_task e u))"
    using t1(3) step_max step_length same by fastforce+
  then show ?thesis using t0 u by (auto simp: abs_task_fields task_in_def)
qed

lemma sys_step_task:
  assumes st: "sys_step d e" and ok: "db_ok d" and t: "task_in d i m"
  shows "task_in e i m \<and> length (attempts_of d i) \<le> length (attempts_of e i)"
proof (cases "advances d e")
  case True
  then show ?thesis by (rule advances_task [OF _ ok t])
next
  case False
  then obtain t' where g: "grows t' d e" using sys_step_advances [OF st ok] by blast
  then have "task_in e i m" using t by (auto simp: grows_def task_in_def)
  obtain t0 where t0: "t0 \<in> set (db_tasks d)" "t_ID t0 = i" using t by (auto simp: task_in_def)
  have "abs_task e t0 = abs_task d t0" using g t0 by (simp add: grows_def)
  then have "length (attempts_of e i) = length (attempts_of d i)" using abs_task_fields(2) t0(2) by metis
  then show ?thesis using \<open>task_in e i m\<close> by simp
qed

lemma sys_steps_ok: "sys_step\<^sup>*\<^sup>* d e \<Longrightarrow> db_ok d \<Longrightarrow> db_ok e"
  by (induction rule: rtranclp_induct) (auto intro: sys_step_ok)

lemma sys_steps_task:
  assumes "sys_step\<^sup>*\<^sup>* d e" "db_ok d" "task_in d i m"
  shows "task_in e i m \<and> length (attempts_of d i) \<le> length (attempts_of e i)"
  using assms(1)
proof (induction rule: rtranclp_induct)
  case base
  show ?case using assms(3) by simp
next
  case (step y z)
  have "db_ok y" using step(1) assms(2) by (rule sys_steps_ok)
  from sys_step_task [OF step(2) this conjunct1 [OF step.IH]] step.IH show ?case by auto
qed

section \<open>The run's picture of the database\<close>

text \<open>The attempts a run may call its own: those it numbers itself, and the zero value.\<close>

definition own_ids :: "env \<Rightarrow> uuid set" where
  "own_ids E = insert 0 (range (e_uuid E))"

definition rows_from :: "uuid set \<Rightarrow> db \<Rightarrow> db \<Rightarrow> bool" where
  "rows_from own d e =
     (\<forall>b \<in> set (db_attempts e). a_ID b \<in> own \<longrightarrow> (\<exists>a \<in> set (db_attempts d). same_attempt a b))"

text \<open>
  The other processes: they commit transactions of the system, delete nothing while the run
  lasts, and do not draw the identifiers this process draws.
\<close>

definition others_ok :: "env \<Rightarrow> bool" where
  "others_ok E =
     (\<forall>n d. db_ok d \<longrightarrow> sys_step\<^sup>*\<^sup>* d (e_others E n d) \<and> rows_from (own_ids E) d (e_others E n d))"

definition knows :: "env \<Rightarrow> db \<Rightarrow> Task \<Rightarrow> TaskAttempt \<Rightarrow> bool" where
  "knows E d t a =
     (task_in d (t_ID t) (t_MaxRetries t) \<and> a_ID a \<in> own_ids E
      \<and> (\<forall>b \<in> set (db_attempts d). a_ID b = a_ID a \<longrightarrow> same_attempt a b \<and> a_TaskID b = t_ID t))"

definition good :: "env \<Rightarrow> world \<Rightarrow> bool" where
  "good E w = (others_ok E \<and> db_ok (w_db w) \<and> knows E (w_db w) (x_task w) (x_attempt w))"

lemma kept_rows_from: "kept d e \<Longrightarrow> rows_from own d e"
  unfolding kept_def rows_from_def using list_all2_member by fastforce

lemma knows_step:
  assumes "knows E d t a" "db_ok d" "sys_step\<^sup>*\<^sup>* d e" "rows_from (own_ids E) d e"
  shows "knows E e t a"
proof -
  have "task_in e (t_ID t) (t_MaxRetries t)" using assms sys_steps_task by (auto simp: knows_def)
  moreover have "same_attempt a b \<and> a_TaskID b = t_ID t" if "b \<in> set (db_attempts e)" "a_ID b = a_ID a" for b
    using assms(1,4) that unfolding rows_from_def knows_def same_attempt_def by metis
  ultimately show ?thesis using assms(1) by (simp add: knows_def)
qed

lemma knows_own: "knows E d t a \<Longrightarrow> own_attempt d (t_ID t) (a_ID a)"
  by (auto simp: knows_def own_attempt_def)

lemma knows_status: "knows E d (t\<lparr>t_Status := s\<rparr>) a = knows E d t a"
  by (simp add: knows_def)

section \<open>The two relations\<close>

definition calls_ok :: "world \<Rightarrow> world \<Rightarrow> bool" where
  "calls_ok w w' = (\<exists>calls. w_git w' = w_git w @ calls \<and> list_all guarded calls)"

lemma calls_ok_same: "w_git w' = w_git w \<Longrightarrow> calls_ok w w'"
  by (simp add: calls_ok_def)

lemma calls_ok_trans: "calls_ok u v \<Longrightarrow> calls_ok v w \<Longrightarrow> calls_ok u w"
  by (auto simp: calls_ok_def)

definition runs :: "env \<Rightarrow> world \<Rightarrow> world \<Rightarrow> bool" where
  "runs E w w' = (calls_ok w w' \<and> (good E w \<longrightarrow> good E w' \<and> sys_step\<^sup>*\<^sup>* (w_db w) (w_db w')))"

text \<open>The fields that decide a run's course.\<close>

definition frame :: "world \<Rightarrow> Task \<times> TaskAttempt \<times> bool \<times> Report option \<times> bool \<times> bool \<times> retryContext option" where
  "frame w = (x_task w, x_attempt w, x_attemptOpen w, x_report w, x_retryable w, x_retryPending w, x_retry w)"

definition side :: "env \<Rightarrow> world \<Rightarrow> world \<Rightarrow> bool" where
  "side E w w' = (frame w' = frame w \<and> runs E w w')"

text \<open>What may happen between the beginning of a transaction and its commit.\<close>

definition inside :: "world \<Rightarrow> world \<Rightarrow> bool" where
  "inside w w' = (calls_ok w w' \<and> frame w' = frame w)"

lemma runs_refl: "runs E w w"
  by (simp add: runs_def calls_ok_same)

lemma runs_trans: "runs E u v \<Longrightarrow> runs E v w \<Longrightarrow> runs E u w"
  using calls_ok_trans by (fastforce simp: runs_def)

interpretation runs: act_order "runs E" for E
  by unfold_locales (auto intro: runs_refl runs_trans)

interpretation side: act_order "side E" for E
  by unfold_locales (auto simp: side_def intro: runs_refl runs_trans)

interpretation inside: act_order inside
  by unfold_locales (auto simp: inside_def calls_ok_same intro: calls_ok_trans)

lemma side_runs: "state_io_rel (side E) m \<Longrightarrow> state_io_rel (runs E) m"
  by (auto simp: state_io_rel_def side_def)

lemma side_inside: "state_io_rel (side E) m \<Longrightarrow> state_io_rel inside m"
  by (auto simp: state_io_rel_def side_def inside_def runs_def)

lemma git_only_side: "git_only w w' \<Longrightarrow> side E w w'"
  by (auto simp: git_only_def side_def runs_def frame_def calls_ok_def good_def)

lemma side_git: "state_io_rel git_only m \<Longrightarrow> state_io_rel (side E) m"
  by (auto simp: state_io_rel_def intro: git_only_side)

lemma side_good: "side E w w' \<Longrightarrow> good E w \<Longrightarrow> good E w'"
  by (simp add: side_def runs_def)

lemma side_step:
  assumes "calls_ok w w'" "frame w' = frame w"
    and "good E w \<Longrightarrow> sys_step\<^sup>*\<^sup>* (w_db w) (w_db w') \<and> rows_from (own_ids E) (w_db w) (w_db w')"
  shows "side E w w'"
  using assms sys_steps_ok knows_step by (auto simp: side_def runs_def good_def frame_def)

lemma side_turn: "state_io_rel (side E) (turn E)"
  by (rule state_io_relI, rule side_step)
    (auto simp: run_turn calls_ok_same frame_def good_def others_ok_def)

lemma inside_in_db: "state_io_rel inside (in_db m)"
  by (rule state_io_relI) (auto simp: run_in_db inside_def calls_ok_same frame_def)

lemma side_in_db:
  assumes "\<And>d x e. m d = Inr (x, e) \<Longrightarrow> quiet d e"
  shows "state_io_rel (side E) (in_db m)"
proof (rule state_io_relI)
  fix r w w' assume "run_state (in_db m) w = (r, w')"
  then consider "w' = w" | x e where "m (w_db w) = Inr (x, e)" "w' = w\<lparr>w_db := e\<rparr>" by (auto simp: run_in_db)
  then show "side E w w'"
  proof cases
    case 1
    then show ?thesis by (simp add: side.R_refl)
  next
    case 2
    then have "quiet (w_db w) e" using assms by blast
    then show ?thesis using 2
      by (intro side_step) (auto simp: calls_ok_same frame_def intro: sys_step.quiet_step kept_rows_from quiet_kept)
  qed
qed

lemma side_stmt: "(\<And>d x e. m d = Inr (x, e) \<Longrightarrow> quiet d e) \<Longrightarrow> state_io_rel (side E) (stmt E m)"
  unfolding stmt_def by (intro side.moves_actions side_turn side_in_db) auto

lemma quiet_refl: "quiet d d"
  by (simp add: quiet_def list_all2_id same_attempt_refl)

lemma side_query: "state_io_rel (side E) (query E q)"
  unfolding query_def by (rule side_stmt) (auto simp: tx_read_Inr_iff quiet_refl)

lemma run_rows_aside:
  "CreateWorkerRun r d = Inr (x, e) \<Longrightarrow> aside d e" "CreateVerificationRun v d = Inr (y, e) \<Longrightarrow> aside d e"
  "SetWorktreeAgentTree i t d = Inr (u, e) \<Longrightarrow> aside d e"
  by (auto simp: CreateWorkerRun_def CreateVerificationRun_def SetWorktreeAgentTree_def aside_def Let_def set_worktree_def
      split: if_splits)

lemma side_stmts:
  "state_io_rel (side E) (stmt E (CreateWorkerRun r))" "state_io_rel (side E) (stmt E (CreateVerificationRun v))"
  "state_io_rel (side E) (stmt E (SetWorktreeAgentTree i t))" "state_io_rel (side E) (stmt E (SetWorktreeHead i h))"
  "state_io_rel (side E) (stmt E (SetWorktreeStatus i s))"
  by (intro side_stmt aside_quiet, auto intro: run_rows_aside worktree_ops_aside)+

end
