(* ===== verification/RunEffects.thy ===== *)
theory RunEffects
  imports RunRules
begin

text \<open>
  The actions of the worker between an attempt's start and its ending: each keeps to \<open>side\<close>. A
  transaction of the worker is shown to be the lifecycle transaction of the same name on the
  database, and that to be a step of the system.
\<close>

section \<open>Transactions\<close>

lemma commit_inside: "state_io_rel inside (commit_tx c before r)"
  unfolding commit_tx_def
  by (cases r; cases c)
    (auto intro!: inside.moves_actions inside.moves_assign simp: inside_def calls_ok_same frame_def)

lemma inTx_side:
  assumes run: "run_state (inTx E body) w0 = (r, w')" and body: "state_io_rel inside body"
    and commits: "\<And>w x w'. run_state body w = (Inr x, w') \<Longrightarrow> good E w \<Longrightarrow> frame w = frame w0 \<Longrightarrow>
      w_db w = e_others E (w_tick w0) (w_db w0) \<Longrightarrow> sys_step\<^sup>*\<^sup>* (w_db w) (w_db w') \<and> kept (w_db w) (w_db w')"
  shows "side E w0 w'"
proof -
  obtain w where t: "side E w0 w" and db: "w_db w = e_others E (w_tick w0) (w_db w0)"
    and rest: "w' = w \<or> run_state (ebind (reads w_db) (\<lambda>before. catch body (commit_tx (e_conn E (w_tick w0)) before))) w = (r, w')"
  proof -
    let ?w = "w0\<lparr>w_tick := Suc (w_tick w0), w_db := e_others E (w_tick w0) (w_db w0)\<rparr>"
    have "run_state (turn E) w0 = (Inr (w_tick w0), ?w)" by (simp add: run_turn)
    then have "side E w0 ?w" using side_turn by blast
    moreover have "?w = w' \<or> run_state (ebind (reads w_db) (\<lambda>before. catch body (commit_tx (e_conn E (w_tick w0)) before))) ?w = (r, w')"
      using run by (auto simp: inTx_def run_ebind run_turn run_err split: if_splits)
    ultimately show ?thesis using that [of ?w] by fastforce
  qed
  from rest have "side E w w'"
  proof
    assume "run_state (ebind (reads w_db) (\<lambda>before. catch body (commit_tx (e_conn E (w_tick w0)) before))) w = (r, w')"
    then obtain q u where b: "run_state body w = (q, u)" and c: "run_state (commit_tx (e_conn E (w_tick w0)) (w_db w) q) u = (r, w')"
      by (auto simp: run_ebind run_reads run_catch)
    have "inside w u" using body b by blast
    moreover have "inside u w'" using commit_inside c by blast
    ultimately have ins: "inside w w'" by (rule inside.R_trans)
    have fr: "frame w = frame w0" using t by (simp add: side_def)
    have "w_db w' = w_db w \<or> (\<exists>x. q = Inr x \<and> w_db w' = w_db u)"
      using c by (cases q; cases "e_conn E (w_tick w0)") (auto simp: commit_tx_def run_eseq run_assign run_err run_ok)
    then show "side E w w'"
    proof
      assume "w_db w' = w_db w"
      with ins show ?thesis by (intro side_step) (auto simp: inside_def intro: kept_rows_from kept_refl)
    next
      assume "\<exists>x. q = Inr x \<and> w_db w' = w_db u"
      with b commits [OF _ _ fr db] ins show ?thesis by (intro side_step) (auto simp: inside_def intro: kept_rows_from)
    qed
  qed (simp add: side.R_refl)
  with t show ?thesis by (rule side.R_trans)
qed

lemma side_inTx:
  assumes body: "state_io_rel inside body"
    and commits: "\<And>w x w'. run_state body w = (Inr x, w') \<Longrightarrow> good E w \<Longrightarrow>
      sys_step\<^sup>*\<^sup>* (w_db w) (w_db w') \<and> kept (w_db w) (w_db w')"
  shows "state_io_rel (side E) (inTx E body)"
  by (rule state_io_relI, rule inTx_side [OF _ body]) (auto dest: commits)

lemma side_best_effort: "state_io_rel (side E) m \<Longrightarrow> state_io_rel (side E) (best_effort m)"
  unfolding best_effort_def by (intro side.moves_actions)

lemma inside_tick: "state_io_rel inside tick"
  by (rule state_io_relI) (auto simp: run_tick inside_def calls_ok_same frame_def)

lemma inside_events:
  "state_io_rel inside (append_event E aid ty pay)" "state_io_rel inside (own_event E ty pay)"
  "state_io_rel inside (fence E)"
  unfolding append_event_def own_event_def fence_def
  by (intro inside.moves_actions inside_tick inside_in_db)+

lemma good_parts:
  assumes "good E w"
  shows "own_attempt (w_db w) (t_ID (x_task w)) (a_ID (x_attempt w))" "db_ok (w_db w)"
    "knows E (w_db w) (x_task w) (x_attempt w)"
  using assms knows_own by (auto simp: good_def)

lemma side_emit:
  assumes silent: "event_status ty = None"
  shows "state_io_rel (side E) (emit E ty pay)"
  unfolding emit_def run_write_def
proof (intro side_best_effort side_inTx)
  show "state_io_rel inside (eseq (fence E)
      (ebind (reads (\<lambda>w. attempt_ref (a_ID (x_attempt w)))) (\<lambda>a. append_event E a ty pay)))"
    by (intro inside.moves_actions inside_events)
next
  fix w x w'
  assume run: "run_state (eseq (fence E)
      (ebind (reads (\<lambda>w. attempt_ref (a_ID (x_attempt w)))) (\<lambda>a. append_event E a ty pay))) w = (Inr x, w')"
    and g: "good E w"
  then have tx: "emit_tx (x_attemptOpen w) (t_ID (x_task w)) (a_ID (x_attempt w)) (e_owner E) ty
      (e_uuid E (w_tick w), e_now E (w_tick w), pay) (w_db w) = Inr ((), w_db w')"
    by (auto simp: run_inverts emit_tx_def tx_iffs)
  from sys_step.inform [OF tx silent good_parts(1) [OF g]] tx_kept(2) [OF tx]
  show "sys_step\<^sup>*\<^sup>* (w_db w) (w_db w') \<and> kept (w_db w) (w_db w')" by auto
qed

lemma inside_record: "state_io_rel inside (assign (\<lambda>w. w\<lparr>x_record := f w\<rparr>))"
  by (intro inside.moves_assign) (simp add: inside_def calls_ok_same frame_def)

lemma side_record_worktree: "state_io_rel (side E) (record_worktree E c pay)"
  unfolding record_worktree_def
proof (intro side_inTx)
  show "state_io_rel inside (eseq (fence E) (ebind (reads (\<lambda>w. a_ID (x_attempt w))) (\<lambda>a. ebind tick (\<lambda>n.
       ebind (in_db (CreateWorktree (new_worktree (e_uuid E n) a c))) (\<lambda>recorded.
         eseq (assign (\<lambda>w. w\<lparr>x_record := Some recorded\<rparr>))
           (append_event E (Some a) TypeWorktreeCreated pay))))))"
    by (intro inside.moves_actions inside_events inside_tick inside_in_db inside_record)
next
  fix w x w'
  assume run: "run_state (eseq (fence E) (ebind (reads (\<lambda>w. a_ID (x_attempt w))) (\<lambda>a. ebind tick (\<lambda>n.
       ebind (in_db (CreateWorktree (new_worktree (e_uuid E n) a c))) (\<lambda>recorded.
         eseq (assign (\<lambda>w. w\<lparr>x_record := Some recorded\<rparr>))
           (append_event E (Some a) TypeWorktreeCreated pay)))))) w = (Inr x, w')"
    and g: "good E w"
  let ?n = "w_tick w"
  from run obtain v where tx: "worktree_tx (x_attemptOpen w) (t_ID (x_task w)) (a_ID (x_attempt w)) (e_owner E)
      (new_worktree (e_uuid E ?n) (a_ID (x_attempt w)) c)
      (e_uuid E (Suc ?n), e_now E (Suc ?n), pay) (w_db w) = Inr (v, w_db w')"
    by (auto simp: run_inverts worktree_tx_def tx_iffs)
  from sys_step.worktree [OF tx good_parts(1) [OF g]] tx_kept(3) [OF tx]
  show "sys_step\<^sup>*\<^sup>* (w_db w) (w_db w') \<and> kept (w_db w) (w_db w')" by auto
qed

lemma inside_retainTx: "state_io_rel inside (retainWorktreeTx E reason)"
  unfolding retainWorktreeTx_def by (intro inside.moves_actions inside_events inside_in_db inside_record)

lemma run_retain_Inr:
  assumes "run_state (retainWorktreeTx E reason) w = (Inr x, w')"
  shows "\<exists>st. retain_tx (t_ID (x_task w)) (a_ID (x_attempt w)) (map_option w_ID (x_record w)) st (w_db w)
      = Inr ((), w_db w')"
proof (cases "x_record w")
  case None
  with assms show ?thesis by (auto simp: retainWorktreeTx_def run_inverts retain_tx_def tx_iffs)
next
  case (Some v)
  let ?st = "(e_uuid E (w_tick w), e_now E (w_tick w),
    [(''path'', JStr (w_Path v)), (''branch'', JStr (w_Branch v)), (''reason'', JStr reason)])"
  have "retain_tx (t_ID (x_task w)) (a_ID (x_attempt w)) (Some (w_ID v)) ?st (w_db w) = Inr ((), w_db w')"
    using assms Some by (auto simp: retainWorktreeTx_def run_inverts retain_tx_def tx_iffs)
  with Some show ?thesis by auto
qed

lemma side_retainWorktree: "state_io_rel (side E) (retainWorktree E reason)"
  unfolding retainWorktree_def run_write_def
proof (intro side_inTx inside.moves_actions inside_events inside_retainTx)
  fix w x w'
  assume run: "run_state (eseq (fence E) (retainWorktreeTx E reason)) w = (Inr x, w')" and g: "good E w"
  then obtain u where u: "run_state (fence E) w = (Inr (), u)" "run_state (retainWorktreeTx E reason) u = (Inr x, w')"
    by (auto simp: run_eseq_Inr)
  from u(1) obtain d where d: "fence_tx (x_attemptOpen w) (t_ID (x_task w)) (a_ID (x_attempt w)) (e_owner E) (w_db w) = Inr ((), d)"
    "u = w\<lparr>w_db := d\<rparr>" by (auto simp: run_fence_Inr)
  obtain st where st: "retain_tx (t_ID (x_task w)) (a_ID (x_attempt w)) (map_option w_ID (x_record w)) st d = Inr ((), w_db w')"
    using run_retain_Inr [OF u(2)] d(2) by auto
  from d(1) st have tx: "tx_seq (fence_tx (x_attemptOpen w) (t_ID (x_task w)) (a_ID (x_attempt w)) (e_owner E))
      (retain_tx (t_ID (x_task w)) (a_ID (x_attempt w)) (map_option w_ID (x_record w)) st) (w_db w) = Inr ((), w_db w')"
    by (auto simp: tx_iffs)
  from sys_step.retain [OF tx good_parts(1) [OF g]] tx_kept(4) [OF tx]
  show "sys_step\<^sup>*\<^sup>* (w_db w) (w_db w') \<and> kept (w_db w) (w_db w')" by auto
qed

section \<open>The worktree, the agent and the inspection\<close>

lemma side_assign: "(\<And>w. w_db (f w) = w_db w \<and> w_git (f w) = w_git w \<and> frame (f w) = frame w) \<Longrightarrow> state_io_rel (side E) (assign f)"
  by (intro side.moves_assign side_step) (auto simp: calls_ok_same intro: kept_rows_from kept_refl)

lemma side_assigns:
  "state_io_rel (side E) (assign (\<lambda>w. w\<lparr>x_worktree := g w\<rparr>))"
  "state_io_rel (side E) (assign (\<lambda>w. w\<lparr>x_sharedBefore := s w\<rparr>))"
  "state_io_rel (side E) (assign (\<lambda>w. w\<lparr>x_workerRun := k w\<rparr>))"
  "state_io_rel (side E) (assign (\<lambda>w. w\<lparr>x_record := h w\<rparr>))"
  "state_io_rel (side E) (assign (\<lambda>w. w\<lparr>x_agentHead := a w, x_agentTree := b w\<rparr>))"
  "state_io_rel (side E) (assign (\<lambda>w. w\<lparr>x_testsModified := t w\<rparr>))"
  "state_io_rel (side E) (assign (\<lambda>w. w\<lparr>x_failureKind := q w\<rparr>))"
  by (intro side_assign; simp add: frame_def)+

lemma side_asks:
  "state_io_rel (side E) tick" "state_io_rel (side E) (ask f)" "state_io_rel (side E) (ask_git g)"
  by (intro side_git git_only_basics)+

lemmas side_gits = git_only_operations [THEN side_git]

lemmas side_rules = side.moves_actions side_asks side_best_effort side_query side_stmts side_assigns
  side_retainWorktree side_record_worktree

lemma side_snapshot: "state_io_rel (side E) (snapshot_baseline E c)"
  unfolding snapshot_baseline_def by (intro side_rules side_gits)

lemma side_prepare: "state_io_rel (side E) (prepareWorktree E)"
  unfolding prepareWorktree_def by (intro side_rules side_gits side_snapshot side_emit) simp

lemma side_continue: "state_io_rel (side E) (continueWorktree E c rc)"
  unfolding continueWorktree_def by (intro side_rules side_gits side_snapshot)

lemma side_persistRun: "state_io_rel (side E) (persistWorkerRun E c res version)"
  unfolding persistWorkerRun_def by (intro side_rules side_gits)

lemma side_progress: "state_io_rel (side E) (emit_progress E ps)"
  by (induction ps) (auto simp only: emit_progress.simps event_status.simps intro!: side_rules side_emit)

lemma side_runAgent: "state_io_rel (side E) (runAgent E c)"
  unfolding runAgent_def prompt_of_def projectReadDirs_def
  by (intro side_rules side_progress side_persistRun side_emit; simp)

lemma side_containment: "state_io_rel (side E) (checkContainment E c)"
  unfolding checkContainment_def dropConcurrentBranches_def unreadable_def
  by (intro side_rules side_gits side_emit; simp)

lemma side_deliver:
  "state_io_rel (side E) (snapshotAgentTree E c)" "state_io_rel (side E) (reportFilesAdded E c)"
  "state_io_rel (side E) (reportWorktreeDrift E c)" "state_io_rel (side E) (reportCoverage E c dir)"
  "state_io_rel (side E) (cleanCheckout E c)"
  unfolding snapshotAgentTree_def reportFilesAdded_def reportWorktreeDrift_def reportCoverage_def cleanCheckout_def
    delivered_tree_def measureCoverage_def
  by (intro side_rules side_gits side_emit; simp)+

lemma side_persistVerification: "state_io_rel (side E) (persistVerification E vs)"
  by (induction vs) (auto simp only: persistVerification.simps event_status.simps intro!: side_rules side_emit)

lemma side_checks: "state_io_rel (side E) (run_checks E dir)"
  unfolding run_checks_def by (intro side_rules)

lemma side_cleanup: "state_io_rel (side E) (cleanupAfterSuccess E c)"
  unfolding cleanupAfterSuccess_def by (intro side_rules side_gits side_emit; simp)

lemma inside_git: "state_io_rel git_only m \<Longrightarrow> state_io_rel inside m"
  by (intro side_inside side_git)

end
