(* ===== verification/RunSafety.thy ===== *)
theory RunSafety
  imports RunEffects
begin

text \<open>
  The actions that end an attempt, start the next or move the task: what each needs of the run,
  and what holds after it on every branch, errors included. Together they give the behaviour of
  one attempt and of the whole loop.
\<close>

section \<open>Small pieces\<close>

lemma frameD:
  assumes "frame w' = frame w"
  shows "x_task w' = x_task w" "x_attempt w' = x_attempt w" "x_attemptOpen w' = x_attemptOpen w"
    "x_report w' = x_report w" "x_retryPending w' = x_retryPending w" "x_retry w' = x_retry w"
  using assms by (simp_all add: frame_def)

lemma sideD: "state_io_rel (side E) m \<Longrightarrow> run_state m w = (r, w') \<Longrightarrow> side E w w'"
  by blast

lemma side_frame: "side E w w' \<Longrightarrow> frame w' = frame w"
  by (simp add: side_def)

lemma side_is_runs: "side E w w' \<Longrightarrow> runs E w w'"
  by (simp add: side_def)

lemma insideD: "state_io_rel inside m \<Longrightarrow> run_state m w = (r, w') \<Longrightarrow> frame w' = frame w"
  by (auto simp: inside_def dest: state_io_relD)

lemma gitD: "state_io_rel git_only m \<Longrightarrow> run_state m w = (r, w') \<Longrightarrow> frame w' = frame w \<and> w_db w' = w_db w"
  by (auto simp: git_only_def frame_def dest!: state_io_relD)

text \<open>Assigning the status the row just got, or closing the attempt, keeps the picture true.\<close>

lemma runs_local:
  assumes "w_db w' = w_db w" "w_git w' = w_git w" "x_attempt w' = x_attempt w"
    and "t_ID (x_task w') = t_ID (x_task w)" "t_MaxRetries (x_task w') = t_MaxRetries (x_task w)"
  shows "runs E w w'"
  using assms by (simp add: runs_def calls_ok_same good_def knows_def)

lemma run_outcome: "run_state outcome w = (r, w') \<longleftrightarrow> r = Inr (outcome_of w) \<and> w' = w"
  by (auto simp: outcome_def run_reads)

section \<open>An ending recorded elsewhere\<close>

lemma run_query:
  assumes "run_state (query E q) w = (Inr x, v)"
  shows "q (w_db v) = Inr x"
  using assms by (auto simp: query_def stmt_def run_ebind run_turn run_err run_in_db tx_read_Inr_iff split: if_splits)

lemma GetTask_Inr: "GetTask i d = Inr t \<Longrightarrow> t \<in> set (db_tasks d) \<and> t_ID t = i"
  by (auto simp: GetTask_def task_row_def split: option.splits dest!: find_SomeD)

lemma task_in_member:
  "task_in d i m \<Longrightarrow> db_ok d \<Longrightarrow> t \<in> set (db_tasks d) \<Longrightarrow> t_ID t = i \<Longrightarrow> t_MaxRetries t = m"
  by (auto simp: task_in_def db_ok_def well_formed_def distinct_map dest: inj_onD)

lemma adopt_spec:
  assumes run: "run_state (adopt E current) w = (r, w')"
    and cur: "current \<in> set (db_tasks (w_db w))" "t_ID current = t_ID (x_task w)"
  shows "runs E w w'" "r = Inr ()" "x_task w' = current" "x_report w' = x_report w" "x_retryPending w' = x_retryPending w"
proof -
  let ?w = "w\<lparr>x_task := current, x_attemptOpen := False\<rparr>"
  let ?m = "ebind (reads (\<lambda>w. a_ID (x_attempt w))) (\<lambda>a.
          catch (query E (GetWorktreeByAttempt a)) (\<lambda>r. case r of
              Inl _ \<Rightarrow> ok () | Inr v \<Rightarrow> assign (\<lambda>w. w\<lparr>x_record := Some v\<rparr>)))"
  have m: "run_state ?m ?w = (r, w')" using run by (auto simp: adopt_def run_eseq run_assign)
  have "state_io_rel (side E) ?m" by (intro side_rules)
  then have sd: "side E ?w w'" using m by blast
  have "runs E w ?w"
    using cur task_in_member by (auto simp: runs_def calls_ok_same good_def knows_def)
  with sd show "runs E w w'" by (auto intro: runs_trans side_is_runs)
  have ends: "r' = Inr ()" if "run_state (case q of Inl _ \<Rightarrow> ok () | Inr v \<Rightarrow> assign (\<lambda>w. w\<lparr>x_record := Some v\<rparr>)) u = (r', v)"
    for q u r' v using that by (cases q) (simp_all add: run_ok run_assign)
  show "r = Inr ()" using m by (auto simp only: run_ebind run_reads run_catch dest: ends)
  show "x_task w' = current" "x_report w' = x_report w" "x_retryPending w' = x_retryPending w"
    using frameD [OF side_frame [OF sd]] by simp_all
qed

text \<open>The two results: nothing known, or the outcome of a cancelled task.\<close>

definition cancelled_or_same :: "env \<Rightarrow> world \<Rightarrow> werr + Outcome option \<Rightarrow> world \<Rightarrow> bool" where
  "cancelled_or_same E w r w' =
     (runs E w w' \<and> x_retryPending w' = x_retryPending w
      \<and> (r = Inr None \<and> frame w' = frame w
         \<or> (\<exists>out. r = Inr (Some out) \<and> t_Status (o_Task out) = StatusCancelled)))"

lemma cancelledElsewhere_spec:
  assumes "run_state (cancelledElsewhere E e) w = (r, w')"
  shows "cancelled_or_same E w r w'"
proof (cases "e \<noteq> WStore ErrConflict \<and> e \<noteq> WStore ErrLeaseLost")
  case True
  with assms show ?thesis by (auto simp: cancelledElsewhere_def run_ok cancelled_or_same_def runs_refl)
next
  case False
  with assms obtain q v where q: "run_state (query E (GetTask (t_ID (x_task w)))) w = (q, v)"
    and rest: "run_state (case q of Inl _ \<Rightarrow> ok None
          | Inr current \<Rightarrow>
              if t_Status current \<noteq> StatusCancelled then ok None
              else eseq (adopt E current) (ebind outcome (\<lambda>out. ok (Some out)))) v = (r, w')"
    by (auto simp: cancelledElsewhere_def run_ebind run_reads run_catch)
  have sd: "side E w v" by (rule sideD [OF side_query q])
  note fr = side_frame [OF sd]
  show ?thesis
  proof (cases "r = Inr None \<and> w' = v")
    case True
    with sd fr show ?thesis by (simp add: cancelled_or_same_def frameD(5) [OF fr] side_is_runs)
  next
    case False
    then obtain cur where cur: "q = Inr cur" "t_Status cur = StatusCancelled"
      using rest by (cases q) (auto simp: run_ok split: if_splits)
    have mem: "cur \<in> set (db_tasks (w_db v))" "t_ID cur = t_ID (x_task v)"
      using GetTask_Inr [OF run_query [OF q [unfolded cur(1)]]] frameD [OF fr] by simp_all
    obtain y u where y: "run_state (adopt E cur) v = (y, u)" by fastforce
    have "y = Inr ()" by (rule adopt_spec(2) [OF y mem])
    with y have u: "run_state (adopt E cur) v = (Inr (), u)" by simp
    have "r = Inr (Some (outcome_of u))" "w' = u"
      using rest cur u by (auto simp: run_eseq run_ebind run_outcome run_ok)
    note ad = adopt_spec [OF u(1) mem]
    have "runs E w u" using side_is_runs [OF sd] ad(1) by (rule runs_trans)
    with ad \<open>r = _\<close> \<open>w' = u\<close> cur show ?thesis
      by (simp add: cancelled_or_same_def outcome_of_def frameD(5) [OF fr])
  qed
qed

text \<open>What follows a refused write: the outcome of a cancellation, or the error.\<close>

lemma elsewhere_or_error:
  assumes "run_state (ebind (cancelledElsewhere E e) (\<lambda>o'. case o' of
      Some out \<Rightarrow> ok (g out) | None \<Rightarrow> err e')) w = (r, w')"
  shows "runs E w w' \<and> x_retryPending w' = x_retryPending w
    \<and> (r = Inl e' \<or> (\<exists>out. r = Inr (g out) \<and> t_Status (o_Task out) = StatusCancelled))"
proof -
  obtain q u where q: "run_state (cancelledElsewhere E e) w = (q, u)" by fastforce
  have "cancelled_or_same E w q u" by (rule cancelledElsewhere_spec [OF q])
  with q assms show ?thesis
    by (auto simp: cancelled_or_same_def run_ebind run_ok run_err split: option.splits)
qed

section \<open>Failing\<close>

lemma fail_transaction_side:
  assumes run: "run_state (fail_transaction E cancelled kind message) w = (r, w')" and opn: "x_attemptOpen w"
  shows "side E w w'"
  using run unfolding fail_transaction_def
proof (rule inTx_side)
  show "state_io_rel inside (eseq (fence E) (eseq (retainWorktreeTx E message)
       (ebind (reads id) (\<lambda>w.
        eseq (in_db (ending_tx (t_ID (x_task w)) (a_ID (x_attempt w)) (t_Status (x_task w))
                        (if cancelled then StatusCancelled else StatusFailed)
                        (if cancelled then AttemptCancelled else AttemptFailed) kind message))
          (own_event E (if cancelled then TypeTaskCancelled else TypeTaskFailed) (failed_payload w kind message))))))"
    by (intro inside.moves_actions inside_events inside_retainTx inside_in_db)
next
  fix v x v'
  assume body: "run_state (eseq (fence E) (eseq (retainWorktreeTx E message)
       (ebind (reads id) (\<lambda>w.
        eseq (in_db (ending_tx (t_ID (x_task w)) (a_ID (x_attempt w)) (t_Status (x_task w))
                        (if cancelled then StatusCancelled else StatusFailed)
                        (if cancelled then AttemptCancelled else AttemptFailed) kind message))
          (own_event E (if cancelled then TypeTaskCancelled else TypeTaskFailed) (failed_payload w kind message)))))) v = (Inr x, v')"
    and fr: "frame v = frame w"
  let ?i = "t_ID (x_task w)" and ?a = "a_ID (x_attempt w)"
  obtain u1 u2 where u: "run_state (fence E) v = (Inr (), u1)" "run_state (retainWorktreeTx E message) u1 = (Inr (), u2)"
    and rest: "run_state (eseq (in_db (ending_tx (t_ID (x_task u2)) (a_ID (x_attempt u2)) (t_Status (x_task u2))
                        (if cancelled then StatusCancelled else StatusFailed)
                        (if cancelled then AttemptCancelled else AttemptFailed) kind message))
          (own_event E (if cancelled then TypeTaskCancelled else TypeTaskFailed) (failed_payload u2 kind message))) u2 = (Inr x, v')"
    using body by (auto simp: run_eseq_Inr run_ebind_Inr run_reads)
  have f1: "frame u1 = frame w" using insideD [OF inside_events(3) u(1)] fr by simp
  have f2: "frame u2 = frame w" using insideD [OF inside_retainTx u(2)] f1 by simp
  obtain st where st: "retain_tx ?i ?a (map_option w_ID (x_record u1)) st (w_db u1) = Inr ((), w_db u2)"
    using run_retain_Inr [OF u(2)] frameD [OF f1] by auto
  have fence: "fence_tx True ?i ?a (e_owner E) (w_db v) = Inr ((), w_db u1)"
    using u(1) opn frameD [OF fr] by (auto simp: run_fence_Inr)
  obtain st2 d where en: "ending_tx ?i ?a (t_Status (x_task w))
        (if cancelled then StatusCancelled else StatusFailed)
        (if cancelled then AttemptCancelled else AttemptFailed) kind message (w_db u2) = Inr ((), d)"
    and ev: "appendEvent st2 ?i (Some ?a) (if cancelled then TypeTaskCancelled else TypeTaskFailed) d = Inr ((), w_db v')"
    using rest frameD [OF f2] by (auto simp: run_eseq_Inr run_in_db_Inr run_own_event_Inr)
  have tx: "fail_tx True ?i ?a (e_owner E) (map_option w_ID (x_record u1)) st (t_Status (x_task w)) cancelled kind message st2 (w_db v)
      = Inr ((), w_db v')"
    using fence st en ev by (auto simp: fail_tx_def tx_iffs)
  from sys_step.fail_task [OF tx] tx_kept(5) [OF tx]
  show "sys_step\<^sup>*\<^sup>* (w_db v) (w_db v') \<and> kept (w_db v) (w_db v')" by auto
qed

definition ended_badly :: "Outcome \<Rightarrow> bool" where
  "ended_badly out = (t_Status (o_Task out) = StatusFailed \<or> t_Status (o_Task out) = StatusCancelled)"

lemma record_failure_spec:
  assumes run: "run_state (record_failure E cancelled kind cause) w = (r, w')" and opn: "x_attemptOpen w"
  shows "runs E w w' \<and> x_retryPending w' = x_retryPending w
    \<and> (\<forall>x. r = Inr x \<longrightarrow> (\<exists>out. x = Some out \<and> ended_badly out))"
proof -
  let ?kind = "if cancelled then FailureCancelled else kind"
  let ?w = "w\<lparr>x_failureKind := ?kind\<rparr>"
  obtain q u where q: "run_state (fail_transaction E cancelled ?kind (e_text E cause)) ?w = (q, u)"
    and rest: "run_state (case q of
           Inr _ \<Rightarrow>
             eseq (assign (\<lambda>w. w\<lparr>x_task := (x_task w)\<lparr>t_Status := if cancelled then StatusCancelled else StatusFailed\<rparr>,
                                 x_attemptOpen := False\<rparr>))
               (ebind outcome (\<lambda>out. ok (Some out)))
         | Inl e \<Rightarrow> ebind (cancelledElsewhere E e) (\<lambda>o'. case o' of
             Some out \<Rightarrow> ok (Some out) | None \<Rightarrow> err e)) u = (r, w')"
    using run by (auto simp: record_failure_def Let_def run_eseq run_assign run_catch)
  have fw: "frame ?w = frame w" by (simp add: frame_def)
  have s0: "side E w ?w" by (rule side_step) (auto simp: calls_ok_same fw intro: kept_rows_from kept_refl)
  have s1: "side E ?w u" by (rule fail_transaction_side [OF q]) (simp add: opn)
  have sd: "runs E w u" "x_retryPending u = x_retryPending w"
    using s0 s1 frameD [OF side_frame [OF s1]] by (auto intro: runs_trans side_is_runs)
  show ?thesis
  proof (cases q)
    case (Inl e)
    with rest have "run_state (ebind (cancelledElsewhere E e) (\<lambda>o'. case o' of
             Some out \<Rightarrow> ok (Some out) | None \<Rightarrow> err e)) u = (r, w')" by simp
    from elsewhere_or_error [OF this] sd show ?thesis by (auto simp: ended_badly_def intro: runs_trans)
  next
    case (Inr x)
    let ?v = "u\<lparr>x_task := (x_task u)\<lparr>t_Status := if cancelled then StatusCancelled else StatusFailed\<rparr>,
      x_attemptOpen := False\<rparr>"
    have v: "w' = ?v" "r = Inr (Some (outcome_of ?v))"
      using rest Inr by (auto simp: run_eseq run_assign run_ebind run_outcome run_ok)
    have "runs E u ?v" by (rule runs_local) simp_all
    with sd v show ?thesis by (auto simp: ended_badly_def outcome_of_def intro: runs_trans)
  qed
qed

section \<open>Scheduling a retry\<close>

lemma git_partial: "state_io_rel git_only (git_work (commitPartialWork E c kind))"
  unfolding git_work_def commitPartialWork_def best_effort_def
  by (intro git_only.moves_actions git_only_operations)

definition may_retry :: "world \<Rightarrow> bool" where
  "may_retry w = (int (a_AttemptNumber (x_attempt w)) \<le> t_MaxRetries (x_task w))"

lemma retry_transaction_side:
  assumes run: "run_state (retry_transaction E c kind message) w = (r, w')" and opn: "x_attemptOpen w"
    and may: "may_retry w"
  shows "side E w w'"
  using run unfolding retry_transaction_def
proof (rule inTx_side)
  show "state_io_rel inside (eseq (fence E)
       (ebind (git_work (commitPartialWork E c kind)) (\<lambda>partial.
          ebind (reads id) (\<lambda>w.
          eseq (in_db (ending_tx (t_ID (x_task w)) (a_ID (x_attempt w)) (t_Status (x_task w)) StatusReady
                          AttemptFailed kind message))
            (eseq (in_db (reuse_tx (map_option w_ID (x_record w)) partial))
              (own_event E TypeRetryScheduled (retry_payload w c kind message partial)))))))"
    by (intro inside.moves_actions inside_events inside_in_db inside_git git_partial)
next
  fix v x v'
  assume body: "run_state (eseq (fence E)
       (ebind (git_work (commitPartialWork E c kind)) (\<lambda>partial.
          ebind (reads id) (\<lambda>w.
          eseq (in_db (ending_tx (t_ID (x_task w)) (a_ID (x_attempt w)) (t_Status (x_task w)) StatusReady
                          AttemptFailed kind message))
            (eseq (in_db (reuse_tx (map_option w_ID (x_record w)) partial))
              (own_event E TypeRetryScheduled (retry_payload w c kind message partial))))))) v = (Inr x, v')"
    and g: "good E v" and fr: "frame v = frame w"
  let ?i = "t_ID (x_task w)" and ?a = "a_ID (x_attempt w)"
  obtain u1 u2 partial where u: "run_state (fence E) v = (Inr (), u1)"
      "run_state (git_work (commitPartialWork E c kind)) u1 = (Inr partial, u2)"
    and rest: "run_state (eseq (in_db (ending_tx (t_ID (x_task u2)) (a_ID (x_attempt u2)) (t_Status (x_task u2)) StatusReady
                          AttemptFailed kind message))
            (eseq (in_db (reuse_tx (map_option w_ID (x_record u2)) partial))
              (own_event E TypeRetryScheduled (retry_payload u2 c kind message partial)))) u2 = (Inr x, v')"
    using body by (auto simp: run_eseq_Inr run_ebind_Inr run_reads)
  have f1: "frame u1 = frame w" using insideD [OF inside_events(3) u(1)] fr by simp
  have f2: "frame u2 = frame w" "w_db u2 = w_db u1" using gitD [OF git_partial u(2)] f1 by simp_all
  have fence: "fence_tx True ?i ?a (e_owner E) (w_db v) = Inr ((), w_db u1)"
    using u(1) opn frameD [OF fr] by (auto simp: run_fence_Inr)
  obtain st where tx2: "retry_tx ?i ?a (map_option w_ID (x_record u2)) partial (t_Status (x_task w)) kind message st (w_db u1)
      = Inr ((), w_db v')"
    using rest frameD [OF f2(1)] f2(2)
    by (auto simp: retry_tx_def tx_iffs run_eseq_Inr run_in_db_Inr run_own_event_Inr)
  have tx: "tx_seq (fence_tx True ?i ?a (e_owner E))
      (retry_tx ?i ?a (map_option w_ID (x_record u2)) partial (t_Status (x_task w)) kind message st) (w_db v) = Inr ((), w_db v')"
    using fence tx2 by (auto simp: tx_iffs)
  obtain a where a: "a \<in> set (db_attempts (w_db v))" "holds_lease ?i ?a (e_owner E) a"
    using fence_Inr(2) [OF fence] by blast
  have kn: "knows E (w_db v) (x_task w) (x_attempt w)" using g frameD [OF fr] by (simp add: good_def)
  then have "a_AttemptNumber a = a_AttemptNumber (x_attempt w)"
    using a by (auto simp: knows_def holds_lease_def same_attempt_def)
  moreover obtain t where t: "t \<in> set (db_tasks (w_db v))" "t_ID t = ?i" "t_MaxRetries t = t_MaxRetries (x_task w)"
    using kn by (auto simp: knows_def task_in_def)
  ultimately have "sys_step (w_db v) (w_db v')"
    using may a by (intro sys_step.retry_task [OF tx a(1) _ t(1,2)]) (simp_all add: may_retry_def holds_lease_def)
  with tx_kept(6) [OF tx] show "sys_step\<^sup>*\<^sup>* (w_db v) (w_db v') \<and> kept (w_db v) (w_db v')" by auto
qed

text \<open>The next attempt is pending: what \<open>execute\<close> finds then.\<close>

definition pending :: "world \<Rightarrow> world \<Rightarrow> bool" where
  "pending w w' =
     (x_retryPending w' \<and> \<not> x_attemptOpen w' \<and> may_retry w' \<and> x_task w' = (x_task w)\<lparr>t_Status := StatusReady\<rparr>
      \<and> x_attempt w' = x_attempt w)"

lemma scheduleRetry_spec:
  assumes run: "run_state (scheduleRetry E c kind cause) w = (r, w')" and opn: "x_attemptOpen w" and may: "may_retry w"
  shows "runs E w w' \<and> (r = Inr None \<longrightarrow> frame w' = frame w) \<and> (r = Inr (Some None) \<longrightarrow> pending w w')
    \<and> (\<forall>out. r = Inr (Some (Some out)) \<longrightarrow> x_retryPending w' = x_retryPending w \<and> ended_badly out)"
proof -
  obtain q u where q: "run_state (retry_transaction E c kind (e_text E cause)) w = (q, u)"
    and rest: "run_state (case q of
           Inr _ \<Rightarrow> eseq (assign (scheduled kind (e_text E cause))) (ok (Some None))
         | Inl e \<Rightarrow>
             if is_git_work e then ok None
             else ebind (cancelledElsewhere E e) (\<lambda>o'. case o' of
                 Some out \<Rightarrow> ok (Some (Some out)) | None \<Rightarrow> err e)) u = (r, w')"
    using run by (auto simp: scheduleRetry_def Let_def run_catch)
  have sd: "side E w u" by (rule retry_transaction_side [OF q opn may])
  note fr = frameD [OF side_frame [OF sd]]
  show ?thesis
  proof (cases q)
    case (Inr x)
    let ?v = "scheduled kind (e_text E cause) u"
    have v: "w' = ?v" "r = Inr (Some None)" using rest Inr by (auto simp: run_eseq run_assign run_ok)
    have "runs E u ?v" by (rule runs_local) (simp_all add: scheduled_def)
    moreover have "pending w ?v" using may fr by (simp add: pending_def scheduled_def may_retry_def)
    ultimately show ?thesis using v sd by (auto intro: runs_trans side_is_runs)
  next
    case (Inl e)
    show ?thesis
    proof (cases "is_git_work e")
      case True
      with Inl rest sd show ?thesis by (auto simp: run_ok side_def)
    next
      case False
      with Inl rest have "run_state (ebind (cancelledElsewhere E e) (\<lambda>o'. case o' of
             Some out \<Rightarrow> ok (Some (Some out)) | None \<Rightarrow> err e)) u = (r, w')" by simp
      from elsewhere_or_error [OF this] sd fr show ?thesis
        by (auto simp: ended_badly_def intro: runs_trans side_is_runs)
    qed
  qed
qed

lemma willRetry_spec:
  assumes "run_state (willRetry E kind) w = (r, w')"
  shows "side E w w'" "r = Inr True \<Longrightarrow> may_retry w"
proof -
  have "state_io_rel (side E) (willRetry E kind)" unfolding willRetry_def by (intro side_rules)
  with assms show "side E w w'" by blast
  show "r = Inr True \<Longrightarrow> may_retry w"
    using assms by (auto simp: willRetry_def run_ebind run_reads run_ask run_ok may_retry_def split: if_splits)
qed

lemma fail_spec:
  assumes run: "run_state (fail E kind cause) w = (r, w')" and opn: "x_attemptOpen w"
  shows "runs E w w' \<and> (r = Inr None \<longrightarrow> pending w w')
    \<and> (\<forall>out. r = Inr (Some out) \<longrightarrow> x_retryPending w' = x_retryPending w \<and> ended_badly out)"
proof -
  obtain ctx u0 where u0: "run_state (ask (e_ctx E)) w = (Inr ctx, u0)" by (auto simp: run_ask)
  let ?c = "kind = FailureCancelled \<or> ctx = CtxCanceled"
  have rest: "run_state (ebind (if ?c then ok False else willRetry E kind) (\<lambda>retry.
        ebind (reads x_worktree) (\<lambda>wt. case (retry, wt) of
          (True, Some c) \<Rightarrow> ebind (scheduleRetry E c kind cause) (\<lambda>r. case r of
                Some out \<Rightarrow> ok out | None \<Rightarrow> record_failure E ?c kind cause)
        | _ \<Rightarrow> record_failure E ?c kind cause))) u0 = (r, w')"
    using run u0 by (auto simp: fail_def Let_def run_ebind)
  have s0: "side E w u0" by (rule sideD [OF side_asks(2) u0])
  obtain q u1 where q: "run_state (if ?c then ok False else willRetry E kind) u0 = (q, u1)" by fastforce
  have s1: "side E u0 u1" and may0: "q = Inr True \<Longrightarrow> may_retry u0"
    using q willRetry_spec [of E kind u0 q u1] by (auto simp: run_ok side.R_refl split: if_splits)
  have sd: "side E w u1" using s0 s1 by (rule side.R_trans)
  note fr = frameD [OF side_frame [OF sd]] frameD [OF side_frame [OF s0]]
  have opn1: "x_attemptOpen u1" using opn fr by simp
  have bad: ?thesis if "run_state (record_failure E ?c kind cause) v = (r, w')" "runs E w v" "frame v = frame w" for v
    using record_failure_spec [OF that(1)] that(2) frameD [OF that(3)] opn by (auto intro: runs_trans)
  have sdr: "runs E w u1" by (rule side_is_runs [OF sd])
  consider e where "q = Inl e" | "q = Inr False" | "q = Inr True" by (cases q) auto
  then show ?thesis
  proof cases
    case 1
    then have "r = Inl e" "w' = u1" using rest q by (auto simp: run_ebind)
    with sdr show ?thesis by simp
  next
    case 2
    then have "run_state (record_failure E ?c kind cause) u1 = (r, w')"
      using rest q by (auto simp: run_ebind run_reads)
    from bad [OF this sdr side_frame [OF sd]] show ?thesis .
  next
    case 3
    show ?thesis
    proof (cases "x_worktree u1")
      case None
      then have "run_state (record_failure E ?c kind cause) u1 = (r, w')"
        using rest q 3 by (auto simp: run_ebind run_reads)
      from bad [OF this sdr side_frame [OF sd]] show ?thesis .
    next
      case (Some c)
      then have sch: "run_state (ebind (scheduleRetry E c kind cause) (\<lambda>r. case r of
                Some out \<Rightarrow> ok out | None \<Rightarrow> record_failure E ?c kind cause)) u1 = (r, w')"
        using rest q 3 by (auto simp: run_ebind run_reads)
      obtain x v where x: "run_state (scheduleRetry E c kind cause) u1 = (x, v)" by fastforce
      have may: "may_retry u1" using may0 3 fr by (simp add: may_retry_def)
      note spec = scheduleRetry_spec [OF x opn1 may]
      have rv: "runs E w v" using spec sdr by (blast intro: runs_trans)
      consider e where "x = Inl e" | "x = Inr None" | out where "x = Inr (Some out)"
        by (cases x) auto
      then show ?thesis
      proof cases
        case 1
        then have "r = Inl e" "w' = v" using sch x by (auto simp: run_ebind)
        with rv show ?thesis by simp
      next
        case 2
        then have "run_state (record_failure E ?c kind cause) v = (r, w')" using sch x by (auto simp: run_ebind)
        moreover have "frame v = frame w" using 2 spec side_frame [OF sd] by simp
        ultimately show ?thesis using bad rv by blast
      next
        case 3
        then have "r = Inr out" "w' = v" using sch x by (auto simp: run_ebind run_ok)
        with 3 spec rv fr show ?thesis by (cases out) (auto simp: pending_def)
      qed
    qed
  qed
qed

end
