(* ===== verification/RunLoop.thy ===== *)
theory RunLoop
  imports RunSafety
begin

text \<open>
  One attempt from its worktree to its outcome, and the loop over attempts: what each stage needs
  of the run and what it leaves. \<open>settled\<close> is what every path of an attempt ends in.
\<close>

section \<open>What an attempt needs and leaves\<close>

definition same_spec :: "Task \<Rightarrow> Task \<Rightarrow> bool" where
  "same_spec t u = (\<exists>s. u = t\<lparr>t_Status := s\<rparr>)"

definition attempting :: "Task \<Rightarrow> world \<Rightarrow> bool" where
  "attempting t w = (x_attemptOpen w \<and> \<not> x_retryPending w \<and> same_spec t (x_task w))"

text \<open>A report the verifier made of the task's own steps, and a list of changes that keeps the checks independent.\<close>

definition checked :: "env \<Rightarrow> Task \<Rightarrow> Report \<Rightarrow> bool" where
  "checked E t rep =
     (\<exists>req n. Runner_Run (c_Runner E) req (e_check E n) (e_elapsed E n) = Inr rep
        \<and> q_SetupSteps req = t_SetupSteps t \<and> q_Steps req = t_Verification t)"

definition independent :: "env \<Rightarrow> Task \<Rightarrow> bool" where
  "independent E t =
     (\<exists>c v v' changes. run_state (ChangedPaths E c) v = (Inr changes, v')
        \<and> Interceptions (t_SetupSteps t @ t_Verification t) (Changes_All changes) = []
        \<and> Violations (e_valid E) (e_glob E) (t_ProtectedPaths t) (ch_Committable changes) = Inr [])"

definition justified :: "env \<Rightarrow> Task \<Rightarrow> Outcome \<Rightarrow> bool" where
  "justified E t out =
     (\<exists>rep. o_Verification out = Some rep \<and> rp_Passed rep \<and> checked E t rep \<and> independent E t)"

definition good_end :: "env \<Rightarrow> Task \<Rightarrow> Outcome \<Rightarrow> bool" where
  "good_end E t out = (ended_badly out \<or> t_Status (o_Task out) = StatusSucceeded \<and> justified E t out)"

definition retrying :: "Task \<Rightarrow> TaskAttempt \<Rightarrow> world \<Rightarrow> bool" where
  "retrying t a w =
     (x_retryPending w \<and> \<not> x_attemptOpen w \<and> may_retry w \<and> same_spec t (x_task w) \<and> x_attempt w = a)"

definition settled :: "env \<Rightarrow> Task \<Rightarrow> world \<Rightarrow> werr + Outcome option \<Rightarrow> world \<Rightarrow> bool" where
  "settled E t w r w' =
     (runs E w w' \<and> (r = Inr None \<longrightarrow> retrying t (x_attempt w) w')
      \<and> (\<forall>out. r = Inr (Some out) \<longrightarrow> \<not> x_retryPending w' \<and> good_end E t out))"

text \<open>Stages that may stop the attempt: they leave it as it was, or settle it.\<close>

definition stopping :: "env \<Rightarrow> Task \<Rightarrow> world \<Rightarrow> werr + Outcome option option \<Rightarrow> world \<Rightarrow> bool" where
  "stopping E t w r w' =
     (runs E w w' \<and> (r = Inr None \<longrightarrow> attempting t w' \<and> x_attempt w' = x_attempt w)
      \<and> (\<forall>x. r = Inr (Some x) \<longrightarrow> settled E t w (Inr x) w'))"

lemma same_spec_refl: "same_spec t t"
  unfolding same_spec_def by (intro exI [of _ "t_Status t"]) simp

lemma same_spec_status: "same_spec t u \<Longrightarrow> same_spec t (u\<lparr>t_Status := s\<rparr>)"
  by (auto simp: same_spec_def)

lemma attempting_frame: "frame w' = frame w \<Longrightarrow> attempting t w \<Longrightarrow> attempting t w'"
  by (simp add: attempting_def frame_def)

lemma settled_before: "runs E w v \<Longrightarrow> x_attempt v = x_attempt w \<Longrightarrow> settled E t v r w' \<Longrightarrow> settled E t w r w'"
  by (auto simp: settled_def intro: runs_trans)

lemma settled_after: "settled E t w r v \<Longrightarrow> side E v w' \<Longrightarrow> settled E t w r w'"
  using frameD [OF side_frame] runs_trans side_is_runs
  by (fastforce simp: settled_def retrying_def may_retry_def)

lemma settled_error: "runs E w w' \<Longrightarrow> settled E t w (Inl e) w'"
  by (simp add: settled_def)

lemma fail_settled:
  assumes "run_state (fail E kind cause) w = (r, w')" "attempting t w"
  shows "settled E t w r w'"
  using fail_spec [OF assms(1)] assms(2)
  by (auto simp: settled_def attempting_def pending_def retrying_def good_end_def intro: same_spec_status)

lemma stopped_settled:
  assumes "run_state (stopped_with m) w = (r, w')" "\<And>q v. run_state m w = (q, v) \<Longrightarrow> settled E t w q v"
  shows "stopping E t w r w'"
  using assms by (fastforce simp: stopped_with_def run_ebind run_ok stopping_def settled_def)

lemma run_deferring:
  assumes "run_state (deferring cleanup m) w = (r, w')"
  shows "\<exists>u q. run_state m w = (r, u) \<and> run_state cleanup u = (q, w')"
  using assms by (auto simp: deferring_def run_catch run_from_result)

lemma deferred_remove: "run_state (Remove E c force) u = (q, w') \<Longrightarrow> side E u w'"
  by (rule sideD [OF side_git [OF git_only_remove]])

section \<open>Success\<close>

lemma run_git_work_Inr: "run_state (git_work m) w = (Inr x, v) \<longleftrightarrow> run_state m w = (Inr x, v)"
proof -
  obtain q u where "run_state m w = (q, u)" by fastforce
  then show ?thesis by (cases q) (auto simp: git_work_def run_catch run_err run_ok)
qed

text \<open>The commit's own part: git work, and at most the recorded head.\<close>

lemma run_commitWork:
  assumes run: "run_state (git_work (commitWork E c)) w = (Inr x, w')"
  shows "frame w' = frame w \<and> (\<exists>v h. head_tx v h (w_db w) = Inr ((), w_db w'))"
proof -
  have tree: "state_io_rel git_only (commitAgentTree E c m)" for m
    unfolding commitAgentTree_def best_effort_def Let_def
    by (intro git_only.moves_actions git_only_operations)
  let ?m = "Identifier (x_task w) @ '' '' @ t_Title (x_task w)"
  let ?pick = "if x_agentTree w \<noteq> [] then commitAgentTree E c ?m else Commit E c ?m"
  have g: "state_io_rel git_only ?pick" using tree git_only_inspect by simp
  obtain commit u where u: "run_state ?pick w = (Inr commit, u)"
    and rest: "run_state (if commit = [] then ok False
       else eseq (in_db (head_tx (map_option w_ID (x_record w)) commit)) (eseq (setHeadCommit commit) (ok True))) u = (Inr x, w')"
    using run unfolding run_git_work_Inr commitWork_def Let_def run_ebind_Inr run_reads
    by (auto simp del: append_Cons append_Nil)
  have fr: "frame u = frame w" "w_db u = w_db w" using gitD [OF g u] by simp_all
  show ?thesis
  proof (cases "commit = []")
    case True
    with rest fr have "frame w' = frame w" "head_tx None [] (w_db w) = Inr ((), w_db w')"
      by (auto simp: run_ok head_tx_def tx_return_def)
    then show ?thesis by blast
  next
    case False
    with rest obtain d where d: "head_tx (map_option w_ID (x_record w)) commit (w_db u) = Inr ((), d)"
      "frame w' = frame u" "w_db w' = d"
      by (auto simp: run_eseq_Inr run_in_db_Inr run_ok setHeadCommit_def run_assign frame_def)
    with fr show ?thesis by auto
  qed
qed

lemma inside_commitWork: "state_io_rel inside (git_work (commitWork E c))"
proof -
  have tree: "state_io_rel git_only (commitAgentTree E c m)" for m
    unfolding commitAgentTree_def best_effort_def Let_def
    by (intro git_only.moves_actions git_only_operations)
  show ?thesis
    unfolding git_work_def commitWork_def setHeadCommit_def
    by (intro inside.moves_actions inside_in_db inside_git tree git_only_inspect inside_record)
qed

lemma success_transaction_side:
  assumes run: "run_state (success_transaction E c report) w = (r, w')" and opn: "x_attemptOpen w"
  shows "side E w w'"
  using run unfolding success_transaction_def
proof (rule inTx_side)
  show "state_io_rel inside (eseq (fence E) (ebind (git_work (commitWork E c)) (\<lambda>_.
       ebind (reads id) (\<lambda>w.
         eseq (in_db (ending_tx (t_ID (x_task w)) (a_ID (x_attempt w)) StatusVerifying StatusSucceeded
                        AttemptSucceeded FailureNone []))
           (own_event E TypeTaskSucceeded (success_payload w c report))))))"
    by (intro inside.moves_actions inside_events inside_in_db inside_commitWork)
next
  fix v x v'
  assume body: "run_state (eseq (fence E) (ebind (git_work (commitWork E c)) (\<lambda>_.
       ebind (reads id) (\<lambda>w.
         eseq (in_db (ending_tx (t_ID (x_task w)) (a_ID (x_attempt w)) StatusVerifying StatusSucceeded
                        AttemptSucceeded FailureNone []))
           (own_event E TypeTaskSucceeded (success_payload w c report)))))) v = (Inr x, v')"
    and fr: "frame v = frame w"
  let ?i = "t_ID (x_task w)" and ?a = "a_ID (x_attempt w)"
  obtain u1 y u2 where u: "run_state (fence E) v = (Inr (), u1)"
      "run_state (git_work (commitWork E c)) u1 = (Inr y, u2)"
    and rest: "run_state (eseq (in_db (ending_tx (t_ID (x_task u2)) (a_ID (x_attempt u2)) StatusVerifying StatusSucceeded
                        AttemptSucceeded FailureNone []))
           (own_event E TypeTaskSucceeded (success_payload u2 c report))) u2 = (Inr x, v')"
    using body by (auto simp: run_eseq_Inr run_ebind_Inr run_reads)
  have f1: "frame u1 = frame w" using insideD [OF inside_events(3) u(1)] fr by simp
  obtain h hd where f2: "frame u2 = frame w" "head_tx h hd (w_db u1) = Inr ((), w_db u2)"
    using run_commitWork [OF u(2)] f1 by auto
  have fence: "fence_tx True ?i ?a (e_owner E) (w_db v) = Inr ((), w_db u1)"
    using u(1) opn frameD [OF fr] by (auto simp: run_fence_Inr)
  obtain st where tx2: "succeed_tx ?i ?a st (w_db u2) = Inr ((), w_db v')"
    using rest frameD [OF f2(1)]
    by (auto simp: succeed_tx_def tx_iffs run_eseq_Inr run_in_db_Inr run_own_event_Inr)
  have tx: "tx_seq (fence_tx True ?i ?a (e_owner E)) (tx_seq (head_tx h hd) (succeed_tx ?i ?a st)) (w_db v)
      = Inr ((), w_db v')"
    using fence tx2 f2(2) by (auto simp: tx_iffs)
  from sys_step.succeed_task [OF tx] tx_kept(7) [OF tx]
  show "sys_step\<^sup>*\<^sup>* (w_db v) (w_db v') \<and> kept (w_db v) (w_db v')" by auto
qed

lemma terminal_end:
  assumes "Terminal (t_Status (o_Task out))" "o_Verification out = Some rep" "rp_Passed rep" "checked E t rep" "independent E t"
  shows "good_end E t out"
  using assms by (cases "t_Status (o_Task out)") (auto simp: good_end_def ended_badly_def justified_def)

lemma succeed_settled:
  assumes run: "run_state (succeed E c rep) w = (r, w')" and att: "attempting t w"
    and rep: "x_report w = Some rep" "rp_Passed rep" "checked E t rep" "independent E t"
  shows "settled E t w r w'"
proof -
  have opn: "x_attemptOpen w" "\<not> x_retryPending w" using att by (simp_all add: attempting_def)
  obtain q u where q: "run_state (success_transaction E c rep) w = (q, u)"
    and rest: "run_state (case q of
         Inr _ \<Rightarrow>
           eseq (set_status StatusSucceeded)
             (eseq (assign (\<lambda>w. w\<lparr>x_attemptOpen := False\<rparr>))
               (eseq (cleanupAfterSuccess E c) (ebind outcome (\<lambda>out. ok (Some out)))))
       | Inl e \<Rightarrow>
           if is_git_work e then fail E FailureWorktree (WWrapped ''commit failed'' e)
           else eseq (assign (\<lambda>w. w\<lparr>x_attemptOpen := False\<rparr>))
             (ebind (reads (\<lambda>w. t_ID (x_task w))) (\<lambda>i.
               catch (query E (GetTask i)) (\<lambda>q. case q of
                   Inl _ \<Rightarrow> err e
                 | Inr current \<Rightarrow>
                     if \<not> Terminal (t_Status current) then err e
                     else eseq (adopt E current) (ebind outcome (\<lambda>out. ok (Some out))))))) u = (r, w')"
    using run by (auto simp: succeed_def run_catch)
  have sd: "side E w u" by (rule success_transaction_side [OF q opn(1)])
  note fr = frameD [OF side_frame [OF sd]]
  have rw: "runs E w u" by (rule side_is_runs [OF sd])
  show ?thesis
  proof (cases q)
    case (Inr x)
    let ?v = "u\<lparr>x_task := (x_task u)\<lparr>t_Status := StatusSucceeded\<rparr>, x_attemptOpen := False\<rparr>"
    obtain k where k: "run_state (eseq (cleanupAfterSuccess E c) (ebind outcome (\<lambda>out. ok (Some out)))) ?v = (r, w')"
      using rest Inr by (auto simp: run_eseq run_assign set_status_def)
    have uv: "runs E u ?v" by (rule runs_local) simp_all
    obtain y z where y: "run_state (cleanupAfterSuccess E c) ?v = (y, z)" by fastforce
    have vz: "side E ?v z" by (rule sideD [OF side_cleanup y])
    have z: "w' = z" using k y by (auto simp: run_eseq run_ebind run_outcome run_ok)
    have out: "\<forall>e. y \<noteq> Inl e \<Longrightarrow> r = Inr (Some (outcome_of z))"
      using k y by (cases y) (auto simp: run_eseq run_ebind run_outcome run_ok)
    have rr: "runs E w z" using rw uv side_is_runs [OF vz] by (meson runs_trans)
    have "good_end E t (outcome_of z)"
      by (rule terminal_end [where rep = rep]) (use frameD [OF side_frame [OF vz]] fr rep in \<open>simp_all add: outcome_of_def\<close>)
    moreover have "\<not> x_retryPending z" using frameD [OF side_frame [OF vz]] fr opn by simp
    moreover have "r = Inr (Some (outcome_of z)) \<or> (\<exists>e. r = Inl e)"
      using k y by (cases y) (auto simp: run_eseq run_ebind run_outcome run_ok)
    ultimately show ?thesis using rr z by (auto simp: settled_def)
  next
    case (Inl e)
    show ?thesis
    proof (cases "is_git_work e")
      case True
      then have "run_state (fail E FailureWorktree (WWrapped ''commit failed'' e)) u = (r, w')" using rest Inl by simp
      from fail_settled [OF this attempting_frame [OF side_frame [OF sd] att]] show ?thesis
        by (rule settled_before [OF rw fr(2)])
    next
      case False
      let ?v = "u\<lparr>x_attemptOpen := False\<rparr>"
      have uv: "runs E u ?v" by (rule runs_local) simp_all
      obtain p z where p: "run_state (query E (GetTask (t_ID (x_task u)))) ?v = (p, z)"
        and k: "run_state (case p of
                   Inl _ \<Rightarrow> err e
                 | Inr current \<Rightarrow>
                     if \<not> Terminal (t_Status current) then err e
                     else eseq (adopt E current) (ebind outcome (\<lambda>out. ok (Some out)))) z = (r, w')"
        using rest Inl False by (auto simp: run_eseq run_assign run_ebind run_reads run_catch simp del: Terminal_iff)
      have vz: "side E ?v z" by (rule sideD [OF side_query p])
      note fz = frameD [OF side_frame [OF vz]]
      have wz: "runs E w z" using rw uv side_is_runs [OF vz] by (meson runs_trans)
      show ?thesis
      proof (cases "\<exists>cur. p = Inr cur \<and> Terminal (t_Status cur)")
        case False
        then have "r = Inl e" "w' = z" using k by (auto simp: run_err split: sum.splits if_splits)
        with wz show ?thesis by (simp add: settled_error)
      next
        case True
        then obtain cur where cur: "p = Inr cur" "Terminal (t_Status cur)" by blast
        have mem: "cur \<in> set (db_tasks (w_db z))" "t_ID cur = t_ID (x_task z)"
          using GetTask_Inr [OF run_query [OF p [unfolded cur(1)]]] fz by simp_all
        obtain y s where y: "run_state (adopt E cur) z = (y, s)" by fastforce
        note ad = adopt_spec [OF y mem]
        have out: "r = Inr (Some (outcome_of s))" "w' = s"
          using k cur y ad(2) by (auto simp: run_eseq run_ebind run_outcome run_ok simp del: Terminal_iff)
        have "good_end E t (outcome_of s)"
          by (rule terminal_end [where rep = rep]) (use ad fz fr rep cur in \<open>simp_all add: outcome_of_def del: Terminal_iff\<close>)
        moreover have "\<not> x_retryPending s" using ad fz fr opn by simp
        moreover have "runs E w s" using wz ad(1) by (rule runs_trans)
        ultimately show ?thesis using out by (simp add: settled_def)
      qed
    qed
  qed
qed

section \<open>Verification\<close>

lemma run_stage:
  assumes "run_state (catch m h) w = (r, w')" "state_io_rel (side E) m"
  shows "\<exists>q u. run_state m w = (q, u) \<and> side E w u \<and> run_state (h q) u = (r, w')"
  using assms by (auto simp: run_catch dest: state_io_relD)

lemma run_stage_bind:
  assumes "run_state (ebind m f) w = (r, w')" "state_io_rel (side E) m"
  shows "(\<exists>e. r = Inl e \<and> side E w w') \<or> (\<exists>x u. run_state m w = (Inr x, u) \<and> side E w u \<and> run_state (f x) u = (r, w'))"
  using assms by (auto simp: run_ebind dest: state_io_relD)

lemma run_stage_seq:
  assumes "run_state (eseq m n) w = (r, w')" "state_io_rel (side E) m"
  shows "(\<exists>e. r = Inl e \<and> side E w w') \<or> (\<exists>u. side E w u \<and> run_state n u = (r, w'))"
  using assms by (auto simp: run_eseq dest: state_io_relD)

text \<open>A stage that only looks: the rest starts from the same picture.\<close>

lemma settled_side:
  assumes "side E w u" "settled E t u r w'"
  shows "settled E t w r w'"
  using settled_before [OF side_is_runs [OF assms(1)] frameD(2) [OF side_frame [OF assms(1)]] assms(2)] .

lemma settled_stopped: "side E w w' \<Longrightarrow> settled E t w (Inl e) w'"
  by (simp add: settled_error side_is_runs)

lemma attempting_side: "side E w u \<Longrightarrow> attempting t w \<Longrightarrow> attempting t u"
  by (rule attempting_frame [OF side_frame])

lemma settled_seq:
  assumes "run_state (eseq m n) w = (r, w')" "state_io_rel (side E) m" "attempting t w"
    and "\<And>u. side E w u \<Longrightarrow> run_state n u = (r, w') \<Longrightarrow> attempting t u \<Longrightarrow> settled E t u r w'"
  shows "settled E t w r w'"
  using run_stage_seq [OF assms(1,2)] assms(3,4)
  by (auto intro: settled_side settled_stopped attempting_side)

lemma settled_bind:
  assumes "run_state (ebind m f) w = (r, w')" "state_io_rel (side E) m" "attempting t w"
    and "\<And>x u. run_state m w = (Inr x, u) \<Longrightarrow> side E w u \<Longrightarrow> run_state (f x) u = (r, w') \<Longrightarrow> attempting t u \<Longrightarrow> settled E t u r w'"
  shows "settled E t w r w'"
  using run_stage_bind [OF assms(1,2)] assms(3,4)
  by (auto intro: settled_side settled_stopped attempting_side)

lemma settled_catch:
  assumes "run_state (catch m h) w = (r, w')" "state_io_rel (side E) m" "attempting t w"
    and "\<And>q u. run_state m w = (q, u) \<Longrightarrow> side E w u \<Longrightarrow> run_state (h q) u = (r, w') \<Longrightarrow> attempting t u \<Longrightarrow> settled E t u r w'"
  shows "settled E t w r w'"
  using run_stage [OF assms(1,2)] assms(3,4) by (auto intro: settled_side attempting_side)

text \<open>An assignment the picture does not include.\<close>

lemma settled_assign:
  assumes "run_state (eseq (assign f) n) w = (r, w')"
    and "run_state n (f w) = (r, w') \<Longrightarrow> settled E t (f w) r w'"
    and "w_db (f w) = w_db w" "w_git (f w) = w_git w" "x_attempt (f w) = x_attempt w" "x_task (f w) = x_task w"
  shows "settled E t w r w'"
  using assms runs_local [of "f w" w E] by (auto simp: run_eseq run_assign intro: settled_before)

lemma run_checks_spec:
  assumes "run_state (run_checks E dir) w = (Inr rep, w')" "same_spec t (x_task w)"
  shows "checked E t rep"
proof -
  let ?req = "check_request w dir"
  have "Runner_Run (c_Runner E) ?req (e_check E (w_tick w)) (e_elapsed E (w_tick w)) = Inr rep"
    using assms(1)
    by (auto simp: run_checks_def run_ebind run_reads run_ask run_err run_ok split: sum.splits)
  moreover have "q_SetupSteps ?req = t_SetupSteps t" "q_Steps ?req = t_Verification t"
    using assms(2) by (auto simp: check_request_def same_spec_def)
  ultimately show ?thesis unfolding checked_def by blast
qed

lemma judge_settled:
  assumes run: "run_state (judge E c dir rep) w = (r, w')" and att: "attempting t w"
    and ch: "checked E t rep" and ind: "independent E t"
  shows "settled E t w r w'"
  using run unfolding judge_def set_report_def
proof (rule settled_assign, goal_cases)
  case 1
  let ?w = "w\<lparr>x_report := Some rep\<rparr>"
  have att1: "attempting t ?w" using att by (simp add: attempting_def)
  from 1 show ?case
  proof (rule settled_seq [OF _ side_persistVerification att1], goal_cases)
    case (1 u)
    note su = 1(1) and attu = 1(3)
    obtain m where m: "run_state (eseq (if rp_Passed rep \<and> t_VerificationMode (x_task u) \<noteq> VerificationClean then reportWorktreeDrift E c else ok ())
     (eseq (emit E TypeVerificationCompleted (report_payload rep))
       (if \<not> rp_Passed rep
        then eseq (assign (\<lambda>w. w\<lparr>x_retryable := rp_FailureKind rep = FailureVerification\<rparr>))
               (fail E (rp_FailureKind rep) (WNotVerified (Summary rep)))
        else eseq (if t_Coverage (x_task u) then reportCoverage E c dir else ok ())
               (succeed E c rep)))) u = (r, w')"
      using 1(2) by (auto simp: run_ebind run_reads)
    then show ?case
    proof (rule settled_seq, goal_cases)
      case 1
      show ?case by (intro side.moves_actions side_deliver)
    next
      case 2
      show ?case by (rule attu)
    next
      case (3 v)
      note sv = 3(1) and attv = 3(3)
      from 3(2) show ?case
      proof (rule settled_seq [OF _ side_emit attv], goal_cases)
        case 1
        show ?case by simp
      next
        case (2 z)
        note sz = 2(1) and attz = 2(3)
        have rep: "x_report z = Some rep"
          using frameD(4) [OF side_frame [OF su]] frameD(4) [OF side_frame [OF sv]] frameD(4) [OF side_frame [OF sz]] by simp
        show ?case
        proof (cases "rp_Passed rep")
          case False
          with 2(2) have k: "run_state (eseq (assign (\<lambda>w. w\<lparr>x_retryable := rp_FailureKind rep = FailureVerification\<rparr>))
               (fail E (rp_FailureKind rep) (WNotVerified (Summary rep)))) z = (r, w')" by simp
          show ?thesis
            by (rule settled_assign [OF k fail_settled]) (use attz in \<open>simp_all add: attempting_def\<close>)
        next
          case True
          with 2(2) have k: "run_state (eseq (if t_Coverage (x_task u) then reportCoverage E c dir else ok ()) (succeed E c rep)) z = (r, w')"
            by simp
          have sc: "state_io_rel (side E) (if t_Coverage (x_task u) then reportCoverage E c dir else ok ())"
            by (intro side.moves_actions side_deliver)
          show ?thesis
          proof (rule settled_seq [OF k sc attz])
            fix y assume y: "side E z y" "run_state (succeed E c rep) y = (r, w')" "attempting t y"
            show "settled E t y r w'"
              by (rule succeed_settled [OF y(2,3)]) (use frameD(4) [OF side_frame [OF y(1)]] rep True ch ind in simp_all)
          qed
        qed
      qed
    qed
  qed
qed simp_all

lemma check_in_settled:
  assumes run: "run_state (check_in E c dir) w = (r, w')" and att: "attempting t w" and ind: "independent E t"
  shows "settled E t w r w'"
  using run unfolding check_in_def
proof (rule settled_catch [OF _ side_checks att])
  fix q u
  assume q: "run_state (run_checks E dir) w = (q, u)" "side E w u" "attempting t u"
    and k: "run_state (case q of Inl e \<Rightarrow> fail E FailureInternal e | Inr report \<Rightarrow> judge E c dir report) u = (r, w')"
  show "settled E t u r w'"
  proof (cases q)
    case (Inl e)
    with k fail_settled q(3) show ?thesis by simp
  next
    case (Inr rep)
    have "checked E t rep" using run_checks_spec [of E dir w rep u t] q(1) Inr att by (simp add: attempting_def)
    with k Inr judge_settled q(3) ind show ?thesis by simp
  qed
qed

lemma run_verification_settled:
  assumes run: "run_state (run_verification E c) w = (r, w')" and att: "attempting t w" and ind: "independent E t"
  shows "settled E t w r w'"
proof (cases "t_VerificationMode (x_task w) = VerificationClean")
  case False
  with run have "run_state (check_in E c (co_Path c)) w = (r, w')" by (simp add: run_verification_def run_ebind run_reads)
  from check_in_settled [OF this att ind] show ?thesis .
next
  case True
  with run have "run_state (catch (cleanCheckout E c) (\<lambda>r. case r of
           Inl e \<Rightarrow> fail E FailureWorktree (WWrapped ''verification not run'' e)
         | Inr d \<Rightarrow> deferring (Remove E d True) (check_in E c (co_Path d)))) w = (r, w')"
    by (simp add: run_verification_def run_ebind run_reads)
  then show ?thesis
  proof (rule settled_catch [OF _ side_deliver(5) att])
    fix q u
    assume q: "side E w u" "attempting t u" and k: "run_state (case q of
           Inl e \<Rightarrow> fail E FailureWorktree (WWrapped ''verification not run'' e)
         | Inr d \<Rightarrow> deferring (Remove E d True) (check_in E c (co_Path d))) u = (r, w')"
    show "settled E t u r w'"
    proof (cases q)
      case (Inl e)
      with k fail_settled q(2) show ?thesis by simp
    next
      case (Inr d)
      with k have "run_state (deferring (Remove E d True) (check_in E c (co_Path d))) u = (r, w')" by simp
      then obtain v p where v: "run_state (check_in E c (co_Path d)) u = (r, v)" "run_state (Remove E d True) v = (p, w')"
        using run_deferring by blast
      from check_in_settled [OF v(1) q(2) ind] deferred_remove [OF v(2)] show ?thesis by (rule settled_after)
    qed
  qed
qed

lemma independence_settled:
  assumes run: "run_state (independence E c changes) w = (r, w')" and att: "attempting t w"
    and ch: "run_state (ChangedPaths E c) v0 = (Inr changes, v1)"
  shows "settled E t w r w'"
  using run unfolding independence_def
proof (rule settled_seq [OF _ _ att])
  show "state_io_rel (side E) (let paths = TestPaths (ch_Committable changes)
           in if length paths > 0
              then eseq (assign (\<lambda>w. w\<lparr>x_testsModified := paths\<rparr>))
                     (emit E TypeVerificationTestsModified [(''paths'', json_strings paths)])
              else ok ())"
    by (intro side_rules side_emit; simp)
next
  fix u assume u: "side E w u" "attempting t u" and k: "run_state (ebind (reads x_task) (\<lambda>t.
      let intercepted = Interceptions (t_SetupSteps t @ t_Verification t) (Changes_All changes)
      in case Violations (e_valid E) (e_glob E) (t_ProtectedPaths t) (ch_Committable changes) of
           Inl e \<Rightarrow> fail E FailureInternal (WWrapped ''verification not run'' (WProtected e))
         | Inr violated \<Rightarrow>
             if length intercepted > 0 \<or> length violated > 0
             then eseq (emit E TypeVerificationIntercepted (refusal_payload intercepted violated))
                    (fail E FailureVerification (WIntercepted intercepted violated))
             else run_verification E c)) u = (r, w')"
  let ?t = "x_task u" and ?ins = "Interceptions (t_SetupSteps (x_task u) @ t_Verification (x_task u)) (Changes_All changes)"
  have sp: "t_SetupSteps ?t = t_SetupSteps t" "t_Verification ?t = t_Verification t" "t_ProtectedPaths ?t = t_ProtectedPaths t"
    using u(2) by (auto simp: attempting_def same_spec_def)
  show "settled E t u r w'"
  proof (cases "Violations (e_valid E) (e_glob E) (t_ProtectedPaths ?t) (ch_Committable changes)")
    case (Inl e)
    with k have "run_state (fail E FailureInternal (WWrapped ''verification not run'' (WProtected e))) u = (r, w')"
      by (simp add: run_ebind run_reads Let_def)
    from fail_settled [OF this u(2)] show ?thesis .
  next
    case (Inr vs)
    show ?thesis
    proof (cases "?ins = [] \<and> vs = []")
      case True
      with Inr k have k2: "run_state (run_verification E c) u = (r, w')" by (simp add: run_ebind run_reads Let_def)
      have "independent E t" unfolding independent_def using ch True Inr sp by auto
      from run_verification_settled [OF k2 u(2) this] show ?thesis .
    next
      case False
      with Inr k have "run_state (eseq (emit E TypeVerificationIntercepted (refusal_payload ?ins vs))
                    (fail E FailureVerification (WIntercepted ?ins vs))) u = (r, w')"
        by (auto simp: run_ebind run_reads Let_def)
      then show ?thesis
        by (rule settled_seq [OF _ side_emit u(2)]) (auto intro: fail_settled)
    qed
  qed
qed

section \<open>Moving the task\<close>

lemma transition_body:
  assumes "run_state (eseq (fence E) (eseq (in_db (TransitionTask (t_ID (x_task w0)) cur nxt)) (append_event E a ty pay))) w = (Inr x, w')"
    and "frame w = frame w0" "a = attempt_ref (a_ID (x_attempt w0))"
  shows "\<exists>st. transition_tx (x_attemptOpen w0) (t_ID (x_task w0)) (a_ID (x_attempt w0)) (e_owner E) cur nxt ty st (w_db w)
      = Inr ((), w_db w')"
proof -
  let ?st = "(e_uuid E (w_tick w), e_now E (w_tick w), pay)"
  have "transition_tx (x_attemptOpen w0) (t_ID (x_task w0)) (a_ID (x_attempt w0)) (e_owner E) cur nxt ty ?st (w_db w)
      = Inr ((), w_db w')"
    using assms(1,3) frameD [OF assms(2)] by (auto simp: run_inverts transition_tx_def tx_iffs)
  then show ?thesis by blast
qed

definition step_allowed :: "env \<Rightarrow> world \<Rightarrow> Status \<Rightarrow> EventType \<Rightarrow> bool" where
  "step_allowed E w nxt ty =
     (\<forall>st v d. good E v \<longrightarrow> frame v = frame w \<longrightarrow>
        transition_tx (x_attemptOpen w) (t_ID (x_task w)) (a_ID (x_attempt w)) (e_owner E) (t_Status (x_task w)) nxt ty st (w_db v)
          = Inr ((), d) \<longrightarrow> sys_step (w_db v) d)"

lemma transition_spec:
  assumes run: "run_state (transition E nxt ty pay) w = (r, w')" and step: "step_allowed E w nxt ty"
  shows "runs E w w'" "\<And>e. r = Inl e \<Longrightarrow> frame w' = frame w"
    "r = Inr () \<Longrightarrow> frame w' = frame (w\<lparr>x_task := (x_task w)\<lparr>t_Status := nxt\<rparr>\<rparr>)"
proof -
  let ?body = "eseq (fence E) (eseq (in_db (TransitionTask (t_ID (x_task w)) (t_Status (x_task w)) nxt))
      (append_event E (attempt_ref (a_ID (x_attempt w))) ty pay))"
  obtain q u where q: "run_state (inTx E ?body) w = (q, u)"
    and rest: "(\<exists>e. q = Inl e \<and> r = Inl e \<and> w' = u) \<or> (q = Inr () \<and> r = Inr () \<and> w' = u\<lparr>x_task := (x_task u)\<lparr>t_Status := nxt\<rparr>\<rparr>)"
    using run by (auto simp: transition_def Let_def run_ebind run_reads run_eseq set_status_def run_assign)
  have sd: "side E w u"
    using q
  proof (rule inTx_side)
    show "state_io_rel inside ?body" by (intro inside.moves_actions inside_events inside_in_db)
  next
    fix v x v' assume b: "run_state ?body v = (Inr x, v')" and g: "good E v" and fr: "frame v = frame w"
    obtain st where tx: "transition_tx (x_attemptOpen w) (t_ID (x_task w)) (a_ID (x_attempt w)) (e_owner E) (t_Status (x_task w))
        nxt ty st (w_db v) = Inr ((), w_db v')"
      using transition_body [OF b fr refl] by blast
    have "sys_step (w_db v) (w_db v')" using step g fr tx unfolding step_allowed_def by blast
    with tx_kept(1) [OF tx] show "sys_step\<^sup>*\<^sup>* (w_db v) (w_db v') \<and> kept (w_db v) (w_db v')" by auto
  qed
  have "runs E u w'" using rest by (auto simp: runs_refl intro: runs_local)
  with sd show "runs E w w'" by (auto intro: runs_trans side_is_runs)
  show "frame w' = frame w" if "r = Inl e" for e using rest that side_frame [OF sd] by auto
  show "frame w' = frame (w\<lparr>x_task := (x_task w)\<lparr>t_Status := nxt\<rparr>\<rparr>)" if "r = Inr ()"
    using rest that side_frame [OF sd] by (auto simp: frame_def)
qed

lemma verify_settled:
  assumes run: "run_state (verify E c) w = (r, w')" and att: "attempting t w"
  shows "settled E t w r w'"
proof -
  obtain pay q u where q: "run_state (transition E StatusVerifying TypeVerificationStarted pay) w = (q, u)"
    and k: "run_state (case q of
         Inl e \<Rightarrow> ebind (cancelledElsewhere E e) (\<lambda>o'. case o' of
             Some out \<Rightarrow> ok (Some out) | None \<Rightarrow> err e)
       | Inr _ \<Rightarrow> catch (ChangedPaths E c) (\<lambda>r. case r of
             Inl e \<Rightarrow> fail E FailureInternal
               (WWrapped ''verification not run: cannot establish independence'' e)
           | Inr changes \<Rightarrow> independence E c changes)) u = (r, w')"
    using run by (auto simp: verify_def run_ebind run_reads run_catch)
  have opn: "x_attemptOpen w" "\<not> x_retryPending w" using att by (simp_all add: attempting_def)
  have st: "step_allowed E w StatusVerifying TypeVerificationStarted"
    using opn by (auto simp: step_allowed_def intro: sys_step.verify_task)
  note tr = transition_spec [OF q st]
  show ?thesis
  proof (cases q)
    case (Inl e)
    from k [unfolded Inl sum.case] have "runs E u w' \<and> x_retryPending w' = x_retryPending u
      \<and> (r = Inl e \<or> (\<exists>out. r = Inr (Some out) \<and> t_Status (o_Task out) = StatusCancelled))"
      by (rule elsewhere_or_error)
    then show ?thesis using tr(1) frameD(5) [OF tr(2) [OF Inl]] opn
      by (auto simp: settled_def good_end_def ended_badly_def intro: runs_trans)
  next
    case (Inr x)
    then have fu: "frame u = frame (w\<lparr>x_task := (x_task w)\<lparr>t_Status := StatusVerifying\<rparr>\<rparr>)" using tr(3) by simp
    have attu: "attempting t u"
      by (rule attempting_frame [OF fu]) (use att in \<open>auto simp: attempting_def intro: same_spec_status\<close>)
    have xu: "x_attempt u = x_attempt w" using frameD(2) [OF fu] by simp
    have "settled E t u r w'"
    proof (rule settled_catch [OF k [unfolded Inr sum.case] side_git [OF git_only_changes(1)] attu])
      fix p z
      assume p: "run_state (ChangedPaths E c) u = (p, z)" "attempting t z"
        and k2: "run_state (case p of
             Inl e \<Rightarrow> fail E FailureInternal
               (WWrapped ''verification not run: cannot establish independence'' e)
           | Inr changes \<Rightarrow> independence E c changes) z = (r, w')"
      show "settled E t z r w'"
      proof (cases p)
        case (Inl e)
        with k2 fail_settled p(2) show ?thesis by simp
      next
        case (Inr changes)
        with k2 p independence_settled show ?thesis by simp
      qed
    qed
    then show ?thesis by (rule settled_before [OF tr(1) xu])
  qed
qed

end
