(* ===== verification/RunAttempts.thy ===== *)
theory RunAttempts
  imports RunLoop
begin

text \<open>
  The attempt as a whole, the transaction that starts one, the loop over attempts and what comes
  before it. The bound on the attempts of a task bounds the loop.
\<close>

section \<open>One attempt\<close>

lemma stopping_side:
  assumes "side E w u" "stopping E t u r w'"
  shows "stopping E t w r w'"
  using assms settled_side [OF assms(1)] frameD(2) [OF side_frame [OF assms(1)]]
  by (auto simp: stopping_def intro: runs_trans side_is_runs)

lemma stopping_error: "side E w w' \<Longrightarrow> stopping E t w (Inl e) w'"
  by (simp add: stopping_def side_is_runs)

lemma stopping_on: "side E w w' \<Longrightarrow> attempting t w \<Longrightarrow> stopping E t w (Inr None) w'"
  by (simp add: stopping_def side_is_runs attempting_side frameD(2) [OF side_frame])

lemma stopping_after:
  assumes "stopping E t w r v" "side E v w'"
  shows "stopping E t w r w'"
  using assms settled_after attempting_side [OF assms(2)] frameD(2) [OF side_frame [OF assms(2)]]
  by (auto simp: stopping_def intro: runs_trans side_is_runs)

lemma failed_stopping:
  assumes "run_state (stopped_with (fail E kind cause)) w = (r, w')" "attempting t w"
  shows "stopping E t w r w'"
  using assms by (auto intro: stopped_settled fail_settled)

lemma baseCheck_stopping:
  assumes run: "run_state (baseCheck E c) w = (r, w')" and att: "attempting t w"
  shows "stopping E t w r w'"
proof -
  obtain n m where made: "run_state (catch (CreateDetached E (co_Repo c) n m) (\<lambda>made. case made of
         Inl e \<Rightarrow> stopped_with (fail E FailureWorktree (WWrapped ''base check not run'' e))
       | Inr wt \<Rightarrow> deferring (Remove E wt True)
           (catch (run_checks E (co_Path wt)) (\<lambda>ran. case ran of
               Inl e \<Rightarrow> stopped_with (fail E FailureInternal (WWrapped ''base check not run'' e))
             | Inr report \<Rightarrow>
                 eseq (emit E TypeBaseCheckCompleted (report_payload report))
                   (if rp_Passed report
                    then eseq (set_report report)
                           (stopped_with (fail E FailureVerification (WBasePasses (Summary report))))
                    else ok None))))) w = (r, w')"
    using run by (auto simp: baseCheck_def run_ebind run_reads)
  from run_stage [OF made side_git [OF git_only_create(3)]] obtain q u where u: "side E w u"
    and k: "run_state (case q of
         Inl e \<Rightarrow> stopped_with (fail E FailureWorktree (WWrapped ''base check not run'' e))
       | Inr wt \<Rightarrow> deferring (Remove E wt True)
           (catch (run_checks E (co_Path wt)) (\<lambda>ran. case ran of
               Inl e \<Rightarrow> stopped_with (fail E FailureInternal (WWrapped ''base check not run'' e))
             | Inr report \<Rightarrow>
                 eseq (emit E TypeBaseCheckCompleted (report_payload report))
                   (if rp_Passed report
                    then eseq (set_report report)
                           (stopped_with (fail E FailureVerification (WBasePasses (Summary report))))
                    else ok None)))) u = (r, w')" by blast
  have attu: "attempting t u" by (rule attempting_side [OF u att])
  show ?thesis
  proof (cases q)
    case (Inl e)
    with k have "run_state (stopped_with (fail E FailureWorktree (WWrapped ''base check not run'' e))) u = (r, w')" by simp
    from failed_stopping [OF this attu] show ?thesis by (rule stopping_side [OF u])
  next
    case (Inr wt)
    let ?m = "catch (run_checks E (co_Path wt)) (\<lambda>ran. case ran of
               Inl e \<Rightarrow> stopped_with (fail E FailureInternal (WWrapped ''base check not run'' e))
             | Inr report \<Rightarrow>
                 eseq (emit E TypeBaseCheckCompleted (report_payload report))
                   (if rp_Passed report
                    then eseq (set_report report)
                           (stopped_with (fail E FailureVerification (WBasePasses (Summary report))))
                    else ok None))"
    obtain v p where m: "run_state ?m u = (r, v)" and rm: "run_state (Remove E wt True) v = (p, w')"
      using run_deferring k Inr by fastforce
    have "stopping E t u r v"
    proof -
      obtain q2 z where z: "side E u z" and k2: "run_state (case q2 of
               Inl e \<Rightarrow> stopped_with (fail E FailureInternal (WWrapped ''base check not run'' e))
             | Inr report \<Rightarrow>
                 eseq (emit E TypeBaseCheckCompleted (report_payload report))
                   (if rp_Passed report
                    then eseq (set_report report)
                           (stopped_with (fail E FailureVerification (WBasePasses (Summary report))))
                    else ok None)) z = (r, v)"
        using run_stage [OF m side_checks] by blast
      have attz: "attempting t z" by (rule attempting_side [OF z attu])
      show ?thesis
      proof (cases q2)
        case (Inl e)
        with k2 have "run_state (stopped_with (fail E FailureInternal (WWrapped ''base check not run'' e))) z = (r, v)" by simp
        from failed_stopping [OF this attz] show ?thesis by (rule stopping_side [OF z])
      next
        case (Inr rep)
        have em: "state_io_rel (side E) (emit E TypeBaseCheckCompleted (report_payload rep))" by (rule side_emit) simp
        from run_stage_seq [OF k2 [unfolded Inr sum.case] em] show ?thesis
        proof
          assume "\<exists>e. r = Inl e \<and> side E z v"
          with z show ?thesis by (auto intro: stopping_error stopping_side)
        next
          assume "\<exists>y. side E z y \<and> run_state (if rp_Passed rep
                    then eseq (set_report rep)
                           (stopped_with (fail E FailureVerification (WBasePasses (Summary rep))))
                    else ok None) y = (r, v)"
          then obtain y where y: "side E z y" and k3: "run_state (if rp_Passed rep
                    then eseq (set_report rep)
                           (stopped_with (fail E FailureVerification (WBasePasses (Summary rep))))
                    else ok None) y = (r, v)" by blast
          have atty: "attempting t y" by (rule attempting_side [OF y attz])
          have "stopping E t y r v"
          proof (cases "rp_Passed rep")
            case False
            with k3 atty show ?thesis by (auto simp: run_ok intro: stopping_on side.R_refl)
          next
            case True
            let ?y = "y\<lparr>x_report := Some rep\<rparr>"
            have k4: "run_state (stopped_with (fail E FailureVerification (WBasePasses (Summary rep)))) ?y = (r, v)"
              using k3 True by (simp add: set_report_def run_eseq run_assign)
            have "stopping E t ?y r v" by (rule failed_stopping [OF k4]) (use atty in \<open>simp add: attempting_def\<close>)
            moreover have "runs E y ?y" by (rule runs_local) simp_all
            ultimately show ?thesis
              by (auto simp: stopping_def intro: runs_trans settled_before)
          qed
          then show ?thesis by (intro stopping_side [OF z] stopping_side [OF y])
        qed
      qed
    qed
    from stopping_after [OF this deferred_remove [OF rm]] show ?thesis by (rule stopping_side [OF u])
  qed
qed

lemma side_with_worktree: "(\<And>c. state_io_rel (side E) (f c)) \<Longrightarrow> state_io_rel (side E) (with_worktree f)"
  unfolding with_worktree_def by (intro side.moves_actions)

lemma side_restore: "state_io_rel (side E) (restore_record rc)"
  unfolding restore_record_def by (rule side_assign) (simp add: frame_def)

lemma attempt_setup_stopping:
  assumes run: "run_state (attempt_setup E) w = (r, w')" and att: "attempting t w"
  shows "stopping E t w r w'"
proof (cases "x_retry w")
  case (Some rc)
  with run have k: "run_state (catch (with_worktree (\<lambda>c. continueWorktree E c rc)) (\<lambda>r. case r of
             Inl e \<Rightarrow> eseq (restore_record rc) (stopped_with (fail E FailureWorktree e))
           | Inr _ \<Rightarrow> ok None)) w = (r, w')"
    by (simp add: attempt_setup_def run_ebind run_reads)
  from run_stage [OF k side_with_worktree [OF side_continue]] obtain q :: "werr + unit" and u where u: "side E w u"
    and k2: "run_state (case q of
             Inl e \<Rightarrow> eseq (restore_record rc) (stopped_with (fail E FailureWorktree e))
           | Inr _ \<Rightarrow> ok None) u = (r, w')" by blast
  have attu: "attempting t u" by (rule attempting_side [OF u att])
  have "stopping E t u r w'"
  proof (cases q)
    case (Inr x)
    with k2 attu show ?thesis by (auto simp: run_ok intro: stopping_on side.R_refl)
  next
    case (Inl e)
    from run_stage_seq [OF k2 [unfolded Inl sum.case] side_restore [where E = E]] show ?thesis
      using attu by (auto intro: stopping_error stopping_side failed_stopping attempting_side)
  qed
  then show ?thesis by (rule stopping_side [OF u])
next
  case None
  with run have k: "run_state (catch (prepareWorktree E) (\<lambda>r. case r of
             Inl e \<Rightarrow> stopped_with (fail E FailureWorktree e)
           | Inr _ \<Rightarrow> if t_ExpectFailOnBase (x_task w) then with_worktree (baseCheck E) else ok None)) w = (r, w')"
    by (simp add: attempt_setup_def run_ebind run_reads)
  from run_stage [OF k side_prepare] obtain q :: "werr + unit" and u where u: "side E w u"
    and k2: "run_state (case q of
             Inl e \<Rightarrow> stopped_with (fail E FailureWorktree e)
           | Inr _ \<Rightarrow> if t_ExpectFailOnBase (x_task w) then with_worktree (baseCheck E) else ok None) u = (r, w')" by blast
  have attu: "attempting t u" by (rule attempting_side [OF u att])
  have "stopping E t u r w'"
  proof (cases q)
    case (Inl e)
    with k2 attu show ?thesis by (simp add: failed_stopping)
  next
    case (Inr x)
    with k2 attu show ?thesis
      by (auto simp: run_ok with_worktree_def run_ebind run_reads run_err
          intro: stopping_on stopping_error side.R_refl baseCheck_stopping split: if_splits option.splits)
  qed
  then show ?thesis by (rule stopping_side [OF u])
qed

lemma inspect_settled:
  assumes run: "run_state (inspect_and_verify E c) w = (r, w')" and att: "attempting t w"
  shows "settled E t w r w'"
  using run unfolding inspect_and_verify_def
proof (rule settled_catch [OF _ side_containment att], goal_cases)
  case (1 q u)
  note attu = 1(4)
  show ?case
  proof (cases q)
    case (Inl e)
    with 1 show ?thesis by (simp add: fail_settled)
  next
    case (Inr x)
    show ?thesis
    proof (rule settled_catch [OF 1(3) [unfolded Inr sum.case] side_deliver(1) attu], goal_cases)
      case (1 p z)
      show ?case
      proof (cases p)
        case (Inl e)
        with 1 show ?thesis by (simp add: fail_settled)
      next
        case (Inr y)
        from settled_seq [OF 1(3) [unfolded Inr sum.case] side_deliver(2) 1(4) verify_settled]
        show ?thesis by simp
      qed
    qed
  qed
qed

lemma work_settled:
  assumes run: "run_state (work E c) w = (r, w')" and att: "attempting t w"
  shows "settled E t w r w'"
  using run unfolding work_def
proof (rule settled_catch [OF _ side_runAgent att], goal_cases)
  case (1 q u)
  show ?case
  proof (cases q)
    case (Inr x)
    with 1 show ?thesis by (simp add: inspect_settled)
  next
    case (Inl e)
    from 1(3) [unfolded Inl sum.case] show ?thesis
    proof (rule settled_assign, goal_cases)
      case 1
      then obtain kind where "run_state (fail E kind e) (u\<lparr>x_retryable := \<not> is_refusal e\<rparr>) = (r, w')"
        by (auto simp: run_ebind run_reads)
      then show ?case by (rule fail_settled) (use \<open>attempting t u\<close> in \<open>simp add: attempting_def\<close>)
    qed simp_all
  qed
qed

lemma attemptOnce_settled:
  assumes run: "run_state (attemptOnce E) w = (r, w')" and att: "attempting t w"
  shows "settled E t w r w'"
proof -
  obtain q u where q: "run_state (attempt_setup E) w = (q, u)" by fastforce
  have st: "stopping E t w q u" by (rule attempt_setup_stopping [OF q att])
  show ?thesis
  proof (cases q)
    case (Inl e)
    with q run have "r = Inl e" "w' = u" by (auto simp: attemptOnce_def run_ebind)
    with st show ?thesis by (simp add: stopping_def settled_error)
  next
    case (Inr x)
    show ?thesis
    proof (cases x)
      case (Some out)
      with Inr q run have "r = Inr out" "w' = u" by (auto simp: attemptOnce_def run_ebind run_ok)
      with st Inr Some show ?thesis by (simp add: stopping_def)
    next
      case None
      with Inr st have u: "runs E w u" "attempting t u" "x_attempt u = x_attempt w" by (simp_all add: stopping_def)
      from Inr None q run have "run_state (with_worktree (work E)) u = (r, w')"
        by (auto simp: attemptOnce_def run_ebind)
      then have "settled E t u r w'" using work_settled u(2)
        by (auto simp: with_worktree_def run_ebind run_reads run_err settled_error runs_refl split: option.splits)
      then show ?thesis by (rule settled_before [OF u(1,3)])
    qed
  qed
qed

end
