(* ===== verification/RunOutcome.thy ===== *)
theory RunOutcome
  imports RunAttempts
begin

text \<open>
  Starting an attempt, the loop over attempts and the run as a whole: its steps are steps of the
  system, it ends within the bound, and what it reports is justified.
\<close>

section \<open>Starting an attempt\<close>

lemma claim_Inr:
  assumes "claim_tx i cur newid now owner expires d = Inr (a, e)"
  shows "a_ID a = newid" "a_TaskID a = i" "a_ID a \<notin> set (map a_ID (db_attempts d))"
    "db_attempts e = db_attempts d @ [a]" "well_formed d \<Longrightarrow> a_AttemptNumber a = Suc (length (attempts_of d i))"
proof -
  obtain d1 n where t: "TransitionTask i cur StatusRunning d = Inr ((), d1)" and n: "NextAttemptNumber i d1 = Inr n"
    and c: "CreateAttempt ((NewAttempt newid now i n)\<lparr>a_LeaseOwner := owner, a_LeaseExpiresAt := Some expires\<rparr>) d1 = Inr (a, e)"
    using assms by (auto simp: claim_tx_def tx_iffs)
  note d1 = TransitionTask_Inr(3) [OF t]
  have nn: "NextAttemptNumber i d1 = NextAttemptNumber i d" by (simp add: d1 NextAttemptNumber_def attempts_of_def)
  show "a_ID a = newid" "a_TaskID a = i" using CreateAttempt_Inr(1) [OF c] by (simp_all add: NewAttempt_def)
  show "a_ID a \<notin> set (map a_ID (db_attempts d))" using CreateAttempt_Inr(1,4) [OF c] d1 by (simp add: NewAttempt_def)
  show "db_attempts e = db_attempts d @ [a]" using CreateAttempt_Inr(3) [OF c] d1 by simp
  show "a_AttemptNumber a = Suc (length (attempts_of d i))" if "well_formed d"
    using CreateAttempt_Inr(1) [OF c] nn n next_number [OF that] by (simp add: NewAttempt_def)
qed

lemma append_attempts: "appendEvent st i aid ty d = Inr (u, e) \<Longrightarrow> db_attempts e = db_attempts d"
  by (simp add: append_keeps)

text \<open>The transaction that ended the run's last step either left the database or started the attempt.\<close>

definition begun :: "world \<Rightarrow> bool" where
  "begun w =
     (a_AttemptNumber (x_attempt w) = length (attempts_of (w_db w) (t_ID (x_task w)))
      \<and> 0 < a_AttemptNumber (x_attempt w))"

definition started_by :: "env \<Rightarrow> world \<Rightarrow> world \<Rightarrow> TaskAttempt \<Rightarrow> bool" where
  "started_by E v u a =
     (w_git u = w_git v \<and> x_attempt u = a \<and> x_task u = (x_task v)\<lparr>t_Status := StatusRunning\<rparr>
      \<and> a_ID a \<in> range (e_uuid E) \<and> a_TaskID a = t_ID (x_task v)
      \<and> a_ID a \<notin> set (map a_ID (db_attempts (w_db v))))"

lemma started_rollback:
  assumes "started_by E v u a" "w' = u\<lparr>w_db := w_db v\<rparr>"
  shows "runs E v w'"
proof -
  have w': "w_db w' = w_db v" "w_git w' = w_git v" "x_attempt w' = a" "t_ID (x_task w') = t_ID (x_task v)"
    "t_MaxRetries (x_task w') = t_MaxRetries (x_task v)"
    using assms by (simp_all add: started_by_def)
  have own: "a_ID a \<in> own_ids E" using assms(1) by (auto simp: started_by_def own_ids_def)
  have "a_ID b \<noteq> a_ID a" if "b \<in> set (db_attempts (w_db v))" for b
    using assms(1) that unfolding started_by_def by (metis imageI list.set_map)
  then have "good E v \<Longrightarrow> good E w'" using own by (auto simp: good_def knows_def w')
  then show ?thesis by (simp add: runs_def calls_ok_same w')
qed

lemma started_commit:
  assumes st: "started_by E v u a" and step: "good E v \<Longrightarrow> sys_step (w_db v) (w_db u)"
    and rows: "db_attempts (w_db u) = db_attempts (w_db v) @ [a]"
  shows "runs E v u"
proof -
  have "good E u" if g: "good E v"
  proof -
    have kn: "knows E (w_db v) (x_task v) (x_attempt v)" and ok: "db_ok (w_db v)" using g by (simp_all add: good_def)
    have "task_in (w_db u) (t_ID (x_task v)) (t_MaxRetries (x_task v))"
      using sys_step_task [OF step [OF g] ok] kn by (auto simp: knows_def)
    moreover have "\<forall>b \<in> set (db_attempts (w_db u)). a_ID b = a_ID a \<longrightarrow> b = a"
      using st rows by (force simp: started_by_def)
    ultimately have "knows E (w_db u) (x_task u) (x_attempt u)"
      using st by (auto simp: knows_def started_by_def own_ids_def same_attempt_def)
    with g sys_step_ok [OF step [OF g] ok] show ?thesis by (simp add: good_def)
  qed
  with st step show ?thesis by (auto simp: runs_def calls_ok_same started_by_def)
qed

lemma startAttempt_spec:
  assumes run: "run_state (startAttempt E) w = (r, w')"
  shows "runs E w w' \<and> x_retryPending w' = x_retryPending w
    \<and> (r = Inr () \<longrightarrow> x_attemptOpen w' \<and> x_task w' = (x_task w)\<lparr>t_Status := StatusRunning\<rparr> \<and> (good E w \<longrightarrow> begun w'))"
proof -
  let ?n = "w_tick w" and ?t = "x_task w" and ?i = "t_ID (x_task w)"
  let ?v = "w\<lparr>w_tick := Suc ?n, w_db := e_others E ?n (w_db w)\<rparr>"
  let ?body = "ebind (reads x_task) (\<lambda>t. ebind tick (\<lambda>n. ebind tick (\<lambda>k.
       ebind (in_db (claim_tx (t_ID t) (t_Status t) (e_uuid E n) (e_now E n) (e_owner E)
                       (e_now E k + leaseTTL (cancelPoll E)))) (\<lambda>a.
         eseq (assign (opened a))
           (append_event E (Some (a_ID a)) TypeTaskStarted
              [(''attempt'', JInt (int (a_AttemptNumber a))), (''backend'', JStr (c_Backend E)),
               (''agent'', JStr (t_Agent t))])))))"
  let ?claim = "claim_tx ?i (t_Status ?t) (e_uuid E (Suc ?n)) (e_now E (Suc ?n)) (e_owner E)
      (e_now E (Suc (Suc ?n)) + leaseTTL (cancelPoll E))"
  have sv: "side E w ?v" using side_turn by (rule state_io_relD) (simp add: run_turn)
  have wv: "runs E w ?v" by (rule side_is_runs [OF sv])
  show ?thesis
  proof (cases "e_conn E ?n = BeginFails")
    case True
    with run have "r = Inl (WStore ErrBegin)" "w' = ?v" by (auto simp: startAttempt_def inTx_def run_ebind run_turn run_err)
    with wv show ?thesis by simp
  next
    case False
    obtain q u where q: "run_state ?body ?v = (q, u)" and c: "run_state (commit_tx (e_conn E ?n) (w_db ?v) q) u = (r, w')"
      using run False by (auto simp: startAttempt_def inTx_def run_ebind run_turn run_err run_reads run_catch)
    show ?thesis
    proof (cases "?claim (w_db ?v)")
      case (Inl e)
      then have qe: "q = Inl (WStore e)" "u = ?v\<lparr>w_tick := Suc (Suc (Suc ?n))\<rparr>"
        using q by (auto simp: run_ebind run_reads run_tick run_in_db)
      then have "r = Inl (WStore e)" "w' = u\<lparr>w_db := w_db ?v\<rparr>"
        using c by (auto simp: commit_tx_def run_eseq run_assign run_err)
      with qe have w': "w' = ?v\<lparr>w_tick := Suc (Suc (Suc ?n))\<rparr>" "r \<noteq> Inr ()" by simp_all
      have "runs E ?v w'" unfolding w' by (rule runs_local) simp_all
      with wv w' show ?thesis by (auto intro: runs_trans)
    next
      case (Inr p)
      then obtain a d1 where cl: "?claim (w_db ?v) = Inr (a, d1)" by (cases p) simp
      note a = claim_Inr [OF cl]
      let ?o = "opened a (?v\<lparr>w_tick := Suc (Suc (Suc ?n)), w_db := d1\<rparr>)"
      have ap: "\<exists>pay. run_state (append_event E (Some (a_ID a)) TypeTaskStarted pay) ?o = (q, u)"
        using q cl by (auto simp: run_ebind run_reads run_tick run_in_db run_eseq run_assign)
      then obtain pay where ap: "run_state (append_event E (Some (a_ID a)) TypeTaskStarted pay) ?o = (q, u)" by blast
      have fields: "x_attempt u = a" "x_attemptOpen u" "x_task u = ?t\<lparr>t_Status := StatusRunning\<rparr>" "w_git u = w_git w"
        "x_retryPending u = x_retryPending w"
        using ap by (auto simp: append_event_def run_ebind run_tick run_reads run_in_db opened_def)
      have by_u: "started_by E ?v u a" using fields a by (auto simp: started_by_def)
      show ?thesis
      proof (cases q)
        case (Inl e)
        with c have "r = Inl e" "w' = u\<lparr>w_db := w_db ?v\<rparr>" by (auto simp: commit_tx_def run_eseq run_assign run_err)
        with started_rollback [OF by_u] wv fields show ?thesis by (auto intro: runs_trans)
      next
        case (Inr x)
        obtain st d where ev: "appendEvent st ?i (Some (a_ID a)) TypeTaskStarted d1 = Inr ((), d)" "w_db u = d"
          using ap Inr by (auto simp: run_append_Inr opened_def)
        have "start_tx ?i (t_Status ?t) (e_uuid E (Suc ?n)) (e_now E (Suc ?n)) (e_owner E)
            (e_now E (Suc (Suc ?n)) + leaseTTL (cancelPoll E)) (\<lambda>_. st) (w_db ?v) = Inr (a, w_db u)"
          using cl ev by (auto simp: start_tx_def tx_iffs)
        then have step: "sys_step (w_db ?v) (w_db u)" by (rule sys_step.start_task)
        have rows: "db_attempts (w_db u) = db_attempts (w_db ?v) @ [a]"
          using a(4) append_attempts [OF ev(1)] ev(2) by simp
        have vu: "runs E ?v u" by (rule started_commit [OF by_u step rows])
        have num: "begun u" if "good E w"
        proof -
          have "well_formed (w_db ?v)" using side_good [OF sv that] by (simp add: good_def db_ok_def)
          from a(5) [OF this] show ?thesis using fields rows a(2) by (simp add: begun_def attempts_of_def)
        qed
        have "w' = u\<lparr>w_db := w_db ?v\<rparr> \<and> r \<noteq> Inr () \<or> w' = u"
          using c Inr by (cases "e_conn E ?n") (auto simp: commit_tx_def run_eseq run_assign run_err run_ok)
        then show ?thesis
        proof
          assume "w' = u\<lparr>w_db := w_db ?v\<rparr> \<and> r \<noteq> Inr ()"
          with started_rollback [OF by_u] wv fields show ?thesis by (auto intro: runs_trans)
        next
          assume "w' = u"
          with vu wv fields num show ?thesis by (auto intro: runs_trans)
        qed
      qed
    qed
  qed
qed

lemma run_commit_Inr: "run_state (commit_tx c before r) w = (Inr x, v) \<Longrightarrow> r = Inr x \<and> v = w"
  by (cases r; cases c) (auto simp: commit_tx_def run_eseq run_err run_ok)

lemma run_inTx_Inr:
  assumes "run_state (inTx E body) w = (Inr x, v)"
  shows "run_state body (w\<lparr>w_tick := Suc (w_tick w), w_db := e_others E (w_tick w) (w_db w)\<rparr>) = (Inr x, v)"
  using assms
  by (auto simp: inTx_def run_ebind run_turn run_reads run_catch run_err dest: run_commit_Inr split: if_splits)

text \<open>A started attempt is one more.\<close>

lemma startAttempt_more:
  assumes run: "run_state (startAttempt E) w = (Inr (), w')" and g: "good E w"
  shows "length (attempts_of (w_db w) (t_ID (x_task w))) < length (attempts_of (w_db w') (t_ID (x_task w)))"
proof -
  let ?n = "w_tick w" and ?t = "x_task w" and ?i = "t_ID (x_task w)"
  let ?v = "w\<lparr>w_tick := Suc ?n, w_db := e_others E ?n (w_db w)\<rparr>"
  let ?claim = "claim_tx ?i (t_Status ?t) (e_uuid E (Suc ?n)) (e_now E (Suc ?n)) (e_owner E)
      (e_now E (Suc (Suc ?n)) + leaseTTL (cancelPoll E))"
  have sv: "side E w ?v" using side_turn by (rule state_io_relD) (simp add: run_turn)
  obtain a d1 st where cl: "?claim (w_db ?v) = Inr (a, d1)"
    and ev: "appendEvent st ?i (Some (a_ID a)) TypeTaskStarted d1 = Inr ((), w_db w')"
    using run_inTx_Inr [OF run [unfolded startAttempt_def]]
    by (auto simp: run_inverts opened_def)
  have rows: "db_attempts (w_db w') = db_attempts (w_db ?v) @ [a]"
    using claim_Inr(4) [OF cl] append_attempts [OF ev] by simp
  have "length (attempts_of (w_db w) ?i) \<le> length (attempts_of (w_db ?v) ?i)"
    using sv g sys_steps_task [of "w_db w" "w_db ?v" ?i "t_MaxRetries ?t"]
    by (auto simp: side_def runs_def good_def knows_def)
  then show ?thesis using rows claim_Inr(2) [OF cl] by (simp add: attempts_of_def)
qed

section \<open>The loop\<close>

lemma reset_runs: "runs E w (resetForAttempt w)"
  by (rule runs_local) (simp_all add: resetForAttempt_def)

lemma attempt_loop_spec:
  assumes "run_state (attempt_loop E fuel) w = (r, w')" "attempting t w"
  shows "runs E w w' \<and> (\<forall>x. r = Inr x \<longrightarrow> (\<exists>out. x = Some out \<and> good_end E t out))"
  using assms
proof (induction fuel arbitrary: w)
  case 0
  then show ?case by (auto simp: run_err runs_refl)
next
  case (Suc fuel)
  obtain q u where q: "run_state (attemptOnce E) w = (q, u)" by fastforce
  have st: "settled E t w q u" by (rule attemptOnce_settled [OF q Suc.prems(2)])
  then have wu: "runs E w u" by (simp add: settled_def)
  show ?case
  proof (cases q)
    case (Inl e)
    with q Suc.prems(1) wu show ?thesis by (auto simp: run_ebind)
  next
    case (Inr x)
    show ?thesis
    proof (cases x)
      case (Some out)
      with Inr st have "\<not> x_retryPending u" "good_end E t out" by (simp_all add: settled_def)
      with Inr Some q Suc.prems(1) wu show ?thesis by (auto simp: run_ebind run_reads run_ok)
    next
      case None
      with Inr st have p: "retrying t (x_attempt w) u" by (simp add: settled_def)
      let ?u = "resetForAttempt u"
      have uu: "runs E w ?u" using wu reset_runs by (rule runs_trans)
      obtain s v where s: "run_state (startAttempt E) ?u = (s, v)" and k: "run_state (case s of
             Inl e \<Rightarrow> ebind (cancelledElsewhere E e) (\<lambda>o'. case o' of
                 Some out \<Rightarrow> ok (Some out) | None \<Rightarrow> err e)
           | Inr _ \<Rightarrow> attempt_loop E fuel) v = (r, w')"
        using Suc.prems(1) q Inr p by (auto simp: retrying_def run_ebind run_reads run_eseq run_assign run_catch)
      note sp = startAttempt_spec [OF s]
      have wv: "runs E w v" using uu sp by (blast intro: runs_trans)
      show ?thesis
      proof (cases s)
        case (Inl e)
        from elsewhere_or_error [OF k [unfolded Inl sum.case]] wv show ?thesis
          by (auto simp: good_end_def ended_badly_def intro: runs_trans)
      next
        case (Inr y)
        have "attempting t v"
          using Inr sp p by (auto simp: attempting_def retrying_def resetForAttempt_def intro: same_spec_status)
        with Suc.IH k Inr wv show ?thesis by (auto intro: runs_trans)
      qed
    qed
  qed
qed

end
