(* ===== verification/RunBounds.thy ===== *)
theory RunBounds
  imports RunOutcome
begin

text \<open>
  The loop over attempts ends: no error the program returns is the one that stands for spent
  fuel, and the number of attempts a task may have keeps the loop from spending it.
\<close>

section \<open>Errors of the program\<close>

definition fuel_free :: "'a act \<Rightarrow> bool" where
  "fuel_free m = (\<forall>w v. run_state m w \<noteq> (Inl WFuel, v))"

lemma fuel_freeD: "fuel_free m \<Longrightarrow> run_state m w = (Inl e, v) \<Longrightarrow> e \<noteq> WFuel"
  by (auto simp: fuel_free_def)

lemma free_ok: "fuel_free (ok x)" and free_err: "e \<noteq> WFuel \<Longrightarrow> fuel_free (err e)"
  and free_reads: "fuel_free (reads f)" and free_assign: "fuel_free (assign g)"
  and free_tick: "fuel_free tick" and free_ask: "fuel_free (ask h)" and free_turn: "fuel_free (turn E)"
  and free_in_db: "fuel_free (in_db m)"
  by (auto simp: fuel_free_def run_ok run_err run_reads run_assign run_tick run_ask run_turn run_in_db)

lemma free_ebind: "fuel_free m \<Longrightarrow> (\<And>x. fuel_free (f x)) \<Longrightarrow> fuel_free (ebind m f)"
  by (auto simp: fuel_free_def run_ebind)

lemma free_eseq: "fuel_free m \<Longrightarrow> fuel_free n \<Longrightarrow> fuel_free (eseq m n)"
  unfolding eseq_def by (rule free_ebind)

lemma free_catch: "(\<And>r. fuel_free (h r)) \<Longrightarrow> fuel_free (catch m h)"
  by (auto simp: fuel_free_def run_catch)

lemma free_reraise:
  assumes "fuel_free m" "\<And>r. r \<noteq> Inl WFuel \<Longrightarrow> fuel_free (h r)"
  shows "fuel_free (catch m h)"
  unfolding fuel_free_def
proof (intro allI notI)
  fix w v assume "run_state (catch m h) w = (Inl WFuel, v)"
  then obtain q u where q: "run_state m w = (q, u)" "run_state (h q) u = (Inl WFuel, v)" by (auto simp: run_catch)
  then have "q \<noteq> Inl WFuel" using assms(1) by (auto simp: fuel_free_def)
  from assms(2) [OF this] q(2) show False by (simp add: fuel_free_def)
qed

lemma free_if: "fuel_free m \<Longrightarrow> fuel_free n \<Longrightarrow> fuel_free (if b then m else n)"
  by simp

lemma free_let: "(\<And>v. fuel_free (f v)) \<Longrightarrow> fuel_free (let v = x in f v)"
  by simp

lemma free_sum:
  "(\<And>e. x = Inl e \<Longrightarrow> fuel_free (f e)) \<Longrightarrow> (\<And>y. fuel_free (g y)) \<Longrightarrow>
    fuel_free (case x of Inl e \<Rightarrow> f e | Inr y \<Rightarrow> g y)"
  by (cases x) auto

lemma free_option: "fuel_free m \<Longrightarrow> (\<And>y. fuel_free (g y)) \<Longrightarrow> fuel_free (case x of None \<Rightarrow> m | Some y \<Rightarrow> g y)"
  by (cases x) auto

lemmas free_rules = free_ok free_err free_reads free_assign free_tick free_ask free_turn free_in_db free_ebind
  free_eseq free_if free_let free_sum free_option

lemma free_commit: "r \<noteq> Inl WFuel \<Longrightarrow> fuel_free (commit_tx c before r)"
  unfolding commit_tx_def by (cases r; cases c) (auto intro!: free_rules)

lemma free_inTx: "fuel_free body \<Longrightarrow> fuel_free (inTx E body)"
  unfolding inTx_def by (intro free_rules free_reraise free_commit; simp)

lemma free_stmt: "fuel_free (stmt E m)" "fuel_free (query E q)"
  unfolding query_def stmt_def by (intro free_rules; simp)+

lemma free_best_effort: "fuel_free (best_effort m)"
  unfolding best_effort_def by (intro free_catch free_rules)

lemma free_deferring: "fuel_free m \<Longrightarrow> fuel_free (deferring cleanup m)"
  unfolding fuel_free_def using run_deferring by blast

lemma free_git_work: "fuel_free (git_work m)"
  unfolding git_work_def by (intro free_catch free_rules; simp)

lemma free_basics:
  "fuel_free (append_event E a ty pay)" "fuel_free (own_event E ty pay)" "fuel_free (fence E)" "fuel_free (emit E ty pay)"
  "fuel_free outcome" "fuel_free (set_status s)"
  unfolding own_event_def append_event_def fence_def emit_def outcome_def set_status_def
  by (intro free_rules free_best_effort)+

lemma free_transition: "fuel_free (transition E nxt ty pay)"
  unfolding transition_def by (intro free_rules free_inTx free_basics)

lemma free_elsewhere: "fuel_free (adopt E t)" "fuel_free (cancelledElsewhere E e)"
  unfolding cancelledElsewhere_def adopt_def by (intro free_rules free_catch free_basics)+

lemma free_record_failure: "fuel_free (record_failure E cancelled kind cause)"
  unfolding record_failure_def fail_transaction_def retainWorktreeTx_def
  by (intro free_rules free_reraise free_inTx free_basics free_elsewhere; auto)

lemma free_scheduleRetry: "fuel_free (scheduleRetry E c kind cause)"
  unfolding scheduleRetry_def retry_transaction_def
  by (intro free_rules free_reraise free_inTx free_basics free_elsewhere free_git_work; auto)

lemma free_fail: "fuel_free (fail E kind cause)"
proof -
  have "fuel_free (case (retry, wt) of
          (True, Some c) \<Rightarrow>
            ebind (scheduleRetry E c kind cause) (\<lambda>r. case r of
                Some out \<Rightarrow> ok out | None \<Rightarrow> record_failure E cancelled kind cause)
        | _ \<Rightarrow> record_failure E cancelled kind cause)" for retry wt cancelled
    by (cases retry; cases wt) (auto intro!: free_rules free_scheduleRetry free_record_failure)
  moreover have "fuel_free (willRetry E kind)" unfolding willRetry_def by (intro free_rules)
  ultimately show ?thesis unfolding fail_def by (intro free_rules) auto
qed

lemma free_succeed: "fuel_free (succeed E c rep)"
  unfolding succeed_def success_transaction_def cleanupAfterSuccess_def
  by (intro free_rules free_reraise free_catch free_inTx free_basics free_elsewhere free_git_work free_fail free_stmt
      free_best_effort; auto)

lemma free_reports:
  "fuel_free (reportFilesAdded E c)" "fuel_free (reportWorktreeDrift E c)" "fuel_free (reportCoverage E c dir)"
  unfolding reportFilesAdded_def reportWorktreeDrift_def reportCoverage_def
  by (intro free_rules free_catch free_basics)+

lemma free_persistVerification: "fuel_free (persistVerification E vs)"
  by (induction vs) (auto simp only: persistVerification.simps intro!: free_rules free_catch free_basics)

lemma free_check_in: "fuel_free (check_in E c dir)"
  unfolding check_in_def judge_def set_report_def
  by (intro free_rules free_catch free_fail free_succeed free_reports free_persistVerification free_basics)

lemma free_verify: "fuel_free (verify E c)"
  unfolding verify_def independence_def run_verification_def
  by (intro free_rules free_reraise free_catch [of _ "ChangedPaths E c"] free_catch [of _ "cleanCheckout E c"] free_transition
      free_elsewhere free_fail free_check_in free_deferring free_basics; auto)

lemma free_stopped: "fuel_free m \<Longrightarrow> fuel_free (stopped_with m)"
  unfolding stopped_with_def by (intro free_rules)

lemma free_setup: "fuel_free (attempt_setup E)"
  unfolding attempt_setup_def baseCheck_def with_worktree_def restore_record_def set_report_def
  by (intro free_rules free_catch free_stopped free_fail free_deferring free_basics; simp)

lemma free_attemptOnce: "fuel_free (attemptOnce E)"
  unfolding attemptOnce_def with_worktree_def work_def inspect_and_verify_def
  by (intro free_rules free_catch free_setup free_fail free_reports free_verify; simp)

lemma free_startAttempt: "fuel_free (startAttempt E)"
  unfolding startAttempt_def by (intro free_rules free_inTx free_basics)

section \<open>The bound\<close>

lemma task_bound:
  assumes ok: "db_ok d" and t: "task_in d i m"
  shows "0 \<le> m" "int (length (attempts_of d i)) \<le> m + 1"
proof -
  obtain u where u: "u \<in> set (db_tasks d)" "t_ID u = i" "t_MaxRetries u = m" using t by (auto simp: task_in_def)
  then have "task_ok (abs_task d u)" using ok by (simp add: db_ok_def)
  with u show "0 \<le> m" "int (length (attempts_of d i)) \<le> m + 1"
    by (auto simp: task_ok_def abs_task_def split: if_splits)
qed

lemma good_task: "good E w \<Longrightarrow> task_in (w_db w) (t_ID (x_task w)) (t_MaxRetries (x_task w))"
  by (simp add: good_def knows_def)

lemma begun_runs:
  assumes b: "begun w" and r: "runs E w w'" and g: "good E w"
    and a: "x_attempt w' = x_attempt w" and i: "t_ID (x_task w') = t_ID (x_task w)"
  shows "a_AttemptNumber (x_attempt w') \<le> length (attempts_of (w_db w') (t_ID (x_task w')))"
proof -
  have st: "sys_step\<^sup>*\<^sup>* (w_db w) (w_db w')" using r g by (simp add: runs_def)
  from sys_steps_task [OF this _ good_task [OF g]] g b a i show ?thesis by (simp add: good_def begun_def)
qed

text \<open>Each attempt has a higher number than the last, and no number is above the allowance plus one.\<close>

lemma loop_within:
  assumes "run_state (attempt_loop E fuel) w = (r, w')" "attempting t w" "good E w" "begun w"
    and "t_MaxRetries t + 2 \<le> int (a_AttemptNumber (x_attempt w)) + int fuel"
  shows "r \<noteq> Inl WFuel"
  using assms
proof (induction fuel arbitrary: w)
  case 0
  have "t_MaxRetries (x_task w) = t_MaxRetries t" using 0(2) by (auto simp: attempting_def same_spec_def)
  then have "int (length (attempts_of (w_db w) (t_ID (x_task w)))) \<le> t_MaxRetries t + 1"
    using task_bound(2) [OF _ good_task [OF 0(3)]] 0(3) by (simp add: good_def)
  with 0(4,5) show ?case by (simp add: begun_def)
next
  case (Suc fuel)
  obtain q u where q: "run_state (attemptOnce E) w = (q, u)" by fastforce
  have st: "settled E t w q u" by (rule attemptOnce_settled [OF q Suc.prems(2)])
  show ?case
  proof (cases q)
    case (Inl e)
    with q Suc.prems(1) fuel_freeD [OF free_attemptOnce, of E] show ?thesis by (auto simp: run_ebind)
  next
    case (Inr x)
    show ?thesis
    proof (cases x)
      case (Some out)
      with Inr st q Suc.prems(1) show ?thesis by (auto simp: settled_def run_ebind run_reads run_ok)
    next
      case None
      with Inr st have p: "retrying t (x_attempt w) u" and wu: "runs E w u" by (simp_all add: settled_def)
      let ?u = "resetForAttempt u"
      have fu: "x_task ?u = x_task u" "x_attempt ?u = x_attempt w" "\<not> x_retryPending ?u" "w_db ?u = w_db u"
        using p by (simp_all add: resetForAttempt_def retrying_def)
      have ru: "runs E w ?u" using wu reset_runs by (rule runs_trans)
      obtain s v where s: "run_state (startAttempt E) ?u = (s, v)" and k: "run_state (case s of
             Inl e \<Rightarrow> ebind (cancelledElsewhere E e) (\<lambda>o'. case o' of
                 Some out \<Rightarrow> ok (Some out) | None \<Rightarrow> err e)
           | Inr _ \<Rightarrow> attempt_loop E fuel) v = (r, w')"
        using Suc.prems(1) q Inr None p by (auto simp: retrying_def run_ebind run_reads run_eseq run_assign run_catch)
      note sp = startAttempt_spec [OF s]
      show ?thesis
      proof (cases s)
        case (Inl e)
        have "e \<noteq> WFuel" using fuel_freeD [OF free_startAttempt] s Inl by blast
        with elsewhere_or_error [OF k [unfolded Inl sum.case]] show ?thesis by auto
      next
        case (Inr y)
        have gu: "good E ?u" using ru Suc.prems(3) by (simp add: runs_def)
        then have bv: "begun v" and gv: "good E v" using sp Inr by (auto simp: runs_def)
        have ids: "t_ID (x_task ?u) = t_ID (x_task w)" "t_MaxRetries (x_task v) = t_MaxRetries t" "t_ID (x_task v) = t_ID (x_task w)"
          using p fu Suc.prems(2) sp Inr by (auto simp: attempting_def retrying_def same_spec_def)
        have old: "a_AttemptNumber (x_attempt w) \<le> length (attempts_of (w_db ?u) (t_ID (x_task w)))"
          using begun_runs [OF Suc.prems(4) ru Suc.prems(3) fu(2) ids(1)] fu(2) ids(1) by simp
        have more: "length (attempts_of (w_db ?u) (t_ID (x_task w))) < length (attempts_of (w_db v) (t_ID (x_task w)))"
          using startAttempt_more [of E ?u v] s Inr gu ids(1) by simp
        have "attempting t v"
          using Inr sp p fu by (auto simp: attempting_def retrying_def intro: same_spec_status)
        moreover have "t_MaxRetries t + 2 \<le> int (a_AttemptNumber (x_attempt v)) + int fuel"
          using old more bv ids(3) Suc.prems(5) by (simp add: begun_def)
        ultimately show ?thesis using Suc.IH k Inr gv bv by simp
      qed
    qed
  qed
qed

end
