(* ===== verification/RunGuarantees.thy ===== *)
theory RunGuarantees
  imports RunBounds
begin

text \<open>What a whole run guarantees, from the gate to its result.\<close>

section \<open>Before the first attempt\<close>

definition is_waiting :: "db \<Rightarrow> uuid \<Rightarrow> bool" where
  "is_waiting d i = (\<exists>t \<in> set (db_tasks d). t_ID t = i \<and> t_Status t = StatusWaitingApproval)"

definition keeps_waiting :: "env \<Rightarrow> uuid \<Rightarrow> bool" where
  "keeps_waiting E i = (\<forall>n d. is_waiting d i \<longrightarrow> is_waiting (e_others E n d) i)"

text \<open>What the gate relies on when the run read a waiting task: nobody decides meanwhile.\<close>

definition gate_safe :: "env \<Rightarrow> world \<Rightarrow> bool" where
  "gate_safe E w =
     (t_Status (x_task w) = StatusWaitingApproval \<longrightarrow>
        keeps_waiting E (t_ID (x_task w)) \<and> is_waiting (w_db w) (t_ID (x_task w)))"

lemma query_safe:
  assumes run: "run_state (query E q) w = (r, v)" and safe: "gate_safe E w"
  shows "side E w v" "gate_safe E v"
proof -
  show sd: "side E w v" by (rule sideD [OF side_query run])
  have "w_db v = e_others E (w_tick w) (w_db w)"
    using run by (auto simp: query_def stmt_def run_ebind run_turn run_err run_in_db tx_read_Inr_iff split: if_splits)
  with safe show "gate_safe E v"
    by (auto simp: gate_safe_def keeps_waiting_def frameD [OF side_frame [OF sd]])
qed

lemma gate_kept: "gate_tx i cur newid reason st d = Inr (p, e) \<Longrightarrow> kept d e"
  using kept_refl [of d]
  by (auto simp: gate_tx_def tx_iffs split: if_splits
      dest!: transition_kept append_kept aside_kept [OF request_or_existing_aside] intro: kept_trans)

lemma open_gate_side:
  assumes run: "run_state (open_gate E (x_task w) by) w = (r, w')" and safe: "gate_safe E w"
  shows "side E w w'"
  using run unfolding open_gate_def
proof (rule inTx_side)
  let ?t = "x_task w"
  show "state_io_rel inside (eseq (if t_Status ?t \<noteq> StatusWaitingApproval
                   then in_db (TransitionTask (t_ID ?t) (t_Status ?t) StatusWaitingApproval) else ok ())
       (ebind tick (\<lambda>n. ebind (in_db (request_or_existing (e_uuid E n) (t_ID ?t) (approvalReason by)))
          (\<lambda>a. eseq (append_event E None TypeApprovalRequired
                 [(''approval_id'', JStr (uuid_string (ap_ID a))), (''required_by'', JStr by)]) (ok a)))))"
    by (intro inside.moves_actions inside_events inside_in_db inside_tick)
next
  let ?t = "x_task w"
  fix v x v'
  assume body: "run_state (eseq (if t_Status ?t \<noteq> StatusWaitingApproval
                   then in_db (TransitionTask (t_ID ?t) (t_Status ?t) StatusWaitingApproval) else ok ())
       (ebind tick (\<lambda>n. ebind (in_db (request_or_existing (e_uuid E n) (t_ID ?t) (approvalReason by)))
          (\<lambda>a. eseq (append_event E None TypeApprovalRequired
                 [(''approval_id'', JStr (uuid_string (ap_ID a))), (''required_by'', JStr by)]) (ok a))))) v = (Inr x, v')"
    and fr: "frame v = frame w" and db: "w_db v = e_others E (w_tick w) (w_db w)"
  have "\<exists>newid st. gate_tx (t_ID ?t) (t_Status ?t) newid (approvalReason by) (\<lambda>_. st) (w_db v) = Inr (x, w_db v')"
  proof (intro exI)
    show "gate_tx (t_ID ?t) (t_Status ?t) (e_uuid E (w_tick v)) (approvalReason by)
      (\<lambda>_. (e_uuid E (Suc (w_tick v)), e_now E (Suc (w_tick v)),
        [(''approval_id'', JStr (uuid_string (ap_ID x))), (''required_by'', JStr by)])) (w_db v) = Inr (x, w_db v')"
      using body frameD(1) [OF fr]
      by (auto simp: run_inverts gate_tx_def tx_iffs split: if_splits)
  qed
  then obtain newid st where tx: "gate_tx (t_ID ?t) (t_Status ?t) newid (approvalReason by) (\<lambda>_. st) (w_db v) = Inr (x, w_db v')"
    by blast
  have "\<exists>u \<in> set (db_tasks (w_db v)). t_ID u = t_ID ?t \<and> t_Status u = t_Status ?t" if "t_Status ?t = StatusWaitingApproval"
    using safe that by (auto simp: gate_safe_def keeps_waiting_def is_waiting_def db)
  then have "sys_step (w_db v) (w_db v')" by (intro sys_step.gate_task [OF tx]) blast
  with gate_kept [OF tx] show "sys_step\<^sup>*\<^sup>* (w_db v) (w_db v') \<and> kept (w_db v) (w_db v')" by auto
qed

lemma gate_and_stop_spec:
  assumes run: "run_state (gate_and_stop E (x_task w) by) w = (r, w')" and safe: "gate_safe E w"
  shows "runs E w w' \<and> r \<noteq> Inr ()"
proof -
  obtain q u where q: "run_state (open_gate E (x_task w) by) w = (q, u)"
    and rest: "w' = u \<and> r \<noteq> Inr () \<or> (w' = u\<lparr>x_task := (x_task u)\<lparr>t_Status := StatusWaitingApproval\<rparr>\<rparr> \<and> r \<noteq> Inr ())"
    using run by (auto simp: gate_and_stop_def run_ebind run_eseq set_status_def run_assign run_err)
  have "side E w u" by (rule open_gate_side [OF q safe])
  moreover have "runs E u w'" using rest by (auto simp: runs_refl intro: runs_local)
  ultimately show ?thesis using rest by (auto intro: runs_trans side_is_runs)
qed

lemma enforceApproval_spec:
  assumes run: "run_state (enforceApproval E) w = (r, w')" and safe: "gate_safe E w"
  shows "runs E w w' \<and> (r = Inr () \<longrightarrow> frame w' = frame w)"
proof -
  obtain q u where q: "run_state (requiredBy E) w = (q, u)" by fastforce
  have su: "side E w u" "gate_safe E u"
  proof -
    have "run_state (query E (GetProject (t_ProjectID (x_task w)))) w = (fst (run_state (query E (GetProject (t_ProjectID (x_task w)))) w), u)"
      using q by (auto simp: requiredBy_def run_ebind run_reads run_ok)
    from query_safe [OF this safe] show "side E w u" "gate_safe E u" .
  qed
  show ?thesis
  proof (cases "\<exists>by. q = Inr by \<and> by \<noteq> []")
    case False
    then have "w' = u" using run q by (auto simp: enforceApproval_def run_ebind run_ok)
    with su show ?thesis by (simp add: side_def)
  next
    case True
    then obtain who where who: "q = Inr who" "who \<noteq> []" by blast
    obtain l v where l: "run_state (query E (LatestApproval (t_ID (x_task u)))) u = (l, v)" by fastforce
    have k: "run_state (if (case l of Inr a \<Rightarrow> ap_Status a = ApprovalGranted | Inl _ \<Rightarrow> False) then ok ()
           else if (case l of Inr a \<Rightarrow> ap_Status a = ApprovalDenied | Inl _ \<Rightarrow> False)
           then err (WApprovalRequired None)
           else (case l of
                   Inl e \<Rightarrow> if e \<noteq> WStore ErrNotFound then err e else gate_and_stop E (x_task u) who
                 | Inr _ \<Rightarrow> gate_and_stop E (x_task u) who)) v = (r, w')"
      using run who unfolding enforceApproval_def by (simp add: ev_ebind q ev_basic ev_catch l)
    note sv = query_safe [OF l su(2)]
    have wv: "side E w v" using su(1) sv(1) by (rule side.R_trans)
    have t: "x_task u = x_task v" using frameD(1) [OF side_frame [OF sv(1)]] by simp
    have "(w' = v) \<or> run_state (gate_and_stop E (x_task v) who) v = (r, w')"
      using k t by (auto simp: run_ok run_err split: sum.splits if_splits)
    then show ?thesis
      using gate_and_stop_spec [OF _ sv(2)] wv by (auto simp: side_def intro: runs_trans)
  qed
qed

lemma becomeReady_spec:
  assumes run: "run_state (becomeReady E) w = (r, w')"
    and closed: "\<not> x_attemptOpen w" "\<not> Active (t_Status (x_task w))"
  shows "runs E w w'" "r = Inr () \<Longrightarrow> frame w' = frame (w\<lparr>x_task := (x_task w)\<lparr>t_Status := StatusReady\<rparr>\<rparr>)"
proof -
  have st: "step_allowed E w StatusReady TypeTaskReady"
    unfolding step_allowed_def
  proof (intro allI impI)
    fix st v d assume g: "good E v" and fr: "frame v = frame w"
      and tx: "transition_tx (x_attemptOpen w) (t_ID (x_task w)) (a_ID (x_attempt w)) (e_owner E) (t_Status (x_task w))
        StatusReady TypeTaskReady st (w_db v) = Inr ((), d)"
    have "own_attempt (w_db v) (t_ID (x_task w)) (a_ID (x_attempt w))"
      using good_parts(1) [OF g] frameD [OF fr] by simp
    with tx closed show "sys_step (w_db v) d" by (auto intro: sys_step.ready_task)
  qed
  show "runs E w w'" "r = Inr () \<Longrightarrow> frame w' = frame (w\<lparr>x_task := (x_task w)\<lparr>t_Status := StatusReady\<rparr>\<rparr>)"
  proof (atomize (full), cases "t_Status (x_task w) = StatusReady")
    case True
    then have "w' = w" "r = Inr ()" using run by (auto simp: becomeReady_def run_ebind run_reads run_ok)
    with True show "runs E w w' \<and> (r = Inr () \<longrightarrow> frame w' = frame (w\<lparr>x_task := (x_task w)\<lparr>t_Status := StatusReady\<rparr>\<rparr>))"
      by (simp add: frame_def runs_refl)
  next
    case False
    then have "run_state (transition E StatusReady TypeTaskReady []) w = (r, w')"
      using run by (auto simp: becomeReady_def run_ebind run_reads)
    from transition_spec [OF this st]
    show "runs E w w' \<and> (r = Inr () \<longrightarrow> frame w' = frame (w\<lparr>x_task := (x_task w)\<lparr>t_Status := StatusReady\<rparr>\<rparr>))" by blast
  qed
qed

lemma free_gate: "fuel_free (enforceApproval E)" "fuel_free (becomeReady E)"
  unfolding enforceApproval_def requiredBy_def gate_and_stop_def open_gate_def becomeReady_def
  by (intro free_rules free_reraise free_inTx free_stmt free_basics free_transition; auto)+

section \<open>The run\<close>

definition run_ready :: "env \<Rightarrow> db \<Rightarrow> Task \<Rightarrow> bool" where
  "run_ready E d t =
     (others_ok E \<and> db_ok d \<and> t \<in> set (db_tasks d) \<and> (\<forall>a \<in> set (db_attempts d). a_ID a \<notin> own_ids E)
      \<and> (t_Status t = StatusWaitingApproval \<longrightarrow> keeps_waiting E (t_ID t)))"

lemma run_ready_good:
  assumes "run_ready E d t"
  shows "good E (new_run t d n calls)" "gate_safe E (new_run t d n calls)"
  using assms
  by (auto simp: run_ready_def good_def knows_def new_run_def no_attempt_def own_ids_def task_in_def gate_safe_def is_waiting_def)

text \<open>How a run goes: it stops before its first attempt, or its loop starts with an attempt of its own.\<close>

lemma execute_cases:
  assumes run: "run_state (execute E fuel) (new_run t d n calls) = (r, w')" and safe: "gate_safe E (new_run t d n calls)"
  shows "(runs E (new_run t d n calls) w' \<and> (\<forall>x. r \<noteq> Inr x) \<and> r \<noteq> Inl WFuel)
    \<or> (\<exists>v. runs E (new_run t d n calls) v \<and> run_state (attempt_loop E fuel) v = (r, w') \<and> attempting t v
          \<and> (good E (new_run t d n calls) \<longrightarrow> begun v))"
proof -
  let ?w = "new_run t d n calls"
  have w: "x_task ?w = t" "\<not> x_attemptOpen ?w" "\<not> x_retryPending ?w" by (simp_all add: new_run_def)
  show ?thesis
  proof (cases "Terminal (t_Status t) \<or> Active (t_Status t)")
    case True
    with run w have "w' = ?w" "\<exists>s. r = Inl (WNotRunnable s)" by (auto simp: execute_def run_ebind run_reads run_err simp del: Terminal_iff split: if_splits)
    then show ?thesis by (auto simp: runs_refl)
  next
    case False
    then have k: "run_state (eseq (enforceApproval E) (eseq (becomeReady E) (eseq (startAttempt E) (attempt_loop E fuel)))) ?w = (r, w')"
      using run w by (auto simp: execute_def run_ebind run_reads simp del: Terminal_iff)
    obtain q1 u1 where q1: "run_state (enforceApproval E) ?w = (q1, u1)" by fastforce
    note s1 = enforceApproval_spec [OF q1 safe]
    show ?thesis
    proof (cases q1)
      case (Inl e)
      with k q1 s1 fuel_freeD [OF free_gate(1), of E] show ?thesis by (auto simp: run_eseq)
    next
      case (Inr x)
      have fr: "frame u1 = frame ?w" using s1 Inr by simp
      have c1: "\<not> x_attemptOpen u1" "\<not> Active (t_Status (x_task u1))" using frameD [OF fr] w False by simp_all
      from k q1 Inr have k2: "run_state (eseq (becomeReady E) (eseq (startAttempt E) (attempt_loop E fuel))) u1 = (r, w')"
        by (auto simp: run_eseq)
      obtain q2 u2 where q2: "run_state (becomeReady E) u1 = (q2, u2)" by fastforce
      note s2 = becomeReady_spec [OF q2 c1]
      have r2: "runs E ?w u2" using s1 s2(1) by (blast intro: runs_trans)
      show ?thesis
      proof (cases q2)
        case (Inl e)
        with k2 q2 r2 fuel_freeD [OF free_gate(2), of E] show ?thesis by (auto simp: run_eseq)
      next
        case (Inr x)
        from k2 q2 Inr have k3: "run_state (eseq (startAttempt E) (attempt_loop E fuel)) u2 = (r, w')"
          by (auto simp: run_eseq)
        obtain q3 u3 where q3: "run_state (startAttempt E) u2 = (q3, u3)" by fastforce
        note s3 = startAttempt_spec [OF q3]
        have r3: "runs E ?w u3" using r2 s3 by (blast intro: runs_trans)
        show ?thesis
        proof (cases q3)
          case (Inl e)
          with k3 q3 r3 fuel_freeD [OF free_startAttempt, of E] show ?thesis by (auto simp: run_eseq)
        next
          case (Inr y)
          have f2: "frame u2 = frame (u1\<lparr>x_task := (x_task u1)\<lparr>t_Status := StatusReady\<rparr>\<rparr>)" using s2(2) \<open>q2 = _\<close> by simp
          have "attempting t u3"
            using s3 Inr frameD [OF f2] frameD [OF fr] w
            by (auto simp: attempting_def intro: same_spec_status same_spec_refl)
          moreover have "good E ?w \<longrightarrow> begun u3" using s3 Inr r2 by (auto simp: runs_def)
          ultimately show ?thesis using k3 q3 Inr r3 by (auto simp: run_eseq)
        qed
      qed
    qed
  qed
qed

section \<open>Guarantees\<close>



text \<open>
  C5: The loop over attempts ends. One more round than the retries the task allows is enough: no
  error a run returns is the one that stands for spent fuel.
\<close>

theorem run_ends_within_allowance:
  assumes ready: "run_ready E d t"
    and run: "run_state (execute E (enough_fuel t)) (new_run t d n calls) = (r, w)"
  shows "r \<noteq> Inl WFuel"
proof -
  let ?w = "new_run t d n calls"
  note g = run_ready_good [OF ready, of n calls]
  from execute_cases [OF run g(2)] show ?thesis
  proof
    assume "\<exists>v. runs E ?w v \<and> run_state (attempt_loop E (enough_fuel t)) v = (r, w) \<and> attempting t v \<and> (good E ?w \<longrightarrow> begun v)"
    then obtain v where v: "runs E ?w v" "run_state (attempt_loop E (enough_fuel t)) v = (r, w)" "attempting t v" "begun v"
      using g(1) by blast
    have "0 < a_AttemptNumber (x_attempt v)" using v(4) unfolding begun_def by (rule conjunct2)
    then have "t_MaxRetries t + 2 \<le> int (a_AttemptNumber (x_attempt v)) + int (enough_fuel t)" by (simp add: enough_fuel_def)
    moreover have "good E v" using v(1) g(1) by (simp add: runs_def)
    ultimately show ?thesis using loop_within [OF v(2,3) _ v(4)] by blast
  qed simp
qed

end
