(* ===== verification/RunDemo.thy ===== *)
theory RunDemo
  imports RunGuarantees
begin

text \<open>
  Concrete runs, evaluated: a process alone with the database of \<open>Demo\<close>, a git that answers every
  command, an agent that succeeds at once, checks that pass or fail. The witnesses of the run's
  guarantees are these runs.
\<close>

definition demo_git :: "git_call \<Rightarrow> gitres" where
  "demo_git call =
     \<lparr>g_ok = True, g_exit = Some 0,
      g_out = (if ''write-tree'' \<in> set (gc_Args call) then ''t1'' else ''/r y''), g_err = [], g_cut = False\<rparr>"

definition demo_child :: "int \<Rightarrow> child" where
  "demo_child code =
     \<lparr>c_start = None, c_stdout = [], c_stderr = [], c_wait = (if code = 0 then WaitOk else WaitFailed ''exit''), c_exit = code, c_cancelled = False,
      c_deadline = False, c_leftovers = False, c_reaped = True, c_startedAt = 0, c_finishedAt = 1\<rparr>"

definition demo_check :: "int \<Rightarrow> nat \<Rightarrow> nat \<Rightarrow> observation" where
  "demo_check code n k =
     \<lparr>o_before = CtxLive, o_stat = StatDir, o_child = demo_child code, o_after = CtxLive, o_id = 1000 + n + k, o_now = 5\<rparr>"

definition demo_result :: AgentResult where
  "demo_result =
     \<lparr>ag_Backend = ''b'', ag_Status = WorkerSucceeded, ag_FailureKind = FailureNone, ag_Command = ''c'',
      ag_WorkingDir = ''/w'', ag_ExitCode = Some 0, ag_Stdout = [], ag_StdoutTruncated = False, ag_Stderr = [],
      ag_StderrTruncated = False, ag_SessionID = ''s'', ag_Summary = [], ag_FinishReason = [], ag_Model = [],
      ag_OrphansKilled = False, ag_ToolCalls = 0, ag_StartedAt = None, ag_FinishedAt = Some 4, ag_Duration = 0,
      ag_Err = None\<rparr>"

definition demo_env :: "int \<Rightarrow> env" where
  "demo_env code =
     \<lparr>e_others = (\<lambda>n d. d), e_conn = (\<lambda>n. Works), e_lost = (\<lambda>n. False), e_ctx = (\<lambda>n. CtxLive),
      e_uuid = (\<lambda>n. 100 + n), e_now = (\<lambda>n. int n), e_git = (\<lambda>n call. Inr (demo_git call)),
      e_links = (\<lambda>n p. Some p), e_exists = (\<lambda>n p. False), e_is_dir = (\<lambda>n p. True), e_mkdir = (\<lambda>n p. Inr ()),
      e_index = (\<lambda>n p. Inr ''i''), e_temp = (\<lambda>n. Inr ''i''), e_hash_file = (\<lambda>n p. Inr ''h''),
      e_hash_tree = (\<lambda>n p b. Inr []), e_prompt = (\<lambda>t. Inr ''p''), e_retry_prompt = (\<lambda>t n c. Inr ''q''),
      e_agent = (\<lambda>n req. ([], demo_result, None)), e_version = (\<lambda>n. []), e_check = demo_check code,
      e_elapsed = (\<lambda>n. 1), e_coverage = (\<lambda>n dir df. Inr []), e_valid = (\<lambda>p. True), e_glob = (\<lambda>p s. Some False),
      e_text = (\<lambda>e. ''e''), e_parse_uuid = (\<lambda>s. None), e_owner = ''host:1'', e_cwd = ''/'', c_WorkspaceRoot = ''/w'',
      c_Backend = ''b'', c_Runner = \<lparr>rn_DefaultTimeout = 1, rn_TotalTimeout = 1, rn_MaxOutputBytes = 1\<rparr>,
      c_CancelPoll = 0, c_CleanupOnSuccess = False, c_Routing = [], c_DefaultTaskTimeout = 1, c_MaxOutputBytes = 1\<rparr>"

definition ready_task :: Task where
  "ready_task = hd (db_tasks demo3)"

definition demo_run :: "int \<Rightarrow> (werr + Outcome option) \<times> world" where
  "demo_run code = run_state (execute (demo_env code) (enough_fuel ready_task)) (new_run ready_task demo3 0 [])"

definition ended_as :: "Status \<Rightarrow> (werr + Outcome option) \<times> world \<Rightarrow> bool" where
  "ended_as s res = (case fst res of Inr (Some out) \<Rightarrow> t_Status (o_Task out) = s | _ \<Rightarrow> False)"

end
