(* ===== verification/RunEval.thy ===== *)
theory RunEval
  imports RunDemo
begin

text \<open>
  Evaluating a run by rewriting: one equation per action, applied at the action that runs next. The
  congruence rule keeps the rewriter out of what has not been reached.
\<close>

lemmas ev_base = ev_ebind ev_eseq ev_catch ev_basic ev_in_db ev_cases

lemmas ev_actions =
  run_write_def [THEN run_arg] emit_def [THEN run_arg] set_status_def [THEN run_arg] transition_def [THEN run_arg]
  own_event_def [THEN run_arg] retainWorktreeTx_def [THEN run_arg] retainWorktree_def [THEN run_arg] adopt_def [THEN run_arg]
  cancelledElsewhere_def [THEN run_arg] requiredBy_def [THEN run_arg] open_gate_def [THEN run_arg] gate_and_stop_def [THEN run_arg]
  enforceApproval_def [THEN run_arg] becomeReady_def [THEN run_arg] startAttempt_def [THEN run_arg] record_worktree_def [THEN run_arg]
  snapshot_baseline_def [THEN run_arg] prepareWorktree_def [THEN run_arg] continueWorktree_def [THEN run_arg] projectReadDirs_def [THEN run_arg]
  prompt_of_def [THEN run_arg] persistWorkerRun_def [THEN run_arg] runAgent_def [THEN run_arg] dropConcurrentBranches_def [THEN run_arg]
  unreadable_def [THEN run_arg] checkContainment_def [THEN run_arg] snapshotAgentTree_def [THEN run_arg] reportFilesAdded_def [THEN run_arg]
  reportWorktreeDrift_def [THEN run_arg] delivered_tree_def [THEN run_arg] cleanCheckout_def [THEN run_arg] commitAgentTree_def [THEN run_arg]
  setHeadCommit_def [THEN run_arg] commitWork_def [THEN run_arg] commitPartialWork_def [THEN run_arg] willRetry_def [THEN run_arg]
  git_work_def [THEN run_arg] retry_transaction_def [THEN run_arg] scheduleRetry_def [THEN run_arg] fail_transaction_def [THEN run_arg]
  record_failure_def [THEN run_arg] fail_def [THEN run_arg] cleanupAfterSuccess_def [THEN run_arg] success_transaction_def [THEN run_arg]
  succeed_def [THEN run_arg] run_checks_def [THEN run_arg] stopped_with_def [THEN run_arg] set_report_def [THEN run_arg]
  judge_def [THEN run_arg] check_in_def [THEN run_arg] run_verification_def [THEN run_arg] independence_def [THEN run_arg]
  verify_def [THEN run_arg] with_worktree_def [THEN run_arg] restore_record_def [THEN run_arg] attempt_setup_def [THEN run_arg]
  inspect_and_verify_def [THEN run_arg] work_def [THEN run_arg] attemptOnce_def [THEN run_arg] execute_def [THEN run_arg]
  outcome_def [THEN run_arg] deferring_def [THEN run_arg] best_effort_def [THEN run_arg] append_event_def [THEN run_arg]
  fence_def [THEN run_arg] stmt_def [THEN run_arg] query_def [THEN run_arg] commit_tx_def [THEN run_arg]
  inTx_def [THEN run_arg] git_def [THEN run_arg] ask_git_def [THEN run_arg] git_must_def [THEN run_arg]
  git_whole_def [THEN run_arg] OpenRepository_def [THEN run_arg] ResolveCommit_def [THEN run_arg] HeadCommit_at_def [THEN run_arg]
  HeadCommit_def [THEN run_arg] removeSubmoduleWorktrees_def [THEN run_arg] Remove_def [THEN run_arg] checked_path_def [THEN run_arg]
  Create_def [THEN run_arg] CreateDetached_def [THEN run_arg] temporaryIndex_def [THEN run_arg] Worktree_Diff_def [THEN run_arg]
  CurrentTree_def [THEN run_arg] CheckGitlinks_def [THEN run_arg] CommitTreeOnto_def [THEN run_arg] CommitTree_def [THEN run_arg]
  TreeOf_def [THEN run_arg] UpdateBranch_def [THEN run_arg] ContinueOnNewBranch_def [THEN run_arg] RestoreToHead_def [THEN run_arg]
  SyncIndex_def [THEN run_arg] ChangedPaths_def [THEN run_arg] SnapshotSharedState_def [THEN run_arg] BaseIsAncestor_def [THEN run_arg]
  AddedFiles_def [THEN run_arg] HasGitlinks_def [THEN run_arg] TrackedChanges_def [THEN run_arg] TreeChanges_def [THEN run_arg]
  treeSizes_def [THEN run_arg] baseCheck_def [THEN run_arg] measureCoverage_def [THEN run_arg] reportCoverage_def [THEN run_arg]
  repositoryAt_def [THEN run_arg] gitCommonDir_def [THEN run_arg] gitlinkPaths_def [THEN run_arg] pinnedSubmodules_def [THEN run_arg]
  addSubmoduleWorktree_def [THEN run_arg] PinsSubmodules_def [THEN run_arg] loadSubmodules_def [THEN run_arg] removeSubmoduleWorktree_def [THEN run_arg]
  submoduleGitDir_def [THEN run_arg] submoduleNames_def [THEN run_arg] Ignored_path_def [THEN run_arg]

lemma ev_persist:
  "run_state (persistVerification E vrs) w =
     (case vrs of [] \<Rightarrow> (Inr (), w) | vr # rest \<Rightarrow> run_state (catch (stmt E (CreateVerificationRun vr)) (\<lambda>r. eseq
       (case r of Inl _ \<Rightarrow> ok ()
        | Inr _ \<Rightarrow> emit E TypeVerificationStepRan
            [(''step'', JInt (int (v_StepIndex vr))), (''command'', JStr (v_Command vr)),
             (''status'', JStr (VerificationStatus_string (v_Status vr))),
             (''exit_code'', case v_ExitCode vr of None \<Rightarrow> JNull | Some c \<Rightarrow> JInt c)])
       (persistVerification E rest))) w)"
  by (simp add: ev_basic split: list.splits)

lemmas ev_funs = attempt_loop.simps [THEN run_arg] emit_progress.simps [THEN run_arg] ev_persist

lemma demo_env_simps:
  "e_others (demo_env code) n d = d" "e_conn (demo_env code) n = Works" "e_lost (demo_env code) n = False"
  "e_ctx (demo_env code) n = CtxLive" "e_uuid (demo_env code) n = 100 + n" "e_now (demo_env code) n = int n"
  "e_git (demo_env code) n call = Inr (demo_git call)" "e_links (demo_env code) n p = Some p"
  "e_exists (demo_env code) n p = False" "e_is_dir (demo_env code) n p = True" "e_mkdir (demo_env code) n p = Inr ()"
  "e_index (demo_env code) n p = Inr ''i''" "e_temp (demo_env code) n = Inr ''i''" "e_hash_file (demo_env code) n p = Inr ''h''"
  "e_hash_tree (demo_env code) n p b = Inr []" "e_prompt (demo_env code) t = Inr ''p''"
  "e_retry_prompt (demo_env code) t n c = Inr ''q''" "e_agent (demo_env code) n req = ([], demo_result, None)"
  "e_version (demo_env code) n = []" "e_check (demo_env code) n = demo_check code n" "e_elapsed (demo_env code) n = 1"
  "e_coverage (demo_env code) n p q = Inr []" "e_valid (demo_env code) p = True" "e_glob (demo_env code) p q = Some False"
  "e_text (demo_env code) e = ''e''" "e_owner (demo_env code) = ''host:1''" "e_cwd (demo_env code) = ''/''"
  "c_WorkspaceRoot (demo_env code) = ''/w''" "c_Backend (demo_env code) = ''b''"
  "c_Runner (demo_env code) = \<lparr>rn_DefaultTimeout = 1, rn_TotalTimeout = 1, rn_MaxOutputBytes = 1\<rparr>"
  "c_CancelPoll (demo_env code) = 0" "c_CleanupOnSuccess (demo_env code) = False" "c_Routing (demo_env code) = []"
  "c_DefaultTaskTimeout (demo_env code) = 1" "c_MaxOutputBytes (demo_env code) = 1"
  by (simp_all add: demo_env_def)

lemmas ev_pure =
  sort_unique_def update_where_def has_prefix_def has_suffix_def contains_any_def trim_prefix_def trim_suffix_def
  cut_prefix_def cut_suffix_def cut_at_def before_char_def replace_char_def ascii_spaces_def wide_spaces_def
  space_len_def space_len_end_def trim_space_def upper_char_def lower_char_def digit_char_def is_digit_def int_dec_def
  hex_digit_def quoted_char_def go_quote_def slash_def is_abs_def path_clean_def path_base_def path_dir_def
  path_ext_def find_named_def AllStatuses_def Terminal_def Active_def CanTransitionTo_def ParseStatus_def
  tasks_transition_guard_def AllHardnesses_def ParseHardness_def AllSubmoduleModes_def ParseSubmoduleMode_def
  AllApplyStates_def ParseApplyState_def AllVerificationModes_def ParseVerificationMode_def AllFailureKinds_def
  AllApprovalStatuses_def ParseApprovalStatus_def second_def MaxTitleLength_def MaxDescriptionLength_def
  MaxAcceptanceCriteriaLength_def MaxVerificationSteps_def MaxPriority_def MinPriority_def MaxRetriesLimit_def
  MaxProtectedPaths_def white_def add_when_def step_problems_def chosen_agent_def New_problems_def New_def
  TransitionTo_def EffectiveModel_def EffectiveTimeout_def uuid_string_def Identifier_def btrim_def tasks_checks_def
  NewAttempt_def Attempt_Duration_def EarlierAttempts_def never_applied_def empty_db_def tx_return_def tx_fail_def
  tx_then_def tx_read_def tx_seq_def InTx_def zero_pad_def task_ref_def task_row_def CreateTask_def GetTask_def
  GetTaskByRef_def ResolveTask_def TransitionTask_def LockTask_def attempts_of_def attempt_row_def
  NextAttemptNumber_def CreateAttempt_def FinishAttempt_def GetAttempt_def ListAttempts_def LatestAttempt_def
  holds_lease_def HoldLease_def RenewLease_def lease_expired_def stuck_row_def StuckLeases_def attempt_exists_def
  CreateWorktree_def set_worktree_def SetWorktreeHead_def SetWorktreeAgentTree_def SetWorktreeStatus_def
  GetWorktreeByAttempt_def newest_first_def ListWorktrees_def ListRetainedWorktrees_def OverlappingBranches_def
  CreateWorkerRun_def ListWorkerRuns_def millisecond_def CreateVerificationRun_def ListVerificationRuns_def
  RequestApproval_def decide_row_def DecideApproval_def ListApprovals_def LatestApproval_def projects_checks_def
  EnsureProject_def GetProject_def GetProjectByPath_def ListProjects_def InPlaceProjects_def ProjectPaths_def
  set_project_def SetProjectSubmodules_def SetProjectRequiresApproval_def SetProjectVerificationMode_def
  SetProjectReadDirs_def SetProjectCoverage_def New_event_def AppendEvent_def DefaultEventLimit_def MaxEventLimit_def
  event_limit_def ListEvents_def newest_event_def string_member_def strings_member_def TestsModifiedPaths_def
  decodeApplyPayload_def is_apply_event_def Store_ApplyState_def decodeApply_def DefaultTaskListLimit_def
  MaxTaskListLimit_def list_limit_def task_selected_def scanTaskListItem_def ListTasks_def terminalStatuses_def
  pruneWhere_def prunable_worker_def prunable_verification_def prune_report_def prune_body_def PruneLogs_def
  delete_cascade_def on_disk_def delete_body_def DeleteTask_def newBoundedBuffer_def keep_last_def
  buffer_tail_write_def buffer_write_def buffer_dropped_def ellipsis_def buffer_string_def buffer_truncated_def
  buffer_of_def env_name_def dropEnv_def stripTelemetryEnv_def withPWD_def Spec_problems_def Spec_Validate_def
  quote_def Render_def Run_env_def classify_outcome_def captured_def Run_def FirstFailure_def describe_def
  passed_count_def Summary_def step_timeout_def step_spec_def status_of_def runStep_def skipped_run_def
  cancelled_run_def timedOut_run_def failureKindFor_def plan_of_def finish_report_def Runner_Run_def records_def
  step_passes_def stop_status_def kind_of_status_def test_dirs_def isTestPath_def TestPaths_def isTestSource_def
  escapes_def cleanOperand_def cleanRunner_def cleaned_operands_def norm_of_def underOrEqual_def test_source_def
  testSources_def is_flag_def takes_value_def goValueFlags_def goPatternSelects_def goSelected_def go_keeps_def
  goMatches_def hasNodeTest_def nodeValueFlags_def glob_char_def nodeOperandSelects_def nodeMatches_def
  pytestValueFlags_def conftestSelected_def pytestMatches_def relativeCommand_def loads_def matchRunner_def
  uniqueSorted_def isShell_def numeric_part_def isPython_def isExtensionModule_def shadows_def matchModule_def
  python_module_def match_script_def pythonMatches_def runner_matches_def matchesForStep_def Interceptions_def
  pointwise_def step_loads_def path_weight_def top_dir_def probe_def normalizePattern_def NormalizeProtected_def
  rune_string_def classEnd_def class_candidates_def classRepresentative_def resolveMagic_def matchOne_def
  match_subjects_def matchesProtected_def pattern_matches_def Violations_def MaxNameLength_def name_char_def
  validateName_def branch_bad_def validateBranchName_def path_elems_def path_rel_def rel_escapes_def isInside_def
  resolveExisting_def withinWorkspace_def resolveWorktreePath_def validateIsolation_def mergeSorted_def
  Changes_All_def splitNul_def map_keys_def changedKeys_def changedConfigKeys_def ref_changes_def Diff_def Empty_def
  linesOf_def resolvePath_def parseConfigList_def last_dot_def InertConfigKey_def appendEvent_def fence_tx_def
  attempt_ref_def transition_tx_def emit_tx_def create_tx_def request_or_existing_def gate_tx_def claim_tx_def
  start_tx_def worktree_tx_def retain_tx_def ending_tx_def fail_tx_def reuse_tx_def retry_tx_def head_tx_def
  succeed_tx_def finishOpenAttempts_def retainWorktrees_def runningLeaseOwner_def cancel_tx_def approve_tx_def
  no_attempt_def no_shared_def new_run_def firstLine_def go_fields_def atoi_def nul_def tab_def nl_def
  identity_args_def filepath_abs_def first_gitlink_def submodulePath_def gitlink_entries_def submodule_name_def
  contains_modified_def removal_args_def classifyWorktreeAdd_def status_line_def count_numstat_def base_args_def
  update_ref_args_def split_three_def size_entry_def outcome_of_def approvalReason_def defaultLeaseTTL_def
  leaseTTL_def defaultCancelPoll_def cancelPoll_def opened_def effectiveBaseRef_def worktreeName_def branchName_def
  new_worktree_def worktree_payload_def resolveModel_def appendDetail_def changedFiles_def worker_run_def
  with_diff_def agent_request_def started_payload_def completed_payload_def own_ref_def foreign_refs_def
  inert_keys_def dangerous_keys_def config_breach_def breach_reasons_def json_strings_def json_refs_def
  maxAddedPaths_def maxDriftPaths_def added_payload_def drift_payload_def headCommit_def partial_message_def
  retryOutputLimit_def cut_mark_def tailBytes_def step_output_def failed_step_def failedSteps_def retry_context_def
  retry_payload_def is_git_work_def scheduled_def failed_payload_def workerFailureKind_def success_payload_def
  interceptionPayload_def protectedPayload_def check_request_def report_payload_def refusal_payload_def is_refusal_def
  containment_kind_def resetForAttempt_def enough_fuel_def RunTask_def demo_git_def demo_child_def demo_check_def
  demo_result_def

lemma git_guards_plain: "(''write-tree'' \<in> set git_guards) = False"
  by (simp add: git_guards_def)

lemma digit_chars:
  "char_of (48::nat) = CHR ''0''" "char_of (49::nat) = CHR ''1''" "char_of (50::nat) = CHR ''2''" "char_of (51::nat) = CHR ''3''"
  "char_of (52::nat) = CHR ''4''" "char_of (53::nat) = CHR ''5''" "char_of (54::nat) = CHR ''6''" "char_of (55::nat) = CHR ''7''"
  "char_of (56::nat) = CHR ''8''" "char_of (57::nat) = CHR ''9''"
  by code_simp+

lemmas ev_all =
  Let_def ev_base ev_actions ev_funs demo_env_simps ev_pure digit_chars git_guards_plain fields_loop.simps
  trim_left_space.simps trim_right_space.simps nat_dec.simps ancestors.simps python_scan.simps batches.simps

section \<open>The demonstration's databases, written out\<close>

definition demo_row :: "Status \<Rightarrow> Task" where
  "demo_row s = demo_task\<lparr>t_Ref := ''TASK-000001'', t_Status := s\<rparr>"

definition granted :: Approval where
  "granted =
     \<lparr>ap_ID = 11, ap_TaskID = 7, ap_Status = ApprovalGranted, ap_Reason = ''project policy requires approval'',
      ap_RequestedAt = 0, ap_DecidedAt = Some 0, ap_DecidedBy = ''me''\<rparr>"

definition demo_attempt :: TaskAttempt where
  "demo_attempt =
     \<lparr>a_ID = 105, a_TaskID = 7, a_AttemptNumber = 1, a_Status = AttemptRunning, a_FailureKind = FailureNone,
      a_Error = [], a_StartedAt = 5, a_FinishedAt = None, a_LeaseOwner = ''host:1'',
      a_LeaseExpiresAt = Some 30000000006\<rparr>"

definition demo_checkout :: Checkout where
  "demo_checkout =
     \<lparr>co_Path = ''/w/TASK-000001-a1'', co_Branch = ''aidev/TASK-000001'', co_BaseCommit = ''/r y'',
      co_Submodules = [], co_Repo = ''/r y''\<rparr>"

definition demo_record :: "string \<Rightarrow> string \<Rightarrow> Worktree" where
  "demo_record head tree =
     \<lparr>w_ID = 119, w_AttemptID = 105, w_Path = ''/w/TASK-000001-a1'', w_Branch = ''aidev/TASK-000001'',
      w_BaseCommit = ''/r y'', w_HeadCommit = head, w_AgentTree = tree, w_Status = WorktreeActive,
      w_CreatedAt = 0, w_RemovedAt = None\<rparr>"

definition demo_shared :: SharedState where
  "demo_shared =
     \<lparr>ss_CommonDir = ''/r y'', ss_Refs = [(''/r'', ''y'')], ss_HeadRef = ''/r y'', ss_Config = ''h'',
      ss_ConfigEntries = Some [(''/r y'', [[]])], ss_Info = [], ss_Hooks = []\<rparr>"

definition demo_worker_run :: WorkerRun where
  "demo_worker_run =
     \<lparr>r_ID = 133, r_AttemptID = 105, r_Backend = ''b'', r_Model = [], r_Agent = ''a'', r_AgentVersion = [],
      r_Status = WorkerSucceeded, r_FailureKind = FailureNone, r_Command = ''c'', r_WorkingDir = ''/w'',
      r_ExitCode = Some 0, r_Stdout = [], r_StdoutTruncated = False, r_Stderr = [], r_StderrTruncated = False,
      r_SessionID = ''s'', r_Summary = [], r_FinishReason = [], r_Diff = ''/r y'', r_DiffTruncated = False,
      r_ChangedFiles = 0, r_StartedAt = 33, r_FinishedAt = Some 4, r_LogsPruned = False\<rparr>"

text \<open>
  A world of the successful run between two actions. The log and the git commands are what the
  evaluation carries along without looking.
\<close>

definition demo_world ::
    "Status \<Rightarrow> Event list \<Rightarrow> git_call list \<Rightarrow> nat \<Rightarrow> nat \<Rightarrow> Worktree list \<Rightarrow> WorkerRun list \<Rightarrow> string \<Rightarrow> string \<Rightarrow> world" where
  "demo_world s ev calls sq n wts wrs tree head =
     \<lparr>w_db =
        \<lparr>db_projects = [demo_project], db_tasks = [demo_row s], db_attempts = [demo_attempt],
         db_worktrees = wts, db_worker_runs = wrs, db_verification_runs = [], db_approvals = [granted],
         db_events = ev, db_seq = sq, db_ref = 1, db_now = 0\<rparr>,
      w_tick = n, w_git = calls, x_task = demo_row s, x_attempt = demo_attempt,
      x_worktree = (case wts of [] \<Rightarrow> None | _ \<Rightarrow> Some demo_checkout),
      x_record = (case wts of [] \<Rightarrow> None | _ \<Rightarrow> Some (demo_record [] [])),
      x_agentTree = tree, x_agentHead = head, x_sharedBefore = (if wts = [] then no_shared else demo_shared),
      x_workerRun = (if wrs = [] then None else Some (hd wrs)), x_report = None, x_testsModified = [],
      x_failureKind = FailureNone, x_retryable = False, x_retryPending = False, x_retry = None,
      x_attemptOpen = True\<rparr>"

text \<open>The database the run starts in, and its task.\<close>

lemma demo3_row:
  "demo3 =
     \<lparr>db_projects = [demo_project], db_tasks = [demo_row StatusReady], db_attempts = [], db_worktrees = [], db_worker_runs = [],
      db_verification_runs = [], db_approvals = [granted],
      db_events =
        [\<lparr>e_ID = 1, e_Seq = 1, e_TaskID = 7, e_AttemptID = None, e_Type = TypeTaskCreated, e_Payload = [], e_CreatedAt = 1\<rparr>,
         \<lparr>e_ID = 2, e_Seq = 2, e_TaskID = 7, e_AttemptID = None, e_Type = TypeApprovalRequired, e_Payload = [], e_CreatedAt = 2\<rparr>,
         \<lparr>e_ID = 3, e_Seq = 3, e_TaskID = 7, e_AttemptID = None, e_Type = TypeApprovalGranted, e_Payload = [], e_CreatedAt = 3\<rparr>],
      db_seq = 3, db_ref = 1, db_now = 0\<rparr>"
  by code_simp

lemma ready_task_row: "ready_task = demo_row StatusReady"
  by code_simp

lemmas demo_literals =
  demo_row_def granted_def demo_attempt_def demo_checkout_def demo_record_def demo_shared_def demo_worker_run_def
  demo_world_def demo_task_def demo_project_def

text \<open>The log's row ids stay below the next answer.\<close>

definition ids_below :: "nat \<Rightarrow> Event list \<Rightarrow> bool" where
  "ids_below k ev = (\<forall>f \<in> set ev. e_ID f < k)"

lemma ids_fresh:
  assumes "ids_below k ev" "k \<le> n"
  shows "(\<exists>f \<in> set ev. e_ID f = n) = False" "(\<forall>f \<in> set ev. e_ID f \<noteq> n) = True"
  using assms by (auto simp: ids_below_def)

lemma ids_below_Cons:
  "ids_below k (ev @ fs) = (ids_below k ev \<and> ids_below k fs)" "ids_below k [] = True"
  "ids_below k (f # fs) = (e_ID f < k \<and> ids_below k fs)"
  by (auto simp: ids_below_def)

lemma ids_below_mono: "ids_below k ev \<Longrightarrow> k \<le> n \<Longrightarrow> ids_below n ev"
  by (auto simp: ids_below_def)

text \<open>An action of the run, with the log it finds below its own ids and leaves below the next ones.\<close>

definition demo_clean :: Checkout where
  "demo_clean =
     \<lparr>co_Path = ''/w/verify-105'', co_Branch = [], co_BaseCommit = ''/r y'', co_Submodules = [], co_Repo = ''/r y''\<rparr>"

definition demo_report :: Report where
  "demo_report =
     \<lparr>rp_Passed = True,
      rp_Runs =
        [\<lparr>v_ID = 1071, v_AttemptID = 105, v_StepIndex = 0, v_Phase = PhaseVerify, v_Command = ''go'',
           v_Status = VerificationPassed, v_ExitCode = Some 0, v_Stdout = [], v_StdoutTruncated = False, v_Stderr = [],
           v_StderrTruncated = False, v_StartedAt = 0, v_FinishedAt = Some 1, v_Duration = 1, v_LogsPruned = False\<rparr>],
      rp_Duration = 1, rp_FailureKind = FailureNone\<rparr>"

definition demo_changed :: Changes where
  "demo_changed = \<lparr>ch_Committable = [''/r y''], ch_Ignored = [''/r y'']\<rparr>"

text \<open>The verifier and the checks of independence are evaluated as they are.\<close>

definition demo_request :: Request where
  "demo_request =
     \<lparr>q_AttemptID = 105, q_TaskRef = ''TASK-000001'', q_WorkingDir = ''/w/verify-105'', q_SetupSteps = [],
      q_Steps = t_Verification (demo_row StatusVerifying)\<rparr>"

lemma demo_checked:
  "Runner_Run \<lparr>rn_DefaultTimeout = 1, rn_TotalTimeout = 1, rn_MaxOutputBytes = 1\<rparr> demo_request (demo_check 0 71) 1 = Inr demo_report"
  by code_simp

lemma demo_independent:
  "TestPaths (ch_Committable demo_changed) = []"
  "Interceptions (t_SetupSteps (demo_row s) @ t_Verification (demo_row s)) (Changes_All demo_changed) = []"
  "Violations (e_valid (demo_env 0)) (e_glob (demo_env 0)) (t_ProtectedPaths (demo_row s)) (ch_Committable demo_changed) = Inr []"
  by code_simp+

section \<open>The successful run, action by action\<close>

lemma demo_started:
  "\<exists>ev calls. run_state (eseq (enforceApproval (demo_env 0)) (eseq (becomeReady (demo_env 0)) (startAttempt (demo_env 0))))
      (new_run ready_task demo3 2 []) = (Inr (), demo_world StatusRunning ev calls 4 8 [] [] [] [])
    \<and> ids_below 108 ev"
  supply ev_cong [cong]
  by (simp add: ev_all demo3_row ready_task_row demo_literals ids_below_Cons)

lemma demo_set_up:
  assumes "ids_below 108 ev"
  shows "\<exists>ev' calls'. run_state (attempt_setup (demo_env 0)) (demo_world StatusRunning ev calls 4 8 [] [] [] [])
      = (Inr None, demo_world StatusRunning ev' calls' 5 28 [demo_record [] []] [] [] []) \<and> ids_below 128 ev'"
  supply ev_cong [cong]
  using assms by (simp add: ev_all demo_literals ids_below_Cons ids_fresh [OF assms] ids_below_mono [OF assms])

lemma demo_agent:
  assumes "ids_below 128 ev"
  shows "\<exists>ev' calls'. run_state (runAgent (demo_env 0) demo_checkout) (demo_world StatusRunning ev calls 5 28 [demo_record [] []] [] [] [])
      = (Inr (), demo_world StatusRunning ev' calls' 7 43 [demo_record ''/r y'' []] [demo_worker_run] [] []) \<and> ids_below 143 ev'"
  supply ev_cong [cong]
  using assms by (simp add: ev_all demo_literals ids_below_Cons ids_fresh [OF assms] ids_below_mono [OF assms])

lemma demo_contained:
  assumes "ids_below 143 ev"
  shows "\<exists>ev' calls'. run_state (checkContainment (demo_env 0) demo_checkout) (demo_world StatusRunning ev calls 7 43 [demo_record ''/r y'' []] [demo_worker_run] [] [])
      = (Inr (), demo_world StatusRunning ev' calls' 7 51 [demo_record ''/r y'' []] [demo_worker_run] [] []) \<and> ids_below 151 ev'"
  supply ev_cong [cong]
  using assms by (simp add: ev_all demo_literals ids_below_Cons ids_fresh [OF assms] ids_below_mono [OF assms])

lemma demo_snapshot:
  assumes "ids_below 151 ev"
  shows "\<exists>ev' calls'. run_state (snapshotAgentTree (demo_env 0) demo_checkout) (demo_world StatusRunning ev calls 7 51 [demo_record ''/r y'' []] [demo_worker_run] [] [])
      = (Inr (), demo_world StatusRunning ev' calls' 7 57 [demo_record ''/r y'' ''t1''] [demo_worker_run] ''t1'' ''/r y'') \<and> ids_below 157 ev'"
  supply ev_cong [cong]
  using assms by (simp add: ev_all demo_literals ids_below_Cons ids_fresh [OF assms] ids_below_mono [OF assms])

lemma demo_files:
  assumes "ids_below 157 ev"
  shows "\<exists>ev' calls'. run_state (reportFilesAdded (demo_env 0) demo_checkout) (demo_world StatusRunning ev calls 7 57 [demo_record ''/r y'' ''t1''] [demo_worker_run] ''t1'' ''/r y'')
      = (Inr (), demo_world StatusRunning ev' calls' 7 58 [demo_record ''/r y'' ''t1''] [demo_worker_run] ''t1'' ''/r y'') \<and> ids_below 158 ev'"
  supply ev_cong [cong]
  using assms by (simp add: ev_all demo_literals ids_below_Cons ids_fresh [OF assms] ids_below_mono [OF assms])

lemma demo_verifying:
  assumes "ids_below 158 ev"
  shows "\<exists>ev' calls'. run_state (transition (demo_env 0) StatusVerifying TypeVerificationStarted p) (demo_world StatusRunning ev calls 7 58 [demo_record ''/r y'' ''t1''] [demo_worker_run] ''t1'' ''/r y'')
      = (Inr (), demo_world StatusVerifying ev' calls' 8 60 [demo_record ''/r y'' ''t1''] [demo_worker_run] ''t1'' ''/r y'') \<and> ids_below 160 ev'"
  supply ev_cong [cong]
  using assms by (simp add: ev_all demo_literals ids_below_Cons ids_fresh [OF assms] ids_below_mono [OF assms])

lemma demo_changes:
  assumes "ids_below 160 ev"
  shows "\<exists>ev' calls'. run_state (ChangedPaths (demo_env 0) demo_checkout) (demo_world StatusVerifying ev calls 8 60 [demo_record ''/r y'' ''t1''] [demo_worker_run] ''t1'' ''/r y'')
      = (Inr demo_changed, demo_world StatusVerifying ev' calls' 8 64 [demo_record ''/r y'' ''t1''] [demo_worker_run] ''t1'' ''/r y'') \<and> ids_below 164 ev'"
  supply ev_cong [cong]
  using assms by (simp add: ev_all demo_literals ids_below_Cons ids_fresh [OF assms] ids_below_mono [OF assms] demo_changed_def)

lemma demo_tree:
  "\<exists>calls'. run_state (delivered_tree (demo_env 0) demo_checkout) (demo_world StatusVerifying ev calls 8 64 [demo_record ''/r y'' ''t1''] [demo_worker_run] ''t1'' ''/r y'')
      = (Inr ''t1'', demo_world StatusVerifying ev calls' 8 64 [demo_record ''/r y'' ''t1''] [demo_worker_run] ''t1'' ''/r y'')"
  supply ev_cong [cong]
  by (simp add: ev_all demo_literals)

lemma demo_gitlinks:
  "\<exists>calls'. run_state (CheckGitlinks (demo_env 0) demo_checkout ''t1'') (demo_world StatusVerifying ev calls 8 64 [demo_record ''/r y'' ''t1''] [demo_worker_run] ''t1'' ''/r y'')
      = (Inr (), demo_world StatusVerifying ev calls' 8 65 [demo_record ''/r y'' ''t1''] [demo_worker_run] ''t1'' ''/r y'')"
  supply ev_cong [cong]
  by (simp add: ev_all demo_literals)

lemma demo_commit:
  "\<exists>calls'. run_state (CommitTree (demo_env 0) demo_checkout ''t1'' ''aidev verification snapshot for TASK-000001'') (demo_world StatusVerifying ev calls 8 65 [demo_record ''/r y'' ''t1''] [demo_worker_run] ''t1'' ''/r y'')
      = (Inr ''/r y'', demo_world StatusVerifying ev calls' 8 66 [demo_record ''/r y'' ''t1''] [demo_worker_run] ''t1'' ''/r y'')"
  supply ev_cong [cong]
  by (simp add: ev_all demo_literals)

lemma demo_detached:
  "\<exists>calls'. run_state (CreateDetached (demo_env 0) ''/r y'' ''verify-105'' ''/r y'') (demo_world StatusVerifying ev calls 8 66 [demo_record ''/r y'' ''t1''] [demo_worker_run] ''t1'' ''/r y'')
      = (Inr demo_clean, demo_world StatusVerifying ev calls' 8 71 [demo_record ''/r y'' ''t1''] [demo_worker_run] ''t1'' ''/r y'')"
  supply ev_cong [cong]
  by (simp add: ev_all demo_literals demo_clean_def)

lemma demo_clean_checkout:
  assumes "ids_below 164 ev"
  shows "\<exists>calls'. run_state (cleanCheckout (demo_env 0) demo_checkout) (demo_world StatusVerifying ev calls 8 64 [demo_record ''/r y'' ''t1''] [demo_worker_run] ''t1'' ''/r y'')
      = (Inr demo_clean, demo_world StatusVerifying ev calls' 8 71 [demo_record ''/r y'' ''t1''] [demo_worker_run] ''t1'' ''/r y'') \<and> ids_below 171 ev"
proof -
  let ?D = "\<lambda>calls n. demo_world StatusVerifying ev calls 8 n [demo_record ''/r y'' ''t1''] [demo_worker_run] ''t1'' ''/r y''"
  let ?m = "''aidev verification snapshot for '' @ Identifier (x_task (?D calls 64))"
  obtain c1 where c1: "run_state (delivered_tree (demo_env 0) demo_checkout) (?D calls 64) = (Inr ''t1'', ?D c1 64)"
    using demo_tree by blast
  obtain c2 where c2: "run_state (CheckGitlinks (demo_env 0) demo_checkout ''t1'') (?D c1 64) = (Inr (), ?D c2 65)"
    using demo_gitlinks by blast
  have task: "x_task (?D c2 65) = demo_row StatusVerifying" "a_ID (x_attempt (?D c2 65)) = 105" "co_Repo demo_checkout = ''/r y''"
    by (simp_all add: demo_world_def demo_attempt_def demo_checkout_def)
  have name: "''verify-'' @ uuid_string 105 = ''verify-105''"
    "''aidev verification snapshot for '' @ Identifier (demo_row StatusVerifying) = ''aidev verification snapshot for TASK-000001''"
    by code_simp+
  obtain c3 where c3: "run_state (CommitTree (demo_env 0) demo_checkout ''t1''
      ''aidev verification snapshot for TASK-000001'') (?D c2 65) = (Inr ''/r y'', ?D c3 66)"
    using demo_commit by blast
  obtain c4 where c4: "run_state (CreateDetached (demo_env 0) ''/r y'' ''verify-105'' ''/r y'') (?D c3 66) = (Inr demo_clean, ?D c4 71)"
    using demo_detached by blast
  have "run_state (cleanCheckout (demo_env 0) demo_checkout) (?D calls 64) = (Inr demo_clean, ?D c4 71)"
    using c3 c4 by (simp add: cleanCheckout_def ev_ebind ev_basic c1 c2 task name del: append_Cons append_Nil)
  then show ?thesis using ids_below_mono [OF assms, of 171] by auto
qed

lemma demo_world_tick:
  "w_tick (demo_world s ev calls sq n wts wrs tree head) = n"
  "(demo_world s ev calls sq n wts wrs tree head)\<lparr>w_tick := m\<rparr> = demo_world s ev calls sq m wts wrs tree head"
  by (simp_all add: demo_world_def)

lemma demo_checks:
  "run_state (run_checks (demo_env 0) ''/w/verify-105'') (demo_world StatusVerifying ev calls 8 71 wts wrs tree head)
     = (Inr demo_report, demo_world StatusVerifying ev calls 8 72 wts wrs tree head)"
proof -
  have "check_request (demo_world StatusVerifying ev calls 8 71 wts wrs tree head) ''/w/verify-105'' = demo_request"
    by (simp add: check_request_def demo_request_def demo_world_def demo_attempt_def demo_row_def demo_task_def Identifier_def)
  then show ?thesis
    by (simp add: run_checks_def ev_base demo_checked demo_env_simps demo_world_tick)
qed

lemma demo_judged:
  assumes "ids_below 171 ev"
  shows "\<exists>out w. run_state (judge (demo_env 0) demo_checkout ''/w/verify-105'' demo_report) (demo_world StatusVerifying ev calls 8 72 [demo_record ''/r y'' ''t1''] [demo_worker_run] ''t1'' ''/r y'')
      = (Inr (Some out), w) \<and> t_Status (o_Task out) = StatusSucceeded \<and> \<not> x_retryPending w"
  supply ev_cong [cong]
  using assms by (simp add: ev_all demo_literals demo_report_def ids_below_Cons ids_fresh [OF assms] ids_below_mono [OF assms])

section \<open>The whole run\<close>

lemma demo_run_verification:
  assumes "ids_below 164 ev"
  shows "\<exists>out w. run_state (run_verification (demo_env 0) demo_checkout)
        (demo_world StatusVerifying ev calls 8 64 [demo_record ''/r y'' ''t1''] [demo_worker_run] ''t1'' ''/r y'')
      = (Inr (Some out), w) \<and> t_Status (o_Task out) = StatusSucceeded \<and> \<not> x_retryPending w"
proof -
  let ?D = "\<lambda>ev calls n. demo_world StatusVerifying ev calls 8 n [demo_record ''/r y'' ''t1''] [demo_worker_run] ''t1'' ''/r y''"
  obtain calls1 where c: "run_state (cleanCheckout (demo_env 0) demo_checkout) (?D ev calls 64) = (Inr demo_clean, ?D ev calls1 71)"
    and e: "ids_below 171 ev"
    using demo_clean_checkout [OF assms] by blast
  obtain out w where j: "run_state (judge (demo_env 0) demo_checkout ''/w/verify-105'' demo_report) (?D ev calls1 72) = (Inr (Some out), w)"
    "t_Status (o_Task out) = StatusSucceeded" "\<not> x_retryPending w"
    using demo_judged [OF e] by blast
  obtain r u where r: "run_state (Remove (demo_env 0) demo_clean True) w = (r, u)" by fastforce
  then have u: "x_retryPending u = x_retryPending w"
    using git_only_remove by (fastforce simp: git_only_def)
  have mode: "t_VerificationMode (x_task (?D ev calls 64)) = VerificationClean"
    by (simp add: demo_world_def demo_row_def demo_task_def)
  have path: "co_Path demo_clean = ''/w/verify-105''" by (simp add: demo_clean_def)
  show ?thesis
    using j r u
    by (simp add: run_verification_def check_in_def deferring_def ev_base mode c path demo_checks)
qed

lemma demo_verify:
  assumes "ids_below 158 ev"
  shows "\<exists>out w. run_state (verify (demo_env 0) demo_checkout)
        (demo_world StatusRunning ev calls 7 58 [demo_record ''/r y'' ''t1''] [demo_worker_run] ''t1'' ''/r y'')
      = (Inr (Some out), w) \<and> t_Status (o_Task out) = StatusSucceeded \<and> \<not> x_retryPending w"
proof -
  let ?D = "\<lambda>s ev calls sq n. demo_world s ev calls sq n [demo_record ''/r y'' ''t1''] [demo_worker_run] ''t1'' ''/r y''"
  let ?p = "[(''steps'', JInt (int (length (t_Verification (x_task (?D StatusRunning ev calls 7 58)))))),
             (''mode'', JStr (VerificationMode_string (t_VerificationMode (x_task (?D StatusRunning ev calls 7 58)))))]"
  obtain ev1 calls1 where t: "run_state (transition (demo_env 0) StatusVerifying TypeVerificationStarted ?p)
        (?D StatusRunning ev calls 7 58) = (Inr (), ?D StatusVerifying ev1 calls1 8 60)" and e1: "ids_below 160 ev1"
    using demo_verifying [OF assms, of ?p] by blast
  obtain ev2 calls2 where c: "run_state (ChangedPaths (demo_env 0) demo_checkout) (?D StatusVerifying ev1 calls1 8 60)
        = (Inr demo_changed, ?D StatusVerifying ev2 calls2 8 64)" and e2: "ids_below 164 ev2"
    using demo_changes [OF e1] by blast
  have x: "x_task (?D StatusVerifying ev2 calls2 8 64) = demo_row StatusVerifying" by (simp add: demo_world_def)
  show ?thesis
    using demo_run_verification [OF e2]
    by (simp add: verify_def independence_def ev_base t c x demo_independent Let_def)
qed

lemma demo_attempt_succeeds:
  assumes "ids_below 108 ev"
  shows "\<exists>out w. run_state (attemptOnce (demo_env 0)) (demo_world StatusRunning ev calls 4 8 [] [] [] [])
      = (Inr (Some out), w) \<and> t_Status (o_Task out) = StatusSucceeded \<and> \<not> x_retryPending w"
proof -
  obtain ev1 calls1 where s1: "run_state (attempt_setup (demo_env 0)) (demo_world StatusRunning ev calls 4 8 [] [] [] [])
      = (Inr None, demo_world StatusRunning ev1 calls1 5 28 [demo_record [] []] [] [] [])" "ids_below 128 ev1"
    using demo_set_up [OF assms] by blast
  obtain ev2 calls2 where s2: "run_state (runAgent (demo_env 0) demo_checkout) (demo_world StatusRunning ev1 calls1 5 28 [demo_record [] []] [] [] [])
      = (Inr (), demo_world StatusRunning ev2 calls2 7 43 [demo_record ''/r y'' []] [demo_worker_run] [] [])" "ids_below 143 ev2"
    using demo_agent [OF s1(2)] by blast
  obtain ev3 calls3 where s3: "run_state (checkContainment (demo_env 0) demo_checkout) (demo_world StatusRunning ev2 calls2 7 43 [demo_record ''/r y'' []] [demo_worker_run] [] [])
      = (Inr (), demo_world StatusRunning ev3 calls3 7 51 [demo_record ''/r y'' []] [demo_worker_run] [] [])" "ids_below 151 ev3"
    using demo_contained [OF s2(2)] by blast
  obtain ev4 calls4 where s4: "run_state (snapshotAgentTree (demo_env 0) demo_checkout) (demo_world StatusRunning ev3 calls3 7 51 [demo_record ''/r y'' []] [demo_worker_run] [] [])
      = (Inr (), demo_world StatusRunning ev4 calls4 7 57 [demo_record ''/r y'' ''t1''] [demo_worker_run] ''t1'' ''/r y'')" "ids_below 157 ev4"
    using demo_snapshot [OF s3(2)] by blast
  obtain ev5 calls5 where s5: "run_state (reportFilesAdded (demo_env 0) demo_checkout) (demo_world StatusRunning ev4 calls4 7 57 [demo_record ''/r y'' ''t1''] [demo_worker_run] ''t1'' ''/r y'')
      = (Inr (), demo_world StatusRunning ev5 calls5 7 58 [demo_record ''/r y'' ''t1''] [demo_worker_run] ''t1'' ''/r y'')" "ids_below 158 ev5"
    using demo_files [OF s4(2)] by blast
  have wt: "x_worktree (demo_world StatusRunning ev1 calls1 5 28 [demo_record [] []] [] [] []) = Some demo_checkout"
    by (simp add: demo_world_def)
  show ?thesis
    using demo_verify [OF s5(2)]
    by (simp add: attemptOnce_def with_worktree_def work_def inspect_and_verify_def ev_base s1 wt s2 s3 s4 s5)
qed

lemma demo_run_succeeds:
  "\<exists>out w. run_state (execute (demo_env 0) (enough_fuel ready_task)) (new_run ready_task demo3 2 []) = (Inr (Some out), w)
    \<and> t_Status (o_Task out) = StatusSucceeded"
proof -
  obtain ev calls where s: "run_state (eseq (enforceApproval (demo_env 0)) (eseq (becomeReady (demo_env 0)) (startAttempt (demo_env 0))))
      (new_run ready_task demo3 2 []) = (Inr (), demo_world StatusRunning ev calls 4 8 [] [] [] [])" "ids_below 108 ev"
    using demo_started by blast
  have before: "\<not> Terminal (t_Status ready_task)" "\<not> Active (t_Status ready_task)" "x_task (new_run ready_task demo3 2 []) = ready_task"
    by (simp_all add: ready_task_row demo_row_def new_run_def Active_def)
  have assoc: "run_state (eseq a (eseq b (eseq c m))) w = run_state (eseq (eseq a (eseq b c)) m) w" for a b c and m :: "Outcome option act" and w
    by (simp add: ev_eseq split: prod.splits sum.splits)
  let ?rest = "attempt_loop (demo_env 0) (enough_fuel ready_task)"
  have "run_state (execute (demo_env 0) (enough_fuel ready_task)) (new_run ready_task demo3 2 [])
      = run_state (eseq (enforceApproval (demo_env 0)) (eseq (becomeReady (demo_env 0)) (eseq (startAttempt (demo_env 0)) ?rest)))
          (new_run ready_task demo3 2 [])"
    by (simp add: execute_def ev_ebind ev_basic before del: Terminal_iff)
  also have "\<dots> = run_state ?rest (demo_world StatusRunning ev calls 4 8 [] [] [] [])"
    by (simp only: assoc ev_eseq [of "eseq (enforceApproval (demo_env 0)) (eseq (becomeReady (demo_env 0)) (startAttempt (demo_env 0)))"]
        s prod.case sum.case)
  finally show ?thesis
    using demo_attempt_succeeds [OF s(2), of calls] by (auto simp: enough_fuel_def ev_ebind ev_basic)
qed

end
