(* ===== verification/RunWitness.thy ===== *)
theory RunWitness
  imports RunEval
begin

text \<open>The guarantees of a run, at the runs of \<open>RunDemo\<close>.\<close>

lemma demo_ready: "run_ready (demo_env code) demo3 ready_task"
proof -
  have "db_ok demo3" using reachable_ok reach3 by blast
  moreover have "ready_task \<in> set (db_tasks demo3)" "db_attempts demo3 = []" "t_Status ready_task = StatusReady"
    by (simp_all add: demo3_row ready_task_row demo_row_def)
  ultimately show ?thesis by (auto simp: run_ready_def others_ok_def rows_from_def same_attempt_def demo_env_simps)
qed



lemma run_ends_within_allowance_witness:
  "fst (run_state (execute (demo_env 1) (enough_fuel ready_task)) (new_run ready_task demo3 2 [])) \<noteq> Inl WFuel"
  by (rule run_ends_within_allowance [OF demo_ready prod.collapse [symmetric]])

end
