(* ===== verification/RunProtection.thy ===== *)
theory RunProtection
  imports RunEval
begin

text \<open>
  What protects a repository while a run works: git moves branches only behind the lease, and what
  passes the containment check left everything shared with the main repository as it was.
\<close>

section \<open>The lease fence\<close>

lemma run_commit_Inl:
  "run_state (commit_tx c before (Inl e)) w = (r, v) \<longleftrightarrow> r = Inl e \<and> v = w\<lparr>w_db := before\<rparr>"
  by (auto simp: commit_tx_def run_eseq run_assign run_err)

lemma fenced_transaction_stops:
  assumes gone: "fence_tx (x_attemptOpen w) (t_ID (x_task w)) (a_ID (x_attempt w)) (e_owner E)
      (e_others E (w_tick w) (w_db w)) = Inl lost"
    and run: "run_state (inTx E (eseq (fence E) body)) w = (r, w')"
  shows "w' = w\<lparr>w_tick := Suc (w_tick w), w_db := e_others E (w_tick w) (w_db w)\<rparr> \<and> (\<exists>e. r = Inl (WStore e))"
proof -
  let ?u = "w\<lparr>w_tick := Suc (w_tick w), w_db := e_others E (w_tick w) (w_db w)\<rparr>"
  have fence: "run_state (fence E) ?u = (q, v) \<longleftrightarrow> q = Inl (WStore lost) \<and> v = ?u" for q v
    using gone by (auto simp: fence_def run_ebind run_reads run_in_db)
  have body: "run_state (eseq (fence E) body) ?u = (q, v) \<longleftrightarrow> q = Inl (WStore lost) \<and> v = ?u" for q v
    by (auto simp: run_eseq fence)
  have "?u\<lparr>w_db := w_db ?u\<rparr> = ?u" by simp
  then show ?thesis
    using run by (auto simp: inTx_def run_ebind run_turn run_reads run_catch run_err body run_commit_Inl split: if_splits)
qed

text \<open>
  C3: A run that lost its attempt delivers nothing: when the fence finds the lease gone, neither the
  transaction that publishes the verified work nor the one that commits an attempt's partial work for a
  retry issues a single git command or changes a row, and both report an error of the store.
\<close>

theorem lost_lease_moves_no_branch:
  assumes gone: "fence_tx (x_attemptOpen w) (t_ID (x_task w)) (a_ID (x_attempt w)) (e_owner E)
      (e_others E (w_tick w) (w_db w)) = Inl lost"
    and run: "run_state (success_transaction E c report) w = (r, w')"
    and retry: "run_state (retry_transaction E c kind message) w = (q, v')"
  shows "w_git w' = w_git w \<and> w_db w' = e_others E (w_tick w) (w_db w) \<and> (\<exists>e. r = Inl (WStore e))
    \<and> w_git v' = w_git w \<and> w_db v' = e_others E (w_tick w) (w_db w) \<and> (\<exists>e. q = Inl (WStore e))"
  using fenced_transaction_stops [OF gone run [unfolded success_transaction_def]]
    fenced_transaction_stops [OF gone retry [unfolded retry_transaction_def]] by simp

theorem lost_lease_moves_no_branch_witness:
  "w_git (snd (run_state (success_transaction (demo_env 0) demo_checkout demo_report)
     ((new_run demo_task demo9 5 [])\<lparr>x_attemptOpen := True\<rparr>))) = []"
proof -
  let ?w = "(new_run demo_task demo9 5 [])\<lparr>x_attemptOpen := True\<rparr>"
  have "fence_tx True 7 0 ''host:1'' demo9 = Inl (projl (fence_tx True 7 0 ''host:1'' demo9))" by code_simp
  then have gone: "fence_tx (x_attemptOpen ?w) (t_ID (x_task ?w)) (a_ID (x_attempt ?w)) (e_owner (demo_env 0))
      (e_others (demo_env 0) (w_tick ?w) (w_db ?w)) = Inl (projl (fence_tx True 7 0 ''host:1'' demo9))"
    by (simp add: new_run_def no_attempt_def demo_task_def demo_env_def)
  from lost_lease_moves_no_branch [OF gone prod.collapse [symmetric] prod.collapse [symmetric], where c = demo_checkout and report = demo_report and kind = FailureNone and message = "[]"]
  show ?thesis by (simp add: new_run_def)
qed

section \<open>Containment\<close>

lemma add_when_empty: "add_when b x = [] \<longleftrightarrow> \<not> b"
  by (simp add: add_when_def)

lemma containment_verdict:
  assumes "run_state (checkContainment E c) w = (Inr (), w')"
  shows "\<exists>after u anc v. run_state (SnapshotSharedState E c) w = (Inr after, u)
    \<and> run_state (BaseIsAncestor E c) u = (Inr anc, v)
    \<and> breach_reasons (x_sharedBefore v) after (Diff (x_sharedBefore v) after) anc = []"
  using assms unfolding checkContainment_def
  by (auto simp: run_ebind_Inr run_eseq_Inr run_reads run_catch run_err run_ok unreadable_def Let_def
      split: if_splits sum.splits)



end
