(* ===== verification/Checks.thy ===== *)
theory Checks
  imports Guarantees Protected Interception Verify GitShared Worker
begin

text \<open>
  What each component promises by itself: the vocabulary and its trigger, the parser of steps, task
  creation, captured output, the verifier, the checks of independence, the shared state of a
  repository, the log and retention.
\<close>

section \<open>Status transitions\<close>

text \<open>
  The trigger of the database and the state machine of the code are the same relation: an update
  passes the trigger exactly when it keeps the status or is a transition the code allows.
\<close>

theorem trigger_agrees_with_code:
  "tasks_transition_guard old new \<longleftrightarrow> new = old \<or> CanTransitionTo old new"
  by (cases old; cases new) (simp_all add: tasks_transition_guard_def CanTransitionTo_def)

section \<open>Verification steps\<close>

text \<open>
  Writing a step as text loses nothing: whatever characters its command and arguments hold, the
  tokeniser reads the text back as the same list of words.
\<close>

theorem rendered_step_keeps_its_words:
  "splitFields (Step_String s) = Inr (Command s # Args s)"
  by (rule splitFields_Step_String)

text \<open>
  A step that was parsed from text can be stored as text: parsing the rendering of the parsed
  step gives that step again.
\<close>

theorem parsed_step_is_stable:
  assumes "ParseVerificationStep raw = Inr s"
  shows "ParseVerificationStep (Step_String s) = Inr s"
proof -
  have "TimeoutSeconds s = 0" "rejectCommandSubstitution s = None" "trim_space (Command s) \<noteq> []"
    using assms by (auto simp: ParseVerificationStep_def Step_Validate_def Let_def
        split: sum.splits list.splits option.splits if_splits)
  moreover from this(1) have same: "s\<lparr>TimeoutSeconds := 0\<rparr> = s" by (cases s) simp
  ultimately show ?thesis unfolding ParseVerificationStep_Step_String same by simp
qed

theorem parsed_step_is_stable_witness:
  "ParseVerificationStep (Step_String \<lparr>Command = ''go'', Args = [''test'', ''./x''], TimeoutSeconds = 0\<rparr>)
     = Inr \<lparr>Command = ''go'', Args = [''test'', ''./x''], TimeoutSeconds = 0\<rparr>"
proof (rule parsed_step_is_stable)
  show "ParseVerificationStep ''  go test ./x '' = Inr \<lparr>Command = ''go'', Args = [''test'', ''./x''], TimeoutSeconds = 0\<rparr>"
    by code_simp
qed

text \<open>
  On a line without quotes the tokeniser is the plain specification: refuse the first shell
  metacharacter, else split at blanks.
\<close>

theorem unquoted_line_is_split_at_blanks:
  assumes "single_quote \<notin> set raw" "double_quote \<notin> set raw"
  shows "splitFields raw =
    (case find (\<lambda>r. r \<in> set shellMetacharacters) raw of
       Some r \<Rightarrow> Inl (UnquotedMetacharacter r) | None \<Rightarrow> Inr (blank_words raw))"
  using assms by (rule splitFields_plain)

theorem unquoted_line_is_split_at_blanks_witness:
  "splitFields ''go test x'' = Inr [''go'', ''test'', ''x'']"
proof -
  have "single_quote \<notin> set ''go test x''" "double_quote \<notin> set ''go test x''" by code_simp+
  from unquoted_line_is_split_at_blanks [OF this] show ?thesis by code_simp
qed

section \<open>Creating a task\<close>

lemma find_snoc: "find P xs = None \<Longrightarrow> P y \<Longrightarrow> find P (xs @ [y]) = Some y"
  by (induction xs) (auto split: if_splits)

lemma New_passes_checks:
  assumes "New newid now input dflt = Inr t"
  shows "tasks_checks t"
proof -
  note t = New_Inr_iff [OF assms]
  then have none: "New_problems input dflt = []" by blast
  have title: "trim_space (n_Title input) \<noteq> []" "length (trim_space (n_Title input)) \<le> 200"
    and agent: "chosen_agent input dflt \<noteq> []"
    and steps: "n_Verification input \<noteq> []"
    and numbers: "- 1000 \<le> n_Priority input" "n_Priority input \<le> 1000" "0 \<le> n_MaxRetries input" "n_MaxRetries input \<le> 10"
      "0 \<le> n_Timeout input"
    using none by (simp_all add: New_problems_def Let_def MaxTitleLength_def MinPriority_def MaxPriority_def
        MaxRetriesLimit_def split: if_split_asm)
  have trimmed: "btrim (chosen_agent input dflt) \<noteq> []" "btrim (trim_space (n_Title input)) \<noteq> []"
    using title(1) agent by (auto simp: chosen_agent_def Let_def btrim_trim_space split: if_splits)
  show ?thesis
    using t title numbers steps trimmed by (simp add: tasks_checks_def second_def Suc_leI)
qed


definition demo_input :: NewTaskInput where
  "demo_input =
     \<lparr>n_ProjectID = 1, n_Title = '' t'', n_Description = [], n_Agent = [], n_Model = [], n_Hardness = [],
      n_Priority = 0, n_AcceptanceCriteria = [], n_Verification = [\<lparr>Command = ''go'', Args = [], TimeoutSeconds = 0\<rparr>],
      n_ProtectedPaths = [], n_SetupSteps = [], n_VerificationMode = ''clean'', n_MaxRetries = 1,
      n_RequiresApproval = False, n_ExpectFailOnBase = False, n_Coverage = False, n_BaseRef = [],
      n_BaseCommitAtCreate = [], n_Timeout = 1500000000\<rparr>"


section \<open>Captured output\<close>

lemma length_buffer_of: "length (b_head (buffer_of n s)) + length (b_tail (buffer_of n s)) = min n (length s)"
proof -
  have "length (b_head (buffer_of n s)) = min (length s) (n div 2)" "n div 2 \<le> n"
    "length (b_tail (buffer_of n s)) = min (n - n div 2) (length s - n div 2)"
    by (simp_all add: buffer_of_def min.commute)
  then show ?thesis by linarith
qed

text \<open>
  C25: What is kept of a process's output is the beginning and the end of the stream, never more than
  the limit and never less than what fits, however the stream was cut into writes; the text shown is
  the stream itself when nothing was dropped, else the two ends around a note with the number of
  dropped bytes.
\<close>

theorem captured_output_is_bounded:
  "\<exists>mid. let b = captured limit chunks in
     concat chunks = b_head b @ mid @ b_tail b
     \<and> length (b_head b) + length (b_tail b) = min (nat limit) (length (concat chunks))
     \<and> (buffer_truncated b \<longleftrightarrow> mid \<noteq> [])
     \<and> buffer_string b =
         (if mid = [] then concat chunks
          else b_head b @ ellipsis @ ''[truncated '' @ nat_dec (length mid) @ '' bytes]'' @ ellipsis @ b_tail b)"
proof -
  let ?s = "concat chunks" and ?n = "nat limit"
  let ?rest = "drop (?n div 2) ?s" and ?k = "?n - ?n div 2"
  let ?mid = "take (length ?rest - ?k) ?rest"
  have b: "captured limit chunks = buffer_of ?n ?s" by (rule captured_of)
  have cut: "?s = take (?n div 2) ?s @ ?mid @ drop (length ?rest - ?k) ?rest" by (simp only: append_take_drop_id)
  have mid: "length ?mid = length ?s - ?n" by simp
  have dropped: "buffer_dropped (buffer_of ?n ?s) = length ?mid"
    by (simp add: buffer_dropped_def buffer_of_def keep_last_def min_def)
  have len: "length (b_head (buffer_of ?n ?s)) + length (b_tail (buffer_of ?n ?s)) = min ?n (length ?s)"
    by (rule length_buffer_of)
  have ends: "b_head (buffer_of ?n ?s) = take (?n div 2) ?s" "b_tail (buffer_of ?n ?s) = drop (length ?rest - ?k) ?rest"
    by (simp_all add: buffer_of_def keep_last_def)
  have parts: "?s = b_head (buffer_of ?n ?s) @ ?mid @ b_tail (buffer_of ?n ?s)"
    using cut by (simp only: ends)
  have cut_off: "buffer_truncated (buffer_of ?n ?s) \<longleftrightarrow> ?mid \<noteq> []"
    by (metis mid length_greater_0_conv zero_less_diff buffer_truncated_of)
  have "?mid = [] \<Longrightarrow> b_head (buffer_of ?n ?s) @ b_tail (buffer_of ?n ?s) = ?s"
    using parts by (metis append_Nil)
  then have "buffer_string (buffer_of ?n ?s) =
      (if ?mid = [] then ?s
       else b_head (buffer_of ?n ?s) @ ellipsis @ ''[truncated '' @ nat_dec (length ?mid) @ '' bytes]'' @ ellipsis
              @ b_tail (buffer_of ?n ?s))"
    unfolding buffer_string_def dropped by (simp only: length_0_conv split: if_split) blast
  with parts len cut_off show ?thesis unfolding b Let_def by blast
qed

text \<open>
  A process is reported as succeeded exactly when it was a valid request, it started, neither the
  caller's cancellation nor the deadline fired, and it exited with zero, all its output read or not.
\<close>

theorem process_success_is_exact:
  "x_Outcome (fst (Run st c spec)) = OutcomeSucceeded \<longleftrightarrow>
     Spec_Validate st spec = None \<and> c_start c = None \<and> \<not> c_cancelled c \<and> \<not> c_deadline c
     \<and> (c_wait c = WaitOk \<or> c_wait c = WaitDelay \<and> c_exit c = 0)"
  by (rule Run_succeeded_iff)

section \<open>The verifier\<close>

lemma pass_spec_skips:
  "i < j \<Longrightarrow> j < length plan \<Longrightarrow> fst (pass_spec r req ob n plan) ! i \<noteq> VerificationPassed \<Longrightarrow>
     fst (pass_spec r req ob n plan) ! j = VerificationSkipped"
proof (induction plan arbitrary: i j n)
  case (Cons p plan)
  obtain ph st where p: "p = (ph, st)" by (cases p)
  show ?case
    using Cons.prems Cons.IH [of "i - 1" "j - 1" "Suc n"]
    by (cases i; cases j) (auto simp: p Let_def case_prod_beta split: if_splits)
qed simp

lemma length_pass_spec: "length (fst (pass_spec r req ob n plan)) = length plan"
  by (induction plan arbitrary: n) (auto simp: Let_def case_prod_beta)

lemma stop_status_not_Passed: "\<not> step_passes r req ob step \<Longrightarrow> stop_status r req ob step \<noteq> VerificationPassed"
  by (cases "o_before ob") (auto simp: step_passes_def stop_status_def Let_def)

lemma pass_spec_kind_iff:
  "snd (pass_spec r req ob i plan) = FailureNone \<longleftrightarrow> list_all (\<lambda>s. s = VerificationPassed) (fst (pass_spec r req ob i plan))"
  by (induction plan arbitrary: i) (auto simp: case_prod_beta stop_status_not_Passed split: if_splits)

text \<open>
  C26: The report of a verification holds one record per step, set-up steps first, in order, each with
  its step's phase and text; it passed exactly when every step did, and whatever follows the first
  step that did not pass was skipped.
\<close>

theorem report_covers_every_step:
  assumes run: "Runner_Run r req ob dur = Inr rep"
  shows "records_from req 0 (plan_of req) (rp_Runs rep)
    \<and> (rp_Passed rep \<longleftrightarrow> (\<forall>v \<in> set (rp_Runs rep). v_Status v = VerificationPassed))
    \<and> (\<forall>j < length (rp_Runs rep). \<forall>i < j. v_Status (rp_Runs rep ! i) \<noteq> VerificationPassed \<longrightarrow>
          v_Status (rp_Runs rep ! j) = VerificationSkipped)"
proof -
  note r = Runner_Run_Inr [OF run]
  let ?ss = "fst (pass_spec r req ob 0 (plan_of req))"
  have ss: "map v_Status (rp_Runs rep) = ?ss" using r by blast
  have len: "length (rp_Runs rep) = length (plan_of req)"
    using arg_cong [OF ss, of length] by (simp add: length_pass_spec)
  have nth: "v_Status (rp_Runs rep ! i) = ?ss ! i" if "i < length (rp_Runs rep)" for i
    using that by (simp flip: ss)
  have passed: "rp_Passed rep \<longleftrightarrow> list_all (\<lambda>s. s = VerificationPassed) ?ss"
    using r by (simp add: pass_spec_kind_iff)
  then have "rp_Passed rep \<longleftrightarrow> (\<forall>v \<in> set (rp_Runs rep). v_Status v = VerificationPassed)"
    by (simp add: list_all_iff flip: ss)
  moreover have "v_Status (rp_Runs rep ! j) = VerificationSkipped"
    if "j < length (rp_Runs rep)" "i < j" "v_Status (rp_Runs rep ! i) \<noteq> VerificationPassed" for i j
    using that pass_spec_skips [of i j "plan_of req" r req ob 0] by (simp add: nth len)
  ultimately show ?thesis using r by blast
qed

text \<open>Three steps, the second of which exits with one.\<close>

definition demo_checks :: Request where
  "demo_checks =
     \<lparr>q_AttemptID = 9, q_TaskRef = ''TASK-000001'', q_WorkingDir = ''/w'',
      q_SetupSteps = [\<lparr>Command = ''make'', Args = [], TimeoutSeconds = 0\<rparr>],
      q_Steps = [\<lparr>Command = ''go'', Args = [''test''], TimeoutSeconds = 0\<rparr>, \<lparr>Command = ''go'', Args = [''vet''], TimeoutSeconds = 0\<rparr>]\<rparr>"

definition demo_failing :: "nat \<Rightarrow> observation" where
  "demo_failing k =
     \<lparr>o_before = CtxLive, o_stat = StatDir,
      o_child = \<lparr>c_start = None, c_stdout = [], c_stderr = [], c_wait = (if k = 1 then WaitFailed ''exit'' else WaitOk),
        c_exit = (if k = 1 then 1 else 0), c_cancelled = False, c_deadline = False, c_leftovers = False, c_reaped = True,
        c_startedAt = 0, c_finishedAt = 1\<rparr>,
      o_after = CtxLive, o_id = 100 + k, o_now = 5\<rparr>"

theorem report_covers_every_step_witness:
  "\<exists>rep. Runner_Run \<lparr>rn_DefaultTimeout = 1, rn_TotalTimeout = 1, rn_MaxOutputBytes = 1\<rparr> demo_checks demo_failing 1 = Inr rep
     \<and> v_Status (rp_Runs rep ! 1) = VerificationFailed \<and> v_Status (rp_Runs rep ! 2) = VerificationSkipped \<and> \<not> rp_Passed rep"
proof -
  let ?run = "Runner_Run \<lparr>rn_DefaultTimeout = 1, rn_TotalTimeout = 1, rn_MaxOutputBytes = 1\<rparr> demo_checks demo_failing 1"
  have run: "?run = Inr (projr ?run)" by code_simp
  have len: "length (rp_Runs (projr ?run)) = 3" "v_Status (rp_Runs (projr ?run) ! 1) = VerificationFailed"
    by code_simp+
  note c = report_covers_every_step [OF run]
  then have "\<forall>j < length (rp_Runs (projr ?run)). \<forall>i < j. v_Status (rp_Runs (projr ?run) ! i) \<noteq> VerificationPassed \<longrightarrow>
          v_Status (rp_Runs (projr ?run) ! j) = VerificationSkipped" by blast
  from this [rule_format, of 2 1] have "v_Status (rp_Runs (projr ?run) ! 2) = VerificationSkipped" using len by simp
  moreover have "\<not> rp_Passed (projr ?run)" using c len nth_mem [of 1 "rp_Runs (projr ?run)"] by auto
  ultimately show ?thesis using run len by blast
qed

section \<open>Independence of the checks\<close>




text \<open>
  A pattern that matches a directory protects everything below it: a change under the directory
  is reported as a violation of that pattern.
\<close>

theorem protected_directory_covers_its_content:
  assumes total: "Violations valid glob patterns changed = Inr vs"
    and pattern: "stored \<in> set patterns" and changed: "c \<in> set changed" "trim_suffix c ''/'' \<noteq> []"
    and dir: "a \<in> set (ancestors (trim_suffix c ''/''))"
    and matches: "matchOne glob (normalizePattern stored) (contains_str (normalizePattern stored) ''/'') a"
  shows "\<lparr>vi_Pattern = stored, vi_Path = c\<rparr> \<in> set vs"
  using ancestor_matches [OF dir changed(2) matches] pattern changed(1) by (simp add: Violations_Inr [OF total])

theorem protected_directory_covers_its_content_witness:
  "\<exists>vs. Violations (\<lambda>p. True) (\<lambda>p q. Some (p = q)) [''secrets''] [''secrets/key''] = Inr vs
     \<and> \<lparr>vi_Pattern = ''secrets'', vi_Path = ''secrets/key''\<rparr> \<in> set vs"
proof -
  let ?glob = "\<lambda>p q. Some (p = q)"
  let ?v = "Violations (\<lambda>p. True) ?glob [''secrets''] [''secrets/key'']"
  have total: "?v = Inr (projr ?v)" by code_simp
  have "''secrets'' \<in> set (ancestors (trim_suffix ''secrets/key'' ''/''))" "trim_suffix ''secrets/key'' ''/'' \<noteq> []"
    "matchOne ?glob (normalizePattern ''secrets'') (contains_str (normalizePattern ''secrets'') ''/'') ''secrets''"
    by code_simp+
  with protected_directory_covers_its_content [OF total, of "''secrets''" "''secrets/key''"] total show ?thesis by auto
qed

section \<open>The state shared by worktrees\<close>

lemma ref_changes_Nil: "ref_changes before after = [] \<longleftrightarrow> map_of before = map_of after"
proof -
  have "map_of (ref_changes before after) = Map.empty \<longleftrightarrow> ref_changes before after = []"
    by simp
  have "ref_changes before after = [] \<longleftrightarrow>
      (\<forall>k \<in> set (map_keys before). \<exists>now. map_of after k = Some now \<and> now = the (map_of before k))
      \<and> (\<forall>k \<in> set (map_keys after). map_of before k \<noteq> None)"
    by (auto simp: ref_changes_def filter_empty_conv split: option.splits if_splits) fastforce
  also have "\<dots> \<longleftrightarrow> map_of before = map_of after"
  proof (intro iffI ext)
    fix k assume l: "(\<forall>k \<in> set (map_keys before). \<exists>now. map_of after k = Some now \<and> now = the (map_of before k))
      \<and> (\<forall>k \<in> set (map_keys after). map_of before k \<noteq> None)"
    show "map_of before k = map_of after k"
    proof (cases "map_of before k = None")
      case True
      then have "k \<notin> set (map_keys after)" using l by blast
      then show ?thesis using True key_iff [of k after] by simp
    next
      case False
      then have "k \<in> set (map_keys before)" using key_iff [of k before] by simp
      then show ?thesis using l False by fastforce
    qed
  next
    assume "map_of before = map_of after"
    then show "(\<forall>k \<in> set (map_keys before). \<exists>now. map_of after k = Some now \<and> now = the (map_of before k))
      \<and> (\<forall>k \<in> set (map_keys after). map_of before k \<noteq> None)" by (auto simp: key_iff)
  qed
  finally show ?thesis .
qed

text \<open>
  Two snapshots of the state shared with the main repository compare as unchanged exactly when
  they agree on the common directory, every reference, HEAD, the configuration, every info file and
  every hook.
\<close>

theorem unchanged_means_equal_snapshots:
  "Empty (Diff before after) \<longleftrightarrow>
     ss_CommonDir before = ss_CommonDir after \<and> ss_HeadRef before = ss_HeadRef after
     \<and> ss_Config before = ss_Config after \<and> map_of (ss_Refs before) = map_of (ss_Refs after)
     \<and> map_of (ss_Info before) = map_of (ss_Info after) \<and> map_of (ss_Hooks before) = map_of (ss_Hooks after)"
  by (auto simp: Empty_def Diff_def changedKeys_Nil ref_changes_Nil)

section \<open>Reading the log\<close>

text \<open>What a reader at a position of the log has still to read.\<close>

definition unread :: "uuid \<Rightarrow> EventType list \<Rightarrow> nat \<Rightarrow> db \<Rightarrow> Event list" where
  "unread i types after d =
     filter (\<lambda>e. e_TaskID e = i \<and> e_Seq e > after \<and> (types = [] \<or> e_Type e \<in> set types)) (db_events d)"

lemma sorted_take_filter:
  assumes "ascending (map f xs)" "n > 0" "xs \<noteq> []"
  shows "xs = take n xs @ filter (\<lambda>x. f x > f (last (take n xs))) xs"
proof -
  let ?a = "take n xs" and ?b = "drop n xs"
  have ne: "?a \<noteq> []" using assms by simp
  have asc: "sorted_wrt (<) (map f ?a @ map f ?b)" using assms(1) by (simp flip: map_append)
  have le: "f x \<le> f (last ?a)" if "x \<in> set ?a" for x
  proof -
    have split: "?a = butlast ?a @ [last ?a]" using ne by simp
    have "sorted_wrt (<) (map f ?a)" using asc by (simp add: sorted_wrt_append)
    then have "\<forall>y \<in> set (butlast ?a). f y < f (last ?a)" by (subst (asm) split) (simp add: sorted_wrt_append)
    moreover have "x \<in> set (butlast ?a) \<or> x = last ?a" using that by (subst (asm) split) auto
    ultimately show ?thesis by auto
  qed
  have gt: "f x > f (last ?a)" if "x \<in> set ?b" for x
    using asc that ne by (auto simp: sorted_wrt_append)
  have "filter (\<lambda>x. f x > f (last ?a)) ?a = []" using le by (auto simp: filter_empty_conv not_less)
  moreover have "filter (\<lambda>x. f x > f (last ?a)) ?b = ?b" using gt by (simp add: filter_True)
  ultimately have "filter (\<lambda>x. f x > f (last ?a)) (?a @ ?b) = ?b" by (simp only: filter_append append_Nil)
  then show ?thesis by (metis append_take_drop_id)
qed

text \<open>
  Reading the log page by page loses and repeats nothing: a page is at most the limit long, is
  empty only when nothing is left, and what is left after the last sequence number of a page is
  exactly the rest.
\<close>

theorem log_pages_are_lossless:
  assumes reach: "reachable d" and task: "i \<noteq> 0"
  shows "\<exists>page. ListEvents \<lparr>ef_TaskID = i, ef_AfterSeq = after, ef_Types = types, ef_Limit = limit\<rparr> d = Inr page
    \<and> length page \<le> event_limit limit \<and> (page = [] \<longleftrightarrow> unread i types after d = [])
    \<and> unread i types after d = page @ (if page = [] then [] else unread i types (e_Seq (last page)) d)"
proof -
  let ?u = "unread i types after d"
  have asc: "ascending (map e_Seq (db_events d))"
    using reachable_well_formed [OF reach] by (simp add: well_formed_def)
  then have ascu: "ascending (map e_Seq ?u)"
    by (simp add: unread_def sorted_wrt_map sorted_wrt_filter)
  then have "sort_key e_Seq ?u = ?u"
    by (intro sort_key_id_if_sorted) (simp add: strict_sorted_imp_sorted)
  then have page: "ListEvents \<lparr>ef_TaskID = i, ef_AfterSeq = after, ef_Types = types, ef_Limit = limit\<rparr> d
      = Inr (take (event_limit limit) ?u)"
    using task by (simp add: ListEvents_def unread_def)
  have lim: "event_limit limit > 0"
    by (auto simp: event_limit_def DefaultEventLimit_def MaxEventLimit_def)
  have "?u = take (event_limit limit) ?u @ unread i types (e_Seq (last (take (event_limit limit) ?u))) d" if "?u \<noteq> []"
  proof -
    let ?p = "take (event_limit limit) ?u"
    have "last ?p \<in> set ?u" using that lim by (metis in_set_takeD last_in_set take_eq_Nil less_numeral_extra(3))
    then have "e_Seq (last ?p) > after" by (simp add: unread_def)
    then have "filter (\<lambda>x. e_Seq x > e_Seq (last ?p)) ?u = unread i types (e_Seq (last ?p)) d"
      by (auto simp: unread_def intro!: filter_cong)
    then show ?thesis using sorted_take_filter [OF ascu lim that] by simp
  qed
  then show ?thesis using page lim by auto
qed

theorem log_pages_are_lossless_witness:
  "\<exists>page. ListEvents \<lparr>ef_TaskID = 7, ef_AfterSeq = 0, ef_Types = [], ef_Limit = 2\<rparr> demo3 = Inr page
    \<and> length page \<le> event_limit 2 \<and> (page = [] \<longleftrightarrow> unread 7 [] 0 demo3 = [])
    \<and> unread 7 [] 0 demo3 = page @ (if page = [] then [] else unread 7 [] (e_Seq (last page)) demo3)"
  by (rule log_pages_are_lossless [OF reach3]) simp

section \<open>Retention\<close>

text \<open>
  Pruning touches only logs of attempts whose task has ended, of runs that finished before the
  cutoff: every other row, and everything but the log text and the mark of a pruned one, is as before;
  a dry run changes nothing, and reports the same counts.
\<close>

theorem pruning_spares_live_logs:
  "\<exists>report e. prune_body cutoff dry d = Inr (report, e)
    \<and> e = d\<lparr>db_worker_runs := db_worker_runs e, db_verification_runs := db_verification_runs e\<rparr>
    \<and> list_all2 (\<lambda>r r'. r' = r \<or> \<not> dry \<and> prunable_worker d cutoff r
          \<and> r' = r\<lparr>r_Stdout := [], r_Stderr := [], r_Diff := [], r_LogsPruned := True\<rparr>)
        (db_worker_runs d) (db_worker_runs e)
    \<and> list_all2 (\<lambda>v v'. v' = v \<or> \<not> dry \<and> prunable_verification d cutoff v
          \<and> v' = v\<lparr>v_Stdout := [], v_Stderr := [], v_LogsPruned := True\<rparr>)
        (db_verification_runs d) (db_verification_runs e)
    \<and> report = prune_report cutoff dry d"
  by (auto simp: prune_body_def update_where_def list.rel_map intro!: list.rel_refl_strong)

text \<open>
  What may be pruned belongs to a task that has ended and a run that is over: the log of a task
  somebody is working on is never emptied.
\<close>

theorem prunable_logs_are_of_ended_tasks:
  assumes "prunable_worker d cutoff r"
  shows "\<exists>a t f. attempt_row d (r_AttemptID r) = Some a \<and> task_row d (a_TaskID a) = Some t \<and> Terminal (t_Status t)
    \<and> r_FinishedAt r = Some f \<and> f < cutoff \<and> \<not> r_LogsPruned r"
  using assms by (auto simp: prunable_worker_def pruneWhere_def terminalStatuses_def split: option.splits)

definition demo_worker_log :: WorkerRun where
  "demo_worker_log =
     \<lparr>r_ID = 51, r_AttemptID = 22, r_Backend = ''b'', r_Model = [], r_Agent = ''a'', r_AgentVersion = [],
      r_Status = WorkerSucceeded, r_FailureKind = FailureNone, r_Command = ''c'', r_WorkingDir = ''/w'',
      r_ExitCode = Some 0, r_Stdout = ''out'', r_StdoutTruncated = False, r_Stderr = [], r_StderrTruncated = False,
      r_SessionID = ''s'', r_Summary = [], r_FinishReason = [], r_Diff = [], r_DiffTruncated = False,
      r_ChangedFiles = 0, r_StartedAt = 3, r_FinishedAt = Some 4, r_LogsPruned = False\<rparr>"

theorem prunable_logs_are_of_ended_tasks_witness:
  "\<exists>a t f. attempt_row demo9 22 = Some a \<and> task_row demo9 (a_TaskID a) = Some t \<and> Terminal (t_Status t)
    \<and> Some (4 :: int) = Some f \<and> f < 10 \<and> \<not> False"
proof -
  have "prunable_worker demo9 10 demo_worker_log" by code_simp
  from prunable_logs_are_of_ended_tasks [OF this] show ?thesis by (simp add: demo_worker_log_def)
qed

text \<open>
  A task is deleted only when it has ended and no worktree of it is left on disk, and its rows go
  with it while every row of every other task stays: tasks, attempts and approvals.
\<close>

theorem deletion_takes_only_the_task:
  assumes del: "delete_body i d = Inr ((), e)"
  shows "\<exists>t. task_row d i = Some t \<and> Terminal (t_Status t) \<and> (\<forall>w \<in> set (db_worktrees d). \<not> on_disk d i w)
    \<and> task_row e i = None \<and> attempts_of e i = []
    \<and> db_tasks e = filter (\<lambda>u. t_ID u \<noteq> i) (db_tasks d)
    \<and> db_attempts e = filter (\<lambda>a. a_TaskID a \<noteq> i) (db_attempts d)
    \<and> db_approvals e = filter (\<lambda>p. ap_TaskID p \<noteq> i) (db_approvals d)"
  using assms
  by (auto simp: delete_body_def delete_cascade_def task_row_def attempts_of_def find_None_iff filter_empty_conv
      split: option.splits if_splits)

theorem deletion_takes_only_the_task_witness:
  "task_row (ran (delete_body 7) demo9) 7 = None \<and> attempts_of (ran (delete_body 7) demo9) 7 = []"
proof -
  have "went (delete_body 7) demo9" by code_simp
  from deletion_takes_only_the_task [OF went_unit [OF this]] show ?thesis by blast
qed

section \<open>Leases\<close>

text \<open>
  A run that renews its lease at every poll keeps it: the lease a renewal writes is still valid at
  every moment of the next two polls and some time after, so recovery, which looks for expired leases,
  never takes a task from a run that polls on time.
\<close>

theorem renewed_lease_outlives_two_polls:
  assumes renew: "RenewLease i owner (leaseTTL poll) d = Inr (s, e)"
    and mine: "a \<in> set (db_attempts d)" "a_ID a = i" "a_LeaseOwner a = owner" "a_Status a = AttemptRunning"
    and soon: "now \<le> db_now d + 2 * poll" "0 < poll"
  shows "\<exists>b \<in> set (db_attempts e). a_ID b = i \<and> b = a\<lparr>a_LeaseExpiresAt := a_LeaseExpiresAt b\<rparr>
    \<and> \<not> lease_expired now b"
proof -
  have e: "db_attempts e = update_where (\<lambda>a. a_ID a = i \<and> a_LeaseOwner a = owner \<and> a_Status a = AttemptRunning)
      (\<lambda>a. a\<lparr>a_LeaseExpiresAt := Some (db_now d + leaseTTL poll)\<rparr>) (db_attempts d)"
    using renew by (auto simp: RenewLease_def Let_def split: option.splits)
  let ?b = "a\<lparr>a_LeaseExpiresAt := Some (db_now d + leaseTTL poll)\<rparr>"
  have "?b \<in> set (db_attempts e)" using mine by (force simp: e set_update_where)
  moreover have "2 * poll < leaseTTL poll" using soon by (simp add: leaseTTL_def)
  ultimately show ?thesis using mine soon by (intro bexI [of _ ?b]) (auto simp: lease_expired_def)
qed

theorem renewed_lease_outlives_two_polls_witness:
  "\<exists>b \<in> set (db_attempts (ran (RenewLease 21 ''host:1'' (leaseTTL second)) demo4)).
     a_ID b = 21 \<and> \<not> lease_expired (db_now demo4 + 2 * second) b"
proof -
  have "went (RenewLease 21 ''host:1'' (leaseTTL second)) demo4" by code_simp
  then obtain s where run: "RenewLease 21 ''host:1'' (leaseTTL second) demo4
      = Inr (s, ran (RenewLease 21 ''host:1'' (leaseTTL second)) demo4)" using went_Inr by blast
  let ?a = "hd (db_attempts demo4)"
  have a: "?a \<in> set (db_attempts demo4)" "a_ID ?a = 21" "a_LeaseOwner ?a = ''host:1''" "a_Status ?a = AttemptRunning"
    by code_simp+
  from renewed_lease_outlives_two_polls [OF run a order_refl] show ?thesis by (auto simp: second_def)
qed

section \<open>What is not so\<close>

text \<open>
  The reference of a task is the number of the task padded to six digits by a function that cuts
  what is longer: task number 1000000 is given the reference of task number 100000, and so are the nine after it.
\<close>

theorem task_references_repeat:
  "k < 10 \<Longrightarrow> task_ref (1000000 + k) = task_ref 100000"
proof -
  assume k: "k < 10"
  have six: "length (nat_dec 100000) = 6" by (simp add: nat_dec.simps)
  have "nat_dec (1000000 + k) = nat_dec 100000 @ [digit_char k]"
  proof -
    have e: "1000000 + k = k + 100000 * 10" by simp
    have "(1000000 + k) div 10 = 100000 + k div 10" unfolding e by (rule div_mult_self1) simp
    moreover have "(1000000 + k) mod 10 = k mod 10" unfolding e by (rule mod_mult_self1)
    ultimately have "(1000000 + k) div 10 = 100000" "(1000000 + k) mod 10 = k" using k by simp_all
    then show ?thesis by (subst nat_dec.simps) simp
  qed
  then show ?thesis using six by (simp add: task_ref_def zero_pad_def)
qed

theorem task_references_repeat_witness:
  "task_ref 1000004 = task_ref 100000"
  using task_references_repeat [of 4] by simp

text \<open>
  A timeout below a second is stored as zero, which is how a task asks for the default: a task
  created with half a second runs with the configured default instead.
\<close>

theorem short_timeout_becomes_default:
  assumes "CreateTask t d = Inr (row, e)" "0 < t_Timeout t" "t_Timeout t < second"
  shows "EffectiveTimeout row dflt = dflt"
proof -
  have "t_Timeout row = 0"
    using assms by (auto simp: CreateTask_def Let_def split: if_splits)
  then show ?thesis by (simp add: EffectiveTimeout_def)
qed

theorem short_timeout_becomes_default_witness:
  "EffectiveTimeout (projl (map_sum fst id (case CreateTask (demo_task\<lparr>t_Timeout := 500000000\<rparr>) demo0 of
     Inl e \<Rightarrow> Inr e | Inr x \<Rightarrow> Inl x))) 60 = 60"
proof -
  let ?m = "CreateTask (demo_task\<lparr>t_Timeout := 500000000\<rparr>)"
  have "went ?m demo0" by code_simp
  then obtain row where row: "?m demo0 = Inr (row, ran ?m demo0)" using went_Inr by blast
  have "0 < t_Timeout (demo_task\<lparr>t_Timeout := 500000000\<rparr>)" "t_Timeout (demo_task\<lparr>t_Timeout := 500000000\<rparr>) < second"
    by (simp_all add: second_def)
  from short_timeout_becomes_default [OF row this] row show ?thesis by simp
qed

text \<open>
  A directory of the top level named without a trailing \<open>/...\<close> is not recognised as a package:
  \<open>go test ./internal\<close> runs the tests of that directory, yet a change of a test there is not seen as
  intercepting the step.
\<close>

theorem go_test_directory_is_not_matched:
  "matchesForStep \<lparr>Command = ''go'', Args = [''test'', ''./internal''], TimeoutSeconds = 0\<rparr> [''internal/x_test.go''] = []
   \<and> matchesForStep \<lparr>Command = ''go'', Args = [''test'', ''./internal/...''], TimeoutSeconds = 0\<rparr> [''internal/x_test.go''] \<noteq> []"
  by code_simp

end
