(* ===== verification/Commands.thy ===== *)
theory Commands
  imports RunGuarantees
begin

text \<open>
  The commands of \<open>internal/worker\<close> that act on a task from outside its run: \<open>Cancel\<close> with the wait
  for the runner it may include, \<open>Recover\<close> (\<open>cancel.go\<close>), and \<open>Approve\<close> (\<open>worker.go\<close>). They act in the
  world of \<open>World\<close>, of which they use the database and the question counter. What the operating
  system says about processes and clocks is the record \<open>machine\<close>, asked by the question's number.
\<close>

record machine =
  m_host :: "nat \<Rightarrow> string"
  m_running :: "nat \<Rightarrow> int \<Rightarrow> bool"
  m_local :: "nat \<Rightarrow> uuid \<Rightarrow> bool"
  m_clock :: "nat \<Rightarrow> duration"
  m_cancelWait :: duration
  m_rfc3339 :: "time \<Rightarrow> string"

section \<open>Lease owners\<close>

definition colon :: char where "colon = CHR '':''"

definition processLeaseOwner :: "string option \<Rightarrow> nat \<Rightarrow> string \<Rightarrow> string" where
  "processLeaseOwner hostname pid uid =
     (case hostname of None \<Rightarrow> ''unknown-host'' | Some h \<Rightarrow> if h = [] then ''unknown-host'' else h)
       @ [colon] @ nat_dec pid @ [colon] @ uid"

definition parseLeaseOwner :: "string \<Rightarrow> (string \<times> int) option" where
  "parseLeaseOwner owner =
     (let parts = split_on colon owner
      in if length parts < 3 then None
         else (case atoi (parts ! (length parts - 2)) of
                 None \<Rightarrow> None
               | Some pid \<Rightarrow> if pid \<le> 0 then None
                             else Some (join_with [colon] (take (length parts - 2) parts), pid)))"

section \<open>Waiting for the runner\<close>

record RunnerStop =
  rs_Owner :: string
  rs_PID :: int
  rs_Observed :: bool
  rs_Stopped :: bool
  rs_Waited :: duration

definition runnerPollInterval :: duration where "runnerPollInterval = 50000000"

text \<open>
  The loop asks whether the runner runs, then the clock, then the context, and sleeps. The fuel
  bounds the rounds; \<open>runner_wait_ends\<close> says how much is enough.
\<close>

primrec wait_loop :: "env \<Rightarrow> machine \<Rightarrow> (nat \<Rightarrow> bool) \<Rightarrow> duration \<Rightarrow> RunnerStop \<Rightarrow> nat \<Rightarrow> RunnerStop act" where
  "wait_loop E M running start stop 0 = err WFuel"
| "wait_loop E M running start stop (Suc fuel) =
     ebind (ask running) (\<lambda>r.
       if \<not> r then ebind (ask (m_clock M)) (\<lambda>now. ok (stop\<lparr>rs_Stopped := True, rs_Waited := now - start\<rparr>))
       else ebind (ask (m_clock M)) (\<lambda>now.
         ebind (ask (e_ctx E)) (\<lambda>c.
           if now - start \<ge> m_cancelWait M \<or> c \<noteq> CtxLive
           then ebind (ask (m_clock M)) (\<lambda>later. ok (stop\<lparr>rs_Waited := later - start\<rparr>))
           else wait_loop E M running start stop fuel)))"

definition waitForRunner :: "env \<Rightarrow> machine \<Rightarrow> nat \<Rightarrow> uuid \<Rightarrow> string \<Rightarrow> RunnerStop act" where
  "waitForRunner E M fuel taskID owner =
     (let stop = \<lparr>rs_Owner = owner, rs_PID = 0, rs_Observed = False, rs_Stopped = False, rs_Waited = 0\<rparr>
      in ebind (ask (m_host M)) (\<lambda>thisHost.
           case parseLeaseOwner owner of
             None \<Rightarrow> ok stop
           | Some (host, pid) \<Rightarrow>
               if host \<noteq> thisHost then ok stop
               else ebind (ask (m_clock M)) (\<lambda>start.
                 wait_loop E M (\<lambda>n. if owner = e_owner E then m_local M n taskID else m_running M n pid) start
                   (stop\<lparr>rs_PID := pid, rs_Observed := True\<rparr>) fuel)))"

section \<open>Cancel\<close>

definition task_outcome :: "Task \<Rightarrow> Outcome" where
  "task_outcome t =
     \<lparr>o_Task = t, o_Attempt = None, o_WorkerRun = None, o_Verification = None, o_Worktree = None,
      o_Approval = None, o_TestsModified = []\<rparr>"

definition cancel_payload :: "string \<Rightarrow> Status \<Rightarrow> payload" where
  "cancel_payload reason previous =
     [(''reason'', JStr reason), (''previous_status'', JStr (Status_string previous)),
      (''worktree_retained'', JBool True)]"

definition cancel_transaction :: "env \<Rightarrow> Task \<Rightarrow> string \<Rightarrow> string act" where
  "cancel_transaction E t reason =
     inTx E (ebind tick (\<lambda>n.
       in_db (cancel_tx (t_ID t) (t_Status t) reason
                (e_uuid E n, e_now E n, cancel_payload reason (t_Status t)))))"

definition cancel_attempt ::
    "env \<Rightarrow> string \<Rightarrow> string \<Rightarrow> (werr \<Rightarrow> (Task \<times> string) act) \<Rightarrow> (Task \<times> string) act" where
  "cancel_attempt E idOrRef reason again =
     ebind (query E (ResolveTask (e_parse_uuid E) idOrRef)) (\<lambda>t.
       if Terminal (t_Status t) then err (WNotRunnable (t_Status t))
       else catch (cancel_transaction E t reason)
              (\<lambda>r. case r of Inr owner \<Rightarrow> ok (t, owner) | Inl e \<Rightarrow> again e))"

text \<open>The loop with the number of further attempts it may make.\<close>

primrec cancel_loop :: "env \<Rightarrow> string \<Rightarrow> string \<Rightarrow> nat \<Rightarrow> (Task \<times> string) act" where
  "cancel_loop E idOrRef reason 0 = cancel_attempt E idOrRef reason err"
| "cancel_loop E idOrRef reason (Suc k) =
     cancel_attempt E idOrRef reason
       (\<lambda>e. if e = WStore ErrConflict then cancel_loop E idOrRef reason k else err e)"

definition stop_payload :: "string \<Rightarrow> RunnerStop \<Rightarrow> payload" where
  "stop_payload owner stop =
     [(''runner'', JStr owner), (''observed'', JBool (rs_Observed stop)), (''stopped'', JBool (rs_Stopped stop)),
      (''waited_ms'', JInt (rs_Waited stop div 1000000))]"

definition note_stop :: "env \<Rightarrow> uuid \<Rightarrow> string \<Rightarrow> RunnerStop \<Rightarrow> unit act" where
  "note_stop E i owner stop =
     ebind tick (\<lambda>n. stmt E (appendEvent (e_uuid E n, e_now E n, stop_payload owner stop) i None TypeRunStopped))"

definition Cancel :: "env \<Rightarrow> machine \<Rightarrow> nat \<Rightarrow> string \<Rightarrow> string \<Rightarrow> (Outcome \<times> RunnerStop option) act" where
  "Cancel E M fuel idOrRef reason =
     ebind (cancel_loop E idOrRef reason 2) (\<lambda>(t, owner).
       let out = task_outcome (t\<lparr>t_Status := StatusCancelled\<rparr>)
       in if owner = [] \<or> m_cancelWait M \<le> 0 then ok (out, None)
          else ebind (waitForRunner E M fuel (t_ID t) owner) (\<lambda>stop.
            eseq (best_effort (note_stop E (t_ID t) owner stop)) (ok (out, Some stop))))"

section \<open>Recover\<close>

datatype Recovery = Cancelled | WouldCancel

record RecoveredTask =
  rt_Ref :: string
  rt_Status :: Status
  rt_Action :: Recovery
  rt_LeaseOwner :: string
  rt_LeaseExpiresAt :: "time option"
  rt_Reason :: string

definition recovery_item :: "machine \<Rightarrow> Recovery \<Rightarrow> StuckAttempt \<Rightarrow> RecoveredTask" where
  "recovery_item M action s =
     (let owner = (if sa_LeaseOwner s = [] then ''unknown'' else sa_LeaseOwner s);
          lastSeen = (case sa_LeaseExpiresAt s of None \<Rightarrow> ''never'' | Some t \<Rightarrow> m_rfc3339 M t)
      in \<lparr>rt_Ref = sa_TaskRef s, rt_Status = sa_Status s, rt_Action = action, rt_LeaseOwner = owner,
          rt_LeaseExpiresAt = sa_LeaseExpiresAt s,
          rt_Reason = ''lease expired: owner '' @ owner @ '', last seen '' @ lastSeen\<rparr>)"

definition nothing_left :: "werr \<Rightarrow> bool" where
  "nothing_left e = (case e of WNotRunnable _ \<Rightarrow> True | WStore ErrNotFound \<Rightarrow> True | _ \<Rightarrow> False)"

text \<open>What a pass recovered, and the error that ended it if one did.\<close>

primrec recover_each ::
    "env \<Rightarrow> machine \<Rightarrow> nat \<Rightarrow> bool \<Rightarrow> RecoveredTask list \<Rightarrow> StuckAttempt list \<Rightarrow> (RecoveredTask list \<times> werr option) act" where
  "recover_each E M fuel dryRun recovered [] = ok (recovered, None)"
| "recover_each E M fuel dryRun recovered (s # rest) =
     (if dryRun then recover_each E M fuel dryRun (recovered @ [recovery_item M WouldCancel s]) rest
      else (let item = recovery_item M Cancelled s
            in catch (Cancel E M fuel (sa_TaskRef s) (rt_Reason item)) (\<lambda>r. case r of
                 Inl e \<Rightarrow> if nothing_left e then recover_each E M fuel dryRun recovered rest
                          else ok (recovered, Some (WWrapped (''recover '' @ sa_TaskRef s) e))
               | Inr _ \<Rightarrow> recover_each E M fuel dryRun (recovered @ [item]) rest)))"

definition Recover :: "env \<Rightarrow> machine \<Rightarrow> nat \<Rightarrow> bool \<Rightarrow> (RecoveredTask list \<times> werr option) act" where
  "Recover E M fuel dryRun =
     catch (query E StuckLeases) (\<lambda>r. case r of
       Inl e \<Rightarrow> ok ([], Some (WWrapped ''find tasks with an expired lease'' e))
     | Inr stuck \<Rightarrow> recover_each E M fuel dryRun [] stuck)"

section \<open>Approve\<close>

definition approve_payload :: "string \<Rightarrow> string \<Rightarrow> string \<Rightarrow> payload" where
  "approve_payload decidedBy reason via =
     [(''decided_by'', JStr decidedBy), (''reason'', JStr reason), (''via'', JStr via)]"

definition Approve :: "env \<Rightarrow> string \<Rightarrow> bool \<Rightarrow> string \<Rightarrow> string \<Rightarrow> string \<Rightarrow> Outcome act" where
  "Approve E idOrRef granted decidedBy reason via =
     (if via = [] then err (WMessage ''approval decision needs a via'')
      else ebind (query E (ResolveTask (e_parse_uuid E) idOrRef)) (\<lambda>t.
        if t_Status t \<noteq> StatusWaitingApproval then err (WNotRunnable (t_Status t))
        else ebind (inTx E (ebind tick (\<lambda>n.
               in_db (approve_tx (t_ID t) (t_Status t) granted decidedBy reason
                        (e_uuid E n, e_now E n, approve_payload decidedBy reason via))))) (\<lambda>a.
          ok ((task_outcome (t\<lparr>t_Status := (if granted then StatusReady else StatusFailed)\<rparr>))\<lparr>o_Approval := Some a\<rparr>))))"

end
