(* ===== verification/Creation.thy ===== *)
theory Creation
  imports Commands
begin

text \<open>
  \<open>CreateTask\<close> of \<open>internal/worker/create.go\<close>: what is checked before anything is written, the
  registration of the project, what is frozen into the row, and the transaction that stores it. The
  configured backend is the record \<open>backend\<close>.
\<close>

record backend =
  b_name :: string
  b_configured :: string
  b_opencode_agent :: string
  b_opencode_model :: string
  b_codex_model :: string
  b_validate :: "(nat \<Rightarrow> string \<Rightarrow> werr option) option"

record CreateTaskInput =
  in_RepoPath :: string
  in_RequireRegisteredProject :: bool
  in_Title :: string
  in_Description :: string
  in_AcceptanceCriteria :: string
  in_Agent :: string
  in_Model :: string
  in_Hardness :: string
  in_Priority :: int
  in_Verification :: "VerificationStep list"
  in_ProtectedPaths :: "string list"
  in_SetupSteps :: "VerificationStep list"
  in_VerificationMode :: string
  in_MaxRetries :: int
  in_RequiresApproval :: bool
  in_ExpectFailOnBase :: bool
  in_Coverage :: "bool option"
  in_BaseRef :: string
  in_Timeout :: duration

section \<open>The paths a step names\<close>

definition cleanStepPath :: "string \<Rightarrow> string option" where
  "cleanStepPath p =
     (if p = [] \<or> p = ''-'' then None
      else if is_abs p then None
      else (let cleaned = path_clean p
            in if cleaned = ''.'' \<or> cleaned = ''..'' \<or> has_prefix cleaned ''../'' then None else Some cleaned))"

definition relativePath :: "string \<Rightarrow> string option" where
  "relativePath command = (if slash \<notin> set command then None else cleanStepPath command)"

definition argumentPath :: "string \<Rightarrow> string option" where
  "argumentPath arg =
     (if arg = [] \<or> has_prefix arg ''-'' then None
      else if contains_str arg ''...'' then None
      else if slash \<notin> set arg \<and> path_ext arg = [] then None
      else cleanStepPath arg)"

definition stepPaths :: "VerificationStep \<Rightarrow> string list" where
  "stepPaths step = List.map_filter id (relativePath (Command step) # map argumentPath (Args step))"

section \<open>Steps that run what the base lacks\<close>

fun missing_of :: "env \<Rightarrow> string \<Rightarrow> string \<Rightarrow> string list \<Rightarrow> string list act" where
  "missing_of E repo base [] = ok []"
| "missing_of E repo base (p # ps) =
     ebind (HasPathAtCommit E repo base p) (\<lambda>there.
       if there then missing_of E repo base ps
       else ebind (Ignored_path E repo p) (\<lambda>ignored.
         ebind (missing_of E repo base ps) (\<lambda>rest. ok (if ignored then rest else p # rest))))"

text \<open>The number of the step, from one, with each file it would run and the base lacks.\<close>

fun missing_runners :: "env \<Rightarrow> string \<Rightarrow> string \<Rightarrow> nat \<Rightarrow> VerificationStep list \<Rightarrow> (nat \<times> Interception) list act" where
  "missing_runners E repo base i [] = ok []"
| "missing_runners E repo base i (step # steps) =
     ebind (missing_of E repo base (stepPaths step)) (\<lambda>missing.
       ebind (missing_runners E repo base (Suc i) steps) (\<lambda>rest.
         ok (map (Pair (Suc i)) (Interceptions [step] missing) @ rest)))"

definition refuseMissingRunners :: "env \<Rightarrow> string \<Rightarrow> string \<Rightarrow> VerificationStep list \<Rightarrow> unit act" where
  "refuseMissingRunners E repo base steps =
     ebind (missing_runners E repo base 0 steps) (\<lambda>parts.
       if parts = [] then ok ()
       else err (WIntercepted (map snd parts) []))"

section \<open>Node packages\<close>

definition nodeLockfiles :: "string list" where
  "nodeLockfiles = [''package-lock.json'', ''npm-shrinkwrap.json'', ''pnpm-lock.yaml'', ''yarn.lock'']"

definition stepsRunNode :: "VerificationStep list \<Rightarrow> bool" where
  "stepsRunNode steps =
     list_ex (\<lambda>s. path_base (Command s) \<in> set [''node'', ''npm'', ''npx'', ''pnpm'', ''yarn'']) steps"

definition firstNonFlag :: "string list \<Rightarrow> string" where
  "firstNonFlag args = (case find (\<lambda>a. \<not> has_prefix a ''-'') args of None \<Rightarrow> [] | Some a \<Rightarrow> a)"

definition installs_packages :: "VerificationStep \<Rightarrow> bool" where
  "installs_packages step =
     (let first = firstNonFlag (Args step); tool = path_base (Command step)
      in if tool = ''npm'' then first \<in> set [''ci'', ''install'', ''i'']
         else if tool = ''pnpm'' then first = ''install''
         else if tool = ''yarn'' then first = ''install'' \<or> Args step = []
         else False)"

definition stepsInstallNodePackages :: "VerificationStep list \<Rightarrow> bool" where
  "stepsInstallNodePackages steps = list_ex installs_packages steps"

definition nodeInstallCommand :: "string \<Rightarrow> string" where
  "nodeInstallCommand lockfile =
     (if lockfile = ''pnpm-lock.yaml'' then ''pnpm install --frozen-lockfile''
      else if lockfile = ''yarn.lock'' then ''yarn install --frozen-lockfile'' else ''npm ci'')"

definition node_warning :: "string \<Rightarrow> string" where
  "node_warning lockfile =
     ''clean verification checks out only what would be committed, so node_modules will be absent, ''
       @ ''but this repository has '' @ lockfile
       @ '' and a step runs node, npm, npx, pnpm or yarn without a setup step ''
       @ ''installing packages; add one such as `--setup '' @ go_quote (nodeInstallCommand lockfile) @ ''` (TASK-000159)''"

fun first_lockfile :: "env \<Rightarrow> string \<Rightarrow> string \<Rightarrow> string list \<Rightarrow> string list act" where
  "first_lockfile E repo base [] = ok []"
| "first_lockfile E repo base (l # ls) =
     ebind (HasPathAtCommit E repo base l) (\<lambda>there.
       if there then ok [node_warning l] else first_lockfile E repo base ls)"

definition nodeInstallWarnings ::
    "env \<Rightarrow> string \<Rightarrow> string \<Rightarrow> VerificationStep list \<Rightarrow> VerificationStep list \<Rightarrow> string list act" where
  "nodeInstallWarnings E repo base steps setupSteps =
     (if \<not> stepsRunNode steps \<or> stepsInstallNodePackages setupSteps then ok []
      else first_lockfile E repo base nodeLockfiles)"

section \<open>What is decided before the row is built\<close>

definition backendModel :: "backend \<Rightarrow> string" where
  "backendModel B =
     (if b_configured B = ''codex'' \<or> b_name B = ''codex'' then trim_space (b_codex_model B)
      else trim_space (b_opencode_model B))"

definition agent_name :: "backend \<Rightarrow> CreateTaskInput \<Rightarrow> string" where
  "agent_name B input =
     (let named = trim_space (in_Agent input)
      in if named = [] then trim_space (b_opencode_agent B) else named)"

definition validate_agent :: "backend \<Rightarrow> string \<Rightarrow> unit act" where
  "validate_agent B name =
     (case b_validate B of
        None \<Rightarrow> ok ()
      | Some f \<Rightarrow> ebind (ask (\<lambda>n. f n name)) (\<lambda>r. case r of None \<Rightarrow> ok () | Some e \<Rightarrow> err e))"

definition find_project :: "env \<Rightarrow> CreateTaskInput \<Rightarrow> string \<Rightarrow> Project act" where
  "find_project E input repo =
     (if in_RequireRegisteredProject input
      then catch (query E (GetProjectByPath repo)) (\<lambda>r. case r of
             Inl e \<Rightarrow> if e = WStore ErrNotFound then err (WMessage ''project is not registered'') else err e
           | Inr p \<Rightarrow> ok p)
      else ebind (PinsSubmodules E repo) (\<lambda>pins.
        ebind (CurrentBranch E repo) (\<lambda>branch.
          ebind tick (\<lambda>n.
            stmt E (EnsureProject (e_uuid E n) (path_base repo) repo branch
                      (Some (if pins then VerificationInPlace else VerificationClean)))))))"

definition chosen_mode :: "CreateTaskInput \<Rightarrow> Project \<Rightarrow> VerificationMode act" where
  "chosen_mode input project =
     (if trim_space (in_VerificationMode input) = [] then ok (p_VerificationMode project)
      else (case ParseVerificationMode (in_VerificationMode input) of
              Inl m \<Rightarrow> err (WMessage m) | Inr mode \<Rightarrow> ok mode))"

definition refuse_gitlinks :: "env \<Rightarrow> CreateTaskInput \<Rightarrow> VerificationMode \<Rightarrow> string \<Rightarrow> string \<Rightarrow> unit act" where
  "refuse_gitlinks E input mode repo base =
     (if mode \<noteq> VerificationClean \<and> \<not> in_ExpectFailOnBase input then ok ()
      else ebind (HasGitlinks E repo base) (\<lambda>(found, path).
        if found then err WSubmoduleUnavailable else ok ()))"

definition new_task_input ::
    "CreateTaskInput \<Rightarrow> Project \<Rightarrow> string \<Rightarrow> string list \<Rightarrow> VerificationMode \<Rightarrow> string \<Rightarrow> NewTaskInput" where
  "new_task_input input project agent protected mode base =
     \<lparr>n_ProjectID = p_ID project, n_Title = in_Title input, n_Description = in_Description input,
      n_Agent = agent, n_Model = in_Model input, n_Hardness = in_Hardness input, n_Priority = in_Priority input,
      n_AcceptanceCriteria = in_AcceptanceCriteria input, n_Verification = in_Verification input,
      n_ProtectedPaths = protected, n_SetupSteps = in_SetupSteps input,
      n_VerificationMode = VerificationMode_string mode, n_MaxRetries = in_MaxRetries input,
      n_RequiresApproval = in_RequiresApproval input, n_ExpectFailOnBase = in_ExpectFailOnBase input,
      n_Coverage = (case in_Coverage input of None \<Rightarrow> p_Coverage project | Some c \<Rightarrow> c),
      n_BaseRef = in_BaseRef input, n_BaseCommitAtCreate = base, n_Timeout = in_Timeout input\<rparr>"

definition pin_model :: "env \<Rightarrow> backend \<Rightarrow> Task \<Rightarrow> Task" where
  "pin_model E B t =
     (let m = resolveModel t (c_Routing E) in t\<lparr>t_Model := (if m = [] then backendModel B else m)\<rparr>)"

definition created_payload :: "string \<Rightarrow> string list \<Rightarrow> Task \<Rightarrow> payload" where
  "created_payload repo warnings t =
     [(''title'', JStr (t_Title t)), (''agent'', JStr (t_Agent t)), (''priority'', JInt (t_Priority t)),
      (''requires_approval'', JBool (t_RequiresApproval t)), (''expect_fail_on_base'', JBool (t_ExpectFailOnBase t)),
      (''coverage'', JBool (t_Coverage t)),
      (''verification'', JList (map (\<lambda>s. JStr (Step_String s)) (t_Verification t))),
      (''verification_mode'', JStr (VerificationMode_string (t_VerificationMode t))),
      (''repo_path'', JStr repo), (''base_commit'', JStr (t_BaseCommitAtCreate t))]
       @ (if warnings = [] then [] else [(''warnings'', JList (map JStr warnings))])"

section \<open>CreateTask\<close>

text \<open>The task as stored, with the warnings, which are not stored in its row.\<close>

definition store_task :: "env \<Rightarrow> string \<Rightarrow> string list \<Rightarrow> Task \<Rightarrow> Task act" where
  "store_task E repo warnings built =
     inTx E (ebind tick (\<lambda>n.
       in_db (create_tx built (\<lambda>stored. (e_uuid E n, e_now E n, created_payload repo warnings stored)))))"

definition check_input :: "env \<Rightarrow> backend \<Rightarrow> CreateTaskInput \<Rightarrow> (string \<times> string \<times> string list) act" where
  "check_input E B input =
     ebind (OpenRepository E (in_RepoPath input)) (\<lambda>repo.
     ebind (HasCommits E repo) (\<lambda>commits.
     if \<not> commits then err (WMessage ''repository has no commits yet'')
     else eseq (if in_BaseRef input = [] then ok ()
                else ebind (ResolveCommit E repo (in_BaseRef input)) (\<lambda>_. ok ()))
       (let agent = agent_name B input
        in if agent = [] then err (WMessage ''no agent named and no default configured'')
           else eseq (validate_agent B agent)
             (case NormalizeProtected (e_valid E) (in_ProtectedPaths input) of
                Inl e \<Rightarrow> err (WProtected e)
              | Inr protected \<Rightarrow> ok (repo, agent, protected)))))"

definition Orchestrator_CreateTask :: "env \<Rightarrow> backend \<Rightarrow> CreateTaskInput \<Rightarrow> (Task \<times> string list) act" where
  "Orchestrator_CreateTask E B input =
     ebind (check_input E B input) (\<lambda>(repo, agent, protected).
     ebind (find_project E input repo) (\<lambda>project.
     let baseRef = effectiveBaseRef (in_BaseRef input) (p_DefaultBranch project) in
     ebind (ResolveCommit E repo baseRef) (\<lambda>base.
     ebind (chosen_mode input project) (\<lambda>mode.
     eseq (refuse_gitlinks E input mode repo base)
     (ebind tick (\<lambda>n.
      case New (e_uuid E n) (e_now E n) (new_task_input input project agent protected mode base) (b_opencode_agent B) of
        Inl problems \<Rightarrow> err (WMessage ''invalid task'')
      | Inr t \<Rightarrow>
          let built = pin_model E B t; steps = t_SetupSteps built @ t_Verification built in
          eseq (refuseMissingRunners E repo base steps)
          (ebind (if t_VerificationMode built = VerificationClean
                  then nodeInstallWarnings E repo base steps (t_SetupSteps built) else ok []) (\<lambda>warnings.
           ebind (store_task E repo warnings built) (\<lambda>created. ok (created, warnings))))))))))"

end
