(* ===== verification/Applying.thy ===== *)
theory Applying
  imports Commands
begin

text \<open>
  Putting a task's result on the branch a person works on: \<open>Apply\<close>, \<open>Undo\<close> (\<open>worker/apply.go\<close>) and
  \<open>ResolveApply\<close> (\<open>worker/landed.go\<close>). Both directions do their git work inside the transaction
  that records it, with the task's row locked.
\<close>

section \<open>The recorded state\<close>

record applyRecord =
  ar_Into :: string
  ar_Branch :: string
  ar_Commit :: string
  ar_Reapplied :: bool

record undoRecord =
  ur_Into :: string
  ur_Commit :: string
  ur_Undid :: string

text \<open>\<open>reapplied\<close> is left out when false.\<close>

definition apply_payload :: "applyRecord \<Rightarrow> payload" where
  "apply_payload r =
     [(''into'', JStr (ar_Into r)), (''branch'', JStr (ar_Branch r)), (''commit'', JStr (ar_Commit r))]
       @ (if ar_Reapplied r then [(''reapplied'', JBool True)] else [])"

definition undo_payload :: "undoRecord \<Rightarrow> payload" where
  "undo_payload r = [(''into'', JStr (ur_Into r)), (''commit'', JStr (ur_Commit r)), (''undid'', JStr (ur_Undid r))]"

definition bool_member :: "string \<Rightarrow> payload \<Rightarrow> serr + bool" where
  "bool_member name pay =
     (case map_of pay name of
        None \<Rightarrow> Inr False | Some JNull \<Rightarrow> Inr False | Some (JBool b) \<Rightarrow> Inr b | Some _ \<Rightarrow> Inl ErrDecode)"

definition decode_apply :: "payload \<Rightarrow> serr + applyRecord" where
  "decode_apply pay =
     (case (string_member ''into'' pay, string_member ''branch'' pay, string_member ''commit'' pay, bool_member ''reapplied'' pay) of
        (Inr i, Inr b, Inr c, Inr r) \<Rightarrow> Inr \<lparr>ar_Into = i, ar_Branch = b, ar_Commit = c, ar_Reapplied = r\<rparr>
      | _ \<Rightarrow> Inl ErrDecode)"

definition decode_undo :: "payload \<Rightarrow> serr + undoRecord" where
  "decode_undo pay =
     (case (string_member ''into'' pay, string_member ''commit'' pay, string_member ''undid'' pay) of
        (Inr i, Inr c, Inr u) \<Rightarrow> Inr \<lparr>ur_Into = i, ur_Commit = c, ur_Undid = u\<rparr>
      | _ \<Rightarrow> Inl ErrDecode)"

text \<open>The last apply or undo among the events, searched from the end.\<close>

fun last_apply :: "Event list \<Rightarrow> serr + (applyRecord option \<times> undoRecord option)" where
  "last_apply [] = Inr (None, None)"
| "last_apply (e # earlier) =
     (case e_Type e of
        TypeTaskApplied \<Rightarrow> (case decode_apply (e_Payload e) of Inl x \<Rightarrow> Inl x | Inr r \<Rightarrow> Inr (Some r, None))
      | TypeTaskApplyUndone \<Rightarrow> (case decode_undo (e_Payload e) of Inl x \<Rightarrow> Inl x | Inr r \<Rightarrow> Inr (None, Some r))
      | _ \<Rightarrow> last_apply earlier)"

definition applyState :: "Event list \<Rightarrow> serr + (applyRecord option \<times> undoRecord option)" where
  "applyState events = last_apply (rev events)"

section \<open>What both directions resolve\<close>

record applyContext =
  ac_task :: Task
  ac_repo :: string
  ac_wt :: Worktree
  ac_into :: string
  ac_events :: "Event list"

definition in_store :: "(serr + 'a) \<Rightarrow> 'a act" where
  "in_store r = (case r of Inl e \<Rightarrow> err (WStore e) | Inr x \<Rightarrow> ok x)"

definition read_db :: "(db \<Rightarrow> serr + 'a) \<Rightarrow> 'a act" where
  "read_db q = in_db (tx_read q)"

definition prepareApply :: "env \<Rightarrow> string \<Rightarrow> applyContext act" where
  "prepareApply E idOrRef =
     ebind (read_db (ResolveTask (e_parse_uuid E) idOrRef)) (\<lambda>t.
     eseq (in_db (LockTask InTransaction (t_ID t)))
     (if t_Status t \<noteq> StatusSucceeded then err (WMessage ''only a SUCCEEDED task has a verified result to apply'')
      else ebind (read_db (LatestAttempt (t_ID t))) (\<lambda>attempt.
      ebind (read_db (GetWorktreeByAttempt (a_ID attempt))) (\<lambda>wt.
      if w_HeadCommit wt = [] then err (WMessage ''there is nothing to apply'')
      else ebind (read_db (GetProject (t_ProjectID t))) (\<lambda>project.
      ebind (OpenRepository E (p_RepoPath project)) (\<lambda>repo.
      ebind (CheckedOutBranch E repo) (\<lambda>into.
      ebind (TrackedChanges E repo) (\<lambda>changed.
      if changed \<noteq> [] then err (WDirty changed)
      else ebind (read_db (ListEvents \<lparr>ef_TaskID = t_ID t, ef_AfterSeq = 0, ef_Types = [], ef_Limit = 0\<rparr>)) (\<lambda>events.
        ok \<lparr>ac_task = t, ac_repo = repo, ac_wt = wt, ac_into = into, ac_events = events\<rparr>)))))))))"

record ApplyResult =
  al_Task :: Task
  al_Into :: string
  al_Branch :: string
  al_Commit :: string
  al_Reapplied :: bool

definition record_event :: "env \<Rightarrow> uuid \<Rightarrow> EventType \<Rightarrow> payload \<Rightarrow> unit act" where
  "record_event E i ty pay = ebind tick (\<lambda>n. in_db (appendEvent (e_uuid E n, e_now E n, pay) i None ty))"

section \<open>Apply\<close>

definition apply_message :: "Task \<Rightarrow> string \<Rightarrow> string" where
  "apply_message t branch =
     ''aidev: apply '' @ Identifier t @ '' '' @ t_Title t @ [nl, nl] @ ''Merges '' @ branch @ '', verified by aidev.''"

definition apply_git :: "env \<Rightarrow> applyContext \<Rightarrow> undoRecord option \<Rightarrow> applyRecord act" where
  "apply_git E ac undone =
     (let rec = \<lparr>ar_Into = ac_into ac, ar_Branch = w_Branch (ac_wt ac), ar_Commit = [], ar_Reapplied = False\<rparr>;
          merge = ebind (MergeNoFF E (ac_repo ac) (w_HeadCommit (ac_wt ac))
                           (apply_message (ac_task ac) (w_Branch (ac_wt ac))))
                    (\<lambda>c. ok (rec\<lparr>ar_Commit := c\<rparr>))
      in case undone of
           None \<Rightarrow> merge
         | Some u \<Rightarrow>
             if ur_Into u = ac_into ac
             then ebind (Revert E (ac_repo ac) (ur_Commit u) 0) (\<lambda>c. ok (rec\<lparr>ar_Reapplied := True, ar_Commit := c\<rparr>))
             else merge)"

definition apply_body :: "env \<Rightarrow> string \<Rightarrow> ApplyResult act" where
  "apply_body E idOrRef =
     ebind (prepareApply E idOrRef) (\<lambda>ac.
     ebind (in_store (applyState (ac_events ac))) (\<lambda>(applied, undone).
     if applied \<noteq> None then err (WMessage ''already applied; undo it first'')
     else ebind (ResolveCommit E (ac_repo ac) ''HEAD'') (\<lambda>before.
     ebind (apply_git E ac undone) (\<lambda>rec.
     if ar_Commit rec = before then err (WMessage ''there was nothing to apply'')
     else eseq (record_event E (t_ID (ac_task ac)) TypeTaskApplied (apply_payload rec))
       (ok \<lparr>al_Task = ac_task ac, al_Into = ac_into ac, al_Branch = w_Branch (ac_wt ac),
            al_Commit = ar_Commit rec, al_Reapplied = ar_Reapplied rec\<rparr>)))))"

definition Orchestrator_Apply :: "env \<Rightarrow> string \<Rightarrow> ApplyResult act" where
  "Orchestrator_Apply E idOrRef = inTx E (apply_body E idOrRef)"

section \<open>Undo\<close>

definition undo_body :: "env \<Rightarrow> string \<Rightarrow> ApplyResult act" where
  "undo_body E idOrRef =
     ebind (prepareApply E idOrRef) (\<lambda>ac.
     ebind (in_store (applyState (ac_events ac))) (\<lambda>(applied, undone).
     case applied of
       None \<Rightarrow> err (WMessage ''not applied; there is nothing to undo'')
     | Some a \<Rightarrow>
         if ac_into ac \<noteq> ar_Into a then err (WMessage ''another branch is checked out'')
         else ebind (Revert E (ac_repo ac) (ar_Commit a) (if ar_Reapplied a then 0 else 1)) (\<lambda>c.
           eseq (record_event E (t_ID (ac_task ac)) TypeTaskApplyUndone
                   (undo_payload \<lparr>ur_Into = ac_into ac, ur_Commit = c, ur_Undid = ar_Commit a\<rparr>))
             (ok \<lparr>al_Task = ac_task ac, al_Into = ac_into ac, al_Branch = w_Branch (ac_wt ac),
                  al_Commit = c, al_Reapplied = False\<rparr>))))"

definition Undo :: "env \<Rightarrow> string \<Rightarrow> ApplyResult act" where
  "Undo E idOrRef = inTx E (undo_body E idOrRef)"

section \<open>Work that landed by hand\<close>

text \<open>Every question may fail, and then the state is left as it was.\<close>

definition ResolveApply :: "env \<Rightarrow> Task \<Rightarrow> Apply \<Rightarrow> Apply act" where
  "ResolveApply E t given =
     (if t_Status t \<noteq> StatusSucceeded \<or> ay_State given \<noteq> ApplyNever then ok given
      else catch
        (ebind (query E (LatestAttempt (t_ID t))) (\<lambda>attempt.
         ebind (query E (GetWorktreeByAttempt (a_ID attempt))) (\<lambda>wt.
         if w_HeadCommit wt = [] \<or> w_HeadCommit wt = w_BaseCommit wt then ok given
         else ebind (query E (GetProject (t_ProjectID t))) (\<lambda>project.
         if p_DefaultBranch project = [] then ok given
         else ebind (OpenRepository E (p_RepoPath project)) (\<lambda>repo.
         ebind (Landed E repo (p_DefaultBranch project) (w_BaseCommit wt) (w_HeadCommit wt)) (\<lambda>landed.
         ok (if landed then never_applied\<lparr>ay_State := ApplyLanded, ay_Into := p_DefaultBranch project\<rparr> else given)))))))
        (\<lambda>r. case r of Inl _ \<Rightarrow> ok given | Inr a \<Rightarrow> ok a))"

end
