(* ===== verification/CommandEffects.thy ===== *)
theory CommandEffects
  imports Creation Applying
begin

text \<open>
  Every command acts on the database through the transactions of the system and on repositories
  through guarded git commands. \<open>lawful\<close> says so; like the relations of a run it is an instance of
  \<open>act_order\<close>, and the commands are followed combinator by combinator.
\<close>

section \<open>The relation\<close>

text \<open>The other processes commit transactions of the system and delete nothing meanwhile.\<close>

definition others_step :: "env \<Rightarrow> bool" where
  "others_step E = (\<forall>n d. reachable d \<longrightarrow> sys_step\<^sup>*\<^sup>* d (e_others E n d))"

definition lawful :: "env \<Rightarrow> world \<Rightarrow> world \<Rightarrow> bool" where
  "lawful E w w' =
     (calls_ok w w' \<and> (others_step E \<longrightarrow> reachable (w_db w) \<longrightarrow> sys_step\<^sup>*\<^sup>* (w_db w) (w_db w')))"

lemma reachable_steps: "sys_step\<^sup>*\<^sup>* d e \<Longrightarrow> reachable d \<Longrightarrow> reachable e"
  by (induction rule: rtranclp_induct) (auto intro: reachable.system)

lemma lawful_refl: "lawful E w w"
  by (simp add: lawful_def calls_ok_same)

lemma lawful_trans: "lawful E u v \<Longrightarrow> lawful E v w \<Longrightarrow> lawful E u w"
  unfolding lawful_def using calls_ok_trans reachable_steps by (blast intro: rtranclp_trans)

interpretation lawful: act_order "lawful E" for E
  by unfold_locales (auto intro: lawful_refl lawful_trans)

lemma lawfulD: "state_io_rel (lawful E) m \<Longrightarrow> run_state m w = (r, w') \<Longrightarrow> lawful E w w'"
  by blast

lemma lawful_reachable:
  "lawful E w w' \<Longrightarrow> others_step E \<Longrightarrow> reachable (w_db w) \<Longrightarrow> reachable (w_db w')"
  by (auto simp: lawful_def intro: reachable_steps)

lemma lawful_steps:
  "lawful E w w' \<Longrightarrow> others_step E \<Longrightarrow> reachable (w_db w) \<Longrightarrow> sys_step\<^sup>*\<^sup>* (w_db w) (w_db w')"
  by (simp add: lawful_def)

section \<open>The rules\<close>

lemma git_only_lawful: "git_only w w' \<Longrightarrow> lawful E w w'"
  by (auto simp: lawful_def git_only_def calls_ok_def)

lemma lawful_git: "state_io_rel git_only m \<Longrightarrow> state_io_rel (lawful E) m"
  by (auto simp: state_io_rel_def intro: git_only_lawful)

lemma lawful_turn: "state_io_rel (lawful E) (turn E)"
  by (rule state_io_relI) (auto simp: run_turn lawful_def calls_ok_same others_step_def)

lemma lawful_in_db:
  assumes "\<And>d x e. m d = Inr (x, e) \<Longrightarrow> sys_step\<^sup>*\<^sup>* d e"
  shows "state_io_rel (lawful E) (in_db m)"
  using assms by (intro state_io_relI) (auto simp: run_in_db lawful_def calls_ok_same)

lemma lawful_stmt:
  "(\<And>d x e. m d = Inr (x, e) \<Longrightarrow> sys_step\<^sup>*\<^sup>* d e) \<Longrightarrow> state_io_rel (lawful E) (stmt E m)"
  unfolding stmt_def by (intro lawful.moves_actions lawful_turn lawful_in_db) auto

lemma quiet_steps: "quiet d e \<Longrightarrow> sys_step\<^sup>*\<^sup>* d e"
  by (simp add: sys_step.quiet_step r_into_rtranclp)

lemma lawful_query: "state_io_rel (lawful E) (query E q)"
  unfolding query_def by (rule lawful_stmt) (auto simp: tx_read_Inr_iff quiet_refl)

lemma lawful_inTx:
  assumes body: "state_io_rel inside body"
    and commits: "\<And>w x w'. run_state body w = (Inr x, w') \<Longrightarrow> sys_step\<^sup>*\<^sup>* (w_db w) (w_db w')"
  shows "state_io_rel (lawful E) (inTx E body)"
proof -
  have "state_io_rel (lawful E) (ebind (reads w_db) (\<lambda>before. catch body (commit_tx c before)))" for c
  proof (rule state_io_relI)
    fix r w w' assume "run_state (ebind (reads w_db) (\<lambda>before. catch body (commit_tx c before))) w = (r, w')"
    then obtain q u where b: "run_state body w = (q, u)" and k: "run_state (commit_tx c (w_db w) q) u = (r, w')"
      by (auto simp: run_ebind run_reads run_catch)
    have "inside w u" using body b by blast
    moreover have "inside u w'" using commit_inside k by blast
    ultimately have "calls_ok w u" "calls_ok u w'" by (simp_all add: inside_def)
    moreover have "w_db w' = w_db w \<or> (\<exists>x. q = Inr x \<and> w_db w' = w_db u)"
      using k by (cases q; cases c) (auto simp: commit_tx_def run_eseq run_assign run_err run_ok)
    ultimately show "lawful E w w'" using commits b by (auto simp: lawful_def intro: calls_ok_trans)
  qed
  then show ?thesis unfolding inTx_def
    by (intro lawful.moves_ebind [OF lawful_turn] lawful.moves_if lawful.moves_err)
qed

text \<open>A transaction that is one function on the database, and reads besides.\<close>

lemma inside_git_tick: "state_io_rel inside tick" "state_io_rel inside (in_db m)"
  by (rule inside_tick inside_in_db)+

lemma lawful_one_tx:
  assumes "\<And>n d x e. f n d = Inr (x, e) \<Longrightarrow> sys_step\<^sup>*\<^sup>* d e"
  shows "state_io_rel (lawful E) (inTx E (ebind tick (\<lambda>n. in_db (f n))))"
  by (intro lawful_inTx inside.moves_actions inside_git_tick) (auto simp: run_ebind_Inr run_tick run_in_db_Inr dest: assms)

lemmas lawful_asks = git_only_basics [THEN lawful_git] git_only_operations [THEN lawful_git]

lemmas lawful_rules = lawful.moves_actions lawful_asks lawful_query

lemma lawful_best_effort: "state_io_rel (lawful E) m \<Longrightarrow> state_io_rel (lawful E) (best_effort m)"
  unfolding best_effort_def by (intro lawful.moves_actions)

section \<open>Cancel, Recover, Approve\<close>

lemma cancel_steps: "cancel_tx i cur reason ev d = Inr (owner, e) \<Longrightarrow> sys_step\<^sup>*\<^sup>* d e"
  by (blast intro: r_into_rtranclp sys_step.cancel_task)

lemma lawful_cancel_transaction: "state_io_rel (lawful E) (cancel_transaction E t reason)"
  unfolding cancel_transaction_def by (rule lawful_one_tx) (rule cancel_steps)

lemma lawful_cancel_attempt:
  "(\<And>e. state_io_rel (lawful E) (again e)) \<Longrightarrow> state_io_rel (lawful E) (cancel_attempt E r reason again)"
  unfolding cancel_attempt_def by (intro lawful_rules lawful_cancel_transaction)

lemma lawful_cancel_loop: "state_io_rel (lawful E) (cancel_loop E r reason k)"
proof (induction k)
  case 0
  then show ?case by (simp, intro lawful_cancel_attempt lawful_rules)
next
  case (Suc k)
  then show ?case by (simp, intro lawful_cancel_attempt lawful_rules)
qed

lemma lawful_wait_loop: "state_io_rel (lawful E) (wait_loop E M running start stop fuel)"
  by (induction fuel) (auto intro!: lawful_rules)

lemma lawful_wait: "state_io_rel (lawful E) (waitForRunner E M fuel i owner)"
  unfolding waitForRunner_def Let_def by (intro lawful_rules lawful_wait_loop)

lemma lawful_note: "state_io_rel (lawful E) (note_stop E i owner stop)"
  unfolding note_stop_def
  by (intro lawful_rules lawful_stmt) (auto intro!: r_into_rtranclp intro: sys_step.remark)

lemma lawful_Cancel: "state_io_rel (lawful E) (Cancel E M fuel r reason)"
  unfolding Cancel_def Let_def
  by (intro lawful_rules lawful_cancel_loop lawful_wait lawful_best_effort lawful_note)

lemma lawful_recover_each: "state_io_rel (lawful E) (recover_each E M fuel dry done ss)"
  by (induction ss arbitrary: "done") (auto simp: Let_def intro!: lawful_rules lawful_Cancel)

lemma lawful_Recover: "state_io_rel (lawful E) (Recover E M fuel dry)"
  unfolding Recover_def by (intro lawful_rules lawful_recover_each)

lemma lawful_Approve: "state_io_rel (lawful E) (Approve E r granted by_whom reason via)"
  unfolding Approve_def
  by (intro lawful_rules lawful_one_tx) (auto intro: r_into_rtranclp sys_step.approve_task)

section \<open>CreateTask\<close>

lemma ensure_quiet: "EnsureProject newid name path branch mode d = Inr (p, e) \<Longrightarrow> quiet d e"
  by (auto simp: EnsureProject_def Let_def quiet_def list_all2_id same_attempt_refl split: if_splits option.splits)

lemma built_pending: "New newid now input dflt = Inr t \<Longrightarrow> t_Status (pin_model E B t) = StatusPending"
  by (auto simp: New_def pin_model_def Let_def split: if_splits)

lemma lawful_missing: "state_io_rel (lawful E) (missing_of E repo base ps)"
  by (induction ps) (auto intro!: lawful_rules)

lemma lawful_missing_runners: "state_io_rel (lawful E) (missing_runners E repo base i steps)"
  by (induction steps arbitrary: i) (auto intro!: lawful_rules lawful_missing)

lemma lawful_lockfile: "state_io_rel (lawful E) (first_lockfile E repo base ls)"
  by (induction ls) (auto intro!: lawful_rules)

lemma lawful_store_task:
  "t_Status built = StatusPending \<Longrightarrow> state_io_rel (lawful E) (store_task E repo warnings built)"
  unfolding store_task_def by (rule lawful_one_tx) (blast intro: r_into_rtranclp sys_step.create_task)

lemma lawful_parts:
  "state_io_rel (lawful E) (check_input E B input)" "state_io_rel (lawful E) (find_project E input repo)"
  "state_io_rel (lawful E) (chosen_mode input project)"
  "state_io_rel (lawful E) (refuse_gitlinks E input mode repo base)"
  "state_io_rel (lawful E) (refuseMissingRunners E repo base steps)"
  "state_io_rel (lawful E) (nodeInstallWarnings E repo base steps setupSteps)"
  unfolding check_input_def find_project_def chosen_mode_def refuse_gitlinks_def refuseMissingRunners_def
    nodeInstallWarnings_def validate_agent_def Let_def
  by (intro lawful_rules lawful_missing_runners lawful_lockfile lawful_stmt quiet_steps ensure_quiet; assumption)+

lemma lawful_CreateTask: "state_io_rel (lawful E) (Orchestrator_CreateTask E B input)"
  unfolding Orchestrator_CreateTask_def Let_def
  by (intro lawful_rules lawful_parts lawful_store_task) (rule built_pending)

section \<open>Apply and Undo\<close>

lemma inside_git_basics: "state_io_rel inside (read_db q)" "state_io_rel inside (record_event E i ty pay)" "state_io_rel inside (in_store r)"
  unfolding read_db_def record_event_def in_store_def by (intro inside.moves_actions inside_git_tick)+

lemmas inside_rules = inside.moves_actions inside_git_basics inside_in_db
  git_only_operations [THEN inside_git] git_only_basics [THEN inside_git]

lemma inside_prepare: "state_io_rel inside (prepareApply E r)"
  unfolding prepareApply_def by (intro inside_rules)

lemma inside_apply: "state_io_rel inside (apply_body E r)" "state_io_rel inside (undo_body E r)"
  unfolding apply_body_def undo_body_def apply_git_def Let_def by (intro inside_rules inside_prepare)+

text \<open>Until the event is recorded the database stays as it is.\<close>

definition db_same :: "world \<Rightarrow> world \<Rightarrow> bool" where
  "db_same w w' = (w_db w' = w_db w)"

interpretation db_same: act_order db_same
  by unfold_locales (auto simp: db_same_def)

lemma db_same_git: "state_io_rel git_only m \<Longrightarrow> state_io_rel db_same m"
  by (auto simp: state_io_rel_def db_same_def intro: git_only_keeps(1))

lemma db_same_reads: "state_io_rel db_same (read_db q)" "state_io_rel db_same (in_store r)"
  "state_io_rel db_same (in_db (LockTask s i))"
  unfolding in_store_def
  by (intro db_same.moves_actions state_io_relI; auto simp: read_db_def run_in_db db_same_def tx_read_Inr_iff LockTask_def split: if_splits)+

lemmas db_same_rules = db_same.moves_actions db_same_reads
  git_only_operations [THEN db_same_git] git_only_basics [THEN db_same_git]

lemma db_same_prepare: "state_io_rel db_same (prepareApply E r)" "state_io_rel db_same (apply_git E ac undone)"
  unfolding prepareApply_def apply_git_def Let_def by (intro db_same_rules)+

end
