(* ===== verification/TextLemmas.thy ===== *)
theory TextLemmas
  imports GitOps
begin

text \<open>
  Lemmas on the text the program writes and reads back: prefixes evaluated letter by letter, splitting
  and joining, the white space around a line, and decimal numbers.
\<close>

lemma has_prefix_simps:
  "has_prefix s [] = True" "has_prefix [] (d # p) = False" "has_prefix (c # s) (d # p) = (c = d \<and> has_prefix s p)"
  by (auto simp: has_prefix_def)

lemma has_prefix_append: "has_prefix (p @ s) p" "trim_prefix (p @ s) p = s"
  by (simp_all add: has_prefix_def trim_prefix_def)

lemma has_prefix_iff: "has_prefix s p \<longleftrightarrow> (\<exists>t. s = p @ t)"
  unfolding has_prefix_def by (metis append_take_drop_id append_eq_conv_conj)

lemma has_prefix_trans: "has_prefix s p \<Longrightarrow> has_prefix p q \<Longrightarrow> has_prefix s q"
  by (auto simp: has_prefix_iff)

section \<open>Splitting\<close>

lemma split_on_apart: "c \<notin> set s \<Longrightarrow> split_on c s = [s]"
  by (induction s) auto

lemma split_on_append: "split_on c (s @ c # t) = split_on c s @ split_on c t"
  by (induction s) (auto split: list.splits simp: split_on_not_Nil)

lemma join_split_on: "join_with [c] (split_on c s) = s"
proof (induction s)
  case (Cons x s)
  show ?case
  proof (cases "split_on c s")
    case (Cons f fs)
    then show ?thesis using \<open>join_with [c] (split_on c s) = s\<close> by (cases fs) auto
  qed (simp add: split_on_not_Nil)
qed simp

section \<open>Decimal numbers\<close>

lemma digit_char_digit: "d < 10 \<Longrightarrow> is_digit (digit_char d) \<and> of_char (digit_char d) = (48 + d :: nat)"
  by (simp add: is_digit_def digit_char_def less_eq_char_def)

lemma nat_dec_digits: "list_all is_digit (nat_dec n)"
proof (induction n rule: nat_dec.induct)
  case (1 n)
  then show ?case by (subst nat_dec.simps) (simp add: digit_char_digit)
qed

lemma dec_value_append: "dec_value acc (s @ t) = dec_value (dec_value acc s) t"
  by (induction s arbitrary: acc) auto

lemma dec_value_nat_dec: "dec_value 0 (nat_dec n) = n"
proof (induction n rule: nat_dec.induct)
  case (1 n)
  then show ?case by (subst nat_dec.simps) (simp add: dec_value_append digit_char_digit)
qed

lemma atoi_nat_dec:
  assumes "n < 2 ^ 63"
  shows "atoi (nat_dec n) = Some (int n)"
proof -
  have d: "list_all is_digit (nat_dec n)" by (rule nat_dec_digits)
  have "nat_dec n \<noteq> []" by (subst nat_dec.simps) simp
  then obtain c r where cr: "nat_dec n = c # r" by (cases "nat_dec n") auto
  with d have "is_digit c" by simp
  then have "c \<noteq> CHR ''-''" "c \<noteq> CHR ''+''" by (auto simp: is_digit_def)
  then have parts: "(case nat_dec n of [] \<Rightarrow> (False, [])
       | c # r \<Rightarrow> if c = CHR ''-'' then (True, r) else if c = CHR ''+'' then (False, r) else (False, nat_dec n)) = (False, nat_dec n)"
    using cr by simp
  have "int n < 2 ^ 63" using assms by (metis of_nat_less_iff of_nat_numeral of_nat_power)
  then show ?thesis unfolding atoi_def Let_def parts
    using d \<open>nat_dec n \<noteq> []\<close> dec_value_nat_dec by simp
qed

end
