(* ===== verification/CommandGuarantees.thy ===== *)
theory CommandGuarantees
  imports CommandEffects TextLemmas
begin

text \<open>
  What the commands promise: any sequence of them keeps to the system's transactions, a cancel that
  returns ended the task, the wait for its runner ends, a lease owner is read as it was written, and
  what \<open>Apply\<close> did is what the history says.
\<close>

section \<open>A session of commands\<close>

datatype command =
    CmdCreate CreateTaskInput | CmdApprove string bool string string string | CmdCancel string string
  | CmdRecover bool | CmdApply string | CmdUndo string | CmdResolve Task Apply

definition discard :: "'a act \<Rightarrow> unit act" where
  "discard m = catch m (\<lambda>_. ok ())"

fun perform :: "env \<Rightarrow> machine \<Rightarrow> backend \<Rightarrow> nat \<Rightarrow> command \<Rightarrow> unit act" where
  "perform E M B fuel (CmdCreate input) = discard (Orchestrator_CreateTask E B input)"
| "perform E M B fuel (CmdApprove r granted decidedBy reason via) = discard (Approve E r granted decidedBy reason via)"
| "perform E M B fuel (CmdCancel r reason) = discard (Cancel E M fuel r reason)"
| "perform E M B fuel (CmdRecover dryRun) = discard (Recover E M fuel dryRun)"
| "perform E M B fuel (CmdApply r) = discard (Orchestrator_Apply E r)"
| "perform E M B fuel (CmdUndo r) = discard (Undo E r)"
| "perform E M B fuel (CmdResolve t a) = discard (ResolveApply E t a)"

primrec perform_all :: "env \<Rightarrow> machine \<Rightarrow> backend \<Rightarrow> nat \<Rightarrow> command list \<Rightarrow> unit act" where
  "perform_all E M B fuel [] = ok ()"
| "perform_all E M B fuel (c # cs) = eseq (perform E M B fuel c) (perform_all E M B fuel cs)"

lemma db_same_then_event:
  assumes "run_state (apply_body E r) w = (Inr out, w')"
  shows "\<exists>st rec. appendEvent st (t_ID (al_Task out)) None TypeTaskApplied (w_db w) = Inr ((), w_db w')
    \<and> snd (snd st) = apply_payload rec \<and> ar_Into rec = al_Into out \<and> ar_Commit rec = al_Commit out
    \<and> t_Status (al_Task out) = StatusSucceeded"
proof -
  obtain ac u st1 w1 before w2 rec w3 where p: "run_state (prepareApply E r) w = (Inr ac, u)"
    and a: "run_state (in_store (applyState (ac_events ac))) u = (Inr st1, w1)"
    and b: "run_state (ResolveCommit E (ac_repo ac) ''HEAD'') w1 = (Inr before, w2)"
    and g: "run_state (apply_git E ac (snd st1)) w2 = (Inr rec, w3)"
    and e: "run_state (record_event E (t_ID (ac_task ac)) TypeTaskApplied (apply_payload rec)) w3 = (Inr (), w')"
    and out: "out = \<lparr>al_Task = ac_task ac, al_Into = ac_into ac, al_Branch = w_Branch (ac_wt ac),
            al_Commit = ar_Commit rec, al_Reapplied = ar_Reapplied rec\<rparr>"
    using assms by (auto simp: apply_body_def run_ebind_Inr run_eseq_Inr run_ok run_err split: if_splits prod.splits)
  have "db_same w u" using db_same_prepare(1) p by blast
  moreover have "db_same u w1" using db_same_reads(2) a by blast
  moreover have "db_same w1 w2" using git_only_repository(3) [THEN db_same_git] b by blast
  moreover have "db_same w2 w3" using db_same_prepare(2) g by blast
  ultimately have same: "w_db w3 = w_db w" by (simp add: db_same_def)
  have "t_Status (ac_task ac) = StatusSucceeded"
    using p by (auto simp: prepareApply_def run_ebind_Inr run_eseq_Inr run_ok run_err split: if_splits)
  moreover have "ar_Into rec = ac_into ac"
    using g by (auto simp: apply_git_def Let_def run_ebind_Inr run_ok split: option.splits if_splits)
  moreover have "\<exists>st. appendEvent st (t_ID (ac_task ac)) None TypeTaskApplied (w_db w3) = Inr ((), w_db w')
      \<and> snd (snd st) = apply_payload rec"
    using e by (fastforce simp: record_event_def run_ebind_Inr run_tick run_in_db_Inr)
  ultimately show ?thesis using out same by auto
qed

lemma lawful_apply: "state_io_rel (lawful E) (Orchestrator_Apply E r)"
  unfolding Orchestrator_Apply_def
proof (rule lawful_inTx [OF inside_apply(1)])
  fix w x w' assume "run_state (apply_body E r) w = (Inr x, w')"
  from db_same_then_event [OF this] show "sys_step\<^sup>*\<^sup>* (w_db w) (w_db w')"
    by (auto intro!: r_into_rtranclp intro: sys_step.remark)
qed

lemma undo_then_event:
  assumes "run_state (undo_body E r) w = (Inr out, w')"
  shows "\<exists>st rec. appendEvent st (t_ID (al_Task out)) None TypeTaskApplyUndone (w_db w) = Inr ((), w_db w')
    \<and> snd (snd st) = undo_payload rec \<and> ur_Into rec = al_Into out \<and> ur_Commit rec = al_Commit out"
proof -
  obtain ac u applied undone w1 where p: "run_state (prepareApply E r) w = (Inr ac, u)"
    and s: "run_state (in_store (applyState (ac_events ac))) u = (Inr (applied, undone), w1)"
    and rest: "run_state (case applied of
       None \<Rightarrow> err (WMessage ''not applied; there is nothing to undo'')
     | Some a \<Rightarrow>
         if ac_into ac \<noteq> ar_Into a then err (WMessage ''another branch is checked out'')
         else ebind (Revert E (ac_repo ac) (ar_Commit a) (if ar_Reapplied a then 0 else 1)) (\<lambda>c.
           eseq (record_event E (t_ID (ac_task ac)) TypeTaskApplyUndone
                   (undo_payload \<lparr>ur_Into = ac_into ac, ur_Commit = c, ur_Undid = ar_Commit a\<rparr>))
             (ok \<lparr>al_Task = ac_task ac, al_Into = ac_into ac, al_Branch = w_Branch (ac_wt ac),
                  al_Commit = c, al_Reapplied = False\<rparr>))) w1 = (Inr out, w')"
    using assms unfolding undo_body_def run_ebind_Inr by auto
  then obtain a where "applied = Some a" by (cases applied) (auto simp: run_err)
  with rest obtain c w2 where g: "run_state (Revert E (ac_repo ac) (ar_Commit a) (if ar_Reapplied a then 0 else 1)) w1 = (Inr c, w2)"
    and e: "run_state (record_event E (t_ID (ac_task ac)) TypeTaskApplyUndone
        (undo_payload \<lparr>ur_Into = ac_into ac, ur_Commit = c, ur_Undid = ar_Commit a\<rparr>)) w2 = (Inr (), w')"
    and out: "out = \<lparr>al_Task = ac_task ac, al_Into = ac_into ac, al_Branch = w_Branch (ac_wt ac),
            al_Commit = c, al_Reapplied = False\<rparr>"
    by (auto simp: run_ebind_Inr run_eseq_Inr run_ok run_err simp del: One_nat_def split: if_split_asm)
  have "db_same w u" using db_same_prepare(1) p by blast
  moreover have "db_same u w1" using db_same_reads(2) s by blast
  moreover have "db_same w1 w2" by (rule state_io_relD [OF _ g], rule git_only_checkout(5) [THEN db_same_git])
  ultimately have same: "w_db w2 = w_db w" by (simp add: db_same_def)
  have "\<exists>st. appendEvent st (t_ID (ac_task ac)) None TypeTaskApplyUndone (w_db w2) = Inr ((), w_db w')
      \<and> snd (snd st) = undo_payload \<lparr>ur_Into = ac_into ac, ur_Commit = c, ur_Undid = ar_Commit a\<rparr>"
    using e by (fastforce simp: record_event_def run_ebind_Inr run_tick run_in_db_Inr)
  then show ?thesis using out same by fastforce
qed

lemma lawful_undo: "state_io_rel (lawful E) (Undo E r)"
  unfolding Undo_def
proof (rule lawful_inTx [OF inside_apply(2)])
  fix w x w' assume "run_state (undo_body E r) w = (Inr x, w')"
  from undo_then_event [OF this] show "sys_step\<^sup>*\<^sup>* (w_db w) (w_db w')"
    by (auto intro!: r_into_rtranclp intro: sys_step.remark)
qed

lemma lawful_resolve: "state_io_rel (lawful E) (ResolveApply E t a)"
  unfolding ResolveApply_def by (intro lawful_rules)

lemma lawful_perform: "state_io_rel (lawful E) (perform E M B fuel c)"
  by (cases c) (auto simp: discard_def intro!: lawful.moves_catch lawful.moves_ok lawful_CreateTask lawful_Approve
      lawful_Cancel lawful_Recover lawful_apply lawful_undo lawful_resolve)

lemma lawful_perform_all: "state_io_rel (lawful E) (perform_all E M B fuel cs)"
  by (induction cs) (auto intro!: lawful.moves_eseq lawful.moves_ok lawful_perform)

text \<open>
  C11: However a person mixes creating, approving, cancelling, recovering, applying, undoing and asking
  where work landed, and whatever git, the backend, the clock and the connection answer, the
  database moves only by transactions of the system, so that it stays one the system can reach, and
  every git command the commands issue has hooks and the file-system monitor switched off.
\<close>

theorem commands_are_system_steps:
  assumes "others_step E" "reachable (w_db w)" "run_state (perform_all E M B fuel cs) w = (r, w')"
  shows "sys_step\<^sup>*\<^sup>* (w_db w) (w_db w') \<and> reachable (w_db w')
    \<and> (\<exists>issued. w_git w' = w_git w @ issued \<and> list_all guarded issued)"
proof -
  have l: "lawful E w w'" by (rule lawfulD [OF lawful_perform_all assms(3)])
  from lawful_steps [OF this assms(1,2)] lawful_reachable [OF this assms(1,2)] l show ?thesis
    by (simp add: lawful_def calls_ok_def)
qed

section \<open>Cancelling\<close>

lemma cancel_transaction_Inr:
  "run_state (cancel_transaction E t reason) w = (Inr owner, v) \<Longrightarrow>
    \<exists>ev. cancel_tx (t_ID t) (t_Status t) reason ev (e_others E (w_tick w) (w_db w)) = Inr (owner, w_db v)"
  unfolding cancel_transaction_def by (fastforce dest!: run_inTx_Inr simp: run_ebind_Inr run_tick run_in_db_Inr)

definition just_cancelled :: "env \<Rightarrow> Task \<Rightarrow> world \<Rightarrow> bool" where
  "just_cancelled E t v =
     (\<exists>d cur reason ev owner. reachable d \<and> cancel_tx (t_ID t) cur reason ev d = Inr (owner, w_db v))"

lemma cancel_attempt_Inr:
  assumes run: "run_state (cancel_attempt E r reason again) w = (Inr (t, owner), v)"
    and ok: "others_step E" "reachable (w_db w)"
    and again: "\<And>e u. run_state (again e) u = (Inr (t, owner), v) \<Longrightarrow> reachable (w_db u) \<Longrightarrow> just_cancelled E t v"
  shows "just_cancelled E t v"
proof -
  obtain t0 u q x where q: "run_state (query E (ResolveTask (e_parse_uuid E) r)) w = (Inr t0, u)"
    and c: "run_state (cancel_transaction E t0 reason) u = (q, x)"
    and rest: "run_state (case q of Inr owner \<Rightarrow> ok (t0, owner) | Inl e \<Rightarrow> again e) x = (Inr (t, owner), v)"
    using run by (auto simp: cancel_attempt_def run_ebind_Inr run_err run_catch split: if_splits)
  have u: "reachable (w_db u)" by (rule lawful_reachable [OF lawfulD [OF lawful_query q] ok])
  then have x: "reachable (w_db x)" by (rule lawful_reachable [OF lawfulD [OF lawful_cancel_transaction c] ok(1)])
  show ?thesis
  proof (cases q)
    case (Inl e)
    with rest have "run_state (again e) x = (Inr (t, owner), v)" by simp
    then show ?thesis using x by (rule again)
  next
    case (Inr o')
    with rest have eq: "t0 = t" "o' = owner" "v = x" by (simp_all add: run_ok)
    have "reachable (e_others E (w_tick u) (w_db u))" using ok(1) u reachable_steps by (auto simp: others_step_def)
    with cancel_transaction_Inr [OF c [unfolded Inr]] show ?thesis unfolding just_cancelled_def eq by blast
  qed
qed

lemma cancel_loop_Inr:
  assumes "run_state (cancel_loop E r reason k) w = (Inr (t, owner), v)" "others_step E" "reachable (w_db w)"
  shows "just_cancelled E t v"
  using assms
proof (induction k arbitrary: w)
  case 0
  then show ?case by (auto simp: run_err intro: cancel_attempt_Inr)
next
  case (Suc k)
  show ?case
    by (rule cancel_attempt_Inr [OF Suc.prems(1) [simplified] Suc.prems(2,3)])
      (auto simp: run_err split: if_splits intro: Suc.IH Suc.prems)
qed

lemma Cancel_Inr:
  assumes "run_state (Cancel E M fuel r reason) w = (Inr (out, stop), w')" "others_step E" "reachable (w_db w)"
  shows "\<exists>t v. o_Task out = t\<lparr>t_Status := StatusCancelled\<rparr> \<and> just_cancelled E t v \<and> lawful E v w'"
proof -
  obtain t owner v where c: "run_state (cancel_loop E r reason 2) w = (Inr (t, owner), v)"
    and rest: "run_state (let out = task_outcome (t\<lparr>t_Status := StatusCancelled\<rparr>)
       in if owner = [] \<or> m_cancelWait M \<le> 0 then ok (out, None)
          else ebind (waitForRunner E M fuel (t_ID t) owner) (\<lambda>stop.
            eseq (best_effort (note_stop E (t_ID t) owner stop)) (ok (out, Some stop)))) v = (Inr (out, stop), w')"
    using assms(1) by (auto simp: Cancel_def run_ebind_Inr)
  have "lawful E v w'"
    by (rule lawfulD [OF _ rest]) (auto simp: Let_def intro!: lawful_rules lawful_wait lawful_best_effort lawful_note)
  moreover have "o_Task out = t\<lparr>t_Status := StatusCancelled\<rparr>"
    using rest by (auto simp: Let_def run_ok run_ebind_Inr run_eseq_Inr task_outcome_def split: if_splits)
  ultimately show ?thesis using cancel_loop_Inr [OF c assms(2,3)] by blast
qed

lemma ended_is_closed:
  assumes "reachable d" "t \<in> set (db_tasks d)" "\<not> Active (t_Status t)"
  shows "\<forall>a \<in> set (attempts_of d (t_ID t)). a_Status a \<noteq> AttemptRunning"
proof -
  have ok: "attempts_ok (t_Status t) (map a_Status (attempts_of d (t_ID t)))"
    using reachable_task_ok [OF assms(1,2)] by (simp add: task_ok_def abs_task_def)
  show ?thesis
  proof (cases "attempts_of d (t_ID t)" rule: rev_cases)
    case (snoc as a)
    with ok assms(3) show ?thesis by (auto simp: attempts_ok_snoc list_all_iff)
  qed simp
qed

text \<open>
  C12: A cancel that returns ended the task, whoever else changes it meanwhile: at the end its row is
  CANCELLED and none of its attempts is open, also after the wait for the runner.
\<close>

theorem cancel_ends_the_task:
  assumes "others_step E" "reachable (w_db w)"
    and "run_state (Cancel E M fuel idOrRef reason) w = (Inr (out, stop), w')"
  shows "t_Status (o_Task out) = StatusCancelled
    \<and> (\<exists>t \<in> set (db_tasks (w_db w')). t_ID t = t_ID (o_Task out) \<and> t_Status t = StatusCancelled)
    \<and> (\<forall>a \<in> set (attempts_of (w_db w') (t_ID (o_Task out))). a_Status a \<noteq> AttemptRunning)"
proof -
  obtain t v d cur why ev owner where out: "o_Task out = t\<lparr>t_Status := StatusCancelled\<rparr>" and l: "lawful E v w'"
    and c: "reachable d" "cancel_tx (t_ID t) cur why ev d = Inr (owner, w_db v)"
    using Cancel_Inr [OF assms(3,1,2)] by (auto simp: just_cancelled_def)
  have v: "reachable (w_db v)" using c by (blast intro: reachable.system sys_step.cancel_task)
  obtain row where row: "row \<in> set (db_tasks (w_db v))" "t_ID row = t_ID t" "t_Status row = StatusCancelled"
    using cancel_status [OF c(2) reachable_ok [OF c(1)]] by blast
  from steps_keep_cancelled [OF lawful_steps [OF l assms(1) v] reachable_ok [OF v] row(1)] row
  obtain u where u: "u \<in> set (db_tasks (w_db w'))" "t_ID u = t_ID t" "t_Status u = StatusCancelled" by auto
  have "\<forall>a \<in> set (attempts_of (w_db w') (t_ID u)). a_Status a \<noteq> AttemptRunning"
    using u(3) by (intro ended_is_closed [OF lawful_reachable [OF l assms(1) v] u(1)]) simp
  with out u show ?thesis by auto
qed

section \<open>The runner\<close>

text \<open>
  Sleeping the poll interval between two rounds, three questions apart, takes at least that long, and
  the clock does not run backwards.
\<close>

definition paced :: "machine \<Rightarrow> bool" where
  "paced M =
     (\<forall>n. m_clock M n \<le> m_clock M (Suc n) \<and> m_clock M n + runnerPollInterval \<le> m_clock M (n + 3))"

definition wait_verdict :: "env \<Rightarrow> machine \<Rightarrow> (nat \<Rightarrow> bool) \<Rightarrow> RunnerStop \<Rightarrow> bool" where
  "wait_verdict E M running s =
     (if rs_Stopped s then \<exists>n. \<not> running n
      else m_cancelWait M \<le> rs_Waited s \<or> (\<exists>n. e_ctx E n \<noteq> CtxLive))"

lemma wait_loop_ends:
  assumes pace: "paced M"
  shows "start + k * runnerPollInterval \<le> m_clock M (w_tick w) \<Longrightarrow>
    m_cancelWait M \<le> (k + int fuel) * runnerPollInterval \<Longrightarrow> \<not> rs_Stopped stop \<Longrightarrow>
    \<exists>s w'. run_state (wait_loop E M running start stop (Suc fuel)) w = (Inr s, w') \<and> wait_verdict E M running s
      \<and> rs_Owner s = rs_Owner stop \<and> rs_PID s = rs_PID stop \<and> rs_Observed s = rs_Observed stop"
proof (induction fuel arbitrary: k w)
  case (0 k w)
  let ?n = "w_tick w"
  have c: "m_clock M ?n \<le> m_clock M (Suc ?n)" "m_clock M (Suc (Suc (Suc ?n))) \<ge> m_clock M (Suc ?n)"
    using pace unfolding paced_def by (meson order_trans)+
  then show ?case using 0
    by (auto simp: ev_ebind ev_basic wait_verdict_def intro: exI [of _ ?n])
next
  case (Suc fuel k w)
  let ?n = "w_tick w"
  have c: "m_clock M ?n \<le> m_clock M (Suc ?n)" "m_clock M (Suc (Suc (Suc ?n))) \<ge> m_clock M (Suc ?n)"
    "m_clock M ?n + runnerPollInterval \<le> m_clock M (?n + 3)"
    using pace unfolding paced_def by (meson order_trans)+
  show ?case
  proof (cases "running ?n \<and> m_clock M (Suc ?n) - start < m_cancelWait M \<and> e_ctx E (Suc (Suc ?n)) = CtxLive")
    case True
    let ?v = "w\<lparr>w_tick := Suc (Suc (Suc ?n))\<rparr>"
    have "start + (k + 1) * runnerPollInterval \<le> m_clock M (w_tick ?v)"
      using c(3) Suc.prems(1) by (simp add: algebra_simps eval_nat_numeral)
    from Suc.IH [OF this] Suc.prems True show ?thesis
      by (simp add: ev_ebind ev_basic algebra_simps del: wait_loop.simps(2)
          add: wait_loop.simps(2) [of E M running start stop "Suc fuel"])
  next
    case False
    then show ?thesis using Suc.prems(3) c
      by (auto simp: ev_ebind ev_basic wait_verdict_def not_less intro: exI [of _ ?n])
  qed
qed

text \<open>
  C39: A cancel's wait for the runner comes back: with a clock that moves on while it sleeps, as many
  rounds as poll intervals fit into the allowed wait, and one more, are enough. It reports
  the runner stopped only when it saw it gone, and still running only after the whole
  wait or at the end of its own context.
\<close>

theorem runner_wait_ends:
  assumes "paced M" and "m_cancelWait M \<le> int fuel * runnerPollInterval"
  shows "\<exists>s w'. run_state (waitForRunner E M (Suc fuel) i owner) w = (Inr s, w') \<and> rs_Owner s = owner
    \<and> (rs_Observed s \<longrightarrow> wait_verdict E M
          (\<lambda>n. if owner = e_owner E then m_local M n i else m_running M n (rs_PID s)) s)
    \<and> (\<not> rs_Observed s \<longrightarrow> \<not> rs_Stopped s \<and> (\<forall>host pid. parseLeaseOwner owner = Some (host, pid) \<longrightarrow> host \<noteq> m_host M (w_tick w)))"
proof (cases "\<exists>pid. parseLeaseOwner owner = Some (m_host M (w_tick w), pid)")
  case False
  then show ?thesis unfolding waitForRunner_def Let_def
    by (cases "parseLeaseOwner owner") (auto simp: ev_ebind ev_basic split: prod.splits)
next
  case True
  then obtain pid where p: "parseLeaseOwner owner = Some (m_host M (w_tick w), pid)" by blast
  let ?stop = "\<lparr>rs_Owner = owner, rs_PID = pid, rs_Observed = True, rs_Stopped = False, rs_Waited = 0\<rparr>"
  let ?run = "\<lambda>n. if owner = e_owner E then m_local M n i else m_running M n pid"
  let ?v = "w\<lparr>w_tick := Suc (Suc (w_tick w))\<rparr>"
  have "m_clock M (Suc (w_tick w)) + 0 * runnerPollInterval \<le> m_clock M (w_tick ?v)"
    using assms(1) by (simp add: paced_def)
  from wait_loop_ends [OF assms(1) this, of fuel ?stop E ?run] assms(2)
  obtain s w' where s: "run_state (wait_loop E M ?run (m_clock M (Suc (w_tick w))) ?stop (Suc fuel)) ?v = (Inr s, w')"
    "wait_verdict E M ?run s" "rs_Owner s = owner" "rs_PID s = pid" "rs_Observed s" by auto
  have "run_state (waitForRunner E M (Suc fuel) i owner) w = (Inr s, w')"
    using p s(1) by (simp add: waitForRunner_def Let_def ev_ebind ev_basic del: wait_loop.simps split del: if_split)
  moreover have "wait_verdict E M (\<lambda>n. if owner = e_owner E then m_local M n i else m_running M n (rs_PID s)) s"
    using s(2) unfolding s(4) .
  ultimately show ?thesis using s(3,5) by blast
qed

section \<open>Lease owners\<close>

text \<open>
  The lease owner a process writes names it: whatever its host is called, colons included, the
  parts read back are that host and process number.
\<close>

theorem lease_owner_roundtrip:
  assumes "colon \<notin> set uid" "0 < pid" "pid < 2 ^ 63"
  shows "parseLeaseOwner (processLeaseOwner hostname pid uid)
    = Some (case hostname of None \<Rightarrow> ''unknown-host'' | Some h \<Rightarrow> if h = [] then ''unknown-host'' else h, int pid)"
proof -
  let ?h = "case hostname of None \<Rightarrow> ''unknown-host'' | Some h \<Rightarrow> if h = [] then ''unknown-host'' else h"
  have plain: "colon \<notin> set (nat_dec pid)" using nat_dec_digits [of pid] by (auto simp: list_all_iff colon_def is_digit_def)
  have parts: "split_on colon (processLeaseOwner hostname pid uid) = split_on colon ?h @ [nat_dec pid, uid]"
    unfolding processLeaseOwner_def using plain assms(1) by (simp add: split_on_append split_on_apart)
  have "0 < length (split_on colon ?h)" using split_on_not_Nil by auto
  then show ?thesis unfolding parseLeaseOwner_def Let_def parts
    using atoi_nat_dec [OF assms(3)] assms(2) by (simp add: nth_append join_split_on)
qed

theorem lease_owner_roundtrip_witness:
  "parseLeaseOwner (processLeaseOwner (Some ''fe80::1'') 4711 ''0195-ab'') = Some (''fe80::1'', 4711)"
  using lease_owner_roundtrip [of "''0195-ab''" 4711 "Some ''fe80::1''"] by (simp add: colon_def)

end
