(* ===== verification/ApplyGuarantees.thy ===== *)
theory ApplyGuarantees
  imports CommandGuarantees RunWitness
begin

text \<open>
  The history of applying a task: what \<open>Apply\<close> and \<open>Undo\<close> did is what the store's query of the apply
  state answers, and where the state the commands read themselves differs from it. At the end the
  concrete inputs at which the guarantees of the commands hold.
\<close>

section \<open>The newest event\<close>

lemma insort_snoc: "f x \<le> f v \<Longrightarrow> insort_key f x (ys @ [v]) = insort_key f x ys @ [v]"
  by (induction ys) auto

lemma sort_key_snoc: "\<forall>x \<in> set xs. f x \<le> f v \<Longrightarrow> sort_key f (xs @ [v]) = sort_key f xs @ [v]"
  by (induction xs) (simp_all add: insort_snoc)

lemma appendEvent_row:
  assumes "appendEvent (newid, now, pay) i None ty d = Inr (u, e)"
  shows "i \<noteq> 0 \<and> (\<exists>v. db_events e = db_events d @ [v] \<and> e_TaskID v = i \<and> e_Type v = ty \<and> e_Payload v = pay
    \<and> e_CreatedAt v = now \<and> e_Seq v = db_seq d + 1)"
  using assms by (auto simp: appendEvent_def New_event_def AppendEvent_def tx_iffs tx_then_def tx_return_def Let_def
      split: if_splits sum.splits prod.splits)

lemma appended_is_newest:
  assumes ap: "appendEvent (newid, now, pay) i None ty d = Inr (u, e)" and wf: "well_formed d" and ty: "ty = TypeTaskApplied \<or> ty = TypeTaskApplyUndone"
  shows "Store_ApplyState i e = decodeApplyPayload ty pay now"
proof -
  obtain v where v: "db_events e = db_events d @ [v]" "e_TaskID v = i" "e_Type v = ty" "e_Payload v = pay"
    "e_CreatedAt v = now" "e_Seq v = db_seq d + 1" and i: "i \<noteq> 0" using appendEvent_row [OF ap] by blast
  have "\<forall>x \<in> set (filter (is_apply_event i) (db_events d)). e_Seq x \<le> e_Seq v"
    using wf v(6) by (auto simp: well_formed_def)
  from sort_key_snoc [OF this] have "newest_event (is_apply_event i) e = Some v"
    using v ty by (auto simp: newest_event_def is_apply_event_def)
  with v i show ?thesis by (simp add: Store_ApplyState_def)
qed

section \<open>Applying and undoing\<close>

text \<open>
  C13: An apply that returns is in the history as it happened: the task had succeeded, and the store's
  answer to where its result went is now the branch and the commit that apply reports.
\<close>

theorem apply_is_recorded:
  assumes "others_step E" "reachable (w_db w)" "run_state (Orchestrator_Apply E idOrRef) w = (Inr out, w')"
  shows "t_Status (al_Task out) = StatusSucceeded \<and> (\<exists>at. Store_ApplyState (t_ID (al_Task out)) (w_db w')
    = Inr \<lparr>ay_State = ApplyApplied, ay_Into = al_Into out, ay_Commit = al_Commit out, ay_Undid = [], ay_At = at\<rparr>)"
proof -
  let ?d = "e_others E (w_tick w) (w_db w)"
  have wf: "well_formed ?d"
    using assms(1,2) reachable_steps reachable_well_formed unfolding others_step_def by blast
  obtain newid now rec where ap: "appendEvent (newid, now, apply_payload rec) (t_ID (al_Task out)) None TypeTaskApplied ?d = Inr ((), w_db w')"
    and r: "ar_Into rec = al_Into out" "ar_Commit rec = al_Commit out" "t_Status (al_Task out) = StatusSucceeded"
    using db_same_then_event [OF run_inTx_Inr [OF assms(3) [unfolded Orchestrator_Apply_def]]] by auto
  from appended_is_newest [OF ap wf] r show ?thesis
    by (simp add: decodeApplyPayload_def string_member_def apply_payload_def)
qed

lemma undo_is_recorded:
  assumes "others_step E" "reachable (w_db w)" "run_state (Undo E idOrRef) w = (Inr out, w')"
  shows "\<exists>undid at. Store_ApplyState (t_ID (al_Task out)) (w_db w')
    = Inr \<lparr>ay_State = ApplyUndone, ay_Into = al_Into out, ay_Commit = al_Commit out, ay_Undid = undid, ay_At = at\<rparr>"
proof -
  let ?d = "e_others E (w_tick w) (w_db w)"
  have wf: "well_formed ?d"
    using assms(1,2) reachable_steps reachable_well_formed unfolding others_step_def by blast
  obtain newid now rec where ap: "appendEvent (newid, now, undo_payload rec) (t_ID (al_Task out)) None TypeTaskApplyUndone ?d = Inr ((), w_db w')"
    and r: "ur_Into rec = al_Into out" "ur_Commit rec = al_Commit out"
    using undo_then_event [OF run_inTx_Inr [OF assms(3) [unfolded Undo_def]]] by auto
  from appended_is_newest [OF ap wf] r show ?thesis
    by (simp add: decodeApplyPayload_def string_member_def undo_payload_def)
qed

section \<open>The state the commands read\<close>

definition task_events :: "uuid \<Rightarrow> db \<Rightarrow> Event list" where
  "task_events i d = sort_key e_Seq (filter (\<lambda>e. e_TaskID e = i) (db_events d))"

definition whole_log :: "uuid \<Rightarrow> EventFilter" where
  "whole_log i = \<lparr>ef_TaskID = i, ef_AfterSeq = 0, ef_Types = [], ef_Limit = 0\<rparr>"

lemma ListEvents_first_page:
  assumes "i \<noteq> 0" "\<forall>e \<in> set (db_events d). 0 < e_Seq e"
  shows "ListEvents (whole_log i) d = Inr (take 200 (task_events i d))"
proof -
  have "filter (\<lambda>e. e_TaskID e = i \<and> 0 < e_Seq e) (db_events d) = filter (\<lambda>e. e_TaskID e = i) (db_events d)"
    using assms(2) by (intro filter_cong) auto
  then show ?thesis using assms(1)
    by (simp add: ListEvents_def whole_log_def task_events_def event_limit_def DefaultEventLimit_def)
qed

lemma last_apply_none: "\<forall>e \<in> set es. e_Type e \<noteq> TypeTaskApplied \<and> e_Type e \<noteq> TypeTaskApplyUndone \<Longrightarrow> last_apply es = Inr (None, None)"
  by (induction es) (auto split: EventType.splits)

text \<open>
  \<open>Apply\<close> and \<open>Undo\<close> read the apply state from the first page of a task's events: when none of
  the first 200 is an apply or undo, they take the task for never applied, whatever the history says later.
\<close>

theorem late_apply_is_missed:
  assumes "i \<noteq> 0" "\<forall>e \<in> set (db_events d). 0 < e_Seq e"
    and "\<forall>e \<in> set (take 200 (task_events i d)). \<not> is_apply_event i e"
  shows "\<exists>es. ListEvents (whole_log i) d = Inr es \<and> applyState es = Inr (None, None)"
proof -
  have "set (take 200 (task_events i d)) \<subseteq> set (task_events i d)" by (rule set_take_subset)
  then have "\<forall>e \<in> set (take 200 (task_events i d)). e_TaskID e = i" by (auto simp: task_events_def)
  with assms(3) show ?thesis
    by (auto simp: ListEvents_first_page [OF assms(1,2)] applyState_def is_apply_event_def intro!: last_apply_none)
qed

text \<open>Both look for the last event of the two types.\<close>

definition applyish :: "Event \<Rightarrow> bool" where
  "applyish e = (e_Type e = TypeTaskApplied \<or> e_Type e = TypeTaskApplyUndone)"

lemma last_apply_find:
  "last_apply es = (case filter applyish es of
     [] \<Rightarrow> Inr (None, None)
   | e # _ \<Rightarrow> if e_Type e = TypeTaskApplied
       then (case decode_apply (e_Payload e) of Inl x \<Rightarrow> Inl x | Inr r \<Rightarrow> Inr (Some r, None))
       else (case decode_undo (e_Payload e) of Inl x \<Rightarrow> Inl x | Inr r \<Rightarrow> Inr (None, Some r)))"
  by (induction es) (auto simp: applyish_def split: EventType.splits)

lemma newest_apply:
  "newest_event (is_apply_event i) d = (case filter applyish (rev (task_events i d)) of [] \<Rightarrow> None | e # _ \<Rightarrow> Some e)"
proof -
  have "filter (is_apply_event i) (db_events d) = filter applyish (filter (\<lambda>e. e_TaskID e = i) (db_events d))"
    by (auto simp: is_apply_event_def applyish_def intro: filter_cong)
  then have "rev (sort_key e_Seq (filter (is_apply_event i) (db_events d))) = filter applyish (rev (task_events i d))"
    by (simp only: task_events_def rev_filter [symmetric] filter_sort)
  then show ?thesis by (simp add: newest_event_def)
qed

text \<open>What the store's answer says for the two records.\<close>

definition same_state :: "applyRecord option \<Rightarrow> undoRecord option \<Rightarrow> Apply \<Rightarrow> bool" where
  "same_state applied undone a =
     (case (applied, undone) of
        (Some r, None) \<Rightarrow> ay_State a = ApplyApplied \<and> ay_Into a = ar_Into r \<and> ay_Commit a = ar_Commit r
      | (None, Some u) \<Rightarrow> ay_State a = ApplyUndone \<and> ay_Into a = ur_Into u \<and> ay_Commit a = ur_Commit u \<and> ay_Undid a = ur_Undid u
      | (None, None) \<Rightarrow> a = never_applied
      | _ \<Rightarrow> False)"

lemma decode_agrees:
  "decode_apply pay = Inr r \<Longrightarrow> \<exists>a. decodeApplyPayload TypeTaskApplied pay at = Inr a \<and> same_state (Some r) None a"
  "decode_undo pay = Inr u \<Longrightarrow> \<exists>a. decodeApplyPayload TypeTaskApplyUndone pay at = Inr a \<and> same_state None (Some u) a"
  by (auto simp: decode_apply_def decode_undo_def decodeApplyPayload_def same_state_def split: sum.splits)

text \<open>
  While a task has at most 200 events, the state \<open>Apply\<close> and \<open>Undo\<close> go by is the one the store's
  own query of the newest apply event answers.
\<close>

theorem apply_state_agrees:
  assumes "i \<noteq> 0" "\<forall>e \<in> set (db_events d). 0 < e_Seq e" "length (task_events i d) \<le> 200"
    and es: "ListEvents (whole_log i) d = Inr es" and st: "applyState es = Inr (applied, undone)"
  shows "\<exists>a. Store_ApplyState i d = Inr a \<and> same_state applied undone a"
proof -
  have "es = task_events i d" using es assms(3) by (simp add: ListEvents_first_page [OF assms(1,2)])
  with st have l: "last_apply (rev (task_events i d)) = Inr (applied, undone)" by (simp add: applyState_def)
  show ?thesis
  proof (cases "filter applyish (rev (task_events i d))")
    case Nil
    with l assms(1) show ?thesis
      by (simp add: last_apply_find Store_ApplyState_def newest_apply same_state_def)
  next
    case (Cons e fs)
    then have "applyish e" by (metis filter_eq_ConsD)
    have "Store_ApplyState i d = decodeApplyPayload (e_Type e) (e_Payload e) (e_CreatedAt e)"
      using assms(1) Cons by (simp add: Store_ApplyState_def newest_apply)
    with l Cons \<open>applyish e\<close> decode_agrees show ?thesis
      by (auto simp: last_apply_find applyish_def split: if_splits sum.splits)
  qed
qed

section \<open>Concrete inputs\<close>

definition demo_machine :: machine where
  "demo_machine =
     \<lparr>m_host = (\<lambda>n. ''host''), m_running = (\<lambda>n pid. True), m_local = (\<lambda>n i. True),
      m_clock = (\<lambda>n. 50000000 * int n), m_cancelWait = 100000000, m_rfc3339 = (\<lambda>t. int_dec t)\<rparr>"

lemma alone_steps: "others_step (demo_env 0)"
  by (simp add: others_step_def demo_env_def)

definition returned :: "werr + 'a \<Rightarrow> bool" where
  "returned r = (case r of Inl e \<Rightarrow> False | Inr x \<Rightarrow> True)"

lemma returned_run: "returned (fst (run_state m w)) \<Longrightarrow> \<exists>x w'. run_state m w = (Inr x, w') \<and> fst (run_state m w) = Inr x \<and> snd (run_state m w) = w'"
  by (cases "run_state m w") (auto simp: returned_def split: sum.splits)

definition demo_backend :: backend where
  "demo_backend =
     \<lparr>b_name = ''opencode'', b_configured = ''opencode'', b_opencode_agent = ''build'', b_opencode_model = [],
      b_codex_model = [], b_validate = None\<rparr>"

definition demo_cancel :: "(Outcome \<times> RunnerStop option) act" where
  "demo_cancel = Cancel (demo_env 0) demo_machine 4 ''TASK-000001'' ''why''"

definition demo_start :: "db \<Rightarrow> world" where
  "demo_start d = new_run demo_task d 100 []"

lemma demo_start_db [simp]: "w_db (demo_start d) = d"
  by (simp add: demo_start_def new_run_def)

theorem cancel_ends_the_task_witness:
  "filter (\<lambda>a. a_Status a = AttemptRunning) (attempts_of (w_db (snd (run_state demo_cancel (demo_start demo8)))) 7) = []"
proof -
  have "returned (fst (run_state demo_cancel (demo_start demo8)))" by code_simp
  then obtain out stop w' where r: "run_state demo_cancel (demo_start demo8) = (Inr (out, stop), w')"
    using returned_run by fastforce
  have "t_ID (o_Task (fst (projr (fst (run_state demo_cancel (demo_start demo8)))))) = 7" by code_simp
  then have "t_ID (o_Task out) = 7" by (simp add: r)
  with cancel_ends_the_task [OF alone_steps _ r [unfolded demo_cancel_def]] reach8 r show ?thesis by (simp add: filter_empty_conv)
qed

theorem runner_wait_ends_witness:
  "\<exists>s w'. run_state (waitForRunner (demo_env 0) demo_machine 3 7 ''host:42:u'') (demo_start demo8) = (Inr s, w')"
proof -
  have p: "paced demo_machine" by (simp add: paced_def demo_machine_def runnerPollInterval_def algebra_simps)
  from runner_wait_ends [OF p, of 2 "demo_env 0" 7 "''host:42:u''" "demo_start demo8"] show ?thesis
    by (simp add: demo_machine_def runnerPollInterval_def numeral_3_eq_3) blast
qed

theorem commands_are_system_steps_witness:
  "reachable (w_db (snd (run_state
     (perform_all (demo_env 0) demo_machine demo_backend 4 [CmdCancel ''TASK-000001'' ''why'', CmdRecover False])
     (demo_start demo8))))"
  by (rule commands_are_system_steps [OF alone_steps _ prod.collapse [symmetric], THEN conjunct2, THEN conjunct1])
    (simp add: reach8)

text \<open>A delivered task, and git's answers to an apply of it.\<close>

definition demo_delivered :: db where
  "demo_delivered =
     demo9\<lparr>db_worktrees :=
       [\<lparr>w_ID = 30, w_AttemptID = 22, w_Path = ''/w/t'', w_Branch = ''aidev/TASK-000001'', w_BaseCommit = ''c0'',
         w_HeadCommit = ''c1'', w_AgentTree = [], w_Status = WorktreeActive, w_CreatedAt = 0, w_RemovedAt = None\<rparr>]\<rparr>"

lemma reach_delivered: "reachable demo_delivered"
proof (rule reachable.system [OF reach9], rule sys_step.quiet_step)
  show "quiet demo9 demo_delivered" by (simp add: quiet_def demo_delivered_def list_all2_id same_attempt_refl)
qed

definition answer :: "git_call \<Rightarrow> string" where
  "answer call =
     (if ''symbolic-ref'' \<in> set (gc_Args call) then ''main''
      else if ''--show-toplevel'' \<in> set (gc_Args call) then ''/r''
      else if ''--verify'' \<in> set (gc_Args call) then ''c0''
      else if ''rev-parse'' \<in> set (gc_Args call) then ''c2''
      else [])"

definition apply_env :: env where
  "apply_env = (demo_env 0)\<lparr>e_git := \<lambda>n call. Inr ((demo_git call)\<lparr>g_exit := Some 0, g_out := answer call\<rparr>)\<rparr>"

lemma alone_applying: "others_step apply_env"
  by (simp add: others_step_def apply_env_def demo_env_def)

definition demo_apply :: "(werr + ApplyResult) \<times> world" where
  "demo_apply = run_state (Orchestrator_Apply apply_env ''TASK-000001'') (demo_start demo_delivered)"

definition demo_applied :: db where
  "demo_applied = w_db (snd demo_apply)"

theorem apply_is_recorded_witness:
  "\<exists>at. Store_ApplyState 7 demo_applied
    = Inr \<lparr>ay_State = ApplyApplied, ay_Into = ''main'', ay_Commit = ''c2'', ay_Undid = [], ay_At = at\<rparr>"
proof -
  have "returned (fst demo_apply)" by code_simp
  then obtain out w' where r: "run_state (Orchestrator_Apply apply_env ''TASK-000001'') (demo_start demo_delivered) = (Inr out, w')"
    by (auto simp: demo_apply_def dest!: returned_run)
  have "(case fst demo_apply of Inl e \<Rightarrow> False | Inr out \<Rightarrow> t_ID (al_Task out) = 7 \<and> al_Into out = ''main'' \<and> al_Commit out = ''c2'')"
    by code_simp
  then have "t_ID (al_Task out) = 7" "al_Into out = ''main''" "al_Commit out = ''c2''" by (simp_all add: demo_apply_def r)
  with apply_is_recorded [OF alone_applying _ r] reach_delivered r show ?thesis
    by (simp add: demo_applied_def demo_apply_def)
qed

theorem apply_state_agrees_witness:
  "\<exists>a. Store_ApplyState 7 demo_applied = Inr a \<and> ay_State a = ApplyApplied \<and> ay_Commit a = ''c2''"
proof -
  have seq: "\<forall>e \<in> set (db_events demo_applied). 0 < e_Seq e" by code_simp
  have len: "length (task_events 7 demo_applied) \<le> 200" by code_simp
  have ls: "ListEvents (whole_log 7) demo_applied = Inr (task_events 7 demo_applied)"
    using ListEvents_first_page [OF _ seq, of 7] len by simp
  have st: "applyState (task_events 7 demo_applied) =
      Inr (Some \<lparr>ar_Into = ''main'', ar_Branch = ''aidev/TASK-000001'', ar_Commit = ''c2'', ar_Reapplied = False\<rparr>, None)"
    by code_simp
  from apply_state_agrees [OF _ seq len ls st] show ?thesis by (auto simp: same_state_def)
qed

text \<open>Two hundred progress events, and then the apply.\<close>

definition progress_event :: "nat \<Rightarrow> Event" where
  "progress_event k =
     \<lparr>e_ID = k, e_Seq = Suc k, e_TaskID = 7, e_AttemptID = None, e_Type = TypeAgentProgress, e_Payload = [], e_CreatedAt = 0\<rparr>"

definition late_event :: Event where
  "late_event =
     \<lparr>e_ID = 500, e_Seq = 201, e_TaskID = 7, e_AttemptID = None, e_Type = TypeTaskApplied,
      e_Payload = [(''into'', JStr ''main''), (''branch'', JStr ''b''), (''commit'', JStr ''c2'')], e_CreatedAt = 5\<rparr>"

definition late_db :: db where
  "late_db = demo_delivered\<lparr>db_events := map progress_event [0..<200] @ [late_event], db_seq := 201\<rparr>"

lemma late_events: "task_events 7 late_db = map progress_event [0..<200] @ [late_event]"
proof -
  let ?es = "map progress_event [0..<200] @ [late_event]"
  have "filter (\<lambda>e. e_TaskID e = 7) ?es = ?es" by (rule filter_True) (auto simp: progress_event_def late_event_def)
  moreover have "sorted (map e_Seq ?es)"
    by (auto simp: sorted_append sorted_map progress_event_def late_event_def sorted_wrt_upt intro: sorted_wrt_mono_rel [OF _ sorted_wrt_upt])
  ultimately show ?thesis by (simp add: task_events_def late_db_def sort_key_id_if_sorted)
qed

theorem late_apply_is_missed_witness:
  "(\<exists>es. ListEvents (whole_log 7) late_db = Inr es \<and> applyState es = Inr (None, None))
   \<and> Store_ApplyState 7 late_db
     = Inr \<lparr>ay_State = ApplyApplied, ay_Into = ''main'', ay_Commit = ''c2'', ay_Undid = [], ay_At = 5\<rparr>"
proof
  have seq: "\<forall>e \<in> set (db_events late_db). 0 < e_Seq e" by (auto simp: late_db_def progress_event_def late_event_def)
  have "take 200 (task_events 7 late_db) = map progress_event [0..<200]" unfolding late_events by simp
  then have "\<forall>e \<in> set (take 200 (task_events 7 late_db)). \<not> is_apply_event 7 e"
    by (auto simp: is_apply_event_def progress_event_def)
  from late_apply_is_missed [OF _ seq this] show "\<exists>es. ListEvents (whole_log 7) late_db = Inr es \<and> applyState es = Inr (None, None)" by simp
  have "filter applyish (rev (task_events 7 late_db)) = [late_event]"
    by (auto simp: late_events applyish_def progress_event_def late_event_def filter_empty_conv)
  then show "Store_ApplyState 7 late_db
     = Inr \<lparr>ay_State = ApplyApplied, ay_Into = ''main'', ay_Commit = ''c2'', ay_Undid = [], ay_At = 5\<rparr>"
    by (simp add: Store_ApplyState_def newest_apply) (simp add: late_event_def decodeApplyPayload_def string_member_def)
qed

section \<open>Recovery and a lease renewed meanwhile\<close>

text \<open>The owner renews its lease right after the pass has listed the task.\<close>

definition race_db :: db where
  "race_db = demo8\<lparr>db_now := 100\<rparr>"

definition race_env :: env where
  "race_env = (demo_env 0)\<lparr>e_others := \<lambda>n d. if n = 101 then (case RenewLease 22 ''host:1'' 30000000000 d of Inl e \<Rightarrow> d | Inr p \<Rightarrow> snd p) else d\<rparr>"

definition race :: "(werr + (RecoveredTask list \<times> werr option)) \<times> world" where
  "race = run_state (Recover race_env demo_machine 4 False) (demo_start race_db)"

text \<open>
  A recovery pass may cancel a run that is alive: it does not look at the lease again between
  listing the task and cancelling it. Here the owner renews in between, no lease is
  expired any more, and the task is cancelled all the same.
\<close>

theorem recovery_cancels_a_renewed_lease:
  "StuckLeases (e_others race_env 101 race_db) = Inr []
   \<and> map rt_Ref (fst (projr (fst race))) = [''TASK-000001'']
   \<and> map rt_Action (fst (projr (fst race))) = [Cancelled]
   \<and> map t_Status (db_tasks (w_db (snd race))) = [StatusCancelled]"
  by (intro conjI; code_simp)

end
