(* ===== verification/Transcript.thy ===== *)
theory Transcript
  imports GitOps
begin

text \<open>
  The event stream of OpenCode (\<open>internal/agent/opencode_events.go\<close>): newline-delimited JSON, read
  while the process writes it. Decoding JSON into the Go structures is the standard library's
  \<open>encoding/json\<close> and comes in as the record \<open>decoder\<close>; a part stays the raw text until the scanner
  asks for one of its shapes.
\<close>

section \<open>Events\<close>

record eventError =
  er_Name :: string
  er_DataMessage :: string
  er_DataRef :: string
  er_Type :: string
  er_Message :: string

record openCodeEvent =
  ev_Type :: string
  ev_SessionID :: string
  ev_Part :: string
  ev_Error :: "eventError option"

record openCodeToolPart =
  tp_Tool :: string
  tp_Status :: string
  tp_Error :: string
  tp_FilePath :: string
  tp_Path :: string
  tp_WorkDir :: string

record openCodeStepFinishPart =
  sf_Reason :: string
  sf_Input :: int
  sf_Output :: int
  sf_Reasoning :: int
  sf_CacheRead :: int
  sf_CacheWrite :: int
  sf_Cost :: int

definition no_tool :: openCodeToolPart where
  "no_tool = \<lparr>tp_Tool = [], tp_Status = [], tp_Error = [], tp_FilePath = [], tp_Path = [], tp_WorkDir = []\<rparr>"

definition location :: "openCodeToolPart \<Rightarrow> string" where
  "location p =
     (case find (\<lambda>c. trim_space c \<noteq> []) [tp_FilePath p, tp_Path p, tp_WorkDir p] of None \<Rightarrow> [] | Some c \<Rightarrow> c)"

text \<open>A tool part that does not decode is reported with what was decoded of it: the second component.\<close>

record decoder =
  d_event :: "string \<Rightarrow> openCodeEvent option"
  d_text :: "string \<Rightarrow> string option"
  d_tool :: "string \<Rightarrow> bool \<times> openCodeToolPart"
  d_step :: "string \<Rightarrow> openCodeStepFinishPart option"

section \<open>The transcript\<close>

record usage =
  us_Steps :: nat
  us_Input :: int
  us_Output :: int
  us_Reasoning :: int
  us_CacheRead :: int
  us_CacheWrite :: int

record transcript =
  ts_SessionID :: string
  ts_Summary :: string
  ts_FinishReason :: string
  ts_LastEvent :: string
  ts_ToolCalls :: nat
  ts_FailedTools :: nat
  ts_Usage :: usage
  ts_Cost :: int
  ts_Errors :: "string list"
  ts_UnknownEvents :: "(string \<times> nat) list"
  ts_ProviderNoRoute :: bool
  ts_Refusals :: nat
  ts_RefusedPath :: string
  ts_OversizedLines :: nat
  ts_Lines :: nat

definition empty_transcript :: transcript where
  "empty_transcript =
     \<lparr>ts_SessionID = [], ts_Summary = [], ts_FinishReason = [], ts_LastEvent = [], ts_ToolCalls = 0,
      ts_FailedTools = 0,
      ts_Usage = \<lparr>us_Steps = 0, us_Input = 0, us_Output = 0, us_Reasoning = 0, us_CacheRead = 0, us_CacheWrite = 0\<rparr>,
      ts_Cost = 0, ts_Errors = [], ts_UnknownEvents = [], ts_ProviderNoRoute = False, ts_Refusals = 0,
      ts_RefusedPath = [], ts_OversizedLines = 0, ts_Lines = 0\<rparr>"

fun count_up :: "string \<Rightarrow> (string \<times> nat) list \<Rightarrow> (string \<times> nat) list" where
  "count_up k [] = [(k, 1)]"
| "count_up k ((j, n) # m) = (if j = k then (j, Suc n) # m else (j, n) # count_up k m)"

definition isRefusal :: "string \<Rightarrow> bool" where
  "isRefusal message = contains_str (to_lower message) ''rejected permission''"

definition error_message :: "eventError \<Rightarrow> string" where
  "error_message e =
     (let oneX = er_Name e \<noteq> [] \<or> er_DataMessage e \<noteq> [] \<or> er_DataRef e \<noteq> [];
          twoX = er_Type e \<noteq> [] \<or> er_Message e \<noteq> []
      in if oneX \<or> \<not> twoX
         then (if er_Name e = [] then ''error'' else er_Name e)
                @ (if er_DataMessage e = [] then [] else '': '' @ er_DataMessage e)
                @ (if er_DataRef e = [] then [] else '' (ref '' @ er_DataRef e @ '')'')
         else (if er_Type e = [] then ''error'' else er_Type e)
                @ (if er_Message e = [] then [] else '': '' @ er_Message e))"

section \<open>The scanner\<close>

definition maxEventLine :: nat where "maxEventLine = 1048576"

text \<open>
  \<open>sc_clock\<close> counts the readings of the clock, which the scanner takes when it reports progress; the
  reports made are kept in order.
\<close>

record eventScanner =
  sc_buf :: string
  sc_result :: transcript
  sc_skipping :: bool
  sc_lastReport :: "time option"
  sc_clock :: nat
  sc_reports :: "Progress list"

text \<open>What a run fixes for its scanner: the decoder, the limit of a line, the clock, and the progress set-up.\<close>

record scanSetup =
  ss_decoder :: decoder
  ss_limit :: nat
  ss_now :: "nat \<Rightarrow> time"
  ss_progress :: bool
  ss_every :: duration
  ss_started :: time

definition newEventScanner :: eventScanner where
  "newEventScanner =
     \<lparr>sc_buf = [], sc_result = empty_transcript, sc_skipping = False, sc_lastReport = None, sc_clock = 0, sc_reports = []\<rparr>"

definition reportProgress :: "scanSetup \<Rightarrow> openCodeToolPart \<Rightarrow> eventScanner \<Rightarrow> eventScanner" where
  "reportProgress S part s =
     (if \<not> ss_progress S then s
      else (let now = ss_now S (sc_clock s); s1 = s\<lparr>sc_clock := Suc (sc_clock s)\<rparr>
            in if (case sc_lastReport s of None \<Rightarrow> False | Some before \<Rightarrow> ss_every S > 0 \<and> now - before < ss_every S) then s1
               else s1\<lparr>sc_lastReport := Some now,
                       sc_reports := sc_reports s @
                         [\<lparr>pg_ToolCalls = ts_ToolCalls (sc_result s), pg_Steps = us_Steps (ts_Usage (sc_result s)),
                           pg_LastTool = tp_Tool part, pg_LastPath = location part, pg_Elapsed = now - ss_started S\<rparr>]\<rparr>))"

definition see_tool :: "bool \<times> openCodeToolPart \<Rightarrow> transcript \<Rightarrow> transcript" where
  "see_tool decoded r0 =
     (let r = r0\<lparr>ts_ToolCalls := Suc (ts_ToolCalls r0)\<rparr>; (ok, part) = decoded
      in if \<not> ok then r
         else (let r1 = (if tp_Status part \<noteq> [] \<and> tp_Status part \<noteq> ''completed''
                         then r\<lparr>ts_FailedTools := Suc (ts_FailedTools r)\<rparr> else r)
               in if isRefusal (tp_Error part)
                  then r1\<lparr>ts_Refusals := Suc (ts_Refusals r1),
                          ts_RefusedPath := (if ts_RefusedPath r1 = [] then location part else ts_RefusedPath r1)\<rparr>
                  else r1))"

definition see_step :: "openCodeStepFinishPart \<Rightarrow> transcript \<Rightarrow> transcript" where
  "see_step p r =
     r\<lparr>ts_Usage := (let u = ts_Usage r in
         \<lparr>us_Steps = Suc (us_Steps u), us_Input = us_Input u + sf_Input p, us_Output = us_Output u + sf_Output p,
          us_Reasoning = us_Reasoning u + sf_Reasoning p, us_CacheRead = us_CacheRead u + sf_CacheRead p,
          us_CacheWrite = us_CacheWrite u + sf_CacheWrite p\<rparr>),
       ts_Cost := ts_Cost r + sf_Cost p,
       ts_FinishReason := (if sf_Reason p \<noteq> [] then sf_Reason p else ts_FinishReason r)\<rparr>"

definition see_error :: "eventError option \<Rightarrow> transcript \<Rightarrow> transcript" where
  "see_error e r =
     (case e of
        None \<Rightarrow> r\<lparr>ts_Errors := ts_Errors r @ [''the agent reported an error'']\<rparr>
      | Some x \<Rightarrow> r\<lparr>ts_Errors := ts_Errors r @ [error_message x],
                     ts_ProviderNoRoute := ts_ProviderNoRoute r \<or> er_Type x = ''provider.no-route''\<rparr>)"

definition see_envelope :: "openCodeEvent \<Rightarrow> transcript \<Rightarrow> transcript" where
  "see_envelope ev r =
     r\<lparr>ts_Lines := Suc (ts_Lines r), ts_LastEvent := ev_Type ev,
       ts_SessionID := (if ev_SessionID ev \<noteq> [] then ev_SessionID ev else ts_SessionID r)\<rparr>"

definition consume :: "scanSetup \<Rightarrow> string \<Rightarrow> eventScanner \<Rightarrow> eventScanner" where
  "consume S line s =
     (let trimmed = trim_space line; D = ss_decoder S
      in if trimmed = [] then s
         else (case d_event D trimmed of
           None \<Rightarrow> s\<lparr>sc_result := (sc_result s)\<lparr>ts_UnknownEvents := count_up ''unparseable'' (ts_UnknownEvents (sc_result s))\<rparr>\<rparr>
         | Some ev \<Rightarrow>
             (let r = see_envelope ev (sc_result s); t = ev_Type ev
              in if t = ''text''
                 then (case d_text D (ev_Part ev) of
                         Some text \<Rightarrow> s\<lparr>sc_result := (if trim_space text = [] then r else r\<lparr>ts_Summary := trim_space text\<rparr>)\<rparr>
                       | None \<Rightarrow> s\<lparr>sc_result := r\<rparr>)
                 else if t = ''tool_use''
                 then (let decoded = d_tool D (ev_Part ev)
                       in reportProgress S (snd decoded) (s\<lparr>sc_result := see_tool decoded r\<rparr>))
                 else if t = ''step_finish''
                 then (case d_step D (ev_Part ev) of
                         Some p \<Rightarrow> s\<lparr>sc_result := see_step p r\<rparr> | None \<Rightarrow> s\<lparr>sc_result := r\<rparr>)
                 else if t = ''error'' then s\<lparr>sc_result := see_error (ev_Error ev) r\<rparr>
                 else if t = ''step_start'' then s\<lparr>sc_result := r\<rparr>
                 else s\<lparr>sc_result := r\<lparr>ts_UnknownEvents := count_up t (ts_UnknownEvents r)\<rparr>\<rparr>)))"

definition dropLine :: "eventScanner \<Rightarrow> eventScanner" where
  "dropLine s =
     s\<lparr>sc_buf := [], sc_result := (sc_result s)\<lparr>ts_OversizedLines := Suc (ts_OversizedLines (sc_result s))\<rparr>\<rparr>"

text \<open>\<open>bytes.IndexByte(p, '\n')\<close>: what is before the newline and after it.\<close>

definition newline :: char where "newline = CHR 0x0A"

fun cut_line :: "string \<Rightarrow> (string \<times> string) option" where
  "cut_line [] = None"
| "cut_line (c # p) =
     (if c = newline then Some ([], p)
      else (case cut_line p of None \<Rightarrow> None | Some (a, b) \<Rightarrow> Some (c # a, b)))"

lemma cut_line_shorter: "cut_line p = Some (a, b) \<Longrightarrow> length b < length p"
  by (induction p arbitrary: a b) (auto split: if_splits option.splits)

function scan_write :: "scanSetup \<Rightarrow> string \<Rightarrow> eventScanner \<Rightarrow> eventScanner" where
  "scan_write S p s =
     (if p = [] then s
      else (case cut_line p of
         None \<Rightarrow>
           if sc_skipping s then s
           else if length (sc_buf s) + length p > ss_limit S then (dropLine s)\<lparr>sc_skipping := True\<rparr>
           else s\<lparr>sc_buf := sc_buf s @ p\<rparr>
       | Some (line, rest) \<Rightarrow>
           if sc_skipping s then scan_write S rest (s\<lparr>sc_skipping := False\<rparr>)
           else if length (sc_buf s) + length line > ss_limit S then scan_write S rest (dropLine s)
           else scan_write S rest ((consume S (sc_buf s @ line) (s\<lparr>sc_buf := []\<rparr>)))))"
  by pat_completeness auto
termination
  by (relation "measure (\<lambda>(S, p, s). length p)") (auto dest: cut_line_shorter)

declare scan_write.simps [simp del]

definition scan_close :: "scanSetup \<Rightarrow> eventScanner \<Rightarrow> eventScanner" where
  "scan_close S s =
     (let s1 = (if sc_buf s \<noteq> [] \<and> \<not> sc_skipping s then consume S (sc_buf s) s else s)
      in s1\<lparr>sc_buf := [], sc_skipping := False\<rparr>)"

text \<open>The chunks a process writes, and then the end of the stream.\<close>

definition scan_stream :: "scanSetup \<Rightarrow> string list \<Rightarrow> eventScanner" where
  "scan_stream S chunks = scan_close S (fold (scan_write S) chunks newEventScanner)"

section \<open>What the scanner computes\<close>

text \<open>
  The reference: the stream is cut at its newlines, a line longer than the limit is counted, any other
  is consumed; what follows the last newline is a line of its own if there is any.
\<close>

definition one_line :: "scanSetup \<Rightarrow> string \<Rightarrow> eventScanner \<Rightarrow> eventScanner" where
  "one_line S line s = (if length line > ss_limit S then dropLine s else consume S line s)"

definition read_lines :: "scanSetup \<Rightarrow> string \<Rightarrow> eventScanner" where
  "read_lines S stream = fold (one_line S) (split_on newline stream) newEventScanner"

lemma consume_keeps: "sc_buf (consume S line s) = sc_buf s" "sc_skipping (consume S line s) = sc_skipping s"
  by (auto simp: consume_def Let_def reportProgress_def split: option.splits)

lemma one_line_idle:
  "sc_buf s = [] \<Longrightarrow> sc_buf (one_line S line s) = []"
  "sc_skipping (one_line S line s) = sc_skipping s"
  by (auto simp: one_line_def dropLine_def consume_keeps)

lemma fold_lines_idle:
  "sc_buf s = [] \<Longrightarrow> sc_buf (fold (one_line S) ls s) = [] \<and> sc_skipping (fold (one_line S) ls s) = sc_skipping s"
  by (induction ls arbitrary: s) (simp_all add: one_line_idle)

text \<open>The state of the scanner after a stream: whole lines were read, the last one is held or being dropped.\<close>

definition whole_lines :: "scanSetup \<Rightarrow> string \<Rightarrow> eventScanner" where
  "whole_lines S u = fold (one_line S) (butlast (split_on newline u)) newEventScanner"

definition scanned :: "scanSetup \<Rightarrow> string \<Rightarrow> eventScanner" where
  "scanned S u =
     (let l = last (split_on newline u)
      in if length l > ss_limit S then (dropLine (whole_lines S u))\<lparr>sc_skipping := True\<rparr>
         else (whole_lines S u)\<lparr>sc_buf := l\<rparr>)"

lemma whole_idle: "sc_buf (whole_lines S u) = []" "sc_skipping (whole_lines S u) = False"
  using fold_lines_idle [of newEventScanner S] by (simp_all add: whole_lines_def newEventScanner_def)

lemma idle_update: "sc_buf s = [] \<Longrightarrow> s\<lparr>sc_buf := []\<rparr> = s" "\<not> sc_skipping s \<Longrightarrow> s\<lparr>sc_skipping := False\<rparr> = s"
  by (cases s; simp)+

lemma drop_idle: "\<not> sc_skipping s \<Longrightarrow> (dropLine s)\<lparr>sc_skipping := False\<rparr> = dropLine s"
  by (cases s) (simp add: dropLine_def)

lemma drop_buffered: "dropLine (s\<lparr>sc_buf := l\<rparr>) = dropLine s"
  by (cases s) (simp add: dropLine_def)

lemma consume_blank: "consume S [] s = s"
proof -
  have "trim_space [] = []" by code_simp
  then show ?thesis by (simp add: consume_def)
qed

lemma report_buffered: "reportProgress S part (s\<lparr>sc_buf := b\<rparr>) = (reportProgress S part s)\<lparr>sc_buf := b\<rparr>"
  by (cases s) (simp add: reportProgress_def Let_def split: option.splits)

lemma consume_with_buffer: "consume S line (s\<lparr>sc_buf := b\<rparr>) = (consume S line s)\<lparr>sc_buf := b\<rparr>"
  by (cases s) (simp add: consume_def Let_def report_buffered [symmetric] split: option.splits)

lemma consume_buffered:
  assumes "sc_buf w = []" "sc_skipping w = False"
  shows "(consume S l (w\<lparr>sc_buf := b\<rparr>))\<lparr>sc_buf := [], sc_skipping := False\<rparr> = consume S l w"
proof -
  have "(consume S l w)\<lparr>sc_buf := [], sc_skipping := False\<rparr> = consume S l w"
    using assms consume_keeps [of S l w] by (cases "consume S l w") simp
  then show ?thesis by (simp add: consume_with_buffer)
qed

lemma cut_line_None: "cut_line p = None \<longleftrightarrow> newline \<notin> set p"
  by (induction p) (auto split: option.splits)

lemma cut_line_Some: "cut_line p = Some (a, b) \<Longrightarrow> p = a @ newline # b \<and> newline \<notin> set a"
  by (induction p arbitrary: a b) (auto split: if_splits option.splits)

lemma split_on_extend:
  "c \<notin> set p \<Longrightarrow> split_on c (u @ p) = butlast (split_on c u) @ [last (split_on c u) @ p]"
proof (induction u)
  case Nil
  then show ?case by (induction p) auto
next
  case (Cons x u)
  obtain f fs where e: "split_on c u = f # fs" using split_on_not_Nil by (cases "split_on c u") auto
  show ?case using Cons e by (cases "x = c"; cases fs) auto
qed

lemma split_on_line:
  assumes "c \<notin> set a"
  shows "split_on c (u @ a @ [c]) = butlast (split_on c u) @ [last (split_on c u) @ a, []]"
proof -
  have "split_on c ((u @ a) @ [c]) = split_on c (u @ a) @ [[]]"
    by (rule split_on_slash_end)
  then show ?thesis using split_on_extend [OF assms] by simp
qed

lemma scanned_line:
  assumes "newline \<notin> set a"
  shows "scanned S (u @ a @ [newline]) = one_line S (last (split_on newline u) @ a) (whole_lines S u)"
proof -
  have "whole_lines S (u @ a @ [newline]) = one_line S (last (split_on newline u) @ a) (whole_lines S u)"
    unfolding whole_lines_def split_on_line [OF assms] by (simp add: butlast_append)
  moreover have "sc_buf (one_line S (last (split_on newline u) @ a) (whole_lines S u)) = []"
    by (simp add: one_line_idle whole_idle)
  ultimately show ?thesis unfolding scanned_def split_on_line [OF assms] by simp
qed

lemma scan_write_scanned: "scan_write S p (scanned S u) = scanned S (u @ p)"
proof (induction "length p" arbitrary: p u rule: less_induct)
  case less
  show ?case
  proof (cases "cut_line p")
    case None
    then have e: "split_on newline (u @ p) = butlast (split_on newline u) @ [last (split_on newline u) @ p]"
      by (simp add: cut_line_None split_on_extend)
    then have "whole_lines S (u @ p) = whole_lines S u" by (simp add: whole_lines_def)
    then show ?thesis using None e
      by (subst scan_write.simps) (simp add: scanned_def Let_def whole_idle drop_buffered)
  next
    case (Some ab)
    then obtain a b where ab: "cut_line p = Some (a, b)" by (cases ab) auto
    then have p: "p = a @ newline # b" "newline \<notin> set a" using cut_line_Some by blast+
    let ?l = "last (split_on newline u)" and ?w = "whole_lines S u"
    have "scan_write S p (scanned S u) = scan_write S b (one_line S (?l @ a) ?w)"
    proof (cases "length ?l > ss_limit S")
      case True
      then have "scanned S u = (dropLine ?w)\<lparr>sc_skipping := True\<rparr>" by (simp add: scanned_def)
      then show ?thesis using ab p(1) True drop_idle [of ?w] whole_idle
        by (subst scan_write.simps) (simp add: one_line_def)
    next
      case False
      then have "scanned S u = ?w\<lparr>sc_buf := ?l\<rparr>" by (simp add: scanned_def)
      then show ?thesis using ab p(1) whole_idle [of S u]
        by (subst scan_write.simps) (simp add: one_line_def drop_buffered idle_update(1) [OF whole_idle(1)])
    qed
    then have "scan_write S p (scanned S u) = scan_write S b (scanned S (u @ a @ [newline]))"
      by (simp add: scanned_line [OF p(2)])
    also have "\<dots> = scanned S ((u @ a @ [newline]) @ b)" using less p(1) by simp
    finally show ?thesis using p(1) by simp
  qed
qed

lemma scan_chunks: "fold (scan_write S) chunks (scanned S u) = scanned S (u @ concat chunks)"
  by (induction chunks arbitrary: u) (simp_all add: scan_write_scanned)

lemma scan_close_scanned: "scan_close S (scanned S u) = read_lines S u"
proof -
  have "split_on newline u = butlast (split_on newline u) @ [last (split_on newline u)]"
    using split_on_not_Nil by simp
  then have "read_lines S u = one_line S (last (split_on newline u)) (whole_lines S u)"
    unfolding read_lines_def whole_lines_def by (metis fold_append fold_simps comp_apply)
  moreover have "scan_close S (scanned S u) = one_line S (last (split_on newline u)) (whole_lines S u)"
  proof (cases "length (last (split_on newline u)) > ss_limit S")
    case True
    then show ?thesis using drop_idle [of "whole_lines S u"] whole_idle [of S u]
      by (simp add: scanned_def scan_close_def one_line_def) (simp add: dropLine_def)
  next
    case False
    let ?l = "last (split_on newline u)" and ?w = "whole_lines S u"
    have "(consume S ?l (?w\<lparr>sc_buf := ?l\<rparr>))\<lparr>sc_buf := [], sc_skipping := False\<rparr> = consume S ?l ?w"
      using whole_idle [of S u] by (rule consume_buffered)
    moreover have "?w\<lparr>sc_buf := [], sc_skipping := False\<rparr> = ?w"
      using idle_update [of ?w] whole_idle [of S u] by simp
    ultimately show ?thesis using False whole_idle [of S u]
      by (cases "?l = []") (simp_all add: scanned_def scan_close_def one_line_def consume_blank)
  qed
  ultimately show ?thesis by simp
qed

text \<open>
  C23: The transcript does not depend on how the process's output arrives: written in whatever chunks, it is
  the one read from the lines of the whole stream, in which a line longer than the limit is counted
  and dropped and all others are taken.
\<close>

theorem scanner_ignores_chunking:
  "scan_stream S chunks = read_lines S (concat chunks)"
proof -
  have "newEventScanner = scanned S []" by (simp add: scanned_def whole_lines_def newEventScanner_def)
  then show ?thesis unfolding scan_stream_def using scan_chunks [of S chunks "[]"] scan_close_scanned by simp
qed

end
