(* ===== verification/OpenCode.thy ===== *)
theory OpenCode
  imports Transcript
begin

text \<open>
  The OpenCode backend (\<open>internal/agent/opencode.go\<close>, \<open>agent.go\<close>, \<open>version.go\<close>): the command line, the
  environment and the sandbox of a run, and the verdict on what the process and its event stream
  showed. Processes are started by \<open>internal/procexec\<close>; what they answer, the file system and the
  process's own environment are the record \<open>host\<close>. Messages are kept where the code decides by them or
  an operator acts on them.
\<close>

section \<open>Set-up\<close>

record opencode =
  oc_Command :: string
  oc_Model :: string
  oc_DBDir :: string
  oc_ProviderKeyEnv :: "(string \<times> string) list"
  oc_Sandbox :: string
  oc_SandboxWritable :: "string list"

record host =
  h_run :: "Spec \<Rightarrow> Result \<times> string option"
  h_stream :: "Spec \<Rightarrow> string list"
  h_mkdir :: "string \<Rightarrow> string option"
  h_home :: "string option"
  h_getenv :: "string \<Rightarrow> string"
  h_cwd :: "string option"
  h_marshal :: "json \<Rightarrow> string"
  h_servers :: "string \<Rightarrow> string list list option"
  h_agents :: "string \<Rightarrow> (string \<times> string) list option"
  h_ended :: "nat \<Rightarrow> werr option"
  h_duration :: "duration \<Rightarrow> string"
  h_begun :: time
  h_stopped :: time

definition Request_problems :: "AgentRequest \<Rightarrow> string list" where
  "Request_problems r =
     (if trim_space (ar_Prompt r) = [] then [''prompt is empty''] else [])
     @ (if trim_space (ar_WorkingDir r) = [] then [''working directory is required'']
        else if \<not> is_abs (ar_WorkingDir r)
        then [''working directory '' @ go_quote (ar_WorkingDir r) @ '' must be absolute''] else [])
     @ (if ar_Timeout r \<le> 0 then [''timeout must be positive''] else [])
     @ (if ar_MaxOutputBytes r \<le> 0 then [''max output bytes must be positive''] else [])"

definition Request_Validate :: "AgentRequest \<Rightarrow> werr option" where
  "Request_Validate r =
     (if Request_problems r = [] then None
      else Some (WAgentError (''invalid agent request: '' @ join_with ''; '' (Request_problems r))))"

definition agent_command :: "opencode \<Rightarrow> string" where
  "agent_command o' = (if trim_space (oc_Command o') = [] then ''opencode'' else oc_Command o')"

definition NewOpenCode :: "string \<Rightarrow> string \<Rightarrow> opencode" where
  "NewOpenCode command model =
     \<lparr>oc_Command = (if trim_space command = [] then ''opencode'' else trim_space command), oc_Model = trim_space model,
      oc_DBDir = [], oc_ProviderKeyEnv = [], oc_Sandbox = [], oc_SandboxWritable = []\<rparr>"

definition effectiveModel :: "opencode \<Rightarrow> AgentRequest \<Rightarrow> string" where
  "effectiveModel o' req =
     (if trim_space (ar_Model req) \<noteq> [] then trim_space (ar_Model req) else trim_space (oc_Model o'))"

definition proc_succeeded :: "Result \<Rightarrow> bool" where
  "proc_succeeded r = (x_Outcome r = OutcomeSucceeded)"

text \<open>\<open>firstLine\<close> of this package: unlike the one of \<open>internal/git\<close> it gives nothing for nothing.\<close>

definition agent_firstLine :: "string \<Rightarrow> string" where
  "agent_firstLine s =
     (let t = trim_space s
      in if newline \<in> set t then trim_space (takeWhile (\<lambda>c. c \<noteq> newline) t) else t)"

section \<open>The version\<close>

definition version_spec :: "string \<Rightarrow> string \<Rightarrow> string list \<Rightarrow> Spec" where
  "version_spec command dir extra =
     \<lparr>s_Command = command, s_Args = [''--version''], s_Dir = dir, s_ExtraEnv = extra, s_FollowSessions = False,
      s_DropEnv = [], s_Timeout = 10 * second, s_MaxOutputBytes = 65536\<rparr>"

definition commandVersion :: "host \<Rightarrow> string \<Rightarrow> string list \<Rightarrow> string option" where
  "commandVersion H command extra =
     (case h_cwd H of
        None \<Rightarrow> None
      | Some dir \<Rightarrow>
          (let (proc, e) = h_run H (version_spec command dir extra)
           in if e \<noteq> None \<or> \<not> proc_succeeded proc then None
              else find (\<lambda>l. l \<noteq> []) (map trim_space (split_on newline (x_Stdout proc)))))"

definition OpenCode_Version :: "host \<Rightarrow> opencode \<Rightarrow> string option" where
  "OpenCode_Version H o' = commandVersion H (agent_command o') [''OPENCODE_DB=:memory:'']"

text \<open>The answer, and whether it is one to remember.\<close>

definition parse_major :: "string \<Rightarrow> int option" where
  "parse_major raw =
     (let s = trim_space (trim_prefix raw ''opencode'');
          s = trim_prefix (trim_space s) ''v''
      in atoi (hd (split_on CHR ''.'' s)))"

definition isV2 :: "host \<Rightarrow> opencode \<Rightarrow> bool option \<Rightarrow> bool \<times> bool option" where
  "isV2 H o' known =
     (case known of
        Some v \<Rightarrow> (v, known)
      | None \<Rightarrow>
          (case OpenCode_Version H o' of
             None \<Rightarrow> (True, None)
           | Some raw \<Rightarrow> (case parse_major raw of None \<Rightarrow> (True, None) | Some m \<Rightarrow> (m \<ge> 2, Some (m \<ge> 2)))))"

section \<open>The command line\<close>

definition buildArgs :: "opencode \<Rightarrow> AgentRequest \<Rightarrow> bool \<Rightarrow> string list" where
  "buildArgs o' req v2 =
     [''run''] @ (if v2 then [''--standalone''] else [''--dir'', ar_WorkingDir req])
       @ [''--format'', ''json'']
       @ (if trim_space (ar_Agent req) = [] then [] else [''--agent'', trim_space (ar_Agent req)])
       @ (if effectiveModel o' req = [] then [] else [''-m'', effectiveModel o' req])
       @ (if trim_space (ar_SessionID req) = [] then [] else [''-s'', trim_space (ar_SessionID req)])
       @ [''--'', ar_Prompt req]"

text \<open>\<open>^[A-Za-z0-9][A-Za-z0-9._-]*$\<close>\<close>

definition alnum :: "char \<Rightarrow> bool" where
  "alnum c = ((CHR ''A'' \<le> c \<and> c \<le> CHR ''Z'') \<or> (CHR ''a'' \<le> c \<and> c \<le> CHR ''z'') \<or> is_digit c)"

definition safeRef :: "string \<Rightarrow> bool" where
  "safeRef s =
     (case s of [] \<Rightarrow> False
      | c # cs \<Rightarrow> alnum c \<and> list_all (\<lambda>d. alnum d \<or> d = CHR ''.'' \<or> d = CHR ''_'' \<or> d = CHR ''-'') cs)"

definition TaskDBPath :: "string \<Rightarrow> string \<Rightarrow> string" where
  "TaskDBPath dir ref =
     (let ref = trim_space ref
      in if dir = [] \<or> ref = [] \<or> \<not> safeRef ref then [] else path_clean (dir @ ''/'' @ ref @ ''.sqlite''))"

definition taskDB :: "host \<Rightarrow> opencode \<Rightarrow> string \<Rightarrow> werr + string" where
  "taskDB H o' ref =
     (if TaskDBPath (oc_DBDir o') ref = [] then Inr []
      else (case h_mkdir H (oc_DBDir o') of
              Some e \<Rightarrow> Inl (WAgentError e) | None \<Rightarrow> Inr (TaskDBPath (oc_DBDir o') ref)))"

section \<open>The sandbox\<close>

definition git_dirs_spec :: "string \<Rightarrow> Spec" where
  "git_dirs_spec worktree =
     \<lparr>s_Command = ''git'', s_Args = [''-C'', worktree, ''rev-parse'', ''--absolute-git-dir'', ''--git-common-dir''],
      s_Dir = worktree, s_ExtraEnv = [], s_FollowSessions = False, s_DropEnv = [], s_Timeout = 10 * second,
      s_MaxOutputBytes = 1048576\<rparr>"

definition gitDirs :: "host \<Rightarrow> string \<Rightarrow> string \<times> string" where
  "gitDirs H worktree =
     (let (proc, e) = h_run H (git_dirs_spec worktree)
      in if e \<noteq> None \<or> \<not> proc_succeeded proc then ([], [])
         else (let ls = split_on newline (trim_space (x_Stdout proc))
               in if length ls < 2 then (trim_space (hd ls), [])
                  else (trim_space (ls ! 0), trim_space (ls ! 1))))"

definition xdg :: "host \<Rightarrow> string \<Rightarrow> string \<Rightarrow> string \<Rightarrow> string" where
  "xdg H home variable fallback =
     (let dir = trim_space (h_getenv H variable) in if dir \<noteq> [] then dir else path_clean (home @ ''/'' @ fallback))"

fun make_dirs :: "host \<Rightarrow> string list \<Rightarrow> werr + unit" where
  "make_dirs H [] = Inr ()"
| "make_dirs H (d # ds) = (case h_mkdir H d of Some e \<Rightarrow> Inl (WAgentError e) | None \<Rightarrow> make_dirs H ds)"

definition state_dirs :: "host \<Rightarrow> string \<Rightarrow> string list" where
  "state_dirs H home =
     [path_clean (xdg H home ''XDG_DATA_HOME'' ''.local/share'' @ ''/opencode''),
      path_clean (xdg H home ''XDG_CACHE_HOME'' ''.cache'' @ ''/opencode''),
      path_clean (xdg H home ''XDG_STATE_HOME'' ''.local/state'' @ ''/opencode'')]"

definition sandboxDirs :: "host \<Rightarrow> opencode \<Rightarrow> string \<Rightarrow> werr + (string list \<times> string list)" where
  "sandboxDirs H o' worktree =
     (let (admin, common) = gitDirs H worktree;
          db = (if oc_DBDir o' = [] then [] else [oc_DBDir o']);
          extra = map (\<lambda>d. path_clean (trim_space d)) (oc_SandboxWritable o')
      in case make_dirs H db of
           Inl e \<Rightarrow> Inl e
         | Inr _ \<Rightarrow>
             (case h_home H of
                None \<Rightarrow> Inl (WAgentError ''find the home directory for OpenCode's state'')
              | Some home \<Rightarrow>
                  (case make_dirs H (state_dirs H home @ extra) of
                     Inl e \<Rightarrow> Inl e
                   | Inr _ \<Rightarrow>
                       Inr ([worktree] @ (if admin = [] then [] else [admin]) @ db @ state_dirs H home @ extra,
                            if common = [] then [] else [common]))))"

definition hidden_dir :: "string \<Rightarrow> string list" where
  "hidden_dir command =
     (if is_abs command \<and> (path_dir command = ''/tmp'' \<or> has_prefix (path_dir command) ''/tmp/'')
      then [path_dir command] else [])"

definition sandboxArgs :: "string list \<Rightarrow> string list \<Rightarrow> string \<Rightarrow> string \<Rightarrow> string list \<Rightarrow> string list" where
  "sandboxArgs writable readOnly worktree command args =
     [''--die-with-parent'', ''--ro-bind'', ''/'', ''/'', ''--dev'', ''/dev'', ''--proc'', ''/proc'', ''--tmpfs'', ''/tmp'']
       @ concat (map (\<lambda>d. [''--ro-bind'', d, d]) (readOnly @ hidden_dir command))
       @ concat (map (\<lambda>d. [''--bind'', d, d]) writable)
       @ [''--dir'', ''/tmp/opencode'', ''--chdir'', worktree, command] @ args"

section \<open>What a run may reach\<close>

definition trim_slashes :: "string \<Rightarrow> string" where
  "trim_slashes s = rev (dropWhile (\<lambda>c. c = slash) (rev s))"

text \<open>A Go map: later entries replace earlier ones of the same key.\<close>

definition directoryPermissionRules :: "string list \<Rightarrow> string \<Rightarrow> string option" where
  "directoryPermissionRules readDirs =
     foldl (\<lambda>rules dir0. let dir = trim_slashes (path_clean dir0)
                         in if dir = [] then rules else rules(dir \<mapsto> ''allow'', dir @ ''/**'' \<mapsto> ''allow''))
       [''*'' \<mapsto> ''deny'', ''/tmp/opencode/*'' \<mapsto> ''allow''] readDirs"

definition rule_keys :: "string list \<Rightarrow> string list" where
  "rule_keys readDirs =
     [''*'', ''/tmp/opencode/*''] @
     concat (map (\<lambda>d. let dir = trim_slashes (path_clean d) in if dir = [] then [] else [dir, dir @ ''/**'']) readDirs)"

text \<open>\<open>encoding/json\<close> writes the keys of a map in ascending order.\<close>

definition rules_json :: "string list \<Rightarrow> json" where
  "rules_json readDirs =
     JObj (map (\<lambda>k. (k, JStr (the (directoryPermissionRules readDirs k)))) (sort_unique (rule_keys readDirs)))"

definition externalDirectoryPermission :: "string list \<Rightarrow> json" where
  "externalDirectoryPermission readDirs = JObj [(''external_directory'', rules_json readDirs)]"

definition disabled_server :: "string \<Rightarrow> string \<times> json" where
  "disabled_server name =
     (name, JObj [(''command'', JList [JStr ''true'']), (''disabled'', JBool True), (''type'', JStr ''local'')])"

definition provider_entry :: "string \<times> string \<Rightarrow> string \<times> json" where
  "provider_entry kv =
     (fst kv, JObj [(''options'', JObj [(''apiKey'', JStr ([CHR 0x7B] @ ''env:'' @ snd kv @ [CHR 0x7D]))])])"

definition openCodeConfigContent :: "(string \<times> string) list \<Rightarrow> string list \<Rightarrow> string list option \<Rightarrow> json option" where
  "openCodeConfigContent keys disabledMCP rules =
     (if keys = [] \<and> disabledMCP = [] \<and> rules = None then None
      else Some (JObj (
        (if disabledMCP = [] then [] else [(''mcp'', JObj [(''servers'', JObj (map disabled_server disabledMCP))])])
        @ (case rules of None \<Rightarrow> [] | Some dirs \<Rightarrow> [(''permission'', externalDirectoryPermission dirs)])
        @ (if keys = [] then [] else [(''provider'', JObj (map provider_entry keys))]))))"

section \<open>MCP servers\<close>

definition mcp_spec :: "opencode \<Rightarrow> string \<Rightarrow> string list \<Rightarrow> string list \<Rightarrow> Spec" where
  "mcp_spec o' dir drops env =
     \<lparr>s_Command = agent_command o', s_Args = [''debug'', ''config''], s_Dir = dir, s_ExtraEnv = env,
      s_FollowSessions = False, s_DropEnv = drops, s_Timeout = 60 * second, s_MaxOutputBytes = 1048576\<rparr>"

definition listMCPServers :: "host \<Rightarrow> opencode \<Rightarrow> string \<Rightarrow> string list \<Rightarrow> string list \<Rightarrow> werr + string list" where
  "listMCPServers H o' dir drops env =
     (let (proc, e) = h_run H (mcp_spec o' dir drops env)
      in if e \<noteq> None \<or> \<not> proc_succeeded proc then Inl (WAgentError ''cannot list the MCP servers of opencode'')
         else (case h_servers H (x_Stdout proc) of
                 None \<Rightarrow> Inl (WAgentError ''cannot list the MCP servers of opencode'')
               | Some sources \<Rightarrow> Inr (sort_unique (concat sources))))"

section \<open>Before the run\<close>

definition run_begun :: "host \<Rightarrow> string \<Rightarrow> AgentRequest \<Rightarrow> AgentResult" where
  "run_begun H name req =
     \<lparr>ag_Backend = name, ag_Status = WorkerFailed, ag_FailureKind = FailureNone, ag_Command = [],
      ag_WorkingDir = ar_WorkingDir req, ag_ExitCode = None, ag_Stdout = [], ag_StdoutTruncated = False,
      ag_Stderr = [], ag_StderrTruncated = False, ag_SessionID = [], ag_Summary = [], ag_FinishReason = [],
      ag_Model = [], ag_OrphansKilled = False, ag_ToolCalls = 0, ag_StartedAt = Some (h_begun H),
      ag_FinishedAt = None, ag_Duration = 0, ag_Err = None\<rparr>"

type_synonym run_result = "AgentResult \<times> werr option"

definition failed_startup :: "AgentResult \<Rightarrow> werr \<Rightarrow> run_result" where
  "failed_startup r e = (r\<lparr>ag_Status := WorkerFailed, ag_FailureKind := FailureStartup, ag_Err := Some e\<rparr>, Some e)"

definition stopped_startup :: "AgentResult \<Rightarrow> werr \<Rightarrow> run_result" where
  "stopped_startup r e = (r\<lparr>ag_Status := WorkerCancelled, ag_FailureKind := FailureCancelled, ag_Err := Some e\<rparr>, None)"

definition dropped :: "string list" where
  "dropped = [''AIDEV_'', ''OPENCODE_CONFIG_CONTENT'']"

definition base_env :: "host \<Rightarrow> AgentRequest \<Rightarrow> string \<Rightarrow> string list" where
  "base_env H req db =
     (if db = [] then [] else [''OPENCODE_DB='' @ db])
       @ [''OPENCODE_PERMISSION='' @ h_marshal H (externalDirectoryPermission (ar_ReadDirs req))]
       @ (if ar_TaskRef req = [] then [] else [''AIDEV_TASK_REF='' @ ar_TaskRef req])"

definition config_env :: "host \<Rightarrow> opencode \<Rightarrow> AgentRequest \<Rightarrow> bool \<Rightarrow> string list \<Rightarrow> string list" where
  "config_env H o' req v2 disabled =
     (case openCodeConfigContent (oc_ProviderKeyEnv o') disabled (if v2 then Some (ar_ReadDirs req) else None) of
        None \<Rightarrow> [] | Some content \<Rightarrow> [''OPENCODE_CONFIG_CONTENT='' @ h_marshal H content])"

definition run_spec :: "AgentRequest \<Rightarrow> string \<Rightarrow> string list \<Rightarrow> string list \<Rightarrow> Spec" where
  "run_spec req command args env =
     \<lparr>s_Command = command, s_Args = args, s_Dir = ar_WorkingDir req, s_ExtraEnv = env, s_FollowSessions = True,
      s_DropEnv = dropped, s_Timeout = ar_Timeout req, s_MaxOutputBytes = ar_MaxOutputBytes req\<rparr>"

text \<open>The servers a 2.x run would start; a failed listing is a cancellation when the context ended meanwhile.\<close>

definition servers_to_disable ::
    "host \<Rightarrow> opencode \<Rightarrow> AgentRequest \<Rightarrow> bool \<Rightarrow> string list \<Rightarrow> AgentResult \<Rightarrow> run_result + string list" where
  "servers_to_disable H o' req v2 env r =
     (if \<not> v2 then Inr []
      else (case listMCPServers H o' (ar_WorkingDir req) dropped env of
              Inr names \<Rightarrow> Inr names
            | Inl e \<Rightarrow> Inl (case h_ended H 1 of Some c \<Rightarrow> stopped_startup r c | None \<Rightarrow> failed_startup r e)))"

definition place :: "host \<Rightarrow> opencode \<Rightarrow> AgentRequest \<Rightarrow> string list \<Rightarrow> werr + (string \<times> string list)" where
  "place H o' req args =
     (if trim_space (oc_Sandbox o') = [] then Inr (agent_command o', args)
      else (case sandboxDirs H o' (ar_WorkingDir req) of
              Inl e \<Rightarrow> Inl e
            | Inr (writable, readOnly) \<Rightarrow>
                Inr (trim_space (oc_Sandbox o'),
                     sandboxArgs writable readOnly (ar_WorkingDir req) (agent_command o') args)))"

text \<open>What \<open>Run\<close> does until it starts the process: an early return, or the process to start.\<close>

definition prepare_run ::
    "host \<Rightarrow> opencode \<Rightarrow> bool option \<Rightarrow> AgentRequest \<Rightarrow> run_result + (AgentResult \<times> string list \<times> Spec)" where
  "prepare_run H o' known req =
     (let r0 = (run_begun H ''opencode'' req)\<lparr>ag_FinishedAt := Some (h_stopped H)\<rparr> in
      case Request_Validate req of
        Some e \<Rightarrow> Inl (failed_startup r0 e)
      | None \<Rightarrow>
        let r = r0\<lparr>ag_Model := effectiveModel o' req\<rparr>; v2 = fst (isV2 H o' known) in
        (case h_ended H 0 of
           Some c \<Rightarrow> Inl (stopped_startup r c)
         | None \<Rightarrow>
           (case taskDB H o' (ar_TaskRef req) of
              Inl e \<Rightarrow> Inl (failed_startup r e)
            | Inr db \<Rightarrow>
              let env = base_env H req db in
              (case servers_to_disable H o' req v2 env r of
                 Inl early \<Rightarrow> Inl early
               | Inr disabled \<Rightarrow>
                 (case place H o' req (buildArgs o' req v2) of
                    Inl e \<Rightarrow> Inl (failed_startup r e)
                  | Inr (command, args) \<Rightarrow>
                      Inr (r, disabled, run_spec req command args (env @ config_env H o' req v2 disabled)))))))"

section \<open>The verdict\<close>

text \<open>
  Usage, cost and the names of the servers switched off are put into the result and never read by the
  worker's decisions; \<open>AgentResult\<close> leaves them out, and \<open>prepare_run\<close> answers the names by themselves.
\<close>

definition quote_char :: char where "quote_char = CHR 0x22"

text \<open>\<open>agent "([^"]*)" not found\<close>, at the first place where it matches.\<close>

definition fallback_at :: "string \<Rightarrow> string option" where
  "fallback_at s =
     (let head = ''agent '' @ [quote_char]; rest = drop (length head) s;
          name = takeWhile (\<lambda>c. c \<noteq> quote_char) rest
      in if has_prefix s head \<and> has_prefix (drop (length name) rest) (quote_char # '' not found'')
         then Some name else None)"

fun first_match :: "(string \<Rightarrow> 'a option) \<Rightarrow> string \<Rightarrow> 'a option" where
  "first_match at [] = at []"
| "first_match at (c # s) = (case at (c # s) of Some x \<Rightarrow> Some x | None \<Rightarrow> first_match at s)"

definition agentFallback :: "string \<Rightarrow> string option" where
  "agentFallback stderr = first_match fallback_at stderr"

text \<open>Colour codes, and the line a headless run prints when it turns a permission down.\<close>

function strip_ansi :: "string \<Rightarrow> string" where
  "strip_ansi s =
     (case s of [] \<Rightarrow> []
      | c # r \<Rightarrow>
          let body = drop 1 r; codes = takeWhile (\<lambda>d. is_digit d \<or> d = CHR '';'') body;
              after = drop (length codes) body
          in if c = CHR 0x1B \<and> take 1 r = ''['' \<and> take 1 after = ''m'' then strip_ansi (drop 1 after)
             else c # strip_ansi r)"
  by pat_completeness auto
termination by (relation "measure length") auto

declare strip_ansi.simps [simp del]

definition permission_at :: "string \<Rightarrow> (string \<times> string) option" where
  "permission_at s =
     (let head = ''permission requested: ''; rest = drop (length head) s;
          perm = takeWhile (\<lambda>c. (CHR ''a'' \<le> c \<and> c \<le> CHR ''z'') \<or> c = CHR ''_'') rest;
          tail = drop (length perm) rest; inner = drop 2 tail;
          path = takeWhile (\<lambda>c. c \<noteq> CHR '')'') inner
      in if has_prefix s head \<and> perm \<noteq> [] \<and> has_prefix tail '' ('' \<and> has_prefix (drop (length path) inner) ''); auto-rejecting''
         then Some (perm, path) else None)"

definition permissionRequest :: "string \<Rightarrow> (string \<times> string) option" where
  "permissionRequest stderr = first_match permission_at (strip_ansi stderr)"

definition outside :: "string \<Rightarrow> string \<Rightarrow> bool" where
  "outside dir path =
     (if dir = [] \<or> \<not> is_abs path then False
      else (case path_rel (path_clean dir) (path_clean path) of None \<Rightarrow> True | Some rel \<Rightarrow> rel_escapes rel))"

definition refusalMessage :: "transcript \<Rightarrow> string \<Rightarrow> string \<Rightarrow> string" where
  "refusalMessage ts workingDir stderr =
     (let also = (if ts_Refusals ts > 1 then '' ('' @ nat_dec (ts_Refusals ts) @ '' refused in all)'' else []);
          (permission, path) = (case permissionRequest stderr of
              None \<Rightarrow> ([], ts_RefusedPath ts) | Some (perm, p) \<Rightarrow> ('' ('' @ perm @ '')'', p))
      in if path = []
         then ''opencode stopped because a tool call was refused'' @ also
                @ ''; a refusal ends the session, so nothing after it ran''
         else if outside workingDir path
         then ''opencode stopped because the agent reached outside its worktree, for '' @ path @ permission @ also
                @ ''; a refusal ends the session, so nothing after it ran. The task is asking for something ''
                @ ''that is not in the checkout: put what the agent needs into the repository (the planner ''
                @ ''can gather it and commit it with the specification) rather than widening what the agent may reach''
         else ''opencode stopped because a tool call for '' @ path @ '' was refused'' @ also
                @ ''; a refusal ends the session, so nothing after it ran'')"

definition cutShort :: "string \<Rightarrow> string option" where
  "cutShort =
     [''tool-calls'' \<mapsto> ''the session ended while the agent was still calling tools'',
      ''length'' \<mapsto> ''the agent ran out of output space mid-answer'']"

definition exit_message :: "string \<Rightarrow> Result \<Rightarrow> string" where
  "exit_message name proc =
     (let detail = agent_firstLine (x_Stderr proc)
      in name @ '' exited '' @ (case x_ExitCode proc of None \<Rightarrow> ''unknown'' | Some c \<Rightarrow> int_dec c) @ '': ''
           @ (if detail = [] then ''no diagnostic output'' else detail))"

definition process_error :: "Result \<Rightarrow> werr" where
  "process_error proc = WAgentError (x_Command proc @ '' was cancelled'')"

definition classify ::
    "host \<Rightarrow> Result \<Rightarrow> transcript \<Rightarrow> AgentRequest \<Rightarrow> WorkerRunStatus \<times> FailureKind \<times> werr option" where
  "classify H proc ts req =
     (if x_Outcome proc = OutcomeCancelled then (WorkerCancelled, FailureCancelled, Some (process_error proc))
      else if x_Outcome proc = OutcomeTimedOut
      then (WorkerTimedOut, FailureTimeout,
            Some (WAgentError (''opencode exceeded the task timeout of '' @ h_duration H (ar_Timeout req))))
      else (case agentFallback (x_Stderr proc) of
        Some name \<Rightarrow> (WorkerFailed, FailureStartup,
            Some (WAgentError (''opencode did not recognise agent '' @ go_quote name
              @ '' and fell back to its default, so the task did not run as requested'')))
      | None \<Rightarrow>
        if ts_Errors ts \<noteq> []
        then (WorkerFailed, if ts_ProviderNoRoute ts then FailureStartup else FailureAgentError,
              Some (WAgentError (''opencode reported: '' @ join_with ''; '' (ts_Errors ts))))
        else if \<not> proc_succeeded proc
        then (WorkerFailed, FailureAgentExit, Some (WAgentError (exit_message ''opencode'' proc)))
        else if ts_Lines ts = 0
        then (WorkerFailed, FailureUnknown,
              Some (WAgentError (''opencode exited 0 but produced no events; stderr: '' @ agent_firstLine (x_Stderr proc))))
        else (case cutShort (ts_FinishReason ts) of
          None \<Rightarrow> (WorkerSucceeded, FailureNone, None)
        | Some reason \<Rightarrow>
            if ts_Refusals ts > 0
            then (WorkerFailed, FailureAgentError,
                  Some (WToolRefused (refusalMessage ts (ar_WorkingDir req) (x_Stderr proc))))
            else if ts_LastEvent ts = ''text'' then (WorkerSucceeded, FailureNone, None)
            else (WorkerFailed, FailureAgentError,
                  Some (WAgentError (''opencode ended with finish reason '' @ go_quote (ts_FinishReason ts)
                    @ '': '' @ reason @ '', so it never stopped of its own accord''))))))"

definition startupError :: "string \<Rightarrow> Result \<Rightarrow> string option \<Rightarrow> werr" where
  "startupError command proc runErr =
     WAgentError (let stderr = agent_firstLine (x_Stderr proc)
        in if stderr \<noteq> [] then ''could not run '' @ command @ '': '' @ stderr
           else (case runErr of None \<Rightarrow> ''could not run '' @ command
                 | Some e \<Rightarrow> ''could not run '' @ command @ '': '' @ e))"

definition observed :: "AgentResult \<Rightarrow> Result \<Rightarrow> transcript \<Rightarrow> AgentResult" where
  "observed r proc ts =
     r\<lparr>ag_Command := x_Command proc, ag_ExitCode := x_ExitCode proc, ag_Stdout := x_Stdout proc,
       ag_StdoutTruncated := x_StdoutTruncated proc, ag_Stderr := x_Stderr proc,
       ag_StderrTruncated := x_StderrTruncated proc, ag_OrphansKilled := x_OrphansKilled proc,
       ag_SessionID := ts_SessionID ts, ag_Summary := ts_Summary ts, ag_FinishReason := ts_FinishReason ts,
       ag_ToolCalls := ts_ToolCalls ts, ag_StartedAt := x_StartedAt proc, ag_FinishedAt := x_FinishedAt proc,
       ag_Duration := x_Duration proc\<rparr>"

text \<open>The result of a process: a start that failed is an error of the run, all else is classified.\<close>

definition conclude ::
    "string \<Rightarrow> AgentResult \<Rightarrow> Result \<Rightarrow> string option \<Rightarrow> WorkerRunStatus \<times> FailureKind \<times> werr option \<Rightarrow> run_result" where
  "conclude command r proc e verdict =
     (if x_Outcome proc = OutcomeStartFailed
      then (let x = startupError command proc e
            in (r\<lparr>ag_Status := WorkerFailed, ag_FailureKind := FailureStartup, ag_Err := Some x\<rparr>, Some x))
      else (case e of
        Some m \<Rightarrow> (r\<lparr>ag_Status := WorkerFailed, ag_FailureKind := FailureStartup, ag_Err := Some (WAgentError m)\<rparr>, Some (WAgentError m))
      | None \<Rightarrow> (r\<lparr>ag_Status := fst verdict, ag_FailureKind := fst (snd verdict), ag_Err := snd (snd verdict)\<rparr>, None)))"

definition OpenCode_Run ::
    "host \<Rightarrow> opencode \<Rightarrow> bool option \<Rightarrow> scanSetup \<Rightarrow> AgentRequest \<Rightarrow> run_result \<times> Progress list" where
  "OpenCode_Run H o' known S req =
     (case prepare_run H o' known req of
        Inl early \<Rightarrow> (early, [])
      | Inr (r, disabled, spec) \<Rightarrow>
          (let (proc, e) = h_run H spec; scanner = scan_stream S (h_stream H spec); ts = sc_result scanner
           in (conclude (s_Command spec) (observed r proc ts) proc e (classify H proc ts req), sc_reports scanner)))"

section \<open>Agent names\<close>

definition agents_spec :: "opencode \<Rightarrow> string \<Rightarrow> string list \<Rightarrow> string list \<Rightarrow> Spec" where
  "agents_spec o' dir args extra =
     \<lparr>s_Command = agent_command o', s_Args = args, s_Dir = dir, s_ExtraEnv = extra, s_FollowSessions = False,
      s_DropEnv = [], s_Timeout = 30 * second, s_MaxOutputBytes = 1048576\<rparr>"

text \<open>From the first bracket that opens to the last that closes.\<close>

definition json_array :: "string \<Rightarrow> string option" where
  "json_array out =
     (let start = length (takeWhile (\<lambda>c. c \<noteq> CHR ''['') out); upto = length (dropWhile (\<lambda>c. c \<noteq> CHR '']'') (rev out))
      in if CHR ''['' \<notin> set out \<or> CHR '']'' \<notin> set out \<or> upto \<le> start then None
         else Some (drop start (take upto out)))"

definition debugAgents :: "host \<Rightarrow> opencode \<Rightarrow> string \<Rightarrow> werr + string list" where
  "debugAgents H o' dir =
     (let (proc, e) = h_run H (agents_spec o' dir [''debug'', ''agents''] [])
      in case e of
           Some m \<Rightarrow> Inl (WAgentError m)
         | None \<Rightarrow>
             if \<not> proc_succeeded proc then Inl (WAgentError (agent_firstLine (x_Stderr proc)))
             else (case json_array (x_Stdout proc) of
                     None \<Rightarrow> Inl (WAgentError ''no JSON array in `debug agents` output'')
                   | Some text \<Rightarrow>
                       (case h_agents H text of
                          None \<Rightarrow> Inl (WAgentError ''not the JSON expected'')
                        | Some ags \<Rightarrow>
                            Inr (map fst (filter (\<lambda>(i, m). i \<noteq> [] \<and> (m = ''primary'' \<or> m = ''subagent'')) ags)))))"

definition listAgentsV2 :: "host \<Rightarrow> opencode \<Rightarrow> string \<Rightarrow> werr + string list" where
  "listAgentsV2 H o' dir =
     (case debugAgents H o' dir of
        Inl e \<Rightarrow> Inl e
      | Inr names \<Rightarrow> if names \<noteq> [] then Inr names else debugAgents H o' dir)"

text \<open>\<open>^(\S+) \((primary|subagent)\)\s*$\<close>\<close>

definition re_space :: "char \<Rightarrow> bool" where
  "re_space c = (c \<in> set [CHR 0x09, CHR 0x0A, CHR 0x0C, CHR 0x0D, CHR 0x20])"

definition agentLine :: "string \<Rightarrow> string option" where
  "agentLine line =
     (let name = takeWhile (\<lambda>c. \<not> re_space c) line; rest = drop (length name) line;
          ends = (\<lambda>mode. has_prefix rest ('' ('' @ mode @ '')'') \<and> list_all re_space (drop (length mode + 3) rest))
      in if name \<noteq> [] \<and> (ends ''primary'' \<or> ends ''subagent'') then Some name else None)"

definition listAgentsV1 :: "host \<Rightarrow> opencode \<Rightarrow> string \<Rightarrow> werr + string list" where
  "listAgentsV1 H o' dir =
     (let (proc, e) = h_run H (agents_spec o' dir [''agent'', ''list''] [''OPENCODE_DB=:memory:''])
      in case e of
           Some m \<Rightarrow> Inl (WAgentError m)
         | None \<Rightarrow>
             if \<not> proc_succeeded proc then Inl (WAgentError (agent_firstLine (x_Stderr proc)))
             else (let names = List.map_filter agentLine (split_on newline (x_Stdout proc))
                   in if names = [] then Inl (WAgentError ''no agents found'') else Inr names))"

text \<open>The cache holds the names and when they were read.\<close>

definition agentListTTL :: duration where "agentListTTL = 300 * second"

definition lookup_agents ::
    "host \<Rightarrow> opencode \<Rightarrow> (string list \<times> time) option \<Rightarrow> time \<Rightarrow> (werr + string list) \<times> (string list \<times> time) option" where
  "lookup_agents H o' cache now =
     (case h_cwd H of
        None \<Rightarrow> (Inl (WAgentError ''determine current directory''), cache)
      | Some dir \<Rightarrow>
          (case listAgentsV2 H o' dir of
             Inr (n # ns) \<Rightarrow> (Inr (n # ns), Some (n # ns, now))
           | v2 \<Rightarrow>
               (case listAgentsV1 H o' dir of
                  Inl e \<Rightarrow> (Inl (case v2 of Inl e2 \<Rightarrow> WWrapped ''list opencode agents'' e2 | Inr _ \<Rightarrow> e), cache)
                | Inr names \<Rightarrow> (Inr names, Some (names, now)))))"

definition ListAgents ::
    "host \<Rightarrow> opencode \<Rightarrow> (string list \<times> time) option \<Rightarrow> time \<Rightarrow> (werr + string list) \<times> (string list \<times> time) option" where
  "ListAgents H o' cache now =
     (case cache of
        Some (names, at) \<Rightarrow> if now - at < agentListTTL then (Inr names, cache) else lookup_agents H o' cache now
      | None \<Rightarrow> lookup_agents H o' cache now)"

definition ValidateAgentName ::
    "host \<Rightarrow> opencode \<Rightarrow> (string list \<times> time) option \<Rightarrow> time \<Rightarrow> string \<Rightarrow> werr option" where
  "ValidateAgentName H o' cache now name =
     (let trimmed = trim_space name
      in if trimmed = [] then Some (WAgentError ''agent name is empty'')
         else (case fst (ListAgents H o' cache now) of
                 Inl e \<Rightarrow> Some e
               | Inr names \<Rightarrow>
                   if trimmed \<in> set names then None
                   else Some (WAgentError (''opencode has no agent named '' @ go_quote trimmed
                          @ ''; available agents: '' @ join_with '', '' names))))"

end
