(* ===== verification/Codex.thy ===== *)
theory Codex
  imports OpenCode
begin

text \<open>
  The Codex backend (\<open>internal/agent/codex.go\<close>) and the plain-text form of both backends' streams
  (\<open>condense.go\<close>). As for OpenCode, decoding a line is a parameter; what is read of the final-message file
  is the argument \<open>message\<close> of the run.
\<close>

record codex =
  cx_command :: string
  cx_profile :: string
  cx_model :: string
  cx_sandbox :: string

record codexItem =
  ci_Type :: string
  ci_Text :: string
  ci_Message :: string
  ci_Command :: string

record codexEvent =
  ce_Type :: string
  ce_ThreadID :: string
  ce_Item :: "codexItem option"
  ce_Usage :: string
  ce_Error :: "string option"

record codexTranscript =
  ct_SessionID :: string
  ct_Summary :: string
  ct_ToolCalls :: nat
  ct_Tokens :: string
  ct_Errors :: "string list"
  ct_Unknown :: "(string \<times> nat) list"
  ct_Lines :: nat

definition empty_codex :: codexTranscript where
  "empty_codex =
     \<lparr>ct_SessionID = [], ct_Summary = [], ct_ToolCalls = 0, ct_Tokens = [], ct_Errors = [], ct_Unknown = [], ct_Lines = 0\<rparr>"

section \<open>The command line\<close>

definition NewCodex :: "codex \<Rightarrow> codex" where
  "NewCodex opts =
     \<lparr>cx_command = trim_space (cx_command opts), cx_profile = trim_space (cx_profile opts),
      cx_model = trim_space (cx_model opts), cx_sandbox = trim_space (cx_sandbox opts)\<rparr>"

definition codex_executable :: "codex \<Rightarrow> string" where
  "codex_executable c = (if cx_command c = [] then ''codex'' else cx_command c)"

definition Codex_Version :: "host \<Rightarrow> codex \<Rightarrow> string option" where
  "Codex_Version H c = commandVersion H (codex_executable c) []"

definition codex_model :: "codex \<Rightarrow> AgentRequest \<Rightarrow> string" where
  "codex_model c req = (if trim_space (ar_Model req) \<noteq> [] then trim_space (ar_Model req) else trim_space (cx_model c))"

definition codex_args :: "codex \<Rightarrow> AgentRequest \<Rightarrow> string \<Rightarrow> string list" where
  "codex_args c req lastMessagePath =
     [''exec'', ''--json'', ''--skip-git-repo-check'', ''-C'', ar_WorkingDir req, ''-o'', lastMessagePath]
       @ (if cx_profile c = [] then [] else [''--profile'', cx_profile c])
       @ (if codex_model c req = [] then [] else [''-m'', codex_model c req])
       @ (if cx_sandbox c = [] then [] else [''--sandbox'', cx_sandbox c])
       @ [''--'', ar_Prompt req]"

section \<open>The stream\<close>

definition see_item :: "codexItem \<Rightarrow> codexTranscript \<Rightarrow> codexTranscript" where
  "see_item item r =
     (if ci_Type item = ''agent_message''
      then (if trim_space (ci_Text item) = [] then r else r\<lparr>ct_Summary := trim_space (ci_Text item)\<rparr>)
      else if ci_Type item = ''command_execution'' then r\<lparr>ct_ToolCalls := Suc (ct_ToolCalls r)\<rparr>
      else if ci_Type item = ''error'' then r
      else r\<lparr>ct_Unknown := count_up (ci_Type item) (ct_Unknown r)\<rparr>)"

definition codex_consume :: "(string \<Rightarrow> codexEvent option) \<Rightarrow> string \<Rightarrow> codexTranscript \<Rightarrow> codexTranscript" where
  "codex_consume decode line r0 =
     (let trimmed = trim_space line
      in if trimmed = [] then r0
         else (case decode trimmed of
           None \<Rightarrow> r0\<lparr>ct_Unknown := count_up ''unparseable'' (ct_Unknown r0)\<rparr>
         | Some ev \<Rightarrow>
             (let r = r0\<lparr>ct_Lines := Suc (ct_Lines r0),
                         ct_SessionID := (if ce_ThreadID ev \<noteq> [] then ce_ThreadID ev else ct_SessionID r0)\<rparr>;
                  t = ce_Type ev
              in if t = ''thread.started'' \<or> t = ''turn.started'' then r
                 else if t = ''item.completed''
                 then (case ce_Item ev of None \<Rightarrow> r | Some item \<Rightarrow> see_item item r)
                 else if t = ''turn.completed'' then (if ce_Usage ev = [] then r else r\<lparr>ct_Tokens := ce_Usage ev\<rparr>)
                 else if t = ''turn.failed''
                 then r\<lparr>ct_Errors := ct_Errors r @
                         [case ce_Error ev of
                            None \<Rightarrow> ''the agent reported an error''
                          | Some m \<Rightarrow> if trim_space m = [] then ''the agent reported an error'' else trim_space m]\<rparr>
                 else r\<lparr>ct_Unknown := count_up t (ct_Unknown r)\<rparr>)))"

text \<open>The buffer grows with the line: nothing bounds it. A line is consumed with its newline.\<close>

function codex_lines :: "(string \<Rightarrow> codexEvent option) \<Rightarrow> string \<Rightarrow> codexTranscript \<Rightarrow> string \<times> codexTranscript" where
  "codex_lines decode buf r =
     (case cut_line buf of
        None \<Rightarrow> (buf, r)
      | Some (line, rest) \<Rightarrow> codex_lines decode rest (codex_consume decode (line @ [newline]) r))"
  by pat_completeness auto
termination by (relation "measure (\<lambda>(d, b, r). length b)") (auto dest: cut_line_shorter)

declare codex_lines.simps [simp del]

definition codex_write :: "(string \<Rightarrow> codexEvent option) \<Rightarrow> string \<Rightarrow> string \<times> codexTranscript \<Rightarrow> string \<times> codexTranscript" where
  "codex_write decode p s = codex_lines decode (fst s @ p) (snd s)"

definition codex_close :: "(string \<Rightarrow> codexEvent option) \<Rightarrow> string \<times> codexTranscript \<Rightarrow> codexTranscript" where
  "codex_close decode s = (if fst s = [] then snd s else codex_consume decode (fst s) (snd s))"

definition codex_stream :: "(string \<Rightarrow> codexEvent option) \<Rightarrow> string list \<Rightarrow> codexTranscript" where
  "codex_stream decode chunks = codex_close decode (fold (codex_write decode) chunks ([], empty_codex))"

section \<open>The run\<close>

definition classifyCodex ::
    "host \<Rightarrow> Result \<Rightarrow> codexTranscript \<Rightarrow> AgentRequest \<Rightarrow> WorkerRunStatus \<times> FailureKind \<times> werr option" where
  "classifyCodex H proc ts req =
     (if x_Outcome proc = OutcomeCancelled then (WorkerCancelled, FailureCancelled, Some (process_error proc))
      else if x_Outcome proc = OutcomeTimedOut
      then (WorkerTimedOut, FailureTimeout,
            Some (WAgentError (''codex exceeded the task timeout of '' @ h_duration H (ar_Timeout req))))
      else if ct_Errors ts \<noteq> []
      then (WorkerFailed, FailureAgentError, Some (WAgentError (''codex reported: '' @ join_with ''; '' (ct_Errors ts))))
      else if \<not> proc_succeeded proc
      then (WorkerFailed, FailureAgentExit, Some (WAgentError (exit_message ''codex'' proc)))
      else if ct_Lines ts = 0
      then (WorkerFailed, FailureUnknown,
            Some (WAgentError (''codex exited 0 but produced no events; stderr: '' @ agent_firstLine (x_Stderr proc))))
      else (WorkerSucceeded, FailureNone, None))"

definition codex_spec :: "codex \<Rightarrow> AgentRequest \<Rightarrow> string \<Rightarrow> Spec" where
  "codex_spec c req file =
     \<lparr>s_Command = codex_executable c, s_Args = codex_args c req file, s_Dir = ar_WorkingDir req,
      s_ExtraEnv = (if ar_TaskRef req = [] then [] else [''AIDEV_TASK_REF='' @ ar_TaskRef req]),
      s_FollowSessions = True, s_DropEnv = [''AIDEV_''], s_Timeout = ar_Timeout req,
      s_MaxOutputBytes = ar_MaxOutputBytes req\<rparr>"

definition codex_observed :: "AgentResult \<Rightarrow> Result \<Rightarrow> codexTranscript \<Rightarrow> string option \<Rightarrow> AgentResult" where
  "codex_observed r proc ts message =
     r\<lparr>ag_Command := x_Command proc, ag_ExitCode := x_ExitCode proc, ag_Stdout := x_Stdout proc,
       ag_StdoutTruncated := x_StdoutTruncated proc, ag_Stderr := x_Stderr proc,
       ag_StderrTruncated := x_StderrTruncated proc, ag_OrphansKilled := x_OrphansKilled proc,
       ag_SessionID := ct_SessionID ts, ag_ToolCalls := ct_ToolCalls ts, ag_StartedAt := x_StartedAt proc,
       ag_FinishedAt := x_FinishedAt proc, ag_Duration := x_Duration proc,
       ag_Summary := (case message of
           None \<Rightarrow> ct_Summary ts | Some m \<Rightarrow> if trim_space m = [] then ct_Summary ts else trim_space m)\<rparr>"

text \<open>\<open>temp\<close> is the answer of \<open>os.CreateTemp\<close>: an error or the name of the file.\<close>

definition Codex_Run ::
    "host \<Rightarrow> codex \<Rightarrow> (string \<Rightarrow> codexEvent option) \<Rightarrow> werr + string \<Rightarrow> string option \<Rightarrow> AgentRequest \<Rightarrow> run_result" where
  "Codex_Run H c decode temp message req =
     (let r0 = (run_begun H ''codex'' req)\<lparr>ag_FinishedAt := Some (h_stopped H)\<rparr> in
      case Request_Validate req of
        Some e \<Rightarrow> failed_startup r0 e
      | None \<Rightarrow>
          (case temp of
             Inl e \<Rightarrow> failed_startup r0 (WWrapped ''create codex message file'' e)
           | Inr file \<Rightarrow>
               (let r = r0\<lparr>ag_Model := codex_model c req\<rparr>; spec = codex_spec c req file; (proc, e) = h_run H spec;
                    ts = codex_stream decode (h_stream H spec)
                in conclude (codex_executable c) (codex_observed r proc ts message) proc e (classifyCodex H proc ts req))))"

section \<open>The stream as plain text\<close>

text \<open>A line is dropped (\<open>None\<close>) or rendered.\<close>

definition condenseOpenCodeLine :: "decoder \<Rightarrow> string \<Rightarrow> string option" where
  "condenseOpenCodeLine D line =
     (case d_event D line of
        None \<Rightarrow> Some line
      | Some ev \<Rightarrow>
          (let t = ev_Type ev
           in if t = ''text''
              then (case d_text D (ev_Part ev) of
                      None \<Rightarrow> None
                    | Some text \<Rightarrow> if trim_space text = [] then None else Some (''[text] '' @ trim_space text))
              else if t = ''tool_use''
              then (let (decoded, part) = d_tool D (ev_Part ev)
                    in if \<not> decoded then Some ''[tool]''
                       else Some (''[tool] '' @ tp_Tool part @ '' '' @ tp_Status part
                              @ (if location part = [] then [] else '' '' @ location part)
                              @ (if tp_Error part = [] then [] else '': '' @ agent_firstLine (tp_Error part))))
              else if t = ''step_finish''
              then (case d_step D (ev_Part ev) of
                      None \<Rightarrow> Some ''[step finished]''
                    | Some p \<Rightarrow> if sf_Reason p = [] then Some ''[step finished]'' else Some (''[step finished] '' @ sf_Reason p))
              else if t = ''step_start'' then None
              else if t = ''error''
              then (case ev_Error ev of
                      None \<Rightarrow> Some ''[error]''
                    | Some e \<Rightarrow> Some (''[error] '' @ er_Name e @ (if er_DataMessage e = [] then [] else '': '' @ er_DataMessage e)))
              else Some (''['' @ t @ '']'')))"

definition condenseCodexLine :: "(string \<Rightarrow> codexEvent option) \<Rightarrow> string \<Rightarrow> string option" where
  "condenseCodexLine decode line =
     (case decode line of
        None \<Rightarrow> Some line
      | Some ev \<Rightarrow>
          (let t = ce_Type ev
           in if t = ''item.completed''
              then (case ce_Item ev of
                      None \<Rightarrow> None
                    | Some item \<Rightarrow>
                        Some (if ci_Type item = ''agent_message'' then ''[text] '' @ trim_space (ci_Text item)
                              else if ci_Type item = ''command_execution'' then ''[command] '' @ agent_firstLine (ci_Command item)
                              else if ci_Type item = ''error'' then ''[error] '' @ ci_Message item
                              else ''['' @ ci_Type item @ '']''))
              else if t = ''turn.failed''
              then Some (case ce_Error ev of None \<Rightarrow> ''[error]'' | Some m \<Rightarrow> if m = [] then ''[error]'' else ''[error] '' @ m)
              else if t \<in> set [''thread.started'', ''turn.started'', ''turn.completed''] then None
              else Some (''['' @ t @ '']'')))"

definition condense_with :: "(string \<Rightarrow> string option) \<Rightarrow> string \<Rightarrow> string" where
  "condense_with line stdout =
     concat (map (\<lambda>text. text @ [newline])
       (List.map_filter line (filter (\<lambda>l. l \<noteq> []) (map trim_space (split_on newline stdout)))))"

definition CondenseTranscript ::
    "decoder \<Rightarrow> (string \<Rightarrow> codexEvent option) \<Rightarrow> string \<Rightarrow> string \<Rightarrow> string \<times> bool" where
  "CondenseTranscript D decode backend stdout =
     (if backend = ''opencode'' then (condense_with (condenseOpenCodeLine D) stdout, True)
      else if backend = ''codex'' then (condense_with (condenseCodexLine decode) stdout, True)
      else (stdout, False))"

end
