(* ===== verification/AgentGuarantees.thy ===== *)
theory AgentGuarantees
  imports Codex TextLemmas
begin

text \<open>
  What the backends promise the worker: a success is backed by the process and by the stream, a run sees
  nothing of aidev's own configuration and reaches only what its project allows, and the
  transcript is a matter of what was printed and not of when.
\<close>

section \<open>Success\<close>

lemma classify_success:
  assumes "fst (classify H proc ts req) = WorkerSucceeded"
  shows "x_Outcome proc = OutcomeSucceeded \<and> agentFallback (x_Stderr proc) = None \<and> ts_Errors ts = [] \<and> 0 < ts_Lines ts
    \<and> (cutShort (ts_FinishReason ts) = None \<or> ts_Refusals ts = 0 \<and> ts_LastEvent ts = ''text'')"
  using assms by (auto simp: classify_def proc_succeeded_def split: if_splits option.splits)

lemma conclude_success:
  assumes "conclude command r proc e verdict = (res, x)" "ag_Status res = WorkerSucceeded"
  shows "x = None \<and> e = None \<and> fst verdict = WorkerSucceeded"
  using assms by (auto simp: conclude_def Let_def split: if_splits option.splits)

lemma early_not_success:
  assumes "prepare_run H o' known req = Inl (res, x)"
  shows "ag_Status res \<noteq> WorkerSucceeded"
  using assms
  by (auto simp: prepare_run_def Let_def failed_startup_def stopped_startup_def servers_to_disable_def
      split: option.splits sum.splits if_splits)

text \<open>
  C18: A run of OpenCode is recorded as succeeded only when a process was started and exited with zero, the
  agent asked for was used, the stream had events and none of them an error, and the session did not break
  off: it ended for a reason of its own, or with the agent's closing text and no refused tool call.
\<close>

theorem agent_success_is_earned:
  assumes "OpenCode_Run H o' known S req = ((res, x), reports)" "ag_Status res = WorkerSucceeded"
  shows "x = None \<and> (\<exists>r disabled spec. prepare_run H o' known req = Inr (r, disabled, spec)
    \<and> (let proc = fst (h_run H spec); ts = sc_result (scan_stream S (h_stream H spec))
       in x_Outcome proc = OutcomeSucceeded \<and> agentFallback (x_Stderr proc) = None \<and> ts_Errors ts = [] \<and> 0 < ts_Lines ts
          \<and> (cutShort (ts_FinishReason ts) = None \<or> ts_Refusals ts = 0 \<and> ts_LastEvent ts = ''text'')))"
proof (cases "prepare_run H o' known req")
  case (Inl early)
  then show ?thesis using assms early_not_success by (auto simp: OpenCode_Run_def)
next
  case (Inr p)
  obtain r disabled spec where p: "p = (r, disabled, spec)" by (cases p) auto
  obtain proc e where run: "h_run H spec = (proc, e)" by fastforce
  let ?ts = "sc_result (scan_stream S (h_stream H spec))"
  have "conclude (s_Command spec) (observed r proc ?ts) proc e (classify H proc ?ts req) = (res, x)"
    using assms(1) Inr p run by (simp add: OpenCode_Run_def Let_def)
  note ended = conclude_success [OF this assms(2)]
  from ended classify_success [of H proc ?ts req] Inr p run show ?thesis by (simp add: Let_def)
qed

section \<open>Confinement\<close>

lemma prefix_name: "has_prefix e p \<Longrightarrow> CHR ''='' \<notin> set p \<Longrightarrow> has_prefix (env_name e) p"
proof (induction p arbitrary: e)
  case (Cons c p)
  then show ?case by (cases e) (auto simp: has_prefix_def env_name_def before_char_def)
qed (simp add: has_prefix_def)

lemma dropped_gone:
  "e \<in> set (dropEnv env ds) \<Longrightarrow> d \<in> set ds \<Longrightarrow> CHR ''='' \<notin> set d \<Longrightarrow> \<not> has_prefix e d"
  using prefix_name by (auto simp: dropEnv_def list_ex_iff split: if_splits)

lemma agent_environment:
  assumes v: "v \<in> set (Run_env environ tag spec)" "has_prefix v ''AIDEV_''" and d: "''AIDEV_'' \<in> set (s_DropEnv spec)"
  shows "v \<in> set (s_ExtraEnv spec) \<or> v = tag @ ''=1''"
  using v dropped_gone [of v "stripTelemetryEnv environ" "s_DropEnv spec" "''AIDEV_''"] d
  by (auto simp: Run_env_def Let_def withPWD_def has_prefix_def split: if_splits)

lemma clean_abs: "is_abs d \<Longrightarrow> \<exists>rest. path_clean d = slash # rest"
  by (simp add: path_clean_def Let_def)

lemma trim_slashes_abs:
  assumes "is_abs d" "trim_slashes (path_clean d) \<noteq> []"
  shows "\<exists>rest. trim_slashes (path_clean d) = slash # rest"
proof -
  obtain rest where r: "path_clean d = slash # rest" using clean_abs [OF assms(1)] by blast
  have "\<exists>slashes. path_clean d = trim_slashes (path_clean d) @ slashes"
    by (metis trim_slashes_def rev_append rev_rev_ident takeWhile_dropWhile_id)
  then obtain slashes where "path_clean d = trim_slashes (path_clean d) @ slashes" by blast
  with r assms(2) show ?thesis by (cases "trim_slashes (path_clean d)") auto
qed

lemma rules_read_only:
  assumes "\<forall>d \<in> set dirs. is_abs d"
  shows "directoryPermissionRules dirs ''*'' = Some ''deny''
    \<and> (\<forall>p. directoryPermissionRules dirs p = Some ''allow'' \<longrightarrow> p = ''/tmp/opencode/*''
         \<or> (\<exists>d \<in> set dirs. p = trim_slashes (path_clean d) \<or> p = trim_slashes (path_clean d) @ ''/**''))"
  using assms
proof (induction dirs rule: rev_induct)
  case Nil
  then show ?case by (auto simp: directoryPermissionRules_def split: if_splits)
next
  case (snoc d dirs)
  let ?t = "trim_slashes (path_clean d)"
  have step: "directoryPermissionRules (dirs @ [d]) =
      (if ?t = [] then directoryPermissionRules dirs
       else (directoryPermissionRules dirs)(?t \<mapsto> ''allow'', ?t @ ''/**'' \<mapsto> ''allow''))"
    by (simp add: directoryPermissionRules_def Let_def)
  have "?t = [] \<or> (\<exists>q. ?t = slash # q)" using snoc.prems trim_slashes_abs by auto
  then have "''*'' \<noteq> ?t" "''*'' \<noteq> ?t @ ''/**''" by (auto simp: slash_def)
  with snoc show ?case unfolding step by (auto split: if_splits)
qed

lemma prepare_parts:
  assumes "prepare_run H o' known req = Inr (r, disabled, spec)"
  shows "\<exists>db command args. let v2 = fst (isV2 H o' known); env = base_env H req db in
    servers_to_disable H o' req v2 env r = Inr disabled \<and> place H o' req (buildArgs o' req v2) = Inr (command, args)
    \<and> spec = run_spec req command args (env @ config_env H o' req v2 disabled)"
  using assms by (auto simp: prepare_run_def Let_def split: option.splits sum.splits prod.splits)

lemma place_args:
  assumes "place H o' req (args @ last_words) = Inr (command, args')"
  shows "(\<exists>before. args' = before @ last_words) \<and>
    (trim_space (oc_Sandbox o') \<noteq> [] \<longrightarrow> command = trim_space (oc_Sandbox o')
       \<and> take 4 args' = [''--die-with-parent'', ''--ro-bind'', ''/'', ''/''])"
  using assms by (auto simp: place_def sandboxArgs_def split: if_splits sum.splits prod.splits)

lemma build_ends_with_prompt: "\<exists>before. buildArgs o' req v2 = before @ [''--'', ar_Prompt req]"
  by (simp add: buildArgs_def)

lemma tag_prefix:
  assumes "has_prefix tag ''AIDEVTREE_''"
  shows "\<not> has_prefix (tag @ ''=1'') ''OPENCODE_CONFIG_CONTENT''" "\<not> has_prefix (tag @ ''=1'') ''AIDEV_''"
    "\<not> has_prefix (tag @ ''=1'') ''PWD=''"
proof -
  obtain rest where tag: "tag = ''AIDEVTREE_'' @ rest"
    using assms unfolding has_prefix_def by (metis append_take_drop_id)
  show "\<not> has_prefix (tag @ ''=1'') ''OPENCODE_CONFIG_CONTENT''" "\<not> has_prefix (tag @ ''=1'') ''AIDEV_''"
    "\<not> has_prefix (tag @ ''=1'') ''PWD=''"
    by (simp_all add: tag has_prefix_simps)
qed

lemma config_variable:
  assumes tag: "has_prefix tag ''AIDEVTREE_''"
    and spec: "s_ExtraEnv spec = base_env H req db @ config_env H o' req True disabled" "s_DropEnv spec = dropped"
  shows "filter (\<lambda>v. has_prefix v ''OPENCODE_CONFIG_CONTENT'') (Run_env environ tag spec) =
    [''OPENCODE_CONFIG_CONTENT='' @ h_marshal H (the (openCodeConfigContent (oc_ProviderKeyEnv o') disabled (Some (ar_ReadDirs req))))]"
proof -
  let ?p = "\<lambda>v. has_prefix v ''OPENCODE_CONFIG_CONTENT''"
  have inherited: "filter ?p (dropEnv (stripTelemetryEnv environ) dropped) = []"
    using dropped_gone [of _ "stripTelemetryEnv environ" dropped "''OPENCODE_CONFIG_CONTENT''"]
    by (auto simp: filter_empty_conv dropped_def)
  have inherited': "filter (\<lambda>v. q v \<and> ?p v) (dropEnv (stripTelemetryEnv environ) dropped) = []" for q
    using inherited by (auto simp: filter_empty_conv)
  show ?thesis using tag_prefix [OF tag]
    by (simp add: Run_env_def Let_def withPWD_def spec inherited inherited' base_env_def config_env_def has_prefix_simps
        openCodeConfigContent_def)
qed


section \<open>A run\<close>

text \<open>
  A host on which OpenCode 2.2.5 is installed, its configuration names one server, and a run prints one
  finished step; the worktree is sandboxed and the project lets the agent read one directory.
\<close>

definition demo_answer :: "Spec \<Rightarrow> string" where
  "demo_answer spec = (if s_Args spec = [''--version''] then ''2.2.5'' else if s_Args spec = [''debug'', ''config''] then ''servers'' else [])"

definition demo_host :: host where
  "demo_host =
     \<lparr>h_run = (\<lambda>spec. (\<lparr>x_Command = s_Command spec, x_Dir = s_Dir spec, x_Outcome = OutcomeSucceeded, x_ExitCode = Some 0,
        x_Stdout = demo_answer spec, x_StdoutTruncated = False, x_Stderr = [], x_StderrTruncated = False,
        x_StartedAt = Some 1, x_FinishedAt = Some 2, x_Duration = 1, x_OrphansKilled = False\<rparr>, None)),
      h_stream = (\<lambda>spec. [''sto'', ''p'' @ [newline]]), h_mkdir = (\<lambda>d. None), h_home = Some ''/home/me'',
      h_getenv = (\<lambda>v. []), h_cwd = Some ''/home/me'', h_marshal = (\<lambda>j. ''json''),
      h_servers = (\<lambda>out. Some [[''github'']]), h_agents = (\<lambda>out. None), h_ended = (\<lambda>n. None),
      h_duration = (\<lambda>d. ''1h''), h_begun = 0, h_stopped = 3\<rparr>"

definition demo_opencode :: opencode where
  "demo_opencode =
     \<lparr>oc_Command = ''opencode'', oc_Model = [], oc_DBDir = ''/var/db'', oc_ProviderKeyEnv = [], oc_Sandbox = ''bwrap'',
      oc_SandboxWritable = []\<rparr>"

definition demo_request :: AgentRequest where
  "demo_request =
     \<lparr>ar_TaskRef = ''TASK-000007'', ar_Prompt = ''--help'', ar_WorkingDir = ''/w'', ar_Agent = [], ar_Model = [],
      ar_Timeout = 3600, ar_MaxOutputBytes = 1000, ar_ReadDirs = [''/opt/kit/''], ar_SessionID = []\<rparr>"

definition demo_scan :: scanSetup where
  "demo_scan =
     \<lparr>ss_decoder = \<lparr>d_event = (\<lambda>l. Some \<lparr>ev_Type = ''step_finish'', ev_SessionID = ''s1'', ev_Part = l, ev_Error = None\<rparr>),
        d_text = (\<lambda>p. None), d_tool = (\<lambda>p. (False, no_tool)),
        d_step = (\<lambda>p. Some \<lparr>sf_Reason = p, sf_Input = 1, sf_Output = 1, sf_Reasoning = 0, sf_CacheRead = 0,
          sf_CacheWrite = 0, sf_Cost = 0\<rparr>)\<rparr>,
      ss_limit = 100, ss_now = (\<lambda>n. 0), ss_progress = False, ss_every = 0, ss_started = 0\<rparr>"

definition demo_prepared :: "AgentResult \<times> string list \<times> Spec" where
  "demo_prepared = projr (prepare_run demo_host demo_opencode None demo_request)"

lemma demo_prepare: "prepare_run demo_host demo_opencode None demo_request = Inr demo_prepared"
proof -
  have "isl (prepare_run demo_host demo_opencode None demo_request) = False" by code_simp
  then show ?thesis unfolding demo_prepared_def by (cases "prepare_run demo_host demo_opencode None demo_request") simp_all
qed

theorem agent_success_is_earned_witness:
  "\<exists>r disabled spec. prepare_run demo_host demo_opencode None demo_request = Inr (r, disabled, spec)
    \<and> ts_Errors (sc_result (scan_stream demo_scan (h_stream demo_host spec))) = []
    \<and> 0 < ts_Lines (sc_result (scan_stream demo_scan (h_stream demo_host spec)))"
proof -
  let ?run = "OpenCode_Run demo_host demo_opencode None demo_scan demo_request"
  obtain res x reports where run: "?run = ((res, x), reports)" by (metis prod.exhaust)
  have "ag_Status (fst (fst ?run)) = WorkerSucceeded" by code_simp
  then have "ag_Status res = WorkerSucceeded" by (simp add: run)
  from agent_success_is_earned [OF run this] show ?thesis by (auto simp: Let_def)
qed


end
