(* ===== verification/Coverage.thy ===== *)
theory Coverage
  imports OpenCode
begin

text \<open>
  \<open>internal/coverage\<close>: which of the lines a task changed its tests ran. The diff and the profile are read
  as text, changed lines are compared with the profile's blocks, and \<open>Analyze\<close> measures module by
  module. The file system and the processes are the record \<open>measurer\<close>.
\<close>

section \<open>The diff\<close>

text \<open>A Go map from file to lines, as the list of its entries in the order they came.\<close>

fun add_line :: "string \<Rightarrow> int \<Rightarrow> (string \<times> int list) list \<Rightarrow> (string \<times> int list) list" where
  "add_line f n [] = [(f, [n])]"
| "add_line f n ((g, ns) # m) = (if g = f then (g, ns @ [n]) # m else (g, ns) # add_line f n m)"

record diffReader =
  dr_out :: "(string \<times> int list) list"
  dr_file :: string
  dr_next :: int

text \<open>\<open>next, _ = strconv.Atoi\<close>: what \<open>Atoi\<close> gives beside an error, 0 or the nearest bound.\<close>

definition atoi_value :: "string \<Rightarrow> int" where
  "atoi_value s =
     (case atoi s of Some n \<Rightarrow> n
      | None \<Rightarrow> (let body = (if take 1 s = ''-'' \<or> take 1 s = ''+'' then drop 1 s else s)
                 in if body = [] \<or> \<not> list_all is_digit body then 0
                    else if take 1 s = ''-'' then - (2 ^ 63) else 2 ^ 63 - 1))"

definition diff_line :: "string \<Rightarrow> diffReader \<Rightarrow> diffReader" where
  "diff_line line r =
     (if has_prefix line ''+++ ''
      then (let name = trim_prefix line ''+++ ''
            in r\<lparr>dr_file := (if name = ''/dev/null'' then [] else trim_prefix name ''b/'')\<rparr>)
      else if has_prefix line ''@@ ''
      then (let plus = go_fields line
            in if length plus < 3 then r
               else r\<lparr>dr_next := atoi_value (fst (cut_at CHR '','' (trim_prefix (plus ! 2) ''+'')))\<rparr>)
      else if has_prefix line ''+'' \<and> \<not> has_prefix line ''+++''
      then (if dr_file r \<noteq> [] \<and> dr_next r > 0
            then r\<lparr>dr_out := add_line (dr_file r) (dr_next r) (dr_out r), dr_next := dr_next r + 1\<rparr> else r)
      else r)"

definition AddedLines :: "string \<Rightarrow> (string \<times> int list) list" where
  "AddedLines diff = dr_out (fold diff_line (split_on nl diff) \<lparr>dr_out = [], dr_file = [], dr_next = 0\<rparr>)"

section \<open>The profile\<close>

record Block =
  bl_File :: string
  bl_StartLine :: int
  bl_EndLine :: int
  bl_Count :: int

definition line_of :: "string \<Rightarrow> int option" where
  "line_of pos = atoi (fst (cut_at CHR ''.'' pos))"

definition max_profile_line :: nat where "max_profile_line = 4194304"

definition colon_char :: char where "colon_char = CHR 0x3A"

text \<open>\<open>line[:colon]\<close> and \<open>line[colon+1:]\<close> for the last colon.\<close>

definition before_last :: "char \<Rightarrow> string \<Rightarrow> string" where
  "before_last c s = rev (drop 1 (dropWhile (\<lambda>x. x \<noteq> c) (rev s)))"

definition after_last :: "char \<Rightarrow> string \<Rightarrow> string" where
  "after_last c s = rev (takeWhile (\<lambda>x. x \<noteq> c) (rev s))"

definition profile_block :: "string \<Rightarrow> Block option" where
  "profile_block line =
     (if colon_char \<notin> set line then None
      else (case go_fields (after_last colon_char line) of
        [extent, statements, count] \<Rightarrow>
          (case cut_at CHR '','' extent of (start, finish, found) \<Rightarrow>
             if \<not> found then None
             else (case (line_of start, line_of finish, atoi count) of
               (Some a, Some b, Some n) \<Rightarrow>
                 Some \<lparr>bl_File = before_last colon_char line, bl_StartLine = a, bl_EndLine = b, bl_Count = n\<rparr>
             | _ \<Rightarrow> None))
      | _ \<Rightarrow> None))"

text \<open>
  The lines as \<open>bufio.Scanner\<close> gives them; \<open>first\<close> is whether the mode line is still to come. A line that
  does not fit its buffer ends the scan with an error.
\<close>

fun profile_lines :: "bool \<Rightarrow> string list \<Rightarrow> string + Block list" where
  "profile_lines first [] = (if first then Inl ''empty'' else Inr [])"
| "profile_lines first (raw # rest) =
     (if length raw \<ge> max_profile_line then Inl ''token too long''
      else (let line = trim_space raw
            in if line = [] then profile_lines first rest
               else if first
               then (if has_prefix line ''mode:'' then profile_lines False rest else Inl (''not a mode line '' @ go_quote line))
               else (case profile_block line of
                       None \<Rightarrow> Inl (''malformed '' @ go_quote line)
                     | Some b \<Rightarrow> (case profile_lines False rest of Inl e \<Rightarrow> Inl e | Inr bs \<Rightarrow> Inr (b # bs)))))"

definition ParseProfile :: "string \<Rightarrow> string + Block list" where
  "ParseProfile profile = profile_lines True (split_on nl profile)"

section \<open>The comparison\<close>

type_synonym LineRange = "int \<times> int"

record File =
  fl_Path :: string
  fl_Changed :: nat
  fl_NotRun :: nat
  fl_NotRunLines :: "LineRange list"

record coverageReport =
  rp_Files :: "File list"
  rp_Changed :: nat
  rp_NotRun :: nat

definition add_range :: "LineRange list \<Rightarrow> int \<Rightarrow> LineRange list" where
  "add_range out l =
     (if out \<noteq> [] \<and> snd (last out) = l - 1 then butlast out @ [(fst (last out), l)] else out @ [(l, l)])"

definition ranges :: "int list \<Rightarrow> LineRange list" where
  "ranges lines = foldl add_range [] (sort lines)"

definition in_block :: "Block list \<Rightarrow> int \<Rightarrow> bool" where
  "in_block bs line = list_ex (\<lambda>b. bl_StartLine b \<le> line \<and> line \<le> bl_EndLine b) bs"

definition ran_in :: "Block list \<Rightarrow> int \<Rightarrow> bool" where
  "ran_in bs line = list_ex (\<lambda>b. bl_StartLine b \<le> line \<and> line \<le> bl_EndLine b \<and> bl_Count b > 0) bs"

definition compare_file :: "Block list \<Rightarrow> string \<times> int list \<Rightarrow> File option" where
  "compare_file blocks entry =
     (let bs = filter (\<lambda>b. bl_File b = fst entry) blocks; changed = filter (in_block bs) (snd entry);
          notRun = filter (\<lambda>l. \<not> ran_in bs l) changed
      in if bs = [] \<or> changed = [] then None
         else Some \<lparr>fl_Path = fst entry, fl_Changed = length changed, fl_NotRun = length notRun, fl_NotRunLines = ranges notRun\<rparr>)"

definition add_file :: "coverageReport \<Rightarrow> File \<Rightarrow> coverageReport" where
  "add_file r f =
     \<lparr>rp_Files = rp_Files r @ [f], rp_Changed = rp_Changed r + fl_Changed f, rp_NotRun = rp_NotRun r + fl_NotRun f\<rparr>"

definition empty_report :: coverageReport where
  "empty_report = \<lparr>rp_Files = [], rp_Changed = 0, rp_NotRun = 0\<rparr>"

definition Compare :: "(string \<times> int list) list \<Rightarrow> Block list \<Rightarrow> coverageReport" where
  "Compare added blocks = foldl add_file empty_report (List.map_filter (compare_file blocks) (sort_key fst added))"

section \<open>Modules\<close>

definition trim_quotes :: "string \<Rightarrow> string" where
  "trim_quotes s = (let p = (\<lambda>c. c = CHR 0x22) in rev (dropWhile p (rev (dropWhile p s))))"

definition module_line :: "string \<Rightarrow> string option" where
  "module_line line =
     (case cut_prefix (trim_space line) ''module'' of
        None \<Rightarrow> None
      | Some rest \<Rightarrow>
          if rest = [] \<or> hd rest = CHR '' '' \<or> hd rest = tab then Some (trim_quotes (trim_space rest)) else None)"

definition ModulePath :: "string \<Rightarrow> string" where
  "ModulePath gomod =
     (case List.map_filter module_line (split_on nl gomod) of [] \<Rightarrow> [] | path # _ \<Rightarrow> path)"

record measurer =
  me_gomod :: "string \<Rightarrow> string option"
  me_temp :: "string \<Rightarrow> werr + string"
  me_run :: "Spec \<Rightarrow> Result \<times> string option"
  me_read :: "string \<Rightarrow> werr + string"

text \<open>\<open>me_gomod d\<close> is the content of \<open>go.mod\<close> in the directory \<open>d\<close> of the checkout, if it can be read.\<close>

function owningModule :: "(string \<Rightarrow> string option) \<Rightarrow> string \<Rightarrow> (string \<times> string) option" where
  "owningModule gomod dir =
     (case gomod dir of
        Some raw \<Rightarrow> if ModulePath raw \<noteq> [] then Some (dir, ModulePath raw) else None
      | None \<Rightarrow> if top_dir dir then None else owningModule gomod (path_dir dir))"
  by pat_completeness auto
termination
  by (relation "measure (\<lambda>(g, d). if top_dir d then 0 else Suc (length d))") (auto simp: path_dir_shrinks)

declare owningModule.simps [simp del]

record coverageOptions =
  co_Dir :: string
  co_Diff :: string
  co_Timeout :: duration
  co_MaxOutputBytes :: int

definition package_of :: "string \<Rightarrow> string \<Rightarrow> string" where
  "package_of dir file =
     (let rel = (if dir = ''.'' then path_dir file else trim_prefix (trim_prefix (path_dir file) dir) ''/'')
      in if rel = ''.'' \<or> rel = [] then ''.'' else ''./'' @ rel)"

definition lastLine :: "string \<Rightarrow> string" where
  "lastLine s = (let t = trim_space s in if nl \<in> set t then after_last nl t else t)"

definition profile_spec :: "coverageOptions \<Rightarrow> string \<Rightarrow> string \<Rightarrow> string list \<Rightarrow> Spec" where
  "profile_spec opts dir out pkgs =
     \<lparr>s_Command = ''go'', s_Args = [''test'', ''-count=1'', ''-coverprofile='' @ out] @ pkgs,
      s_Dir = path_clean (co_Dir opts @ ''/'' @ dir), s_ExtraEnv = [], s_FollowSessions = True,
      s_DropEnv = [''AIDEV_''], s_Timeout = co_Timeout opts, s_MaxOutputBytes = co_MaxOutputBytes opts\<rparr>"

definition profileModule :: "measurer \<Rightarrow> coverageOptions \<Rightarrow> string \<Rightarrow> string list \<Rightarrow> werr + Block list" where
  "profileModule M opts dir pkgs =
     (case me_temp M dir of
        Inl e \<Rightarrow> Inl e
      | Inr tmp \<Rightarrow>
          (let out = path_clean (tmp @ ''/cover.out''); (proc, e) = me_run M (profile_spec opts dir out pkgs)
           in case e of
                Some m \<Rightarrow> Inl (WAgentError (''go test for coverage in '' @ dir @ '': '' @ m))
              | None \<Rightarrow>
                  if \<not> proc_succeeded proc
                  then Inl (WAgentError (''go test for coverage in '' @ dir @ '' failed: '' @ lastLine (x_Stdout proc @ x_Stderr proc)))
                  else (case me_read M out of
                          Inl x \<Rightarrow> Inl (WWrapped (''go test for coverage in '' @ dir @ '' wrote no profile'') x)
                        | Inr raw \<Rightarrow>
                            (case ParseProfile raw of Inl m \<Rightarrow> Inl (WMessage m) | Inr bs \<Rightarrow> Inr bs))))"

text \<open>The profile names files by import path, the diff by path in the repository.\<close>

definition to_repository :: "string \<Rightarrow> string \<Rightarrow> Block \<Rightarrow> Block option" where
  "to_repository dir path b =
     (case cut_prefix (bl_File b) (path @ ''/'') of
        None \<Rightarrow> None
      | Some rest \<Rightarrow> Some (b\<lparr>bl_File := (if dir = ''.'' then rest else dir @ ''/'' @ rest)\<rparr>))"

definition source_changes :: "string \<Rightarrow> (string \<times> int list) list" where
  "source_changes diff = filter (\<lambda>(f, _). has_suffix f ''.go'' \<and> \<not> has_suffix f ''_test.go'') (AddedLines diff)"

fun profile_each :: "measurer \<Rightarrow> coverageOptions \<Rightarrow> (string \<times> string \<times> string list) list \<Rightarrow> werr + Block list" where
  "profile_each M opts [] = Inr []"
| "profile_each M opts ((dir, path, pkgs) # ms) =
     (case profileModule M opts dir pkgs of
        Inl e \<Rightarrow> Inl e
      | Inr got \<Rightarrow>
          (case profile_each M opts ms of
             Inl e \<Rightarrow> Inl e | Inr bs \<Rightarrow> Inr (List.map_filter (to_repository dir path) got @ bs)))"

text \<open>The modules the changed files belong to, by directory, each with the packages to test.\<close>

definition modules_of :: "(string \<Rightarrow> string option) \<Rightarrow> string list \<Rightarrow> (string \<times> string \<times> string list) list" where
  "modules_of gomod files =
     (let owned = List.map_filter (\<lambda>f. map_option (\<lambda>(d, p). (d, p, package_of d f)) (owningModule gomod (path_dir f))) files
      in map (\<lambda>d. (d, fst (snd (hd (filter (\<lambda>m. fst m = d) owned))),
                    sort_unique (map (\<lambda>m. snd (snd m)) (filter (\<lambda>m. fst m = d) owned))))
           (sort_unique (map fst owned)))"

definition Analyze :: "measurer \<Rightarrow> coverageOptions \<Rightarrow> werr + coverageReport" where
  "Analyze M opts =
     (let added = source_changes (co_Diff opts)
      in if added = [] then Inr empty_report
         else (case profile_each M opts (modules_of (me_gomod M) (map fst added)) of
                 Inl e \<Rightarrow> Inl e | Inr blocks \<Rightarrow> Inr (Compare added blocks)))"

end
