(* ===== verification/CoverageGuarantees.thy ===== *)
theory CoverageGuarantees
  imports Coverage TextLemmas
begin

text \<open>
  What the coverage report is worth: the comparison counts exactly the changed lines some block holds and
  none of whose blocks ran, the ranges are those lines and no others, and the lines read from a diff are
  the ones the diff adds, unless an added line itself starts with two plus signs.
\<close>

section \<open>Ranges\<close>

definition span_of :: "LineRange list \<Rightarrow> int list" where
  "span_of rs = concat (map (\<lambda>(a, b). [a..b]) rs)"

lemma span_snoc: "span_of (rs @ [(a, b)]) = span_of rs @ [a..b]"
  by (simp add: span_of_def)

lemma add_range_span:
  assumes "list_all (\<lambda>(a, b). a \<le> b) out"
  shows "span_of (add_range out l) = span_of out @ [l] \<and> list_all (\<lambda>(a, b). a \<le> b) (add_range out l)"
proof (cases "out \<noteq> [] \<and> snd (last out) = l - 1")
  case True
  then obtain rs a where out: "out = rs @ [(a, l - 1)]" by (cases out rule: rev_cases) auto
  with assms have "a \<le> l - 1" by simp
  then show ?thesis using assms upto_rec2 [of a l] by (simp add: add_range_def out span_snoc)
next
  case False
  then show ?thesis using assms by (auto simp: add_range_def span_snoc)
qed

lemma foldl_ranges_span:
  "list_all (\<lambda>(a, b). a \<le> b) out \<Longrightarrow> span_of (foldl add_range out ls) = span_of out @ ls"
  by (induction ls arbitrary: out) (auto simp: add_range_span)

lemma span_ranges: "span_of (ranges ls) = sort ls"
  using foldl_ranges_span [of "[]" "sort ls"] by (simp add: ranges_def span_of_def)

abbreviation apart :: "LineRange list \<Rightarrow> bool" where
  "apart \<equiv> sorted_wrt (\<lambda>r s. snd r + 1 < fst s)"

lemma foldl_ranges_apart:
  assumes "apart out" "list_all (\<lambda>(a, b). a \<le> b) out" "ascending ls" "\<forall>l \<in> set ls. \<forall>r \<in> set out. snd r < l"
  shows "apart (foldl add_range out ls)"
  using assms
proof (induction ls arbitrary: out)
  case (Cons l ls)
  have "apart (add_range out l) \<and> (\<forall>k \<in> set ls. \<forall>r \<in> set (add_range out l). snd r < k)"
  proof (cases "out \<noteq> [] \<and> snd (last out) = l - 1")
    case True
    then obtain rs a where out: "out = rs @ [(a, l - 1)]" by (cases out rule: rev_cases) auto
    then show ?thesis using Cons.prems by (auto simp: add_range_def sorted_wrt_append)
  next
    case False
    have "snd r + 1 < l" if "r \<in> set out" for r
    proof (cases out rule: rev_cases)
      case (snoc rs q)
      have "snd q \<noteq> l - 1" "snd q < l" using False Cons.prems(4) snoc by auto
      moreover have "snd r \<le> snd q"
        using that snoc Cons.prems(1,2) by (auto simp: sorted_wrt_append list_all_iff)
      ultimately show ?thesis by simp
    qed (use that in simp)
    then show ?thesis using Cons.prems False by (auto simp: add_range_def sorted_wrt_append)
  qed
  then show ?case using Cons.IH [of "add_range out l"] Cons.prems(2,3) add_range_span by simp
qed simp

lemma ranges_apart: "distinct ls \<Longrightarrow> apart (ranges ls)"
  unfolding ranges_def by (rule foldl_ranges_apart) (auto simp: strict_sorted_iff)

section \<open>The comparison\<close>

definition executable :: "Block list \<Rightarrow> string \<Rightarrow> int \<Rightarrow> bool" where
  "executable blocks p l = (\<exists>b \<in> set blocks. bl_File b = p \<and> bl_StartLine b \<le> l \<and> l \<le> bl_EndLine b)"

definition covered :: "Block list \<Rightarrow> string \<Rightarrow> int \<Rightarrow> bool" where
  "covered blocks p l = (\<exists>b \<in> set blocks. bl_File b = p \<and> bl_StartLine b \<le> l \<and> l \<le> bl_EndLine b \<and> bl_Count b > 0)"

definition counted :: "Block list \<Rightarrow> string \<times> int list \<Rightarrow> int list" where
  "counted blocks entry = filter (executable blocks (fst entry)) (snd entry)"

definition missed :: "Block list \<Rightarrow> string \<times> int list \<Rightarrow> int list" where
  "missed blocks entry = filter (\<lambda>l. \<not> covered blocks (fst entry) l) (counted blocks entry)"

lemma compare_file_spec:
  "compare_file blocks entry =
     (if counted blocks entry = [] then None
      else Some \<lparr>fl_Path = fst entry, fl_Changed = length (counted blocks entry),
        fl_NotRun = length (missed blocks entry), fl_NotRunLines = ranges (missed blocks entry)\<rparr>)"
proof -
  let ?bs = "filter (\<lambda>b. bl_File b = fst entry) blocks"
  have "in_block ?bs = executable blocks (fst entry)" "ran_in ?bs = covered blocks (fst entry)"
    by (auto simp: in_block_def ran_in_def executable_def covered_def list_ex_iff fun_eq_iff)
  moreover have "?bs = [] \<Longrightarrow> counted blocks entry = []"
    by (auto simp: counted_def executable_def filter_empty_conv)
  ultimately show ?thesis by (auto simp: compare_file_def Let_def counted_def missed_def)
qed

lemma foldl_add_file:
  "foldl add_file r fs =
     \<lparr>rp_Files = rp_Files r @ fs, rp_Changed = rp_Changed r + (\<Sum>f\<leftarrow>fs. fl_Changed f), rp_NotRun = rp_NotRun r + (\<Sum>f\<leftarrow>fs. fl_NotRun f)\<rparr>"
  by (induction fs arbitrary: r) (simp_all add: add_file_def)

lemma sum_map_filter:
  assumes "\<And>x. f x = None \<Longrightarrow> h x = (0 :: nat)" "\<And>x y. f x = Some y \<Longrightarrow> g y = h x"
  shows "(\<Sum>y\<leftarrow>List.map_filter f xs. g y) = (\<Sum>x\<leftarrow>xs. h x)"
  by (induction xs) (auto simp: List.map_filter_def assms split: option.splits)

lemma sum_sort_key: "(\<Sum>x\<leftarrow>sort_key k xs. (h x :: nat)) = (\<Sum>x\<leftarrow>xs. h x)"
proof -
  have insort: "(\<Sum>x\<leftarrow>insort_key k y ys. h x) = h y + (\<Sum>x\<leftarrow>ys. h x)" for y ys by (induction ys) auto
  show ?thesis by (induction xs) (simp_all add: insort)
qed

text \<open>
  C32: The coverage report counts, file by file in the order of their paths, exactly the changed lines some
  block of the profile holds; the lines of its ranges are, in order, exactly those of them none of
  whose blocks ran, each range ends before a line that is not one of them, and the totals are the sums
  over the change.
\<close>

theorem coverage_report_is_exact:
  "let report = Compare added blocks
   in map fl_Path (rp_Files report) = map fst (filter (\<lambda>e. counted blocks e \<noteq> []) (sort_key fst added))
      \<and> (\<forall>f \<in> set (rp_Files report). \<exists>lines. (fl_Path f, lines) \<in> set added
           \<and> fl_Changed f = length (counted blocks (fl_Path f, lines))
           \<and> span_of (fl_NotRunLines f) = sort (missed blocks (fl_Path f, lines))
           \<and> (distinct lines \<longrightarrow> apart (fl_NotRunLines f)))
      \<and> rp_Changed report = (\<Sum>e\<leftarrow>added. length (counted blocks e))
      \<and> rp_NotRun report = (\<Sum>e\<leftarrow>added. length (missed blocks e))"
proof -
  let ?fs = "List.map_filter (compare_file blocks) (sort_key fst added)"
  have report: "Compare added blocks =
      \<lparr>rp_Files = ?fs, rp_Changed = (\<Sum>f\<leftarrow>?fs. fl_Changed f), rp_NotRun = (\<Sum>f\<leftarrow>?fs. fl_NotRun f)\<rparr>"
    by (simp add: Compare_def foldl_add_file empty_report_def)
  have "map fl_Path (List.map_filter (compare_file blocks) es) = map fst (filter (\<lambda>e. counted blocks e \<noteq> []) es)" for es
    by (induction es) (simp_all add: List.map_filter_def compare_file_spec)
  moreover have "(\<Sum>f\<leftarrow>?fs. fl_Changed f) = (\<Sum>e\<leftarrow>sort_key fst added. length (counted blocks e))"
    by (rule sum_map_filter) (auto simp: compare_file_spec split: if_splits)
  moreover have "(\<Sum>f\<leftarrow>?fs. fl_NotRun f) = (\<Sum>e\<leftarrow>sort_key fst added. length (missed blocks e))"
    by (rule sum_map_filter) (auto simp: compare_file_spec missed_def split: if_splits)
  moreover have "\<exists>lines. (fl_Path f, lines) \<in> set added \<and> fl_Changed f = length (counted blocks (fl_Path f, lines))
      \<and> span_of (fl_NotRunLines f) = sort (missed blocks (fl_Path f, lines))
      \<and> (distinct lines \<longrightarrow> apart (fl_NotRunLines f))" if "f \<in> set ?fs" for f
  proof -
    from that obtain p lines where "(p, lines) \<in> set added" "compare_file blocks (p, lines) = Some f"
      by (auto simp: List.map_filter_def)
    moreover have "distinct lines \<longrightarrow> apart (ranges (missed blocks (p, lines)))"
      by (simp add: missed_def counted_def ranges_apart)
    ultimately show ?thesis by (auto simp: compare_file_spec span_ranges split: if_splits)
  qed
  ultimately show ?thesis by (simp add: report Let_def sum_sort_key)
qed

theorem coverage_report_is_exact_witness:
  "span_of (fl_NotRunLines (hd (rp_Files (Compare [(''a.go'', [3, 4, 9])]
     [\<lparr>bl_File = ''a.go'', bl_StartLine = 1, bl_EndLine = 4, bl_Count = 0\<rparr>])))) = [3, 4]"
proof -
  let ?added = "[(''a.go'', [3, 4, 9 :: int])]"
  let ?blocks = "[\<lparr>bl_File = ''a.go'', bl_StartLine = 1, bl_EndLine = 4, bl_Count = 0\<rparr>]"
  let ?f = "hd (rp_Files (Compare ?added ?blocks))"
  have "map fl_Path (rp_Files (Compare ?added ?blocks)) = [''a.go'']" by code_simp
  then have "?f \<in> set (rp_Files (Compare ?added ?blocks))" "fl_Path ?f = ''a.go''"
    by (cases "rp_Files (Compare ?added ?blocks)"; simp)+
  with coverage_report_is_exact [of ?added ?blocks]
  have "span_of (fl_NotRunLines ?f) = sort (missed ?blocks (''a.go'', [3, 4, 9]))" by (auto simp: Let_def)
  also have "\<dots> = [3, 4]" by code_simp
  finally show ?thesis .
qed

section \<open>The lines a diff adds\<close>

text \<open>
  A diff as git prints it with \<open>-U0\<close>: for each file its header, the name it has afterwards, if it still
  exists, and its hunks, each with the lines it takes out and puts in.
\<close>

record hunk =
  hk_OldStart :: nat
  hk_Removed :: "string list"
  hk_Start :: nat
  hk_Added :: "string list"
  hk_Context :: string

record fileDiff =
  fd_Head :: "string list"
  fd_Name :: "string option"
  fd_Hunks :: "hunk list"

definition extent :: "nat \<Rightarrow> nat \<Rightarrow> string" where
  "extent start n = nat_dec start @ (if n = 1 then [] else CHR '','' # nat_dec n)"

definition hunk_header :: "hunk \<Rightarrow> string" where
  "hunk_header h = ''@@ -'' @ extent (hk_OldStart h) (length (hk_Removed h)) @ '' +''
     @ extent (hk_Start h) (length (hk_Added h)) @ '' @@'' @ hk_Context h"

definition render_hunk :: "hunk \<Rightarrow> string list" where
  "render_hunk h = hunk_header h # map ((#) CHR ''-'') (hk_Removed h) @ map ((#) CHR ''+'') (hk_Added h)"

definition render_file :: "fileDiff \<Rightarrow> string list" where
  "render_file f = fd_Head f @ [''+++ '' @ (case fd_Name f of None \<Rightarrow> ''/dev/null'' | Some n \<Rightarrow> ''b/'' @ n)]
     @ concat (map render_hunk (fd_Hunks f))"

definition render_diff :: "fileDiff list \<Rightarrow> string" where
  "render_diff fs = join_with [nl] (concat (map render_file fs))"

definition hunk_lines :: "hunk \<Rightarrow> int list" where
  "hunk_lines h = map (\<lambda>i. int (hk_Start h + i)) [0..<length (hk_Added h)]"

definition file_lines :: "fileDiff \<Rightarrow> int list" where
  "file_lines f = concat (map hunk_lines (fd_Hunks f))"

definition lines_added :: "fileDiff list \<Rightarrow> (string \<times> int list) list" where
  "lines_added fs = concat (map (\<lambda>f. case fd_Name f of None \<Rightarrow> [] | Some n \<Rightarrow> if file_lines f = [] then [] else [(n, file_lines f)]) fs)"

definition one_liner :: "string \<Rightarrow> bool" where "one_liner s = (nl \<notin> set s)"

definition hunk_ok :: "hunk \<Rightarrow> bool" where
  "hunk_ok h = ((hk_Added h = [] \<or> 0 < hk_Start h) \<and> int (hk_Start h) < 2 ^ 63 \<and> one_liner (hk_Context h)
     \<and> list_all one_liner (hk_Removed h)
     \<and> list_all (\<lambda>l. one_liner l \<and> \<not> has_prefix l ''++'') (hk_Added h))"

definition file_ok :: "fileDiff \<Rightarrow> bool" where
  "file_ok f = (list_all (\<lambda>l. one_liner l \<and> \<not> has_prefix l ''+'' \<and> \<not> has_prefix l ''@@ '') (fd_Head f)
     \<and> (case fd_Name f of None \<Rightarrow> True | Some n \<Rightarrow> n \<noteq> [] \<and> one_liner n) \<and> list_all hunk_ok (fd_Hunks f))"

subsection \<open>Words\<close>

definition word_char :: "char \<Rightarrow> bool" where
  "word_char c = (c \<in> set ''0123456789@+-,.'')"

lemma word_char_no_space: "word_char c \<Longrightarrow> space_len (c # s) = 0"
proof -
  assume "word_char c"
  moreover have "list_all (\<lambda>c. c \<notin> set ascii_spaces \<and> c \<notin> set (map hd wide_spaces)) ''0123456789@+-,.''" by code_simp
  ultimately have c: "c \<notin> set ascii_spaces" "c \<notin> set (map hd wide_spaces)"
    unfolding word_char_def list_all_iff by blast+
  have "list_all (\<lambda>w. w \<noteq> []) wide_spaces" by code_simp
  then have "\<not> has_prefix (c # s) w" if "w \<in> set wide_spaces" for w
    using c(2) that by (cases w) (auto simp: list_all_iff has_prefix_simps image_iff)
  then have "find (has_prefix (c # s)) wide_spaces = None" by (simp add: find_None_iff)
  then show ?thesis using c(1) by (simp add: space_len_def)
qed

lemma fields_word: "list_all word_char w \<Longrightarrow> fields_loop cur (w @ s) = fields_loop (cur @ w) s"
proof (induction w arbitrary: cur)
  case (Cons c w)
  have "fields_loop cur (c # w @ s) = fields_loop (cur @ [c]) (w @ s)"
    using Cons.prems word_char_no_space by (subst fields_loop.simps) simp
  then show ?case using Cons by simp
qed simp

lemma fields_space: "fields_loop (c # cur) (CHR '' '' # s) = (c # cur) # fields_loop [] s"
  by (subst fields_loop.simps) (simp add: space_len_def ascii_spaces_def)

lemma digit_word: "d < 10 \<Longrightarrow> word_char (digit_char d)"
proof -
  have "list_all (\<lambda>d. word_char (digit_char d)) [0..<10]" by code_simp
  then show "d < 10 \<Longrightarrow> word_char (digit_char d)" by (simp add: list_all_iff)
qed

lemma nat_dec_word: "list_all word_char (nat_dec n)"
proof (induction n rule: nat_dec.induct)
  case (1 n)
  then show ?case by (subst nat_dec.simps) (simp add: digit_word)
qed

lemma nat_dec_not_Nil: "nat_dec n \<noteq> []"
  by (subst nat_dec.simps) simp

lemma extent_word: "list_all word_char (extent a b)"
  by (simp add: extent_def nat_dec_word) (simp add: word_char_def)

lemma header_fields: "\<exists>rest. go_fields (hunk_header h) = ''@@'' # (CHR ''-'' # extent (hk_OldStart h) (length (hk_Removed h)))
    # (CHR ''+'' # extent (hk_Start h) (length (hk_Added h))) # rest"
proof -
  let ?old = "CHR ''-'' # extent (hk_OldStart h) (length (hk_Removed h))"
  let ?new = "CHR ''+'' # extent (hk_Start h) (length (hk_Added h))"
  let ?rest = "CHR ''@'' # CHR ''@'' # hk_Context h"
  have words: "list_all word_char ''@@''" "list_all word_char ?old" "list_all word_char ?new"
    by (simp_all add: extent_word) (simp_all add: word_char_def)
  have header: "hunk_header h = ''@@'' @ CHR '' '' # ?old @ CHR '' '' # ?new @ CHR '' '' # ?rest"
    by (simp add: hunk_header_def)
  have "go_fields (hunk_header h) = ''@@'' # ?old # ?new # fields_loop [] ?rest"
    unfolding go_fields_def header
    by (simp only: fields_word [OF words(1)] fields_word [OF words(2)] fields_word [OF words(3)] append_Nil fields_space)
  then show ?thesis by (rule exI)
qed

lemma start_read:
  assumes "a < 2 ^ 63"
  shows "atoi_value (fst (cut_at CHR '','' (trim_prefix (CHR ''+'' # extent a b) ''+''))) = int a"
proof -
  have apart: "CHR '','' \<notin> set (nat_dec a)" using nat_dec_digits [of a] by (auto simp: list_all_iff is_digit_def)
  have "fst (cut_at CHR '','' (extent a b)) = nat_dec a"
  proof (cases "b = 1")
    case True
    then show ?thesis using apart by (simp add: extent_def cut_at_def Let_def)
  next
    case False
    have "takeWhile (\<lambda>x. x \<noteq> CHR '','') (nat_dec a @ CHR '','' # nat_dec b) = nat_dec a"
      using apart by (subst takeWhile_append2) auto
    then show ?thesis using False by (simp add: extent_def cut_at_def Let_def)
  qed
  then show ?thesis using atoi_nat_dec [OF assms] by (simp add: trim_prefix_def has_prefix_simps atoi_value_def)
qed

subsection \<open>Reading\<close>

definition add_lines :: "string \<Rightarrow> int list \<Rightarrow> (string \<times> int list) list \<Rightarrow> (string \<times> int list) list" where
  "add_lines f ns m = fold (add_line f) ns m"

lemma add_lines_append: "add_lines f (ms @ ns) m = add_lines f ns (add_lines f ms m)"
  by (simp add: add_lines_def)

lemma add_line_known: "f \<notin> fst ` set m \<Longrightarrow> add_line f n (m @ [(f, ks)]) = m @ [(f, ks @ [n])]"
  by (induction m) auto

lemma add_line_new: "f \<notin> fst ` set m \<Longrightarrow> add_line f n m = m @ [(f, [n])]"
  by (induction m) auto

lemma add_lines_known: "f \<notin> fst ` set m \<Longrightarrow> add_lines f ns (m @ [(f, ks)]) = m @ [(f, ks @ ns)]"
  by (induction ns arbitrary: ks) (simp_all add: add_lines_def add_line_known)

lemma add_lines_new: "f \<notin> fst ` set m \<Longrightarrow> add_lines f ns m = m @ (if ns = [] then [] else [(f, ns)])"
  using add_lines_known [of f m "tl ns" "[hd ns]"] by (cases ns) (simp_all add: add_lines_def add_line_new)

abbreviation read_diff :: "string list \<Rightarrow> diffReader \<Rightarrow> diffReader" where
  "read_diff \<equiv> fold diff_line"

lemma plus_prefix: "has_prefix l ''+++ '' \<Longrightarrow> has_prefix l ''+''" "has_prefix l ''+++'' \<Longrightarrow> has_prefix l ''+''"
  using has_prefix_trans [of l "''+++ ''" "''+''"] has_prefix_trans [of l "''+++''" "''+''"]
  by (simp_all add: has_prefix_simps)

lemma read_plain: "list_all (\<lambda>l. \<not> has_prefix l ''+'' \<and> \<not> has_prefix l ''@@ '') ls \<Longrightarrow> read_diff ls r = r"
  by (induction ls) (auto simp: diff_line_def dest: plus_prefix)

lemma read_added:
  assumes "dr_file r \<noteq> []" "0 < dr_next r" "list_all (\<lambda>l. \<not> has_prefix l ''++'') ls"
  shows "read_diff (map ((#) CHR ''+'') ls) r =
    r\<lparr>dr_out := add_lines (dr_file r) (map (\<lambda>i. dr_next r + int i) [0..<length ls]) (dr_out r), dr_next := dr_next r + int (length ls)\<rparr>"
  using assms
proof (induction ls rule: rev_induct)
  case (snoc l ls)
  let ?r = "r\<lparr>dr_out := add_lines (dr_file r) (map (\<lambda>i. dr_next r + int i) [0..<length ls]) (dr_out r), dr_next := dr_next r + int (length ls)\<rparr>"
  have "\<not> has_prefix l ''++''" "list_all (\<lambda>l. \<not> has_prefix l ''++'') ls" using snoc.prems(3) by simp_all
  then have "\<not> has_prefix (CHR ''+'' # l) ''+++''" "\<not> has_prefix (CHR ''+'' # l) ''+++ ''"
    and before: "read_diff (map ((#) CHR ''+'') ls) r = ?r"
    using has_prefix_trans [of l "''++ ''" "''++''"] snoc.IH [OF snoc.prems(1,2)] by (auto simp: has_prefix_simps)
  then have "diff_line (CHR ''+'' # l) ?r = ?r\<lparr>dr_out := add_line (dr_file r) (dr_next r + int (length ls)) (dr_out ?r), dr_next := dr_next r + int (length ls) + 1\<rparr>"
    using snoc.prems(1,2) by (simp add: diff_line_def has_prefix_simps)
  then show ?case by (simp add: before add_lines_def)
qed (simp add: add_lines_def)

lemma read_ignored:
  "dr_file r = [] \<Longrightarrow> list_all (\<lambda>l. \<not> has_prefix l ''++'') ls \<Longrightarrow> read_diff (map ((#) CHR ''+'') ls) r = r"
proof (induction ls)
  case (Cons l ls)
  then have "\<not> has_prefix (CHR ''+'' # l) ''+++ ''"
    using has_prefix_trans [of l "''++ ''" "''++''"] by (auto simp: has_prefix_simps)
  with Cons show ?case by (simp add: diff_line_def has_prefix_simps)
qed simp

lemma read_header: "hunk_ok h \<Longrightarrow> diff_line (hunk_header h) r = r\<lparr>dr_next := int (hk_Start h)\<rparr>"
proof -
  assume ok: "hunk_ok h"
  obtain rest where f: "go_fields (hunk_header h) = ''@@'' # (CHR ''-'' # extent (hk_OldStart h) (length (hk_Removed h)))
      # (CHR ''+'' # extent (hk_Start h) (length (hk_Added h))) # rest" using header_fields by blast
  have "has_prefix (hunk_header h) ''@@ ''" "\<not> has_prefix (hunk_header h) ''+++ ''"
    by (simp_all add: hunk_header_def has_prefix_simps)
  moreover have "hk_Start h < 2 ^ 63"
    using ok unfolding hunk_ok_def by (metis of_nat_less_iff of_nat_numeral of_nat_power)
  ultimately show ?thesis by (simp add: diff_line_def f start_read)
qed

lemma read_hunk:
  assumes "hunk_ok h"
  shows "\<exists>n. read_diff (render_hunk h) r =
    r\<lparr>dr_out := (if dr_file r = [] then dr_out r else add_lines (dr_file r) (hunk_lines h) (dr_out r)), dr_next := n\<rparr>"
proof -
  let ?r = "r\<lparr>dr_next := int (hk_Start h)\<rparr>"
  have "list_all (\<lambda>l. \<not> has_prefix l ''+'' \<and> \<not> has_prefix l ''@@ '') (map ((#) CHR ''-'') (hk_Removed h))"
    by (simp add: list_all_iff has_prefix_simps)
  then have read: "read_diff (render_hunk h) r = read_diff (map ((#) CHR ''+'') (hk_Added h)) ?r"
    using assms by (simp add: render_hunk_def read_header read_plain)
  have plain: "list_all (\<lambda>l. \<not> has_prefix l ''++'') (hk_Added h)" using assms by (simp add: hunk_ok_def list_all_iff)
  show ?thesis
  proof (cases "dr_file r = []")
    case True
    then show ?thesis using read plain by (auto simp: read_ignored intro!: exI [of _ "int (hk_Start h)"])
  next
    case named: False
    show ?thesis
    proof (cases "hk_Added h = []")
      case True
      then show ?thesis using read by (auto simp: hunk_lines_def add_lines_def intro!: exI [of _ "int (hk_Start h)"])
    next
      case False
      then have "0 < dr_next ?r" using assms by (simp add: hunk_ok_def)
      then show ?thesis using read named plain read_added [of ?r "hk_Added h"] by (auto simp: hunk_lines_def)
    qed
  qed
qed

lemma read_hunks:
  "list_all hunk_ok hs \<Longrightarrow> \<exists>n. read_diff (concat (map render_hunk hs)) r =
    r\<lparr>dr_out := (if dr_file r = [] then dr_out r else add_lines (dr_file r) (concat (map hunk_lines hs)) (dr_out r)), dr_next := n\<rparr>"
proof (induction hs arbitrary: r)
  case Nil
  then show ?case by (auto simp: add_lines_def intro!: exI [of _ "dr_next r"])
next
  case (Cons h hs)
  then obtain n where "read_diff (render_hunk h) r =
    r\<lparr>dr_out := (if dr_file r = [] then dr_out r else add_lines (dr_file r) (hunk_lines h) (dr_out r)), dr_next := n\<rparr>"
    using read_hunk [of h r] by auto
  then show ?case using Cons.IH [of "read_diff (render_hunk h) r"] Cons.prems
    by (auto simp: add_lines_append split: if_splits)
qed

lemma read_file:
  assumes "file_ok f"
  shows "dr_out (read_diff (render_file f) r) =
    (case fd_Name f of None \<Rightarrow> dr_out r | Some n \<Rightarrow> add_lines n (file_lines f) (dr_out r))"
proof -
  have head: "read_diff (fd_Head f) r = r"
    using assms by (intro read_plain) (simp add: file_ok_def list_all_iff)
  show ?thesis
  proof (cases "fd_Name f")
    case None
    have "diff_line ''+++ /dev/null'' r = r\<lparr>dr_file := []\<rparr>" by (simp add: diff_line_def has_prefix_simps trim_prefix_def)
    then show ?thesis using None head assms read_hunks [of "fd_Hunks f" "r\<lparr>dr_file := []\<rparr>"]
      by (auto simp: render_file_def file_ok_def)
  next
    case (Some n)
    have "diff_line (''+++ b/'' @ n) r = r\<lparr>dr_file := n\<rparr>" by (simp add: diff_line_def has_prefix_simps trim_prefix_def)
    then show ?thesis using Some head assms read_hunks [of "fd_Hunks f" "r\<lparr>dr_file := n\<rparr>"]
      by (auto simp: render_file_def file_ok_def file_lines_def)
  qed
qed

lemma set_names: "set (List.map_filter g xs) = {y. \<exists>x \<in> set xs. g x = Some y}"
  by (induction xs) (auto simp: List.map_filter_simps split: option.splits)

lemma lines_added_Cons: "lines_added (f # fs) = lines_added [f] @ lines_added fs"
  by (simp add: lines_added_def)

lemma read_files:
  assumes "list_all file_ok fs" "distinct (List.map_filter fd_Name fs)" "\<forall>n \<in> set (List.map_filter fd_Name fs). n \<notin> fst ` set (dr_out r)"
  shows "dr_out (read_diff (concat (map render_file fs)) r) = dr_out r @ lines_added fs"
  using assms
proof (induction fs arbitrary: r)
  case (Cons f fs)
  let ?r = "read_diff (render_file f) r"
  have out: "dr_out ?r = dr_out r @ lines_added [f]"
    using read_file [of f r] Cons.prems
    by (auto simp: lines_added_def List.map_filter_simps add_lines_new split: option.splits)
  have "distinct (List.map_filter fd_Name fs)" "\<forall>n \<in> set (List.map_filter fd_Name fs). fd_Name f \<noteq> Some n"
    using Cons.prems(2) by (auto simp: List.map_filter_simps split: option.splits)
  moreover from this(2) have "\<forall>n \<in> set (List.map_filter fd_Name fs). n \<notin> fst ` set (dr_out ?r)"
    using Cons.prems(3) by (auto simp: out lines_added_def List.map_filter_simps split: option.splits if_splits)
  ultimately have "dr_out (read_diff (concat (map render_file fs)) ?r) = dr_out ?r @ lines_added fs"
    using Cons.IH [of ?r] Cons.prems(1) by simp
  then show ?case by (simp add: out lines_added_Cons [of f fs])
qed (simp add: lines_added_def)

lemma split_join: "ls \<noteq> [] \<Longrightarrow> list_all (\<lambda>l. c \<notin> set l) ls \<Longrightarrow> split_on c (join_with [c] ls) = ls"
  by (induction ls rule: induct_list012) (simp_all add: split_on_append split_on_apart)

lemma word_one_liner: "list_all word_char w \<Longrightarrow> nl \<notin> set w"
proof -
  have "\<not> word_char nl" by code_simp
  then show "list_all word_char w \<Longrightarrow> nl \<notin> set w" by (auto simp: list_all_iff)
qed

lemma one_liner_simps:
  "one_liner []" "one_liner (c # s) \<longleftrightarrow> c \<noteq> nl \<and> one_liner s" "one_liner (s @ t) \<longleftrightarrow> one_liner s \<and> one_liner t"
  by (auto simp: one_liner_def)

lemma one_liner_extent: "one_liner (extent a b)"
  unfolding one_liner_def by (rule word_one_liner [OF extent_word])

lemma one_liner_letters: "one_liner ''@@ -''" "one_liner '' +''" "one_liner '' @@''" "one_liner ''+++ ''" "one_liner ''/dev/null''"
  "one_liner ''b/''" "CHR ''-'' \<noteq> nl" "CHR ''+'' \<noteq> nl"
  by code_simp+

lemma one_liner_header: "hunk_ok h \<Longrightarrow> one_liner (hunk_header h)"
  by (simp only: hunk_header_def hunk_ok_def one_liner_simps(3) one_liner_extent one_liner_letters simp_thms)

lemma one_liner_hunk:
  assumes "hunk_ok h" "l \<in> set (render_hunk h)"
  shows "one_liner l"
proof -
  consider "l = hunk_header h" | s where "s \<in> set (hk_Removed h)" "l = CHR ''-'' # s" | s where "s \<in> set (hk_Added h)" "l = CHR ''+'' # s"
    using assms(2) by (auto simp: render_hunk_def)
  then show ?thesis
  proof cases
    case 2
    then show ?thesis using assms(1) unfolding hunk_ok_def list_all_iff by (simp only: one_liner_simps one_liner_letters) blast
  next
    case 3
    then show ?thesis using assms(1) unfolding hunk_ok_def list_all_iff by (simp only: one_liner_simps one_liner_letters) blast
  qed (simp add: assms(1) one_liner_header)
qed

lemma one_liner_name: "file_ok f \<Longrightarrow> one_liner (''+++ '' @ (case fd_Name f of None \<Rightarrow> ''/dev/null'' | Some n \<Rightarrow> ''b/'' @ n))"
  unfolding file_ok_def
  by (cases "fd_Name f") (simp_all only: option.case one_liner_simps(3) one_liner_letters simp_thms)

lemma rendered_lines:
  assumes "list_all file_ok fs"
  shows "list_all (\<lambda>l. nl \<notin> set l) (concat (map render_file fs))"
proof -
  have "one_liner l" if "f \<in> set fs" "l \<in> set (render_file f)" for f l
  proof -
    have ok: "file_ok f" using assms that(1) by (simp add: list_all_iff)
    then have "\<forall>h \<in> set (fd_Hunks f). hunk_ok h" "\<forall>l \<in> set (fd_Head f). one_liner l"
      by (simp_all add: file_ok_def list_all_iff)
    then show ?thesis using that(2) one_liner_name [OF ok] one_liner_hunk unfolding render_file_def
      by (auto simp del: append.simps)
  qed
  then show ?thesis by (auto simp: list_all_iff one_liner_def)
qed



text \<open>
  An added line that starts with two plus signs is misread: with a blank behind them it is taken for the name
  of the next file, without one it is not counted and the lines after it are numbered one too low.
\<close>

theorem added_plus_lines_are_misread:
  "AddedLines (render_diff [\<lparr>fd_Head = [], fd_Name = Some ''a.go'',
     fd_Hunks = [\<lparr>hk_OldStart = 0, hk_Removed = [], hk_Start = 5, hk_Added = [''++ note'', ''f()''], hk_Context = []\<rparr>]\<rparr>])
     = [(''note'', [5])]
   \<and> AddedLines (render_diff [\<lparr>fd_Head = [], fd_Name = Some ''a.go'',
     fd_Hunks = [\<lparr>hk_OldStart = 0, hk_Removed = [], hk_Start = 5, hk_Added = [''++i'', ''f()''], hk_Context = []\<rparr>]\<rparr>])
     = [(''a.go'', [5])]"
  by (intro conjI; code_simp)

end
