(* ===== verification/Redact.thy ===== *)
theory Redact
  imports CoverageGuarantees
begin

text \<open>
  \<open>internal/config/redact.go\<close>: the connection string without its passwords, in both forms PostgreSQL
  accepts, and what the printed string is.
\<close>

section \<open>Keys\<close>

text \<open>
  \<open>strings.EqualFold\<close> against a word without the letters i and k, where simple case folding is that of
  \<open>to_upper\<close>.
\<close>

definition equal_fold :: "string \<Rightarrow> string \<Rightarrow> bool" where
  "equal_fold s t = (to_upper s = to_upper t)"

definition isSecretKey :: "string \<Rightarrow> bool" where
  "isSecretKey key = (equal_fold key ''password'' \<or> equal_fold key ''sslpassword'')"

text \<open>\<open>url.QueryUnescape\<close>: \<open>None\<close> for a percent sign that two hexadecimal digits do not follow.\<close>

definition hex_value :: "char \<Rightarrow> nat option" where
  "hex_value c =
     (if is_digit c then Some (of_char c - 48)
      else if CHR ''a'' \<le> c \<and> c \<le> CHR ''f'' then Some (of_char c - 87)
      else if CHR ''A'' \<le> c \<and> c \<le> CHR ''F'' then Some (of_char c - 55) else None)"

fun query_unescape :: "string \<Rightarrow> string option" where
  "query_unescape [] = Some []"
| "query_unescape (c # s) =
     (if c = CHR ''%''
      then (case s of
          a # b # r \<Rightarrow>
            (case (hex_value a, hex_value b) of
               (Some x, Some y) \<Rightarrow> map_option ((#) (char_of (16 * x + y))) (query_unescape r)
             | _ \<Rightarrow> None)
        | _ \<Rightarrow> None)
      else map_option ((#) (if c = CHR ''+'' then CHR '' '' else c)) (query_unescape s))"

section \<open>The form of a URL\<close>

definition stars :: string where "stars = ''***''"

definition authority_end :: "char \<Rightarrow> bool" where
  "authority_end c = (c = slash \<or> c = CHR ''?'' \<or> c = CHR ''#'')"

definition redact_userinfo :: "string \<Rightarrow> string" where
  "redact_userinfo authority =
     (if CHR ''@'' \<notin> set authority then authority
      else (let userinfo = before_last CHR ''@'' authority; host = after_last CHR ''@'' authority;
                user = before_char colon_char userinfo
            in if user = [] then stars @ ''@'' @ host else user @ colon_char # stars @ ''@'' @ host))"

definition redact_param :: "string \<Rightarrow> string" where
  "redact_param p =
     (if CHR ''='' \<notin> set p then p
      else (let key = before_char CHR ''='' p
            in case query_unescape key of
                 None \<Rightarrow> key @ ''='' @ stars
               | Some decoded \<Rightarrow> if isSecretKey decoded then key @ ''='' @ stars else p))"

definition redact_query :: "string \<Rightarrow> string" where
  "redact_query q = join_with ''&'' (map redact_param (split_on CHR ''&'' q))"

definition redact_remainder :: "string \<Rightarrow> string" where
  "redact_remainder remainder =
     (if CHR ''?'' \<notin> set remainder then remainder
      else (let before = before_char CHR ''?'' remainder; rest = drop (Suc (length before)) remainder
            in before @ ''?'' @ redact_query (before_char CHR ''#'' rest) @ dropWhile (\<lambda>c. c \<noteq> CHR ''#'') rest))"

fun index_of :: "string \<Rightarrow> string \<Rightarrow> nat option" where
  "index_of [] sub = (if sub = [] then Some 0 else None)"
| "index_of (c # s) sub = (if has_prefix (c # s) sub then Some 0 else map_option Suc (index_of s sub))"

definition scheme_mark :: string where "scheme_mark = [colon_char, slash, slash]"

definition redactURLString :: "string \<Rightarrow> string" where
  "redactURLString raw =
     (case index_of raw scheme_mark of
        None \<Rightarrow> raw
      | Some i \<Rightarrow>
          (let rest = drop (i + 3) raw; authority = takeWhile (\<lambda>c. \<not> authority_end c) rest
           in take (i + 3) raw @ redact_userinfo authority @ redact_remainder (drop (length authority) rest)))"

section \<open>Keywords and values\<close>

definition isKVSpace :: "char \<Rightarrow> bool" where
  "isKVSpace c = (c \<in> set ascii_spaces)"

definition backslash :: char where "backslash = CHR 0x5C"
definition apostrophe :: char where "apostrophe = CHR 0x27"

text \<open>The text of a value, what follows it, and whether it ended.\<close>

fun scan_value :: "bool \<Rightarrow> string \<Rightarrow> string \<times> string \<times> bool" where
  "scan_value quoted [] = ([], [], \<not> quoted)"
| "scan_value quoted (c # s) =
     (if c = backslash
      then (case s of
              [] \<Rightarrow> ([c], [], \<not> quoted)
            | d # r \<Rightarrow> (case scan_value quoted r of (v, t, ended) \<Rightarrow> (c # d # v, t, ended)))
      else if quoted \<and> c = apostrophe then ([c], s, True)
      else if \<not> quoted \<and> isKVSpace c then ([], c # s, True)
      else (case scan_value quoted s of (v, t, ended) \<Rightarrow> (c # v, t, ended)))"

definition scanKVValue :: "string \<Rightarrow> string \<times> string \<times> bool" where
  "scanKVValue s =
     (case s of
        [] \<Rightarrow> scan_value False []
      | c # r \<Rightarrow>
          if c = apostrophe then (case scan_value True r of (v, t, ended) \<Rightarrow> (c # v, t, ended))
          else scan_value False s)"

lemma scan_value_rest: "length (fst (snd (scan_value quoted s))) \<le> length s"
proof (induction quoted s rule: scan_value.induct)
  case (2 quoted c s)
  show ?case
  proof (cases "c = backslash")
    case True
    with 2(1) show ?thesis by (cases s) (auto simp: prod.case_eq_if intro: le_SucI)
  next
    case False
    with 2 show ?thesis by (auto simp: prod.case_eq_if intro: le_SucI)
  qed
qed simp

lemma scanKVValue_rest: "scanKVValue s = (v, t, ended) \<Longrightarrow> length t \<le> length s"
  using scan_value_rest [of True "tl s"] scan_value_rest [of False s]
  by (cases s) (auto simp: scanKVValue_def prod.case_eq_if split: if_splits)

definition kv_key_char :: "char \<Rightarrow> bool" where
  "kv_key_char c = (c \<noteq> CHR ''='' \<and> \<not> isKVSpace c)"

lemma drop_less: "length (dropWhile p (dropWhile q s)) \<le> length s"
  by (meson length_dropWhile_le order_trans)

lemma value_shrinks:
  assumes "(v, t, ended) = scanKVValue (dropWhile isKVSpace (tl r))" "r \<noteq> []"
  shows "length t < length r"
proof -
  have "length t \<le> length (dropWhile isKVSpace (tl r))" using scanKVValue_rest [OF assms(1) [symmetric]] .
  also have "\<dots> \<le> length (tl r)" by (rule length_dropWhile_le)
  also have "\<dots> < length r" using assms(2) by (cases r) auto
  finally show ?thesis .
qed

lemma key_shrinks:
  assumes "s \<noteq> []" "\<not> isKVSpace (hd s)"
    "dropWhile isKVSpace (dropWhile kv_key_char s) = [] \<or> hd (dropWhile isKVSpace (dropWhile kv_key_char s)) \<noteq> CHR ''=''"
  shows "length (dropWhile isKVSpace (dropWhile kv_key_char s)) < length s"
proof -
  obtain c s' where s: "s = c # s'" using assms(1) by (cases s) auto
  have "kv_key_char c" using assms unfolding s by (cases "kv_key_char c") (auto simp: kv_key_char_def)
  then show ?thesis using drop_less [of isKVSpace kv_key_char s'] by (simp add: s)
qed

function redactKeywordValue :: "string \<Rightarrow> string" where
  "redactKeywordValue s =
     (if s = [] then []
      else if isKVSpace (hd s) then hd s # redactKeywordValue (tl s)
      else (let key = takeWhile kv_key_char s; r1 = dropWhile kv_key_char s;
                gap = takeWhile isKVSpace r1; r2 = dropWhile isKVSpace r1
            in if r2 = [] \<or> hd r2 \<noteq> CHR ''='' then key @ gap @ redactKeywordValue r2
               else (let gap2 = takeWhile isKVSpace (tl r2); r3 = dropWhile isKVSpace (tl r2)
                     in case scanKVValue r3 of (v, t, ended) \<Rightarrow>
                          if \<not> isSecretKey key then key @ gap @ ''='' @ gap2 @ v @ redactKeywordValue t
                          else key @ gap @ ''='' @ gap2 @ stars @ (if ended then redactKeywordValue t else []))))"
  by pat_completeness auto
termination
proof (relation "measure length", goal_cases)
  case (4 s key r1 gap r2 gap2 r3 v q t ended)
  then have "length t < length r2" using value_shrinks by metis
  also have "\<dots> \<le> length s" using 4 drop_less [of isKVSpace kv_key_char s] by simp
  finally show ?case by simp
next
  case (5 s key r1 gap r2 gap2 r3 v q t ended)
  then have "length t < length r2" using value_shrinks by metis
  also have "\<dots> \<le> length s" using 5 drop_less [of isKVSpace kv_key_char s] by simp
  finally show ?case by simp
next
  case (3 s key r1 gap r2)
  then show ?case using key_shrinks [of s] by simp
qed auto

declare redactKeywordValue.simps [simp del]

definition RedactURL :: "string \<Rightarrow> string" where
  "RedactURL raw =
     (if raw = [] then []
      else if has_prefix (to_lower raw) ''postgres://'' \<or> has_prefix (to_lower raw) ''postgresql://''
      then redactURLString raw else redactKeywordValue raw)"

end
