(* ===== verification/Config.thy ===== *)
theory Config
  imports Complex_Main Redact
begin

text \<open>
  \<open>internal/config\<close>: the configuration is one JSON file, checked as a whole. Parsing JSON and the
  connection string belong to \<open>encoding/json\<close> and \<open>pgxpool\<close>, which with the file system are the record
  \<open>loader\<close>. A decoded object is the list of its entries in the order Go happens to walk the map; numbers
  are the values of the floating-point numbers they decode to.
\<close>

section \<open>Vocabulary\<close>

datatype CleanupPolicy = CleanupOnSuccess | CleanupNever

definition CleanupPolicy_string :: "CleanupPolicy \<Rightarrow> string" where
  "CleanupPolicy_string p = (case p of CleanupOnSuccess \<Rightarrow> ''on-success'' | CleanupNever \<Rightarrow> ''never'')"

definition AllCleanupPolicies :: "CleanupPolicy list" where
  "AllCleanupPolicies = [CleanupOnSuccess, CleanupNever]"

datatype Backend = BackendOpenCode | BackendCodex

definition Backend_string :: "Backend \<Rightarrow> string" where
  "Backend_string b = (case b of BackendOpenCode \<Rightarrow> ''opencode'' | BackendCodex \<Rightarrow> ''codex'')"

definition AllBackends :: "Backend list" where
  "AllBackends = [BackendOpenCode, BackendCodex]"

datatype Level = LevelDebug | LevelInfo | LevelWarn | LevelError

definition ParseLevel :: "string \<Rightarrow> string + Level" where
  "ParseLevel s =
     (let l = to_lower (trim_space s)
      in if l = ''debug'' then Inr LevelDebug
         else if l = ''info'' then Inr LevelInfo
         else if l = ''warn'' \<or> l = ''warning'' then Inr LevelWarn
         else if l = ''error'' then Inr LevelError
         else Inl (''log_level '' @ go_quote s @ '' is not one of debug, info, warn, error''))"

record Settings =
  se_Endpoint :: string
  se_TracesEndpoint :: string
  se_Headers :: "string \<rightharpoonup> string"
  se_ServiceName :: string
  se_SampleRatio :: "rat option"

record Config =
  cf_DatabaseURL :: string
  cf_WorkspaceRoot :: string
  cf_DefaultTaskTimeout :: duration
  cf_DefaultVerificationTimeout :: duration
  cf_VerificationTotalTimeout :: duration
  cf_OpenCodeCommand :: string
  cf_OpenCodeModel :: string
  cf_OpenCodeAgent :: string
  cf_OpenCodeProviderKeyEnv :: "string \<rightharpoonup> string"
  cf_OpenCodeSandbox :: string
  cf_OpenCodeSandboxWritable :: "string list"
  cf_AgentBackend :: Backend
  cf_CodexCommand :: string
  cf_CodexProfile :: string
  cf_CodexModel :: string
  cf_CodexSandbox :: string
  cf_Routing :: "string \<rightharpoonup> string"
  cf_MaxOutputBytes :: int
  cf_WorktreeCleanup :: CleanupPolicy
  cf_LogLevel :: Level
  cf_Tracing :: Settings
  cf_MCPAllowApproval :: bool
  cf_MCPAutoRegisterProjects :: bool
  cf_ConfigFile :: string

definition default_config :: "string \<Rightarrow> Config" where
  "default_config path =
     \<lparr>cf_DatabaseURL = [], cf_WorkspaceRoot = [], cf_DefaultTaskTimeout = 30 * (60 * second),
      cf_DefaultVerificationTimeout = 10 * (60 * second), cf_VerificationTotalTimeout = 30 * (60 * second),
      cf_OpenCodeCommand = ''opencode'', cf_OpenCodeModel = ''opencode/muse-spark-1.3-contributor-free'',
      cf_OpenCodeAgent = ''build'', cf_OpenCodeProviderKeyEnv = Map.empty, cf_OpenCodeSandbox = [],
      cf_OpenCodeSandboxWritable = [], cf_AgentBackend = BackendOpenCode, cf_CodexCommand = ''codex'',
      cf_CodexProfile = [], cf_CodexModel = [], cf_CodexSandbox = ''workspace-write'', cf_Routing = Map.empty,
      cf_MaxOutputBytes = 1048576, cf_WorktreeCleanup = CleanupOnSuccess, cf_LogLevel = LevelInfo,
      cf_Tracing = \<lparr>se_Endpoint = [], se_TracesEndpoint = [], se_Headers = Map.empty, se_ServiceName = [], se_SampleRatio = None\<rparr>,
      cf_MCPAllowApproval = False, cf_MCPAutoRegisterProjects = False, cf_ConfigFile = path\<rparr>"

section \<open>Durations\<close>

text \<open>
  \<open>time.ParseDuration\<close>. The digits of a fraction contribute
  \<open>uint64(float64(f) * (float64(unit)/scale))\<close>, a floating-point product that is the argument \<open>part\<close>
  (\<open>f\<close>, \<open>unit\<close>, and the number of digits, \<open>scale\<close> being ten to their power).
\<close>

definition duration_unit :: "string \<Rightarrow> int option" where
  "duration_unit u =
     map_of [(''ns'', 1), (''us'', 1000), ([CHR 0xC2, CHR 0xB5, CHR ''s''], 1000), ([CHR 0xCE, CHR 0xBC, CHR ''s''], 1000),
             (''ms'', 1000000), (''s'', 1000000000), (''m'', 60000000000), (''h'', 3600000000000)] u"

definition max_uint63 :: int where "max_uint63 = 9223372036854775808"

text \<open>\<open>leadingFraction\<close>: digits beyond what fits are skipped; the value and the digits used.\<close>

fun leading_fraction :: "int \<Rightarrow> nat \<Rightarrow> bool \<Rightarrow> string \<Rightarrow> int \<times> nat" where
  "leading_fraction x k overflow [] = (x, k)"
| "leading_fraction x k overflow (c # s) =
     (let y = 10 * x + int (of_char c - 48)
      in if overflow then leading_fraction x k True s
         else if x > (max_uint63 - 1) div 10 \<or> y > max_uint63 then leading_fraction x k True s
         else leading_fraction y (Suc k) False s)"

definition unit_char :: "char \<Rightarrow> bool" where
  "unit_char c = (c \<noteq> CHR ''.'' \<and> \<not> is_digit c)"

lemma dropWhile_strict: "takeWhile p s \<noteq> [] \<Longrightarrow> length (dropWhile p s) < length s"
  by (cases s) (auto simp: length_dropWhile_le less_Suc_eq_le split: if_splits)

function duration_parts :: "(int \<Rightarrow> int \<Rightarrow> nat \<Rightarrow> int) \<Rightarrow> int \<Rightarrow> string \<Rightarrow> int option" where
  "duration_parts part d s =
     (if s = [] then Some d
      else (let whole = takeWhile is_digit s; v = int (dec_value 0 whole); s1 = dropWhile is_digit s;
                dot = (s1 \<noteq> [] \<and> hd s1 = CHR ''.''); digits = (if dot then takeWhile is_digit (tl s1) else []);
                s2 = (if dot then dropWhile is_digit (tl s1) else s1);
                name = takeWhile unit_char s2; s3 = dropWhile unit_char s2
            in if whole = [] \<and> digits = [] \<or> v > max_uint63 \<or> name = [] then None
               else (case duration_unit name of
                 None \<Rightarrow> None
               | Some unit \<Rightarrow>
                   (let (f, k) = leading_fraction 0 0 False digits;
                        w = v * unit + (if f > 0 then part f unit k else 0)
                    in if v > max_uint63 div unit \<or> w > max_uint63 \<or> d + w > max_uint63 then None
                       else duration_parts part (d + w) s3))))"
  by pat_completeness auto
termination
proof (relation "measure (\<lambda>(f, d, s). length s)", goal_cases)
  case (2 part d s whole v s1 dot digits s2 name s3 unit p f k w)
  have "takeWhile unit_char s2 \<noteq> []" "s3 = dropWhile unit_char s2" "s1 = dropWhile is_digit s"
    and s2: "s2 = (if dot then dropWhile is_digit (tl s1) else s1)"
    using 2 by blast+
  then have "length s3 < length s2" "length s1 \<le> length s" by (simp_all add: dropWhile_strict length_dropWhile_le)
  moreover have "length s2 \<le> length s1"
    unfolding s2 using length_dropWhile_le [of is_digit "tl s1"] by auto
  ultimately show ?case by simp
qed simp

declare duration_parts.simps [simp del]

definition ParseDuration :: "(int \<Rightarrow> int \<Rightarrow> nat \<Rightarrow> int) \<Rightarrow> string \<Rightarrow> duration option" where
  "ParseDuration part raw =
     (let neg = (take 1 raw = ''-''); s = (if neg \<or> take 1 raw = ''+'' then drop 1 raw else raw)
      in if s = ''0'' then Some 0
         else if s = [] then None
         else (case duration_parts part 0 s of
                 None \<Rightarrow> None
               | Some d \<Rightarrow> if neg then Some (- d) else if d > max_uint63 - 1 then None else Some d))"

section \<open>The schema\<close>

datatype valueKind = kindString | kindInteger | kindNumber | kindBoolean | kindStringMap | kindStringList

definition valueKind_string :: "valueKind \<Rightarrow> string" where
  "valueKind_string k =
     (case k of kindString \<Rightarrow> ''a string'' | kindInteger \<Rightarrow> ''a whole number'' | kindNumber \<Rightarrow> ''a number''
      | kindBoolean \<Rightarrow> ''a boolean'' | kindStringMap \<Rightarrow> ''an object of strings'' | kindStringList \<Rightarrow> ''a list of strings'')"

datatype schema = SKind valueKind | SObj "(string \<times> schema) list"

definition configSchema :: "(string \<times> schema) list" where
  "configSchema =
     [(''database'', SObj [(''url'', SKind kindString)]),
      (''workspace_root'', SKind kindString),
      (''tasks'', SObj [(''timeout'', SKind kindString), (''verification_timeout'', SKind kindString),
         (''verification_total_timeout'', SKind kindString), (''max_output_bytes'', SKind kindInteger),
         (''worktree_cleanup'', SKind kindString)]),
      (''agent'', SObj [(''backend'', SKind kindString),
         (''opencode'', SObj [(''command'', SKind kindString), (''model'', SKind kindString), (''agent'', SKind kindString),
            (''provider_key_env'', SKind kindStringMap), (''sandbox'', SKind kindString),
            (''sandbox_writable'', SKind kindStringList)]),
         (''codex'', SObj [(''command'', SKind kindString), (''profile'', SKind kindString), (''model'', SKind kindString),
            (''sandbox'', SKind kindString)]),
         (''routing'', SKind kindStringMap)]),
      (''log_level'', SKind kindString),
      (''mcp'', SObj [(''allow_approval'', SKind kindBoolean), (''auto_register_projects'', SKind kindBoolean)]),
      (''tracing'', SObj [(''endpoint'', SKind kindString), (''traces_endpoint'', SKind kindString),
         (''headers'', SKind kindStringMap), (''service_name'', SKind kindString), (''sample_ratio'', SKind kindNumber)])]"

definition dotted :: "string \<Rightarrow> string \<Rightarrow> string" where
  "dotted base k = (if base \<noteq> [] then base @ ''.'' @ k else k)"

fun walk_keys :: "string \<Rightarrow> (string \<times> schema) list \<Rightarrow> string list" where
  "walk_keys base [] = []"
| "walk_keys base ((k, SKind kd) # rest) = dotted base k # walk_keys base rest"
| "walk_keys base ((k, SObj sub) # rest) = walk_keys (dotted base k) sub @ walk_keys base rest"

definition SettingKeys :: "string list" where
  "SettingKeys = sort (walk_keys [] configSchema)"

section \<open>Decoded documents\<close>

datatype doc = DNull | DBool bool | DNum rat | DStr string | DList "doc list" | DObj "(string \<times> doc) list"

definition is_str :: "doc \<Rightarrow> bool" where
  "is_str v = (case v of DStr s \<Rightarrow> True | _ \<Rightarrow> False)"

text \<open>\<open>fmt\<close> with \<open>%v\<close> of a floating-point number is the argument \<open>num\<close>.\<close>

definition describeJSON :: "(rat \<Rightarrow> string) \<Rightarrow> doc \<Rightarrow> string" where
  "describeJSON num v =
     (case v of DStr s \<Rightarrow> ''the string '' @ go_quote s | DNum x \<Rightarrow> ''the number '' @ num x
      | DBool b \<Rightarrow> (if b then ''true'' else ''false'') | DList l \<Rightarrow> ''an array'' | DObj m \<Rightarrow> ''an object'' | DNull \<Rightarrow> ''null'')"

fun collect_unknown :: "string \<Rightarrow> (string \<times> doc) list \<Rightarrow> (string \<times> schema) list \<Rightarrow> string list" where
  "collect_unknown base [] sch = []"
| "collect_unknown base ((k, v) # rest) sch =
     (let key = dotted base k in
      (if key = ''tracing.headers'' then []
       else (case map_of sch k of
               None \<Rightarrow> [key]
             | Some (SKind kd) \<Rightarrow> []
             | Some (SObj sub) \<Rightarrow> (case v of DObj obj \<Rightarrow> sort (collect_unknown key obj sub) | _ \<Rightarrow> [])))
      @ collect_unknown base rest sch)"

definition unknownKeys :: "(string \<times> doc) list \<Rightarrow> string list" where
  "unknownKeys d = sort (collect_unknown [] d configSchema)"

definition matchKind :: "valueKind \<Rightarrow> doc \<Rightarrow> bool" where
  "matchKind kind v =
     (case kind of
        kindString \<Rightarrow> is_str v
      | kindNumber \<Rightarrow> (case v of DNum x \<Rightarrow> True | _ \<Rightarrow> False)
      | kindInteger \<Rightarrow> (case v of DNum x \<Rightarrow> x = of_int \<lfloor>x\<rfloor> \<and> abs x \<le> 9007199254740992 | _ \<Rightarrow> False)
      | kindBoolean \<Rightarrow> (case v of DBool b \<Rightarrow> True | _ \<Rightarrow> False)
      | kindStringMap \<Rightarrow> (case v of DObj m \<Rightarrow> list_all (\<lambda>e. is_str (snd e)) m | _ \<Rightarrow> False)
      | kindStringList \<Rightarrow> (case v of DList l \<Rightarrow> list_all is_str l | _ \<Rightarrow> False))"

text \<open>
  The problems, the paths found wrong, and the document without the wrong values. An integer keeps its
  value, which decoding reads as an integer whatever form it had.
\<close>

type_synonym checked = "string list \<times> string list \<times> (string \<times> doc) list"

definition reject :: "(rat \<Rightarrow> string) \<Rightarrow> string \<Rightarrow> string \<Rightarrow> doc \<Rightarrow> checked" where
  "reject num key want v =
     ([''setting '' @ key @ '' has the wrong type: want '' @ want @ '', got '' @ describeJSON num v], [key], [])"

definition check_map :: "(rat \<Rightarrow> string) \<Rightarrow> string \<Rightarrow> string \<Rightarrow> (string \<times> doc) list \<Rightarrow> checked" where
  "check_map num key k m =
     (let bad = sort_key fst (filter (\<lambda>e. \<not> is_str (snd e)) m)
      in (map (\<lambda>e. ''setting '' @ key @ ''.'' @ fst e @ '' has the wrong type: want a string, got '' @ describeJSON num (snd e)) bad,
          map (\<lambda>e. key @ ''.'' @ fst e) bad, [(k, DObj (filter (\<lambda>e. is_str (snd e)) m))]))"

definition both :: "checked \<Rightarrow> checked \<Rightarrow> checked" where
  "both a b = (fst a @ fst b, fst (snd a) @ fst (snd b), snd (snd a) @ snd (snd b))"

fun check_doc :: "(rat \<Rightarrow> string) \<Rightarrow> string \<Rightarrow> (string \<times> doc) list \<Rightarrow> (string \<times> schema) list \<Rightarrow> checked" where
  "check_doc num base [] sch = ([], [], [])"
| "check_doc num base ((k, v) # rest) sch =
     (let key = dotted base k in
      both
        (case map_of sch k of
           None \<Rightarrow> ([], [], [(k, v)])
         | Some node \<Rightarrow>
             if v = DNull then ([], [], [(k, v)])
             else (case node of
               SObj sub \<Rightarrow>
                 (case v of
                    DObj obj \<Rightarrow> (case check_doc num key obj sub of (ps, ws, obj') \<Rightarrow> (sort ps, ws, [(k, DObj obj')]))
                  | _ \<Rightarrow> reject num key ''an object'' v)
             | SKind kd \<Rightarrow>
                 if kd = kindStringMap
                 then (case v of DObj m \<Rightarrow> check_map num key k m | _ \<Rightarrow> reject num key (valueKind_string kd) v)
                 else if matchKind kd v then ([], [], [(k, v)]) else reject num key (valueKind_string kd) v))
        (check_doc num base rest sch))"

definition checkTypes :: "(rat \<Rightarrow> string) \<Rightarrow> (string \<times> doc) list \<Rightarrow> checked" where
  "checkTypes num d = (case check_doc num [] d configSchema of (ps, ws, d') \<Rightarrow> (sort ps, ws, d'))"

section \<open>Reading settings\<close>

text \<open>
  The typed decode: an absent or null key leaves the pointer nil. Keys that differ from a setting only in
  case, which \<open>encoding/json\<close> would accept here, are unknown settings, so such a file is refused before.
\<close>

definition field :: "(string \<times> doc) list \<Rightarrow> string \<Rightarrow> doc option" where
  "field d k = (case map_of d k of None \<Rightarrow> None | Some v \<Rightarrow> if v = DNull then None else Some v)"

definition section_of :: "(string \<times> doc) list \<Rightarrow> string \<Rightarrow> (string \<times> doc) list option" where
  "section_of d k = (case field d k of Some (DObj m) \<Rightarrow> Some m | _ \<Rightarrow> None)"

definition str_field :: "(string \<times> doc) list \<Rightarrow> string \<Rightarrow> string option" where
  "str_field m k = (case field m k of Some (DStr s) \<Rightarrow> Some s | _ \<Rightarrow> None)"

definition num_field :: "(string \<times> doc) list \<Rightarrow> string \<Rightarrow> rat option" where
  "num_field m k = (case field m k of Some (DNum x) \<Rightarrow> Some x | _ \<Rightarrow> None)"

definition bool_field :: "(string \<times> doc) list \<Rightarrow> string \<Rightarrow> bool option" where
  "bool_field m k = (case field m k of Some (DBool b) \<Rightarrow> Some b | _ \<Rightarrow> None)"

definition text_of :: "doc \<Rightarrow> string" where
  "text_of v = (case v of DStr s \<Rightarrow> s | _ \<Rightarrow> [])"

definition map_field :: "(string \<times> doc) list \<Rightarrow> string \<Rightarrow> (string \<times> string) list option" where
  "map_field m k = (case field m k of Some (DObj e) \<Rightarrow> Some (map (\<lambda>p. (fst p, text_of (snd p))) e) | _ \<Rightarrow> None)"

definition list_field :: "(string \<times> doc) list \<Rightarrow> string \<Rightarrow> string list option" where
  "list_field m k = (case field m k of Some (DList l) \<Rightarrow> Some (map text_of l) | _ \<Rightarrow> None)"

text \<open>A string setting that counts when it is not blank, trimmed.\<close>

definition stated :: "string option \<Rightarrow> string option" where
  "stated s = (case s of None \<Rightarrow> None | Some t \<Rightarrow> if trim_space t = [] then None else Some (trim_space t))"

datatype parsed = SyntaxError nat string | OtherError string | Parsed doc

record loader =
  l_read :: "string \<Rightarrow> string + string"
  l_parse :: "string \<Rightarrow> parsed"
  l_pgx :: "string \<Rightarrow> string option"
  l_home :: "string option"
  l_cwd :: "string option"
  l_num :: "rat \<Rightarrow> string"
  l_part :: "int \<Rightarrow> int \<Rightarrow> nat \<Rightarrow> int"

section \<open>The settings one by one\<close>

text \<open>The problems so far and the configuration so far.\<close>

type_synonym loading = "string list \<times> Config"

definition fail_with :: "string \<Rightarrow> loading \<Rightarrow> loading" where
  "fail_with msg st = (fst st @ [msg], snd st)"

definition set_config :: "(Config \<Rightarrow> Config) \<Rightarrow> loading \<Rightarrow> loading" where
  "set_config f st = (fst st, f (snd st))"

definition set_stated :: "string option \<Rightarrow> (string \<Rightarrow> Config \<Rightarrow> Config) \<Rightarrow> loading \<Rightarrow> loading" where
  "set_stated s f st = (case stated s of None \<Rightarrow> st | Some t \<Rightarrow> set_config (f t) st)"

definition set_trimmed :: "string option \<Rightarrow> (string \<Rightarrow> Config \<Rightarrow> Config) \<Rightarrow> loading \<Rightarrow> loading" where
  "set_trimmed s f st = (case s of None \<Rightarrow> st | Some t \<Rightarrow> set_config (f (trim_space t)) st)"

definition load_database :: "loader \<Rightarrow> string list \<Rightarrow> (string \<times> doc) list \<Rightarrow> loading \<Rightarrow> loading" where
  "load_database L wrong d st =
     (case stated (case section_of d ''database'' of None \<Rightarrow> None | Some m \<Rightarrow> str_field m ''url'') of
        None \<Rightarrow> if ''database'' \<in> set wrong \<or> ''database.url'' \<in> set wrong then st else fail_with ''database.url is required'' st
      | Some url \<Rightarrow>
          (let st1 = set_config (\<lambda>c. c\<lparr>cf_DatabaseURL := url\<rparr>) st
           in case l_pgx L url of
                None \<Rightarrow> st1
              | Some e \<Rightarrow> fail_with (''database.url is not a connection string PostgreSQL can parse: '' @ e) st1))"

definition defaultWorkspaceRoot :: "loader \<Rightarrow> string option" where
  "defaultWorkspaceRoot L = map_option (\<lambda>home. path_clean (home @ ''/.local/share/aidev/worktrees'')) (l_home L)"

definition load_workspace :: "loader \<Rightarrow> string \<Rightarrow> (string \<times> doc) list \<Rightarrow> loading \<Rightarrow> loading" where
  "load_workspace L path d st =
     (case stated (str_field d ''workspace_root'') of
        None \<Rightarrow>
          (case defaultWorkspaceRoot L of
             None \<Rightarrow> fail_with ''workspace_root is required: the home directory could not be determined'' st
           | Some place_dir \<Rightarrow> set_config (\<lambda>c. c\<lparr>cf_WorkspaceRoot := place_dir\<rparr>) st)
      | Some raw \<Rightarrow>
          (let place_dir = (if is_abs raw then raw else path_clean (path_dir path @ ''/'' @ raw))
           in if is_abs place_dir then set_config (\<lambda>c. c\<lparr>cf_WorkspaceRoot := path_clean place_dir\<rparr>) st
              else (case l_cwd L of
                      None \<Rightarrow> fail_with (''workspace_root '' @ go_quote raw @ '' is not a usable path'') st
                    | Some cwd \<Rightarrow> set_config (\<lambda>c. c\<lparr>cf_WorkspaceRoot := path_clean (cwd @ ''/'' @ place_dir)\<rparr>) st)))"

definition parseDuration :: "loader \<Rightarrow> string \<Rightarrow> string \<Rightarrow> string + duration" where
  "parseDuration L key raw =
     (case ParseDuration (l_part L) raw of
        None \<Rightarrow> Inl (key @ '' '' @ go_quote raw @ '' is not a duration (examples: 90s, 30m, 2h)'')
      | Some d \<Rightarrow> if d \<le> 0 then Inl (key @ '' must be positive, got '' @ raw) else Inr d)"

definition load_duration ::
    "loader \<Rightarrow> string \<Rightarrow> string option \<Rightarrow> (duration \<Rightarrow> Config \<Rightarrow> Config) \<Rightarrow> loading \<Rightarrow> loading" where
  "load_duration L key raw f st =
     (case stated raw of
        None \<Rightarrow> st
      | Some s \<Rightarrow> (case parseDuration L key s of Inl e \<Rightarrow> fail_with e st | Inr d \<Rightarrow> set_config (f d) st))"

definition load_cleanup :: "string option \<Rightarrow> loading \<Rightarrow> loading" where
  "load_cleanup raw st =
     (case stated raw of
        None \<Rightarrow> st
      | Some s \<Rightarrow>
          (case find (\<lambda>p. CleanupPolicy_string p = to_lower s) AllCleanupPolicies of
             None \<Rightarrow> fail_with (''tasks.worktree_cleanup '' @ go_quote s @ '' is not one of ''
                       @ join_with '', '' (map CleanupPolicy_string AllCleanupPolicies)) st
           | Some p \<Rightarrow> set_config (\<lambda>c. c\<lparr>cf_WorktreeCleanup := p\<rparr>) st))"

definition load_output :: "rat option \<Rightarrow> loading \<Rightarrow> loading" where
  "load_output n st =
     (case n of
        None \<Rightarrow> st
      | Some x \<Rightarrow>
          if \<lfloor>x\<rfloor> < 1024 then fail_with (''tasks.max_output_bytes must be at least 1024, got '' @ int_dec \<lfloor>x\<rfloor>) st
          else set_config (\<lambda>c. c\<lparr>cf_MaxOutputBytes := \<lfloor>x\<rfloor>\<rparr>) st)"

definition load_tasks :: "loader \<Rightarrow> (string \<times> doc) list \<Rightarrow> loading \<Rightarrow> loading" where
  "load_tasks L d st =
     (case section_of d ''tasks'' of
        None \<Rightarrow> st
      | Some m \<Rightarrow>
          load_cleanup (str_field m ''worktree_cleanup'')
            (load_output (num_field m ''max_output_bytes'')
              (load_duration L ''tasks.verification_total_timeout'' (str_field m ''verification_total_timeout'')
                  (\<lambda>x c. c\<lparr>cf_VerificationTotalTimeout := x\<rparr>)
                (load_duration L ''tasks.verification_timeout'' (str_field m ''verification_timeout'')
                    (\<lambda>x c. c\<lparr>cf_DefaultVerificationTimeout := x\<rparr>)
                  (load_duration L ''tasks.timeout'' (str_field m ''timeout'') (\<lambda>x c. c\<lparr>cf_DefaultTaskTimeout := x\<rparr>) st)))))"

definition load_mcp :: "(string \<times> doc) list \<Rightarrow> loading \<Rightarrow> loading" where
  "load_mcp d st =
     (case section_of d ''mcp'' of
        None \<Rightarrow> st
      | Some m \<Rightarrow>
          (let set = (\<lambda>b f s. case b of None \<Rightarrow> s | Some v \<Rightarrow> set_config (f v) s)
           in set (bool_field m ''auto_register_projects'') (\<lambda>v c. c\<lparr>cf_MCPAutoRegisterProjects := v\<rparr>)
                (set (bool_field m ''allow_approval'') (\<lambda>v c. c\<lparr>cf_MCPAllowApproval := v\<rparr>) st)))"

definition load_backend :: "string option \<Rightarrow> loading \<Rightarrow> loading" where
  "load_backend raw st =
     (case stated raw of
        None \<Rightarrow> st
      | Some s \<Rightarrow>
          (case find (\<lambda>b. Backend_string b = to_lower s) AllBackends of
             None \<Rightarrow> fail_with (''agent.backend '' @ go_quote s @ '' is not one of '' @ join_with '', '' (map Backend_string AllBackends)) st
           | Some b \<Rightarrow> set_config (\<lambda>c. c\<lparr>cf_AgentBackend := b\<rparr>) st))"

definition load_sandbox :: "string option \<Rightarrow> loading \<Rightarrow> loading" where
  "load_sandbox raw st =
     (case raw of
        None \<Rightarrow> st
      | Some s \<Rightarrow>
          if trim_space s = [] \<or> trim_space s = ''bwrap'' then set_config (\<lambda>c. c\<lparr>cf_OpenCodeSandbox := trim_space s\<rparr>) st
          else fail_with (''agent.opencode.sandbox '' @ go_quote (trim_space s) @ '' is not bwrap (or empty for none)'') st)"

fun writable_dirs :: "string list \<Rightarrow> string list \<times> string list" where
  "writable_dirs [] = ([], [])"
| "writable_dirs (raw # rest) =
     (let dir = path_clean (trim_space raw); (ps, ds) = writable_dirs rest
      in if is_abs dir then (ps, dir # ds)
         else ((''agent.opencode.sandbox_writable '' @ go_quote raw @ '' must be an absolute directory'') # ps, ds))"

definition load_writable :: "string list option \<Rightarrow> loading \<Rightarrow> loading" where
  "load_writable l st =
     (case l of
        None \<Rightarrow> st
      | Some raws \<Rightarrow>
          (let (ps, ds) = writable_dirs raws in (fst st @ ps, (snd st)\<lparr>cf_OpenCodeSandboxWritable := ds\<rparr>)))"

text \<open>\<open>^[A-Za-z_][A-Za-z0-9_]*$\<close>\<close>

definition envVarName :: "string \<Rightarrow> bool" where
  "envVarName s =
     (case s of [] \<Rightarrow> False
      | c # cs \<Rightarrow> (alnum c \<and> \<not> is_digit c \<or> c = CHR ''_'') \<and> list_all (\<lambda>d. alnum d \<or> d = CHR ''_'') cs)"

text \<open>The entries in the order Go walks the map; a later one replaces an earlier one of the same trimmed name.\<close>

fun provider_keys :: "(string \<times> string) list \<Rightarrow> string list \<times> (string \<rightharpoonup> string) \<Rightarrow> string list \<times> (string \<rightharpoonup> string)" where
  "provider_keys [] acc = acc"
| "provider_keys ((raw, value) # rest) (ps, keys) =
     (let provider = trim_space raw; variable = trim_space value
      in provider_keys rest
           (if provider = [] then (ps @ [''agent.opencode.provider_key_env has an empty provider id''], keys)
            else if \<not> envVarName variable
            then (ps @ [''agent.opencode.provider_key_env '' @ go_quote provider @ '' must name an environment variable (letters, digits, _), not hold the key''], keys)
            else (ps, keys(provider \<mapsto> variable))))"

definition load_providers :: "(string \<times> string) list option \<Rightarrow> loading \<Rightarrow> loading" where
  "load_providers e st =
     (case e of
        None \<Rightarrow> st
      | Some entries \<Rightarrow>
          (let (ps, keys) = provider_keys entries (fst st, Map.empty) in (ps, (snd st)\<lparr>cf_OpenCodeProviderKeyEnv := keys\<rparr>)))"

definition load_opencode :: "(string \<times> doc) list \<Rightarrow> loading \<Rightarrow> loading" where
  "load_opencode agent st =
     (case section_of agent ''opencode'' of
        None \<Rightarrow> st
      | Some m \<Rightarrow>
          load_providers (map_field m ''provider_key_env'')
            (load_writable (list_field m ''sandbox_writable'')
              (load_sandbox (str_field m ''sandbox'')
                (set_stated (str_field m ''agent'') (\<lambda>t c. c\<lparr>cf_OpenCodeAgent := t\<rparr>)
                  (set_trimmed (str_field m ''model'') (\<lambda>t c. c\<lparr>cf_OpenCodeModel := t\<rparr>)
                    (set_stated (str_field m ''command'') (\<lambda>t c. c\<lparr>cf_OpenCodeCommand := t\<rparr>) st))))))"

definition load_codex :: "(string \<times> doc) list \<Rightarrow> loading \<Rightarrow> loading" where
  "load_codex agent st =
     (case section_of agent ''codex'' of
        None \<Rightarrow> st
      | Some m \<Rightarrow>
          set_stated (str_field m ''sandbox'') (\<lambda>t c. c\<lparr>cf_CodexSandbox := t\<rparr>)
            (set_trimmed (str_field m ''model'') (\<lambda>t c. c\<lparr>cf_CodexModel := t\<rparr>)
              (set_trimmed (str_field m ''profile'') (\<lambda>t c. c\<lparr>cf_CodexProfile := t\<rparr>)
                (set_stated (str_field m ''command'') (\<lambda>t c. c\<lparr>cf_CodexCommand := t\<rparr>) st))))"

fun routes :: "(string \<times> string) list \<Rightarrow> string list \<times> (string \<rightharpoonup> string) \<Rightarrow> string list \<times> (string \<rightharpoonup> string)" where
  "routes [] acc = acc"
| "routes ((raw, value) # rest) (ps, routing) =
     routes rest
       (case ParseHardness raw of
          Inr (Some h) \<Rightarrow>
            if trim_space value = []
            then (ps @ [''agent.routing '' @ go_quote (Hardness_string h) @ '' has an empty model: remove the entry to let the backend choose''], routing)
            else (ps, routing(Hardness_string h \<mapsto> trim_space value))
        | _ \<Rightarrow> (ps @ [''agent.routing key '' @ go_quote raw @ '' is not a hardness (want one of TRIVIAL, STANDARD, HARD)''], routing))"

definition load_routing :: "(string \<times> string) list option \<Rightarrow> loading \<Rightarrow> loading" where
  "load_routing e st =
     (case e of
        None \<Rightarrow> st
      | Some entries \<Rightarrow>
          (let (ps, routing) = routes (sort_key fst entries) (fst st, Map.empty) in (ps, (snd st)\<lparr>cf_Routing := routing\<rparr>)))"

definition load_agent :: "(string \<times> doc) list \<Rightarrow> loading \<Rightarrow> loading" where
  "load_agent d st =
     (case section_of d ''agent'' of
        None \<Rightarrow> st
      | Some m \<Rightarrow>
          load_routing (map_field m ''routing'') (load_codex m (load_opencode m (load_backend (str_field m ''backend'') st))))"

definition load_level :: "string option \<Rightarrow> loading \<Rightarrow> loading" where
  "load_level raw st =
     (case stated raw of
        None \<Rightarrow> st
      | Some s \<Rightarrow> (case ParseLevel s of Inl e \<Rightarrow> fail_with e st | Inr l \<Rightarrow> set_config (\<lambda>c. c\<lparr>cf_LogLevel := l\<rparr>) st))"

fun trimmed_headers :: "(string \<times> string) list \<Rightarrow> (string \<rightharpoonup> string) \<Rightarrow> string \<rightharpoonup> string" where
  "trimmed_headers [] m = m"
| "trimmed_headers ((name, value) # rest) m =
     trimmed_headers rest (if trim_space name = [] then m else m(trim_space name \<mapsto> trim_space value))"

definition set_tracing :: "(Settings \<Rightarrow> Settings) \<Rightarrow> loading \<Rightarrow> loading" where
  "set_tracing f = set_config (\<lambda>c. c\<lparr>cf_Tracing := f (cf_Tracing c)\<rparr>)"

definition load_headers :: "(string \<times> string) list option \<Rightarrow> loading \<Rightarrow> loading" where
  "load_headers e st =
     (case e of
        None \<Rightarrow> st
      | Some entries \<Rightarrow>
          set_tracing (\<lambda>t. t\<lparr>se_Headers := trimmed_headers entries Map.empty\<rparr>)
            (if list_ex (\<lambda>p. trim_space (fst p) = []) entries
             then fail_with ''tracing.headers has an empty name: header names must not be empty'' st else st))"

definition load_ratio :: "loader \<Rightarrow> rat option \<Rightarrow> loading \<Rightarrow> loading" where
  "load_ratio L n st =
     (case n of
        None \<Rightarrow> st
      | Some x \<Rightarrow>
          if x < 0 \<or> x > 1 then fail_with (''tracing.sample_ratio '' @ l_num L x @ '' is outside 0..1'') st
          else set_tracing (\<lambda>t. t\<lparr>se_SampleRatio := Some x\<rparr>) st)"

definition load_tracing :: "loader \<Rightarrow> (string \<times> doc) list \<Rightarrow> loading \<Rightarrow> loading" where
  "load_tracing L d st =
     (case section_of d ''tracing'' of
        None \<Rightarrow> st
      | Some m \<Rightarrow>
          load_ratio L (num_field m ''sample_ratio'')
            ((case str_field m ''service_name'' of None \<Rightarrow> id | Some s \<Rightarrow> set_tracing (\<lambda>t. t\<lparr>se_ServiceName := trim_space s\<rparr>))
              (load_headers (map_field m ''headers'')
                ((case str_field m ''traces_endpoint'' of None \<Rightarrow> id | Some s \<Rightarrow> set_tracing (\<lambda>t. t\<lparr>se_TracesEndpoint := trim_space s\<rparr>))
                  ((case str_field m ''endpoint'' of None \<Rightarrow> id | Some s \<Rightarrow> set_tracing (\<lambda>t. t\<lparr>se_Endpoint := trim_space s\<rparr>)) st)))))"

section \<open>The file\<close>

datatype config_error = ConfigError string | InvalidConfig "string list"

definition lineOf :: "string \<Rightarrow> nat \<Rightarrow> nat" where
  "lineOf data offset = 1 + length (filter (\<lambda>c. c = newline) (take offset data))"

text \<open>What the loader makes of the settings, with every problem it found, in the order it reports them.\<close>

definition load_settings :: "loader \<Rightarrow> string \<Rightarrow> (string \<times> doc) list \<Rightarrow> loading" where
  "load_settings L path doc0 =
     (case checkTypes (l_num L) doc0 of
        (types, wrong, d) \<Rightarrow>
          load_tracing L d
            (load_level (str_field d ''log_level'')
              (load_agent d
                (load_mcp d
                  (load_tasks L d
                    (load_workspace L path d
                      (load_database L wrong d
                        (map (\<lambda>k. ''unknown setting '' @ go_quote k) (unknownKeys doc0) @ types, default_config path))))))))"

definition LoadFile :: "loader \<Rightarrow> string \<Rightarrow> config_error + Config" where
  "LoadFile L path =
     (case l_read L path of
        Inl e \<Rightarrow> Inl (ConfigError (''read config file '' @ path @ '': '' @ e))
      | Inr data \<Rightarrow>
          if trim_space data = [] then Inl (ConfigError (''config file '' @ path @ '' is empty''))
          else (case l_parse L data of
            SyntaxError offset e \<Rightarrow>
              Inl (ConfigError (''parse config file '' @ path @ '' line '' @ nat_dec (lineOf data offset) @ '': '' @ e))
          | OtherError e \<Rightarrow> Inl (ConfigError (''parse config file '' @ path @ '': '' @ e))
          | Parsed v \<Rightarrow>
              (case (case v of DNull \<Rightarrow> Some [] | DObj m \<Rightarrow> Some m | _ \<Rightarrow> None) of
                 None \<Rightarrow> Inl (ConfigError (''config file '' @ path @ '' must hold a JSON object, but it holds '' @ describeJSON (l_num L) v))
               | Some doc0 \<Rightarrow>
                   (case load_settings L path doc0 of
                      (problems, cfg) \<Rightarrow> if problems \<noteq> [] then Inl (InvalidConfig problems) else Inr cfg))))"

definition Load :: "loader \<Rightarrow> (string \<Rightarrow> string option) \<Rightarrow> config_error + Config" where
  "Load L lookup =
     (case stated (lookup ''AIDEV_CONFIG'') of
        None \<Rightarrow> Inl (ConfigError ''AIDEV_CONFIG is not set'')
      | Some path \<Rightarrow>
          if \<not> is_abs path then Inl (ConfigError (''AIDEV_CONFIG '' @ go_quote path @ '' must be absolute'')) else LoadFile L path)"

definition Redacted :: "Config \<Rightarrow> Config" where
  "Redacted c =
     c\<lparr>cf_DatabaseURL := RedactURL (cf_DatabaseURL c),
       cf_Tracing := (cf_Tracing c)\<lparr>se_Headers := (\<lambda>k. map_option (\<lambda>v. stars) (se_Headers (cf_Tracing c) k))\<rparr>\<rparr>"

end
