(* ===== verification/ConfigGuarantees.thy ===== *)
theory ConfigGuarantees
  imports Config
begin

text \<open>
  What loading promises: a configuration that loads is well-formed in every setting the program relies on,
  and a file with anything wrong in it is refused with every problem listed.
\<close>

section \<open>Loading steps\<close>

definition config_ok :: "loader \<Rightarrow> Config \<Rightarrow> bool" where
  "config_ok L c \<longleftrightarrow>
     cf_DatabaseURL c \<noteq> [] \<and> l_pgx L (cf_DatabaseURL c) = None \<and> is_abs (cf_WorkspaceRoot c)
     \<and> 0 < cf_DefaultTaskTimeout c \<and> 0 < cf_DefaultVerificationTimeout c \<and> 0 < cf_VerificationTotalTimeout c
     \<and> 1024 \<le> cf_MaxOutputBytes c
     \<and> cf_OpenCodeCommand c \<noteq> [] \<and> cf_OpenCodeAgent c \<noteq> [] \<and> cf_CodexCommand c \<noteq> [] \<and> cf_CodexSandbox c \<noteq> []
     \<and> cf_OpenCodeSandbox c \<in> set [[], ''bwrap''] \<and> list_all is_abs (cf_OpenCodeSandboxWritable c)
     \<and> (\<forall>p v. cf_OpenCodeProviderKeyEnv c p = Some v \<longrightarrow> p \<noteq> [] \<and> envVarName v)
     \<and> (\<forall>h m. cf_Routing c h = Some m \<longrightarrow> m \<noteq> [] \<and> h \<in> set (map Hardness_string AllHardnesses))
     \<and> se_Headers (cf_Tracing c) [] = None
     \<and> (\<forall>x. se_SampleRatio (cf_Tracing c) = Some x \<longrightarrow> 0 \<le> x \<and> x \<le> 1)"

text \<open>A step only adds problems, and as long as it adds none it keeps a well-formed configuration so.\<close>

definition sound :: "loader \<Rightarrow> (loading \<Rightarrow> loading) \<Rightarrow> bool" where
  "sound L f = (\<forall>st. prefix (fst st) (fst (f st)) \<and> (fst (f st) = [] \<longrightarrow> config_ok L (snd st) \<longrightarrow> config_ok L (snd (f st))))"

lemma soundI:
  assumes "\<And>ps c. prefix ps (fst (f (ps, c)))" "\<And>c. config_ok L c \<Longrightarrow> fst (f ([], c)) = [] \<Longrightarrow> config_ok L (snd (f ([], c)))"
  shows "sound L f"
  unfolding sound_def
proof (intro allI conjI impI)
  fix st :: loading
  obtain ps c where st: "st = (ps, c)" by (cases st) auto
  show "prefix (fst st) (fst (f st))" using assms(1) by (simp add: st)
  assume none: "fst (f st) = []" and ok: "config_ok L (snd st)"
  then have "ps = []" using assms(1) [of ps c] by (simp add: st)
  then show "config_ok L (snd (f st))" using assms(2) [of c] none ok by (simp add: st)
qed

lemma sound_id: "sound L id" "sound L (\<lambda>st. st)"
  by (simp_all add: sound_def)

lemma sound_comp: "sound L f \<Longrightarrow> sound L g \<Longrightarrow> sound L (\<lambda>st. f (g st))"
  unfolding sound_def by (metis prefix_Nil prefix_order.trans)

lemma sound_fail: "sound L (fail_with m)"
  by (simp add: sound_def fail_with_def)

lemma sound_set: "(\<And>c. config_ok L c \<Longrightarrow> config_ok L (f c)) \<Longrightarrow> sound L (set_config f)"
  by (simp add: sound_def set_config_def)

lemma sound_option: "sound L f \<Longrightarrow> (\<And>x. y = Some x \<Longrightarrow> sound L (g x)) \<Longrightarrow> sound L (\<lambda>st. case y of None \<Rightarrow> f st | Some x \<Rightarrow> g x st)"
  by (cases y) simp_all

lemma sound_sum: "(\<And>e. y = Inl e \<Longrightarrow> sound L (f e)) \<Longrightarrow> (\<And>x. y = Inr x \<Longrightarrow> sound L (g x)) \<Longrightarrow> sound L (\<lambda>st. case y of Inl e \<Rightarrow> f e st | Inr x \<Rightarrow> g x st)"
  by (cases y) simp_all

lemma sound_if: "(b \<Longrightarrow> sound L f) \<Longrightarrow> (\<not> b \<Longrightarrow> sound L g) \<Longrightarrow> sound L (\<lambda>st. if b then f st else g st)"
  by (cases b) simp_all

lemmas sound_basic = sound_id sound_fail sound_option sound_sum sound_if

lemma stated_Some: "stated s = Some t \<Longrightarrow> t \<noteq> []"
  by (auto simp: stated_def split: option.splits if_splits)

lemma sound_stated:
  "(\<And>t c. t \<noteq> [] \<Longrightarrow> config_ok L c \<Longrightarrow> config_ok L (f t c)) \<Longrightarrow> sound L (set_stated s f)"
  unfolding set_stated_def by (intro sound_basic sound_set) (auto dest: stated_Some)

lemma sound_trimmed: "(\<And>t c. config_ok L c \<Longrightarrow> config_ok L (f t c)) \<Longrightarrow> sound L (set_trimmed s f)"
  unfolding set_trimmed_def by (intro sound_basic sound_set) auto

lemma sound_duration:
  assumes "\<And>d c. 0 < d \<Longrightarrow> config_ok L c \<Longrightarrow> config_ok L (f d c)"
  shows "sound L (load_duration L key raw f)"
  unfolding load_duration_def
  by (intro sound_basic sound_set) (auto simp: parseDuration_def intro!: assms split: option.splits if_splits)

lemma sound_cleanup: "sound L (load_cleanup raw)"
  unfolding load_cleanup_def by (intro sound_basic sound_set) (simp_all add: config_ok_def)

lemma sound_output: "sound L (load_output n)"
  unfolding load_output_def by (intro sound_basic sound_set) (simp_all add: config_ok_def)

lemma sound_tasks: "sound L (load_tasks L d)"
  unfolding load_tasks_def
  by (intro sound_option sound_id sound_comp [OF sound_cleanup] sound_comp [OF sound_output] sound_comp [OF sound_duration] sound_duration)
    (simp_all add: config_ok_def)

lemma sound_mcp: "sound L (load_mcp d)"
proof -
  have flag: "sound L (\<lambda>s. case b of None \<Rightarrow> s | Some v \<Rightarrow> set_config (f v) s)"
    if "\<And>v c. config_ok L c \<Longrightarrow> config_ok L (f v c)" for b :: "bool option" and f
    using that by (intro sound_basic sound_set)
  show ?thesis unfolding load_mcp_def Let_def
    by (intro sound_option sound_id sound_comp [OF flag] flag) (simp_all add: config_ok_def)
qed

lemma sound_backend: "sound L (load_backend raw)"
  unfolding load_backend_def by (intro sound_basic sound_set) (simp_all add: config_ok_def)

lemma sound_sandbox: "sound L (load_sandbox raw)"
  unfolding load_sandbox_def by (intro sound_basic sound_set) (auto simp: config_ok_def)

lemma writable_abs: "list_all is_abs (snd (writable_dirs raws))"
  by (induction raws) (auto simp: Let_def split_def)

lemma sound_writable: "sound L (load_writable l)"
  unfolding load_writable_def Let_def split_def
  by (intro sound_option sound_id soundI) (auto simp: config_ok_def writable_abs)

lemma provider_keys_problems: "prefix (fst acc) (fst (provider_keys e acc))"
proof (induction e arbitrary: acc)
  case (Cons x e)
  obtain raw val ps keys where x: "x = (raw, val)" "acc = (ps, keys)" by (metis surj_pair)
  have "prefix (fst a) (fst (provider_keys e a))" for a by (rule Cons)
  from this [of "(ps @ _, keys)"] this [of "(ps, _)"] show ?case
    by (auto simp: x Let_def dest: append_prefixD)
qed simp

lemma provider_keys_ok:
  "(\<forall>p v. snd acc p = Some v \<longrightarrow> p \<noteq> [] \<and> envVarName v) \<Longrightarrow> snd (provider_keys e acc) p = Some v \<Longrightarrow> p \<noteq> [] \<and> envVarName v"
proof (induction e arbitrary: acc)
  case (Cons x e)
  obtain raw val ps keys where x: "x = (raw, val)" "acc = (ps, keys)" by (metis surj_pair)
  show ?case using Cons.prems(2) unfolding x provider_keys.simps Let_def
    by (rule Cons.IH [rotated]) (use Cons.prems(1) in \<open>auto simp: x split: if_splits\<close>)
qed simp

lemma sound_providers: "sound L (load_providers e)"
  unfolding load_providers_def Let_def split_def
  by (intro sound_option sound_id soundI)
    (auto simp: config_ok_def intro: provider_keys_problems [of "(_, _)", simplified] dest: provider_keys_ok [rotated])

lemma sound_opencode: "sound L (load_opencode agent)"
  unfolding load_opencode_def
  by (intro sound_option sound_id sound_comp [OF sound_providers] sound_comp [OF sound_writable] sound_comp [OF sound_sandbox]
      sound_comp [OF sound_stated] sound_comp [OF sound_trimmed] sound_stated) (simp_all add: config_ok_def)

lemma sound_codex: "sound L (load_codex agent)"
  unfolding load_codex_def
  by (intro sound_option sound_id sound_comp [OF sound_trimmed] sound_comp [OF sound_stated] sound_stated) (simp_all add: config_ok_def)

lemma routes_problems: "prefix (fst acc) (fst (routes e acc))"
proof (induction e arbitrary: acc)
  case (Cons x e)
  obtain raw val ps keys where x: "x = (raw, val)" "acc = (ps, keys)" by (metis surj_pair)
  have "prefix (fst a) (fst (routes e a))" for a by (rule Cons)
  from this [of "(ps @ _, keys)"] this [of "(ps, _)"] show ?case
    by (auto simp: x dest: append_prefixD split: sum.splits option.splits)
qed simp

lemma routes_ok:
  "(\<forall>h m. snd acc h = Some m \<longrightarrow> m \<noteq> [] \<and> h \<in> set (map Hardness_string AllHardnesses)) \<Longrightarrow>
   snd (routes e acc) h = Some m \<Longrightarrow> m \<noteq> [] \<and> h \<in> set (map Hardness_string AllHardnesses)"
proof (induction e arbitrary: acc)
  case (Cons x e)
  obtain raw val ps keys where x: "x = (raw, val)" "acc = (ps, keys)" by (metis surj_pair)
  have all: "g \<in> set AllHardnesses" for g by (cases g) (simp_all add: AllHardnesses_def)
  show ?case using Cons.prems(2) unfolding x routes.simps
    by (rule Cons.IH [rotated]) (use Cons.prems(1) all in \<open>auto simp: x split: sum.splits option.splits if_splits\<close>)
qed simp

lemma sound_routing: "sound L (load_routing e)"
  unfolding load_routing_def Let_def split_def
  by (intro sound_option sound_id soundI)
    (auto simp: config_ok_def intro: routes_problems [of "(_, _)", simplified] dest: routes_ok [rotated])

lemma sound_agent: "sound L (load_agent d)"
  unfolding load_agent_def
  by (intro sound_option sound_id sound_comp [OF sound_routing] sound_comp [OF sound_codex] sound_comp [OF sound_opencode] sound_backend)

lemma sound_level: "sound L (load_level raw)"
  unfolding load_level_def by (intro sound_basic sound_set) (simp_all add: config_ok_def)

lemma sound_tracing_field:
  "(\<And>t. se_Headers (f t) = se_Headers t \<and> se_SampleRatio (f t) = se_SampleRatio t) \<Longrightarrow> sound L (set_tracing f)"
  unfolding set_tracing_def by (rule sound_set) (simp add: config_ok_def)

lemma trimmed_headers_named: "m [] = None \<Longrightarrow> trimmed_headers e m [] = None"
  by (induction e m rule: trimmed_headers.induct) auto

lemma sound_headers: "sound L (load_headers e)"
  unfolding load_headers_def set_tracing_def
  by (intro sound_option sound_id sound_comp [OF sound_set] sound_if sound_fail) (simp_all add: config_ok_def trimmed_headers_named)

lemma sound_ratio: "sound L (load_ratio M n)"
  unfolding load_ratio_def set_tracing_def by (intro sound_basic sound_set) (auto simp: config_ok_def)

lemma sound_tracing: "sound L (load_tracing M d)"
proof -
  have words: "sound L (case s of None \<Rightarrow> id | Some t \<Rightarrow> set_tracing (f t))"
    if "\<And>t u. se_Headers (f t u) = se_Headers u \<and> se_SampleRatio (f t u) = se_SampleRatio u" for s :: "string option" and f
    by (cases s) (simp_all add: sound_id sound_tracing_field that)
  show ?thesis unfolding load_tracing_def
    by (intro sound_option sound_id sound_comp [OF sound_ratio] sound_comp [OF words] sound_comp [OF sound_headers] words) simp_all
qed

section \<open>A whole file\<close>

lemma workspace_prefix: "prefix (fst st) (fst (load_workspace L path d st))"
  by (auto simp: load_workspace_def fail_with_def set_config_def Let_def split: option.splits)

lemma database_prefix: "prefix (fst st) (fst (load_database L wrong d st))"
  by (auto simp: load_database_def fail_with_def set_config_def Let_def split: option.splits)

text \<open>The places a root may come from are absolute: the home directory and the working directory.\<close>

definition rooted :: "loader \<Rightarrow> bool" where
  "rooted L = ((\<forall>h. l_home L = Some h \<longrightarrow> is_abs h) \<and> (\<forall>d. l_cwd L = Some d \<longrightarrow> is_abs d))"

lemma abs_clean: "is_abs p \<Longrightarrow> is_abs (path_clean p)"
  by (simp add: path_clean_def Let_def is_abs_def has_prefix_def slash_def)

lemma abs_append: "is_abs p \<Longrightarrow> is_abs (p @ q)"
  by (cases p) (simp_all add: is_abs_def has_prefix_def)

lemma based:
  assumes "rooted L" "fst (load_workspace L path d (load_database L wrong d ([], default_config path))) = []"
    "wrong = []"
  shows "config_ok L (snd (load_workspace L path d (load_database L wrong d ([], default_config path))))"
proof -
  have none: "fst (load_database L wrong d ([], default_config path)) = []"
    using assms(2) workspace_prefix [of "load_database L wrong d ([], default_config path)" L path d] by auto
  then obtain url where url: "url \<noteq> []" "l_pgx L url = None" "load_database L wrong d ([], default_config path) = ([], (default_config path)\<lparr>cf_DatabaseURL := url\<rparr>)"
    using assms(3) stated_Some
    by (auto simp: load_database_def fail_with_def set_config_def Let_def default_config_def split: option.splits if_splits)
  show ?thesis using assms(1,2) url(1,2) unfolding url(3) load_workspace_def rooted_def
    by (auto simp: fail_with_def set_config_def Let_def config_ok_def default_config_def defaultWorkspaceRoot_def second_def
        intro: abs_clean abs_append split: option.splits if_splits)
qed

text \<open>
  The loader's steps after the first two, as one step.
\<close>

definition later_settings :: "loader \<Rightarrow> (string \<times> doc) list \<Rightarrow> loading \<Rightarrow> loading" where
  "later_settings L d st =
     load_tracing L d (load_level (str_field d ''log_level'') (load_agent d (load_mcp d (load_tasks L d st))))"

lemma sound_later: "sound L (later_settings L d)"
  unfolding later_settings_def
  by (intro sound_comp [OF sound_tracing] sound_comp [OF sound_level] sound_comp [OF sound_agent] sound_comp [OF sound_mcp] sound_tasks)

lemma load_settings_steps:
  "load_settings L path doc0 =
     (let (types, wrong, d) = checkTypes (l_num L) doc0
      in later_settings L d (load_workspace L path d (load_database L wrong d
           (map (\<lambda>k. ''unknown setting '' @ go_quote k) (unknownKeys doc0) @ types, default_config path))))"
  by (simp add: load_settings_def later_settings_def split: prod.splits)

lemma loading_prefix:
  "prefix ps (fst (later_settings L d (load_workspace L path d (load_database L wrong d (ps, c)))))"
proof -
  have "prefix (fst st) (fst (later_settings L d st))" for st
    using sound_later unfolding sound_def by blast
  then show ?thesis using workspace_prefix database_prefix by (metis fst_conv prefix_order.trans)
qed

lemma both_simps:
  "fst (both a b) = fst a @ fst b" "fst (snd (both a b)) = fst (snd a) @ fst (snd b)" "snd (snd (both a b)) = snd (snd a) @ snd (snd b)"
  by (simp_all add: both_def)

lemma sort_key_Nil_iff: "sort_key f xs = [] \<longleftrightarrow> xs = []"
  by (metis length_0_conv length_sort)

lemma check_doc_wrong: "fst (check_doc num base d sch) = [] \<Longrightarrow> fst (snd (check_doc num base d sch)) = []"
proof (induction num base d sch rule: check_doc.induct)
  case (2 num base k v rest sch)
  then show ?case
    by (auto simp: both_simps Let_def reject_def check_map_def sort_key_Nil_iff split_def
        split: option.splits schema.splits doc.splits if_splits)
qed simp

text \<open>What the schema asks of a document: every known setting that is not null has its kind.\<close>

fun well_typed :: "(string \<times> doc) list \<Rightarrow> (string \<times> schema) list \<Rightarrow> bool" where
  "well_typed [] sch = True"
| "well_typed ((k, v) # rest) sch =
     ((case map_of sch k of
         None \<Rightarrow> True
       | Some node \<Rightarrow> v = DNull \<or>
           (case node of SKind kd \<Rightarrow> matchKind kd v | SObj sub \<Rightarrow> (case v of DObj obj \<Rightarrow> well_typed obj sub | _ \<Rightarrow> False)))
      \<and> well_typed rest sch)"

lemma well_typed_append: "well_typed (a @ b) sch \<longleftrightarrow> well_typed a sch \<and> well_typed b sch"
  by (induction a) auto

lemma map_kind: "matchKind kindStringMap (DObj m) \<longleftrightarrow> filter (\<lambda>e. \<not> is_str (snd e)) m = []"
  by (simp add: matchKind_def filter_empty_conv list_all_iff)

lemma map_kind_filtered: "matchKind kindStringMap (DObj (filter (\<lambda>e. is_str (snd e)) m))"
  by (simp add: matchKind_def list_all_iff)

lemma map_kind_other: "\<not> (\<exists>m. v = DObj m) \<Longrightarrow> \<not> matchKind kindStringMap v"
  by (cases v) (simp_all add: matchKind_def)

lemma check_doc_typed:
  "well_typed (snd (snd (check_doc num base d sch))) sch \<and> (fst (check_doc num base d sch) = [] \<longleftrightarrow> well_typed d sch)"
proof (induction num base d sch rule: check_doc.induct)
  case (2 num base k v rest sch)
  show ?case
  proof (cases "map_of sch k")
    case None
    then show ?thesis using 2 by (simp add: both_simps well_typed_append Let_def)
  next
    case (Some node)
    show ?thesis
    proof (cases node)
      case (SKind kd)
      then show ?thesis using 2(2) Some
        by (cases v; cases "kd = kindStringMap")
          (auto simp: both_simps well_typed_append Let_def reject_def check_map_def map_kind map_kind_filtered map_kind_other
            sort_key_Nil_iff)
    next
      case (SObj sub)
      then show ?thesis using 2 Some
        by (cases v) (auto simp: both_simps well_typed_append Let_def reject_def split_def sort_key_Nil_iff)
    qed
  qed
qed simp

lemma check_types_typed:
  "well_typed (snd (snd (checkTypes num d))) configSchema" "fst (checkTypes num d) = [] \<longleftrightarrow> well_typed d configSchema"
  using check_doc_typed [of num "[]" d configSchema] by (simp_all add: checkTypes_def split_def sort_key_Nil_iff)

text \<open>
  C29: Checking types reports a problem exactly when the document breaks the schema, and what is decoded
  afterwards keeps it: every known value is null or of the kind its setting takes.
\<close>

theorem checked_document_is_typed:
  "well_typed (snd (snd (checkTypes num d))) configSchema \<and> (fst (checkTypes num d) = [] \<longleftrightarrow> well_typed d configSchema)"
  by (simp add: check_types_typed)


definition demo_loader :: "doc \<Rightarrow> loader" where
  "demo_loader v =
     \<lparr>l_read = (\<lambda>p. Inr ''json''), l_parse = (\<lambda>s. Parsed v), l_pgx = (\<lambda>u. None), l_home = Some ''/home/me'', l_cwd = Some ''/'',
      l_num = (\<lambda>x. ''n''), l_part = (\<lambda>f u k. 0)\<rparr>"

definition demo_doc :: doc where
  "demo_doc =
     DObj [(''database'', DObj [(''url'', DStr ''postgres://db'')]), (''tasks'', DObj [(''timeout'', DStr ''1h30m''), (''max_output_bytes'', DNum 4096)]),
           (''agent'', DObj [(''routing'', DObj [(''hard'', DStr ''big'')]), (''opencode'', DObj [(''sandbox'', DStr ''bwrap'')])])]"


text \<open>
  C30: A file with an unknown or a wrongly typed setting is refused, and the one error lists every
  such setting of the file.
\<close>

theorem every_problem_is_reported:
  assumes "l_read L path = Inr data" "trim_space data \<noteq> []" "l_parse L data = Parsed (DObj d)"
    and "unknownKeys d \<noteq> [] \<or> \<not> well_typed d configSchema"
  shows "\<exists>ps. LoadFile L path = Inl (InvalidConfig ps) \<and> ps \<noteq> []
    \<and> set (map (\<lambda>k. ''unknown setting '' @ go_quote k) (unknownKeys d)) \<subseteq> set ps \<and> set (fst (checkTypes (l_num L) d)) \<subseteq> set ps"
proof -
  obtain types wrong d' where t: "checkTypes (l_num L) d = (types, wrong, d')" by (cases "checkTypes (l_num L) d") auto
  let ?known = "map (\<lambda>k. ''unknown setting '' @ go_quote k) (unknownKeys d) @ types"
  obtain ps c where load: "load_settings L path d = (ps, c)" by (cases "load_settings L path d") auto
  have "prefix ?known ps"
    using loading_prefix [of ?known L d' path wrong "default_config path"] load by (simp add: load_settings_steps t)
  then have sub: "set ?known \<subseteq> set ps" by (rule set_mono_prefix)
  have "?known \<noteq> []" using assms(4) check_types_typed [of "l_num L" d] t by auto
  then have "ps \<noteq> []" using \<open>prefix ?known ps\<close> by auto
  moreover have "LoadFile L path = (if ps \<noteq> [] then Inl (InvalidConfig ps) else Inr c)"
    by (simp add: LoadFile_def assms load)
  ultimately show ?thesis using sub t by auto
qed

theorem every_problem_is_reported_witness:
  "\<exists>ps. LoadFile (demo_loader (DObj [(''databse'', DNull), (''log_level'', DNum 3)])) ''/etc/conf.json'' = Inl (InvalidConfig ps)
    \<and> (''unknown setting '' @ go_quote ''databse'') \<in> set ps"
proof -
  let ?d = "[(''databse'', DNull), (''log_level'', DNum 3)]"
  have "l_read (demo_loader (DObj ?d)) ''/etc/conf.json'' = Inr ''json''" "l_parse (demo_loader (DObj ?d)) ''json'' = Parsed (DObj ?d)"
    by (simp_all add: demo_loader_def)
  moreover have "trim_space ''json'' \<noteq> []" "unknownKeys ?d = [''databse'']" by code_simp+
  ultimately show ?thesis using every_problem_is_reported [of "demo_loader (DObj ?d)" "''/etc/conf.json''" "''json''" ?d] by auto
qed

text \<open>
  Where two entries of a map are the same once trimmed, or several are refused, the outcome depends on
  the order Go walks the map in: the value of a header, and the order of the problems.
\<close>

theorem map_order_decides:
  "trimmed_headers [(''x-key'', ''a''), (''x-key '', ''b'')] Map.empty ''x-key'' = Some ''b''
   \<and> trimmed_headers [(''x-key '', ''b''), (''x-key'', ''a'')] Map.empty ''x-key'' = Some ''a''
   \<and> fst (provider_keys [(''p'', ''1''), (''q'', ''2'')] ([], Map.empty)) \<noteq> fst (provider_keys [(''q'', ''2''), (''p'', ''1'')] ([], Map.empty))"
  by (intro conjI; code_simp)

end
