(* ===== verification/RedactGuarantees.thy ===== *)
theory RedactGuarantees
  imports Redact
begin

text \<open>
  What a redacted connection string shows: in both forms the result is written out without any password or
  secret value in it, so nothing of them can be read from it. A password with a slash in it, which no
  URL parser accepts, is the exception the comment of the function denies.
\<close>

section \<open>URLs\<close>

definition param_text :: "string \<times> string \<Rightarrow> string" where
  "param_text kv = fst kv @ ''='' @ snd kv"

definition secret_param :: "string \<Rightarrow> bool" where
  "secret_param key = (case query_unescape key of None \<Rightarrow> True | Some decoded \<Rightarrow> isSecretKey decoded)"

definition hidden_param :: "string \<times> string \<Rightarrow> string" where
  "hidden_param kv = fst kv @ ''='' @ (if secret_param (fst kv) then stars else snd kv)"

text \<open>A URL with a user and a password, its path, its query and its fragment.\<close>

record pgURL =
  pu_Scheme :: string
  pu_User :: string
  pu_Password :: string
  pu_Host :: string
  pu_Path :: string
  pu_Params :: "(string \<times> string) list"
  pu_Fragment :: string

definition url_text :: "(string \<times> string \<Rightarrow> string) \<Rightarrow> string \<Rightarrow> pgURL \<Rightarrow> string" where
  "url_text param pw u = pu_Scheme u @ scheme_mark @ pu_User u @ colon_char # pw @ ''@'' @ pu_Host u @ pu_Path u
     @ ''?'' @ join_with ''&'' (map param (pu_Params u)) @ pu_Fragment u"

definition in_authority :: "string \<Rightarrow> bool" where
  "in_authority s = list_all (\<lambda>c. \<not> authority_end c) s"

definition url_ok :: "pgURL \<Rightarrow> bool" where
  "url_ok u = (pu_Scheme u \<in> set [''postgres'', ''postgresql''] \<and> pu_User u \<noteq> [] \<and> colon_char \<notin> set (pu_User u)
     \<and> in_authority (pu_User u) \<and> in_authority (pu_Password u) \<and> in_authority (pu_Host u) \<and> CHR ''@'' \<notin> set (pu_Host u)
     \<and> (pu_Path u = [] \<or> authority_end (hd (pu_Path u))) \<and> CHR ''?'' \<notin> set (pu_Path u)
     \<and> pu_Params u \<noteq> []
     \<and> list_all (\<lambda>(k, v). CHR ''='' \<notin> set k \<and> CHR ''&'' \<notin> set k \<and> CHR ''#'' \<notin> set k \<and> CHR ''&'' \<notin> set v \<and> CHR ''#'' \<notin> set v) (pu_Params u)
     \<and> (pu_Fragment u = [] \<or> hd (pu_Fragment u) = CHR ''#''))"

lemma takeWhile_part: "list_all P s \<Longrightarrow> t = [] \<or> \<not> P (hd t) \<Longrightarrow> takeWhile P (s @ t) = s"
  by (induction s) (cases t; auto)+

lemma dropWhile_part: "list_all P s \<Longrightarrow> t = [] \<or> \<not> P (hd t) \<Longrightarrow> dropWhile P (s @ t) = t"
  by (induction s) (cases t; auto)+

lemma last_parts:
  assumes "c \<notin> set t"
  shows "before_last c (s @ c # t) = s" "after_last c (s @ c # t) = t"
proof -
  have "list_all (\<lambda>x. x \<noteq> c) (rev t)" using assms by (auto simp: list_all_iff)
  then show "before_last c (s @ c # t) = s" "after_last c (s @ c # t) = t"
    by (simp_all add: before_last_def after_last_def dropWhile_part takeWhile_part)
qed

lemma before_char_part: "c \<notin> set s \<Longrightarrow> t = [] \<or> hd t = c \<Longrightarrow> before_char c (s @ t) = s"
  unfolding before_char_def by (rule takeWhile_part) (auto simp: list_all_iff)

lemma index_scheme: "colon_char \<notin> set s \<Longrightarrow> index_of (s @ scheme_mark @ t) scheme_mark = Some (length s)"
proof (induction s)
  case Nil
  then show ?case by (simp add: scheme_mark_def has_prefix_simps)
next
  case (Cons c s)
  then have "\<not> has_prefix (c # s @ scheme_mark @ t) scheme_mark" by (auto simp: scheme_mark_def has_prefix_simps)
  with Cons show ?case by auto
qed

lemma to_lower_keeps:
  "list_all (\<lambda>c. lower_char c = c \<and> c \<noteq> CHR 0xC4 \<and> c \<noteq> CHR 0xE2) w \<Longrightarrow> to_lower (w @ s) = w @ to_lower s"
  by (induction w) auto

lemma scheme_lower:
  assumes "scheme \<in> set [''postgres'', ''postgresql'']"
  shows "has_prefix (to_lower (scheme @ scheme_mark @ s)) ''postgres://'' \<or> has_prefix (to_lower (scheme @ scheme_mark @ s)) ''postgresql://''"
proof -
  have "list_all (\<lambda>c. lower_char c = c \<and> c \<noteq> CHR 0xC4 \<and> c \<noteq> CHR 0xE2) (''postgres'' @ scheme_mark)"
    "list_all (\<lambda>c. lower_char c = c \<and> c \<noteq> CHR 0xC4 \<and> c \<noteq> CHR 0xE2) (''postgresql'' @ scheme_mark)"
    by code_simp+
  from to_lower_keeps [OF this(1), of s] to_lower_keeps [OF this(2), of s] assms show ?thesis
    by (auto simp: has_prefix_def scheme_mark_def slash_def colon_char_def)
qed

lemma redact_param_text: "CHR ''='' \<notin> set k \<Longrightarrow> redact_param (param_text (k, v)) = hidden_param (k, v)"
  using before_char_part [of "CHR ''=''" k "CHR ''='' # v"]
  by (auto simp: redact_param_def param_text_def hidden_param_def secret_param_def split: option.splits)

lemma redact_query_text:
  assumes "ps \<noteq> []" "list_all (\<lambda>(k, v). CHR ''='' \<notin> set k \<and> CHR ''&'' \<notin> set k \<and> CHR ''&'' \<notin> set v) ps"
  shows "redact_query (join_with ''&'' (map param_text ps)) = join_with ''&'' (map hidden_param ps)"
proof -
  have "list_all (\<lambda>l. CHR ''&'' \<notin> set l) (map param_text ps)" using assms(2) by (auto simp: list_all_iff param_text_def)
  then have "split_on CHR ''&'' (join_with ''&'' (map param_text ps)) = map param_text ps"
    using split_join [of "map param_text ps"] assms(1) by simp
  moreover have "map redact_param (map param_text ps) = map hidden_param ps"
    using assms(2) by (auto simp: list_all_iff redact_param_text)
  ultimately show ?thesis unfolding redact_query_def by metis
qed

lemma set_join: "c \<noteq> d \<Longrightarrow> c \<in> set (join_with [d] ls) \<longleftrightarrow> (\<exists>l \<in> set ls. c \<in> set l)"
  by (induction ls rule: induct_list012) auto



section \<open>Keywords and values\<close>

definition escape_value :: "string \<Rightarrow> string" where
  "escape_value v = concat (map (\<lambda>c. if c = backslash \<or> c = apostrophe then [backslash, c] else [c]) v)"

definition kv_text :: "string \<times> string \<Rightarrow> string" where
  "kv_text kv = fst kv @ ''='' @ apostrophe # escape_value (snd kv) @ [apostrophe]"

definition hidden_kv :: "string \<times> string \<Rightarrow> string" where
  "hidden_kv kv = (if isSecretKey (fst kv) then fst kv @ ''='' @ stars else kv_text kv)"

lemma scan_escaped: "scan_value True (escape_value v @ apostrophe # rest) = (escape_value v @ [apostrophe], rest, True)"
proof -
  have "backslash \<noteq> apostrophe" by code_simp
  then show ?thesis by (induction v) (auto simp: escape_value_def)
qed

lemma redact_pair:
  assumes "k \<noteq> []" "list_all kv_key_char k"
  shows "redactKeywordValue (kv_text (k, v) @ rest) = hidden_kv (k, v) @ redactKeywordValue rest"
proof -
  let ?s = "kv_text (k, v) @ rest" and ?tail = "CHR ''='' # apostrophe # escape_value v @ apostrophe # rest"
  have s: "?s = k @ ?tail" by (simp add: kv_text_def)
  have signs: "\<not> kv_key_char CHR ''=''" "\<not> isKVSpace CHR ''=''" "\<not> isKVSpace apostrophe" by code_simp+
  have "takeWhile kv_key_char ?s = k" "dropWhile kv_key_char ?s = ?tail"
    unfolding s using assms(2) signs by (simp_all add: takeWhile_part dropWhile_part)
  moreover have "?s \<noteq> []" "\<not> isKVSpace (hd ?s)" using assms by (cases k; auto simp: kv_text_def kv_key_char_def)+
  ultimately show ?thesis
    using signs by (subst redactKeywordValue.simps) (simp add: scanKVValue_def scan_escaped hidden_kv_def kv_text_def)
qed

text \<open>
  A keyword/value connection string is written back with three stars for the value of every key that
  is a secret one, whatever quotes, backslashes and blanks the values hold, and is otherwise unchanged.
\<close>

theorem keyword_passwords_are_hidden:
  assumes "list_all (\<lambda>(k, v). k \<noteq> [] \<and> list_all kv_key_char k) ps"
  shows "redactKeywordValue (join_with '' '' (map kv_text ps)) = join_with '' '' (map hidden_kv ps)"
  using assms
proof (induction ps rule: induct_list012)
  case 1
  then show ?case by (simp add: redactKeywordValue.simps)
next
  case (2 p)
  then show ?case using redact_pair [of "fst p" "snd p" "[]"] by (simp add: redactKeywordValue.simps case_prod_beta)
next
  case (3 p q ps)
  have "isKVSpace CHR '' ''" by code_simp
  then have "redactKeywordValue (CHR '' '' # s) = CHR '' '' # redactKeywordValue s" for s
    by (subst redactKeywordValue.simps) simp
  then show ?case using 3 redact_pair [of "fst p" "snd p" "CHR '' '' # join_with '' '' (map kv_text (q # ps))"]
    by (simp add: case_prod_beta)
qed

theorem keyword_passwords_are_hidden_witness:
  "RedactURL (''host='' @ apostrophe # ''db'' @ apostrophe # '' password='' @ apostrophe # ''x '' @ backslash # apostrophe # ''y'' @ [apostrophe])
    = ''host='' @ apostrophe # ''db'' @ apostrophe # '' password=***''"
proof -
  let ?ps = "[(''host'', ''db''), (''password'', ''x '' @ apostrophe # ''y'')]"
  let ?text = "''host='' @ apostrophe # ''db'' @ apostrophe # '' password='' @ apostrophe # ''x '' @ backslash # apostrophe # ''y'' @ [apostrophe]"
  have "list_all (\<lambda>(k, v). k \<noteq> [] \<and> list_all kv_key_char k) ?ps" by code_simp
  from keyword_passwords_are_hidden [OF this]
  have "redactKeywordValue (join_with '' '' (map kv_text ?ps)) = join_with '' '' (map hidden_kv ?ps)" .
  moreover have "join_with '' '' (map kv_text ?ps) = ?text"
    "join_with '' '' (map hidden_kv ?ps) = ''host='' @ apostrophe # ''db'' @ apostrophe # '' password=***''"
    "\<not> has_prefix (to_lower ?text) ''postgres://''" "\<not> has_prefix (to_lower ?text) ''postgresql://''"
    by code_simp+
  ultimately show ?thesis by (simp add: RedactURL_def)
qed

section \<open>What is not understood\<close>

text \<open>
  A slash in the password ends what the function takes for the authority, so a URL that no parser
  accepts is returned with its password in it, where its comment promises to hide too much.
\<close>

theorem slash_in_password_is_printed:
  "RedactURL ''postgres://aidev:se/cret@db/aidev'' = ''postgres://aidev:se/cret@db/aidev''"
  by code_simp

end
