(* ===== verification/Migrations.thy ===== *)
theory Migrations
  imports TextLemmas
begin

text \<open>
  \<open>internal/store/migrate.go\<close>: bringing the schema up to date. What a migration's SQL does to the schema
  is the argument \<open>sql\<close> (\<open>None\<close> when the server refuses it), the checksum is \<open>sha256\<close> in hexadecimal,
  and \<open>io :: step \<Rightarrow> bool\<close> says which steps of the conversation with the server work. The advisory lock makes
  one run at a time the only case.
\<close>

section \<open>Migrations\<close>

record Migration =
  mg_Version :: string
  mg_SQL :: string
  mg_Checksum :: string

record files =
  fs_names :: "string list option"
  fs_read :: "string \<Rightarrow> string option"
  fs_sha256 :: "string \<Rightarrow> string"

datatype migrate_error =
    MListFailed | MNoMigrations | MReadFailed string | MNoPool | MConnection string
  | MChanged string string string | MRefused string | MRecordFailed string | MCommitFailed string | MBeginFailed string

fun read_migrations :: "files \<Rightarrow> string list \<Rightarrow> migrate_error + Migration list" where
  "read_migrations F [] = Inr []"
| "read_migrations F (name # rest) =
     (case fs_read F name of
        None \<Rightarrow> Inl (MReadFailed name)
      | Some body \<Rightarrow>
          (case read_migrations F rest of
             Inl e \<Rightarrow> Inl e
           | Inr ms \<Rightarrow>
               Inr (\<lparr>mg_Version = trim_suffix (path_base name) ''.sql'', mg_SQL = body, mg_Checksum = fs_sha256 F body\<rparr> # ms)))"

text \<open>\<open>fs_names\<close> is what \<open>fs.Glob\<close> finds for \<open>*.sql\<close>.\<close>

definition LoadMigrations :: "files \<Rightarrow> migrate_error + Migration list" where
  "LoadMigrations F =
     (case fs_names F of
        None \<Rightarrow> Inl MListFailed
      | Some names \<Rightarrow> if names = [] then Inl MNoMigrations else read_migrations F (sort names))"

section \<open>Migrating\<close>

text \<open>The schema, and the rows of \<open>schema_migrations\<close> once that table exists.\<close>

record 's schema_db =
  sd_schema :: 's
  sd_applied :: "(string \<times> string) list option"

record MigrateResult =
  mr_Applied :: "string list"
  mr_AlreadyUp :: "string list"

datatype step = Acquire | Lock | CreateTable | ReadTable | Begin string | RecordRow string | Commit string

definition applied_rows :: "'s schema_db \<Rightarrow> (string \<times> string) list" where
  "applied_rows d = (case sd_applied d of None \<Rightarrow> [] | Some rows \<Rightarrow> rows)"

text \<open>One migration in its transaction: the new state, or the error of a rolled-back one.\<close>

definition apply_migration ::
    "(string \<Rightarrow> 's \<Rightarrow> 's option) \<Rightarrow> (step \<Rightarrow> bool) \<Rightarrow> Migration \<Rightarrow> 's schema_db \<Rightarrow> migrate_error + 's schema_db" where
  "apply_migration sql io m d =
     (if \<not> io (Begin (mg_Version m)) then Inl (MBeginFailed (mg_Version m))
      else (case sql (mg_SQL m) (sd_schema d) of
        None \<Rightarrow> Inl (MRefused (mg_Version m))
      | Some s \<Rightarrow>
          if \<not> io (RecordRow (mg_Version m)) \<or> mg_Version m \<in> set (map fst (applied_rows d)) then Inl (MRecordFailed (mg_Version m))
          else if \<not> io (Commit (mg_Version m)) then Inl (MCommitFailed (mg_Version m))
          else Inr \<lparr>sd_schema = s, sd_applied = Some (applied_rows d @ [(mg_Version m, mg_Checksum m)])\<rparr>))"

text \<open>
  The loop: \<open>known\<close> is the map read before it. It answers the result so far and the state, with the error
  that ended it.
\<close>

fun migrate_each ::
    "(string \<Rightarrow> 's \<Rightarrow> 's option) \<Rightarrow> (step \<Rightarrow> bool) \<Rightarrow> (string \<rightharpoonup> string) \<Rightarrow> Migration list \<Rightarrow> MigrateResult \<Rightarrow> 's schema_db
      \<Rightarrow> MigrateResult \<times> migrate_error option \<times> 's schema_db" where
  "migrate_each sql io known [] r d = (r, None, d)"
| "migrate_each sql io known (m # ms) r d =
     (case known (mg_Version m) of
        Some recorded \<Rightarrow>
          if recorded \<noteq> mg_Checksum m then (r, Some (MChanged (mg_Version m) recorded (mg_Checksum m)), d)
          else migrate_each sql io known ms (r\<lparr>mr_AlreadyUp := mr_AlreadyUp r @ [mg_Version m]\<rparr>) d
      | None \<Rightarrow>
          (case apply_migration sql io m d of
             Inl e \<Rightarrow> (r, Some e, d)
           | Inr d' \<Rightarrow> migrate_each sql io known ms (r\<lparr>mr_Applied := mr_Applied r @ [mg_Version m]\<rparr>) d'))"

definition no_result :: MigrateResult where
  "no_result = \<lparr>mr_Applied = [], mr_AlreadyUp = []\<rparr>"

definition Migrate ::
    "(string \<Rightarrow> 's \<Rightarrow> 's option) \<Rightarrow> (step \<Rightarrow> bool) \<Rightarrow> bool \<Rightarrow> Migration list \<Rightarrow> 's schema_db
      \<Rightarrow> MigrateResult \<times> migrate_error option \<times> 's schema_db" where
  "Migrate sql io pooled ms d =
     (if \<not> pooled then (no_result, Some MNoPool, d)
      else if \<not> io Acquire then (no_result, Some (MConnection ''acquire connection''), d)
      else if \<not> io Lock then (no_result, Some (MConnection ''acquire migration lock''), d)
      else if \<not> io CreateTable then (no_result, Some (MConnection ''create schema_migrations''), d)
      else (let d1 = d\<lparr>sd_applied := Some (applied_rows d)\<rparr>
            in if \<not> io ReadTable then (no_result, Some (MConnection ''read schema_migrations''), d1)
               else migrate_each sql io (map_of (applied_rows d)) ms no_result d1))"

fun pending_each :: "(string \<rightharpoonup> string) \<Rightarrow> Migration list \<Rightarrow> migrate_error + string list" where
  "pending_each known [] = Inr []"
| "pending_each known (m # ms) =
     (case known (mg_Version m) of
        Some recorded \<Rightarrow>
          if recorded \<noteq> mg_Checksum m then Inl (MChanged (mg_Version m) recorded (mg_Checksum m)) else pending_each known ms
      | None \<Rightarrow> (case pending_each known ms of Inl e \<Rightarrow> Inl e | Inr vs \<Rightarrow> Inr (mg_Version m # vs)))"

definition PendingMigrations :: "(step \<Rightarrow> bool) \<Rightarrow> Migration list \<Rightarrow> 's schema_db \<Rightarrow> migrate_error + string list" where
  "PendingMigrations io ms d =
     (case sd_applied d of
        None \<Rightarrow> Inr (map mg_Version ms)
      | Some rows \<Rightarrow> if \<not> io ReadTable then Inl (MConnection ''read schema_migrations'') else pending_each (map_of rows) ms)"

section \<open>What a run leaves behind\<close>

text \<open>The migrations of the list a run applied, in order, as the effect of their SQL.\<close>

fun run_sql :: "(string \<Rightarrow> 's \<Rightarrow> 's option) \<Rightarrow> Migration list \<Rightarrow> 's \<Rightarrow> 's option" where
  "run_sql sql [] s = Some s"
| "run_sql sql (m # ms) s = (case sql (mg_SQL m) s of None \<Rightarrow> None | Some t \<Rightarrow> run_sql sql ms t)"

definition row_of :: "Migration \<Rightarrow> string \<times> string" where
  "row_of m = (mg_Version m, mg_Checksum m)"

lemma run_sql_append: "run_sql sql (as @ bs) s = (case run_sql sql as s of None \<Rightarrow> None | Some t \<Rightarrow> run_sql sql bs t)"
  by (induction as arbitrary: s) (auto split: option.splits)

text \<open>
  The state a loop reaches: some of the unknown migrations, a first part of them in the order of the list,
  have run, each together with its row; all of them, and no changed one met, when it ends without an error.
\<close>

lemma migrate_each_spec:
  assumes "migrate_each sql io known ms r d = (r', e, d')" "sd_applied d \<noteq> None"
  shows "\<exists>did rest. filter (\<lambda>m. known (mg_Version m) = None) ms = did @ rest
    \<and> mr_Applied r' = mr_Applied r @ map mg_Version did
    \<and> run_sql sql did (sd_schema d) = Some (sd_schema d') \<and> sd_applied d' = Some (applied_rows d @ map row_of did)
    \<and> (e = None \<longrightarrow> rest = [] \<and> pending_each known ms = Inr (map mg_Version did))"
  using assms
proof (induction ms arbitrary: r d)
  case Nil
  then show ?case by (auto simp: applied_rows_def)
next
  case (Cons m ms)
  show ?case
  proof (cases "known (mg_Version m)")
    case None
    show ?thesis
    proof (cases "apply_migration sql io m d")
      case (Inl x)
      then show ?thesis using Cons.prems None by (auto simp: applied_rows_def intro!: exI [of _ "[]"])
    next
      case (Inr d1)
      then obtain s where s: "sql (mg_SQL m) (sd_schema d) = Some s" "d1 = \<lparr>sd_schema = s, sd_applied = Some (applied_rows d @ [row_of m])\<rparr>"
        by (auto simp: apply_migration_def row_of_def split: if_splits option.splits)
      have "migrate_each sql io known ms (r\<lparr>mr_Applied := mr_Applied r @ [mg_Version m]\<rparr>) d1 = (r', e, d')"
        using Cons.prems(1) None Inr by simp
      from Cons.IH [OF this] s(2) obtain did rest where
        "filter (\<lambda>m. known (mg_Version m) = None) ms = did @ rest" "mr_Applied r' = mr_Applied r @ mg_Version m # map mg_Version did"
        "run_sql sql did s = Some (sd_schema d')" "sd_applied d' = Some (applied_rows d @ row_of m # map row_of did)"
        "e = None \<longrightarrow> rest = [] \<and> pending_each known ms = Inr (map mg_Version did)"
        by (auto simp: applied_rows_def)
      then show ?thesis using None s(1) by (intro exI [of _ "m # did"] exI [of _ rest]) auto
    qed
  next
    case (Some recorded)
    then show ?thesis
    proof (cases "recorded = mg_Checksum m")
      case True
      then have "migrate_each sql io known ms (r\<lparr>mr_AlreadyUp := mr_AlreadyUp r @ [mg_Version m]\<rparr>) d = (r', e, d')"
        using Cons.prems(1) Some by simp
      from Cons.IH [OF this Cons.prems(2)] show ?thesis using Some True by auto
    next
      case False
      then show ?thesis using Cons.prems Some by (auto simp: applied_rows_def intro!: exI [of _ "[]"])
    qed
  qed
qed


lemma pending_checked: "pending_each known ms = Inr vs \<Longrightarrow> m \<in> set ms \<Longrightarrow> known (mg_Version m) = Some c \<Longrightarrow> c = mg_Checksum m"
  by (induction ms arbitrary: vs) (auto split: option.splits if_splits sum.splits)

lemma pending_none: "\<forall>m \<in> set ms. known (mg_Version m) = Some (mg_Checksum m) \<Longrightarrow> pending_each known ms = Inr []"
  by (induction ms) auto

lemma migrate_none:
  "\<forall>m \<in> set ms. known (mg_Version m) = Some (mg_Checksum m) \<Longrightarrow>
   \<exists>up. migrate_each sql io known ms r d = (r\<lparr>mr_AlreadyUp := up\<rparr>, None, d)"
proof (induction ms arbitrary: r)
  case Nil
  have "r = r\<lparr>mr_AlreadyUp := mr_AlreadyUp r\<rparr>" by simp
  then show ?case by (auto intro!: exI [of _ "mr_AlreadyUp r"])
next
  case (Cons m ms)
  then show ?case by auto (metis MigrateResult.update_convs(2) MigrateResult.surjective)
qed

text \<open>
  What is reported as pending is what the next run applies: after a run that ended without an error
  the versions it applied are those the report named before it, nothing is pending any more, and a second run
  applies nothing and changes nothing.
\<close>

theorem pending_is_what_migrate_applies:
  assumes "Migrate sql io True ms d = (r, None, d')" "distinct (map mg_Version ms)"
  shows "PendingMigrations io ms d = Inr (mr_Applied r) \<and> PendingMigrations io ms d' = Inr []
    \<and> (case Migrate sql io True ms d' of (again, e, d'') \<Rightarrow> mr_Applied again = [] \<and> e = None \<and> d'' = d')"
proof -
  let ?known = "map_of (applied_rows d)" and ?d = "d\<lparr>sd_applied := Some (applied_rows d)\<rparr>"
  have io: "io Acquire" "io Lock" "io CreateTable" "io ReadTable" and loop: "migrate_each sql io ?known ms no_result ?d = (r, None, d')"
    using assms(1) by (auto simp: Migrate_def Let_def split: if_splits)
  from migrate_each_spec [OF loop] obtain did where did: "filter (\<lambda>m. ?known (mg_Version m) = None) ms = did"
    "mr_Applied r = map mg_Version did" "sd_applied d' = Some (applied_rows d @ map row_of did)"
    "pending_each ?known ms = Inr (map mg_Version did)"
    by (auto simp: no_result_def applied_rows_def)
  have before: "PendingMigrations io ms d = Inr (mr_Applied r)"
  proof (cases "sd_applied d")
    case None
    then have "did = ms" using did(1) by (auto simp: applied_rows_def)
    then show ?thesis using None did(2) by (simp add: PendingMigrations_def)
  next
    case (Some rows)
    then show ?thesis using did(2,4) io(4) by (simp add: PendingMigrations_def applied_rows_def)
  qed
  have up: "\<forall>m \<in> set ms. map_of (applied_rows d') (mg_Version m) = Some (mg_Checksum m)"
  proof
    fix m assume m: "m \<in> set ms"
    show "map_of (applied_rows d') (mg_Version m) = Some (mg_Checksum m)"
    proof (cases "?known (mg_Version m)")
      case None
      then have "m \<in> set did" "distinct (map mg_Version did)"
        using m did(1) assms(2) by (auto simp: distinct_map_filter)
      then have "map_of (map row_of did) (mg_Version m) = Some (mg_Checksum m)"
        by (intro map_of_is_SomeI) (auto simp: row_of_def comp_def)
      then show ?thesis using None did(3) by (simp add: applied_rows_def map_add_def)
    next
      case (Some c)
      then have "c = mg_Checksum m" using pending_checked [OF did(4) m] by simp
      then show ?thesis using Some did(3)
        by (cases "map_of (map row_of did) (mg_Version m)") (auto simp: applied_rows_def map_add_def dest!: map_of_SomeD)
    qed
  qed
  obtain rows where rows: "sd_applied d' = Some rows" "applied_rows d' = rows" using did(3) by (simp add: applied_rows_def)
  then have same: "d'\<lparr>sd_applied := Some (applied_rows d')\<rparr> = d'" by (cases d') simp
  have "PendingMigrations io ms d' = Inr []"
    using pending_none [OF up] rows io(4) by (simp add: PendingMigrations_def)
  moreover have "case Migrate sql io True ms d' of (again, e, d'') \<Rightarrow> mr_Applied again = [] \<and> e = None \<and> d'' = d'"
    using migrate_none [OF up, of sql io no_result d'] io same by (auto simp: Migrate_def Let_def no_result_def)
  ultimately show ?thesis using before by blast
qed

definition demo_files :: "Migration list" where
  "demo_files =
     [\<lparr>mg_Version = ''0001'', mg_SQL = ''a'', mg_Checksum = ''x''\<rparr>, \<lparr>mg_Version = ''0002'', mg_SQL = ''b'', mg_Checksum = ''y''\<rparr>,
      \<lparr>mg_Version = ''0003'', mg_SQL = ''c'', mg_Checksum = ''z''\<rparr>]"

definition demo_schema :: "string schema_db" where
  "demo_schema = \<lparr>sd_schema = ''a'', sd_applied = Some [(''0001'', ''x'')]\<rparr>"


theorem pending_is_what_migrate_applies_witness:
  "PendingMigrations (\<lambda>s. True) demo_files demo_schema = Inr [''0002'', ''0003'']"
proof -
  let ?run = "Migrate (\<lambda>sql s. Some (s @ sql)) (\<lambda>s. True) True demo_files demo_schema"
  obtain r d' where run: "?run = (r, None, d')"
  proof -
    have "fst (snd ?run) = None" by code_simp
    then show ?thesis using that by (metis prod.collapse)
  qed
  have "mr_Applied (fst ?run) = [''0002'', ''0003'']" "distinct (map mg_Version demo_files)" by code_simp+
  then show ?thesis using pending_is_what_migrate_applies [OF run] run by simp
qed

end
