(* ===== verification/Views.thy ===== *)
theory Views
  imports Coverage EventLog
begin

text \<open>
  \<open>internal/view/view.go\<close>: the shapes in which the command line and the MCP server show a task, its attempts
  and its events, and the conversions into them. A time is shown in UTC; here times are
  nanoseconds since 1970, so the calendar is written out. The report of coverage is read back from the event
  that recorded it (\<open>Store.CoverageReport\<close>, \<open>store/event.go\<close>).
\<close>

section \<open>Times and durations\<close>

text \<open>Division the way Go does it: towards zero.\<close>

definition go_div :: "int \<Rightarrow> int \<Rightarrow> int" where
  "go_div a b = sgn a * sgn b * (\<bar>a\<bar> div \<bar>b\<bar>)"

definition milliseconds :: "duration \<Rightarrow> int" where
  "milliseconds d = go_div d 1000000"

text \<open>Year, month and day of a day counted from 1970-01-01, with years that begin in March.\<close>

definition civil_date :: "int \<Rightarrow> int \<times> int \<times> int" where
  "civil_date day =
     (let z = day + 719468; era = z div 146097; doe = z mod 146097;
          yoe = (doe - doe div 1460 + doe div 36524 - doe div 146096) div 365;
          doy = doe - (365 * yoe + yoe div 4 - yoe div 100);
          mp = (5 * doy + 2) div 153;
          month = (if mp < 10 then mp + 3 else mp - 9)
      in (yoe + era * 400 + (if month \<le> 2 then 1 else 0), month, doy - (153 * mp + 2) div 5 + 1))"

definition padded :: "nat \<Rightarrow> int \<Rightarrow> string" where
  "padded width n = (let s = int_dec n in replicate (width - length s) CHR ''0'' @ s)"

definition date_time :: "time \<Rightarrow> string" where
  "date_time t =
     (let s = t div 1000000000; (y, m, d) = civil_date (s div 86400); r = s mod 86400
      in padded 4 y @ ''-'' @ padded 2 m @ ''-'' @ padded 2 d @ ''T'' @ padded 2 (r div 3600)
         @ CHR '':'' # padded 2 (r div 60 mod 60) @ CHR '':'' # padded 2 (r mod 60))"

text \<open>\<open>time.RFC3339\<close> and \<open>time.RFC3339Nano\<close>, whose fraction has no trailing zeros.\<close>

definition rfc3339 :: "time \<Rightarrow> string" where
  "rfc3339 t = date_time t @ ''Z''"

definition rfc3339_nano :: "time \<Rightarrow> string" where
  "rfc3339_nano t =
     (let fraction = rev (dropWhile (\<lambda>c. c = CHR ''0'') (rev (padded 9 (t mod 1000000000))))
      in date_time t @ (if fraction = [] then [] else CHR ''.'' # fraction) @ ''Z'')"

section \<open>Names\<close>

fun WorktreeStatus_string :: "WorktreeStatus \<Rightarrow> string" where
  "WorktreeStatus_string WorktreeActive = ''ACTIVE''"
| "WorktreeStatus_string WorktreeRemoved = ''REMOVED''"
| "WorktreeStatus_string WorktreeRetained = ''RETAINED''"
| "WorktreeStatus_string WorktreeReused = ''REUSED''"

fun EventType_string :: "EventType \<Rightarrow> string" where
  "EventType_string TypeTaskCreated = ''task.created''"
| "EventType_string TypeTaskReady = ''task.ready''"
| "EventType_string TypeTaskStarted = ''task.started''"
| "EventType_string TypeTaskSucceeded = ''task.succeeded''"
| "EventType_string TypeTaskFailed = ''task.failed''"
| "EventType_string TypeTaskCancelled = ''task.cancelled''"
| "EventType_string TypeRetryScheduled = ''task.retry_scheduled''"
| "EventType_string TypeWorktreeCreated = ''task.worktree_created''"
| "EventType_string TypeWorktreeRemoved = ''task.worktree_removed''"
| "EventType_string TypeWorktreeRetained = ''task.worktree_retained''"
| "EventType_string TypeBaseMoved = ''task.base_moved''"
| "EventType_string TypeWorkerStarted = ''task.worker_started''"
| "EventType_string TypeWorkerCompleted = ''task.worker_completed''"
| "EventType_string TypeAgentProgress = ''task.agent_progress''"
| "EventType_string TypeBaseCheckCompleted = ''task.base_check_completed''"
| "EventType_string TypeVerificationStarted = ''task.verification_started''"
| "EventType_string TypeVerificationStepRan = ''task.verification_step_completed''"
| "EventType_string TypeVerificationCompleted = ''task.verification_completed''"
| "EventType_string TypeVerificationIntercepted = ''task.verification_intercepted''"
| "EventType_string TypeVerificationTestsModified = ''task.verification_tests_modified''"
| "EventType_string TypeVerificationWorktreeModified = ''task.verification_worktree_modified''"
| "EventType_string TypeApprovalRequired = ''task.approval_required''"
| "EventType_string TypeApprovalGranted = ''task.approval_granted''"
| "EventType_string TypeApprovalDenied = ''task.approval_denied''"
| "EventType_string TypeContainmentBreach = ''task.containment_breach''"
| "EventType_string TypeSharedRefsChanged = ''task.shared_refs_changed''"
| "EventType_string TypeTaskApplied = ''task.applied''"
| "EventType_string TypeTaskApplyUndone = ''task.apply_undone''"
| "EventType_string TypeRunStopped = ''task.run_stopped''"
| "EventType_string TypeCoverageReported = ''task.coverage_reported''"
| "EventType_string TypeFilesAdded = ''task.files_added''"

section \<open>A task and its attempts\<close>

text \<open>The fields a caller fills in afterwards (the repository's path, the apply state) start empty.\<close>

record TaskView =
  vt_Ref :: string
  vt_ID :: string
  vt_Status :: string
  vt_Title :: string
  vt_Description :: string
  vt_AcceptanceCriteria :: string
  vt_Agent :: string
  vt_Model :: string
  vt_Hardness :: string
  vt_Priority :: int
  vt_Verification :: "string list"
  vt_ProtectedPaths :: "string list"
  vt_SetupSteps :: "string list"
  vt_VerificationMode :: string
  vt_RequiresApproval :: bool
  vt_ExpectFailOnBase :: bool
  vt_Coverage :: bool
  vt_MaxRetries :: int
  vt_BaseRef :: string
  vt_BaseCommitAtCreate :: string
  vt_TimeoutSeconds :: int
  vt_ProjectID :: string
  vt_RepoPath :: string
  vt_ApplyState :: string
  vt_ApplyInto :: string
  vt_ApplyCommit :: string
  vt_CreatedAt :: string
  vt_UpdatedAt :: string

definition NewTask :: "Task \<Rightarrow> TaskView" where
  "NewTask t =
     \<lparr>vt_Ref = t_Ref t, vt_ID = uuid_string (t_ID t), vt_Status = Status_string (t_Status t), vt_Title = t_Title t,
      vt_Description = t_Description t, vt_AcceptanceCriteria = t_AcceptanceCriteria t, vt_Agent = t_Agent t,
      vt_Model = t_Model t, vt_Hardness = (case t_Hardness t of None \<Rightarrow> [] | Some h \<Rightarrow> Hardness_string h),
      vt_Priority = t_Priority t, vt_Verification = map Step_String (t_Verification t),
      vt_ProtectedPaths = t_ProtectedPaths t, vt_SetupSteps = map Step_String (t_SetupSteps t),
      vt_VerificationMode = VerificationMode_string (t_VerificationMode t), vt_RequiresApproval = t_RequiresApproval t,
      vt_ExpectFailOnBase = t_ExpectFailOnBase t, vt_Coverage = t_Coverage t, vt_MaxRetries = t_MaxRetries t,
      vt_BaseRef = t_BaseRef t, vt_BaseCommitAtCreate = t_BaseCommitAtCreate t,
      vt_TimeoutSeconds = go_div (t_Timeout t) second, vt_ProjectID = uuid_string (t_ProjectID t), vt_RepoPath = [],
      vt_ApplyState = [], vt_ApplyInto = [], vt_ApplyCommit = [],
      vt_CreatedAt = rfc3339 (t_CreatedAt t), vt_UpdatedAt = rfc3339 (t_UpdatedAt t)\<rparr>"

record AttemptView =
  va_ID :: string
  va_Number :: nat
  va_Status :: string
  va_FailureKind :: string
  va_Error :: string
  va_StartedAt :: string
  va_FinishedAt :: string
  va_DurationMS :: int

definition NewAttempt_view :: "time \<Rightarrow> TaskAttempt \<Rightarrow> AttemptView" where
  "NewAttempt_view now a =
     \<lparr>va_ID = uuid_string (a_ID a), va_Number = a_AttemptNumber a, va_Status = AttemptStatus_string (a_Status a),
      va_FailureKind = FailureKind_string (a_FailureKind a), va_Error = a_Error a, va_StartedAt = rfc3339 (a_StartedAt a),
      va_FinishedAt = (case a_FinishedAt a of None \<Rightarrow> [] | Some f \<Rightarrow> rfc3339 f),
      va_DurationMS = milliseconds (Attempt_Duration now a)\<rparr>"

record WorkerView =
  vw_Backend :: string
  vw_AgentVersion :: string
  vw_Model :: string
  vw_Status :: string
  vw_FailureKind :: string
  vw_ExitCode :: "int option"
  vw_SessionID :: string
  vw_Summary :: string
  vw_FinishReason :: string
  vw_ChangedFiles :: nat
  vw_DurationMS :: int
  vw_StdoutTruncated :: bool
  vw_StderrTruncated :: bool
  vw_LogsPruned :: bool

definition WorkerRun_Duration :: "time \<Rightarrow> WorkerRun \<Rightarrow> duration" where
  "WorkerRun_Duration now r = (case r_FinishedAt r of None \<Rightarrow> now - r_StartedAt r | Some f \<Rightarrow> f - r_StartedAt r)"

definition NewWorker :: "time \<Rightarrow> WorkerRun \<Rightarrow> WorkerView" where
  "NewWorker now r =
     \<lparr>vw_Backend = r_Backend r, vw_AgentVersion = r_AgentVersion r, vw_Model = r_Model r,
      vw_Status = WorkerRunStatus_string (r_Status r), vw_FailureKind = FailureKind_string (r_FailureKind r),
      vw_ExitCode = r_ExitCode r, vw_SessionID = r_SessionID r, vw_Summary = r_Summary r,
      vw_FinishReason = r_FinishReason r, vw_ChangedFiles = r_ChangedFiles r,
      vw_DurationMS = milliseconds (WorkerRun_Duration now r), vw_StdoutTruncated = r_StdoutTruncated r,
      vw_StderrTruncated = r_StderrTruncated r, vw_LogsPruned = r_LogsPruned r\<rparr>"

section \<open>Verification\<close>

record VerificationView =
  vv_Step :: nat
  vv_Command :: string
  vv_Status :: string
  vv_ExitCode :: "int option"
  vv_DurationMS :: int
  vv_Stdout :: string
  vv_Stderr :: string
  vv_StdoutTotalBytes :: nat
  vv_StderrTotalBytes :: nat
  vv_LogsPruned :: bool

definition OutputLimit :: nat where "OutputLimit = 2000"

text \<open>The three bytes of the ellipsis.\<close>

definition ellipsis :: string where
  "ellipsis = [CHR 0xE2, CHR 0x80, CHR 0xA6]"

definition Tail :: "string \<Rightarrow> nat \<Rightarrow> string" where
  "Tail s n = (if length s \<le> n then s else ellipsis @ drop (length s - n) s)"

definition NewVerification :: "bool \<Rightarrow> VerificationRun \<Rightarrow> VerificationView" where
  "NewVerification includeOutput r =
     (let v = \<lparr>vv_Step = v_StepIndex r, vv_Command = v_Command r, vv_Status = VerificationStatus_string (v_Status r),
               vv_ExitCode = v_ExitCode r, vv_DurationMS = milliseconds (v_Duration r), vv_Stdout = [], vv_Stderr = [],
               vv_StdoutTotalBytes = 0, vv_StderrTotalBytes = 0, vv_LogsPruned = v_LogsPruned r\<rparr>
      in if includeOutput then v\<lparr>vv_Stdout := v_Stdout r, vv_Stderr := v_Stderr r\<rparr>
         else if v_Status r \<noteq> VerificationPassed \<and> v_Status r \<noteq> VerificationSkipped
         then v\<lparr>vv_Stdout := Tail (v_Stdout r) OutputLimit, vv_Stderr := Tail (v_Stderr r) OutputLimit\<rparr>
         else v)"

definition NewVerifications :: "VerificationRun list \<Rightarrow> bool \<Rightarrow> VerificationView list" where
  "NewVerifications runs includeOutput = map (NewVerification includeOutput) runs"

section \<open>Worktree, approval, apply\<close>

record WorktreeView =
  vk_Path :: string
  vk_Branch :: string
  vk_Status :: string
  vk_BaseCommit :: string
  vk_HeadCommit :: string

definition NewWorktree :: "Worktree \<Rightarrow> WorktreeView" where
  "NewWorktree w =
     \<lparr>vk_Path = w_Path w, vk_Branch = w_Branch w, vk_Status = WorktreeStatus_string (w_Status w),
      vk_BaseCommit = w_BaseCommit w, vk_HeadCommit = w_HeadCommit w\<rparr>"

record ApprovalView =
  vp_ID :: string
  vp_Status :: string
  vp_Reason :: string
  vp_DecidedBy :: string

definition NewApproval :: "Approval \<Rightarrow> ApprovalView" where
  "NewApproval a =
     \<lparr>vp_ID = uuid_string (ap_ID a), vp_Status = ApprovalStatus_string (ap_Status a), vp_Reason = ap_Reason a,
      vp_DecidedBy = ap_DecidedBy a\<rparr>"

record ApplyView =
  vy_State :: string
  vy_Into :: string
  vy_Commit :: string
  vy_Undid :: string
  vy_At :: string

text \<open>The zero time, here 0, is Go's way to say that no time is known.\<close>

definition NewApply :: "Apply \<Rightarrow> ApplyView option" where
  "NewApply a =
     (if ay_State a = ApplyNever then None
      else Some \<lparr>vy_State = ApplyState_string (ay_State a), vy_Into = ay_Into a, vy_Commit = ay_Commit a,
                 vy_Undid = ay_Undid a, vy_At = (if ay_At a = 0 then [] else rfc3339 (ay_At a))\<rparr>)"

section \<open>Coverage\<close>

text \<open>\<open>coverage.Result\<close>: a report, or why there is none.\<close>

record coverageResult = coverageReport +
  cr_Error :: string

definition int_member :: "string \<Rightarrow> payload \<Rightarrow> serr + int" where
  "int_member name pay =
     (case map_of pay name of
        None \<Rightarrow> Inr 0 | Some JNull \<Rightarrow> Inr 0 | Some (JInt n) \<Rightarrow> Inr n | Some _ \<Rightarrow> Inl ErrDecode)"

definition objects_member :: "string \<Rightarrow> (payload \<Rightarrow> serr + 'a) \<Rightarrow> 'a \<Rightarrow> payload \<Rightarrow> serr + 'a list" where
  "objects_member name decode zero pay =
     (case map_of pay name of
        None \<Rightarrow> Inr [] | Some JNull \<Rightarrow> Inr []
      | Some (JList xs) \<Rightarrow>
          scan_rows (map (\<lambda>x. case x of JNull \<Rightarrow> Inr zero | JObj o' \<Rightarrow> decode o' | _ \<Rightarrow> Inl ErrDecode) xs)
      | Some _ \<Rightarrow> Inl ErrDecode)"

definition decode_range :: "payload \<Rightarrow> serr + LineRange" where
  "decode_range pay =
     (case (int_member ''from'' pay, int_member ''to'' pay) of (Inr f, Inr t) \<Rightarrow> Inr (f, t) | _ \<Rightarrow> Inl ErrDecode)"

definition decode_file :: "payload \<Rightarrow> serr + File" where
  "decode_file pay =
     (case (string_member ''path'' pay, int_member ''changed'' pay, int_member ''not_run'' pay,
            objects_member ''not_run_lines'' decode_range (0, 0) pay) of
        (Inr p, Inr c, Inr n, Inr ls) \<Rightarrow>
          Inr \<lparr>fl_Path = p, fl_Changed = nat c, fl_NotRun = nat n, fl_NotRunLines = ls\<rparr>
      | _ \<Rightarrow> Inl ErrDecode)"

definition decode_coverage :: "payload \<Rightarrow> serr + coverageResult" where
  "decode_coverage pay =
     (case (objects_member ''files'' decode_file \<lparr>fl_Path = [], fl_Changed = 0, fl_NotRun = 0, fl_NotRunLines = []\<rparr> pay,
            int_member ''changed'' pay, int_member ''not_run'' pay, string_member ''error'' pay) of
        (Inr fs, Inr c, Inr n, Inr e) \<Rightarrow>
          Inr \<lparr>rp_Files = fs, rp_Changed = nat c, rp_NotRun = nat n, cr_Error = e\<rparr>
      | _ \<Rightarrow> Inl ErrDecode)"

definition CoverageReport :: "uuid \<Rightarrow> uuid \<Rightarrow> db \<Rightarrow> serr + coverageResult option" where
  "CoverageReport taskID attemptID d =
     (case newest_event (\<lambda>e. e_TaskID e = taskID \<and> e_AttemptID e = Some attemptID \<and> e_Type e = TypeCoverageReported) d of
        None \<Rightarrow> Inr None
      | Some e \<Rightarrow> (case decode_coverage (e_Payload e) of Inl x \<Rightarrow> Inl x | Inr r \<Rightarrow> Inr (Some r)))"

text \<open>What \<open>reportCoverage\<close> records: the report with the members of the \<open>json\<close> tags, empty ranges left out.\<close>

definition range_json :: "LineRange \<Rightarrow> json" where
  "range_json r = JObj [(''from'', JInt (fst r)), (''to'', JInt (snd r))]"

definition file_json :: "File \<Rightarrow> json" where
  "file_json f =
     JObj ([(''path'', JStr (fl_Path f)), (''changed'', JInt (int (fl_Changed f))), (''not_run'', JInt (int (fl_NotRun f)))]
       @ (if fl_NotRunLines f = [] then [] else [(''not_run_lines'', JList (map range_json (fl_NotRunLines f)))]))"

definition coverage_payload :: "coverageReport \<Rightarrow> payload" where
  "coverage_payload r =
     [(''files'', if rp_Files r = [] then JNull else JList (map file_json (rp_Files r))),
      (''changed'', JInt (int (rp_Changed r))), (''not_run'', JInt (int (rp_NotRun r)))]"

section \<open>The whole result\<close>

record ResultView =
  vr_Task :: TaskView
  vr_Attempt :: "AttemptView option"
  vr_EarlierAttempts :: "AttemptView list"
  vr_Worker :: "WorkerView option"
  vr_Verification :: "VerificationView list"
  vr_Worktree :: "WorktreeView option"
  vr_Approval :: "ApprovalView option"
  vr_TestsModified :: "string list"
  vr_Coverage :: "coverageResult option"
  vr_BaseMoved :: bool
  vr_Message :: string
  vr_Apply :: "ApplyView option"

definition NewResult ::
    "time \<Rightarrow> Task \<Rightarrow> TaskAttempt option \<Rightarrow> WorkerRun option \<Rightarrow> VerificationRun list \<Rightarrow> Worktree option
     \<Rightarrow> Approval option \<Rightarrow> string list \<Rightarrow> string \<Rightarrow> bool \<Rightarrow> ResultView" where
  "NewResult now t attempt workerRun runs worktree approval testsModified message includeOutput =
     \<lparr>vr_Task = NewTask t,
      vr_Attempt = (case attempt of None \<Rightarrow> None | Some a \<Rightarrow> if a_ID a = 0 then None else Some (NewAttempt_view now a)),
      vr_EarlierAttempts = [],
      vr_Worker = map_option (NewWorker now) workerRun,
      vr_Verification = NewVerifications runs includeOutput,
      vr_Worktree = map_option NewWorktree worktree,
      vr_Approval = map_option NewApproval approval,
      vr_TestsModified = testsModified,
      vr_Coverage = None,
      vr_BaseMoved = (case worktree of None \<Rightarrow> False
                      | Some w \<Rightarrow> t_BaseCommitAtCreate t \<noteq> [] \<and> w_BaseCommit w \<noteq> [] \<and> w_BaseCommit w \<noteq> t_BaseCommitAtCreate t),
      vr_Message = message,
      vr_Apply = None\<rparr>"

section \<open>Events\<close>

record EventView =
  ve_Seq :: nat
  ve_Type :: string
  ve_CreatedAt :: string
  ve_AttemptID :: string
  ve_Payload :: "payload option"

definition NewEvent :: "Event \<Rightarrow> bool \<Rightarrow> EventView" where
  "NewEvent e includePayload =
     \<lparr>ve_Seq = e_Seq e, ve_Type = EventType_string (e_Type e), ve_CreatedAt = rfc3339_nano (e_CreatedAt e),
      ve_AttemptID = (case e_AttemptID e of None \<Rightarrow> [] | Some a \<Rightarrow> uuid_string a),
      ve_Payload = (if includePayload then Some (e_Payload e) else None)\<rparr>"

section \<open>What is shown\<close>

lemma calendar_days:
  "civil_date 0 = (1970, 1, 1)" "civil_date 11016 = (2000, 2, 29)" "civil_date 11017 = (2000, 3, 1)"
  "civil_date (- 1) = (1969, 12, 31)" "civil_date 47540 = (2100, 2, 28)" "civil_date 47541 = (2100, 3, 1)"
  by code_simp+

lemma length_Tail: "length (Tail s n) \<le> n + 3"
  by (auto simp: Tail_def ellipsis_def)

text \<open>
  Without the full output, a step that passed or was skipped shows none, and any other the end of each
  stream within the limit.
\<close>

lemma output_is_bounded:
  "list_all (\<lambda>v. length (vv_Stdout v) \<le> OutputLimit + 3 \<and> length (vv_Stderr v) \<le> OutputLimit + 3
     \<and> (vv_Status v \<in> {''PASSED'', ''SKIPPED''} \<longrightarrow> vv_Stdout v = [] \<and> vv_Stderr v = [])) (NewVerifications runs False)"
proof -
  have "VerificationStatus_string s \<in> {''PASSED'', ''SKIPPED''} \<Longrightarrow> s = VerificationPassed \<or> s = VerificationSkipped" for s
    by (cases s) auto
  then show ?thesis using length_Tail by (fastforce simp: list_all_iff NewVerifications_def NewVerification_def Let_def)
qed

lemma scan_rows_Inr: "scan_rows (map (\<lambda>x. Inr (f x)) xs) = Inr (map f xs)"
  by (induction xs) simp_all

lemma decode_range_json: "range_json r = JObj pay \<Longrightarrow> decode_range pay = Inr r"
  by (auto simp: range_json_def decode_range_def int_member_def)

lemma decode_file_json: "file_json f = JObj pay \<Longrightarrow> decode_file pay = Inr f"
proof -
  have "(case range_json r of JNull \<Rightarrow> Inr (0, 0) | JObj o' \<Rightarrow> decode_range o' | _ \<Rightarrow> Inl ErrDecode) = Inr r" for r
    using decode_range_json [of r] by (simp add: range_json_def)
  then have "scan_rows (map ((\<lambda>x. case x of JNull \<Rightarrow> Inr (0, 0) | JObj o' \<Rightarrow> decode_range o' | _ \<Rightarrow> Inl ErrDecode) \<circ> range_json) rs) = Inr rs" for rs
    by (induction rs) simp_all
  then show "file_json f = JObj pay \<Longrightarrow> decode_file pay = Inr f"
    by (auto simp: file_json_def decode_file_def string_member_def int_member_def objects_member_def)
qed

text \<open>A recorded report of coverage is read back as it was.\<close>

lemma coverage_roundtrip:
  "decode_coverage (coverage_payload r) =
     Inr \<lparr>rp_Files = rp_Files r, rp_Changed = rp_Changed r, rp_NotRun = rp_NotRun r, cr_Error = []\<rparr>"
proof -
  let ?d = "\<lambda>x. case x of JNull \<Rightarrow> Inr \<lparr>fl_Path = [], fl_Changed = 0, fl_NotRun = 0, fl_NotRunLines = []\<rparr>
              | JObj o' \<Rightarrow> decode_file o' | _ \<Rightarrow> Inl ErrDecode"
  have "?d (file_json f) = Inr f" for f
    using decode_file_json [of f] by (simp add: file_json_def)
  then have "scan_rows (map (?d \<circ> file_json) fs) = Inr fs" for fs
    by (induction fs) simp_all
  then show ?thesis
    by (simp add: coverage_payload_def decode_coverage_def objects_member_def int_member_def string_member_def)
qed

end
