(* ===== verification/LogPages.thy ===== *)
theory LogPages
  imports TextLemmas
begin

text \<open>
  Reading a stored log in pages: \<open>internal/mcp/logs.go\<close>. A request is validated once; each section
  is then cut to a window of bytes whose ends do not split a character. Offsets are Go's 64-bit \<open>int\<close>: a caller
  chooses them, so their sum is written with its wrap-around.
\<close>

section \<open>The request\<close>

definition sectionTranscript :: string where "sectionTranscript = ''transcript''"
definition sectionStdout :: string where "sectionStdout = ''stdout''"
definition sectionStderr :: string where "sectionStderr = ''stderr''"
definition sectionDiff :: string where "sectionDiff = ''diff''"
definition sectionVerification :: string where "sectionVerification = ''verification''"

definition allSections :: "string list" where
  "allSections = [sectionTranscript, sectionStdout, sectionStderr, sectionDiff, sectionVerification]"

definition defaultSections :: "string list" where
  "defaultSections = [sectionTranscript, sectionStderr, sectionDiff, sectionVerification]"

definition defaultLogBytes :: int where "defaultLogBytes = 64 * 1024"
definition maxLogBytes :: int where "maxLogBytes = 1048576"

record logRequest =
  lq_sections :: "string list"
  lq_offset :: int
  lq_maxBytes :: int

definition wants :: "logRequest \<Rightarrow> string \<Rightarrow> bool" where
  "wants r s = (s \<in> set (lq_sections r))"

fun wanted_sections :: "string list \<Rightarrow> string list \<Rightarrow> string + string list" where
  "wanted_sections wanted [] = Inr wanted"
| "wanted_sections wanted (s # rest) =
     (let name = to_lower (trim_space s)
      in if name \<notin> set allSections
         then Inl (go_quote s @ '' is not a log section; valid sections: '' @ join_with '', '' allSections)
         else wanted_sections (if name \<in> set wanted then wanted else wanted @ [name]) rest)"

definition no_request :: logRequest where
  "no_request = \<lparr>lq_sections = [], lq_offset = 0, lq_maxBytes = 0\<rparr>"

definition parseLogRequest :: "bool \<Rightarrow> string list \<Rightarrow> int \<Rightarrow> int \<Rightarrow> string + logRequest \<times> bool" where
  "parseLogRequest included sections offset maxBytes =
     (if \<not> included \<and> sections = [] then Inr (no_request, False)
      else if offset < 0 then Inl (''offset must not be negative, got '' @ int_dec offset)
      else if maxBytes < 0 then Inl (''max_bytes must not be negative, got '' @ int_dec maxBytes)
      else (let most = (if maxBytes = 0 then defaultLogBytes else maxBytes)
            in if most > maxLogBytes
               then Inl (''max_bytes is at most '' @ int_dec maxLogBytes @ '', got '' @ int_dec most)
               else (case (if sections = [] then Inr defaultSections else wanted_sections [] sections) of
                       Inl e \<Rightarrow> Inl e
                     | Inr wanted \<Rightarrow> Inr (\<lparr>lq_sections = wanted, lq_offset = offset, lq_maxBytes = most\<rparr>, True))))"

section \<open>The window\<close>

definition wrap64 :: "int \<Rightarrow> int" where
  "wrap64 n = (n + 2 ^ 63) mod 2 ^ 64 - 2 ^ 63"

text \<open>\<open>utf8.RuneStart\<close>: not a continuation byte. \<open>utf8.DecodeRuneInString\<close> is asked for the size only.\<close>

definition continuation :: "char \<Rightarrow> bool" where
  "continuation c = (128 \<le> (of_char c :: nat) \<and> (of_char c :: nat) < 192)"

definition byte_in :: "nat \<Rightarrow> nat \<Rightarrow> char \<Rightarrow> bool" where
  "byte_in low high c = (low \<le> of_char c \<and> of_char c \<le> high)"

definition second_byte_ok :: "char \<Rightarrow> char \<Rightarrow> bool" where
  "second_byte_ok b c =
     (if of_char b = (0xE0 :: nat) then byte_in 0xA0 0xBF c
      else if of_char b = (0xED :: nat) then byte_in 0x80 0x9F c
      else if of_char b = (0xF0 :: nat) then byte_in 0x90 0xBF c
      else if of_char b = (0xF4 :: nat) then byte_in 0x80 0x8F c
      else continuation c)"

fun rune_size :: "string \<Rightarrow> nat" where
  "rune_size [] = 0"
| "rune_size (b # s) =
     (let n = (if byte_in 0xC2 0xDF b then 2 else if byte_in 0xE0 0xEF b then 3
               else if byte_in 0xF0 0xF4 b then 4 else 1)
      in if n = 1 \<or> length s < n - 1 \<or> \<not> second_byte_ok b (hd s) \<or> \<not> list_all continuation (take (n - 2) (tl s))
         then 1 else n)"

function runeStart :: "string \<Rightarrow> int \<Rightarrow> int" where
  "runeStart s i =
     (if 0 < i \<and> i < int (length s) \<and> continuation (s ! nat i) then runeStart s (i - 1) else i)"
  by pat_completeness auto
termination by (relation "measure (\<lambda>(s, i). nat i)") auto

declare runeStart.simps [simp del]

definition slice :: "string \<Rightarrow> int \<Rightarrow> int \<Rightarrow> string" where
  "slice s a b = take (nat (b - a)) (drop (nat a) s)"

definition window :: "string \<Rightarrow> int \<Rightarrow> int \<Rightarrow> string" where
  "window s offset most =
     (if offset \<ge> int (length s) then []
      else (let start = runeStart s offset; stop = wrap64 (offset + most)
            in if stop \<ge> int (length s) then drop (nat start) s
               else (let stop' = runeStart s stop
                     in slice s start (if stop' \<le> start then start + int (rune_size (drop (nat start) s)) else stop'))))"

section \<open>The pager\<close>

record pager =
  pg_req :: logRequest
  pg_more :: bool

definition page :: "pager \<Rightarrow> string \<Rightarrow> (string \<times> nat) \<times> pager" where
  "page p s =
     (let r = pg_req p
      in ((window s (lq_offset r) (lq_maxBytes r), length s),
          p\<lparr>pg_more := pg_more p \<or> int (length s) > wrap64 (lq_offset r + lq_maxBytes r)\<rparr>))"

definition nextOffset :: "pager \<Rightarrow> int" where
  "nextOffset p = (if \<not> pg_more p then 0 else wrap64 (lq_offset (pg_req p) + lq_maxBytes (pg_req p)))"

section \<open>What a request asks for\<close>

lemma wanted_sections_ok:
  "wanted_sections wanted ss = Inr names \<Longrightarrow> distinct wanted \<Longrightarrow> set wanted \<subseteq> set allSections
    \<Longrightarrow> distinct names \<and> set names = set wanted \<union> (to_lower \<circ> trim_space) ` set ss \<and> set names \<subseteq> set allSections"
  by (induction wanted ss rule: wanted_sections.induct) (auto simp: Let_def split: if_splits)

text \<open>A request that is accepted is within the bounds and names each section it wants once.\<close>

lemma request_is_bounded:
  assumes "parseLogRequest included sections offset maxBytes = Inr (r, True)"
  shows "0 \<le> lq_offset r \<and> 0 < lq_maxBytes r \<and> lq_maxBytes r \<le> maxLogBytes \<and> distinct (lq_sections r)
    \<and> set (lq_sections r) = (if sections = [] then set defaultSections else (to_lower \<circ> trim_space) ` set sections)
    \<and> set (lq_sections r) \<subseteq> set allSections"
proof -
  define most where "most = (if maxBytes = 0 then defaultLogBytes else maxBytes)"
  have bounds: "0 \<le> offset" "0 < most" "most \<le> maxLogBytes" and
    wanted: "(if sections = [] then Inr defaultSections else wanted_sections [] sections) = Inr (lq_sections r)" and
    r: "lq_offset r = offset" "lq_maxBytes r = most"
    using assms unfolding parseLogRequest_def most_def [symmetric] Let_def
    by (auto simp: most_def defaultLogBytes_def no_request_def split: if_splits sum.splits)
  have "distinct defaultSections" "set defaultSections \<subseteq> set allSections" by code_simp+
  then have "distinct (lq_sections r)
    \<and> set (lq_sections r) = (if sections = [] then set defaultSections else (to_lower \<circ> trim_space) ` set sections)
    \<and> set (lq_sections r) \<subseteq> set allSections"
    using wanted wanted_sections_ok [of "[]" sections "lq_sections r"] by (cases "sections = []") auto
  then show ?thesis unfolding r using bounds by blast
qed

section \<open>Pages fit together\<close>

lemma runeStart_le: "0 \<le> i \<Longrightarrow> 0 \<le> runeStart s i \<and> runeStart s i \<le> i"
proof (induction s i rule: runeStart.induct)
  case (1 s i)
  then show ?case by (subst (1 2) runeStart.simps) (auto simp: not_le intro: order_trans)
qed

text \<open>Valid UTF-8 has at most three continuation bytes in a row.\<close>

definition runs_of_three :: "string \<Rightarrow> bool" where
  "runs_of_three s = list_all (\<lambda>i. list_ex (\<lambda>j. \<not> continuation (s ! j)) [i..<i + 4]) [0..<length s - 3]"

lemma runeStart_stops:
  "0 \<le> j \<Longrightarrow> j \<le> i \<Longrightarrow> i < int (length s) \<Longrightarrow> \<not> continuation (s ! nat j) \<Longrightarrow> j \<le> runeStart s i"
proof (induction s i rule: runeStart.induct)
  case (1 s i)
  show ?case
  proof (cases "continuation (s ! nat i) \<and> 0 < i")
    case True
    then have "j \<le> i - 1" using "1.prems" by (cases "j = i") auto
    then have "j \<le> runeStart s (i - 1)" using 1 True by auto
    then show ?thesis using True "1.prems" by (subst runeStart.simps) auto
  next
    case False
    then show ?thesis using "1.prems" by (subst runeStart.simps) auto
  qed
qed

lemma runeStart_near:
  assumes "runs_of_three s" "3 \<le> i" "i < int (length s)"
  shows "i - 3 \<le> runeStart s i"
proof -
  have "nat i - 3 \<in> set [0..<length s - 3]" using assms(2,3) by auto
  then obtain j where j: "j \<in> set [nat i - 3..<nat i - 3 + 4]" "\<not> continuation (s ! j)"
    using assms(1) unfolding runs_of_three_def list_all_iff list_ex_iff by blast
  then have "int j \<le> runeStart s i" using assms(2,3) by (intro runeStart_stops) auto
  then show ?thesis using j(1) by auto
qed

lemma runeStart_far: "int (length s) \<le> i \<Longrightarrow> runeStart s i = i"
  by (subst runeStart.simps) simp

text \<open>Where the page that would start at an offset really starts.\<close>

definition cut :: "string \<Rightarrow> int \<Rightarrow> nat" where
  "cut s i = (if int (length s) \<le> i then length s else nat (runeStart s i))"

lemma wrap64_small: "0 \<le> n \<Longrightarrow> n < 2 ^ 63 \<Longrightarrow> wrap64 n = n"
  by (simp add: wrap64_def)

lemma window_cuts:
  assumes "runs_of_three s" "0 \<le> offset" "4 \<le> most" "offset + most < 2 ^ 63"
  shows "window s offset most = drop (cut s offset) (take (cut s (offset + most)) s)"
    "cut s offset \<le> cut s (offset + most)"
proof -
  let ?start = "runeStart s offset" and ?stop = "runeStart s (offset + most)"
  have start: "0 \<le> ?start" "?start \<le> offset" using runeStart_le [OF assms(2)] by auto
  have w: "wrap64 (offset + most) = offset + most" using assms by (intro wrap64_small) auto
  have inner: "?start < ?stop \<and> ?stop \<le> int (length s)" if "offset + most < int (length s)"
    using runeStart_near [OF assms(1), of "offset + most"] runeStart_le [of "offset + most" s] start that assms(2,3) by auto
  then show "window s offset most = drop (cut s offset) (take (cut s (offset + most)) s)"
    using start assms(2,3) by (auto simp: window_def Let_def w cut_def slice_def drop_take not_le nat_diff_distrib)
  show "cut s offset \<le> cut s (offset + most)" using inner start assms(2,3) by (auto simp: cut_def)
qed

lemma take_drop_merge: "a \<le> b \<Longrightarrow> take a s @ drop a (take b s) = take b s"
  by (metis append_take_drop_id min.absorb1 take_take)

lemma pages_upto:
  assumes "runs_of_three s" "4 \<le> most" "int n * most < 2 ^ 63"
  shows "concat (map (\<lambda>k. window s (int k * most) most) [0..<n]) = take (cut s (int n * most)) s"
  using assms(3)
proof (induction n)
  case 0
  then show ?case by (simp add: cut_def runeStart.simps)
next
  case (Suc n)
  have step: "int (Suc n) * most = int n * most + most" by (simp add: algebra_simps)
  then have small: "int n * most + most < 2 ^ 63" using Suc.prems by simp
  then have "int n * most < 2 ^ 63" using assms(2) by simp
  moreover note window_cuts [OF assms(1) _ assms(2) small]
  ultimately show ?case using Suc.IH assms(2) unfolding step
    by (simp add: take_drop_merge)
qed

text \<open>How many pages a caller reads who follows the next offset from the beginning.\<close>

definition page_count :: "string \<Rightarrow> int \<Rightarrow> nat" where
  "page_count s most = (if s = [] then 1 else nat ((int (length s) + most - 1) div most))"

lemma page_count_spec:
  assumes "0 < most"
  shows "int (length s) \<le> int (page_count s most) * most" "int (page_count s most - 1) * most < max 1 (int (length s))"
    "1 \<le> page_count s most" "int (page_count s most) * most < int (length s) + most + 1"
proof -
  let ?l = "int (length s)" and ?q = "(int (length s) + most - 1) div most"
  have q: "?q * most + (?l + most - 1) mod most = ?l + most - 1" by simp
  have r: "0 \<le> (?l + most - 1) mod most" "(?l + most - 1) mod most < most" using assms by simp_all
  have *: "?l \<le> ?q * most" "(?q - 1) * most < ?l" "?q * most < ?l + most" using q r left_diff_distrib [of ?q 1 most] by linarith+
  have one: "1 \<le> ?q" if "s \<noteq> []"
  proof (rule ccontr)
    assume "\<not> 1 \<le> ?q"
    then have "?q * most \<le> 0" using assms by (intro mult_nonpos_nonneg) auto
    moreover have "0 < ?l" using that by simp
    ultimately show False using *(1) by linarith
  qed
  show "?l \<le> int (page_count s most) * most" using * one assms by (cases "s = []") (auto simp: page_count_def)
  show "int (page_count s most - 1) * most < max 1 ?l"
    using * one by (cases "s = []") (auto simp: page_count_def of_nat_diff less_max_iff_disj)
  show "1 \<le> page_count s most" using one by (cases "s = []") (auto simp: page_count_def)
  show "int (page_count s most) * most < ?l + most + 1" using * one by (cases "s = []") (auto simp: page_count_def)
qed



text \<open>
  With a page narrower than a character the pages no longer fit together: the character is repeated
  on every page that falls into it.
\<close>

theorem narrow_pages_repeat:
  "parseLogRequest True [] 1 1 = Inr (\<lparr>lq_sections = defaultSections, lq_offset = 1, lq_maxBytes = 1\<rparr>, True)
   \<and> map (\<lambda>k. window [CHR 0xC3, CHR 0xA9] k 1) [0, 1] = [[CHR 0xC3, CHR 0xA9], [CHR 0xC3, CHR 0xA9]]"
  by (intro conjI; code_simp)

end
