(* ===== verification/Mcp.thy ===== *)
theory Mcp
  imports Applying Creation Views LogPages Config Codex
begin

text \<open>
  The MCP server (\<open>internal/mcp\<close>: \<open>tools.go\<close>, \<open>launch.go\<close>, \<open>server.go\<close>): every tool as an action in the world of
  \<open>World\<close>, with the server's own state, whether it is connected and which runs it watches. A run itself is a
  separate process, so what it does to the database is a step of the environment. What
  the server learns from outside, the connection, the child process and its log, the clock of a wait, is the
  record \<open>tools\<close>. The texts sent with the tools' descriptions are left out.
\<close>

section \<open>The server\<close>

text \<open>How a watched driver ended: with or without an error of its own, or not before the server stopped.\<close>

datatype ending = Driver "werr option" | ServerStopped

text \<open>What a call that waits sees first.\<close>

datatype seen = RunDone | WaitOver | CallerGone

record tools =
  tl_Config :: Config
  tl_machine :: machine
  tl_backend :: backend
  tl_fuel :: nat
  tl_open :: "nat \<Rightarrow> werr option"
  tl_launch :: "nat \<Rightarrow> Task \<Rightarrow> werr + string"
  tl_ended :: "nat \<Rightarrow> uuid \<Rightarrow> ending option"
  tl_select :: "nat \<Rightarrow> int \<Rightarrow> seen"
  tl_tail :: "nat \<Rightarrow> string \<Rightarrow> string"
  tl_decoder :: decoder
  tl_codex :: "string \<Rightarrow> codexEvent option"

text \<open>\<open>backgroundRun\<close>: watched, with the log of its process, or done with the error it reports.\<close>

datatype backgroundRun = Watched string | Finished "werr option"

record server =
  sv_connected :: bool
  sv_runs :: "uuid \<rightharpoonup> backgroundRun"

definition NewServer :: server where
  "NewServer = \<lparr>sv_connected = False, sv_runs = Map.empty\<rparr>"

type_synonym 'a handled = "(server \<times> (werr + 'a)) act"

text \<open>\<open>connected\<close>: the first call that succeeds in opening the database keeps the connection.\<close>

definition connected :: "tools \<Rightarrow> server \<Rightarrow> (server \<Rightarrow> 'a handled) \<Rightarrow> 'a handled" where
  "connected T sv next =
     (if sv_connected sv then next sv
      else ebind (ask (tl_open T)) (\<lambda>r. case r of
             Some e \<Rightarrow> ok (sv, Inl e)
           | None \<Rightarrow> next (sv\<lparr>sv_connected := True\<rparr>)))"

text \<open>A body that does not change the server.\<close>

definition keeping :: "'a act \<Rightarrow> server \<Rightarrow> 'a handled" where
  "keeping body sv = catch body (\<lambda>r. ok (sv, r))"

definition refuse :: "string \<Rightarrow> server \<Rightarrow> 'a handled" where
  "refuse why sv = ok (sv, Inl (WMessage why))"

definition try_query :: "env \<Rightarrow> (db \<Rightarrow> serr + 'a) \<Rightarrow> 'a \<Rightarrow> 'a act" where
  "try_query E q empty_value = catch (query E q) (\<lambda>r. case r of Inl _ \<Rightarrow> ok empty_value | Inr x \<Rightarrow> ok x)"

section \<open>Names and next steps\<close>

definition ToolListTasks :: string where "ToolListTasks = ''aidev_list_tasks''"
definition ToolRunTask :: string where "ToolRunTask = ''aidev_run_task''"
definition ToolGetResult :: string where "ToolGetResult = ''aidev_get_task_result''"
definition ToolGetEvents :: string where "ToolGetEvents = ''aidev_get_task_events''"
definition ToolApprove :: string where "ToolApprove = ''aidev_approve_task''"

definition approvalNextStep :: "Config \<Rightarrow> string \<Rightarrow> string" where
  "approvalNextStep c ref =
     (if cf_MCPAllowApproval c
      then ''this task requires approval; a human must call '' @ ToolApprove @ '' before it can run''
      else ''this task requires approval; a human must run: aidev task approve '' @ ref @ '' --by <name>'')"

definition resolve :: "env \<Rightarrow> string \<Rightarrow> Task act" where
  "resolve E identifier =
     catch (query E (ResolveTask (e_parse_uuid E) identifier)) (\<lambda>r. case r of
       Inr t \<Rightarrow> ok t
     | Inl e \<Rightarrow> if e = WStore ErrNotFound
                then err (WMessage (''no task '' @ go_quote identifier @ ''; list tasks with '' @ ToolListTasks))
                else err e)"

section \<open>Creating a task\<close>

record CreateTaskArgs =
  ci_RepoPath :: string
  ci_Title :: string
  ci_Verification :: "string list"
  ci_ProtectedPaths :: "string list"
  ci_SetupSteps :: "string list"
  ci_VerificationMode :: string
  ci_Description :: string
  ci_AcceptanceCriteria :: string
  ci_Agent :: string
  ci_Priority :: int
  ci_RequiresApproval :: bool
  ci_MaxRetries :: int
  ci_ExpectFailOnBase :: bool
  ci_Coverage :: "bool option"
  ci_BaseRef :: string
  ci_TimeoutSeconds :: int
  ci_Hardness :: string
  ci_Model :: string

record CreateTaskOutput =
  cx_Task :: TaskView
  cx_NextStep :: string
  cx_Warnings :: "string list"

text \<open>Seconds become a 64-bit number of nanoseconds.\<close>

definition create_input :: "Config \<Rightarrow> CreateTaskArgs \<Rightarrow> VerificationStep list \<Rightarrow> VerificationStep list \<Rightarrow> CreateTaskInput" where
  "create_input c i steps setupSteps =
     \<lparr>in_RepoPath = ci_RepoPath i, in_RequireRegisteredProject = (\<not> cf_MCPAutoRegisterProjects c), in_Title = ci_Title i,
      in_Description = ci_Description i, in_AcceptanceCriteria = ci_AcceptanceCriteria i, in_Agent = ci_Agent i,
      in_Model = ci_Model i, in_Hardness = ci_Hardness i, in_Priority = ci_Priority i, in_Verification = steps,
      in_ProtectedPaths = ci_ProtectedPaths i, in_SetupSteps = setupSteps, in_VerificationMode = ci_VerificationMode i,
      in_MaxRetries = ci_MaxRetries i, in_RequiresApproval = ci_RequiresApproval i,
      in_ExpectFailOnBase = ci_ExpectFailOnBase i, in_Coverage = ci_Coverage i, in_BaseRef = ci_BaseRef i,
      in_Timeout = wrap64 (ci_TimeoutSeconds i * second)\<rparr>"

definition createTask :: "tools \<Rightarrow> env \<Rightarrow> server \<Rightarrow> CreateTaskArgs \<Rightarrow> CreateTaskOutput handled" where
  "createTask T E sv i =
     (case ParseVerificationSteps (ci_Verification i) of
        Inl e \<Rightarrow> refuse ''a verification step cannot be read'' sv
      | Inr steps \<Rightarrow>
          if steps = [] then refuse ''at least one verification command is required'' sv
          else (case ParseVerificationSteps (ci_SetupSteps i) of
             Inl e \<Rightarrow> refuse ''setup_steps: a step cannot be read'' sv
           | Inr setupSteps \<Rightarrow> connected T sv (keeping
               (ebind (Orchestrator_CreateTask E (tl_backend T) (create_input (tl_Config T) i steps setupSteps)) (\<lambda>(created, warnings).
                ok \<lparr>cx_Task = NewTask created,
                    cx_NextStep = (if t_RequiresApproval created then approvalNextStep (tl_Config T) (t_Ref created)
                                   else ''run it with '' @ ToolRunTask),
                    cx_Warnings = warnings\<rparr>)))))"

section \<open>Reading\<close>

definition shown_apply :: "Apply \<Rightarrow> TaskView \<Rightarrow> TaskView" where
  "shown_apply a v =
     (if ay_State a = ApplyNever then v
      else v\<lparr>vt_ApplyState := ApplyState_string (ay_State a), vt_ApplyInto := ay_Into a, vt_ApplyCommit := ay_Commit a\<rparr>)"

text \<open>\<open>try_query\<close> with the empty path where the project cannot be read.\<close>

definition repo_path :: "env \<Rightarrow> Task \<Rightarrow> string act" where
  "repo_path E t = try_query E (\<lambda>d. case GetProject (t_ProjectID t) d of Inl e \<Rightarrow> Inl e | Inr p \<Rightarrow> Inr (p_RepoPath p)) []"

definition getTask :: "tools \<Rightarrow> env \<Rightarrow> server \<Rightarrow> string \<Rightarrow> TaskView handled" where
  "getTask T E sv identifier =
     connected T sv (keeping
       (ebind (resolve E identifier) (\<lambda>t.
        ebind (repo_path E t) (\<lambda>path.
        ebind (query E (Store_ApplyState (t_ID t))) (\<lambda>a.
        ebind (ResolveApply E t a) (\<lambda>a'. ok (shown_apply a' ((NewTask t)\<lparr>vt_RepoPath := path\<rparr>))))))))"

record ListTasksArgs =
  li_RepoPath :: string
  li_Statuses :: "string list"
  li_Limit :: int
  li_NeedsApply :: bool

fun listed_statuses :: "string list \<Rightarrow> string + Status list" where
  "listed_statuses [] = Inr []"
| "listed_statuses (raw # rest) =
     (let trimmed = to_upper (trim_space raw)
      in if trimmed = [] then listed_statuses rest
         else (case ParseStatus trimmed of
                 Inl e \<Rightarrow> Inl e
               | Inr s \<Rightarrow> (case listed_statuses rest of Inl e \<Rightarrow> Inl e | Inr ss \<Rightarrow> Inr (s # ss))))"

text \<open>What is still waiting is what was neither applied nor has landed by hand.\<close>

fun list_views :: "env \<Rightarrow> bool \<Rightarrow> TaskListItem list \<Rightarrow> TaskView list act" where
  "list_views E needsApply [] = ok []"
| "list_views E needsApply (item # items) =
     ebind (ResolveApply E (ti_Task item) (ti_Apply item)) (\<lambda>a.
     ebind (list_views E needsApply items) (\<lambda>rest.
     ok (if needsApply \<and> ay_State a = ApplyLanded then rest
         else shown_apply a ((NewTask (ti_Task item))\<lparr>vt_RepoPath := ti_RepoPath item\<rparr>) # rest)))"

text \<open>No project: an empty list. Otherwise the filter's project.\<close>

definition project_filter :: "env \<Rightarrow> string \<Rightarrow> uuid option act" where
  "project_filter E repoPath =
     (if trim_space repoPath = [] then ok (Some 0)
      else ebind (OpenRepository E repoPath) (\<lambda>repo.
        catch (query E (GetProjectByPath repo)) (\<lambda>r. case r of
          Inr p \<Rightarrow> ok (Some (p_ID p))
        | Inl e \<Rightarrow> if e = WStore ErrNotFound then ok None else err e)))"

definition listTasks :: "tools \<Rightarrow> env \<Rightarrow> server \<Rightarrow> ListTasksArgs \<Rightarrow> TaskView list handled" where
  "listTasks T E sv i =
     (case listed_statuses (li_Statuses i) of
        Inl e \<Rightarrow> refuse e sv
      | Inr statuses \<Rightarrow> connected T sv (keeping
          (ebind (project_filter E (li_RepoPath i)) (\<lambda>project. case project of
             None \<Rightarrow> ok []
           | Some p \<Rightarrow> ebind (query E (ListTasks \<lparr>tf_ProjectID = p, tf_Statuses = statuses, tf_Limit = li_Limit i,
                                                 tf_Offset = 0, tf_Unapplied = li_NeedsApply i\<rparr>)) (\<lambda>items.
               list_views E (li_NeedsApply i) items)))))"

section \<open>The result of a task\<close>

text \<open>What is known of the newest attempt; every read but its own may fail.\<close>

record attemptRead =
  at_Attempt :: "TaskAttempt option"
  at_Runs :: "VerificationRun list"
  at_Worker :: "WorkerRun option"
  at_Worktree :: "Worktree option"
  at_Tests :: "string list"
  at_Coverage :: "coverageResult option"

definition newest_worker :: "uuid \<Rightarrow> db \<Rightarrow> serr + WorkerRun option" where
  "newest_worker i d = Inr (if ListWorkerRuns i d = [] then None else Some (last (ListWorkerRuns i d)))"

definition read_attempt :: "env \<Rightarrow> uuid \<Rightarrow> attemptRead act" where
  "read_attempt E taskID =
     catch (query E (LatestAttempt taskID)) (\<lambda>r. case r of
       Inl e \<Rightarrow> if e = WStore ErrNotFound
                then ok \<lparr>at_Attempt = None, at_Runs = [], at_Worker = None, at_Worktree = None, at_Tests = [], at_Coverage = None\<rparr>
                else err e
     | Inr latest \<Rightarrow>
         ebind (try_query E (\<lambda>d. Inr (ListVerificationRuns (a_ID latest) d)) []) (\<lambda>runs.
         ebind (try_query E (newest_worker (a_ID latest)) None) (\<lambda>workerRun.
         ebind (try_query E (\<lambda>d. case GetWorktreeByAttempt (a_ID latest) d of Inl e \<Rightarrow> Inl e | Inr w \<Rightarrow> Inr (Some w)) None) (\<lambda>worktree.
         ebind (try_query E (TestsModifiedPaths taskID (a_ID latest)) []) (\<lambda>tests.
         ebind (try_query E (CoverageReport taskID (a_ID latest)) None) (\<lambda>cov.
         ok \<lparr>at_Attempt = Some latest, at_Runs = runs, at_Worker = workerRun, at_Worktree = worktree,
             at_Tests = tests, at_Coverage = cov\<rparr>))))))"

definition read_apply :: "env \<Rightarrow> Task \<Rightarrow> Apply act" where
  "read_apply E t =
     catch (query E (Store_ApplyState (t_ID t))) (\<lambda>r. case r of
       Inl _ \<Rightarrow> ok never_applied | Inr a \<Rightarrow> ResolveApply E t a)"

definition earlier_views :: "env \<Rightarrow> uuid \<Rightarrow> TaskAttempt option \<Rightarrow> AttemptView list act" where
  "earlier_views E taskID attempt =
     (case attempt of
        None \<Rightarrow> ok []
      | Some a \<Rightarrow> ebind (try_query E (\<lambda>d. Inr (ListAttempts taskID d)) []) (\<lambda>all.
          ebind (ask (e_now E)) (\<lambda>now. ok (map (NewAttempt_view now) (EarlierAttempts all (a_ID a))))))"

definition buildResult :: "env \<Rightarrow> uuid \<Rightarrow> bool \<Rightarrow> ResultView act" where
  "buildResult E taskID includeOutput =
     ebind (query E (GetTask taskID)) (\<lambda>t.
     ebind (read_attempt E taskID) (\<lambda>seen.
     ebind (try_query E (\<lambda>d. case LatestApproval taskID d of Inl e \<Rightarrow> Inl e | Inr a \<Rightarrow> Inr (Some a)) None) (\<lambda>approval.
     ebind (ask (e_now E)) (\<lambda>now.
     let message = (case at_Attempt seen of None \<Rightarrow> [] | Some a \<Rightarrow> a_Error a);
         result = NewResult now t (at_Attempt seen) (at_Worker seen) (at_Runs seen) (at_Worktree seen) approval
                    (at_Tests seen) message includeOutput in
     ebind (read_apply E t) (\<lambda>a.
     ebind (repo_path E t) (\<lambda>path.
     ebind (earlier_views E taskID (at_Attempt seen)) (\<lambda>earlier.
     ok (result\<lparr>vr_Task := shown_apply a ((vr_Task result)\<lparr>vt_RepoPath := path\<rparr>), vr_Apply := NewApply a,
                vr_Coverage := at_Coverage seen, vr_EarlierAttempts := earlier\<rparr>))))))))"

record GetResultArgs =
  gi_Task :: string
  gi_IncludeLogs :: bool
  gi_Sections :: "string list"
  gi_MaxBytes :: int
  gi_Offset :: int

record GetResultOutput =
  gx_Result :: ResultView
  gx_Transcript :: "string \<times> nat"
  gx_Stdout :: "string \<times> nat"
  gx_Stderr :: "string \<times> nat"
  gx_Diff :: "string \<times> nat"
  gx_NextOffset :: int
  gx_StillRunning :: bool

text \<open>Every step's output is a section of its own, paged with the same offset.\<close>

fun page_verification :: "pager \<Rightarrow> VerificationView list \<Rightarrow> VerificationView list \<times> pager" where
  "page_verification p [] = ([], p)"
| "page_verification p (v # vs) =
     (let ((out, outTotal), p1) = page p (vv_Stdout v);
          ((errOut, errTotal), p2) = page p1 (vv_Stderr v);
          (rest, p3) = page_verification p2 vs
      in (v\<lparr>vv_Stdout := out, vv_StdoutTotalBytes := outTotal, vv_Stderr := errOut, vv_StderrTotalBytes := errTotal\<rparr> # rest, p3))"

definition page_if :: "string \<Rightarrow> string \<Rightarrow> pager \<Rightarrow> (string \<times> nat) \<times> pager" where
  "page_if section s p = (if wants (pg_req p) section then page p s else (([], 0), p))"

definition page_worker :: "tools \<Rightarrow> WorkerRun \<Rightarrow> GetResultOutput \<Rightarrow> pager \<Rightarrow> GetResultOutput \<times> pager" where
  "page_worker T latest out p =
     (let (transcript, p1) = page_if sectionTranscript (fst (CondenseTranscript (tl_decoder T) (tl_codex T) (r_Backend latest) (r_Stdout latest))) p;
          (stdout, p2) = page_if sectionStdout (r_Stdout latest) p1;
          (stderr, p3) = page_if sectionStderr (r_Stderr latest) p2;
          (df, p4) = page_if sectionDiff (r_Diff latest) p3
      in (out\<lparr>gx_Transcript := transcript, gx_Stdout := stdout, gx_Stderr := stderr, gx_Diff := df\<rparr>, p4))"

text \<open>The newest worker run is read again for its logs; without one no log is returned.\<close>

definition latest_run :: "env \<Rightarrow> uuid \<Rightarrow> WorkerRun option act" where
  "latest_run E taskID =
     catch (query E (LatestAttempt taskID)) (\<lambda>r. case r of
       Inl _ \<Rightarrow> ok None | Inr a \<Rightarrow> try_query E (newest_worker (a_ID a)) None)"

definition getResult :: "tools \<Rightarrow> env \<Rightarrow> server \<Rightarrow> GetResultArgs \<Rightarrow> GetResultOutput handled" where
  "getResult T E sv i =
     connected T sv (keeping
       (ebind (resolve E (gi_Task i)) (\<lambda>t.
        case parseLogRequest (gi_IncludeLogs i) (gi_Sections i) (gi_Offset i) (gi_MaxBytes i) of
          Inl e \<Rightarrow> err (WMessage e)
        | Inr (req, logs) \<Rightarrow>
            ebind (buildResult E (t_ID t) (logs \<and> wants req sectionVerification)) (\<lambda>result.
            let out = \<lparr>gx_Result = result, gx_Transcript = ([], 0), gx_Stdout = ([], 0), gx_Stderr = ([], 0),
                       gx_Diff = ([], 0), gx_NextOffset = 0, gx_StillRunning = Active (t_Status t)\<rparr> in
            if \<not> logs then ok out
            else let p = \<lparr>pg_req = req, pg_more = False\<rparr>;
                     (vs, p1) = (if wants req sectionVerification then page_verification p (vr_Verification result)
                                 else (vr_Verification result, p));
                     out1 = out\<lparr>gx_Result := result\<lparr>vr_Verification := vs\<rparr>\<rparr>
                 in ebind (latest_run E (t_ID t)) (\<lambda>latest.
                    let (out2, p2) = (case latest of None \<Rightarrow> (out1, p1) | Some r \<Rightarrow> page_worker T r out1 p1)
                    in ok (out2\<lparr>gx_NextOffset := nextOffset p2\<rparr>))))))"

section \<open>Events\<close>

record GetEventsArgs =
  ge_Task :: string
  ge_AfterSeq :: int
  ge_Limit :: int

record GetEventsOutput =
  ex_Events :: "EventView list"
  ex_Count :: nat
  ex_LastSeq :: nat

definition events_output :: "Event list \<Rightarrow> GetEventsOutput" where
  "events_output es =
     \<lparr>ex_Events = map (\<lambda>e. NewEvent e True) es, ex_Count = length es,
      ex_LastSeq = (if es = [] then 0 else e_Seq (last es))\<rparr>"

definition getEvents :: "tools \<Rightarrow> env \<Rightarrow> server \<Rightarrow> GetEventsArgs \<Rightarrow> GetEventsOutput handled" where
  "getEvents T E sv i =
     connected T sv (keeping
       (ebind (resolve E (ge_Task i)) (\<lambda>t.
        ebind (query E (ListEvents \<lparr>ef_TaskID = t_ID t, ef_AfterSeq = nat (ge_AfterSeq i), ef_Types = [], ef_Limit = ge_Limit i\<rparr>)) (\<lambda>es.
        ok (events_output es)))))"

section \<open>Cancelling and approving\<close>

record CancelTaskOutput =
  kx_Task :: TaskView
  kx_Stop :: "RunnerStop option"

definition cancelTask :: "tools \<Rightarrow> env \<Rightarrow> server \<Rightarrow> string \<Rightarrow> string \<Rightarrow> CancelTaskOutput handled" where
  "cancelTask T E sv identifier reason =
     connected T sv (keeping
       (let why = trim_space reason in
        ebind (Cancel E (tl_machine T) (tl_fuel T) identifier (if why = [] then ''cancelled through MCP'' else why)) (\<lambda>(out, stop).
        ok \<lparr>kx_Task = NewTask (o_Task out), kx_Stop = stop\<rparr>)))"

record ApproveTaskArgs =
  ai_Task :: string
  ai_Approve :: bool
  ai_DecidedBy :: string
  ai_Reason :: string

record ApproveTaskOutput =
  ax_Task :: TaskView
  ax_Approval :: "ApprovalView option"

definition approveTask :: "tools \<Rightarrow> env \<Rightarrow> server \<Rightarrow> ApproveTaskArgs \<Rightarrow> ApproveTaskOutput handled" where
  "approveTask T E sv i =
     connected T sv (\<lambda>sv.
       if \<not> cf_MCPAllowApproval (tl_Config T)
       then refuse (''approvals over MCP are disabled (set mcp.allow_approval to allow them); decide with the CLI instead: aidev task approve ''
                      @ ai_Task i @ '' --by <name>'' @ (if ai_Approve i then [] else '' --deny'')) sv
       else keeping
         (let by = trim_space (ai_DecidedBy i) in
          ebind (Approve E (ai_Task i) (ai_Approve i) (if by = [] then ''mcp client'' else by) (ai_Reason i) ''mcp'') (\<lambda>out.
          ok \<lparr>ax_Task = NewTask (o_Task out), ax_Approval = map_option NewApproval (o_Approval out)\<rparr>)) sv)"

section \<open>Running\<close>

fun is_not_runnable :: "werr \<Rightarrow> bool" where
  "is_not_runnable (WNotRunnable s) = True"
| "is_not_runnable (WWrapped context e) = is_not_runnable e"
| "is_not_runnable _ = False"

definition runLogTailBytes :: nat where "runLogTailBytes = 2000"

text \<open>\<open>tailFile\<close> for a file of the content given; an unreadable file has none.\<close>

definition tailFile :: "string \<Rightarrow> string" where
  "tailFile content = drop (length content - runLogTailBytes) content"

definition classifyRun :: "tools \<Rightarrow> env \<Rightarrow> uuid \<Rightarrow> werr option \<Rightarrow> string \<Rightarrow> werr option act" where
  "classifyRun T E taskID waitErr logPath =
     catch (query E (GetTask taskID)) (\<lambda>r. case r of
       Inl e \<Rightarrow> ok (Some (WWrapped (''the run stopped and '' @ uuid_string taskID @ '' could not be re-read''
                  @ (case waitErr of None \<Rightarrow> [] | Some w \<Rightarrow> CHR '':'' # '' '' @ e_text E w)) e))
     | Inr t \<Rightarrow>
         if Terminal (t_Status t) \<or> t_Status t = StatusWaitingApproval
         then ok (case waitErr of Some e \<Rightarrow> if is_not_runnable e then Some e else None | None \<Rightarrow> None)
         else ebind (if logPath = [] then ok [] else ask (\<lambda>n. tailFile (tl_tail T n logPath))) (\<lambda>tail.
           ok (Some (WMessage (''the run stopped while '' @ Identifier t @ '' was still '' @ Status_string (t_Status t)
             @ (case waitErr of None \<Rightarrow> [] | Some w \<Rightarrow> CHR '':'' # '' '' @ e_text E w)
             @ (if tail = [] then [] else ''; stderr of the run process (last bytes):'' @ [nl] @ tail))))))"

definition awaitOutcome :: "tools \<Rightarrow> env \<Rightarrow> uuid \<Rightarrow> ending \<Rightarrow> string \<Rightarrow> werr option act" where
  "awaitOutcome T E taskID e logPath =
     (case e of ServerStopped \<Rightarrow> ok (Some (WMessage ''context canceled'')) | Driver waitErr \<Rightarrow> classifyRun T E taskID waitErr logPath)"

text \<open>The watcher of a task, when its driver has ended by now.\<close>

definition watcher :: "tools \<Rightarrow> env \<Rightarrow> server \<Rightarrow> uuid \<Rightarrow> server act" where
  "watcher T E sv i =
     (case sv_runs sv i of
        Some (Watched logPath) \<Rightarrow> ebind (ask (\<lambda>n. tl_ended T n i)) (\<lambda>r. case r of
          None \<Rightarrow> ok sv
        | Some e \<Rightarrow> ebind (awaitOutcome T E i e logPath) (\<lambda>x. ok (sv\<lparr>sv_runs := (sv_runs sv)(i \<mapsto> Finished x)\<rparr>)))
      | _ \<Rightarrow> ok sv)"

text \<open>Joins the run that is watched, or starts one: whether it started, and the server then.\<close>

definition startRun :: "tools \<Rightarrow> env \<Rightarrow> server \<Rightarrow> Task \<Rightarrow> bool handled" where
  "startRun T E sv t =
     (case sv_runs sv (t_ID t) of
        Some (Watched logPath) \<Rightarrow> ok (sv, Inr False)
      | _ \<Rightarrow>
          (let sv' = sv\<lparr>sv_runs := (sv_runs sv)(t_ID t := None)\<rparr>
           in if Terminal (t_Status t) \<or> Active (t_Status t) then ok (sv', Inl (WNotRunnable (t_Status t)))
              else ebind (ask (\<lambda>n. tl_launch T n t)) (\<lambda>r. case r of
                     Inl e \<Rightarrow> ok (sv', Inl e)
                   | Inr logPath \<Rightarrow> ok (sv'\<lparr>sv_runs := (sv_runs sv')(t_ID t \<mapsto> Watched logPath)\<rparr>, Inr True))))"

record RunTaskOutput =
  rx_Result :: ResultView
  rx_StillRunning :: bool
  rx_Succeeded :: bool
  rx_NextStep :: string

definition finishedRunOutput :: "tools \<Rightarrow> env \<Rightarrow> uuid \<Rightarrow> werr option \<Rightarrow> RunTaskOutput act" where
  "finishedRunOutput T E taskID runErr =
     (case runErr of
        Some e \<Rightarrow> err e
      | None \<Rightarrow> ebind (buildResult E taskID False) (\<lambda>result.
          if vt_Status (vr_Task result) = Status_string StatusWaitingApproval
          then ok \<lparr>rx_Result = result, rx_StillRunning = False, rx_Succeeded = False,
                   rx_NextStep = approvalNextStep (tl_Config T) (vt_Ref (vr_Task result))\<rparr>
          else (let succeeded = (vt_Status (vr_Task result) = Status_string StatusSucceeded)
                in ok \<lparr>rx_Result = result, rx_StillRunning = False, rx_Succeeded = succeeded,
                       rx_NextStep = (if succeeded
                          then ''the work is committed on branch '' @ (case vr_Worktree result of None \<Rightarrow> [] | Some w \<Rightarrow> vk_Branch w)
                                 @ ''; review it with git before merging anything''
                          else ''verification failed or the agent did not finish; call '' @ ToolGetResult
                                 @ '' with include_logs to see the output'')\<rparr>)))"

definition DefaultWaitSeconds :: int where "DefaultWaitSeconds = 120"
definition MaxWaitSeconds :: int where "MaxWaitSeconds = 900"

text \<open>
  The call's \<open>select\<close>: a run can only be seen done when its watcher has finished; else the wait goes on
  until it is over.
\<close>

definition await_run :: "tools \<Rightarrow> env \<Rightarrow> server \<Rightarrow> uuid \<Rightarrow> int \<Rightarrow> RunTaskOutput handled" where
  "await_run T E sv i wait =
     ebind (watcher T E sv i) (\<lambda>sv.
     ebind (ask (\<lambda>n. tl_select T n wait)) (\<lambda>what.
     case (what, sv_runs sv i) of
       (RunDone, Some (Finished e)) \<Rightarrow> keeping (finishedRunOutput T E i e) sv
     | (CallerGone, _) \<Rightarrow> refuse ''context canceled'' sv
     | _ \<Rightarrow> keeping (ebind (buildResult E i False) (\<lambda>result.
         ok \<lparr>rx_Result = result, rx_StillRunning = True, rx_Succeeded = False,
             rx_NextStep = ''the run is still going after '' @ int_dec wait @ ''s; call '' @ ToolGetResult
               @ '' to see how it ended, or '' @ ToolGetEvents @ '' to follow progress''\<rparr>)) sv))"

definition runTask :: "tools \<Rightarrow> env \<Rightarrow> server \<Rightarrow> string \<Rightarrow> int option \<Rightarrow> RunTaskOutput handled" where
  "runTask T E sv identifier waitSeconds =
     (let wait = (case waitSeconds of None \<Rightarrow> DefaultWaitSeconds | Some w \<Rightarrow> w)
      in if wait < 0 then refuse ''wait_seconds must not be negative'' sv
         else connected T sv (\<lambda>sv.
           catch (resolve E identifier) (\<lambda>r. case r of
             Inl e \<Rightarrow> ok (sv, Inl e)
           | Inr t \<Rightarrow> ebind (watcher T E sv (t_ID t)) (\<lambda>sv.
               ebind (startRun T E sv t) (\<lambda>(sv, started). case started of
                 Inl e \<Rightarrow> ok (sv, Inl e)
               | Inr _ \<Rightarrow> await_run T E sv (t_ID t) (min wait MaxWaitSeconds))))))"

end
