(* ===== verification/McpGuarantees.thy ===== *)
theory McpGuarantees
  imports ApplyGuarantees Mcp
begin

text \<open>
  What the MCP server promises: its tools act on the database only as the commands do, and with its two
  switches off a planner that has nothing but the tools can neither register a repository nor release a task that
  waits for a person. The tools are followed once, in the interface \<open>tool_effects\<close>; each guarantee is an
  interpretation of it.
\<close>

section \<open>A session of tool calls\<close>

datatype tool_call =
    CallCreate CreateTaskArgs | CallGet string | CallList ListTasksArgs | CallRun string "int option"
  | CallResult GetResultArgs | CallEvents GetEventsArgs | CallCancel string string | CallApprove ApproveTaskArgs

text \<open>A call answers its caller; the session goes on with the server it leaves.\<close>

definition answered :: "'a handled \<Rightarrow> server act" where
  "answered m = ebind m (\<lambda>(sv, r). ok sv)"

fun serve_call :: "tools \<Rightarrow> env \<Rightarrow> server \<Rightarrow> tool_call \<Rightarrow> server act" where
  "serve_call T E sv (CallCreate i) = answered (createTask T E sv i)"
| "serve_call T E sv (CallGet r) = answered (getTask T E sv r)"
| "serve_call T E sv (CallList i) = answered (listTasks T E sv i)"
| "serve_call T E sv (CallRun r wait) = answered (runTask T E sv r wait)"
| "serve_call T E sv (CallResult i) = answered (getResult T E sv i)"
| "serve_call T E sv (CallEvents i) = answered (getEvents T E sv i)"
| "serve_call T E sv (CallCancel r why) = answered (cancelTask T E sv r why)"
| "serve_call T E sv (CallApprove i) = answered (approveTask T E sv i)"

primrec serve_calls :: "tools \<Rightarrow> env \<Rightarrow> server \<Rightarrow> tool_call list \<Rightarrow> server act" where
  "serve_calls T E sv [] = ok sv"
| "serve_calls T E sv (c # cs) = ebind (serve_call T E sv c) (\<lambda>sv'. serve_calls T E sv' cs)"

section \<open>What a tool does, relation by relation\<close>

locale tool_effects = act_order R for R :: "world \<Rightarrow> world \<Rightarrow> bool" +
  fixes T :: tools and E :: env
  assumes git_moves: "git_only w w' \<Longrightarrow> R w w'"
    and others_move: "state_io_rel R (turn E)"
    and create_moves: "state_io_rel R (Orchestrator_CreateTask E (tl_backend T) (create_input (tl_Config T) i steps setup))"
    and cancel_moves: "state_io_rel R (Cancel E (tl_machine T) (tl_fuel T) identifier reason)"
    and approve_moves: "cf_MCPAllowApproval (tl_Config T) \<Longrightarrow> state_io_rel R (Approve E identifier yes by_whom reason via)"
begin

lemma of_git: "state_io_rel git_only m \<Longrightarrow> state_io_rel R m"
  by (auto simp: state_io_rel_def intro: git_moves)

lemma reading_stays: "state_io_rel R (in_db (tx_read q))"
  by (rule state_io_relI) (auto simp: run_in_db tx_read_Inr_iff R_refl)

lemma query_moves: "state_io_rel R (query E q)"
  unfolding query_def stmt_def by (intro moves_actions others_move reading_stays)

lemmas tool_rules = moves_actions query_moves git_only_basics [THEN of_git] git_only_operations [THEN of_git]

lemma keeping_moves: "state_io_rel R body \<Longrightarrow> state_io_rel R (keeping body sv)"
  unfolding keeping_def by (intro tool_rules)

lemma connected_moves: "(\<And>sv. state_io_rel R (next sv)) \<Longrightarrow> state_io_rel R (connected T sv next)"
  unfolding connected_def by (intro tool_rules)

lemma reads_move: "state_io_rel R (try_query E q v)" "state_io_rel R (resolve E r)" "state_io_rel R (refuse why sv)"
  "state_io_rel R (ResolveApply E t a)" "state_io_rel R (repo_path E t)"
  unfolding try_query_def resolve_def refuse_def ResolveApply_def repo_path_def by (intro tool_rules)+

lemma list_views_move: "state_io_rel R (list_views E na items)"
  by (induction items) (auto intro!: tool_rules reads_move)

lemma result_moves: "state_io_rel R (buildResult E i full)" "state_io_rel R (latest_run E i)"
  unfolding buildResult_def read_attempt_def read_apply_def earlier_views_def latest_run_def
  by (intro tool_rules reads_move)+

lemma watcher_moves: "state_io_rel R (watcher T E sv i)"
  unfolding watcher_def awaitOutcome_def classifyRun_def
  by (auto split: option.split backgroundRun.split ending.split intro!: tool_rules reads_move)

lemma start_moves: "state_io_rel R (startRun T E sv t)"
  unfolding startRun_def Let_def by (auto split: option.split backgroundRun.split intro!: tool_rules)

lemma await_moves: "state_io_rel R (await_run T E sv i wait)"
  unfolding await_run_def finishedRunOutput_def Let_def
  by (auto split: option.split backgroundRun.split seen.split intro!: tool_rules reads_move result_moves keeping_moves watcher_moves)

lemma answered_moves: "state_io_rel R m \<Longrightarrow> state_io_rel R (answered m)"
  unfolding answered_def by (intro tool_rules)

lemmas handler_rules = connected_moves keeping_moves reads_move result_moves list_views_move tool_rules

lemma handlers_move:
  "state_io_rel R (createTask T E sv ci)" "state_io_rel R (getTask T E sv r)" "state_io_rel R (listTasks T E sv li)"
  "state_io_rel R (runTask T E sv r wait)" "state_io_rel R (getResult T E sv gi)" "state_io_rel R (getEvents T E sv ge)"
  "state_io_rel R (cancelTask T E sv r why)" "state_io_rel R (approveTask T E sv ai)"
  unfolding createTask_def getTask_def listTasks_def project_filter_def runTask_def getResult_def getEvents_def
    cancelTask_def approveTask_def Let_def
  by (intro handler_rules create_moves cancel_moves approve_moves watcher_moves start_moves await_moves; simp)+

lemma serve_call_moves: "state_io_rel R (serve_call T E sv c)"
  by (cases c) (auto intro!: answered_moves handlers_move)

lemma serve_calls_move: "state_io_rel R (serve_calls T E sv cs)"
  by (induction cs arbitrary: sv) (auto intro!: tool_rules serve_call_moves)

end

section \<open>The tools keep to the system's transactions\<close>

interpretation lawful_tools: tool_effects "lawful E" T E for T E
  by unfold_locales
    (auto intro: git_only_lawful lawful_turn lawful_CreateTask lawful_Cancel lawful_Approve)

text \<open>
  C14: Whatever a client of the MCP server calls, and in whatever order, the database moves only by
  transactions of the system and stays one the system can reach, and every git command the tools issue
  has hooks and the file-system monitor switched off.
\<close>

theorem mcp_calls_are_system_steps:
  assumes "others_step E" "reachable (w_db w)" "run_state (serve_calls T E sv cs) w = (r, w')"
  shows "sys_step\<^sup>*\<^sup>* (w_db w) (w_db w') \<and> reachable (w_db w')
    \<and> (\<exists>issued. w_git w' = w_git w @ issued \<and> list_all guarded issued)"
proof -
  have l: "lawful E w w'" by (rule lawfulD [OF lawful_tools.serve_calls_move assms(3)])
  from lawful_steps [OF this assms(1,2)] lawful_reachable [OF this assms(1,2)] l show ?thesis
    by (simp add: lawful_def calls_ok_def)
qed

section \<open>What a planner cannot do\<close>

text \<open>
  Projects and approvals stay; a task keeps its place and its status or is cancelled; new tasks come behind
  and have not been run.
\<close>

definition only_cancels :: "db \<Rightarrow> db \<Rightarrow> bool" where
  "only_cancels d e =
     (db_projects e = db_projects d \<and> db_approvals e = db_approvals d \<and> length (db_tasks d) \<le> length (db_tasks e)
      \<and> (\<forall>k < length (db_tasks d). t_ID (db_tasks e ! k) = t_ID (db_tasks d ! k)
           \<and> t_Status (db_tasks e ! k) \<in> {t_Status (db_tasks d ! k), StatusCancelled})
      \<and> (\<forall>k < length (db_tasks e). length (db_tasks d) \<le> k \<longrightarrow> t_Status (db_tasks e ! k) \<in> {StatusPending, StatusCancelled}))"

text \<open>No other process acts on the database.\<close>

definition solitary :: "env \<Rightarrow> bool" where
  "solitary E = (\<forall>n d. e_others E n d = d)"

definition restrained :: "env \<Rightarrow> world \<Rightarrow> world \<Rightarrow> bool" where
  "restrained E w w' = (solitary E \<longrightarrow> only_cancels (w_db w) (w_db w'))"

lemma only_cancels_refl: "only_cancels d d"
  by (simp add: only_cancels_def)

lemma only_cancels_trans:
  assumes "only_cancels d e" "only_cancels e f"
  shows "only_cancels d f"
proof -
  have "t_ID (db_tasks f ! k) = t_ID (db_tasks d ! k) \<and> t_Status (db_tasks f ! k) \<in> {t_Status (db_tasks d ! k), StatusCancelled}"
    if "k < length (db_tasks d)" for k
  proof -
    have "k < length (db_tasks e)" using assms(1) that by (simp add: only_cancels_def)
    then have "t_ID (db_tasks f ! k) = t_ID (db_tasks e ! k)" "t_Status (db_tasks f ! k) \<in> {t_Status (db_tasks e ! k), StatusCancelled}"
      using assms(2) by (simp_all add: only_cancels_def)
    moreover have "t_ID (db_tasks e ! k) = t_ID (db_tasks d ! k)" "t_Status (db_tasks e ! k) \<in> {t_Status (db_tasks d ! k), StatusCancelled}"
      using assms(1) that by (simp_all add: only_cancels_def)
    ultimately show ?thesis by auto
  qed
  moreover have "t_Status (db_tasks f ! k) \<in> {StatusPending, StatusCancelled}" if "k < length (db_tasks f)" "length (db_tasks d) \<le> k" for k
  proof (cases "k < length (db_tasks e)")
    case True
    then have "t_Status (db_tasks e ! k) \<in> {StatusPending, StatusCancelled}" using assms(1) that(2) by (simp add: only_cancels_def)
    moreover have "t_Status (db_tasks f ! k) \<in> {t_Status (db_tasks e ! k), StatusCancelled}" using assms(2) True by (simp add: only_cancels_def)
    ultimately show ?thesis by auto
  next
    case False
    then show ?thesis using assms(2) that(1) by (simp add: only_cancels_def)
  qed
  moreover have "db_projects f = db_projects d" "db_approvals f = db_approvals d" "length (db_tasks d) \<le> length (db_tasks f)"
    using assms by (simp_all add: only_cancels_def)
  ultimately show ?thesis unfolding only_cancels_def by blast
qed

interpretation restrained: act_order "restrained E" for E
  by unfold_locales (auto simp: restrained_def intro: only_cancels_refl only_cancels_trans)

subsection \<open>Rules\<close>

lemma restrained_git: "git_only w w' \<Longrightarrow> restrained E w w'"
  by (auto simp: restrained_def git_only_def only_cancels_refl)

lemma restrained_of_git: "state_io_rel git_only m \<Longrightarrow> state_io_rel (restrained E) m"
  by (auto simp: state_io_rel_def intro: restrained_git)

lemma restrained_turn: "state_io_rel (restrained E) (turn E)"
  by (rule state_io_relI) (auto simp: run_turn restrained_def solitary_def only_cancels_refl)

lemma restrained_in_db:
  "(\<And>d x e. m d = Inr (x, e) \<Longrightarrow> only_cancels d e) \<Longrightarrow> state_io_rel (restrained E) (in_db m)"
  by (rule state_io_relI) (auto simp: run_in_db restrained_def only_cancels_refl)

lemma restrained_stmt:
  "(\<And>d x e. m d = Inr (x, e) \<Longrightarrow> only_cancels d e) \<Longrightarrow> state_io_rel (restrained E) (stmt E m)"
  unfolding stmt_def by (intro restrained.moves_actions restrained_turn restrained_in_db) auto

lemma restrained_query: "state_io_rel (restrained E) (query E q)"
  unfolding query_def by (rule restrained_stmt) (auto simp: tx_read_Inr_iff only_cancels_refl)

lemma restrained_inTx:
  assumes "state_io_rel (restrained E) body"
  shows "state_io_rel (restrained E) (inTx E body)"
proof -
  have "state_io_rel (restrained E) (ebind (reads w_db) (\<lambda>before. catch body (commit_tx c before)))" for c
  proof (rule state_io_relI)
    fix r w w' assume "run_state (ebind (reads w_db) (\<lambda>before. catch body (commit_tx c before))) w = (r, w')"
    then obtain q u where b: "run_state body w = (q, u)" and k: "run_state (commit_tx c (w_db w) q) u = (r, w')"
      by (auto simp: run_ebind run_reads run_catch)
    have "restrained E w u" using assms b by blast
    moreover have "w_db w' = w_db w \<or> w_db w' = w_db u"
      using k by (cases q; cases c) (auto simp: commit_tx_def run_eseq run_assign run_err run_ok)
    ultimately show "restrained E w w'" by (auto simp: restrained_def only_cancels_refl)
  qed
  then show ?thesis unfolding inTx_def
    by (intro restrained.moves_ebind [OF restrained_turn] restrained.moves_if restrained.moves_err)
qed

lemmas restrained_rules = restrained.moves_actions restrained_query
  git_only_basics [THEN restrained_of_git] git_only_operations [THEN restrained_of_git]

subsection \<open>Creating and cancelling\<close>

lemma append_event_only:
  "appendEvent st i aid ty d = Inr (u, e) \<Longrightarrow> only_cancels d e"
  by (auto dest!: appendEvent_Inr simp: only_cancels_def)

lemma create_only:
  assumes "create_tx built st d = Inr (t, e)" "t_Status built = StatusPending"
  shows "only_cancels d e"
proof -
  obtain d1 where c: "CreateTask built d = Inr (t, d1)" and ap: "appendEvent (st t) (t_ID t) None TypeTaskCreated d1 = Inr ((), e)"
    using assms(1) by (auto simp: create_tx_def tx_iffs)
  note t = CreateTask_Inr [OF c]
  have "only_cancels d d1" using t(2,5) assms(2) by (auto simp: only_cancels_def nth_append)
  then show ?thesis using append_event_only [OF ap] by (rule only_cancels_trans)
qed

lemma retain_only: "retain_each as d = Inr (u, e) \<Longrightarrow> only_cancels d e"
proof (induction as arbitrary: d)
  case Nil
  then show ?case by (simp add: tx_iffs only_cancels_refl)
next
  case (Cons a as)
  have set: "SetWorktreeStatus j s d = Inr (v, d') \<Longrightarrow> only_cancels d d'" for j s v d'
    by (auto simp: SetWorktreeStatus_def set_worktree_def Let_def only_cancels_def split: if_splits)
  show ?case
  proof (cases "GetWorktreeByAttempt (a_ID a) d")
    case (Inl err)
    with Cons show ?thesis by (cases err) auto
  next
    case (Inr w)
    with Cons show ?thesis by (auto simp: tx_iffs intro: only_cancels_trans set split: if_splits)
  qed
qed

lemma cancel_only:
  assumes "cancel_tx i cur reason ev d = Inr (owner, e)"
  shows "only_cancels d e"
proof -
  obtain d1 d2 d3 where t1: "TransitionTask i cur StatusCancelled d = Inr ((), d1)"
    and fo: "finishOpenAttempts i AttemptCancelled FailureCancelled reason d1 = Inr ((), d2)"
    and rw: "retainWorktrees i d2 = Inr ((), d3)"
    and ap: "appendEvent ev i None TypeTaskCancelled d3 = Inr ((), e)"
    using assms by (auto simp: cancel_tx_def tx_iffs)
  have "only_cancels d d1" using TransitionTask_Inr(3) [OF t1] by (auto simp: only_cancels_def update_where_def)
  moreover have "only_cancels d1 d2" using finishOpen_Inr [OF fo] by (simp add: only_cancels_def)
  moreover have "only_cancels d2 d3" using rw unfolding retainWorktrees_def by (rule retain_only)
  moreover have "only_cancels d3 e" by (rule append_event_only [OF ap])
  ultimately show ?thesis by (blast intro: only_cancels_trans)
qed

text \<open>The rest of both commands, as in \<open>CommandEffects\<close>; a client that may not register finds the project or fails.\<close>

lemma restrained_one_tx:
  assumes "\<And>n d x e. f n d = Inr (x, e) \<Longrightarrow> only_cancels d e"
  shows "state_io_rel (restrained E) (inTx E (ebind tick (\<lambda>n. in_db (f n))))"
  by (intro restrained_inTx restrained_rules restrained_in_db) (rule assms)

lemma restrained_missing: "state_io_rel (restrained E) (missing_of E repo base ps)"
  by (induction ps) (auto intro!: restrained_rules)

lemma restrained_missing_runners: "state_io_rel (restrained E) (missing_runners E repo base i steps)"
  by (induction steps arbitrary: i) (auto intro!: restrained_rules restrained_missing)

lemma restrained_lockfile: "state_io_rel (restrained E) (first_lockfile E repo base ls)"
  by (induction ls) (auto intro!: restrained_rules)

lemma restrained_find:
  "in_RequireRegisteredProject input \<Longrightarrow> state_io_rel (restrained E) (find_project E input repo)"
  unfolding find_project_def by (auto intro!: restrained_rules)

lemma restrained_parts:
  "state_io_rel (restrained E) (check_input E B input)" "state_io_rel (restrained E) (chosen_mode input project)"
  "state_io_rel (restrained E) (refuse_gitlinks E input mode repo base)"
  "state_io_rel (restrained E) (refuseMissingRunners E repo base steps)"
  "state_io_rel (restrained E) (nodeInstallWarnings E repo base steps setupSteps)"
  unfolding check_input_def chosen_mode_def refuse_gitlinks_def refuseMissingRunners_def
    nodeInstallWarnings_def validate_agent_def Let_def
  by (intro restrained_rules restrained_missing_runners restrained_lockfile)+

lemma restrained_CreateTask:
  assumes "in_RequireRegisteredProject input"
  shows "state_io_rel (restrained E) (Orchestrator_CreateTask E B input)"
proof -
  have store: "t_Status built = StatusPending \<Longrightarrow> state_io_rel (restrained E) (store_task E repo warnings built)" for repo warnings built
    unfolding store_task_def by (rule restrained_one_tx) (rule create_only)
  show ?thesis unfolding Orchestrator_CreateTask_def Let_def
    by (intro restrained_rules restrained_parts restrained_find assms store) (rule built_pending)
qed

lemma restrained_Cancel: "state_io_rel (restrained E) (Cancel E M fuel r reason)"
proof -
  have attempt: "(\<And>e. state_io_rel (restrained E) (again e)) \<Longrightarrow> state_io_rel (restrained E) (cancel_attempt E r reason again)" for again
    unfolding cancel_attempt_def cancel_transaction_def
    by (intro restrained_rules restrained_one_tx) (auto intro: cancel_only)
  have loop: "state_io_rel (restrained E) (cancel_loop E r reason k)" for k
    by (induction k) (auto intro!: attempt restrained_rules)
  have wait: "state_io_rel (restrained E) (wait_loop E M running start stop fuel)" for running start stop
    by (induction fuel) (auto intro!: restrained_rules)
  have note_it: "state_io_rel (restrained E) (note_stop E i owner stop)" for i owner stop
    unfolding note_stop_def by (intro restrained_rules restrained_stmt) (rule append_event_only)
  show ?thesis unfolding Cancel_def waitForRunner_def best_effort_def Let_def
    by (intro restrained_rules loop wait note_it)
qed

text \<open>The switches as a condition of the relation, so that the interface has an instance for every server.\<close>

definition planner :: "tools \<Rightarrow> env \<Rightarrow> world \<Rightarrow> world \<Rightarrow> bool" where
  "planner T E w w' =
     (\<not> cf_MCPAllowApproval (tl_Config T) \<longrightarrow> \<not> cf_MCPAutoRegisterProjects (tl_Config T) \<longrightarrow> restrained E w w')"

lemma planner_moves:
  "(\<not> cf_MCPAllowApproval (tl_Config T) \<Longrightarrow> \<not> cf_MCPAutoRegisterProjects (tl_Config T) \<Longrightarrow> state_io_rel (restrained E) m) \<Longrightarrow>
    state_io_rel (planner T E) m"
  by (auto simp: state_io_rel_def planner_def)

interpretation planner_tools: tool_effects "planner T E" T E for T E
  by unfold_locales
    (auto simp: planner_def create_input_def intro: restrained.R_refl restrained.R_trans restrained_git restrained_turn
      restrained_CreateTask restrained_Cancel intro!: planner_moves)


section \<open>A server at work\<close>

definition demo_decoder :: decoder where
  "demo_decoder = \<lparr>d_event = (\<lambda>l. None), d_text = (\<lambda>l. None), d_tool = (\<lambda>l. (False, undefined)), d_step = (\<lambda>l. None)\<rparr>"

definition demo_tools :: tools where
  "demo_tools =
     \<lparr>tl_Config = default_config ''/c'', tl_machine = demo_machine, tl_backend = demo_backend, tl_fuel = 4,
      tl_open = (\<lambda>n. None), tl_launch = (\<lambda>n t. Inr ''/log''), tl_ended = (\<lambda>n i. Some (Driver None)),
      tl_select = (\<lambda>n w. RunDone), tl_tail = (\<lambda>n p. ''x''), tl_decoder = demo_decoder, tl_codex = (\<lambda>l. None)\<rparr>"

theorem mcp_calls_are_system_steps_witness:
  "reachable (w_db (snd (run_state
     (serve_calls demo_tools (demo_env 0) NewServer [CallRun ''TASK-000001'' None, CallCancel ''TASK-000001'' ''why'', CallGet ''TASK-000001''])
     (demo_start demo8))))"
  by (rule mcp_calls_are_system_steps [OF alone_steps _ prod.collapse [symmetric], THEN conjunct2, THEN conjunct1])
    (simp add: reach8)

text \<open>A planner that tries to approve the task that waits, and to run it: one refusal, and a task that waits as before.\<close>

definition pushy :: "tool_call list" where
  "pushy = [CallApprove \<lparr>ai_Task = ''TASK-000001'', ai_Approve = True, ai_DecidedBy = ''me'', ai_Reason = []\<rparr>,
            CallRun ''TASK-000001'' (Some 5)]"


section \<open>Following a log\<close>

definition events_after :: "nat \<Rightarrow> GetEventsOutput" where
  "events_after seq =
     projr (snd (projr (fst (run_state
       (getEvents demo_tools (demo_env 0) NewServer \<lparr>ge_Task = ''TASK-000001'', ge_AfterSeq = int seq, ge_Limit = 0\<rparr>) (demo_start demo9)))))"

text \<open>
  A client that follows a task's events by passing back the last sequence number, as the tool says it
  should, is sent back to the beginning once it has seen them all: an empty page reports 0 as its last
  number, and the call after it returns the whole log again.
\<close>

theorem empty_page_restarts_the_log:
  "ex_Count (events_after (db_seq demo9)) = 0 \<and> ex_LastSeq (events_after (db_seq demo9)) = 0
   \<and> ListEvents \<lparr>ef_TaskID = 7, ef_AfterSeq = ex_LastSeq (events_after (db_seq demo9)), ef_Types = [], ef_Limit = 0\<rparr> demo9
      = Inr (db_events demo9) \<and> db_events demo9 \<noteq> []"
proof -
  have out: "events_after (db_seq demo9) = events_output []" by code_simp
  have "ListEvents \<lparr>ef_TaskID = 7, ef_AfterSeq = 0, ef_Types = [], ef_Limit = 0\<rparr> demo9 = Inr (db_events demo9)" by code_simp
  moreover have "db_events demo9 \<noteq> []" by code_simp
  ultimately show ?thesis by (simp add: out events_output_def)
qed

text \<open>A timeout of 584 years wraps around to 0.29 seconds, which is stored as no timeout at all.\<close>

lemma timeout_seconds_wrap:
  "in_Timeout (create_input c (i\<lparr>ci_TimeoutSeconds := 18446744074\<rparr>) steps setupSteps) = 290448384"
  by (simp add: create_input_def wrap64_def second_def)

end
