(* ===== verification/McpConnection.thy ===== *)
theory McpConnection
  imports Prelude
begin

text \<open>
  How the calls of the MCP server share one connection (\<open>Server.connected\<close> and \<open>connect\<close> of
  \<open>internal/mcp/server.go\<close>): calls that arrive together wait for one attempt, a failure is not kept, and an
  attempt belongs to all who wait for it. What the mutex protects is one step here; the opener and each
  waiting call run on their own.
\<close>

section \<open>The state\<close>

text \<open>
  \<open>sh_open\<close> says that the orchestrator and the store are set, \<open>sh_attempt\<close> is the field of that
  name. An attempt is a number; \<open>sh_running\<close> are the goroutines in the opener, \<open>sh_results\<close> what a closed
  attempt holds, \<open>sh_waiting\<close> which attempt a call waits for, \<open>sh_answers\<close> what calls were told.
\<close>

record sharing =
  sh_open :: bool
  sh_attempt :: "nat option"
  sh_next :: nat
  sh_running :: "nat list"
  sh_results :: "(nat \<times> bool) list"
  sh_waiting :: "(nat \<times> nat) list"
  sh_answers :: "(nat \<times> bool) list"

definition unconnected :: sharing where
  "unconnected = \<lparr>sh_open = False, sh_attempt = None, sh_next = 0, sh_running = [], sh_results = [], sh_waiting = [], sh_answers = []\<rparr>"

section \<open>The steps\<close>

text \<open>What a call does under the lock: it is answered, joins the attempt there is, or starts one.\<close>

definition call_arrives :: "nat \<Rightarrow> sharing \<Rightarrow> sharing" where
  "call_arrives k s =
     (if sh_open s then s\<lparr>sh_answers := sh_answers s @ [(k, True)]\<rparr>
      else (case sh_attempt s of
              Some a \<Rightarrow> s\<lparr>sh_waiting := sh_waiting s @ [(k, a)]\<rparr>
            | None \<Rightarrow> s\<lparr>sh_attempt := Some (sh_next s), sh_next := Suc (sh_next s), sh_running := sh_running s @ [sh_next s],
                        sh_waiting := sh_waiting s @ [(k, sh_next s)]\<rparr>))"

text \<open>What \<open>connect\<close> does under the lock once the opener has returned; the attempt is closed right after.\<close>

definition attempt_ends :: "nat \<Rightarrow> bool \<Rightarrow> sharing \<Rightarrow> sharing" where
  "attempt_ends a success s =
     s\<lparr>sh_open := sh_open s \<or> success, sh_attempt := None, sh_running := filter (\<lambda>b. b \<noteq> a) (sh_running s),
       sh_results := sh_results s @ [(a, success)]\<rparr>"

inductive sharing_step :: "sharing \<Rightarrow> sharing \<Rightarrow> bool" where
  arrive: "sharing_step s (call_arrives k s)"
| ends: "a \<in> set (sh_running s) \<Longrightarrow> sharing_step s (attempt_ends a success s)"
| told: "(k, a) \<in> set (sh_waiting s) \<Longrightarrow> (a, r) \<in> set (sh_results s) \<Longrightarrow>
    sharing_step s (s\<lparr>sh_waiting := remove1 (k, a) (sh_waiting s), sh_answers := sh_answers s @ [(k, r)]\<rparr>)"
| gives_up: "(k, a) \<in> set (sh_waiting s) \<Longrightarrow> sharing_step s (s\<lparr>sh_waiting := remove1 (k, a) (sh_waiting s)\<rparr>)"

inductive_cases sharing_stepE: "sharing_step s t"

section \<open>The invariant\<close>

definition sharing_ok :: "sharing \<Rightarrow> bool" where
  "sharing_ok s =
     (sh_running s = (case sh_attempt s of None \<Rightarrow> [] | Some a \<Rightarrow> [a])
      \<and> (sh_open s \<longrightarrow> sh_attempt s = None)
      \<and> distinct (map fst (sh_results s) @ sh_running s)
      \<and> (\<forall>a \<in> set (map fst (sh_results s) @ sh_running s). a < sh_next s)
      \<and> length (filter snd (sh_results s)) = (if sh_open s then 1 else 0)
      \<and> (\<forall>(k, a) \<in> set (sh_waiting s). a \<in> set (map fst (sh_results s) @ sh_running s))
      \<and> (\<forall>(k, r) \<in> set (sh_answers s). r \<longrightarrow> sh_open s))"

lemma unconnected_ok: "sharing_ok unconnected"
  by (simp add: sharing_ok_def unconnected_def)

lemma arrive_ok: "sharing_ok s \<Longrightarrow> sharing_ok (call_arrives k s)"
  by (auto simp: sharing_ok_def call_arrives_def less_Suc_eq split: option.splits)

lemma ends_ok: "sharing_ok s \<Longrightarrow> a \<in> set (sh_running s) \<Longrightarrow> sharing_ok (attempt_ends a success s)"
  by (auto simp: sharing_ok_def attempt_ends_def split: option.splits)

lemma success_open: "sharing_ok s \<Longrightarrow> (a, True) \<in> set (sh_results s) \<Longrightarrow> sh_open s"
  by (auto simp: sharing_ok_def filter_empty_conv split: if_splits)

lemma fewer_waiting: "sharing_ok s \<Longrightarrow> set ws \<subseteq> set (sh_waiting s) \<Longrightarrow> sharing_ok (s\<lparr>sh_waiting := ws\<rparr>)"
  unfolding sharing_ok_def by (cases s) (simp only: sharing.simps, blast)

lemma told_ok:
  assumes "sharing_ok s" "(a, r) \<in> set (sh_results s)"
  shows "sharing_ok (s\<lparr>sh_waiting := remove1 (k, a) (sh_waiting s), sh_answers := sh_answers s @ [(k, r)]\<rparr>)"
proof -
  have "r \<longrightarrow> sh_open s" using success_open [OF assms(1), of a] assms(2) by (cases r) auto
  then have "sharing_ok (s\<lparr>sh_answers := sh_answers s @ [(k, r)]\<rparr>)"
    using assms(1) unfolding sharing_ok_def by (cases s) (simp only: sharing.simps, simp)
  from fewer_waiting [OF this, of "remove1 (k, a) (sh_waiting s)"] show ?thesis by (cases s) (simp add: set_remove1_subset)
qed

lemma gives_up_ok: "sharing_ok s \<Longrightarrow> sharing_ok (s\<lparr>sh_waiting := remove1 (k, a) (sh_waiting s)\<rparr>)"
  by (simp add: fewer_waiting set_remove1_subset)

lemma sharing_step_ok: "sharing_step s t \<Longrightarrow> sharing_ok s \<Longrightarrow> sharing_ok t"
  by (induction rule: sharing_step.induct) (auto intro: arrive_ok ends_ok told_ok gives_up_ok)

lemma sharing_steps_ok: "sharing_step\<^sup>*\<^sup>* s t \<Longrightarrow> sharing_ok s \<Longrightarrow> sharing_ok t"
  by (induction rule: rtranclp_induct) (auto intro: sharing_step_ok)

lemma stays_open: "sharing_step\<^sup>*\<^sup>* s t \<Longrightarrow> sh_open s \<Longrightarrow> sh_open t"
proof (induction rule: rtranclp_induct)
  case (step t u)
  from step(2) step.IH [OF step.prems] show ?case
    by (auto elim!: sharing_stepE simp: call_arrives_def attempt_ends_def split: option.splits)
qed

text \<open>
  C34: However calls arrive, give up and are answered, at most one opener runs at a time, it succeeds at most once,
  and a call is told that the database is open only once it has been opened, after which it stays
  open; a call that waits always has an attempt that is running or has ended, so it cannot be forgotten, and
  while nothing is open the next call waits for a running attempt, its own if there is none.
\<close>

theorem one_connection_is_shared:
  assumes "sharing_step\<^sup>*\<^sup>* unconnected s"
  shows "length (sh_running s) \<le> 1 \<and> length (filter snd (sh_results s)) = (if sh_open s then 1 else 0)
    \<and> (\<forall>(k, r) \<in> set (sh_answers s). r \<longrightarrow> (\<forall>t. sharing_step\<^sup>*\<^sup>* s t \<longrightarrow> sh_open t))
    \<and> (\<forall>(k, a) \<in> set (sh_waiting s). a \<in> set (sh_running s) \<or> (\<exists>r. (a, r) \<in> set (sh_results s)))
    \<and> (\<not> sh_open s \<longrightarrow> (\<exists>a. sh_running (call_arrives k s) = [a] \<and> (k, a) \<in> set (sh_waiting (call_arrives k s))))"
proof -
  have s: "sharing_ok s" by (rule sharing_steps_ok [OF assms unconnected_ok])
  then have "length (sh_running s) \<le> 1" by (auto simp: sharing_ok_def split: option.splits)
  moreover have "\<forall>(k, r) \<in> set (sh_answers s). r \<longrightarrow> (\<forall>t. sharing_step\<^sup>*\<^sup>* s t \<longrightarrow> sh_open t)"
    using s stays_open by (fastforce simp: sharing_ok_def)
  moreover have "\<not> sh_open s \<longrightarrow> (\<exists>a. sh_running (call_arrives k s) = [a] \<and> (k, a) \<in> set (sh_waiting (call_arrives k s)))"
    using s by (auto simp: sharing_ok_def call_arrives_def split: option.splits)
  moreover have "\<forall>(k, a) \<in> set (sh_waiting s). a \<in> set (sh_running s) \<or> (\<exists>r. (a, r) \<in> set (sh_results s))"
    using s by (fastforce simp: sharing_ok_def)
  ultimately show ?thesis using s by (simp add: sharing_ok_def)
qed

text \<open>Two calls share an attempt that fails; a third starts the next one, which succeeds.\<close>

theorem one_connection_is_shared_witness:
  "let s = attempt_ends 1 True (call_arrives 3 (attempt_ends 0 False (call_arrives 2 (call_arrives 1 unconnected))))
   in length (sh_running s) \<le> 1 \<and> length (filter snd (sh_results s)) = 1 \<and> map snd (sh_waiting s) = [0, 0, 1]"
proof -
  let ?a = "call_arrives 2 (call_arrives 1 unconnected)"
  let ?b = "call_arrives 3 (attempt_ends 0 False ?a)"
  have "0 \<in> set (sh_running ?a)" "1 \<in> set (sh_running ?b)" by code_simp+
  then have "sharing_step\<^sup>*\<^sup>* unconnected (attempt_ends 1 True ?b)"
    by (meson sharing_step.arrive sharing_step.ends r_into_rtranclp rtranclp.rtrancl_into_rtrancl)
  from one_connection_is_shared [OF this] have "length (sh_running (attempt_ends 1 True ?b)) \<le> 1
      \<and> length (filter snd (sh_results (attempt_ends 1 True ?b))) = (if sh_open (attempt_ends 1 True ?b) then 1 else 0)" by blast
  moreover have "sh_open (attempt_ends 1 True ?b)" "map snd (sh_waiting (attempt_ends 1 True ?b)) = [0, 0, 1]" by code_simp+
  ultimately show ?thesis by (simp add: Let_def)
qed

end
