(* ===== verification/Flags.thy ===== *)
theory Flags
  imports Config
begin

text \<open>
  The command line: Go's \<open>flag\<close> package as the commands use it, \<open>parseInterspersed\<close> and \<open>oneIdentifier\<close> of
  \<open>internal/cli/task.go\<close>, the dispatch of \<open>internal/cli/cli.go\<close> and the exit status of \<open>cmd/aidev/main.go\<close>.
\<close>

section \<open>Values\<close>

definition ParseBool :: "string \<Rightarrow> bool option" where
  "ParseBool s =
     (if s \<in> set [''1'', ''t'', ''T'', ''TRUE'', ''true'', ''True''] then Some True
      else if s \<in> set [''0'', ''f'', ''F'', ''FALSE'', ''false'', ''False''] then Some False else None)"

text \<open>\<open>strconv.ParseInt(s, 0, 64)\<close>: a sign, a prefix that names the base, underscores between digits.\<close>

definition lower_letter :: "char \<Rightarrow> char" where
  "lower_letter c = (if CHR ''A'' \<le> c \<and> c \<le> CHR ''Z'' then lower_char c else c)"

definition digit_of :: "char \<Rightarrow> int option" where
  "digit_of c =
     (if is_digit c then Some (of_char c - 48)
      else (let l = of_char (lower_letter c) in if 97 \<le> l \<and> l \<le> (122 :: int) then Some (l - 97 + 10) else None))"

datatype number_error = NumberSyntax | NumberRange

fun digits_value :: "int \<Rightarrow> int \<Rightarrow> string \<Rightarrow> number_error + int" where
  "digits_value base n [] = Inr n"
| "digits_value base n (c # s) =
     (if c = CHR ''_'' then digits_value base n s
      else case digit_of c of
             None \<Rightarrow> Inl NumberSyntax
           | Some d \<Rightarrow>
               if base \<le> d then Inl NumberSyntax
               else if 2 ^ 64 \<le> n * base + d then Inl NumberRange
               else digits_value base (n * base + d) s)"

definition base_prefix :: "string \<Rightarrow> int \<times> string" where
  "base_prefix s =
     (if s = [] \<or> hd s \<noteq> CHR ''0'' then (10, s)
      else if 3 \<le> length s \<and> lower_letter (s ! 1) = CHR ''b'' then (2, drop 2 s)
      else if 3 \<le> length s \<and> lower_letter (s ! 1) = CHR ''o'' then (8, drop 2 s)
      else if 3 \<le> length s \<and> lower_letter (s ! 1) = CHR ''x'' then (16, drop 2 s)
      else (8, tl s))"

text \<open>\<open>underscoreOK\<close>: what was seen last is nothing, a digit or prefix, an underscore, or anything else.\<close>

datatype seen_last = SeenNothing | SeenDigit | SeenUnderscore | SeenOther

fun underscores_between :: "bool \<Rightarrow> seen_last \<Rightarrow> string \<Rightarrow> bool" where
  "underscores_between hex i [] = (i \<noteq> SeenUnderscore)"
| "underscores_between hex i (c # s) =
     (if is_digit c \<or> hex \<and> lower_letter c \<in> set ''abcdef'' then underscores_between hex SeenDigit s
      else if c = CHR ''_'' then i = SeenDigit \<and> underscores_between hex SeenUnderscore s
      else i \<noteq> SeenUnderscore \<and> underscores_between hex SeenOther s)"

definition underscoreOK :: "string \<Rightarrow> bool" where
  "underscoreOK s =
     (if 2 \<le> length s \<and> hd s = CHR ''0'' \<and> lower_letter (s ! 1) \<in> set ''box''
      then underscores_between (lower_letter (s ! 1) = CHR ''x'') SeenDigit (drop 2 s)
      else underscores_between False SeenNothing s)"

definition ParseInt :: "string \<Rightarrow> number_error + int" where
  "ParseInt s =
     (let unsigned = (if s \<noteq> [] \<and> (hd s = CHR ''-'' \<or> hd s = CHR ''+'') then tl s else s);
          negative = (s \<noteq> [] \<and> hd s = CHR ''-'');
          (base, digits) = base_prefix unsigned
      in if unsigned = [] then Inl NumberSyntax
         else case digits_value base 0 digits of
           Inl e \<Rightarrow> Inl e
         | Inr n \<Rightarrow>
             if CHR ''_'' \<in> set digits \<and> \<not> underscoreOK unsigned then Inl NumberSyntax
             else if negative then (if n \<le> 2 ^ 63 then Inr (- n) else Inl NumberRange)
             else (if n < 2 ^ 63 then Inr n else Inl NumberRange))"

section \<open>Flags\<close>

datatype flagKind = FlagBool | FlagString | FlagInt | FlagDuration | FlagList

type_synonym flags = "string \<rightharpoonup> flagKind"

text \<open>The floating-point part of a duration is \<open>ParseDuration\<close>'s argument.\<close>

definition set_error :: "(int \<Rightarrow> int \<Rightarrow> nat \<Rightarrow> int) \<Rightarrow> flagKind \<Rightarrow> string \<Rightarrow> string option" where
  "set_error part kind v =
     (case kind of
        FlagBool \<Rightarrow> if ParseBool v = None then Some ''parse error'' else None
      | FlagInt \<Rightarrow> (case ParseInt v of Inl NumberSyntax \<Rightarrow> Some ''parse error'' | Inl NumberRange \<Rightarrow> Some ''value out of range'' | Inr _ \<Rightarrow> None)
      | FlagDuration \<Rightarrow> if ParseDuration part v = None then Some ''parse error'' else None
      | _ \<Rightarrow> None)"

datatype flag_error = FlagHelp | BadFlag string

definition flag_error_text :: "flag_error \<Rightarrow> string" where
  "flag_error_text e = (case e of FlagHelp \<Rightarrow> ''flag: help requested'' | BadFlag m \<Rightarrow> m)"

text \<open>\<open>parseOne\<close>: there is no flag here, or one is set, or it is refused; with what is left of the arguments.\<close>

datatype parsed_one = NoFlag "string list" | FlagSet string string "string list" | FlagRefused flag_error

definition set_flag :: "(int \<Rightarrow> int \<Rightarrow> nat \<Rightarrow> int) \<Rightarrow> flagKind \<Rightarrow> string \<Rightarrow> string \<Rightarrow> string list \<Rightarrow> parsed_one" where
  "set_flag part kind name v rest =
     (case set_error part kind v of
        None \<Rightarrow> FlagSet name v rest
      | Some e \<Rightarrow> FlagRefused (BadFlag ((if kind = FlagBool then ''invalid boolean value '' @ go_quote v @ '' for -''
                                        else ''invalid value '' @ go_quote v @ '' for flag -'') @ name @ '': '' @ e)))"

definition parse_named :: "(int \<Rightarrow> int \<Rightarrow> nat \<Rightarrow> int) \<Rightarrow> flags \<Rightarrow> string \<Rightarrow> string list \<Rightarrow> parsed_one" where
  "parse_named part fs text rest =
     (case cut_at (CHR ''='') text of (name, v, has_value) \<Rightarrow>
        (case fs name of
           None \<Rightarrow> FlagRefused (if name = ''help'' \<or> name = ''h'' then FlagHelp
                               else BadFlag (''flag provided but not defined: -'' @ name))
         | Some kind \<Rightarrow>
             if kind = FlagBool then set_flag part kind name (if has_value then v else ''true'') rest
             else if has_value then set_flag part kind name v rest
             else (case rest of
                     [] \<Rightarrow> FlagRefused (BadFlag (''flag needs an argument: -'' @ name))
                   | v' # rest' \<Rightarrow> set_flag part kind name v' rest')))"

definition parseOne :: "(int \<Rightarrow> int \<Rightarrow> nat \<Rightarrow> int) \<Rightarrow> flags \<Rightarrow> string list \<Rightarrow> parsed_one" where
  "parseOne part fs args =
     (case args of
        [] \<Rightarrow> NoFlag []
      | s # rest \<Rightarrow>
          if length s < 2 \<or> hd s \<noteq> CHR ''-'' then NoFlag args
          else if s = ''--'' then NoFlag rest
          else (let text = (if s ! 1 = CHR ''-'' then drop 2 s else drop 1 s)
                in if text = [] \<or> hd text = CHR ''-'' \<or> hd text = CHR ''='' then FlagRefused (BadFlag (''bad flag syntax: '' @ s))
                   else parse_named part fs text rest))"

lemma set_flag_rest: "set_flag part kind name v rest = FlagSet n w rest' \<Longrightarrow> rest' = rest"
  by (auto simp: set_flag_def split: option.splits)

lemma parse_one_shrinks:
  "parseOne part fs args = FlagSet n v rest \<Longrightarrow> length rest < length args"
  by (cases args)
     (auto simp: parseOne_def parse_named_def Let_def split: if_splits prod.splits option.splits list.splits dest: set_flag_rest)

lemma parse_one_stops: "parseOne part fs args = NoFlag rest \<Longrightarrow> length rest \<le> length args"
  by (cases args)
     (auto simp: parseOne_def parse_named_def set_flag_def Let_def split: if_splits prod.splits option.splits list.splits)

text \<open>\<open>FlagSet.Parse\<close>: the flags set, in order, and the arguments from the first that is no flag.\<close>

function Parse :: "(int \<Rightarrow> int \<Rightarrow> nat \<Rightarrow> int) \<Rightarrow> flags \<Rightarrow> string list \<Rightarrow> flag_error + (string \<times> string) list \<times> string list" where
  "Parse part fs args =
     (case parseOne part fs args of
        NoFlag rest \<Rightarrow> Inr ([], rest)
      | FlagRefused e \<Rightarrow> Inl e
      | FlagSet n v rest \<Rightarrow> (case Parse part fs rest of Inl e \<Rightarrow> Inl e | Inr (sets, further) \<Rightarrow> Inr ((n, v) # sets, further)))"
  by pat_completeness auto
termination
  by (relation "measure (\<lambda>(part, fs, args). length args)") (auto dest: parse_one_shrinks)

declare Parse.simps [simp del]

lemma Parse_rest: "Parse part fs args = Inr (sets, rest) \<Longrightarrow> length rest \<le> length args"
proof (induction part fs args arbitrary: sets rest rule: Parse.induct)
  case (1 part fs args)
  show ?case
  proof (cases "parseOne part fs args")
    case (FlagSet n v further)
    then obtain sets' where "Parse part fs further = Inr (sets', rest)"
      using "1.prems" by (auto simp: Parse.simps [of part fs args] split: sum.splits)
    then show ?thesis using "1.IH" [OF FlagSet] parse_one_shrinks [OF FlagSet] by fastforce
  qed (use "1.prems" in \<open>auto simp: Parse.simps [of part fs args] dest: parse_one_stops\<close>)
qed

function parseInterspersed :: "(int \<Rightarrow> int \<Rightarrow> nat \<Rightarrow> int) \<Rightarrow> flags \<Rightarrow> string list \<Rightarrow> flag_error + (string \<times> string) list \<times> string list" where
  "parseInterspersed part fs args =
     (case Parse part fs args of
        Inl e \<Rightarrow> Inl e
      | Inr (sets, rest) \<Rightarrow>
          (case rest of
             [] \<Rightarrow> Inr (sets, [])
           | p # further \<Rightarrow> (case parseInterspersed part fs further of
                            Inl e \<Rightarrow> Inl e
                          | Inr (sets', ps) \<Rightarrow> Inr (sets @ sets', p # ps))))"
  by pat_completeness auto
termination
  by (relation "measure (\<lambda>(part, fs, args). length args)") (auto dest!: Parse_rest)

declare parseInterspersed.simps [simp del]

text \<open>What the flags hold afterwards: the last value set, or the default.\<close>

definition flag_value :: "(string \<times> string) list \<Rightarrow> string \<Rightarrow> string option" where
  "flag_value sets n = map_of (rev sets) n"

definition flag_string :: "(string \<times> string) list \<Rightarrow> string \<Rightarrow> string \<Rightarrow> string" where
  "flag_string sets n d = (case flag_value sets n of None \<Rightarrow> d | Some v \<Rightarrow> v)"

definition flag_bool :: "(string \<times> string) list \<Rightarrow> string \<Rightarrow> bool" where
  "flag_bool sets n = (case flag_value sets n of None \<Rightarrow> False | Some v \<Rightarrow> ParseBool v = Some True)"

definition flag_int :: "(string \<times> string) list \<Rightarrow> string \<Rightarrow> int" where
  "flag_int sets n = (case flag_value sets n of None \<Rightarrow> 0 | Some v \<Rightarrow> (case ParseInt v of Inl _ \<Rightarrow> 0 | Inr i \<Rightarrow> i))"

definition flag_duration :: "(int \<Rightarrow> int \<Rightarrow> nat \<Rightarrow> int) \<Rightarrow> (string \<times> string) list \<Rightarrow> string \<Rightarrow> duration \<Rightarrow> duration" where
  "flag_duration part sets n d =
     (case flag_value sets n of None \<Rightarrow> d | Some v \<Rightarrow> (case ParseDuration part v of None \<Rightarrow> d | Some x \<Rightarrow> x))"

definition flag_list :: "(string \<times> string) list \<Rightarrow> string \<Rightarrow> string list" where
  "flag_list sets n = map snd (filter (\<lambda>p. fst p = n) sets)"

definition flag_given :: "(string \<times> string) list \<Rightarrow> string \<Rightarrow> bool" where
  "flag_given sets n \<longleftrightarrow> n \<in> set (map fst sets)"

definition oneIdentifier :: "string \<Rightarrow> string list \<Rightarrow> string + string" where
  "oneIdentifier command args =
     (case args of
        [x] \<Rightarrow> Inr x
      | [] \<Rightarrow> Inl (''aidev task '' @ command @ '': a task reference or id is required (for example TASK-000001)'')
      | _ \<Rightarrow> Inl (''aidev task '' @ command @ '': expected one task, got '' @ nat_dec (length args) @ '': '' @ join_with '' '' args))"

section \<open>Flags and arguments in any order\<close>

text \<open>What a person may type: an argument, a flag without a value, a flag with its value in one or in two words.\<close>

datatype token = Argument string | Switch string | Joined string string | Spaced string string

fun typed :: "token \<Rightarrow> string list" where
  "typed (Argument w) = [w]"
| "typed (Switch n) = [''--'' @ n]"
| "typed (Joined n v) = [''--'' @ n @ CHR ''='' # v]"
| "typed (Spaced n v) = [''--'' @ n, v]"

fun token_sets :: "token \<Rightarrow> (string \<times> string) list" where
  "token_sets (Argument w) = []"
| "token_sets (Switch n) = [(n, ''true'')]"
| "token_sets (Joined n v) = [(n, v)]"
| "token_sets (Spaced n v) = [(n, v)]"

fun token_arguments :: "token \<Rightarrow> string list" where
  "token_arguments (Argument w) = [w]"
| "token_arguments _ = []"

definition flag_name :: "string \<Rightarrow> bool" where
  "flag_name n \<longleftrightarrow> n \<noteq> [] \<and> hd n \<noteq> CHR ''-'' \<and> CHR ''='' \<notin> set n"

fun token_ok :: "(int \<Rightarrow> int \<Rightarrow> nat \<Rightarrow> int) \<Rightarrow> flags \<Rightarrow> token \<Rightarrow> bool" where
  "token_ok part fs (Argument w) = (length w < 2 \<or> hd w \<noteq> CHR ''-'')"
| "token_ok part fs (Switch n) = (flag_name n \<and> fs n = Some FlagBool)"
| "token_ok part fs (Joined n v) = (flag_name n \<and> (\<exists>k. fs n = Some k \<and> set_error part k v = None))"
| "token_ok part fs (Spaced n v) = (flag_name n \<and> (\<exists>k. fs n = Some k \<and> k \<noteq> FlagBool \<and> set_error part k v = None))"

end
