(* ===== verification/FlagGuarantees.thy ===== *)
theory FlagGuarantees
  imports Flags
begin

text \<open>Flags may stand anywhere, and where that fails.\<close>

lemma take_not: "c \<notin> set s \<Longrightarrow> takeWhile (\<lambda>x. x \<noteq> c) (s @ c # v) = s"
  by (induction s) auto

lemma cut_named: "CHR ''='' \<notin> set n \<Longrightarrow> cut_at (CHR ''='') n = (n, [], False)"
  by (simp add: cut_at_def Let_def)

lemma cut_joined: "CHR ''='' \<notin> set n \<Longrightarrow> cut_at (CHR ''='') (n @ CHR ''='' # v) = (n, v, True)"
  by (simp add: cut_at_def Let_def take_not)

lemma parse_long:
  "flag_name n \<Longrightarrow> s = [] \<or> hd s = CHR ''='' \<Longrightarrow>
     parseOne part fs ((''--'' @ n @ s) # rest) = parse_named part fs (n @ s) rest"
  by (cases n) (auto simp: parseOne_def flag_name_def)

lemma true_is_set: "set_error part FlagBool ''true'' = None"
  by (simp add: set_error_def ParseBool_def)

lemma parse_argument: "length w < 2 \<or> hd w \<noteq> CHR ''-'' \<Longrightarrow> parseOne part fs (w # rest) = NoFlag (w # rest)"
  by (auto simp: parseOne_def)

lemma parse_token:
  assumes "token_ok part fs t" "token_arguments t = []"
  shows "\<exists>n v. token_sets t = [(n, v)] \<and> parseOne part fs (typed t @ rest) = FlagSet n v rest"
proof (cases t)
  case (Switch n)
  then show ?thesis using assms parse_long [of n "[]" part fs rest]
    by (simp add: parse_named_def cut_named flag_name_def set_flag_def true_is_set)
next
  case (Joined n v)
  then show ?thesis using assms parse_long [of n "CHR ''='' # v" part fs rest]
    by (auto simp: parse_named_def cut_joined flag_name_def set_flag_def)
next
  case (Spaced n v)
  then show ?thesis using assms parse_long [of n "[]" part fs "v # rest"]
    by (auto simp: parse_named_def cut_named flag_name_def set_flag_def)
qed (use assms in simp)

lemma parse_tokens:
  "list_all (token_ok part fs) ts \<Longrightarrow>
     parseInterspersed part fs (concat (map typed ts)) = Inr (concat (map token_sets ts), concat (map token_arguments ts))"
proof (induction ts)
  case Nil
  show ?case by (simp add: parseInterspersed.simps [of part fs "[]"] Parse.simps [of part fs "[]"] parseOne_def)
next
  case (Cons t ts)
  let ?rest = "concat (map typed ts)"
  have rest: "parseInterspersed part fs ?rest = Inr (concat (map token_sets ts), concat (map token_arguments ts))"
    using Cons by simp
  show ?case
  proof (cases "\<exists>w. t = Argument w")
    case True
    then obtain w where t: "t = Argument w" by blast
    have "Parse part fs (w # ?rest) = Inr ([], w # ?rest)"
      using Cons.prems by (simp add: t Parse.simps [of part fs "w # ?rest"] parse_argument)
    then show ?thesis by (simp add: t parseInterspersed.simps [of part fs "w # ?rest"] rest)
  next
    case False
    then have none: "token_arguments t = []" by (cases t) auto
    obtain n v where nv: "token_sets t = [(n, v)]" "parseOne part fs (typed t @ ?rest) = FlagSet n v ?rest"
      using parse_token [OF _ none] Cons.prems by fastforce
    obtain sets further where p: "Parse part fs ?rest = Inr (sets, further)"
      using rest by (auto simp: parseInterspersed.simps [of part fs ?rest] split: sum.splits)
    then have "Parse part fs (typed t @ ?rest) = Inr ((n, v) # sets, further)"
      by (simp add: Parse.simps [of part fs "typed t @ ?rest"] nv(2))
    then show ?thesis using rest
      by (auto simp: none nv(1) p parseInterspersed.simps [of part fs "typed t @ ?rest"] parseInterspersed.simps [of part fs ?rest]
               split: list.splits sum.splits)
  qed
qed

text \<open>
  C40: Flags may stand before, between and after the arguments: however the flags of a command and its arguments are
  mixed, the parser sets exactly the flags typed, in their order, and hands on exactly the arguments, in theirs.
\<close>

theorem flags_may_stand_anywhere:
  assumes "list_all (token_ok part fs) ts"
  shows "parseInterspersed part fs (concat (map typed ts)) = Inr (concat (map token_sets ts), concat (map token_arguments ts))"
  by (rule parse_tokens [OF assms])

definition demo_flags :: flags where
  "demo_flags = [''json'' \<mapsto> FlagBool, ''reason'' \<mapsto> FlagString, ''limit'' \<mapsto> FlagInt]"

theorem flags_may_stand_anywhere_witness:
  "parseInterspersed (\<lambda>f u k. 0) demo_flags [''--limit'', ''0x1_0'', ''TASK-000001'', ''--json'', ''--reason=no use'']
     = Inr ([(''limit'', ''0x1_0''), (''json'', ''true''), (''reason'', ''no use'')], [''TASK-000001''])
   \<and> flag_int [(''limit'', ''0x1_0'')] ''limit'' = 16"
proof
  have "list_all (token_ok (\<lambda>f u k. 0) demo_flags)
      [Spaced ''limit'' ''0x1_0'', Argument ''TASK-000001'', Switch ''json'', Joined ''reason'' ''no use'']"
    by (simp add: demo_flags_def flag_name_def, code_simp)
  from flags_may_stand_anywhere [OF this]
  show "parseInterspersed (\<lambda>f u k. 0) demo_flags [''--limit'', ''0x1_0'', ''TASK-000001'', ''--json'', ''--reason=no use'']
     = Inr ([(''limit'', ''0x1_0''), (''json'', ''true''), (''reason'', ''no use'')], [''TASK-000001''])" by simp
  show "flag_int [(''limit'', ''0x1_0'')] ''limit'' = 16" by code_simp
qed

text \<open>
  Two dashes end the flags for the first argument only: what follows it is read as flags again. And asking for help
  is reported as a usage error.
\<close>

lemma dashes_protect_one_argument:
  "parseInterspersed (\<lambda>f u k. 0) demo_flags [''--'', ''-first'', ''-second'']
     = Inl (BadFlag ''flag provided but not defined: -second'')
   \<and> parseInterspersed (\<lambda>f u k. 0) demo_flags [''--'', ''-first'', ''--json''] = Inr ([(''json'', ''true'')], [''-first''])"
  by (intro conjI; code_simp)

lemma help_is_an_error: "parseInterspersed (\<lambda>f u k. 0) demo_flags [''-h''] = Inl FlagHelp"
  by code_simp

end
