(* ===== verification/Setup.thy ===== *)
theory Setup
  imports Config Redact LogPages
begin

text \<open>
  \<open>aidev setup\<close>: the PostgreSQL container (\<open>internal/setup/postgres.go\<close>), conf.json
  (\<open>internal/setup/config.go\<close>), the order of the steps (\<open>internal/setup/run.go\<close>) and the line a person is told to
  put into a shell profile (\<open>internal/cli/setup.go\<close>). Docker, the clock, the file system and the migration answer
  through arguments.
\<close>

section \<open>Docker\<close>

text \<open>
  A program that runs docker: the commands issued so far are the state, and the answer to a command
  may depend on their number. An error is its text.
\<close>

type_synonym docker = "nat \<Rightarrow> string list \<Rightarrow> string + string"

type_synonym 'a steps = "string list list \<Rightarrow> (string + 'a) \<times> string list list"

definition return :: "'a \<Rightarrow> 'a steps" where
  "return x issued = (Inr x, issued)"

definition give_up :: "string \<Rightarrow> 'a steps" where
  "give_up e issued = (Inl e, issued)"

definition docker_run :: "docker \<Rightarrow> string list \<Rightarrow> (string + string) steps" where
  "docker_run D args issued = (Inr (D (length issued) args), issued @ [args])"

definition after :: "'a steps \<Rightarrow> ('a \<Rightarrow> 'b steps) \<Rightarrow> 'b steps" where
  "after m f issued = (case m issued of (Inl e, issued') \<Rightarrow> (Inl e, issued') | (Inr x, issued') \<Rightarrow> f x issued')"

definition docker_error :: "string \<Rightarrow> 'a steps" where
  "docker_error e = give_up (''docker: '' @ e)"

text \<open>A command whose failure ends the program.\<close>

definition must :: "docker \<Rightarrow> string list \<Rightarrow> string steps" where
  "must D args = after (docker_run D args) (\<lambda>r. case r of Inl e \<Rightarrow> docker_error e | Inr out \<Rightarrow> return out)"

record PostgresOptions =
  po_Image :: string
  po_Container :: string
  po_Volume :: string
  po_Port :: int
  po_User :: string
  po_Password :: string
  po_Database :: string

datatype PostgresAction = PostgresCreated | PostgresStarted | PostgresAlreadyRunning

definition DefaultPostgresOptions :: PostgresOptions where
  "DefaultPostgresOptions =
     \<lparr>po_Image = ''postgres:16-alpine'', po_Container = ''aidev-postgres'', po_Volume = ''aidev-pgdata'', po_Port = 5434,
      po_User = ''aidev'', po_Password = ''aidev'', po_Database = ''aidev''\<rparr>"

text \<open>
  \<open>url.URL.String\<close> for the user, password and path the options may hold: their escaping by \<open>net/url\<close>
  is the argument.
\<close>

definition DatabaseURL :: "(string \<Rightarrow> string) \<Rightarrow> (string \<Rightarrow> string) \<Rightarrow> PostgresOptions \<Rightarrow> string" where
  "DatabaseURL escape_user escape_path p =
     ''postgres://'' @ escape_user (po_User p) @ '':'' @ escape_user (po_Password p) @ ''@127.0.0.1:'' @ int_dec (po_Port p)
       @ ''/'' @ escape_path (po_Database p) @ ''?sslmode=disable''"

definition inspect_args :: "string \<Rightarrow> string \<Rightarrow> string list" where
  "inspect_args what container = [''inspect'', ''-f'', ''{{'' @ what @ ''}}'', container]"

definition run_args :: "PostgresOptions \<Rightarrow> string list" where
  "run_args p =
     [''run'', ''-d'', ''--name'', po_Container p, ''--restart'', ''unless-stopped'',
      ''-e'', ''POSTGRES_USER='' @ po_User p, ''-e'', ''POSTGRES_PASSWORD='' @ po_Password p, ''-e'', ''POSTGRES_DB='' @ po_Database p,
      ''-e'', ''POSTGRES_INITDB_ARGS=--encoding=UTF8 --locale=C'',
      ''-p'', ''127.0.0.1:'' @ int_dec (po_Port p) @ '':5432'', ''-v'', po_Volume p @ '':/var/lib/postgresql/data'',
      ''--health-cmd'', ''pg_isready -U '' @ po_User p @ '' -d '' @ po_Database p,
      ''--health-interval'', ''2s'', ''--health-timeout'', ''3s'', ''--health-retries'', ''30'', ''--health-start-period'', ''5s'',
      po_Image p]"

definition volume_args :: "string \<Rightarrow> string list" where
  "volume_args volume = [''volume'', ''inspect'', volume]"

definition compose_args :: "string list" where
  "compose_args = [''volume'', ''ls'', ''-q'', ''--filter'', ''label=com.docker.compose.volume=aidev-pgdata'']"

definition compose_volumes :: "string \<Rightarrow> string list" where
  "compose_volumes out = filter (\<lambda>n. n \<noteq> []) (map trim_space (split_on (CHR 10) out))"

definition logs_hint :: "PostgresOptions \<Rightarrow> string" where
  "logs_hint p = '': run `docker logs '' @ po_Container p @ ''` to investigate''"

text \<open>What the wait is bounded by: the clock by rounds, the context by rounds, \<open>timeout\<close> and \<open>poll\<close>.\<close>

record waiting =
  wt_now :: "nat \<Rightarrow> time"
  wt_done :: "nat \<Rightarrow> string option"
  wt_poll :: duration
  wt_timeout :: duration
  wt_text :: "duration \<Rightarrow> string"

text \<open>
  \<open>waitHealthy\<close>: the deadline is set at the time \<open>wt_now 0\<close>, round \<open>k\<close> looks at the clock at \<open>wt_now (Suc k)\<close>. The
  fuel counts rounds; \<open>None\<close> says that it ran out.
\<close>

primrec wait_healthy ::
    "docker \<Rightarrow> waiting \<Rightarrow> PostgresOptions \<Rightarrow> PostgresAction \<Rightarrow> nat \<Rightarrow> nat \<Rightarrow> PostgresAction option steps" where
  "wait_healthy D W p action 0 k = return None"
| "wait_healthy D W p action (Suc fuel) k =
     after (must D (inspect_args ''.State.Health.Status'' (po_Container p))) (\<lambda>out.
       if trim_space out = ''healthy'' then return (Some action)
       else if trim_space out = ''unhealthy'' then give_up (''PostgreSQL in container '' @ po_Container p @ '' is unhealthy'' @ logs_hint p)
       else if wt_now W (Suc k) > wt_now W 0 + wt_timeout W
       then give_up (''postgres container '' @ po_Container p @ '' did not become healthy within '' @ wt_text W (wt_timeout W) @ logs_hint p)
       else (case wt_done W k of
               Some e \<Rightarrow> give_up (''waiting for postgres container '' @ po_Container p @ '': '' @ e @ logs_hint p)
             | None \<Rightarrow> wait_healthy D W p action fuel (Suc k)))"

definition contains_lower :: "string \<Rightarrow> string \<Rightarrow> bool" where
  "contains_lower e part = contains_str (to_lower e) part"

definition compose_refusal :: "PostgresOptions \<Rightarrow> string list \<Rightarrow> string" where
  "compose_refusal p names =
     ''docker compose volumes exist that may hold earlier aidev data: '' @ join_with '', '' names
       @ ''; run `aidev setup --postgres-volume <name>` to use one of them, or run `docker volume create '' @ po_Volume p
       @ ''` and then `aidev setup` again to start with an empty database''"

text \<open>A missing container: created on its volume, or on a new one when no volume of compose could hold data.\<close>

definition create_container :: "docker \<Rightarrow> waiting \<Rightarrow> nat \<Rightarrow> PostgresOptions \<Rightarrow> PostgresAction option steps" where
  "create_container D W fuel p =
     (let create = after (must D (run_args p)) (\<lambda>_. wait_healthy D W p PostgresCreated fuel 0)
      in after (docker_run D (volume_args (po_Volume p))) (\<lambda>r. case r of
           Inr _ \<Rightarrow> create
         | Inl e \<Rightarrow>
             if \<not> contains_lower e ''no such volume'' then docker_error e
             else after (must D compose_args) (\<lambda>out.
               let names = compose_volumes out
               in if names \<noteq> []
                  then give_up (compose_refusal p names)
                  else create)))"

definition EnsurePostgres :: "docker \<Rightarrow> waiting \<Rightarrow> nat \<Rightarrow> PostgresOptions \<Rightarrow> PostgresAction option steps" where
  "EnsurePostgres D W fuel p =
     after (docker_run D (inspect_args ''.State.Status'' (po_Container p))) (\<lambda>r. case r of
       Inl e \<Rightarrow> if \<not> contains_lower e ''no such object'' then docker_error e else create_container D W fuel p
     | Inr out \<Rightarrow>
         (let status = trim_space out
          in if status = ''running'' then wait_healthy D W p PostgresAlreadyRunning fuel 0
             else if status = ''exited'' \<or> status = ''created''
             then after (must D [''start'', po_Container p]) (\<lambda>_. wait_healthy D W p PostgresStarted fuel 0)
             else give_up (''postgres container '' @ po_Container p @ '' has unexpected status '' @ go_quote status
                    @ '': inspect it with `docker ps -a`'')))"

section \<open>Writing conf.json\<close>

text \<open>
  The file system. \<open>fs_at\<close> is the content of the file at the path when \<open>Run\<close> looks for it (0), when \<open>WriteConfig\<close> looks for
  it (1) and when the file is linked (2): another process may have put it there in between. \<open>fs_unseen\<close> says that a call of
  \<open>Stat\<close> fails for another reason than a missing file. The errors of the calls that prepare the temporary file come next;
  \<open>fs_encode\<close> is \<open>json.MarshalIndent\<close> of the document.
\<close>

record filesystem =
  fs_at :: "nat \<Rightarrow> string option"
  fs_unseen :: "nat \<Rightarrow> bool"
  fs_prepare :: "string option"
  fs_link :: "string option"
  fs_remove :: "string option"
  fs_encode :: "(string \<times> doc) list \<Rightarrow> string"
  fs_temporary :: string

definition fs_stat :: "filesystem \<Rightarrow> nat \<Rightarrow> bool" where
  "fs_stat F k \<longleftrightarrow> fs_at F k \<noteq> None \<and> \<not> fs_unseen F k"

record ConfigOptions =
  co_Path :: string
  co_DatabaseURL :: string
  co_WorkspaceRoot :: string

definition configDocument :: "ConfigOptions \<Rightarrow> (string \<times> doc) list" where
  "configDocument opts =
     (''database'', DObj [(''url'', DStr (co_DatabaseURL opts))])
       # (if co_WorkspaceRoot opts = [] then [] else [(''workspace_root'', DStr (co_WorkspaceRoot opts))])"

definition config_data :: "filesystem \<Rightarrow> ConfigOptions \<Rightarrow> string" where
  "config_data F opts = fs_encode F (configDocument opts) @ [CHR 10]"

definition options_problem :: "ConfigOptions \<Rightarrow> string option" where
  "options_problem opts =
     (if co_Path opts = [] then Some ''setup: Path must not be empty''
      else if \<not> is_abs (co_Path opts) then Some (''setup: Path must be absolute: '' @ go_quote (co_Path opts))
      else if co_DatabaseURL opts = [] then Some ''setup: DatabaseURL must not be empty''
      else if co_WorkspaceRoot opts \<noteq> [] \<and> \<not> is_abs (co_WorkspaceRoot opts)
      then Some (''setup: WorkspaceRoot must be empty or absolute: '' @ go_quote (co_WorkspaceRoot opts))
      else None)"

definition reading :: "loader \<Rightarrow> string \<Rightarrow> string \<Rightarrow> loader" where
  "reading L path content = L\<lparr>l_read := (\<lambda>p. if p = path then Inr content else l_read L p)\<rparr>"

definition config_text :: "config_error \<Rightarrow> string" where
  "config_text e = (case e of ConfigError m \<Rightarrow> m | InvalidConfig ps \<Rightarrow> join_with [CHR 10] ps)"

text \<open>Whether the file was created, and what setup has put at the path.\<close>

definition WriteConfig :: "loader \<Rightarrow> filesystem \<Rightarrow> ConfigOptions \<Rightarrow> (string + bool) \<times> string option" where
  "WriteConfig L F opts =
     (case options_problem opts of
        Some e \<Rightarrow> (Inl e, None)
      | None \<Rightarrow>
          if fs_stat F 1 then (Inr False, None)
          else (case fs_prepare F of
             Some e \<Rightarrow> (Inl e, None)
           | None \<Rightarrow>
               (case LoadFile (reading L (fs_temporary F) (config_data F opts)) (fs_temporary F) of
                  Inl e \<Rightarrow> (Inl (config_text e), None)
                | Inr _ \<Rightarrow>
                    if fs_at F 2 \<noteq> None then (Inr False, None)
                    else (case fs_link F of
                            Some e \<Rightarrow> (Inl (''setup: create config file at Path '' @ co_Path opts @ '': '' @ e), None)
                          | None \<Rightarrow>
                              ((case fs_remove F of
                                  Some e \<Rightarrow> Inl (''setup: remove temporary file for Path '' @ co_Path opts @ '': '' @ e)
                                | None \<Rightarrow> Inr True),
                               Some (config_data F opts))))))"

section \<open>The steps in order\<close>

record setupOptions =
  so_ConfigPath :: string
  so_WorkspaceRoot :: string
  so_DatabaseURL :: string
  so_Postgres :: PostgresOptions

record setupReport =
  sr_ConfigPath :: string
  sr_ConfigCreated :: bool
  sr_DatabaseURL :: string
  sr_Postgres :: "PostgresAction option"
  sr_Applied :: "string list"

record setupSteps =
  ss_EnsurePostgres :: "PostgresOptions \<Rightarrow> string + PostgresAction"
  ss_Migrate :: "string \<Rightarrow> string + string list"

definition chosen_url :: "loader \<Rightarrow> filesystem \<Rightarrow> (PostgresOptions \<Rightarrow> string) \<Rightarrow> setupOptions \<Rightarrow> string + string" where
  "chosen_url L F url_of opts =
     (if fs_stat F 0
      then (case LoadFile (reading L (so_ConfigPath opts) (the (fs_at F 0))) (so_ConfigPath opts) of
              Inl e \<Rightarrow> Inl (so_ConfigPath opts @ '': '' @ config_text e)
            | Inr c \<Rightarrow>
                if so_DatabaseURL opts \<noteq> [] \<and> so_DatabaseURL opts \<noteq> cf_DatabaseURL c
                then Inl (''config file '' @ so_ConfigPath opts @ '' already names a different database: edit it, or choose another config path'')
                else Inr (cf_DatabaseURL c))
      else Inr (if so_DatabaseURL opts \<noteq> [] then so_DatabaseURL opts else url_of (so_Postgres opts)))"

definition setup_Run ::
    "loader \<Rightarrow> filesystem \<Rightarrow> (PostgresOptions \<Rightarrow> string) \<Rightarrow> setupSteps \<Rightarrow> setupOptions \<Rightarrow> (string + setupReport) \<times> string option" where
  "setup_Run L F url_of S opts =
     (if so_ConfigPath opts = [] \<or> \<not> is_abs (so_ConfigPath opts)
      then (Inl (''setup: ConfigPath must be absolute: '' @ go_quote (so_ConfigPath opts)), None)
      else case chosen_url L F url_of opts of
        Inl e \<Rightarrow> (Inl e, None)
      | Inr url \<Rightarrow>
          (case (if url = url_of (so_Postgres opts)
                 then (case ss_EnsurePostgres S (so_Postgres opts) of Inl e \<Rightarrow> Inl e | Inr a \<Rightarrow> Inr (Some a)) else Inr None) of
             Inl e \<Rightarrow> (Inl (''starting PostgreSQL: '' @ e), None)
           | Inr action \<Rightarrow>
               (case (if fs_stat F 0 then (Inr False, None)
                      else WriteConfig L F \<lparr>co_Path = so_ConfigPath opts, co_DatabaseURL = url, co_WorkspaceRoot = so_WorkspaceRoot opts\<rparr>) of
                  (Inl e, file) \<Rightarrow> (Inl e, file)
                | (Inr created, file) \<Rightarrow>
                    (case ss_Migrate S url of
                       Inl e \<Rightarrow> (Inl (''migrating the database: '' @ e), file)
                     | Inr applied \<Rightarrow>
                         (Inr \<lparr>sr_ConfigPath = so_ConfigPath opts, sr_ConfigCreated = created, sr_DatabaseURL = url,
                               sr_Postgres = action, sr_Applied = applied\<rparr>, file)))))"

section \<open>The line for the shell\<close>

definition shell_safe :: "char \<Rightarrow> bool" where
  "shell_safe c \<longleftrightarrow> byte_in 0x41 0x5A c \<or> byte_in 0x61 0x7A c \<or> is_digit c \<or> c \<in> {CHR ''_'', CHR ''.'', CHR ''/'', CHR ''-''}"

definition escaped_quote :: "char \<Rightarrow> string" where
  "escaped_quote c = (if c = apostrophe then [apostrophe, backslash, apostrophe, apostrophe] else [c])"

definition quoteShellPath :: "string \<Rightarrow> string" where
  "quoteShellPath path =
     (if path \<noteq> [] \<and> list_all shell_safe path then path
      else apostrophe # concat (map escaped_quote path) @ [apostrophe])"

end
