(* ===== verification/SetupGuarantees.thy ===== *)
theory SetupGuarantees
  imports Setup
begin

text \<open>
  What setup promises: it creates no container that would hide data, it waits no longer than it is allowed to,
  what it reports is what the configuration says unless someone else wrote it meanwhile, and the line for the shell
  names the file.
\<close>

section \<open>The wait\<close>

definition health_args :: "PostgresOptions \<Rightarrow> string list" where
  "health_args p = inspect_args ''.State.Health.Status'' (po_Container p)"

lemmas docker_defs = must_def after_def docker_run_def return_def give_up_def docker_error_def

lemma wait_log:
  "wait_healthy D W p a fuel k issued = (r, issued') \<Longrightarrow>
     \<exists>m. m \<le> fuel \<and> issued' = issued @ replicate m (health_args p)
       \<and> (\<forall>b. r = Inr (Some b) \<longrightarrow> b = a \<and> 0 < m \<and> (\<exists>out. D (length issued' - 1) (health_args p) = Inr out \<and> trim_space out = ''healthy''))"
proof (induction fuel arbitrary: k issued)
  case 0
  then show ?case by (auto simp: docker_defs)
next
  case (Suc fuel)
  have stop: "\<exists>m. m \<le> Suc fuel \<and> issued' = issued @ replicate m (health_args p)
      \<and> (\<forall>b. r = Inr (Some b) \<longrightarrow> b = a \<and> 0 < m \<and> (\<exists>out. D (length issued' - 1) (health_args p) = Inr out \<and> trim_space out = ''healthy''))"
    if "issued' = issued @ [health_args p]" "\<And>b. r = Inr (Some b) \<Longrightarrow> b = a \<and> (\<exists>out. D (length issued) (health_args p) = Inr out \<and> trim_space out = ''healthy'')"
    using that by (intro exI [of _ 1]) auto
  show ?case
  proof (cases "D (length issued) (health_args p)")
    case (Inl e)
    then show ?thesis using Suc.prems by (intro stop) (auto simp: docker_defs health_args_def)
  next
    case (Inr out)
    show ?thesis
    proof (cases "trim_space out = ''healthy'' \<or> trim_space out = ''unhealthy'' \<or> wt_now W (Suc k) > wt_now W 0 + wt_timeout W \<or> wt_done W k \<noteq> None")
      case True
      then show ?thesis using Suc.prems Inr
        by (intro stop) (auto simp: docker_defs health_args_def split: if_splits option.splits)
    next
      case False
      then have "wait_healthy D W p a fuel (Suc k) (issued @ [health_args p]) = (r, issued')"
        using Suc.prems Inr by (simp add: docker_defs health_args_def)
      from Suc.IH [OF this] obtain m where m: "m \<le> fuel" "issued' = issued @ [health_args p] @ replicate m (health_args p)"
        "\<And>b. r = Inr (Some b) \<Longrightarrow> b = a \<and> 0 < m \<and> (\<exists>out. D (length issued' - 1) (health_args p) = Inr out \<and> trim_space out = ''healthy'')"
        by auto
      show ?thesis by (rule exI [of _ "Suc m"]) (use m in auto)
    qed
  qed
qed

text \<open>A clock that moves on by the poll interval in every round, as sleeping does.\<close>

definition clock_moves :: "waiting \<Rightarrow> bool" where
  "clock_moves W \<longleftrightarrow> 0 < wt_poll W \<and> (\<forall>k. wt_now W k + wt_poll W \<le> wt_now W (Suc k))"

lemma clock_after: "clock_moves W \<Longrightarrow> wt_now W 0 + int k * wt_poll W \<le> wt_now W k"
proof (induction k)
  case (Suc k)
  then have "wt_now W k + wt_poll W \<le> wt_now W (Suc k)" by (simp add: clock_moves_def)
  then show ?case using Suc by (simp add: algebra_simps)
qed simp

lemma wait_ends:
  assumes "clock_moves W" "wt_timeout W < int (k + fuel) * wt_poll W" "0 < fuel"
  shows "fst (wait_healthy D W p a fuel k issued) \<noteq> Inr None"
  using assms(2,3)
proof (induction fuel arbitrary: k issued)
  case (Suc fuel)
  have "wt_now W 0 + int (Suc k) * wt_poll W \<le> wt_now W (Suc k)" by (rule clock_after [OF assms(1)])
  then have last: "fuel = 0 \<Longrightarrow> wt_now W 0 + wt_timeout W < wt_now W (Suc k)" using Suc.prems by simp
  show ?case
  proof (cases "fuel = 0")
    case True
    then show ?thesis using last by (auto simp: docker_defs split: sum.splits)
  next
    case False
    then have "fst (wait_healthy D W p a fuel (Suc k) (issued @ [health_args p])) \<noteq> Inr None" using Suc.IH [of "Suc k"] Suc.prems by simp
    then show ?thesis by (auto simp: docker_defs health_args_def split: sum.splits option.splits)
  qed
qed simp

section \<open>The container\<close>

definition asked_before :: "docker \<Rightarrow> string list list \<Rightarrow> nat \<Rightarrow> string list \<Rightarrow> (string + string \<Rightarrow> bool) \<Rightarrow> bool" where
  "asked_before D issued j args P \<longleftrightarrow> (\<exists>k < j. k < length issued \<and> issued ! k = args \<and> P (D k args))"

lemma args_apart:
  "run_args p \<noteq> inspect_args w c" "run_args p \<noteq> volume_args v" "run_args p \<noteq> compose_args" "run_args p \<noteq> [''start'', c]"
  "run_args p \<noteq> health_args p"
  by (simp_all add: run_args_def inspect_args_def volume_args_def compose_args_def health_args_def)

definition ready_when_returned :: "docker \<Rightarrow> PostgresOptions \<Rightarrow> string + PostgresAction option \<Rightarrow> string list list \<Rightarrow> bool" where
  "ready_when_returned D p r issued \<longleftrightarrow> (\<forall>b. r = Inr (Some b) \<longrightarrow> issued \<noteq> [] \<and> last issued = health_args p
     \<and> (\<exists>out. D (length issued - 1) (last issued) = Inr out \<and> trim_space out = ''healthy''))"

lemma wait_ready:
  assumes "wait_healthy D W p a fuel k pre = (r, issued)"
  shows "ready_when_returned D p r issued \<and> (\<exists>m. issued = pre @ replicate m (health_args p))"
proof -
  obtain m where m: "issued = pre @ replicate m (health_args p)"
    "\<And>b. r = Inr (Some b) \<Longrightarrow> 0 < m \<and> (\<exists>out. D (length issued - 1) (health_args p) = Inr out \<and> trim_space out = ''healthy'')"
    using wait_log [OF assms] by blast
  then show ?thesis by (fastforce simp: ready_when_returned_def)
qed

lemma run_log:
  assumes "after (must D (run_args p)) (\<lambda>_. wait_healthy D W p a fuel 0) pre = (r, issued)"
  shows "ready_when_returned D p r issued \<and> (\<exists>m. issued = pre @ [run_args p] @ replicate m (health_args p))"
proof (cases "D (length pre) (run_args p)")
  case (Inl e)
  then show ?thesis using assms by (auto simp: docker_defs ready_when_returned_def intro: exI [of _ 0])
next
  case (Inr out)
  then have "wait_healthy D W p a fuel 0 (pre @ [run_args p]) = (r, issued)" using assms by (simp add: docker_defs)
  from wait_ready [OF this] show ?thesis by simp
qed

text \<open>The one \<open>docker run\<close> a list of commands holds is the first that is no question.\<close>

lemma only_run:
  assumes "j < length issued" "issued ! j = run_args p" "issued = pre @ [run_args p] @ replicate m (health_args p)" "run_args p \<notin> set pre"
  shows "j = length pre"
proof (rule ccontr)
  assume "j \<noteq> length pre"
  then consider "j < length pre" | "length pre < j" by linarith
  then show False
  proof cases
    case 1
    then have "pre ! j = run_args p" using assms(2,3) by (simp add: nth_append)
    then show False using 1 assms(4) nth_mem by metis
  next
    case 2
    then have "issued ! j = health_args p" using assms(1,3) by (auto simp: nth_append nth_Cons')
    then show False using assms(2) args_apart(5) by metis
  qed
qed

lemma no_run:
  "issued = pre @ replicate m (health_args p) \<Longrightarrow> run_args p \<notin> set pre \<Longrightarrow> j < length issued \<Longrightarrow> issued ! j \<noteq> run_args p"
proof -
  assume "issued = pre @ replicate m (health_args p)" "run_args p \<notin> set pre" and j: "j < length issued"
  then have "run_args p \<notin> set issued" by (auto simp: args_apart)
  then show "issued ! j \<noteq> run_args p" using nth_mem [OF j] by metis
qed

definition asked_well :: "docker \<Rightarrow> PostgresOptions \<Rightarrow> string list list \<Rightarrow> bool" where
  "asked_well D p issued \<longleftrightarrow> (\<forall>j < length issued. issued ! j = run_args p \<longrightarrow>
      (\<exists>e. D 0 (issued ! 0) = Inl e \<and> contains_lower e ''no such object'')
      \<and> (asked_before D issued j (volume_args (po_Volume p)) (\<lambda>a. \<exists>out. a = Inr out)
         \<or> asked_before D issued j compose_args (\<lambda>a. \<exists>out. a = Inr out \<and> compose_volumes out = [])))"

definition state_args :: "PostgresOptions \<Rightarrow> string list" where
  "state_args p = inspect_args ''.State.Status'' (po_Container p)"

lemma state_apart: "run_args p \<noteq> state_args p" by (simp add: state_args_def args_apart)

lemma stopped_early:
  "run_args p \<notin> set issued \<Longrightarrow> asked_well D p issued \<and> ready_when_returned D p (Inl e) issued"
proof -
  assume "run_args p \<notin> set issued"
  then have "issued ! j \<noteq> run_args p" if "j < length issued" for j using nth_mem [OF that] by metis
  then show ?thesis by (simp add: asked_well_def ready_when_returned_def)
qed

lemma create_asks:
  assumes missing: "D 0 (state_args p) = Inl e" "contains_lower e ''no such object''"
    and run: "create_container D W fuel p [state_args p] = (r, issued)"
  shows "asked_well D p issued \<and> ready_when_returned D p r issued"
proof (cases "D 1 (volume_args (po_Volume p))")
  case (Inr out)
  then have "after (must D (run_args p)) (\<lambda>_. wait_healthy D W p PostgresCreated fuel 0) [state_args p, volume_args (po_Volume p)] = (r, issued)"
    using run by (simp add: create_container_def Let_def after_def docker_run_def)
  from run_log [OF this] obtain m where m: "ready_when_returned D p r issued"
    "issued = [state_args p, volume_args (po_Volume p)] @ [run_args p] @ replicate m (health_args p)" by auto
  have fresh: "run_args p \<notin> set [state_args p, volume_args (po_Volume p)]" by (simp add: state_apart args_apart)
  have "asked_before D issued 2 (volume_args (po_Volume p)) (\<lambda>a. \<exists>out. a = Inr out)"
    unfolding asked_before_def by (rule exI [of _ 1]) (use Inr in \<open>auto simp: m(2)\<close>)
  moreover have "j = 2" if "j < length issued" "issued ! j = run_args p" for j using only_run [OF that m(2) fresh] by simp
  moreover have "issued ! 0 = state_args p" by (simp add: m(2))
  ultimately show ?thesis using missing m(1) by (auto simp: asked_well_def)
next
  case (Inl e')
  show ?thesis
  proof (cases "contains_lower e' ''no such volume''")
    case False
    then show ?thesis using run Inl state_apart args_apart
      by (auto simp: create_container_def Let_def after_def docker_run_def docker_error_def give_up_def intro!: stopped_early)
  next
    case True
    show ?thesis
    proof (cases "D 2 compose_args")
      case (Inl x)
      then show ?thesis using run True \<open>D 1 _ = Inl e'\<close> state_apart args_apart
        by (auto simp: create_container_def Let_def docker_defs numeral_2_eq_2 intro!: stopped_early)
    next
      case (Inr out)
      show ?thesis
      proof (cases "compose_volumes out = []")
        case False
        then show ?thesis using run True Inr \<open>D 1 _ = Inl e'\<close> state_apart args_apart
          by (auto simp: create_container_def Let_def docker_defs numeral_2_eq_2 intro!: stopped_early)
      next
        case none: True
        let ?pre = "[state_args p, volume_args (po_Volume p), compose_args]"
        have "after (must D (run_args p)) (\<lambda>_. wait_healthy D W p PostgresCreated fuel 0) ?pre = (r, issued)"
          using run True Inr none \<open>D 1 _ = Inl e'\<close>
          by (simp add: create_container_def Let_def after_def docker_run_def must_def return_def numeral_2_eq_2)
        from run_log [OF this] obtain m where m: "ready_when_returned D p r issued"
          "issued = ?pre @ [run_args p] @ replicate m (health_args p)" by auto
        have fresh: "run_args p \<notin> set ?pre" by (simp add: state_apart args_apart)
        have "asked_before D issued 3 compose_args (\<lambda>a. \<exists>out. a = Inr out \<and> compose_volumes out = [])"
          unfolding asked_before_def by (rule exI [of _ 2]) (simp add: m(2) Inr none)
        moreover have "j = 3" if "j < length issued" "issued ! j = run_args p" for j using only_run [OF that m(2) fresh] by simp
        moreover have "issued ! 0 = state_args p" by (simp add: m(2))
        ultimately show ?thesis using missing m(1) by (auto simp: asked_well_def)
      qed
    qed
  qed
qed

lemma present_asks:
  assumes "wait_healthy D W p a fuel 0 pre = (r, issued)" "run_args p \<notin> set pre"
  shows "asked_well D p issued \<and> ready_when_returned D p r issued"
  using wait_ready [OF assms(1)] no_run assms(2) by (auto simp: asked_well_def)

lemma ensure_asks:
  assumes "EnsurePostgres D W fuel p [] = (r, issued)"
  shows "asked_well D p issued \<and> ready_when_returned D p r issued"
proof (cases "D 0 (state_args p)")
  case (Inl e)
  show ?thesis
  proof (cases "contains_lower e ''no such object''")
    case True
    then show ?thesis using assms Inl by (intro create_asks [where D = D and p = p, OF Inl True]) (simp add: EnsurePostgres_def after_def docker_run_def state_args_def)
  next
    case False
    then show ?thesis using assms Inl state_apart
      by (auto simp: EnsurePostgres_def docker_defs state_args_def intro!: stopped_early)
  qed
next
  case (Inr out)
  have first: "EnsurePostgres D W fuel p [] =
     (let status = trim_space out
          in if status = ''running'' then wait_healthy D W p PostgresAlreadyRunning fuel 0
             else if status = ''exited'' \<or> status = ''created''
             then after (must D [''start'', po_Container p]) (\<lambda>_. wait_healthy D W p PostgresStarted fuel 0)
             else give_up (''postgres container '' @ po_Container p @ '' has unexpected status '' @ go_quote status
                    @ '': inspect it with `docker ps -a`'')) [state_args p]"
    using Inr by (simp add: EnsurePostgres_def after_def docker_run_def state_args_def)
  show ?thesis
  proof (cases "trim_space out = ''running''")
    case True
    then have "wait_healthy D W p PostgresAlreadyRunning fuel 0 [state_args p] = (r, issued)" using assms first by simp
    then show ?thesis by (rule present_asks) (simp add: state_apart)
  next
    case False
    show ?thesis
    proof (cases "trim_space out = ''exited'' \<or> trim_space out = ''created''")
      case True
      then have start: "after (must D [''start'', po_Container p]) (\<lambda>_. wait_healthy D W p PostgresStarted fuel 0) [state_args p] = (r, issued)"
        using assms first False by auto
      show ?thesis
      proof (cases "D 1 [''start'', po_Container p]")
        case (Inl e)
        then show ?thesis using start state_apart args_apart by (auto simp: docker_defs numeral_2_eq_2 intro!: stopped_early)
      next
        case (Inr x)
        then have "wait_healthy D W p PostgresStarted fuel 0 [state_args p, [''start'', po_Container p]] = (r, issued)"
          using start by (simp add: docker_defs)
        then show ?thesis by (rule present_asks) (simp add: state_apart args_apart)
      qed
    next
      case False
      then show ?thesis using assms first \<open>trim_space out \<noteq> _\<close> state_apart
        by (auto simp: Let_def give_up_def intro!: stopped_early)
    qed
  qed
qed

text \<open>
  C21: Setup never hides data behind an empty database and never reports a database that is not ready. When it issued
  \<open>docker run\<close>, docker had said before that there is no such container, and either that the volume to be
  used exists, or that there is no volume of the compose project. When it returns, the last
  command it issued was the question for the container's health, and the answer was that it is healthy.
\<close>

theorem setup_hides_no_data:
  assumes "EnsurePostgres D W fuel p [] = (r, issued)"
  shows "(\<forall>j < length issued. issued ! j = run_args p \<longrightarrow>
      (\<exists>e. D 0 (issued ! 0) = Inl e \<and> contains_lower e ''no such object'')
      \<and> (asked_before D issued j (volume_args (po_Volume p)) (\<lambda>a. \<exists>out. a = Inr out)
         \<or> asked_before D issued j compose_args (\<lambda>a. \<exists>out. a = Inr out \<and> compose_volumes out = [])))
    \<and> (\<forall>b. r = Inr (Some b) \<longrightarrow> issued \<noteq> [] \<and> last issued = health_args p
         \<and> (\<exists>out. D (length issued - 1) (last issued) = Inr out \<and> trim_space out = ''healthy''))"
  using ensure_asks [OF assms] by (simp only: asked_well_def ready_when_returned_def)

definition fresh_docker :: docker where
  "fresh_docker k args =
     (if hd args = ''volume'' then (if args ! 1 = ''inspect'' then Inl ''Error: no such volume: aidev-pgdata'' else Inr [])
      else if hd args = ''run'' then Inr ''id''
      else if k = 0 then Inl ''Error: No such object: aidev-postgres'' else Inr (if k < 5 then ''starting'' else ''healthy''))"

definition patient :: waiting where
  "patient = \<lparr>wt_now = (\<lambda>k. int k * second), wt_done = (\<lambda>k. None), wt_poll = second, wt_timeout = 120 * second, wt_text = int_dec\<rparr>"

definition near_options :: PostgresOptions where
  "near_options = DefaultPostgresOptions\<lparr>po_Port := 7\<rparr>"

definition fresh_setup :: "(string + PostgresAction option) \<times> string list list" where
  "fresh_setup = EnsurePostgres fresh_docker patient 9 near_options []"

theorem setup_hides_no_data_witness:
  "fst fresh_setup = Inr (Some PostgresCreated) \<and> map hd (snd fresh_setup) = [''inspect'', ''volume'', ''volume'', ''run'', ''inspect'', ''inspect'']
   \<and> (asked_before fresh_docker (snd fresh_setup) 3 (volume_args ''aidev-pgdata'') (\<lambda>a. \<exists>out. a = Inr out)
      \<or> asked_before fresh_docker (snd fresh_setup) 3 compose_args (\<lambda>a. \<exists>out. a = Inr out \<and> compose_volumes out = []))"
proof (intro conjI)
  show "fst fresh_setup = Inr (Some PostgresCreated)" by code_simp
  show "map hd (snd fresh_setup) = [''inspect'', ''volume'', ''volume'', ''run'', ''inspect'', ''inspect'']" by code_simp
  have run: "EnsurePostgres fresh_docker patient 9 near_options [] = (fst fresh_setup, snd fresh_setup)"
    by (simp add: fresh_setup_def)
  have three: "3 < length (snd fresh_setup)" "snd fresh_setup ! 3 = run_args near_options" by code_simp+
  show "asked_before fresh_docker (snd fresh_setup) 3 (volume_args ''aidev-pgdata'') (\<lambda>a. \<exists>out. a = Inr out)
      \<or> asked_before fresh_docker (snd fresh_setup) 3 compose_args (\<lambda>a. \<exists>out. a = Inr out \<and> compose_volumes out = [])"
    using setup_hides_no_data [OF run] three by (simp add: near_options_def DefaultPostgresOptions_def)
qed

section \<open>The end of the wait\<close>

definition never_out :: "PostgresAction option steps \<Rightarrow> bool" where
  "never_out m \<longleftrightarrow> (\<forall>issued. fst (m issued) \<noteq> Inr None)"

lemma never_out_after: "(\<And>x. never_out (f x)) \<Longrightarrow> never_out (after m f)"
  by (auto simp: never_out_def after_def split: prod.splits sum.splits)

lemma never_out_give_up: "never_out (give_up e)" "never_out (docker_error e)"
  by (simp_all add: never_out_def give_up_def docker_error_def)

lemma never_out_ensure:
  assumes "\<And>a. never_out (wait_healthy D W p a fuel 0)"
  shows "never_out (EnsurePostgres D W fuel p)"
  using assms unfolding EnsurePostgres_def create_container_def Let_def
  by (auto intro!: never_out_after never_out_give_up split: sum.splits)

text \<open>
  The wait for PostgreSQL ends. While the clock moves on by the poll interval in every round, a number of
  rounds fixed by the timeout is enough, whatever docker answers and whatever was started before.
\<close>

theorem setup_wait_ends:
  assumes "clock_moves W" "wt_timeout W < int fuel * wt_poll W"
  shows "fst (EnsurePostgres D W (Suc fuel) p issued) \<noteq> Inr None"
proof -
  have "never_out (wait_healthy D W p a (Suc fuel) 0)" for a
    unfolding never_out_def using assms clock_moves_def by (intro allI wait_ends) (auto simp: algebra_simps)
  then show ?thesis using never_out_ensure unfolding never_out_def by blast
qed

theorem setup_wait_ends_witness:
  "fst (EnsurePostgres fresh_docker patient (Suc 121) DefaultPostgresOptions []) \<noteq> Inr None"
  by (rule setup_wait_ends) (simp_all add: clock_moves_def patient_def second_def algebra_simps)

section \<open>What is reported\<close>

text \<open>The document setup writes has no problem of types, so loading sees the database and the workspace only.\<close>

lemma written_types:
  "checkTypes num (configDocument opts) = ([], [], configDocument opts)"
  by (simp add: checkTypes_def configDocument_def configSchema_def both_def matchKind_def is_str_def dotted_def Let_def)

lemma written_known: "unknownKeys (configDocument opts) = []"
  by (simp add: unknownKeys_def configDocument_def configSchema_def dotted_def Let_def)

lemma written_only:
  "k \<noteq> ''database'' \<Longrightarrow> k \<noteq> ''workspace_root'' \<Longrightarrow> field (configDocument opts) k = None"
  by (simp add: field_def configDocument_def)

lemma written_settings:
  "load_settings L path (configDocument opts) =
     load_workspace L path (configDocument opts) (load_database L [] (configDocument opts) ([], default_config path))"
  by (simp add: load_settings_def written_types written_known load_tracing_def load_level_def load_agent_def load_mcp_def load_tasks_def
        section_of_def str_field_def stated_def written_only)

text \<open>A trimmed document is loaded alike from wherever it lies.\<close>

lemma loads_anywhere:
  assumes load: "LoadFile (reading L path data) path = Inr c" and doc: "l_parse L data = Parsed (DObj (configDocument opts))"
    and trimmed: "trim_space (co_DatabaseURL opts) = co_DatabaseURL opts" "co_DatabaseURL opts \<noteq> []"
      "trim_space (co_WorkspaceRoot opts) = co_WorkspaceRoot opts" "co_WorkspaceRoot opts = [] \<or> is_abs (co_WorkspaceRoot opts)"
  shows "\<exists>c'. LoadFile (reading L path' data) path' = Inr c' \<and> cf_DatabaseURL c' = co_DatabaseURL opts"
proof -
  let ?d = "configDocument opts"
  have read: "LoadFile (reading L q data) q = (case load_settings (reading L q data) q ?d of
      (problems, cfg) \<Rightarrow> if problems \<noteq> [] then Inl (InvalidConfig problems) else Inr cfg)" if "trim_space data \<noteq> []" for q
    using doc that by (simp add: LoadFile_def reading_def)
  have filled: "trim_space data \<noteq> []" using load by (auto simp: LoadFile_def reading_def)
  have url: "load_database (reading L q data) [] ?d (ps, c0) =
      (case l_pgx L (co_DatabaseURL opts) of None \<Rightarrow> (ps, c0\<lparr>cf_DatabaseURL := co_DatabaseURL opts\<rparr>)
       | Some e \<Rightarrow> (ps @ [''database.url is not a connection string PostgreSQL can parse: '' @ e], c0\<lparr>cf_DatabaseURL := co_DatabaseURL opts\<rparr>))" for q ps c0
    using trimmed by (auto simp: load_database_def section_of_def field_def str_field_def stated_def configDocument_def reading_def
        set_config_def fail_with_def Let_def split: option.splits)
  have place: "load_workspace (reading L q data) q ?d st =
      (if co_WorkspaceRoot opts \<noteq> [] then set_config (\<lambda>c. c\<lparr>cf_WorkspaceRoot := path_clean (co_WorkspaceRoot opts)\<rparr>) st
       else case defaultWorkspaceRoot L of
              None \<Rightarrow> fail_with ''workspace_root is required: the home directory could not be determined'' st
            | Some dir \<Rightarrow> set_config (\<lambda>c. c\<lparr>cf_WorkspaceRoot := dir\<rparr>) st)" for q st
    using trimmed by (auto simp: load_workspace_def field_def str_field_def stated_def configDocument_def reading_def
        defaultWorkspaceRoot_def Let_def split: option.splits)
  have valid: "l_pgx L (co_DatabaseURL opts) = None" "co_WorkspaceRoot opts \<noteq> [] \<or> defaultWorkspaceRoot L \<noteq> None"
    using load by (auto simp: read [OF filled] written_settings url place set_config_def fail_with_def split: option.splits if_splits)
  show ?thesis
    using valid by (auto simp: read [OF filled] written_settings url place set_config_def)
qed


text \<open>A first setup on a machine without conf.json; then one whose file another process writes meanwhile.\<close>

definition setup_loader :: loader where
  "setup_loader =
     \<lparr>l_read = (\<lambda>p. Inl ''no such file''),
      l_parse = (\<lambda>s. Parsed (DObj [(''database'', DObj [(''url'', DStr (if s = ''theirs'' then ''postgres://other'' else ''postgres://mine''))])])),
      l_pgx = (\<lambda>u. None), l_home = Some ''/home/me'', l_cwd = Some ''/'', l_num = (\<lambda>x. ''n''), l_part = (\<lambda>f u k. 0)\<rparr>"

definition setup_files :: "(nat \<Rightarrow> string option) \<Rightarrow> filesystem" where
  "setup_files there = \<lparr>fs_at = there, fs_unseen = (\<lambda>k. False), fs_prepare = None, fs_link = None, fs_remove = None,
     fs_encode = (\<lambda>m. ''mine''), fs_temporary = ''/etc/aidev/.conf-1.tmp''\<rparr>"

definition setup_run :: "(nat \<Rightarrow> string option) \<Rightarrow> (string + setupReport) \<times> string option" where
  "setup_run there =
     setup_Run setup_loader (setup_files there) (\<lambda>p. ''postgres://container'')
       \<lparr>ss_EnsurePostgres = (\<lambda>p. Inr PostgresCreated), ss_Migrate = (\<lambda>u. Inr [''0001_init''])\<rparr>
       \<lparr>so_ConfigPath = ''/etc/aidev/conf.json'', so_WorkspaceRoot = [], so_DatabaseURL = ''postgres://mine'', so_Postgres = DefaultPostgresOptions\<rparr>"

definition first_setup :: setupReport where
  "first_setup = \<lparr>sr_ConfigPath = ''/etc/aidev/conf.json'', sr_ConfigCreated = True, sr_DatabaseURL = ''postgres://mine'',
     sr_Postgres = None, sr_Applied = [''0001_init'']\<rparr>"


text \<open>
  Otherwise the report may be wrong: the file another process wrote after setup looked stays as it is, and setup has
  migrated and reports a database that aidev will not use.
\<close>

lemma late_config_is_contradicted:
  "case setup_run (\<lambda>k. if k = 2 then Some ''theirs'' else None) of
     (Inr rep, written) \<Rightarrow> written = None \<and> \<not> sr_ConfigCreated rep \<and> sr_DatabaseURL rep = ''postgres://mine'' \<and> sr_Applied rep = [''0001_init'']
   | _ \<Rightarrow> False"
  "case LoadFile (reading setup_loader ''/etc/aidev/conf.json'' ''theirs'') ''/etc/aidev/conf.json'' of
     Inr c \<Rightarrow> cf_DatabaseURL c = ''postgres://other'' | Inl _ \<Rightarrow> False"
  by code_simp+

section \<open>The shell\<close>

text \<open>
  How a shell reads one word without expansions: plain characters as they are, a backslash in front of any
  character, and anything between apostrophes. Anything else would not be one word.
\<close>

fun shell_word :: "bool \<Rightarrow> string \<Rightarrow> string option" where
  "shell_word quoted [] = (if quoted then None else Some [])"
| "shell_word True (c # s) = (if c = apostrophe then shell_word False s else map_option (Cons c) (shell_word True s))"
| "shell_word False (c # s) =
     (if c = apostrophe then shell_word True s
      else if c = backslash then (case s of [] \<Rightarrow> None | d # t \<Rightarrow> map_option (Cons d) (shell_word False t))
      else if shell_safe c then map_option (Cons c) (shell_word False s) else None)"

lemma safe_apart: "shell_safe c \<Longrightarrow> c \<noteq> apostrophe \<and> c \<noteq> backslash"
  by (auto simp: shell_safe_def byte_in_def is_digit_def apostrophe_def backslash_def)

lemma safe_word: "list_all shell_safe s \<Longrightarrow> shell_word False s = Some s"
  by (induction s) (auto dest: safe_apart)

lemma quoted_word: "shell_word True (concat (map escaped_quote s) @ [apostrophe]) = Some s"
  by (induction s) (auto simp: escaped_quote_def apostrophe_def backslash_def)

text \<open>
  The line setup tells a person to add to the shell profile is safe for every path: the shell reads the
  text after the equals sign as one word, and that word is the path.
\<close>

theorem quoted_path_is_one_word: "shell_word False (quoteShellPath path) = Some path"
  by (simp add: quoteShellPath_def safe_word quoted_word)

end
