(* ===== verification/Doctor.thy ===== *)
theory Doctor
  imports Commands Setup
begin

text \<open>
  The checks of \<open>aidev doctor\<close> (\<open>internal/doctor/doctor.go\<close>), what it learns from Docker
  (\<open>internal/cli/dockerstate.go\<close>) and what the command makes of the results (\<open>internal/cli/doctor.go\<close>). The machine
  answers through the record \<open>deps\<close>, as in the code.
\<close>

section \<open>Sizes\<close>

text \<open>
  \<open>float64(n)\<close> of a whole number: 53 bits, ties to the even one. Dividing by 1024 is exact, and \<open>%.1f\<close> rounds to
  tenths, ties to the even one again.
\<close>

fun bit_length :: "nat \<Rightarrow> nat" where
  "bit_length n = (if n = 0 then 0 else Suc (bit_length (n div 2)))"

declare bit_length.simps [simp del]

definition nearest :: "nat \<Rightarrow> nat \<Rightarrow> nat" where
  "nearest p q =
     (let d = p div q; r = p mod q
      in if q < 2 * r \<or> 2 * r = q \<and> odd d then Suc d else d)"

definition float64 :: "nat \<Rightarrow> nat" where
  "float64 n = (let k = bit_length n - 53 in nearest n (2 ^ k) * 2 ^ k)"

definition tenths :: "nat \<Rightarrow> nat \<Rightarrow> string" where
  "tenths p q = (let t = nearest (10 * p) q in nat_dec (t div 10) @ ''.'' @ nat_dec (t mod 10))"

fun in_units :: "nat \<Rightarrow> nat \<Rightarrow> string list \<Rightarrow> string" where
  "in_units p q [] = tenths p (1024 * q) @ '' PiB''"
| "in_units p q (u # us) =
     (if p < 1024 * (1024 * q) then tenths p (1024 * q) @ CHR 0x20 # u else in_units p (1024 * q) us)"

definition humanSize :: "nat \<Rightarrow> string" where
  "humanSize n =
     (if n < 1024 then nat_dec n @ '' B'' else in_units (float64 n) 1 [''KiB'', ''MiB'', ''GiB'', ''TiB''])"

section \<open>Results and answers\<close>

datatype checkStatus = StatusOK | StatusWarn | StatusFail | StatusSkipped

definition CheckConfig :: string where "CheckConfig = ''config''"
definition CheckGit :: string where "CheckGit = ''git''"
definition CheckAgent :: string where "CheckAgent = ''agent''"
definition CheckDatabase :: string where "CheckDatabase = ''database''"
definition CheckMigrations :: string where "CheckMigrations = ''migrations''"
definition CheckStuckTasks :: string where "CheckStuckTasks = ''stuck tasks''"
definition CheckVerifyMode :: string where "CheckVerifyMode = ''verify mode''"
definition CheckProjectPaths :: string where "CheckProjectPaths = ''project paths''"
definition CheckServers :: string where "CheckServers = ''mcp servers''"
definition CheckWorkspace :: string where "CheckWorkspace = ''workspace''"
definition CheckDisk :: string where "CheckDisk = ''disk''"

definition diskWarnBytes :: nat where "diskWarnBytes = 5368709120"
definition diskFailBytes :: nat where "diskFailBytes = 1073741824"

record checkResult =
  cr_Name :: string
  cr_Status :: checkStatus
  cr_Summary :: string
  cr_Fix :: string

definition fine :: "string \<Rightarrow> string \<Rightarrow> checkResult" where
  "fine name summary = \<lparr>cr_Name = name, cr_Status = StatusOK, cr_Summary = summary, cr_Fix = []\<rparr>"

definition skipped :: "string \<Rightarrow> string \<Rightarrow> checkResult" where
  "skipped name summary = \<lparr>cr_Name = name, cr_Status = StatusSkipped, cr_Summary = summary, cr_Fix = []\<rparr>"

definition warning :: "string \<Rightarrow> string \<Rightarrow> string \<Rightarrow> checkResult" where
  "warning name summary fix = \<lparr>cr_Name = name, cr_Status = StatusWarn, cr_Summary = summary, cr_Fix = fix\<rparr>"

definition failure :: "string \<Rightarrow> string \<Rightarrow> string \<Rightarrow> checkResult" where
  "failure name summary fix = \<lparr>cr_Name = name, cr_Status = StatusFail, cr_Summary = summary, cr_Fix = fix\<rparr>"

text \<open>What Docker and systemd say; \<open>ds_Daemon\<close> is one of three words in the code.\<close>

datatype daemon = DaemonUp | DaemonDown | DaemonDenied

record DockerState =
  ds_Daemon :: daemon
  ds_Container :: string
  ds_Name :: string
  ds_ServiceActive :: string
  ds_ServiceEnabled :: string
  ds_SocketEnabled :: string

text \<open>\<open>errors.ErrUnsupported\<close>, or another error.\<close>

datatype probe_error = Unsupported | ProbeError string

text \<open>
  \<open>Deps\<close>. An error is its message. The database is pinged first as \<open>dp_Ping 0\<close>, then once for each second waited;
  \<open>dp_cancelled\<close> is the error of the context before each of these; \<open>dp_walk\<close> the order in which Go walks a map.
\<close>

record deps =
  dp_LoadConfig :: "string + Config"
  dp_LookPath :: "string \<Rightarrow> string option"
  dp_LookupEnv :: "string \<Rightarrow> string option"
  dp_Ping :: "nat \<Rightarrow> string option"
  dp_PendingMigrations :: "string + string list"
  dp_StuckTasks :: "string + string list"
  dp_InPlaceProjects :: "string + string list"
  dp_ProjectPaths :: "string + string list"
  dp_PathExists :: "string \<Rightarrow> bool"
  dp_StaleServers :: "(probe_error + string list) option"
  dp_CheckWorkspace :: "string \<Rightarrow> string option"
  dp_FreeSpace :: "(string \<Rightarrow> probe_error + nat) option"
  dp_Docker :: "DockerState option"
  dp_cancelled :: "nat \<Rightarrow> string option"
  dp_walk :: "(string \<rightharpoonup> string) \<Rightarrow> (string \<times> string) list"

section \<open>What Docker explains\<close>

definition startedByProbe :: "DockerState \<Rightarrow> bool" where
  "startedByProbe st \<longleftrightarrow> ds_ServiceActive st \<noteq> [] \<and> ds_ServiceActive st \<noteq> ''active'' \<and> ds_Daemon st = DaemonUp"

definition socket_advice :: string where
  "socket_advice = ''Docker does not start at boot on this machine: docker.service is disabled and only docker.socket is enabled, and aidev reaches PostgreSQL over TCP, which does not wake it. Enable it with `sudo systemctl enable docker.service`.''"

definition service_advice :: string where
  "service_advice = ''Docker does not start at boot on this machine (docker.service is disabled). Enable it with `sudo systemctl enable docker.service`.''"

definition bootAdvice :: "DockerState \<Rightarrow> string" where
  "bootAdvice st =
     (if ds_ServiceEnabled st \<noteq> ''disabled'' then []
      else if ds_SocketEnabled st = ''enabled'' then socket_advice else service_advice)"

definition with_boot :: "DockerState \<Rightarrow> string \<Rightarrow> string" where
  "with_boot st fix = (if bootAdvice st \<noteq> [] then fix @ CHR 0x20 # bootAdvice st else fix)"

definition daemon_down_fix :: string where
  "daemon_down_fix = ''Docker is installed but its daemon is not running. Start it (`sudo systemctl start docker` on Linux, or open Docker Desktop), then run `aidev doctor` again.''"

definition daemon_denied_fix :: string where
  "daemon_denied_fix = ''Docker is running but this user may not talk to it (permission denied). Add the user to the docker group (`sudo usermod -aG docker $USER`, then log in again), or use rootless Docker.''"

definition run_setup_fix :: string where
  "run_setup_fix = ''Run `aidev setup` to start PostgreSQL in Docker (safe to run again), or check that database.url in conf.json points at a running PostgreSQL.''"

definition dockerFix :: "DockerState \<Rightarrow> string" where
  "dockerFix st =
     (if ds_Daemon st = DaemonDown then with_boot st daemon_down_fix
      else if ds_Daemon st = DaemonDenied then daemon_denied_fix
      else if startedByProbe st \<and> ds_Container st \<noteq> [] then
        with_boot st (''Docker was not running; this check started it, and the '' @ ds_Name st @ '' container is '' @ ds_Container st
          @ '' but PostgreSQL has not answered yet. Give it a few seconds and run `aidev doctor` again.'')
      else if ds_Container st = ''running'' then
        ''The '' @ ds_Name st @ '' container is running but the database does not answer at database.url. Check the host, port, user and password in conf.json against the container (`docker port ''
          @ ds_Name st @ ''`).''
      else if ds_Container st \<noteq> [] then
        ''The '' @ ds_Name st @ '' container exists but is '' @ ds_Container st @ ''. Start it with `docker start '' @ ds_Name st
          @ ''` (or `aidev setup`, which does the same and waits until it is ready).''
      else run_setup_fix)"

section \<open>One check each\<close>

text \<open>\<open>strings.ReplaceAll\<close> of a text that is not empty.\<close>

function replace_all :: "string \<Rightarrow> string \<Rightarrow> string \<Rightarrow> string" where
  "replace_all old new s =
     (if s = [] then []
      else if old \<noteq> [] \<and> has_prefix s old then new @ replace_all old new (drop (length old) s)
      else hd s # replace_all old new (tl s))"
  by pat_completeness auto
termination
  by (relation "measure (\<lambda>(old, new, s). length s)") (auto simp: neq_Nil_conv)

declare replace_all.simps [simp del]

definition redactDatabaseURL :: "string \<Rightarrow> string \<Rightarrow> string" where
  "redactDatabaseURL msg databaseURL =
     (if databaseURL = [] then msg else replace_all databaseURL (RedactURL databaseURL) msg)"

definition in_number :: "nat \<Rightarrow> string \<Rightarrow> string \<Rightarrow> string" where
  "in_number n one many = (if n = 1 then ''1 '' @ one else nat_dec n @ CHR 0x20 # many)"

definition countProviderKeys :: "nat \<Rightarrow> string" where
  "countProviderKeys n = in_number n ''environment variable is'' ''environment variables are''"
definition countMigrations :: "nat \<Rightarrow> string" where
  "countMigrations n = in_number n ''migration is'' ''migrations are''"
definition countStuck :: "nat \<Rightarrow> string" where
  "countStuck n = in_number n ''task is'' ''tasks are''"
definition countInPlace :: "nat \<Rightarrow> string" where
  "countInPlace n = in_number n ''project verifies'' ''projects verify''"
definition countGone :: "nat \<Rightarrow> string" where
  "countGone n = in_number n ''project directory is'' ''project directories are''"
definition countStaleServers :: "nat \<Rightarrow> string" where
  "countStaleServers n = in_number n ''aidev process runs'' ''aidev processes run''"

definition gitResult :: "deps \<Rightarrow> checkResult" where
  "gitResult D =
     (case dp_LookPath D ''git'' of
        None \<Rightarrow> failure CheckGit ''git was not found on your PATH.'' ''Install git and make sure it is on your PATH.''
      | Some path \<Rightarrow> fine CheckGit (''Found git at '' @ path @ ''.''))"

text \<open>Only names are kept: provider and variable.\<close>

definition missingProviderKeys :: "deps \<Rightarrow> (string \<rightharpoonup> string) \<Rightarrow> (string \<times> string) list" where
  "missingProviderKeys D keyEnv =
     sort_key snd (filter (\<lambda>(provider, variable).
       case dp_LookupEnv D variable of None \<Rightarrow> True | Some v \<Rightarrow> trim_space v = []) (dp_walk D keyEnv))"

definition providerKeyResult :: "(string \<times> string) list \<Rightarrow> checkResult" where
  "providerKeyResult missing =
     failure CheckAgent
       (countProviderKeys (length missing) @ '' missing for OpenCode: ''
          @ join_with '', '' (map (\<lambda>(provider, variable). variable @ '' (provider '' @ provider @ '')'') missing) @ ''.'')
       (''Set '' @ join_with '', '' (map snd missing)
          @ '' in the environment that starts aidev (for the MCP server, the environment the editor starts it with, so restart the editor fully)''
          @ [CHR 0x20, CHR 0xE2, CHR 0x80, CHR 0x94] @ '' the setting agent.opencode.provider_key_env names ''
          @ (if length missing = 1 then ''it'' else ''them'') @ ''.'')"

definition agentResult :: "deps \<Rightarrow> Config \<Rightarrow> checkResult" where
  "agentResult D c =
     (let isCodex = (cf_AgentBackend c = BackendCodex);
          command = (if isCodex then cf_CodexCommand c else cf_OpenCodeCommand c)
      in case dp_LookPath D command of
           None \<Rightarrow> if isCodex
             then failure CheckAgent (''The codex command '' @ go_quote command @ '' was not found.'')
                    ''Install Codex or set agent.codex.command to the Codex executable.''
             else failure CheckAgent (''The opencode command '' @ go_quote command @ '' was not found.'')
                    ''Install OpenCode or set agent.opencode.command to the OpenCode executable.''
         | Some path \<Rightarrow>
             (let missing = missingProviderKeys D (cf_OpenCodeProviderKeyEnv c)
              in if \<not> isCodex \<and> missing \<noteq> [] then providerKeyResult missing
                 else fine CheckAgent (''Found '' @ command @ '' at '' @ path @ ''.'')))"

definition databaseWakeWait :: duration where "databaseWakeWait = 20 * second"
definition databaseWakePoll :: duration where "databaseWakePoll = second"

text \<open>One ping after each poll, up to the wait: \<open>k\<close> counts them. The error of the last one is returned.\<close>

function wait_for_database :: "deps \<Rightarrow> nat \<Rightarrow> string option \<Rightarrow> string option" where
  "wait_for_database D k last_error =
     (if \<not> int k * databaseWakePoll < databaseWakeWait then last_error
      else case dp_cancelled D k of
             Some e \<Rightarrow> Some e
           | None \<Rightarrow> (case dp_Ping D (Suc k) of
                        None \<Rightarrow> None
                      | Some e \<Rightarrow> wait_for_database D (Suc k) (Some e)))"
  by pat_completeness auto
termination
  by (relation "measure (\<lambda>(D, k, e). 20 - k)") (auto simp: databaseWakePoll_def databaseWakeWait_def second_def)

declare wait_for_database.simps [simp del]

definition waitForDatabase :: "deps \<Rightarrow> string option" where
  "waitForDatabase D = wait_for_database D 0 None"

definition woken_summary :: string where
  "woken_summary = ''The database did not answer at first: Docker was not running, and this check started it (a docker command wakes docker.socket). PostgreSQL answers now.''"

definition start_at_boot :: string where
  "start_at_boot = ''Make Docker start at boot, so aidev finds PostgreSQL after a restart without this check waking it.''"

text \<open>The result, and whether the database answered in the end.\<close>

definition databaseResult :: "deps \<Rightarrow> Config \<Rightarrow> checkResult \<times> bool" where
  "databaseResult D c =
     (case dp_Ping D 0 of
        None \<Rightarrow> (fine CheckDatabase ''Database is reachable.'', True)
      | Some e \<Rightarrow>
          (let summary = ''Cannot reach the database: '' @ redactDatabaseURL e (cf_DatabaseURL c) @ ''.''
           in if dp_LookPath D ''docker'' = None
              then (failure CheckDatabase summary ''Install Docker and run `aidev setup`, or check that database.url in conf.json points at a running PostgreSQL.'', False)
              else (case dp_Docker D of
                      None \<Rightarrow> (failure CheckDatabase summary run_setup_fix, False)
                    | Some st \<Rightarrow>
                        if startedByProbe st \<and> (ds_Container st = ''running'' \<or> ds_Container st = ''restarting'') \<and> waitForDatabase D = None
                        then (warning CheckDatabase woken_summary (if bootAdvice st = [] then start_at_boot else bootAdvice st), True)
                        else (failure CheckDatabase summary (dockerFix st), False))))"

definition migrationsResult :: "deps \<Rightarrow> Config \<Rightarrow> checkResult" where
  "migrationsResult D c =
     (case dp_PendingMigrations D of
        Inl e \<Rightarrow> failure CheckMigrations (''Cannot read migrations: '' @ redactDatabaseURL e (cf_DatabaseURL c) @ ''.'')
                   ''Check the database and the migration files, then run `aidev migrate`.''
      | Inr missing \<Rightarrow>
          if missing \<noteq> [] then failure CheckMigrations (countMigrations (length missing) @ '' pending: '' @ join_with '', '' missing @ ''.'')
                                 ''Run `aidev migrate` to apply them.''
          else fine CheckMigrations ''Migrations are up to date.'')"

definition stuckTasksResult :: "deps \<Rightarrow> Config \<Rightarrow> checkResult" where
  "stuckTasksResult D c =
     (case dp_StuckTasks D of
        Inl e \<Rightarrow> failure CheckStuckTasks (''Cannot list tasks with an expired lease: '' @ redactDatabaseURL e (cf_DatabaseURL c) @ ''.'')
                   ''Check the database, then run `aidev task recover` to clear whatever is stuck.''
      | Inr stuck \<Rightarrow>
          if stuck = [] then fine CheckStuckTasks ''No task is stuck with an expired lease.''
          else warning CheckStuckTasks (countStuck (length stuck) @ '' stuck with an expired lease: '' @ join_with '', '' stuck @ ''.'')
                 ''Run `aidev task recover` to cancel them (`--dry-run` first to see what would be cancelled). Worktrees are kept.'')"

definition clean_advice :: string where
  "clean_advice = ''Run `aidev project verify-mode clean --repo <path>` for each project above. in_place stays right for a repository that pins submodules, which clean verification cannot check out.''"

definition verifyModeResult :: "deps \<Rightarrow> Config \<Rightarrow> checkResult" where
  "verifyModeResult D c =
     (case dp_InPlaceProjects D of
        Inl e \<Rightarrow> warning CheckVerifyMode (''Cannot list projects that verify in place: '' @ redactDatabaseURL e (cf_DatabaseURL c) @ ''.'')
                   ''Check the database, then run `aidev doctor` again.''
      | Inr all \<Rightarrow>
          (let paths = filter (dp_PathExists D) all
           in if paths = [] then fine CheckVerifyMode ''Every project verifies in a clean checkout of what would be committed.''
              else warning CheckVerifyMode (countInPlace (length paths) @ '' in place: '' @ join_with '', '' paths @ ''.'') clean_advice))"

definition gone_advice :: string where
  "gone_advice = ''The directory is gone, so tasks cannot be created there. A repository that moved is registered again with `aidev project add` from its new place; its old tasks stay in the history.''"

definition projectPathsResult :: "deps \<Rightarrow> Config \<Rightarrow> checkResult" where
  "projectPathsResult D c =
     (case dp_ProjectPaths D of
        Inl e \<Rightarrow> warning CheckProjectPaths (''Cannot list project directories: '' @ redactDatabaseURL e (cf_DatabaseURL c) @ ''.'')
                   ''Check the database, then run `aidev doctor` again.''
      | Inr paths \<Rightarrow>
          (let gone = filter (\<lambda>p. \<not> dp_PathExists D p) paths
           in if gone \<noteq> [] then warning CheckProjectPaths (countGone (length gone) @ '' gone: '' @ join_with '', '' gone @ ''.'') gone_advice
              else if paths = [] then fine CheckProjectPaths ''No project is registered yet.''
              else fine CheckProjectPaths (''Every registered project directory is still there ('' @ nat_dec (length paths) @ '').'')))"

definition workspaceResult :: "deps \<Rightarrow> Config \<Rightarrow> checkResult" where
  "workspaceResult D c =
     (case dp_CheckWorkspace D (cf_WorkspaceRoot c) of
        Some e \<Rightarrow> failure CheckWorkspace (''Workspace directory is unusable: '' @ e @ ''.'')
                    ''Check the workspace_root setting in conf.json and make sure the directory exists and is writable.''
      | None \<Rightarrow> fine CheckWorkspace (''Workspace directory '' @ cf_WorkspaceRoot c @ '' is usable.''))"

definition disk_fix :: string where
  "disk_fix = ''Free space before running tasks: `aidev worktree list` shows what retained worktrees hold and `aidev worktree remove <task>` reclaims one; `aidev prune --logs-older-than 30d` shrinks the database; `docker system df` shows what Docker keeps.''"

definition no_disk :: checkResult where
  "no_disk = skipped CheckDisk ''Skipped: free space cannot be measured on this system.''"

definition diskResult :: "deps \<Rightarrow> Config \<Rightarrow> checkResult" where
  "diskResult D c =
     (case dp_FreeSpace D of
        None \<Rightarrow> no_disk
      | Some measure_space \<Rightarrow>
          (case measure_space (cf_WorkspaceRoot c) of
             Inl Unsupported \<Rightarrow> no_disk
           | Inl (ProbeError e) \<Rightarrow> warning CheckDisk (''Cannot measure free space for '' @ cf_WorkspaceRoot c @ '': '' @ e @ ''.'')
                                    ''Check the disk holding workspace_root by hand (df -h).''
           | Inr free \<Rightarrow>
               if free < diskFailBytes
               then failure CheckDisk (''Only '' @ humanSize free @ '' free where worktrees are created ('' @ cf_WorkspaceRoot c
                                         @ ''); a task will likely fail half-way.'') disk_fix
               else if free < diskWarnBytes
               then warning CheckDisk (humanSize free @ '' free where worktrees are created ('' @ cf_WorkspaceRoot c
                                         @ ''); that is little for a repository copy and its build.'') disk_fix
               else fine CheckDisk (humanSize free @ '' free where worktrees are created.'')))"

definition no_servers :: checkResult where
  "no_servers = skipped CheckServers ''Skipped: this system does not expose the running aidev processes.''"

definition serversResult :: "deps \<Rightarrow> checkResult" where
  "serversResult D =
     (case dp_StaleServers D of
        None \<Rightarrow> no_servers
      | Some (Inl Unsupported) \<Rightarrow> no_servers
      | Some (Inl (ProbeError e)) \<Rightarrow> warning CheckServers (''Cannot list running aidev processes: '' @ e @ ''.'')
                                      ''Check that the process table is readable (on Linux, /proc), then run `aidev doctor` again.''
      | Some (Inr []) \<Rightarrow> fine CheckServers ''Every running aidev process uses the binary installed now.''
      | Some (Inr (s # ss)) \<Rightarrow> warning CheckServers (countStaleServers (length (s # ss)) @ '' a binary that has since been replaced: ''
                                                        @ join_with '', '' (s # ss) @ ''.'')
                                 ''Restart the Claude Code sessions (or other programs) that started them so they run the installed binary.'')"

section \<open>The run\<close>

definition configuration_fix :: string where
  "configuration_fix = ''Run `aidev setup` to create a configuration and a database, or set AIDEV_CONFIG to the absolute path of your conf.json (copy conf/conf.example.json to start).''"

definition unanswered :: "string \<Rightarrow> string" where
  "unanswered what = ''Skipped: the database did not answer, so '' @ what @ '' not checked.''"

definition doctor_Run :: "deps \<Rightarrow> checkResult list" where
  "doctor_Run D =
     (case dp_LoadConfig D of
        Inl e \<Rightarrow>
          [failure CheckConfig (''Cannot read the configuration: '' @ e @ ''.'') configuration_fix, gitResult D]
          @ map (\<lambda>name. skipped name ''Skipped: it needs a readable configuration.'')
              [CheckAgent, CheckDatabase, CheckMigrations, CheckStuckTasks, CheckVerifyMode, CheckProjectPaths, CheckWorkspace, CheckDisk]
          @ [serversResult D]
      | Inr c \<Rightarrow>
          (let (database, answered) = databaseResult D c; migrations = migrationsResult D c
           in [fine CheckConfig ''Configuration is readable.'', gitResult D, agentResult D c, database]
              @ (if \<not> answered
                 then [skipped CheckMigrations (unanswered ''migrations were''), skipped CheckStuckTasks (unanswered ''stuck tasks were''),
                       skipped CheckVerifyMode (unanswered ''verify mode was''), skipped CheckProjectPaths (unanswered ''project directories were'')]
                 else [migrations,
                       if cr_Status migrations \<noteq> StatusOK
                       then skipped CheckStuckTasks ''Skipped: migrations are pending or unreadable, so the lease columns may not exist.''
                       else stuckTasksResult D c,
                       verifyModeResult D c, projectPathsResult D c])
              @ [workspaceResult D c, diskResult D c, serversResult D]))"

definition doctor_Failed :: "checkResult list \<Rightarrow> bool" where
  "doctor_Failed results \<longleftrightarrow> (\<exists>r \<in> set results. cr_Status r = StatusFail)"

section \<open>Asking Docker\<close>

text \<open>
  \<open>systemctl <verb> <unit>\<close> prints a state, which may depend on the number of docker commands issued before: the first
  one can start the daemon. Without systemctl nothing is asked.
\<close>

type_synonym unit_query = "nat \<Rightarrow> string \<Rightarrow> string \<Rightarrow> string"

definition systemctlUnits :: "bool \<Rightarrow> unit_query \<Rightarrow> unit_query option" where
  "systemctlUnits found printed =
     (if found then Some (\<lambda>n verb unit. takeWhile (\<lambda>c. c \<noteq> CHR 10) (trim_space (printed n verb unit))) else None)"

definition probeDocker :: "docker \<Rightarrow> unit_query option \<Rightarrow> string \<Rightarrow> DockerState" where
  "probeDocker D units container =
     (let asked = (\<lambda>verb unit. case units of None \<Rightarrow> [] | Some u \<Rightarrow> u 0 verb unit);
          st = \<lparr>ds_Daemon = DaemonUp, ds_Container = [], ds_Name = container,
                ds_ServiceActive = asked ''is-active'' ''docker.service'', ds_ServiceEnabled = asked ''is-enabled'' ''docker.service'',
                ds_SocketEnabled = asked ''is-enabled'' ''docker.socket''\<rparr>
      in case D 0 [''info'', ''--format'', ''{{.ServerVersion}}''] of
           Inl e \<Rightarrow> st\<lparr>ds_Daemon := (if contains_lower e ''permission denied'' then DaemonDenied else DaemonDown)\<rparr>
         | Inr _ \<Rightarrow>
             (case D 1 (inspect_args ''.State.Status'' container) of
                Inl _ \<Rightarrow> st
              | Inr out \<Rightarrow> st\<lparr>ds_Container := trim_space out\<rparr>))"

definition dockerState :: "docker \<Rightarrow> bool \<Rightarrow> unit_query \<Rightarrow> DockerState" where
  "dockerState D found printed = probeDocker D (systemctlUnits found printed) (po_Container DefaultPostgresOptions)"

section \<open>The command\<close>

text \<open>What the command's own answers are: the store's queries on the database it reaches.\<close>

definition stuck_descriptions :: "db \<Rightarrow> serr + string list" where
  "stuck_descriptions d =
     (case StuckLeases d of
        Inl e \<Rightarrow> Inl e
      | Inr stuck \<Rightarrow> Inr (map (\<lambda>s. sa_TaskRef s @ '' ('' @ Status_string (sa_Status s) @ '')'') stuck))"

definition over_store :: "(serr \<Rightarrow> string) \<Rightarrow> db \<Rightarrow> deps \<Rightarrow> deps" where
  "over_store text_of_error d D =
     D\<lparr>dp_StuckTasks := (case stuck_descriptions d of Inl e \<Rightarrow> Inl (text_of_error e) | Inr ts \<Rightarrow> Inr ts),
       dp_InPlaceProjects := Inr (InPlaceProjects d), dp_ProjectPaths := Inr (ProjectPaths d)\<rparr>"

definition doctorMark :: "checkStatus \<Rightarrow> string" where
  "doctorMark s = (case s of StatusOK \<Rightarrow> ''ok  '' | StatusWarn \<Rightarrow> ''WARN'' | StatusFail \<Rightarrow> ''FAIL'' | StatusSkipped \<Rightarrow> ''skip'')"

definition doctor_lines :: "checkResult \<Rightarrow> string list" where
  "doctor_lines r =
     (doctorMark (cr_Status r) @ ''  '' @ cr_Name r @ replicate (11 - length (cr_Name r)) CHR 0x20 @ '' '' @ cr_Summary r)
       # (if cr_Fix r = [] then [] else [''      fix: '' @ cr_Fix r])"

text \<open>The lines printed and the error returned, which is the exit status.\<close>

definition runDoctor :: "deps \<Rightarrow> string list \<times> string option" where
  "runDoctor D =
     (let results = doctor_Run D; failed = length (filter (\<lambda>r. cr_Status r = StatusFail) results)
      in (concat (map doctor_lines results)
            @ [if failed > 0 then nat_dec failed @ '' check(s) failed.'' else ''aidev is ready.''],
          if failed > 0 then Some (''doctor: '' @ nat_dec failed @ '' check(s) failed'') else None))"

end
