(* ===== verification/DoctorGuarantees.thy ===== *)
theory DoctorGuarantees
  imports Doctor
begin

text \<open>
  What a person may conclude from \<open>aidev doctor\<close>: which machines it calls ready, that every check is reported with an
  advice exactly where one is needed, and what it can say about a Docker that its own question woke.
\<close>

section \<open>A machine that is ready\<close>

definition keys_present :: "deps \<Rightarrow> Config \<Rightarrow> bool" where
  "keys_present D c =
     list_all (\<lambda>(provider, variable). case dp_LookupEnv D variable of None \<Rightarrow> False | Some v \<Rightarrow> trim_space v \<noteq> [])
       (dp_walk D (cf_OpenCodeProviderKeyEnv c))"

definition agent_ready :: "deps \<Rightarrow> Config \<Rightarrow> bool" where
  "agent_ready D c =
     (if cf_AgentBackend c = BackendCodex then dp_LookPath D (cf_CodexCommand c) \<noteq> None
      else dp_LookPath D (cf_OpenCodeCommand c) \<noteq> None \<and> keys_present D c)"

text \<open>PostgreSQL answers one of the twenty pings after the first, and nobody cancelled before.\<close>

definition answers_from :: "deps \<Rightarrow> nat \<Rightarrow> bool" where
  "answers_from D n =
     list_ex (\<lambda>k. list_all (\<lambda>j. dp_cancelled D j = None) [n..<Suc k] \<and> dp_Ping D (Suc k) = None) [n..<20]"

definition woken_database :: "deps \<Rightarrow> bool" where
  "woken_database D =
     (dp_LookPath D ''docker'' \<noteq> None
      \<and> (case dp_Docker D of
            None \<Rightarrow> False
          | Some st \<Rightarrow> startedByProbe st \<and> (ds_Container st = ''running'' \<or> ds_Container st = ''restarting''))
      \<and> answers_from D 0)"

definition enough_space :: "deps \<Rightarrow> Config \<Rightarrow> bool" where
  "enough_space D c =
     (case dp_FreeSpace D of
        None \<Rightarrow> True
      | Some measure_space \<Rightarrow> (case measure_space (cf_WorkspaceRoot c) of Inl _ \<Rightarrow> True | Inr free \<Rightarrow> 1024 ^ 3 \<le> free))"

lemmas check_kinds = fine_def skipped_def warning_def failure_def

lemma answers_step:
  "answers_from D n = (n < 20 \<and> dp_cancelled D n = None \<and> (dp_Ping D (Suc n) = None \<or> answers_from D (Suc n)))"
proof (cases "n < 20")
  case True
  let ?P = "\<lambda>n k. list_all (\<lambda>j. dp_cancelled D j = None) [n..<Suc k] \<and> dp_Ping D (Suc k) = None"
  have later: "?P n k \<longleftrightarrow> dp_cancelled D n = None \<and> ?P (Suc n) k" if "Suc n \<le> k" for k
    using that by (simp add: upt_conv_Cons [of n "Suc k"] del: upt_Suc)
  have "answers_from D n = (?P n n \<or> list_ex (?P n) [Suc n..<20])"
    using True by (simp add: answers_from_def upt_conv_Cons)
  also have "list_ex (?P n) [Suc n..<20] = (dp_cancelled D n = None \<and> answers_from D (Suc n))"
    unfolding answers_from_def list_ex_iff using later by (auto simp del: upt_Suc)
  finally show ?thesis using True by auto
qed (simp add: answers_from_def)

lemma database_wait:
  "wait_for_database D n (Some e) = None \<longleftrightarrow> answers_from D n"
proof (induction "20 - n" arbitrary: n e)
  case 0
  then show ?case
    by (simp add: wait_for_database.simps answers_step [of D n] databaseWakePoll_def databaseWakeWait_def second_def)
next
  case (Suc m)
  then have "m = 20 - Suc n" "int n < 20" by auto
  with Suc.hyps(1) [of "Suc n"] show ?case
    by (subst wait_for_database.simps, subst answers_step)
      (auto simp: databaseWakePoll_def databaseWakeWait_def second_def split: option.splits)
qed

lemma waited: "waitForDatabase D = None \<longleftrightarrow> answers_from D 0"
  unfolding waitForDatabase_def
  by (subst wait_for_database.simps, subst answers_step)
    (auto simp: database_wait databaseWakePoll_def databaseWakeWait_def second_def split: option.splits)

lemma database_verdict:
  "snd (databaseResult D c) = (dp_Ping D 0 = None \<or> woken_database D)"
  "cr_Status (fst (databaseResult D c)) = StatusFail \<longleftrightarrow> \<not> snd (databaseResult D c)"
  by (auto simp: databaseResult_def woken_database_def waited check_kinds Let_def split: option.splits)

lemma missing_keys: "missingProviderKeys D (cf_OpenCodeProviderKeyEnv c) = [] \<longleftrightarrow> keys_present D c"
  by (fastforce simp: missingProviderKeys_def keys_present_def list_all_iff simp flip: set_empty split: option.splits prod.splits)

lemma verdicts:
  "cr_Status (gitResult D) = StatusFail \<longleftrightarrow> dp_LookPath D ''git'' = None"
  "cr_Status (agentResult D c) = StatusFail \<longleftrightarrow> \<not> agent_ready D c"
  "cr_Status (migrationsResult D c) = StatusOK \<longleftrightarrow> dp_PendingMigrations D = Inr []"
  "cr_Status (migrationsResult D c) = StatusFail \<longleftrightarrow> dp_PendingMigrations D \<noteq> Inr []"
  "cr_Status (stuckTasksResult D c) = StatusFail \<longleftrightarrow> (\<exists>e. dp_StuckTasks D = Inl e)"
  "cr_Status (verifyModeResult D c) \<noteq> StatusFail"
  "cr_Status (projectPathsResult D c) \<noteq> StatusFail"
  "cr_Status (workspaceResult D c) = StatusFail \<longleftrightarrow> dp_CheckWorkspace D (cf_WorkspaceRoot c) \<noteq> None"
  "cr_Status (diskResult D c) = StatusFail \<longleftrightarrow> \<not> enough_space D c"
  "cr_Status (serversResult D) \<noteq> StatusFail"
  subgoal by (simp add: gitResult_def check_kinds split: option.splits)
  subgoal by (simp add: agentResult_def agent_ready_def missing_keys providerKeyResult_def check_kinds Let_def split: option.splits)
  subgoal by (simp add: migrationsResult_def check_kinds split: sum.splits)
  subgoal by (simp add: migrationsResult_def check_kinds split: sum.splits)
  subgoal by (simp add: stuckTasksResult_def check_kinds split: sum.splits)
  subgoal by (simp add: verifyModeResult_def check_kinds Let_def split: sum.splits)
  subgoal by (simp add: projectPathsResult_def check_kinds Let_def split: sum.splits)
  subgoal by (simp add: workspaceResult_def check_kinds split: option.splits)
  subgoal by (simp add: diskResult_def enough_space_def no_disk_def diskFailBytes_def check_kinds not_le split: option.splits sum.splits probe_error.splits)
  subgoal by (simp add: serversResult_def no_servers_def check_kinds split: option.splits sum.splits probe_error.splits list.splits)
  done

lemma command_fails: "snd (runDoctor D) = None \<longleftrightarrow> \<not> doctor_Failed (doctor_Run D)"
  by (auto simp: runDoctor_def doctor_Failed_def Let_def filter_empty_conv)

text \<open>
  C20: \<open>aidev doctor\<close> succeeds exactly on a machine where aidev can work: the configuration loads, git and the agent's
  command are found and OpenCode has its provider keys, PostgreSQL answers at once or, where the check has just woken Docker,
  within twenty pings, every migration is applied, the leases can be read, the workspace is usable and a GiB of
  disk is free where that can be measured.
\<close>

theorem doctor_success_means_ready:
  "snd (runDoctor D) = None \<longleftrightarrow>
     (case dp_LoadConfig D of
        Inl e \<Rightarrow> False
      | Inr c \<Rightarrow>
          dp_LookPath D ''git'' \<noteq> None \<and> agent_ready D c
          \<and> (dp_Ping D 0 = None \<or> woken_database D)
          \<and> dp_PendingMigrations D = Inr [] \<and> (\<exists>stuck. dp_StuckTasks D = Inr stuck)
          \<and> dp_CheckWorkspace D (cf_WorkspaceRoot c) = None \<and> enough_space D c)"
proof (cases "dp_LoadConfig D")
  case (Inl e)
  then show ?thesis by (simp add: command_fails doctor_Failed_def doctor_Run_def check_kinds)
next
  case (Inr c)
  obtain db answered where db: "databaseResult D c = (db, answered)" by fastforce
  have "cr_Status db = StatusFail \<longleftrightarrow> \<not> answered" "answered = (dp_Ping D 0 = None \<or> woken_database D)"
    using database_verdict [of D c] by (simp_all add: db)
  moreover have "cr_Status (skipped n s) \<noteq> StatusFail" "cr_Status (fine n s) \<noteq> StatusFail" for n s
    by (simp_all add: check_kinds)
  moreover have "(\<exists>stuck. dp_StuckTasks D = Inr stuck) \<longleftrightarrow> \<not> (\<exists>e. dp_StuckTasks D = Inl e)"
    by (cases "dp_StuckTasks D") auto
  ultimately show ?thesis
    by (auto simp: command_fails doctor_Failed_def doctor_Run_def Inr db verdicts Let_def)
qed

section \<open>Every problem is explained\<close>

definition advised :: "checkResult \<Rightarrow> bool" where
  "advised r \<longleftrightarrow> (cr_Fix r \<noteq> [] \<longleftrightarrow> cr_Status r = StatusWarn \<or> cr_Status r = StatusFail)"

lemma advised_kinds:
  "advised (fine n s)" "advised (skipped n s)" "fix \<noteq> [] \<Longrightarrow> advised (warning n s fix)" "fix \<noteq> [] \<Longrightarrow> advised (failure n s fix)"
  by (simp_all add: advised_def check_kinds)

lemma advice_given:
  "run_setup_fix \<noteq> []" "start_at_boot \<noteq> []" "clean_advice \<noteq> []" "gone_advice \<noteq> []" "disk_fix \<noteq> []" "configuration_fix \<noteq> []"
  "daemon_down_fix \<noteq> []" "daemon_denied_fix \<noteq> []"
  by (simp_all add: run_setup_fix_def start_at_boot_def clean_advice_def gone_advice_def disk_fix_def configuration_fix_def
      daemon_down_fix_def daemon_denied_fix_def)

lemma docker_explains: "dockerFix st \<noteq> []"
  by (simp add: dockerFix_def with_boot_def advice_given)

lemma each_advised:
  "advised (gitResult D)" "advised (agentResult D c)" "advised (fst (databaseResult D c))" "advised (migrationsResult D c)"
  "advised (stuckTasksResult D c)" "advised (verifyModeResult D c)" "advised (projectPathsResult D c)"
  "advised (workspaceResult D c)" "advised (diskResult D c)" "advised (serversResult D)"
  by (auto simp: gitResult_def agentResult_def providerKeyResult_def databaseResult_def migrationsResult_def stuckTasksResult_def
      verifyModeResult_def projectPathsResult_def workspaceResult_def diskResult_def no_disk_def serversResult_def no_servers_def
      advice_given docker_explains Let_def
      split: option.splits sum.splits probe_error.splits list.splits intro!: advised_kinds)

lemma each_named:
  "cr_Name (gitResult D) = CheckGit" "cr_Name (agentResult D c) = CheckAgent" "cr_Name (fst (databaseResult D c)) = CheckDatabase"
  "cr_Name (migrationsResult D c) = CheckMigrations" "cr_Name (stuckTasksResult D c) = CheckStuckTasks"
  "cr_Name (verifyModeResult D c) = CheckVerifyMode" "cr_Name (projectPathsResult D c) = CheckProjectPaths"
  "cr_Name (workspaceResult D c) = CheckWorkspace" "cr_Name (diskResult D c) = CheckDisk" "cr_Name (serversResult D) = CheckServers"
  by (auto simp: gitResult_def agentResult_def providerKeyResult_def databaseResult_def migrationsResult_def stuckTasksResult_def
      verifyModeResult_def projectPathsResult_def workspaceResult_def diskResult_def no_disk_def serversResult_def no_servers_def
      check_kinds Let_def
      split: option.splits sum.splits probe_error.splits list.splits)

text \<open>
  Whatever the machine answers, \<open>aidev doctor\<close> reports each of its eleven checks once and in the same order, and a
  check comes with an advice exactly when it warns or fails.
\<close>

theorem doctor_explains_every_problem:
  "map cr_Name (doctor_Run D) =
       [CheckConfig, CheckGit, CheckAgent, CheckDatabase, CheckMigrations, CheckStuckTasks, CheckVerifyMode, CheckProjectPaths,
        CheckWorkspace, CheckDisk, CheckServers]
     \<and> list_all advised (doctor_Run D)"
proof (cases "dp_LoadConfig D")
  case (Inl e)
  have "advised (failure CheckConfig s configuration_fix)" for s by (intro advised_kinds advice_given)
  then show ?thesis using Inl
    by (simp add: doctor_Run_def each_named each_advised advised_kinds) (simp add: check_kinds)
next
  case (Inr c)
  have "cr_Name (skipped n s) = n" "cr_Name (fine n s) = n" for n s by (simp_all add: check_kinds)
  moreover obtain db answered where db: "databaseResult D c = (db, answered)" by fastforce
  moreover have "cr_Name db = CheckDatabase" "advised db"
    using each_named(3) [of D c] each_advised(3) [of D c] by (simp_all add: db)
  ultimately show ?thesis using Inr
    by (simp add: doctor_Run_def each_named each_advised advised_kinds Let_def)
qed

section \<open>A Docker woken by the question\<close>

text \<open>
  The units are read before the first docker command, so a service that was not active then is recognised as woken, whatever
  systemctl would say afterwards.
\<close>

lemma probe_sees_the_wake:
  assumes "D 0 [''info'', ''--format'', ''{{.ServerVersion}}''] = Inr version"
    and "units 0 ''is-active'' ''docker.service'' \<notin> {[], ''active''}"
  shows "startedByProbe (probeDocker D (Some units) container)"
  using assms by (simp add: startedByProbe_def probeDocker_def Let_def split: sum.splits)

end
