(* ===== verification/Render.thy ===== *)
theory Render
  imports Worker Views LogPages
begin

text \<open>
  What the commands print for a person (\<open>internal/cli/render.go\<close>), and the formats of \<open>fmt\<close> they use. Text is bytes;
  a field of a fixed width is filled up by characters.
\<close>

section \<open>Formats\<close>

text \<open>\<open>utf8.RuneCountInString\<close>: a byte that starts no character counts as one.\<close>

function rune_count :: "string \<Rightarrow> nat" where
  "rune_count [] = 0"
| "rune_count (c # s) = Suc (rune_count (drop (rune_size (c # s) - 1) s))"
  by pat_completeness auto
termination by (relation "measure length") auto

text \<open>\<open>%-12s\<close>.\<close>

definition left_in :: "nat \<Rightarrow> string \<Rightarrow> string" where
  "left_in width s = s @ replicate (width - rune_count s) CHR 0x20"

definition nl_char :: char where "nl_char = CHR 10"

definition line :: "string \<Rightarrow> string" where
  "line s = s @ [nl_char]"

definition when_line :: "bool \<Rightarrow> string \<Rightarrow> string" where
  "when_line b s = (if b then line s else [])"

text \<open>\<open>Duration.Round\<close>: half away from zero. The values here are far from the ends of 64 bits.\<close>

definition rounded :: "duration \<Rightarrow> duration \<Rightarrow> duration" where
  "rounded m d =
     (let r = \<bar>d\<bar> mod m; up = (if r + r < m then \<bar>d\<bar> - r else \<bar>d\<bar> + m - r) in if d < 0 then - up else up)"

text \<open>\<open>Duration.String\<close>.\<close>

definition fraction :: "nat \<Rightarrow> int \<Rightarrow> string" where
  "fraction digits n =
     (let f = rev (dropWhile (\<lambda>c. c = CHR ''0'') (rev (padded digits n))) in if f = [] then [] else CHR ''.'' # f)"

definition duration_string :: "duration \<Rightarrow> string" where
  "duration_string d =
     (let u = \<bar>d\<bar>; s = u div 1000000000;
          text = (if u = 0 then ''0s''
                  else if u < 1000 then int_dec u @ ''ns''
                  else if u < 1000000 then int_dec (u div 1000) @ fraction 3 (u mod 1000) @ [CHR 0xC2, CHR 0xB5] @ ''s''
                  else if u < 1000000000 then int_dec (u div 1000000) @ fraction 6 (u mod 1000000) @ ''ms''
                  else (if s div 3600 > 0 then int_dec (s div 3600) @ ''h'' else [])
                     @ (if s div 60 > 0 then int_dec (s div 60 mod 60) @ ''m'' else [])
                     @ int_dec (s mod 60) @ fraction 9 (u mod 1000000000) @ ''s'')
      in if d < 0 then CHR ''-'' # text else text)"

definition arrow :: string where "arrow = [CHR 0xE2, CHR 0x86, CHR 0x92]"

definition truncate_text :: "string \<Rightarrow> nat \<Rightarrow> string" where
  "truncate_text s n = (if length s \<le> n then s else take (n - 1) s @ Views.ellipsis)"

definition tail_text :: "string \<Rightarrow> nat \<Rightarrow> string" where
  "tail_text s n = (if length s \<le> n then s else Views.ellipsis @ drop (length s - n) s)"

definition indent :: "string \<Rightarrow> string \<Rightarrow> string" where
  "indent s lead = join_with [nl_char] (map (\<lambda>l. lead @ l) (split_on nl_char (rev (dropWhile (\<lambda>c. c = nl_char) (rev s)))))"

definition oneLine :: "string \<Rightarrow> string" where
  "oneLine s = join_with '' '' (go_fields s)"

definition shortCommit :: "string \<Rightarrow> string" where
  "shortCommit c = take 10 c"

definition agentLabel :: "WorkerRun \<Rightarrow> string" where
  "agentLabel r = (if r_AgentVersion r = [] then r_Backend r else r_Backend r @ CHR 0x20 # r_AgentVersion r)"

section \<open>Tasks\<close>

definition apply_marker :: "Apply \<Rightarrow> string" where
  "apply_marker a =
     (case ay_State a of
        ApplyApplied \<Rightarrow> ''  [applied '' @ arrow @ CHR 0x20 # ay_Into a @ '']''
      | ApplyUndone \<Rightarrow> ''  [undone]''
      | ApplyLanded \<Rightarrow> ''  [landed in '' @ ay_Into a @ '']''
      | _ \<Rightarrow> [])"

definition writeTaskLine :: "Task \<Rightarrow> string \<Rightarrow> Apply \<Rightarrow> string" where
  "writeTaskLine t repoPath a =
     line (left_in 12 (t_Ref t) @ ''  '' @ left_in 16 (Status_string (t_Status t)) @ ''  '' @ left_in 6 (t_Agent t) @ ''  ''
       @ left_in 20 (path_base repoPath) @ apply_marker a @ ''  '' @ truncate_text (t_Title t) 60)"

definition writeApplyLine :: "Apply \<Rightarrow> string" where
  "writeApplyLine a =
     (case ay_State a of
        ApplyApplied \<Rightarrow> line (''  apply        applied to '' @ ay_Into a @ '' ('' @ shortCommit (ay_Commit a) @ '')'')
      | ApplyUndone \<Rightarrow> line (''  apply        undone (reverted on '' @ ay_Into a @ '' as '' @ shortCommit (ay_Commit a) @ '')'')
      | ApplyLanded \<Rightarrow> line (''  apply        landed in '' @ ay_Into a @ '' (taken with git, not aidev task apply)'')
      | _ \<Rightarrow> [])"

definition writeTaskDetail :: "Task \<Rightarrow> Apply \<Rightarrow> string" where
  "writeTaskDetail t a =
     line (t_Ref t @ ''  '' @ t_Title t)
     @ line (''  status       '' @ Status_string (t_Status t))
     @ line (''  agent        '' @ t_Agent t)
     @ when_line (t_Model t \<noteq> []) (''  model        '' @ t_Model t)
     @ (case t_Hardness t of None \<Rightarrow> [] | Some h \<Rightarrow> line (''  hardness     '' @ Hardness_string h))
     @ line (''  priority     '' @ int_dec (t_Priority t))
     @ when_line (t_RequiresApproval t) ''  approval     required''
     @ when_line (t_ExpectFailOnBase t) ''  base check   must fail before the agent runs''
     @ when_line (t_BaseRef t \<noteq> []) (''  base ref     '' @ t_BaseRef t)
     @ when_line (t_BaseCommitAtCreate t \<noteq> []) (''  base commit  '' @ shortCommit (t_BaseCommitAtCreate t) @ '' (when created)'')
     @ when_line (t_Timeout t > 0) (''  timeout      '' @ duration_string (t_Timeout t))
     @ line (''  verify mode  '' @ VerificationMode_string (t_VerificationMode t))
     @ line (''  id           '' @ uuid_string (t_ID t))
     @ line (''  created      '' @ rfc3339 (t_CreatedAt t))
     @ writeApplyLine a
     @ (if t_Description t = [] then [] else line [] @ line ''  description'' @ line (indent (t_Description t) ''    ''))
     @ (if t_AcceptanceCriteria t = [] then []
        else line [] @ line ''  acceptance criteria'' @ line (indent (t_AcceptanceCriteria t) ''    ''))
     @ (if t_SetupSteps t = [] then []
        else line [] @ line ''  setup (runs before verification)'' @ concat (map (\<lambda>s. line (''    '' @ Step_String s)) (t_SetupSteps t)))
     @ line [] @ line ''  verification (run by aidev, not by the agent)''
     @ concat (map (\<lambda>s. line (''    '' @ Step_String s)) (t_Verification t))"

section \<open>Outcomes\<close>

definition failure_suffix :: "FailureKind \<Rightarrow> string" where
  "failure_suffix k = (if k = FailureNone then [] else '' ('' @ FailureKind_string k @ '')'')"

definition step_mark :: "VerificationStatus \<Rightarrow> string" where
  "step_mark s = (case s of VerificationPassed \<Rightarrow> [CHR 0xE2, CHR 0x9C, CHR 0x93] | VerificationSkipped \<Rightarrow> ''-'' | _ \<Rightarrow> [CHR 0xE2, CHR 0x9C, CHR 0x97])"

definition failed_output :: "string \<Rightarrow> string" where
  "failed_output s = (if trim_space s = [] then [] else line (indent (tail_text (trim_space s) 1200) ''      ''))"

definition step_row :: "VerificationRun \<Rightarrow> string" where
  "step_row r =
     line (''  '' @ step_mark (v_Status r) @ CHR 0x20 # left_in 9 (VerificationStatus_string (v_Status r)) @ CHR 0x20 # v_Command r
       @ (case v_ExitCode r of Some c \<Rightarrow> if v_Status r \<noteq> VerificationPassed then ''  (exit '' @ int_dec c @ '')'' else [] | None \<Rightarrow> []))
     @ (if v_Status r \<noteq> VerificationPassed \<and> v_Status r \<noteq> VerificationSkipped
        then failed_output (v_Stdout r) @ failed_output (v_Stderr r) else [])"

definition writeVerificationTable :: "VerificationRun list \<Rightarrow> string" where
  "writeVerificationTable rs =
     (if rs = [] then [] else line [] @ line ''verification (run by aidev)'' @ concat (map step_row rs))"

definition writeBaseMoved :: "Outcome \<Rightarrow> string" where
  "writeBaseMoved out =
     (let created = t_BaseCommitAtCreate (o_Task out)
      in case o_Worktree out of
           None \<Rightarrow> []
         | Some w \<Rightarrow>
             if created = [] \<or> w_BaseCommit w = [] \<or> w_BaseCommit w = created then []
             else line (''  base moved  '' @ shortCommit created @ '' when created, '' @ shortCommit (w_BaseCommit w) @ '' when run''))"

definition baseBranchGuess :: "Outcome \<Rightarrow> string" where
  "baseBranchGuess out = (if t_BaseRef (o_Task out) \<noteq> [] then t_BaseRef (o_Task out) else ''HEAD'')"

definition kept_work :: "Worktree \<Rightarrow> string" where
  "kept_work w =
     line [] @ line ''the work was kept for inspection'' @ line (''  cd '' @ w_Path w)
     @ when_line (w_HeadCommit w = [] \<or> w_HeadCommit w = w_BaseCommit w)
         (''  the agent'' @ CHR 0x27 # ''s changes are there, uncommitted: aidev commits the work only once it passes verification'')"

definition writeNextSteps :: "Outcome \<Rightarrow> string" where
  "writeNextSteps out =
     (let t = o_Task out
      in if t_Status t = StatusSucceeded then
           (case o_Worktree out of
              None \<Rightarrow> []
            | Some w \<Rightarrow> line [] @ line ''review the work'' @ line (''  git log --oneline '' @ w_Branch w)
                       @ line (''  git diff '' @ baseBranchGuess out @ ''..'' @ w_Branch w))
         else if t_Status t = StatusFailed \<or> t_Status t = StatusCancelled then
           (case o_Worktree out of None \<Rightarrow> [] | Some w \<Rightarrow> if w_Status w = WorktreeRetained then kept_work w else [])
           @ line [] @ line (''full output: aidev task result '' @ Identifier t @ '' --logs'')
         else if t_Status t = StatusWaitingApproval then line [] @ line (''approve it: aidev task approve '' @ Identifier t)
         else [])"

definition run_agent_lines :: "time \<Rightarrow> Outcome \<Rightarrow> WorkerRun \<Rightarrow> string" where
  "run_agent_lines now out r =
     line [] @ line (''agent ('' @ agentLabel r @ '')'')
     @ when_line (r_Model r \<noteq> []) (''  model         '' @ r_Model r)
     @ line (''  outcome       '' @ WorkerRunStatus_string (r_Status r) @ failure_suffix (r_FailureKind r))
     @ line (''  changed files '' @ nat_dec (r_ChangedFiles r))
     @ when_line (o_TestsModified out \<noteq> []) (''  tests changed '' @ join_with '', '' (o_TestsModified out))
     @ line (''  took          '' @ duration_string (rounded second (WorkerRun_Duration now r)))
     @ when_line (r_Summary r \<noteq> []) (''  says          '' @ truncate_text (oneLine (r_Summary r)) 140)"

text \<open>The message of the outcome is the first argument.\<close>

definition writeRunOutcome :: "string \<Rightarrow> time \<Rightarrow> Outcome \<Rightarrow> VerificationRun list \<Rightarrow> string" where
  "writeRunOutcome message now out rs =
     line [] @ line message
     @ (case o_WorkerRun out of None \<Rightarrow> [] | Some r \<Rightarrow> run_agent_lines now out r)
     @ writeVerificationTable rs
     @ (case o_Worktree out of
          None \<Rightarrow> []
        | Some w \<Rightarrow> line [] @ line ''worktree'' @ line (''  '' @ WorktreeStatus_string (w_Status w) @ ''  '' @ w_Path w)
                   @ line (''  branch  '' @ w_Branch w) @ writeBaseMoved out)
     @ writeNextSteps out"

definition range_text :: "LineRange \<Rightarrow> string" where
  "range_text r = (if fst r = snd r then int_dec (fst r) else int_dec (fst r) @ ''-'' @ int_dec (snd r))"

definition writeCoverage :: "coverageResult option \<Rightarrow> string" where
  "writeCoverage result =
     (case result of
        None \<Rightarrow> []
      | Some c \<Rightarrow>
          if cr_Error c \<noteq> [] then line [] @ line (''coverage could not be measured: '' @ cr_Error c)
          else if rp_Changed c = 0 then line [] @ line ''coverage: no changed Go line is executable code''
          else line []
            @ line (''coverage of the changed Go lines: '' @ int_dec (int (rp_Changed c) - int (rp_NotRun c)) @ '' of ''
                      @ nat_dec (rp_Changed c) @ '' run by the tests'')
            @ (if rp_NotRun c = 0 then []
               else line ''  not run by the tests:''
                 @ concat (map (\<lambda>f. line (''    '' @ fl_Path f @ CHR 0x20 # join_with '', '' (map range_text (fl_NotRunLines f))))
                     (filter (\<lambda>f. fl_NotRun f \<noteq> 0) (rp_Files c)))))"

definition earlier_line :: "TaskAttempt \<Rightarrow> string" where
  "earlier_line e =
     line (''  attempt '' @ nat_dec (a_AttemptNumber e) @ ''  '' @ AttemptStatus_string (a_Status e) @ failure_suffix (a_FailureKind e)
       @ (if a_Error e = [] then [] else ''  '' @ truncate_text (oneLine (a_Error e)) 100))"

definition result_agent_lines :: "Outcome \<Rightarrow> WorkerRun \<Rightarrow> string" where
  "result_agent_lines out r =
     line [] @ line (''agent ('' @ agentLabel r @ '')  '' @ WorkerRunStatus_string (r_Status r) @ ''  '' @ nat_dec (r_ChangedFiles r) @ '' file(s) changed'')
     @ when_line (r_Model r \<noteq> []) (''  model  '' @ r_Model r)
     @ when_line (o_TestsModified out \<noteq> []) (''  tests  '' @ join_with '', '' (o_TestsModified out))
     @ when_line (r_Summary r \<noteq> []) (''  says  '' @ truncate_text (oneLine (r_Summary r)) 140)
     @ when_line (r_SessionID r \<noteq> []) (''  session  '' @ r_SessionID r)
     @ when_line (r_LogsPruned r) ''  logs  pruned''"

definition writeResult ::
    "time \<Rightarrow> Outcome \<Rightarrow> coverageResult option \<Rightarrow> VerificationRun list \<Rightarrow> TaskAttempt list \<Rightarrow> Apply \<Rightarrow> string" where
  "writeResult now out cov rs earlier a =
     (let t = o_Task out in
      line (t_Ref t @ ''  '' @ t_Title t) @ line (''  status  '' @ Status_string (t_Status t)) @ writeApplyLine a
      @ (case o_Attempt out of
           None \<Rightarrow>
             line [] @ line (''This task has not run yet. Run it with: aidev task run '' @ Identifier t)
             @ (case o_Approval out of
                  Some p \<Rightarrow> when_line (ap_Status p = ApprovalPending) (''It is waiting for approval: aidev task approve '' @ Identifier t)
                | None \<Rightarrow> [])
         | Some att \<Rightarrow>
             line [] @ line (''attempt '' @ nat_dec (a_AttemptNumber att) @ ''  '' @ AttemptStatus_string (a_Status att)
                               @ failure_suffix (a_FailureKind att) @ ''  took '' @ duration_string (rounded second (Attempt_Duration now att)))
             @ when_line (a_Error att \<noteq> []) (''  '' @ oneLine (a_Error att))
             @ (if earlier = [] then [] else line [] @ line ''earlier attempts'' @ concat (map earlier_line earlier))
             @ (case o_WorkerRun out of None \<Rightarrow> [] | Some r \<Rightarrow> result_agent_lines out r)
             @ writeVerificationTable rs
             @ (case o_Worktree out of
                  None \<Rightarrow> []
                | Some w \<Rightarrow> line [] @ line (''worktree  '' @ WorktreeStatus_string (w_Status w) @ ''  '' @ w_Path w)
                           @ line (''  branch  '' @ w_Branch w @ (if w_HeadCommit w = [] then [] else '' @ '' @ shortCommit (w_HeadCommit w)))
                           @ writeBaseMoved out)
             @ writeCoverage cov
             @ writeNextSteps out))"

definition writeLogs :: "string \<Rightarrow> string \<Rightarrow> string \<Rightarrow> string" where
  "writeLogs stdout stderr changes =
     (if trim_space stdout = [] then [] else line [] @ line ''--- agent stdout ---'' @ line stdout)
     @ (if trim_space stderr = [] then [] else line [] @ line ''--- agent stderr ---'' @ line stderr)
     @ (if trim_space changes = [] then [] else line [] @ line ''--- diff collected by aidev ---'' @ line changes)"

section \<open>A listing stays one line a task\<close>

lemma length_truncate: "length (truncate_text s n) \<le> n + 3"
  by (auto simp: truncate_text_def Views.ellipsis_def)

text \<open>A cut title may end inside a character: what is printed then is no text in UTF-8.\<close>

lemma truncated_inside_a_character:
  "truncate_text (replicate 58 CHR ''a'' @ [CHR 0xC3, CHR 0xA9] @ ''bc'') 60 = replicate 58 CHR ''a'' @ CHR 0xC3 # Views.ellipsis"
  by (simp add: truncate_text_def)

end
