(* ===== verification/Spec2Isabelle.thy ===== *)
theory Spec2Isabelle
  imports RunWitness RunProtection Checks ApplyGuarantees AgentGuarantees ConfigGuarantees RedactGuarantees Migrations
    McpGuarantees McpConnection FlagGuarantees SetupGuarantees DoctorGuarantees Render
begin

text \<open>
  Verification of aidev, the Go program under \<open>src/\<close> that runs coding agents on tasks: a task is stored
  in PostgreSQL, a worker claims it under a lease, gives the agent a git worktree of its own, checks what
  the agent left behind, runs the task's verification commands itself, and records the outcome; a
  verified result can be applied to a branch and taken back.

  \<^bold>\<open>The parts and how they fit.\<close>
  The vocabulary and the records of a task are used by everything. The store offers statements on
  tables; transactions are built from them. The worker runs a task through transactions, git commands, the
  agent backend and the verifier. The commands create, approve, cancel, recover, apply and undo from
  outside a run, while other processes go on. Configuration decides what the backends and the
  worker are given, and the coverage report describes a verified change.

  \<^bold>\<open>What models what\<close> (paths below \<open>src/internal\<close>).
  \<^item> \<open>Prelude\<close>, \<open>GoStrings\<close>, \<open>TextLemmas\<close>: collections of facts, the interface \<open>effect_order\<close> of relations a
    program of the state monad moves along, Go's \<open>strings\<close>, \<open>strconv\<close> and \<open>path\<close> functions over byte strings.
  \<^item> \<open>Vocabulary\<close>, \<open>Steps\<close>, \<open>TaskModel\<close>: \<open>task/\<close>. The constants with their parsers (interface \<open>vocabulary\<close>), the
    transition table, the parser and printer of verification steps, all records, \<open>New\<close> with its problem list.
  \<^item> \<open>Store\<close>, \<open>EventLog\<close>: \<open>store/\<close> and \<open>event/\<close>. A database is a record of tables in insertion order; each Go method is a
    function from a database to an error or a result and a database, with the constraints, the trigger and
    the locking it relies on. Listing, lookups by reference, pruning and deletion are included.
  \<^item> \<open>Migrations\<close>: \<open>store/migrate.go\<close>, over any meaning of the SQL a migration holds.
  \<^item> \<open>Lifecycle\<close>: the transactions of \<open>worker/\<close> that move a task, as functions of the database.
    \<open>TaskMachine\<close> is the abstract specification, a step relation on one task; \<open>Refinement\<close>, \<open>Simulation\<close> and \<open>Guarantees\<close>
    show that any interleaving of transactions implements it and read its invariants off the tables.
    \<open>Demo\<close> evaluates one life of a task.
  \<^item> \<open>Procexec\<close>: \<open>procexec/procexec.go\<close>, the bounded buffer, the environment and the outcome of a process.
  \<^item> \<open>Verify\<close>, \<open>Interception\<close>, \<open>Protected\<close>: \<open>verification/\<close>. The step runner, which changed paths a step would load
    (\<open>runners.go\<close>, \<open>interception.go\<close>, \<open>testpaths.go\<close>), protected patterns. \<open>path_selector\<close> is their common interface.
  \<^item> \<open>GitShared\<close>, \<open>GitOps\<close>: \<open>git/\<close>. Parsing of what git prints, snapshots of the shared state and their comparison,
    and every operation as the commands it issues and what it makes of the answers.
  \<^item> \<open>World\<close>, \<open>Worker\<close>: \<open>worker/run.go\<close>, \<open>record.go\<close>, \<open>retry.go\<close>, \<open>lease.go\<close>. A run is a program over a state
    with the fields of the Go struct \<open>run\<close>, the shared database and the log of git commands.
    \<open>GitEffects\<close>, \<open>RunRules\<close>, \<open>RunEffects\<close>, \<open>RunSafety\<close>, \<open>RunLoop\<close>, \<open>RunAttempts\<close>, \<open>RunOutcome\<close>, \<open>RunBounds\<close>,
    \<open>RunGuarantees\<close> and \<open>RunProtection\<close> prove its guarantees, through the interface \<open>act_order\<close>; \<open>RunDemo\<close>,
    \<open>RunEval\<close> and \<open>RunWitness\<close> evaluate concrete runs.
  \<^item> \<open>Commands\<close>, \<open>Creation\<close>, \<open>Applying\<close>: \<open>worker/cancel.go\<close>, \<open>worker.go\<close>, \<open>create.go\<close>, \<open>apply.go\<close>, \<open>landed.go\<close>; proved in
    \<open>CommandEffects\<close>, \<open>CommandGuarantees\<close> and \<open>ApplyGuarantees\<close>.
  \<^item> \<open>Transcript\<close>, \<open>OpenCode\<close>, \<open>Codex\<close>: \<open>agent/\<close>. The event streams, the command line, configuration, environment and
    sandbox of a run, and what is concluded from it; proved in \<open>AgentGuarantees\<close>.
  \<^item> \<open>Coverage\<close>, \<open>Config\<close>, \<open>Redact\<close>: \<open>coverage/\<close> and \<open>config/\<close>, proved in the theories named after them.
  \<^item> \<open>Views\<close>, \<open>LogPages\<close>, \<open>Mcp\<close>, \<open>McpConnection\<close>: \<open>view/\<close> and \<open>mcp/\<close>. The records callers are shown, the paging of
    logs, every tool of the server as a function of what the server knows and the world, and the
    connection its calls share as a step relation; \<open>McpGuarantees\<close> proves what holds of any sequence of calls through the
    interface \<open>tool_effects\<close>.
  \<^item> \<open>Setup\<close>, \<open>Doctor\<close>: \<open>setup/\<close> and \<open>doctor/\<close> with the parts of \<open>cli/\<close> around them. The docker commands a setup issues as a list
    that grows, conf.json as a file other processes may write, each check of the doctor as a function of the
    answers of the machine; proved in \<open>SetupGuarantees\<close> and \<open>DoctorGuarantees\<close>.
  \<^item> \<open>Flags\<close>, \<open>Render\<close>: the parser of the command line with what it uses of Go's \<open>flag\<close> (\<open>cli/task.go\<close>; proved in \<open>FlagGuarantees\<close>), and
    what the commands print (\<open>cli/render.go\<close>).
  \<^item> \<open>Checks\<close>: what the components promise by themselves.

  \<^bold>\<open>What the theorems show.\<close>
  About tasks: status, attempts and history agree in every reachable database, ended tasks stay ended,
  attempts keep to the allowance. About a run: it moves the database only by the system's transactions, ends
  within its allowance, reports success only for a verified result that touched nothing protected, and moves no
  branch after it lost its lease. About the commands: any sequence of them keeps to the transactions,
  a cancel that returns ended the task, an apply that returns is recorded, and a planner without the right
  to approve releases nothing. About the parts: bounds
  of captured output, exactness of interception and coverage, pages of logs that fit together, round trips of what is printed and read back,
  secrets hidden by redaction, well-formedness of a loaded configuration, a confined agent, a setup that hides no data,
  a doctor whose verdict is exact. Several
  theorems state where the program does not do what it means to.

  \<^bold>\<open>Parameters.\<close>
  What is not code of the repository is an argument. \<open>env\<close> answers a run, question by question: what other processes
  commit in between (any sequence of transactions), whether a statement reaches the database, the context's state,
  the output of git, the agent, a check. \<open>machine\<close> answers for processes and clocks, \<open>backend\<close> and \<open>host\<close> for agent
  processes and files, \<open>decoder\<close> and \<open>scanSetup\<close> for \<open>encoding/json\<close>, \<open>measurer\<close> for the Go tools, \<open>loader\<close> for files,
  environment variables, JSON and connection strings, \<open>files\<close> for the embedded migrations, \<open>tools\<close> for what the MCP server starts and
  waits for. Theorems hold for every value of them
  unless they name a hypothesis, and each hypothesis has a witness. \<open>docker\<close>, \<open>filesystem\<close>, \<open>waiting\<close> and \<open>deps\<close> answer for the machine
  setup and doctor look at.

  \<^bold>\<open>Bounds and fuel.\<close>
  The loop over attempts takes fuel; \<open>enough_fuel\<close> is one round for each allowed attempt, and it is proved never
  to be spent. The wait for a runner counts rounds of its poll interval and is proved to end one round after
  its limit. The wait for PostgreSQL counts its rounds, and a number of them is given that is never spent (\<open>setup_wait_ends\<close>). All other loops are structural or have a measure. Go's \<open>int\<close> and \<open>int64\<close> are HOL integers where the
  code only counts or compares within lengths it holds in memory; parsing of decimal numbers keeps the 64-bit range.

  \<^bold>\<open>Not modelled.\<close>
  Log lines, trace spans and their exporters; operating system calls for processes and groups (\<open>procexec/*_unix.go\<close> and the like);
  the bodies of the commands of the command line, which call the operations above; the transport and the tool descriptions of the MCP server; the scripted test backend; the prompt's
  template; connection pooling and row scanning. Rows of other tasks may change during a run by
  the transactions, not by \<open>aidev delete\<close>. Texts of messages are kept where the code
  decides by them or they carry what a property is about. Durations are whole nanoseconds, and a fraction in
  a duration setting is exact where Go rounds.
\<close>

end
